(* ===== verification/Prelude.thy ===== *)
theory Prelude
  imports Main "HOL-Library.Word" "HOL-Library.AList"
begin

text \<open>
  Shared ground of the development: the machine integers of the Rust sources, little-endian
  byte encodings, the standard library's hash map and bounded channel sender, and the generic
  lemmas and theorem collections that the component theories use.
\<close>

unbundle bit_operations_syntax

type_synonym byte = "8 word"
type_synonym bytes = "byte list"
type_synonym u8 = "8 word"
type_synonym u32 = "32 word"
type_synonym u64 = "64 word"
type_synonym i32 = "32 word"
type_synonym i64 = "64 word"

named_theorems bytes_simps "lengths and splitting of byte encodings"
named_theorems hm_simps "laws of the hash map"

subsection \<open>Integer operations of the Rust standard library\<close>

definition saturating_add :: "'a::len word \<Rightarrow> 'a word \<Rightarrow> 'a word" where
  "saturating_add a b = (if unat a + unat b < 2 ^ LENGTH('a) then a + b else - 1)"

definition saturating_sub :: "'a::len word \<Rightarrow> 'a word \<Rightarrow> 'a word" where
  "saturating_sub a b = (if b \<le> a then a - b else 0)"

text \<open>
  The plain \<open>+\<close> on an unsigned integer panics on overflow when the build has overflow checks
  (a debug build) and wraps when it has none (a release build). The flag is the first argument;
  \<open>None\<close> is the panic.
\<close>

definition plus_chk :: "bool \<Rightarrow> 'a::len word \<Rightarrow> 'a word \<Rightarrow> 'a word option" where
  "plus_chk chk a b = (if chk \<and> 2 ^ LENGTH('a) \<le> unat a + unat b then None else Some (a + b))"

lemma unat_plus_no_overflow:
  "unat a + unat b < 2 ^ LENGTH('a) \<Longrightarrow> unat (a + b) = unat a + unat (b :: 'a::len word)"
  by (rule unat_add_lem [THEN iffD1])

lemma unat_minus_one_word_max: "unat (- 1 :: 'a::len word) = 2 ^ LENGTH('a) - 1"
  by (simp add: unsigned_minus_1_eq_mask mask_eq_exp_minus_1)

lemma unat_saturating_add:
  "unat (saturating_add a b) = min (unat a + unat b) (2 ^ LENGTH('a) - 1)" for a b :: "'a::len word"
proof (cases "unat a + unat b < 2 ^ LENGTH('a)")
  case True
  then show ?thesis
    by (simp add: saturating_add_def unat_plus_no_overflow)
next
  case False
  then show ?thesis
    by (simp add: saturating_add_def unat_minus_one_word_max)
qed

lemma unat_saturating_sub: "unat (saturating_sub a b) = unat a - unat b"
  by (auto simp: saturating_sub_def unat_sub word_le_nat_alt)

lemma unat_le_max: "unat (a :: 'a::len word) \<le> 2 ^ LENGTH('a) - 1"
  by (metis One_nat_def Suc_pred less_Suc_eq_le unsigned_less zero_less_numeral zero_less_power)

lemma saturating_add_ge: "a \<le> saturating_add a b"
  using unat_le_max [of a] by (simp add: word_le_nat_alt unat_saturating_add)

lemma saturating_sub_le: "saturating_sub a b \<le> a"
  by (simp add: word_le_nat_alt unat_saturating_sub)

lemma plus_chk_checked:
  "plus_chk True a b = Some c \<Longrightarrow> unat c = unat a + unat b"
  by (auto simp: plus_chk_def not_le unat_plus_no_overflow split: if_splits)

lemma plus_chk_None_iff:
  "plus_chk chk a b = None \<longleftrightarrow> chk \<and> 2 ^ LENGTH('a) \<le> unat a + unat (b :: 'a::len word)"
  by (simp add: plus_chk_def)

lemma plus_chk_Some_word: "plus_chk chk a b = Some c \<Longrightarrow> c = a + b"
  by (auto simp: plus_chk_def split: if_splits)

subsection \<open>Little-endian byte encodings\<close>

primrec le_bytes :: "nat \<Rightarrow> 'a::len word \<Rightarrow> bytes" where
  "le_bytes 0 w = []"
| "le_bytes (Suc n) w = ucast w # le_bytes n (drop_bit 8 w)"

primrec from_le :: "bytes \<Rightarrow> 'a::len word" where
  "from_le [] = 0"
| "from_le (b # bs) = ucast b OR push_bit 8 (from_le bs)"

lemma length_le_bytes [simp, bytes_simps]: "length (le_bytes n w) = n"
  by (induction n arbitrary: w) simp_all

lemma from_le_le_bytes: "from_le (le_bytes n w) = take_bit (8 * n) w"
proof (induction n arbitrary: w)
  case 0
  then show ?case by simp
next
  case (Suc n)
  show ?case
    by (rule bit_word_eqI)
      (auto simp: Suc.IH bit_simps not_le ac_simps le_diff_conv)
qed

lemma le_bytes_from_le:
  "length bs = n \<Longrightarrow> 8 * n \<le> LENGTH('a::len) \<Longrightarrow> le_bytes n (from_le bs :: 'a word) = bs"
proof (induction n arbitrary: bs)
  case 0
  then show ?case by simp
next
  case (Suc n)
  then obtain b bs' where bs: "bs = b # bs'" "length bs' = n"
    by (cases bs) auto
  let ?w = "from_le bs' :: 'a word"
  have head: "ucast (ucast b OR push_bit 8 ?w) = b"
    using Suc.prems(2) by (intro bit_word_eqI) (auto simp: bit_simps)
  have small: "take_bit (8 * n) ?w = ?w"
    by (metis Suc.IH Suc.prems(2) add_leD2 bs(2) from_le_le_bytes mult_Suc_right)
  have "bit (drop_bit 8 (ucast b OR push_bit 8 ?w)) k = bit ?w k" if "k < LENGTH('a)" for k
  proof -
    have "bit ?w k \<Longrightarrow> k < 8 * n"
      using small by (metis bit_take_bit_iff)
    then show ?thesis
      using Suc.prems(2) that by (auto simp: bit_simps dest: bit_imp_le_length)
  qed
  then have tail: "drop_bit 8 (ucast b OR push_bit 8 ?w) = ?w"
    by (rule bit_word_eqI)
  have "le_bytes n ?w = bs'"
    using Suc.IH [of bs'] Suc.prems(2) bs(2) by simp
  then show ?case
    by (simp only: bs(1) from_le.simps le_bytes.simps head tail)
qed

text \<open>A field of fixed width: what the wire format promises of each of its integers.\<close>

locale fixed_width =
  fixes put :: "'v \<Rightarrow> bytes" and get :: "bytes \<Rightarrow> 'v" and width :: nat
  assumes length_put: "length (put v) = width"
    and get_put: "get (put v) = v"
    and put_get: "length bs = width \<Longrightarrow> put (get bs) = bs"
begin

lemma take_put: "take width (put v @ rest) = put v"
  by (simp add: length_put)

lemma drop_put: "drop width (put v @ rest) = rest"
  by (simp add: length_put)

lemma put_inject: "put v = put v' \<longleftrightarrow> v = v'"
  by (metis get_put)

lemma append_put_eq: "put v @ xs = put v' @ ys \<longleftrightarrow> v = v' \<and> xs = ys"
  by (metis append_eq_append_conv length_put put_inject)

lemma get_take: "get (take width (put v @ rest)) = v"
  by (simp only: take_put get_put)

end

interpretation le32: fixed_width "le_bytes 4 :: u32 \<Rightarrow> bytes" "from_le :: bytes \<Rightarrow> u32" 4
  by unfold_locales (simp_all add: from_le_le_bytes le_bytes_from_le take_bit_word_eq_self)

interpretation le64: fixed_width "le_bytes 8 :: u64 \<Rightarrow> bytes" "from_le :: bytes \<Rightarrow> u64" 8
  by unfold_locales (simp_all add: from_le_le_bytes le_bytes_from_le take_bit_word_eq_self)


subsection \<open>Hash maps\<close>

text \<open>
  A \<open>HashMap\<close> of the sources is an association list with distinct keys. The order of the
  list stands for the iteration order of the table, which the library does not specify; the
  theorems hold for every order.
\<close>

type_synonym ('k, 'v) hmap = "('k \<times> 'v) list"

definition hm_get :: "('k, 'v) hmap \<Rightarrow> 'k \<Rightarrow> 'v option" where
  "hm_get m k = map_of m k"

definition hm_insert :: "'k \<Rightarrow> 'v \<Rightarrow> ('k, 'v) hmap \<Rightarrow> ('k, 'v) hmap" where
  "hm_insert k v m = AList.update k v m"

definition hm_remove :: "'k \<Rightarrow> ('k, 'v) hmap \<Rightarrow> ('k, 'v) hmap" where
  "hm_remove k m = AList.delete k m"

definition hm_keys :: "('k, 'v) hmap \<Rightarrow> 'k list" where
  "hm_keys m = map fst m"

definition hm_values :: "('k, 'v) hmap \<Rightarrow> 'v list" where
  "hm_values m = map snd m"

definition hm_contains :: "('k, 'v) hmap \<Rightarrow> 'k \<Rightarrow> bool" where
  "hm_contains m k = (hm_get m k \<noteq> None)"

definition hm_wf :: "('k, 'v) hmap \<Rightarrow> bool" where
  "hm_wf m = distinct (hm_keys m)"

text \<open>The contract of a keyed store: what its clients rely on.\<close>

locale keyed_store =
  fixes get :: "'m \<Rightarrow> 'k \<Rightarrow> 'v option"
    and put :: "'k \<Rightarrow> 'v \<Rightarrow> 'm \<Rightarrow> 'm"
    and del :: "'k \<Rightarrow> 'm \<Rightarrow> 'm"
    and keys :: "'m \<Rightarrow> 'k list"
    and wf :: "'m \<Rightarrow> bool"
  assumes get_put: "get (put k v m) k' = (if k' = k then Some v else get m k')"
    and get_del: "wf m \<Longrightarrow> get (del k m) k' = (if k' = k then None else get m k')"
    and set_keys: "set (keys m) = {k. get m k \<noteq> None}"
    and wf_keys: "wf m \<Longrightarrow> distinct (keys m)"
    and wf_put: "wf m \<Longrightarrow> wf (put k v m)"
    and wf_del: "wf m \<Longrightarrow> wf (del k m)"
begin

lemma in_keys_iff: "k \<in> set (keys m) \<longleftrightarrow> get m k \<noteq> None"
  by (simp add: set_keys)

lemma set_keys_put: "set (keys (put k v m)) = insert k (set (keys m))"
  by (auto simp: set_keys get_put)

lemma set_keys_del: "wf m \<Longrightarrow> set (keys (del k m)) = set (keys m) - {k}"
  by (auto simp: set_keys get_del split: if_splits)

lemma count_keys: "wf m \<Longrightarrow> length (keys m) = card {k. get m k \<noteq> None}"
  using distinct_card [OF wf_keys, of m] by (simp add: set_keys)

lemma count_put:
  assumes "wf m"
  shows "length (keys (put k v m)) = (if get m k = None then Suc (length (keys m)) else length (keys m))"
proof -
  have "length (keys (put k v m)) = card (insert k (set (keys m)))"
    using distinct_card [OF wf_keys [OF wf_put [OF assms]]] by (metis set_keys_put)
  also have "\<dots> = (if k \<in> set (keys m) then card (set (keys m)) else Suc (card (set (keys m))))"
    by (simp add: card_insert_if)
  finally show ?thesis
    using distinct_card [OF wf_keys [OF assms]] by (simp add: in_keys_iff)
qed

lemma count_del:
  assumes "wf m"
  shows "length (keys (del k m)) = (if get m k = None then length (keys m) else length (keys m) - 1)"
proof -
  have "length (keys (del k m)) = card (set (keys m) - {k})"
    using distinct_card [OF wf_keys [OF wf_del [OF assms]]] by (metis set_keys_del assms)
  also have "\<dots> = (if k \<in> set (keys m) then card (set (keys m)) - 1 else card (set (keys m)))"
    by (simp add: card_Diff_singleton_if)
  finally show ?thesis
    using distinct_card [OF wf_keys [OF assms]] by (simp add: in_keys_iff)
qed

lemma count_put_del: "wf m \<Longrightarrow> get m k = None \<Longrightarrow> length (keys (del k (put k v m))) = length (keys m)"
  by (simp add: count_del wf_put get_put count_put)

end

lemma hm_get_Nil [simp]: "hm_get [] k = None"
  by (simp add: hm_get_def)

lemma hm_wf_Nil [simp]: "hm_wf []"
  by (simp add: hm_wf_def hm_keys_def)

lemma hm_get_insert [simp, hm_simps]:
  "hm_get (hm_insert k v m) k' = (if k' = k then Some v else hm_get m k')"
  by (simp add: hm_get_def hm_insert_def update_conv)

lemma hm_get_remove [simp, hm_simps]:
  "hm_get (hm_remove k m) k' = (if k' = k then None else hm_get m k')"
  by (simp add: hm_get_def hm_remove_def delete_conv)

lemma hm_wf_insert [simp, hm_simps]: "hm_wf m \<Longrightarrow> hm_wf (hm_insert k v m)"
  by (simp add: hm_wf_def hm_keys_def hm_insert_def distinct_update)

lemma hm_wf_remove [simp, hm_simps]: "hm_wf m \<Longrightarrow> hm_wf (hm_remove k m)"
  by (simp add: hm_wf_def hm_keys_def hm_remove_def distinct_delete)

lemma set_hm_keys: "set (hm_keys m) = {k. hm_get m k \<noteq> None}"
  by (auto simp: hm_keys_def hm_get_def map_of_eq_None_iff image_iff dest: weak_map_of_SomeI)

interpretation hm: keyed_store hm_get hm_insert hm_remove hm_keys hm_wf
  by unfold_locales (auto simp: set_hm_keys hm_wf_def [symmetric])

lemma hm_contains_iff [simp]: "hm_contains m k \<longleftrightarrow> hm_get m k \<noteq> None"
  by (simp add: hm_contains_def)

lemma hm_wf_mem_iff: "hm_wf m \<Longrightarrow> (k, v) \<in> set m \<longleftrightarrow> hm_get m k = Some v"
  by (simp add: hm_wf_def hm_keys_def hm_get_def)

lemma hm_get_SomeD: "hm_get m k = Some v \<Longrightarrow> (k, v) \<in> set m"
  by (simp add: hm_get_def map_of_SomeD)

subsection \<open>Bounded channel senders\<close>

text \<open>
  The sending half of a bounded channel of the async runtime: \<open>try_send\<close> appends unless the
  queue is full or the receiver is gone. The sources ignore its result.
\<close>

record 'e sender =
  snd_queue :: "'e list"
  snd_capacity :: nat
  snd_open :: bool

definition try_send :: "'e sender \<Rightarrow> 'e \<Rightarrow> 'e sender" where
  "try_send s e =
     (if snd_open s \<and> length (snd_queue s) < snd_capacity s
      then s\<lparr>snd_queue := snd_queue s @ [e]\<rparr> else s)"

definition notify :: "'e sender option \<Rightarrow> 'e \<Rightarrow> 'e sender option" where
  "notify tx e = map_option (\<lambda>s. try_send s e) tx"

definition sender_room :: "'e sender option \<Rightarrow> bool" where
  "sender_room tx = (case tx of None \<Rightarrow> False
     | Some s \<Rightarrow> snd_open s \<and> length (snd_queue s) < snd_capacity s)"

definition sent_events :: "'e sender option \<Rightarrow> 'e list" where
  "sent_events tx = (case tx of None \<Rightarrow> [] | Some s \<Rightarrow> snd_queue s)"

lemma sent_events_notify:
  "sent_events (notify tx e) = sent_events tx @ (if sender_room tx then [e] else [])"
  by (auto simp: sent_events_def notify_def sender_room_def try_send_def split: option.splits)

subsection \<open>Splitting a slice into chunks\<close>

text \<open>The iterator \<open>chunks(n)\<close> of a slice, for \<open>0 < n\<close> (it panics for \<open>n = 0\<close>).\<close>

function chunks :: "nat \<Rightarrow> 'a list \<Rightarrow> 'a list list" where
  "chunks n xs = (if xs = [] \<or> n = 0 then [] else take n xs # chunks n (drop n xs))"
  by pat_completeness auto
termination
  by (relation "measure (\<lambda>(n, xs). length xs)") (auto simp: length_greater_0_conv)

declare chunks.simps [simp del]

lemma chunks_Nil [simp]: "chunks n [] = []"
  by (simp add: chunks.simps)

lemma concat_chunks [simp]: "0 < n \<Longrightarrow> concat (chunks n xs) = xs"
proof (induction n xs rule: chunks.induct)
  case (1 n xs)
  then show ?case
    by (cases "xs = []") (simp_all add: chunks.simps [of n xs])
qed

lemma length_chunks: "0 < n \<Longrightarrow> length (chunks n xs) = (length xs + n - 1) div n"
proof (induction n xs rule: chunks.induct)
  case (1 n xs)
  show ?case
  proof (cases "xs = []")
    case True
    then show ?thesis using 1 by simp
  next
    case False
    then have len: "0 < length xs" by simp
    have "length (chunks n xs) = Suc ((length xs - n + n - 1) div n)"
      using 1 False by (simp add: chunks.simps [of n xs])
    also have "\<dots> = (length xs + n - 1) div n"
    proof (cases "n \<le> length xs")
      case True
      then have "length xs + n - 1 = (length xs - n + n - 1) + n"
        using 1 len by simp
      then show ?thesis
        using 1 by (simp only: div_add_self2)
    next
      case short: False
      then have "length xs + n - 1 = length xs - 1 + n" "length xs - 1 < n" "length xs - n + n - 1 < n"
        using 1 len short by linarith+
      then show ?thesis
        using 1 by (simp only: div_add_self2 div_less)
    qed
    finally show ?thesis .
  qed
qed

lemma chunks_bound: "c \<in> set (chunks n xs) \<Longrightarrow> 0 < length c \<and> length c \<le> n"
proof (induction n xs rule: chunks.induct)
  case (1 n xs)
  then show ?case
    by (subst (asm) (2) chunks.simps) (auto split: if_splits)
qed

subsection \<open>Decimal numbers in messages\<close>

text \<open>What \<open>{}\<close> prints for an unsigned integer.\<close>

fun decimal :: "nat \<Rightarrow> string" where
  "decimal n = (if n < 10 then [char_of (48 + n)] else decimal (n div 10) @ [char_of (48 + n mod 10)])"

declare decimal.simps [simp del]

lemma decimal_nonempty [simp]: "decimal n \<noteq> []"
  by (simp add: decimal.simps)

definition decimal_value :: "string \<Rightarrow> nat" where
  "decimal_value s = foldl (\<lambda>a c. 10 * a + (of_char c - 48)) 0 s"

lemma decimal_value: "decimal_value (decimal n) = n"
proof (induction n rule: decimal.induct)
  case (1 n)
  have digit: "of_char (char_of (48 + d) :: char) - 48 = d" if "d < 10" for d :: nat
    using that by simp
  show ?case
  proof (cases "n < 10")
    case True
    then show ?thesis
      by (simp add: decimal.simps [of n] decimal_value_def)
  next
    case False
    then show ?thesis
      using 1 digit [of "n mod 10"] by (simp add: decimal.simps [of n] decimal_value_def)
  qed
qed

lemma decimal_inject [simp]: "decimal m = decimal n \<longleftrightarrow> m = n"
  by (metis decimal_value)

subsection \<open>Slices of a buffer\<close>

definition slice :: "nat \<Rightarrow> nat \<Rightarrow> 'a list \<Rightarrow> 'a list" where
  "slice i j xs = take (j - i) (drop i xs)"

lemma length_slice [bytes_simps]: "j \<le> length xs \<Longrightarrow> length (slice i j xs) = j - i"
  by (simp add: slice_def)

lemma slice_split: "i \<le> j \<Longrightarrow> j \<le> k \<Longrightarrow> slice i k xs = slice i j xs @ slice j k xs"
proof -
  assume "i \<le> j" "j \<le> k"
  then have "k - i = (j - i) + (k - j)" by simp
  with \<open>i \<le> j\<close> show ?thesis
    by (simp only: slice_def take_add drop_drop le_add_diff_inverse2)
qed

lemma take_slice: "i \<le> j \<Longrightarrow> take j xs = take i xs @ slice i j xs"
  using slice_split [of 0 i j xs] by (simp add: slice_def)

lemma slice_nth: "i < length xs \<Longrightarrow> slice i (Suc i) xs = [xs ! i]"
  by (simp add: slice_def take_Suc_conv_app_nth hd_drop_conv_nth take_Suc)

lemma slice_append_left: "j \<le> length xs \<Longrightarrow> slice i j (xs @ ys) = slice i j xs"
  by (cases "i \<le> j") (simp_all add: slice_def)

lemma slice_append [bytes_simps]:
  "i = length xs \<Longrightarrow> j = length xs + length ys \<Longrightarrow> slice i j (xs @ ys @ zs) = ys"
  by (simp add: slice_def)

lemma find_append: "find P (xs @ ys) = (case find P xs of None \<Rightarrow> find P ys | Some x \<Rightarrow> Some x)"
  by (induction xs) simp_all

end
