(* ===== verification/Errors.thy ===== *)
theory Errors
  imports Prelude
begin

text \<open>
  The error type of \<^verbatim>\<open>protocol/src/error.rs\<close>, with its two classifiers, and the outcome of a
  Rust function: a value, a returned error, or a panic. A \<open>?\<close> in the sources is
  \<open>bindR\<close> here.
\<close>

datatype (plugins only: code size) protocol_error =
    Io string
  | Protocol string
  | Bluetooth string
  | InvalidFrame string
  | InvalidHeader string
  | ChecksumMismatch u32 u32
  | FrameTooLarge nat nat
  | PayloadTooLarge nat nat
  | InvalidMagic u32 u32
  | UnsupportedVersion u32
  | UnknownFrameType u8
  | SequenceMismatch u64 u64
  | ReplayDetected u64
  | DecryptionFailed string
  | AuthenticationFailed string
  | AuthTimeout
  | SessionNotFound bytes
  | SessionExists bytes
  | SessionClosed string
  | SessionStateError string string
  | ChannelNotFound u32
  | ChannelClosed u32
  | ChannelWindowExhausted u32
  | FlowControl string
  | CapabilityNegotiation string
  | CapabilityNotSupported string
  | RequiredCapabilityMissing string
  | ServiceNotFound string
  | ServiceAlreadyRegistered string
  | ServiceNotRegistered string
  | InvalidServiceConfig string
  | KeyDerivation string
  | Encryption string
  | Decryption string
  | InvalidKeyLength nat nat
  | InvalidNonceLength nat nat
  | InvalidAuthTagLength nat nat
  | Config string
  | Database string
  | Serialization string
  | Deserialization string
  | Timeout string
  | Cancelled
  | NotConnected
  | AlreadyConnected
  | PeerDisconnected
  | BufferOverflow
  | InvalidArgument string
  | Internal string

definition is_retryable :: "protocol_error \<Rightarrow> bool" where
  "is_retryable e =
     (case e of
        Timeout _ \<Rightarrow> True
      | Io _ \<Rightarrow> True
      | ChannelWindowExhausted _ \<Rightarrow> True
      | FlowControl _ \<Rightarrow> True
      | _ \<Rightarrow> False)"

definition is_fatal :: "protocol_error \<Rightarrow> bool" where
  "is_fatal e =
     (case e of
        AuthenticationFailed _ \<Rightarrow> True
      | DecryptionFailed _ \<Rightarrow> True
      | ReplayDetected _ \<Rightarrow> True
      | SequenceMismatch _ _ \<Rightarrow> True
      | ChecksumMismatch _ _ \<Rightarrow> True
      | InvalidMagic _ _ \<Rightarrow> True
      | KeyDerivation _ \<Rightarrow> True
      | _ \<Rightarrow> False)"

text \<open>The conversions that \<open>?\<close> applies to the errors of the message encoder and decoder.\<close>

definition from_encode_error :: "string \<Rightarrow> protocol_error" where
  "from_encode_error e = Serialization e"

definition from_decode_error :: "string \<Rightarrow> protocol_error" where
  "from_decode_error e = Deserialization e"

datatype failure = Err protocol_error | Panic string

type_synonym 'a result = "failure + 'a"

definition bindR :: "'a result \<Rightarrow> ('a \<Rightarrow> 'b result) \<Rightarrow> 'b result" where
  "bindR r f = (case r of Inl e \<Rightarrow> Inl e | Inr a \<Rightarrow> f a)"

text \<open>\<open>unwrap\<close> of an option, and \<open>ok_or\<close>.\<close>

definition unwrap :: "'a option \<Rightarrow> 'a result" where
  "unwrap v = (case v of None \<Rightarrow> Inl (Panic ''unwrap on None'') | Some a \<Rightarrow> Inr a)"

definition ok_or :: "protocol_error \<Rightarrow> 'a option \<Rightarrow> 'a result" where
  "ok_or e v = (case v of None \<Rightarrow> Inl (Err e) | Some a \<Rightarrow> Inr a)"

definition overflow :: "'a option \<Rightarrow> 'a result" where
  "overflow v = (case v of None \<Rightarrow> Inl (Panic ''attempt to add with overflow'') | Some a \<Rightarrow> Inr a)"

lemma bindR_simps [simp]: "bindR (Inr a) f = f a" "bindR (Inl e) f = Inl e"
  by (simp_all add: bindR_def)

lemma bindR_Inr_iff: "bindR r f = Inr b \<longleftrightarrow> (\<exists>a. r = Inr a \<and> f a = Inr b)"
  by (cases r) simp_all

lemma bindR_Inl_iff: "bindR r f = Inl e \<longleftrightarrow> r = Inl e \<or> (\<exists>a. r = Inr a \<and> f a = Inl e)"
  by (cases r) simp_all

lemma unwrap_simps [simp]: "unwrap (Some a) = Inr a" "unwrap None = Inl (Panic ''unwrap on None'')"
  by (simp_all add: unwrap_def)

lemma ok_or_simps [simp]: "ok_or e (Some a) = Inr a" "ok_or e None = Inl (Err e)"
  by (simp_all add: ok_or_def)

lemma overflow_Inr_iff [simp]: "overflow v = Inr a \<longleftrightarrow> v = Some a"
  by (simp add: overflow_def split: option.splits)

lemma overflow_simps [simp]: "overflow (Some a) = Inr a"
  by simp

lemma fatal_not_retryable: "is_fatal e \<Longrightarrow> \<not> is_retryable e"
  by (cases e) (simp_all add: is_fatal_def is_retryable_def)

text \<open>The same for results whose errors are of another type, and over lists.\<close>

definition bindE :: "'e + 'a \<Rightarrow> ('a \<Rightarrow> 'e + 'b) \<Rightarrow> 'e + 'b" where
  "bindE r f = (case r of Inl e \<Rightarrow> Inl e | Inr a \<Rightarrow> f a)"

lemma bindE_simps [simp]: "bindE (Inl e) f = Inl e" "bindE (Inr a) f = f a"
  by (simp_all add: bindE_def)

lemma bindE_Inr_iff: "bindE r f = Inr b \<longleftrightarrow> (\<exists>a. r = Inr a \<and> f a = Inr b)"
  by (cases r) simp_all

primrec mapE :: "('a \<Rightarrow> 'e + 'b) \<Rightarrow> 'a list \<Rightarrow> 'e + 'b list" where
  "mapE f [] = Inr []"
| "mapE f (x # xs) = bindE (f x) (\<lambda>y. bindE (mapE f xs) (\<lambda>ys. Inr (y # ys)))"

lemma mapE_map: "(\<And>x. x \<in> set xs \<Longrightarrow> f (g x) = Inr x) \<Longrightarrow> mapE f (map g xs) = Inr xs"
  by (induction xs) simp_all

end
