(* ===== verification/ProtoTypes.thy ===== *)
theory ProtoTypes
  imports Errors
begin

text \<open>
  The messages of the protocol that the hand-written sources use, as the records and the
  enumerations that \<^verbatim>\<open>protocol/src/pb/bpl.protocol.rs\<close> declares, with the enumerations'
  conversions from and to integers and names. A record's fields carry a prefix per message; an
  \<open>Option\<close> of the sources is an \<open>option\<close>, a map of strings is an \<open>hmap\<close>.
\<close>

subsection \<open>Messages\<close>

record ProtocolVersion =
  pv_major :: u32
  pv_minor :: u32
  pv_patch :: u32

record DeviceId =
  did_value :: bytes

record SessionId =
  sid_value :: bytes

record ChannelId =
  chid_value :: u32

record SequenceNumber =
  seqn_value :: u64

record Timestamp =
  ts_value :: i64

record ServiceCapability =
  cap_service_id :: string
  cap_version :: u32
  cap_name :: string
  cap_description :: string
  cap_required :: bool
  cap_metadata :: "(string, string) hmap"
  cap_feature_flags :: u64

record KeepAliveConfig =
  kac_interval_ms :: u32
  kac_timeout_ms :: u32
  kac_max_missed :: u32

record FrameFlags =
  ff_is_fragment :: bool
  ff_is_last_fragment :: bool
  ff_encrypted :: bool
  ff_authenticated :: bool
  ff_compressed :: bool
  ff_priority :: bool
  ff_ack_required :: bool
  ff_reset_sequence :: bool
  ff_retransmission :: bool

record FrameHeader =
  fh_magic :: u32
  fh_version :: u32
  fh_type :: i32
  fh_flags :: "FrameFlags option"
  fh_channel_id :: "ChannelId option"
  fh_sequence :: "SequenceNumber option"
  fh_payload_length :: u32
  fh_header_crc :: u32

record AuthChallenge =
  ac_challenge :: bytes
  ac_method :: string
  ac_salt :: bytes
  ac_iterations :: u32

record AuthResponse =
  ar_response :: bytes
  ar_client_nonce :: bytes
  ar_public_key :: bytes

record AuthSuccess =
  asu_key_confirmation :: bytes
  asu_session_keys_encrypted :: bytes

record SessionOpenRequest =
  sorq_protocol_version :: "ProtocolVersion option"
  sorq_software_version :: string
  sorq_device_name :: string
  sorq_device_id :: "DeviceId option"
  sorq_device_type :: string
  sorq_keepalive :: "KeepAliveConfig option"
  sorq_max_channels :: u32
  sorq_max_frame_size :: u32
  sorq_client_nonce :: bytes
  sorq_metadata :: "(string, string) hmap"

record SessionOpenResponse =
  sors_result :: i32
  sors_negotiated_version :: "ProtocolVersion option"
  sors_session_id :: "SessionId option"
  sors_server_nonce :: bytes
  sors_keepalive :: "KeepAliveConfig option"
  sors_max_channels :: u32
  sors_max_frame_size :: u32
  sors_metadata :: "(string, string) hmap"
  sors_error_message :: string

record KeepAlive =
  ka_timestamp :: "Timestamp option"
  ka_sequence :: u32

record CapabilityNegotiateRequest =
  cnr_protocol_version :: "ProtocolVersion option"
  cnr_software_version :: string
  cnr_device_name :: string
  cnr_device_id :: "DeviceId option"
  cnr_capabilities :: "ServiceCapability list"
  cnr_require_all :: bool

record CapabilitySet =
  cset_capabilities :: "ServiceCapability list"
  cset_protocol_version :: "ProtocolVersion option"
  cset_software_version :: string
  cset_device_name :: string
  cset_device_id :: "DeviceId option"

record NegotiatedCapability =
  nc_service_id :: string
  nc_negotiated_version :: u32
  nc_negotiated_features :: "(string, string) hmap"
  nc_available :: bool
  nc_unavailable_reason :: string

record VersionCompatibility =
  vc_service_id :: string
  vc_local_version :: u32
  vc_remote_version :: u32
  vc_compatible :: bool
  vc_incompatibility_reason :: string

record PairingRecord =
  pr_device_id :: "DeviceId option"
  pr_device_name :: string
  pr_psk :: bytes
  pr_public_key :: bytes
  pr_paired_at :: "Timestamp option"
  pr_last_seen :: "Timestamp option"
  pr_trusted :: bool
  pr_connection_count :: u32
  pr_metadata :: "(string, string) hmap"

record ChannelConfig =
  cc_channel_id :: "ChannelId option"
  cc_type :: i32
  cc_priority :: i32
  cc_send_window :: u32
  cc_receive_window :: u32
  cc_max_frame_size :: u32
  cc_service_id :: string
  cc_metadata :: "(string, string) hmap"

record ChannelOpenRequest =
  cor_config :: "ChannelConfig option"
  cor_session_id :: "SessionId option"

record FlowControlUpdate =
  fcu_channel_id :: "ChannelId option"
  fcu_window_increment :: u32

record ServiceRegisterRequest =
  srr_capability :: "ServiceCapability option"
  srr_channel_config :: "ChannelConfig option"
  srr_service_state :: bytes

record ServiceRegisterResponse =
  srs_result :: i32
  srs_assigned_channel :: "ChannelId option"
  srs_error_message :: string

record ServiceUnregisterRequest =
  sur_service_id :: string
  sur_channel_id :: "ChannelId option"

record ServiceUnregisterResponse =
  sus_result :: i32
  sus_error_message :: string

record ServiceDiscoverRequest =
  sdr_service_id :: string
  sdr_version :: u32
  sdr_include_inactive :: bool

record ServiceInfo =
  si_service_id :: string
  si_version :: u32
  si_name :: string
  si_description :: string
  si_channel_id :: "ChannelId option"
  si_channel_type :: i32
  si_active :: bool
  si_healthy :: bool
  si_registered_at :: "Timestamp option"
  si_last_heartbeat :: "Timestamp option"
  si_metadata :: "(string, string) hmap"
  si_feature_flags :: u64

record ServiceDiscoverResponse =
  sds_result :: i32
  sds_services :: "ServiceInfo list"
  sds_error_message :: string

record ServiceHeartbeat =
  shb_service_id :: string
  shb_channel_id :: "ChannelId option"
  shb_healthy :: bool
  shb_metrics :: "(string, string) hmap"

record ServiceHeartbeatResponse =
  shr_result :: i32
  shr_acknowledge :: bool

text \<open>\<open>Default\<close> of the messages: all fields zero, empty or \<open>None\<close>.\<close>

definition FrameFlags_default :: FrameFlags where
  "FrameFlags_default =
     \<lparr>ff_is_fragment = False, ff_is_last_fragment = False, ff_encrypted = False,
      ff_authenticated = False, ff_compressed = False, ff_priority = False,
      ff_ack_required = False, ff_reset_sequence = False, ff_retransmission = False\<rparr>"

definition CapabilitySet_default :: CapabilitySet where
  "CapabilitySet_default =
     \<lparr>cset_capabilities = [], cset_protocol_version = None, cset_software_version = [],
      cset_device_name = [], cset_device_id = None\<rparr>"

subsection \<open>Enumerations\<close>

text \<open>
  What a generated enumeration promises: its discriminants and its names identify the variants,
  and the two conversions back are exact inverses.
\<close>

locale proto_enum =
  fixes variants :: "'t list"
    and to_i32 :: "'t \<Rightarrow> i32"
    and try_from :: "i32 \<Rightarrow> 't option"
    and as_str_name :: "'t \<Rightarrow> string"
    and from_str_name :: "string \<Rightarrow> 't option"
  assumes all_variants: "t \<in> set variants"
    and discriminants: "distinct (map to_i32 variants)"
    and try_from_find: "try_from v = find (\<lambda>t. to_i32 t = v) variants"
    and from_as_str_name: "from_str_name (as_str_name t) = Some t"
    and from_str_name_sound: "from_str_name s = Some t \<Longrightarrow> as_str_name t = s"
begin

lemma to_i32_inject: "to_i32 t = to_i32 u \<longleftrightarrow> t = u"
  using discriminants all_variants by (auto simp: distinct_map inj_on_def)

lemma try_from_iff: "try_from v = Some t \<longleftrightarrow> to_i32 t = v"
proof
  assume "try_from v = Some t"
  then show "to_i32 t = v"
    by (auto simp: try_from_find find_Some_iff)
next
  assume v: "to_i32 t = v"
  then have "find (\<lambda>u. to_i32 u = v) variants \<noteq> None"
    using all_variants [of t] by (auto simp: find_None_iff)
  then obtain u where u: "find (\<lambda>u. to_i32 u = v) variants = Some u"
    by blast
  then have "to_i32 u = v"
    by (auto simp: find_Some_iff)
  with v have "u = t"
    using to_i32_inject by metis
  with u show "try_from v = Some t"
    by (simp add: try_from_find)
qed

lemma try_from_to_i32: "try_from (to_i32 t) = Some t"
  by (simp add: try_from_iff)

lemma try_from_None_iff: "try_from v = None \<longleftrightarrow> v \<notin> range to_i32"
  by (metis not_None_eq rangeE rangeI try_from_iff)

lemma from_str_name_iff: "from_str_name s = Some t \<longleftrightarrow> as_str_name t = s"
  using from_as_str_name from_str_name_sound by blast

lemma as_str_name_inject: "as_str_name t = as_str_name u \<longleftrightarrow> t = u"
  by (metis from_as_str_name option.inject)

end

datatype ResultCode =
    RC_Success
  | RC_ErrorGeneric
  | RC_ErrorInvalidArgument
  | RC_ErrorNotFound
  | RC_ErrorPermissionDenied
  | RC_ErrorNotConnected
  | RC_ErrorSessionClosed
  | RC_ErrorChannelClosed
  | RC_ErrorAuthFailed
  | RC_ErrorCapabilityMismatch
  | RC_ErrorProtocolVersion
  | RC_ErrorSequenceMismatch
  | RC_ErrorReplayDetected
  | RC_ErrorDecryptionFailed
  | RC_ErrorBufferTooSmall
  | RC_ErrorTimeout
  | RC_ErrorCancelled
  | RC_ErrorBusy
  | RC_ErrorUnsupported
  | RC_ErrorConflict
  | RC_ErrorQuotaExceeded
  | RC_ErrorIo

fun ResultCode_i32 :: "ResultCode \<Rightarrow> i32" where
  "ResultCode_i32 RC_Success = 0"
| "ResultCode_i32 RC_ErrorGeneric = 1"
| "ResultCode_i32 RC_ErrorInvalidArgument = 2"
| "ResultCode_i32 RC_ErrorNotFound = 3"
| "ResultCode_i32 RC_ErrorPermissionDenied = 4"
| "ResultCode_i32 RC_ErrorNotConnected = 5"
| "ResultCode_i32 RC_ErrorSessionClosed = 6"
| "ResultCode_i32 RC_ErrorChannelClosed = 7"
| "ResultCode_i32 RC_ErrorAuthFailed = 8"
| "ResultCode_i32 RC_ErrorCapabilityMismatch = 9"
| "ResultCode_i32 RC_ErrorProtocolVersion = 10"
| "ResultCode_i32 RC_ErrorSequenceMismatch = 11"
| "ResultCode_i32 RC_ErrorReplayDetected = 12"
| "ResultCode_i32 RC_ErrorDecryptionFailed = 13"
| "ResultCode_i32 RC_ErrorBufferTooSmall = 14"
| "ResultCode_i32 RC_ErrorTimeout = 15"
| "ResultCode_i32 RC_ErrorCancelled = 16"
| "ResultCode_i32 RC_ErrorBusy = 17"
| "ResultCode_i32 RC_ErrorUnsupported = 18"
| "ResultCode_i32 RC_ErrorConflict = 19"
| "ResultCode_i32 RC_ErrorQuotaExceeded = 20"
| "ResultCode_i32 RC_ErrorIo = 21"

definition ResultCode_variants :: "ResultCode list" where
  "ResultCode_variants =
    [RC_Success,
     RC_ErrorGeneric,
     RC_ErrorInvalidArgument,
     RC_ErrorNotFound,
     RC_ErrorPermissionDenied,
     RC_ErrorNotConnected,
     RC_ErrorSessionClosed,
     RC_ErrorChannelClosed,
     RC_ErrorAuthFailed,
     RC_ErrorCapabilityMismatch,
     RC_ErrorProtocolVersion,
     RC_ErrorSequenceMismatch,
     RC_ErrorReplayDetected,
     RC_ErrorDecryptionFailed,
     RC_ErrorBufferTooSmall,
     RC_ErrorTimeout,
     RC_ErrorCancelled,
     RC_ErrorBusy,
     RC_ErrorUnsupported,
     RC_ErrorConflict,
     RC_ErrorQuotaExceeded,
     RC_ErrorIo]"

definition ResultCode_try_from :: "i32 \<Rightarrow> ResultCode option" where
  "ResultCode_try_from v = find (\<lambda>t. ResultCode_i32 t = v) ResultCode_variants"

fun ResultCode_as_str_name :: "ResultCode \<Rightarrow> string" where
  "ResultCode_as_str_name RC_Success = ''SUCCESS''"
| "ResultCode_as_str_name RC_ErrorGeneric = ''ERROR_GENERIC''"
| "ResultCode_as_str_name RC_ErrorInvalidArgument = ''ERROR_INVALID_ARGUMENT''"
| "ResultCode_as_str_name RC_ErrorNotFound = ''ERROR_NOT_FOUND''"
| "ResultCode_as_str_name RC_ErrorPermissionDenied = ''ERROR_PERMISSION_DENIED''"
| "ResultCode_as_str_name RC_ErrorNotConnected = ''ERROR_NOT_CONNECTED''"
| "ResultCode_as_str_name RC_ErrorSessionClosed = ''ERROR_SESSION_CLOSED''"
| "ResultCode_as_str_name RC_ErrorChannelClosed = ''ERROR_CHANNEL_CLOSED''"
| "ResultCode_as_str_name RC_ErrorAuthFailed = ''ERROR_AUTH_FAILED''"
| "ResultCode_as_str_name RC_ErrorCapabilityMismatch = ''ERROR_CAPABILITY_MISMATCH''"
| "ResultCode_as_str_name RC_ErrorProtocolVersion = ''ERROR_PROTOCOL_VERSION''"
| "ResultCode_as_str_name RC_ErrorSequenceMismatch = ''ERROR_SEQUENCE_MISMATCH''"
| "ResultCode_as_str_name RC_ErrorReplayDetected = ''ERROR_REPLAY_DETECTED''"
| "ResultCode_as_str_name RC_ErrorDecryptionFailed = ''ERROR_DECRYPTION_FAILED''"
| "ResultCode_as_str_name RC_ErrorBufferTooSmall = ''ERROR_BUFFER_TOO_SMALL''"
| "ResultCode_as_str_name RC_ErrorTimeout = ''ERROR_TIMEOUT''"
| "ResultCode_as_str_name RC_ErrorCancelled = ''ERROR_CANCELLED''"
| "ResultCode_as_str_name RC_ErrorBusy = ''ERROR_BUSY''"
| "ResultCode_as_str_name RC_ErrorUnsupported = ''ERROR_UNSUPPORTED''"
| "ResultCode_as_str_name RC_ErrorConflict = ''ERROR_CONFLICT''"
| "ResultCode_as_str_name RC_ErrorQuotaExceeded = ''ERROR_QUOTA_EXCEEDED''"
| "ResultCode_as_str_name RC_ErrorIo = ''ERROR_IO''"

definition ResultCode_from_str_name :: "string \<Rightarrow> ResultCode option" where
  "ResultCode_from_str_name s = map_of
    [(''SUCCESS'', RC_Success),
     (''ERROR_GENERIC'', RC_ErrorGeneric),
     (''ERROR_INVALID_ARGUMENT'', RC_ErrorInvalidArgument),
     (''ERROR_NOT_FOUND'', RC_ErrorNotFound),
     (''ERROR_PERMISSION_DENIED'', RC_ErrorPermissionDenied),
     (''ERROR_NOT_CONNECTED'', RC_ErrorNotConnected),
     (''ERROR_SESSION_CLOSED'', RC_ErrorSessionClosed),
     (''ERROR_CHANNEL_CLOSED'', RC_ErrorChannelClosed),
     (''ERROR_AUTH_FAILED'', RC_ErrorAuthFailed),
     (''ERROR_CAPABILITY_MISMATCH'', RC_ErrorCapabilityMismatch),
     (''ERROR_PROTOCOL_VERSION'', RC_ErrorProtocolVersion),
     (''ERROR_SEQUENCE_MISMATCH'', RC_ErrorSequenceMismatch),
     (''ERROR_REPLAY_DETECTED'', RC_ErrorReplayDetected),
     (''ERROR_DECRYPTION_FAILED'', RC_ErrorDecryptionFailed),
     (''ERROR_BUFFER_TOO_SMALL'', RC_ErrorBufferTooSmall),
     (''ERROR_TIMEOUT'', RC_ErrorTimeout),
     (''ERROR_CANCELLED'', RC_ErrorCancelled),
     (''ERROR_BUSY'', RC_ErrorBusy),
     (''ERROR_UNSUPPORTED'', RC_ErrorUnsupported),
     (''ERROR_CONFLICT'', RC_ErrorConflict),
     (''ERROR_QUOTA_EXCEEDED'', RC_ErrorQuotaExceeded),
     (''ERROR_IO'', RC_ErrorIo)] s"

interpretation ResultCode_enum: proto_enum ResultCode_variants ResultCode_i32 ResultCode_try_from
  ResultCode_as_str_name ResultCode_from_str_name
proof unfold_locales
  show "t \<in> set ResultCode_variants" for t
    by (cases t) (simp_all add: ResultCode_variants_def)
  show "distinct (map ResultCode_i32 ResultCode_variants)"
    by (simp add: ResultCode_variants_def)
  show "ResultCode_from_str_name (ResultCode_as_str_name t) = Some t" for t
    by (cases t) (simp_all add: ResultCode_from_str_name_def)
  show "ResultCode_from_str_name s = Some t \<Longrightarrow> ResultCode_as_str_name t = s" for s t
    unfolding ResultCode_from_str_name_def by (drule map_of_SomeD) auto
qed (simp add: ResultCode_try_from_def)

datatype FrameType =
    FT_Data
  | FT_DataFragment
  | FT_DataEnd
  | FT_Control
  | FT_SessionOpen
  | FT_SessionOpenAck
  | FT_SessionClose
  | FT_SessionCloseAck
  | FT_Keepalive
  | FT_KeepaliveAck
  | FT_CapabilityNegotiate
  | FT_CapabilityAck
  | FT_AuthChallenge
  | FT_AuthResponse
  | FT_AuthSuccess
  | FT_AuthFailure
  | FT_AuthKeyConfirm
  | FT_ChannelOpen
  | FT_ChannelOpenAck
  | FT_ChannelClose
  | FT_ChannelCloseAck
  | FT_FlowControl
  | FT_ServiceRegister
  | FT_ServiceUnregister
  | FT_ServiceDiscover
  | FT_ServiceDiscoverResp
  | FT_Error

fun FrameType_i32 :: "FrameType \<Rightarrow> i32" where
  "FrameType_i32 FT_Data = 0"
| "FrameType_i32 FT_DataFragment = 1"
| "FrameType_i32 FT_DataEnd = 2"
| "FrameType_i32 FT_Control = 10"
| "FrameType_i32 FT_SessionOpen = 20"
| "FrameType_i32 FT_SessionOpenAck = 21"
| "FrameType_i32 FT_SessionClose = 22"
| "FrameType_i32 FT_SessionCloseAck = 23"
| "FrameType_i32 FT_Keepalive = 30"
| "FrameType_i32 FT_KeepaliveAck = 31"
| "FrameType_i32 FT_CapabilityNegotiate = 40"
| "FrameType_i32 FT_CapabilityAck = 41"
| "FrameType_i32 FT_AuthChallenge = 50"
| "FrameType_i32 FT_AuthResponse = 51"
| "FrameType_i32 FT_AuthSuccess = 52"
| "FrameType_i32 FT_AuthFailure = 53"
| "FrameType_i32 FT_AuthKeyConfirm = 54"
| "FrameType_i32 FT_ChannelOpen = 60"
| "FrameType_i32 FT_ChannelOpenAck = 61"
| "FrameType_i32 FT_ChannelClose = 62"
| "FrameType_i32 FT_ChannelCloseAck = 63"
| "FrameType_i32 FT_FlowControl = 70"
| "FrameType_i32 FT_ServiceRegister = 80"
| "FrameType_i32 FT_ServiceUnregister = 81"
| "FrameType_i32 FT_ServiceDiscover = 82"
| "FrameType_i32 FT_ServiceDiscoverResp = 83"
| "FrameType_i32 FT_Error = 255"

definition FrameType_variants :: "FrameType list" where
  "FrameType_variants =
    [FT_Data,
     FT_DataFragment,
     FT_DataEnd,
     FT_Control,
     FT_SessionOpen,
     FT_SessionOpenAck,
     FT_SessionClose,
     FT_SessionCloseAck,
     FT_Keepalive,
     FT_KeepaliveAck,
     FT_CapabilityNegotiate,
     FT_CapabilityAck,
     FT_AuthChallenge,
     FT_AuthResponse,
     FT_AuthSuccess,
     FT_AuthFailure,
     FT_AuthKeyConfirm,
     FT_ChannelOpen,
     FT_ChannelOpenAck,
     FT_ChannelClose,
     FT_ChannelCloseAck,
     FT_FlowControl,
     FT_ServiceRegister,
     FT_ServiceUnregister,
     FT_ServiceDiscover,
     FT_ServiceDiscoverResp,
     FT_Error]"

definition FrameType_try_from :: "i32 \<Rightarrow> FrameType option" where
  "FrameType_try_from v = find (\<lambda>t. FrameType_i32 t = v) FrameType_variants"

fun FrameType_as_str_name :: "FrameType \<Rightarrow> string" where
  "FrameType_as_str_name FT_Data = ''DATA''"
| "FrameType_as_str_name FT_DataFragment = ''DATA_FRAGMENT''"
| "FrameType_as_str_name FT_DataEnd = ''DATA_END''"
| "FrameType_as_str_name FT_Control = ''CONTROL''"
| "FrameType_as_str_name FT_SessionOpen = ''SESSION_OPEN''"
| "FrameType_as_str_name FT_SessionOpenAck = ''SESSION_OPEN_ACK''"
| "FrameType_as_str_name FT_SessionClose = ''SESSION_CLOSE''"
| "FrameType_as_str_name FT_SessionCloseAck = ''SESSION_CLOSE_ACK''"
| "FrameType_as_str_name FT_Keepalive = ''KEEPALIVE''"
| "FrameType_as_str_name FT_KeepaliveAck = ''KEEPALIVE_ACK''"
| "FrameType_as_str_name FT_CapabilityNegotiate = ''CAPABILITY_NEGOTIATE''"
| "FrameType_as_str_name FT_CapabilityAck = ''CAPABILITY_ACK''"
| "FrameType_as_str_name FT_AuthChallenge = ''AUTH_CHALLENGE''"
| "FrameType_as_str_name FT_AuthResponse = ''AUTH_RESPONSE''"
| "FrameType_as_str_name FT_AuthSuccess = ''AUTH_SUCCESS''"
| "FrameType_as_str_name FT_AuthFailure = ''AUTH_FAILURE''"
| "FrameType_as_str_name FT_AuthKeyConfirm = ''AUTH_KEY_CONFIRM''"
| "FrameType_as_str_name FT_ChannelOpen = ''CHANNEL_OPEN''"
| "FrameType_as_str_name FT_ChannelOpenAck = ''CHANNEL_OPEN_ACK''"
| "FrameType_as_str_name FT_ChannelClose = ''CHANNEL_CLOSE''"
| "FrameType_as_str_name FT_ChannelCloseAck = ''CHANNEL_CLOSE_ACK''"
| "FrameType_as_str_name FT_FlowControl = ''FLOW_CONTROL''"
| "FrameType_as_str_name FT_ServiceRegister = ''SERVICE_REGISTER''"
| "FrameType_as_str_name FT_ServiceUnregister = ''SERVICE_UNREGISTER''"
| "FrameType_as_str_name FT_ServiceDiscover = ''SERVICE_DISCOVER''"
| "FrameType_as_str_name FT_ServiceDiscoverResp = ''SERVICE_DISCOVER_RESP''"
| "FrameType_as_str_name FT_Error = ''ERROR''"

definition FrameType_from_str_name :: "string \<Rightarrow> FrameType option" where
  "FrameType_from_str_name s = map_of
    [(''DATA'', FT_Data),
     (''DATA_FRAGMENT'', FT_DataFragment),
     (''DATA_END'', FT_DataEnd),
     (''CONTROL'', FT_Control),
     (''SESSION_OPEN'', FT_SessionOpen),
     (''SESSION_OPEN_ACK'', FT_SessionOpenAck),
     (''SESSION_CLOSE'', FT_SessionClose),
     (''SESSION_CLOSE_ACK'', FT_SessionCloseAck),
     (''KEEPALIVE'', FT_Keepalive),
     (''KEEPALIVE_ACK'', FT_KeepaliveAck),
     (''CAPABILITY_NEGOTIATE'', FT_CapabilityNegotiate),
     (''CAPABILITY_ACK'', FT_CapabilityAck),
     (''AUTH_CHALLENGE'', FT_AuthChallenge),
     (''AUTH_RESPONSE'', FT_AuthResponse),
     (''AUTH_SUCCESS'', FT_AuthSuccess),
     (''AUTH_FAILURE'', FT_AuthFailure),
     (''AUTH_KEY_CONFIRM'', FT_AuthKeyConfirm),
     (''CHANNEL_OPEN'', FT_ChannelOpen),
     (''CHANNEL_OPEN_ACK'', FT_ChannelOpenAck),
     (''CHANNEL_CLOSE'', FT_ChannelClose),
     (''CHANNEL_CLOSE_ACK'', FT_ChannelCloseAck),
     (''FLOW_CONTROL'', FT_FlowControl),
     (''SERVICE_REGISTER'', FT_ServiceRegister),
     (''SERVICE_UNREGISTER'', FT_ServiceUnregister),
     (''SERVICE_DISCOVER'', FT_ServiceDiscover),
     (''SERVICE_DISCOVER_RESP'', FT_ServiceDiscoverResp),
     (''ERROR'', FT_Error)] s"

interpretation FrameType_enum: proto_enum FrameType_variants FrameType_i32 FrameType_try_from
  FrameType_as_str_name FrameType_from_str_name
proof unfold_locales
  show "t \<in> set FrameType_variants" for t
    by (cases t) (simp_all add: FrameType_variants_def)
  show "distinct (map FrameType_i32 FrameType_variants)"
    by (simp add: FrameType_variants_def)
  show "FrameType_from_str_name (FrameType_as_str_name t) = Some t" for t
    by (cases t) (simp_all add: FrameType_from_str_name_def)
  show "FrameType_from_str_name s = Some t \<Longrightarrow> FrameType_as_str_name t = s" for s t
    unfolding FrameType_from_str_name_def by (drule map_of_SomeD) auto
qed (simp add: FrameType_try_from_def)

datatype SessionEventType =
    SET_SessionEventOpened
  | SET_SessionEventClosed
  | SET_SessionEventError
  | SET_SessionEventKeepaliveTimeout
  | SET_SessionEventCapabilitiesNegotiated
  | SET_SessionEventAuthComplete
  | SET_SessionEventReconnecting
  | SET_SessionEventReconnected

fun SessionEventType_i32 :: "SessionEventType \<Rightarrow> i32" where
  "SessionEventType_i32 SET_SessionEventOpened = 0"
| "SessionEventType_i32 SET_SessionEventClosed = 1"
| "SessionEventType_i32 SET_SessionEventError = 2"
| "SessionEventType_i32 SET_SessionEventKeepaliveTimeout = 3"
| "SessionEventType_i32 SET_SessionEventCapabilitiesNegotiated = 4"
| "SessionEventType_i32 SET_SessionEventAuthComplete = 5"
| "SessionEventType_i32 SET_SessionEventReconnecting = 6"
| "SessionEventType_i32 SET_SessionEventReconnected = 7"

definition SessionEventType_variants :: "SessionEventType list" where
  "SessionEventType_variants =
    [SET_SessionEventOpened,
     SET_SessionEventClosed,
     SET_SessionEventError,
     SET_SessionEventKeepaliveTimeout,
     SET_SessionEventCapabilitiesNegotiated,
     SET_SessionEventAuthComplete,
     SET_SessionEventReconnecting,
     SET_SessionEventReconnected]"

definition SessionEventType_try_from :: "i32 \<Rightarrow> SessionEventType option" where
  "SessionEventType_try_from v = find (\<lambda>t. SessionEventType_i32 t = v) SessionEventType_variants"

fun SessionEventType_as_str_name :: "SessionEventType \<Rightarrow> string" where
  "SessionEventType_as_str_name SET_SessionEventOpened = ''SESSION_EVENT_OPENED''"
| "SessionEventType_as_str_name SET_SessionEventClosed = ''SESSION_EVENT_CLOSED''"
| "SessionEventType_as_str_name SET_SessionEventError = ''SESSION_EVENT_ERROR''"
| "SessionEventType_as_str_name SET_SessionEventKeepaliveTimeout = ''SESSION_EVENT_KEEPALIVE_TIMEOUT''"
| "SessionEventType_as_str_name SET_SessionEventCapabilitiesNegotiated = ''SESSION_EVENT_CAPABILITIES_NEGOTIATED''"
| "SessionEventType_as_str_name SET_SessionEventAuthComplete = ''SESSION_EVENT_AUTH_COMPLETE''"
| "SessionEventType_as_str_name SET_SessionEventReconnecting = ''SESSION_EVENT_RECONNECTING''"
| "SessionEventType_as_str_name SET_SessionEventReconnected = ''SESSION_EVENT_RECONNECTED''"

definition SessionEventType_from_str_name :: "string \<Rightarrow> SessionEventType option" where
  "SessionEventType_from_str_name s = map_of
    [(''SESSION_EVENT_OPENED'', SET_SessionEventOpened),
     (''SESSION_EVENT_CLOSED'', SET_SessionEventClosed),
     (''SESSION_EVENT_ERROR'', SET_SessionEventError),
     (''SESSION_EVENT_KEEPALIVE_TIMEOUT'', SET_SessionEventKeepaliveTimeout),
     (''SESSION_EVENT_CAPABILITIES_NEGOTIATED'', SET_SessionEventCapabilitiesNegotiated),
     (''SESSION_EVENT_AUTH_COMPLETE'', SET_SessionEventAuthComplete),
     (''SESSION_EVENT_RECONNECTING'', SET_SessionEventReconnecting),
     (''SESSION_EVENT_RECONNECTED'', SET_SessionEventReconnected)] s"

interpretation SessionEventType_enum: proto_enum SessionEventType_variants SessionEventType_i32 SessionEventType_try_from
  SessionEventType_as_str_name SessionEventType_from_str_name
proof unfold_locales
  show "t \<in> set SessionEventType_variants" for t
    by (cases t) (simp_all add: SessionEventType_variants_def)
  show "distinct (map SessionEventType_i32 SessionEventType_variants)"
    by (simp add: SessionEventType_variants_def)
  show "SessionEventType_from_str_name (SessionEventType_as_str_name t) = Some t" for t
    by (cases t) (simp_all add: SessionEventType_from_str_name_def)
  show "SessionEventType_from_str_name s = Some t \<Longrightarrow> SessionEventType_as_str_name t = s" for s t
    unfolding SessionEventType_from_str_name_def by (drule map_of_SomeD) auto
qed (simp add: SessionEventType_try_from_def)

datatype AuthMethod =
    AM_Psk
  | AM_Opaque
  | AM_Cert

fun AuthMethod_i32 :: "AuthMethod \<Rightarrow> i32" where
  "AuthMethod_i32 AM_Psk = 0"
| "AuthMethod_i32 AM_Opaque = 1"
| "AuthMethod_i32 AM_Cert = 2"

definition AuthMethod_variants :: "AuthMethod list" where
  "AuthMethod_variants =
    [AM_Psk,
     AM_Opaque,
     AM_Cert]"

definition AuthMethod_try_from :: "i32 \<Rightarrow> AuthMethod option" where
  "AuthMethod_try_from v = find (\<lambda>t. AuthMethod_i32 t = v) AuthMethod_variants"

fun AuthMethod_as_str_name :: "AuthMethod \<Rightarrow> string" where
  "AuthMethod_as_str_name AM_Psk = ''AUTH_METHOD_PSK''"
| "AuthMethod_as_str_name AM_Opaque = ''AUTH_METHOD_OPAQUE''"
| "AuthMethod_as_str_name AM_Cert = ''AUTH_METHOD_CERT''"

definition AuthMethod_from_str_name :: "string \<Rightarrow> AuthMethod option" where
  "AuthMethod_from_str_name s = map_of
    [(''AUTH_METHOD_PSK'', AM_Psk),
     (''AUTH_METHOD_OPAQUE'', AM_Opaque),
     (''AUTH_METHOD_CERT'', AM_Cert)] s"

interpretation AuthMethod_enum: proto_enum AuthMethod_variants AuthMethod_i32 AuthMethod_try_from
  AuthMethod_as_str_name AuthMethod_from_str_name
proof unfold_locales
  show "t \<in> set AuthMethod_variants" for t
    by (cases t) (simp_all add: AuthMethod_variants_def)
  show "distinct (map AuthMethod_i32 AuthMethod_variants)"
    by (simp add: AuthMethod_variants_def)
  show "AuthMethod_from_str_name (AuthMethod_as_str_name t) = Some t" for t
    by (cases t) (simp_all add: AuthMethod_from_str_name_def)
  show "AuthMethod_from_str_name s = Some t \<Longrightarrow> AuthMethod_as_str_name t = s" for s t
    unfolding AuthMethod_from_str_name_def by (drule map_of_SomeD) auto
qed (simp add: AuthMethod_try_from_def)

datatype ChannelType =
    CT_Control
  | CT_Data
  | CT_Stream
  | CT_Urgent

fun ChannelType_i32 :: "ChannelType \<Rightarrow> i32" where
  "ChannelType_i32 CT_Control = 0"
| "ChannelType_i32 CT_Data = 1"
| "ChannelType_i32 CT_Stream = 2"
| "ChannelType_i32 CT_Urgent = 3"

definition ChannelType_variants :: "ChannelType list" where
  "ChannelType_variants =
    [CT_Control,
     CT_Data,
     CT_Stream,
     CT_Urgent]"

definition ChannelType_try_from :: "i32 \<Rightarrow> ChannelType option" where
  "ChannelType_try_from v = find (\<lambda>t. ChannelType_i32 t = v) ChannelType_variants"

fun ChannelType_as_str_name :: "ChannelType \<Rightarrow> string" where
  "ChannelType_as_str_name CT_Control = ''CHANNEL_TYPE_CONTROL''"
| "ChannelType_as_str_name CT_Data = ''CHANNEL_TYPE_DATA''"
| "ChannelType_as_str_name CT_Stream = ''CHANNEL_TYPE_STREAM''"
| "ChannelType_as_str_name CT_Urgent = ''CHANNEL_TYPE_URGENT''"

definition ChannelType_from_str_name :: "string \<Rightarrow> ChannelType option" where
  "ChannelType_from_str_name s = map_of
    [(''CHANNEL_TYPE_CONTROL'', CT_Control),
     (''CHANNEL_TYPE_DATA'', CT_Data),
     (''CHANNEL_TYPE_STREAM'', CT_Stream),
     (''CHANNEL_TYPE_URGENT'', CT_Urgent)] s"

interpretation ChannelType_enum: proto_enum ChannelType_variants ChannelType_i32 ChannelType_try_from
  ChannelType_as_str_name ChannelType_from_str_name
proof unfold_locales
  show "t \<in> set ChannelType_variants" for t
    by (cases t) (simp_all add: ChannelType_variants_def)
  show "distinct (map ChannelType_i32 ChannelType_variants)"
    by (simp add: ChannelType_variants_def)
  show "ChannelType_from_str_name (ChannelType_as_str_name t) = Some t" for t
    by (cases t) (simp_all add: ChannelType_from_str_name_def)
  show "ChannelType_from_str_name s = Some t \<Longrightarrow> ChannelType_as_str_name t = s" for s t
    unfolding ChannelType_from_str_name_def by (drule map_of_SomeD) auto
qed (simp add: ChannelType_try_from_def)

datatype ChannelPriority =
    CP_PriorityLow
  | CP_PriorityNormal
  | CP_PriorityHigh
  | CP_PriorityCritical

fun ChannelPriority_i32 :: "ChannelPriority \<Rightarrow> i32" where
  "ChannelPriority_i32 CP_PriorityLow = 0"
| "ChannelPriority_i32 CP_PriorityNormal = 1"
| "ChannelPriority_i32 CP_PriorityHigh = 2"
| "ChannelPriority_i32 CP_PriorityCritical = 3"

definition ChannelPriority_variants :: "ChannelPriority list" where
  "ChannelPriority_variants =
    [CP_PriorityLow,
     CP_PriorityNormal,
     CP_PriorityHigh,
     CP_PriorityCritical]"

definition ChannelPriority_try_from :: "i32 \<Rightarrow> ChannelPriority option" where
  "ChannelPriority_try_from v = find (\<lambda>t. ChannelPriority_i32 t = v) ChannelPriority_variants"

fun ChannelPriority_as_str_name :: "ChannelPriority \<Rightarrow> string" where
  "ChannelPriority_as_str_name CP_PriorityLow = ''PRIORITY_LOW''"
| "ChannelPriority_as_str_name CP_PriorityNormal = ''PRIORITY_NORMAL''"
| "ChannelPriority_as_str_name CP_PriorityHigh = ''PRIORITY_HIGH''"
| "ChannelPriority_as_str_name CP_PriorityCritical = ''PRIORITY_CRITICAL''"

definition ChannelPriority_from_str_name :: "string \<Rightarrow> ChannelPriority option" where
  "ChannelPriority_from_str_name s = map_of
    [(''PRIORITY_LOW'', CP_PriorityLow),
     (''PRIORITY_NORMAL'', CP_PriorityNormal),
     (''PRIORITY_HIGH'', CP_PriorityHigh),
     (''PRIORITY_CRITICAL'', CP_PriorityCritical)] s"

interpretation ChannelPriority_enum: proto_enum ChannelPriority_variants ChannelPriority_i32 ChannelPriority_try_from
  ChannelPriority_as_str_name ChannelPriority_from_str_name
proof unfold_locales
  show "t \<in> set ChannelPriority_variants" for t
    by (cases t) (simp_all add: ChannelPriority_variants_def)
  show "distinct (map ChannelPriority_i32 ChannelPriority_variants)"
    by (simp add: ChannelPriority_variants_def)
  show "ChannelPriority_from_str_name (ChannelPriority_as_str_name t) = Some t" for t
    by (cases t) (simp_all add: ChannelPriority_from_str_name_def)
  show "ChannelPriority_from_str_name s = Some t \<Longrightarrow> ChannelPriority_as_str_name t = s" for s t
    unfolding ChannelPriority_from_str_name_def by (drule map_of_SomeD) auto
qed (simp add: ChannelPriority_try_from_def)

text \<open>The derived order of the priorities is the order of their declaration.\<close>

instantiation ChannelPriority :: linorder
begin

definition less_eq_ChannelPriority :: "ChannelPriority \<Rightarrow> ChannelPriority \<Rightarrow> bool" where
  "less_eq_ChannelPriority p q = (ChannelPriority_i32 p \<le> ChannelPriority_i32 q)"

definition less_ChannelPriority :: "ChannelPriority \<Rightarrow> ChannelPriority \<Rightarrow> bool" where
  "less_ChannelPriority p q = (ChannelPriority_i32 p < ChannelPriority_i32 q)"

instance
proof
  fix p q :: ChannelPriority
  assume "p \<le> q" "q \<le> p"
  then show "p = q"
    by (simp add: less_eq_ChannelPriority_def flip: ChannelPriority_enum.to_i32_inject)
qed (auto simp: less_eq_ChannelPriority_def less_ChannelPriority_def)

end

end
