(* ===== verification/Lib_Constants.thy ===== *)
theory Lib_Constants
  imports ProtoTypes
begin

text \<open>
  The constants of the protocol crate (\<^verbatim>\<open>protocol/src/lib.rs\<close>): the wire constants, the default
  intervals and windows, and the identifiers of the services.
\<close>

definition PROTOCOL_VERSION :: u32 where
  "PROTOCOL_VERSION = 0x00010000"

definition MAGIC_NUMBER :: u32 where
  "MAGIC_NUMBER = 0x42504C01"

definition MAX_FRAME_SIZE :: nat where
  "MAX_FRAME_SIZE = 65535"

definition CONTROL_CHANNEL_ID :: u32 where
  "CONTROL_CHANNEL_ID = 0"

definition DEFAULT_KEEPALIVE_INTERVAL_MS :: u32 where
  "DEFAULT_KEEPALIVE_INTERVAL_MS = 30000"

definition DEFAULT_SESSION_TIMEOUT_MS :: u32 where
  "DEFAULT_SESSION_TIMEOUT_MS = 90000"

definition MAX_CHANNELS :: u32 where
  "MAX_CHANNELS = 16"

definition DEFAULT_WINDOW_SIZE :: u32 where
  "DEFAULT_WINDOW_SIZE = 65536"

definition DEFAULT_MAX_FRAME_SIZE :: u32 where
  "DEFAULT_MAX_FRAME_SIZE = 16384"

definition MAX_FRAME_PAYLOAD_SIZE :: nat where
  "MAX_FRAME_PAYLOAD_SIZE = 16384"

definition service_ids :: "(string \<times> u32) list" where
  "service_ids =
     [(''bpl.filesystem'', 1), (''bpl.sync'', 1), (''bpl.photo_backup'', 1), (''bpl.shell'', 1),
      (''bpl.media_control'', 1), (''bpl.phone_fs'', 1), (''bpl.proximity'', 1),
      (''bpl.file_stream'', 1), (''bpl.app_launcher'', 1), (''bpl.config'', 1)]"

end
