(* ===== verification/Service_Registry.thy ===== *)
theory Service_Registry
  imports Lib_Constants
begin

text \<open>
  The service registry (\<^verbatim>\<open>protocol/src/registry.rs\<close>): registration, discovery, heartbeats and the
  health check. What a register of named entries promises is stated once, as a locale, and the
  registry interprets it. Times are arguments: \<open>wall\<close> is the wall clock in milliseconds since the
  epoch (\<open>None\<close> when it is set before the epoch, where the sources panic), \<open>now\<close> the monotonic
  clock in milliseconds.
\<close>

subsection \<open>Registers of named entries\<close>

text \<open>
  \<open>add\<close> and \<open>del\<close> say whether they did anything; a taken name is refused, and only the entry that
  is named changes.
\<close>

locale exclusive_register =
  fixes lookup :: "'s \<Rightarrow> 'k \<Rightarrow> 'e option"
    and add :: "'v \<Rightarrow> 's \<Rightarrow> bool \<times> 's"
    and del :: "'k \<Rightarrow> 's \<Rightarrow> bool \<times> 's"
    and name :: "'v \<Rightarrow> 'k"
    and entry :: "'v \<Rightarrow> 'e"
    and inv :: "'s \<Rightarrow> bool"
  assumes add_free: "inv s \<Longrightarrow> lookup s (name v) = None \<Longrightarrow> fst (add v s) \<and> inv (snd (add v s)) \<and>
      lookup (snd (add v s)) k = (if k = name v then Some (entry v) else lookup s k)"
    and add_taken: "inv s \<Longrightarrow> lookup s (name v) \<noteq> None \<Longrightarrow> \<not> fst (add v s) \<and> inv (snd (add v s)) \<and>
      lookup (snd (add v s)) k = lookup s k"
    and del_any: "inv s \<Longrightarrow> (fst (del k s) \<longleftrightarrow> lookup s k \<noteq> None) \<and> inv (snd (del k s)) \<and>
      lookup (snd (del k s)) k' = (if k' = k then None else lookup s k')"
begin

lemma add_iff: "inv s \<Longrightarrow> fst (add v s) \<longleftrightarrow> lookup s (name v) = None"
  using add_free add_taken by metis

lemma add_inv: "inv s \<Longrightarrow> inv (snd (add v s))"
  using add_free add_taken by metis

lemma add_keeps_others: "inv s \<Longrightarrow> k \<noteq> name v \<Longrightarrow> lookup (snd (add v s)) k = lookup s k"
  using add_free add_taken by metis

lemma first_wins: "inv s \<Longrightarrow> name v' = name v \<Longrightarrow> fst (add v s) \<Longrightarrow>
    \<not> fst (add v' (snd (add v s))) \<and> lookup (snd (add v' (snd (add v s)))) (name v) = Some (entry v)"
  using add_free [of s v "name v"] add_taken [OF add_inv, of s v v' "name v"] add_iff [of s v] by simp

lemma del_after_add: "inv s \<Longrightarrow> fst (add v s) \<Longrightarrow>
    fst (del (name v) (snd (add v s))) \<and> lookup (snd (del (name v) (snd (add v s)))) k = lookup s k"
  using add_free [of s v] add_iff [of s v] del_any [OF add_inv [of s v], of "name v" k] by auto

lemma del_twice: "inv s \<Longrightarrow> \<not> fst (del k (snd (del k s)))"
  using del_any by simp

text \<open>A name is present exactly when something was registered under it and not removed since.\<close>

primrec run :: "('v + 'k) list \<Rightarrow> 's \<Rightarrow> 's" where
  "run [] s = s"
| "run (x # xs) s = run xs (case x of Inl v \<Rightarrow> snd (add v s) | Inr k \<Rightarrow> snd (del k s))"

lemma run_inv: "inv s \<Longrightarrow> inv (run xs s)"
proof (induction xs arbitrary: s)
  case Nil
  then show ?case by simp
next
  case (Cons x xs)
  then show ?case
    using add_inv del_any by (cases x) auto
qed

lemma run_append: "run (xs @ ys) s = run ys (run xs s)"
  by (induction xs arbitrary: s) simp_all

lemma run_present:
  assumes "inv s"
  shows "lookup (run xs s) k \<noteq> None \<longleftrightarrow>
    (case rev (filter (\<lambda>x. (case x of Inl v \<Rightarrow> name v | Inr k \<Rightarrow> k) = k) xs) of
       [] \<Rightarrow> lookup s k \<noteq> None | x # _ \<Rightarrow> (\<exists>v. x = Inl v))"
proof (induction xs rule: rev_induct)
  case Nil
  then show ?case by simp
next
  case (snoc x xs)
  note inv = run_inv [OF assms, of xs]
  show ?case
  proof (cases x)
    case (Inl v)
    then show ?thesis
      using snoc add_free [OF inv, of v] add_taken [OF inv, of v] add_keeps_others [OF inv, of k v]
      by (cases "lookup (run xs s) (name v)") (auto simp: run_append)
  next
    case (Inr k')
    then show ?thesis
      using snoc del_any [OF inv, of k' k] by (auto simp: run_append)
  qed
qed

end

subsection \<open>State\<close>

record RegisteredService =
  rs_info :: ServiceInfo
  rs_capability :: ServiceCapability
  rs_channel_id :: u32
  rs_last_heartbeat :: nat
  rs_healthy :: bool

datatype RegistryEvent =
    RE_Registered string
  | RE_Unregistered string
  | RE_HealthChanged string bool
  | RE_HeartbeatMissed string

record ServiceRegistry =
  sr_services :: "(string, RegisteredService) hmap"
  sr_event_tx :: "RegistryEvent sender option"

definition ServiceRegistry_new :: ServiceRegistry where
  "ServiceRegistry_new = \<lparr>sr_services = [], sr_event_tx = None\<rparr>"

definition registry_set_event_sender :: "ServiceRegistry \<Rightarrow> RegistryEvent sender \<Rightarrow> ServiceRegistry" where
  "registry_set_event_sender r tx = r\<lparr>sr_event_tx := Some tx\<rparr>"

definition emit :: "RegistryEvent \<Rightarrow> ServiceRegistry \<Rightarrow> ServiceRegistry" where
  "emit e r = r\<lparr>sr_event_tx := notify (sr_event_tx r) e\<rparr>"

definition timestamp :: "nat option \<Rightarrow> Timestamp result" where
  "timestamp wall = bindR (unwrap wall) (\<lambda>ms. Inr \<lparr>ts_value = of_nat ms\<rparr>)"

subsection \<open>Operations\<close>

definition new_service ::
  "ServiceCapability \<Rightarrow> ChannelConfig \<Rightarrow> Timestamp \<Rightarrow> Timestamp \<Rightarrow> nat \<Rightarrow> RegisteredService" where
  "new_service capability channel_config registered_at last_heartbeat now =
     \<lparr>rs_info =
        \<lparr>si_service_id = cap_service_id capability, si_version = cap_version capability,
         si_name = cap_name capability, si_description = cap_description capability,
         si_channel_id = cc_channel_id channel_config, si_channel_type = cc_type channel_config,
         si_active = True, si_healthy = True, si_registered_at = Some registered_at,
         si_last_heartbeat = Some last_heartbeat, si_metadata = cap_metadata capability,
         si_feature_flags = cap_feature_flags capability\<rparr>,
      rs_capability = capability,
      rs_channel_id = (case cc_channel_id channel_config of None \<Rightarrow> 0 | Some c \<Rightarrow> chid_value c),
      rs_last_heartbeat = now, rs_healthy = True\<rparr>"

definition register_service ::
  "nat option \<Rightarrow> nat option \<Rightarrow> nat \<Rightarrow> ServiceRegistry \<Rightarrow> ServiceRegisterRequest
     \<Rightarrow> ServiceRegisterResponse result \<times> ServiceRegistry" where
  "register_service wall wall' now r request =
     (case ok_or (InvalidServiceConfig ''Missing capability'') (srr_capability request) of
        Inl e \<Rightarrow> (Inl e, r)
      | Inr capability \<Rightarrow>
     (case ok_or (InvalidServiceConfig ''Missing channel config'') (srr_channel_config request) of
        Inl e \<Rightarrow> (Inl e, r)
      | Inr channel_config \<Rightarrow>
     (let service_id = cap_service_id capability in
      if hm_contains (sr_services r) service_id
      then (Inr \<lparr>srs_result = ResultCode_i32 RC_ErrorGeneric,
                 srs_assigned_channel = Some \<lparr>chid_value = 0\<rparr>,
                 srs_error_message = ''Service already registered''\<rparr>, r)
      else
     (case timestamp wall of
        Inl e \<Rightarrow> (Inl e, r)
      | Inr registered_at \<Rightarrow>
     (case timestamp wall' of
        Inl e \<Rightarrow> (Inl e, r)
      | Inr last_heartbeat \<Rightarrow>
         (let service = new_service capability channel_config registered_at last_heartbeat now;
              r = r\<lparr>sr_services := hm_insert service_id service (sr_services r)\<rparr>;
              r = emit (RE_Registered service_id) r
          in (Inr \<lparr>srs_result = ResultCode_i32 RC_Success,
                   srs_assigned_channel = cc_channel_id channel_config,
                   srs_error_message = []\<rparr>, r)))))))"

definition unregister_service ::
  "ServiceRegistry \<Rightarrow> ServiceUnregisterRequest \<Rightarrow> ServiceUnregisterResponse result \<times> ServiceRegistry" where
  "unregister_service r request =
     (let removed = (hm_get (sr_services r) (sur_service_id request) \<noteq> None);
          r = r\<lparr>sr_services := hm_remove (sur_service_id request) (sr_services r)\<rparr>;
          r = emit (RE_Unregistered (sur_service_id request)) r
      in if removed
         then (Inr \<lparr>sus_result = ResultCode_i32 RC_Success, sus_error_message = []\<rparr>, r)
         else (Inr \<lparr>sus_result = ResultCode_i32 RC_ErrorNotFound,
                    sus_error_message = ''Service not found''\<rparr>, r))"

definition discover_matches :: "ServiceDiscoverRequest \<Rightarrow> ServiceInfo \<Rightarrow> bool" where
  "discover_matches request info \<longleftrightarrow>
     \<not> (sdr_service_id request \<noteq> [] \<and> si_service_id info \<noteq> sdr_service_id request) \<and>
     \<not> (sdr_version request > 0 \<and> si_version info \<noteq> sdr_version request) \<and>
     \<not> (\<not> sdr_include_inactive request \<and> \<not> si_active info)"

definition discover_services ::
  "ServiceRegistry \<Rightarrow> ServiceDiscoverRequest \<Rightarrow> ServiceDiscoverResponse result" where
  "discover_services r request =
     Inr \<lparr>sds_result = ResultCode_i32 RC_Success,
          sds_services = filter (discover_matches request) (map rs_info (hm_values (sr_services r))),
          sds_error_message = []\<rparr>"

definition get_service :: "ServiceRegistry \<Rightarrow> string \<Rightarrow> ServiceInfo option" where
  "get_service r service_id = map_option rs_info (hm_get (sr_services r) service_id)"

definition get_capability :: "ServiceRegistry \<Rightarrow> string \<Rightarrow> ServiceCapability option" where
  "get_capability r service_id = map_option rs_capability (hm_get (sr_services r) service_id)"

definition get_channel_id :: "ServiceRegistry \<Rightarrow> string \<Rightarrow> u32 option" where
  "get_channel_id r service_id = map_option rs_channel_id (hm_get (sr_services r) service_id)"

definition handle_heartbeat ::
  "nat option \<Rightarrow> nat \<Rightarrow> ServiceRegistry \<Rightarrow> ServiceHeartbeat
     \<Rightarrow> ServiceHeartbeatResponse result \<times> ServiceRegistry" where
  "handle_heartbeat wall now r heartbeat =
     (let sid = shb_service_id heartbeat in
      case hm_get (sr_services r) sid of
        Some service \<Rightarrow>
         (let service = service\<lparr>rs_last_heartbeat := now\<rparr>;
              service = service\<lparr>rs_healthy := shb_healthy heartbeat\<rparr>;
              service = service\<lparr>rs_info := (rs_info service)\<lparr>si_healthy := shb_healthy heartbeat\<rparr>\<rparr>
          in case timestamp wall of
               Inl e \<Rightarrow> (Inl e, r\<lparr>sr_services := hm_insert sid service (sr_services r)\<rparr>)
             | Inr t \<Rightarrow>
                 (let service = service\<lparr>rs_info := (rs_info service)\<lparr>si_last_heartbeat := Some t\<rparr>\<rparr>;
                      r = r\<lparr>sr_services := hm_insert sid service (sr_services r)\<rparr>;
                      r = (if \<not> shb_healthy heartbeat then emit (RE_HealthChanged sid False) r else r)
                  in (Inr \<lparr>shr_result = ResultCode_i32 RC_Success, shr_acknowledge = True\<rparr>, r)))
      | None \<Rightarrow>
          (Inr \<lparr>shr_result = ResultCode_i32 RC_ErrorNotFound, shr_acknowledge = False\<rparr>, r))"

definition stale :: "nat \<Rightarrow> nat \<Rightarrow> RegisteredService \<Rightarrow> bool" where
  "stale now timeout service \<longleftrightarrow> rs_healthy service \<and> now - rs_last_heartbeat service > timeout"

text \<open>The second loop of \<open>check_health\<close>: mark each listed service and announce it.\<close>

primrec mark_unhealthy :: "string list \<Rightarrow> ServiceRegistry \<Rightarrow> ServiceRegistry" where
  "mark_unhealthy [] r = r"
| "mark_unhealthy (sid # sids) r =
     mark_unhealthy sids
       (case hm_get (sr_services r) sid of
          Some service \<Rightarrow>
            (let service = service\<lparr>rs_healthy := False\<rparr>;
                 service = service\<lparr>rs_info := (rs_info service)\<lparr>si_healthy := False\<rparr>\<rparr>
             in emit (RE_HealthChanged sid False)
                  (r\<lparr>sr_services := hm_insert sid service (sr_services r)\<rparr>))
        | None \<Rightarrow> r)"

definition check_health :: "nat \<Rightarrow> nat \<Rightarrow> ServiceRegistry \<Rightarrow> string list \<times> ServiceRegistry" where
  "check_health now timeout r =
     (let unhealthy = map fst (filter (\<lambda>(sid, service). stale now timeout service) (sr_services r))
      in (unhealthy, mark_unhealthy unhealthy r))"

definition list_services :: "ServiceRegistry \<Rightarrow> ServiceInfo list" where
  "list_services r = map rs_info (hm_values (sr_services r))"

definition service_count :: "ServiceRegistry \<Rightarrow> nat" where
  "service_count r = length (hm_keys (sr_services r))"

subsection \<open>The registry as a register\<close>

type_synonym registration = "ServiceCapability \<times> ChannelConfig \<times> nat \<times> nat \<times> nat"

definition registry_request :: "registration \<Rightarrow> ServiceRegisterRequest" where
  "registry_request v = (case v of (c, cfg, _) \<Rightarrow>
     \<lparr>srr_capability = Some c, srr_channel_config = Some cfg, srr_service_state = []\<rparr>)"

definition registry_add :: "registration \<Rightarrow> ServiceRegistry \<Rightarrow> bool \<times> ServiceRegistry" where
  "registry_add v r = (case v of (c, cfg, w, w', now) \<Rightarrow>
     (case register_service (Some w) (Some w') now r (registry_request v) of
        (Inl _, r') \<Rightarrow> (False, r')
      | (Inr response, r') \<Rightarrow> (srs_result response = ResultCode_i32 RC_Success, r')))"

definition registry_del :: "string \<Rightarrow> ServiceRegistry \<Rightarrow> bool \<times> ServiceRegistry" where
  "registry_del k r =
     (case unregister_service r \<lparr>sur_service_id = k, sur_channel_id = None\<rparr> of
        (Inl _, r') \<Rightarrow> (False, r')
      | (Inr response, r') \<Rightarrow> (sus_result response = ResultCode_i32 RC_Success, r'))"

definition registry_name :: "registration \<Rightarrow> string" where
  "registry_name v = cap_service_id (fst v)"

definition registry_entry :: "registration \<Rightarrow> RegisteredService" where
  "registry_entry v = (case v of (c, cfg, w, w', now) \<Rightarrow>
     new_service c cfg \<lparr>ts_value = of_nat w\<rparr> \<lparr>ts_value = of_nat w'\<rparr> now)"

definition registry_lookup :: "ServiceRegistry \<Rightarrow> string \<Rightarrow> RegisteredService option" where
  "registry_lookup r k = hm_get (sr_services r) k"

definition registry_ok :: "ServiceRegistry \<Rightarrow> bool" where
  "registry_ok r \<longleftrightarrow> hm_wf (sr_services r) \<and>
     (\<forall>k v. hm_get (sr_services r) k = Some v \<longrightarrow>
        si_service_id (rs_info v) = k \<and> cap_service_id (rs_capability v) = k \<and>
        si_healthy (rs_info v) = rs_healthy v \<and> si_active (rs_info v) \<and>
        si_version (rs_info v) = cap_version (rs_capability v))"

lemma in_map_values: "x \<in> set (map f (hm_values m)) \<longleftrightarrow> (\<exists>k v. (k, v) \<in> set m \<and> f v = x)"
  by (force simp: hm_values_def)

lemma emit_services [simp]: "sr_services (emit e r) = sr_services r"
  by (simp add: emit_def)

lemma emit_event_tx [simp]: "sr_event_tx (emit e r) = notify (sr_event_tx r) e"
  by (simp add: emit_def)

lemma registry_ok_emit [simp]: "registry_ok (emit e r) = registry_ok r"
  by (simp add: registry_ok_def)

lemma new_service_fields:
  "si_service_id (rs_info (new_service c cfg t t' now)) = cap_service_id c"
  "rs_capability (new_service c cfg t t' now) = c"
  "si_healthy (rs_info (new_service c cfg t t' now))" "rs_healthy (new_service c cfg t t' now)"
  "si_active (rs_info (new_service c cfg t t' now))"
  "si_version (rs_info (new_service c cfg t t' now)) = cap_version c"
  by (simp_all add: new_service_def)

lemma registry_ok_insert:
  "registry_ok r \<Longrightarrow> si_service_id (rs_info v) = k \<Longrightarrow> cap_service_id (rs_capability v) = k \<Longrightarrow>
   si_healthy (rs_info v) = rs_healthy v \<Longrightarrow> si_active (rs_info v) \<Longrightarrow>
   si_version (rs_info v) = cap_version (rs_capability v) \<Longrightarrow>
   registry_ok (r\<lparr>sr_services := hm_insert k v (sr_services r)\<rparr>)"
  by (simp add: registry_ok_def)

lemma registry_ok_get:
  assumes "registry_ok r" "hm_get (sr_services r) k = Some v"
  shows "si_service_id (rs_info v) = k" "cap_service_id (rs_capability v) = k"
    "si_healthy (rs_info v) = rs_healthy v" "si_active (rs_info v)"
    "si_version (rs_info v) = cap_version (rs_capability v)"
  using assms by (simp_all add: registry_ok_def)

lemma register_service_full:
  "register_service (Some w) (Some w') now r (registry_request (c, cfg, w, w', now)) =
     (if hm_get (sr_services r) (cap_service_id c) \<noteq> None
      then (Inr \<lparr>srs_result = ResultCode_i32 RC_ErrorGeneric,
                 srs_assigned_channel = Some \<lparr>chid_value = 0\<rparr>,
                 srs_error_message = ''Service already registered''\<rparr>, r)
      else (Inr \<lparr>srs_result = ResultCode_i32 RC_Success, srs_assigned_channel = cc_channel_id cfg,
                 srs_error_message = []\<rparr>,
            emit (RE_Registered (cap_service_id c))
              (r\<lparr>sr_services := hm_insert (cap_service_id c) (registry_entry (c, cfg, w, w', now)) (sr_services r)\<rparr>)))"
  by (simp add: register_service_def registry_request_def registry_entry_def timestamp_def Let_def)

lemma registry_add_eq:
  "registry_add v r =
     (if hm_get (sr_services r) (registry_name v) \<noteq> None then (False, r)
      else (True, emit (RE_Registered (registry_name v))
              (r\<lparr>sr_services := hm_insert (registry_name v) (registry_entry v) (sr_services r)\<rparr>)))"
  by (cases v) (simp add: registry_add_def register_service_full registry_name_def)

lemma registry_del_eq:
  "registry_del k r =
     (hm_get (sr_services r) k \<noteq> None,
      emit (RE_Unregistered k) (r\<lparr>sr_services := hm_remove k (sr_services r)\<rparr>))"
  by (simp add: registry_del_def unregister_service_def Let_def)

lemma registry_entry_ok:
  "registry_ok r \<Longrightarrow> registry_ok (r\<lparr>sr_services := hm_insert (registry_name v) (registry_entry v) (sr_services r)\<rparr>)"
  by (cases v) (auto simp: registry_entry_def registry_name_def new_service_fields intro!: registry_ok_insert)

lemma registry_remove_ok:
  "registry_ok r \<Longrightarrow> registry_ok (r\<lparr>sr_services := hm_remove k (sr_services r)\<rparr>)"
  by (simp add: registry_ok_def)

interpretation registry: exclusive_register registry_lookup registry_add registry_del registry_name
  registry_entry registry_ok
  by unfold_locales
    (auto simp: registry_lookup_def registry_add_eq registry_del_eq registry_entry_ok registry_remove_ok
      registry_ok_def [THEN iffD1, THEN conjunct1])

lemma heartbeat_ok: "registry_ok r \<Longrightarrow> registry_ok (snd (handle_heartbeat wall now r hb))"
  using registry_ok_get [of r "shb_service_id hb"]
  by (auto simp: handle_heartbeat_def Let_def intro!: registry_ok_insert split: option.splits sum.splits)

lemma mark_unhealthy_ok: "registry_ok r \<Longrightarrow> registry_ok (mark_unhealthy sids r)"
proof (induction sids arbitrary: r)
  case Nil
  then show ?case by simp
next
  case (Cons sid sids)
  then show ?case
    using registry_ok_get [OF Cons.prems, of sid]
    by (auto simp: Let_def intro!: Cons.IH registry_ok_insert split: option.splits)
qed

lemma register_ok: "registry_ok r \<Longrightarrow> registry_ok (snd (register_service wall wall' now r request))"
  by (auto simp: register_service_def Let_def new_service_fields intro!: registry_ok_insert
      split: sum.splits)

lemma unregister_ok: "registry_ok r \<Longrightarrow> registry_ok (snd (unregister_service r request))"
  by (simp add: unregister_service_def Let_def registry_remove_ok)

text \<open>What marking does to one service: nothing unless it is in the list.\<close>

definition marked :: "RegisteredService \<Rightarrow> RegisteredService" where
  "marked v = v\<lparr>rs_healthy := False, rs_info := (rs_info v)\<lparr>si_healthy := False\<rparr>\<rparr>"

lemma marked_idem [simp]: "marked (marked v) = marked v"
  by (simp add: marked_def)

lemma mark_unhealthy_get:
  "hm_get (sr_services (mark_unhealthy sids r)) k =
     (if k \<in> set sids then map_option marked (hm_get (sr_services r) k) else hm_get (sr_services r) k)"
proof (induction sids arbitrary: r)
  case Nil
  then show ?case by simp
next
  case (Cons sid sids)
  show ?case
    by (cases "hm_get (sr_services r) sid")
      (auto simp: Cons.IH Let_def marked_def [symmetric] option.map_comp comp_def)
qed

lemma stale_ids:
  "hm_wf (sr_services r) \<Longrightarrow> k \<in> set (fst (check_health now timeout r)) \<longleftrightarrow>
     (\<exists>v. hm_get (sr_services r) k = Some v \<and> stale now timeout v)"
  by (auto simp: check_health_def Let_def image_iff hm_wf_mem_iff)

lemma check_health_get:
  assumes "hm_wf (sr_services r)"
  shows "hm_get (sr_services (snd (check_health now timeout r))) k =
    (case hm_get (sr_services r) k of
       None \<Rightarrow> None
     | Some v \<Rightarrow> Some (if stale now timeout v then marked v else v))"
  using stale_ids [OF assms, of k now timeout]
  by (auto simp: check_health_def Let_def mark_unhealthy_get split: option.splits)

subsection \<open>The registry as a state machine\<close>

inductive registry_step :: "ServiceRegistry \<Rightarrow> ServiceRegistry \<Rightarrow> bool" where
  rs_register: "registry_step r (snd (register_service wall wall' now r request))"
| rs_unregister: "registry_step r (snd (unregister_service r request'))"
| rs_heartbeat: "registry_step r (snd (handle_heartbeat wall now r heartbeat))"
| rs_check: "registry_step r (snd (check_health now timeout r))"
| rs_sender: "registry_step r (registry_set_event_sender r tx)"

inductive registry_reachable :: "ServiceRegistry \<Rightarrow> bool" where
  rr_new: "registry_reachable ServiceRegistry_new"
| rr_step: "registry_reachable r \<Longrightarrow> registry_step r r' \<Longrightarrow> registry_reachable r'"

inductive_cases registry_stepE: "registry_step r r'"

lemma registry_step_ok: "registry_step r r' \<Longrightarrow> registry_ok r \<Longrightarrow> registry_ok r'"
  by (erule registry_stepE)
    (auto simp: register_ok unregister_ok heartbeat_ok check_health_def Let_def mark_unhealthy_ok
      registry_set_event_sender_def, simp add: registry_ok_def)

lemma registry_reachable_ok: "registry_reachable r \<Longrightarrow> registry_ok r"
proof (induction rule: registry_reachable.induct)
  case rr_new
  then show ?case
    by (simp add: registry_ok_def ServiceRegistry_new_def)
next
  case (rr_step r r')
  then show ?case
    by (simp add: registry_step_ok)
qed

subsection \<open>Properties of the registry\<close>

text \<open>
  C27. Registering and unregistering: after any sequence of registrations and removals from a reachable
  registry, a service is registered exactly when the last of them that names it was a registration
  (or none did and it was there before). A registration under a free name succeeds, stores exactly
  that service, active and healthy, and leaves the others alone; under a taken name it is refused
  and the first one stays; removing what was registered restores every lookup.
\<close>

theorem registry_lifecycle:
  assumes "registry_reachable r"
  shows "(registry_lookup (registry.run xs r) k \<noteq> None \<longleftrightarrow>
      (case rev (filter (\<lambda>x. (case x of Inl v \<Rightarrow> registry_name v | Inr k \<Rightarrow> k) = k) xs) of
         [] \<Rightarrow> registry_lookup r k \<noteq> None | x # _ \<Rightarrow> (\<exists>v. x = Inl v))) \<and>
    (fst (registry_add v r) \<longleftrightarrow> get_service r (registry_name v) = None) \<and>
    (fst (registry_add v r) \<longrightarrow>
       registry_lookup (snd (registry_add v r)) k =
         (if k = registry_name v then Some (registry_entry v) else registry_lookup r k) \<and>
       registry_lookup (snd (registry_del (registry_name v) (snd (registry_add v r)))) k = registry_lookup r k) \<and>
    (\<not> fst (registry_add v r) \<longrightarrow> snd (registry_add v r) = r)"
proof -
  note ok = registry_reachable_ok [OF assms]
  have "fst (registry_add v r) \<longleftrightarrow> get_service r (registry_name v) = None"
    using registry.add_iff [OF ok] by (simp add: get_service_def registry_lookup_def)
  moreover have "\<not> fst (registry_add v r) \<longrightarrow> snd (registry_add v r) = r"
    by (simp add: registry_add_eq)
  moreover have "fst (registry_add v r) \<longrightarrow> registry_lookup (snd (registry_add v r)) k =
      (if k = registry_name v then Some (registry_entry v) else registry_lookup r k)"
    using registry.add_free [OF ok, of v k] registry.add_iff [OF ok, of v] by auto
  ultimately show ?thesis
    using registry.run_present [OF ok, of xs k] registry.del_after_add [OF ok, of v k] by blast
qed

theorem registry_lifecycle_witness:
  "\<exists>v. registry_name v = ''test.service'' \<and> fst (registry_add v ServiceRegistry_new) \<and>
    registry_lookup (snd (registry_add v ServiceRegistry_new)) ''test.service'' = Some (registry_entry v) \<and>
    registry_lookup (snd (registry_del ''test.service'' (snd (registry_add v ServiceRegistry_new)))) ''test.service'' = None"
proof -
  obtain c :: ServiceCapability where c: "cap_service_id c = ''test.service''"
    by (meson ServiceCapability.select_convs(1))
  obtain cfg :: ChannelConfig where "cc_type cfg = 1"
    by (meson ChannelConfig.select_convs(2))
  let ?v = "(c, cfg, 5, 5, 0)"
  have name: "registry_name ?v = ''test.service''"
    by (simp add: registry_name_def c)
  have "get_service ServiceRegistry_new ''test.service'' = None" "registry_lookup ServiceRegistry_new ''test.service'' = None"
    by (simp_all add: get_service_def registry_lookup_def ServiceRegistry_new_def)
  then have "fst (registry_add ?v ServiceRegistry_new) \<and>
      registry_lookup (snd (registry_add ?v ServiceRegistry_new)) ''test.service'' = Some (registry_entry ?v) \<and>
      registry_lookup (snd (registry_del ''test.service'' (snd (registry_add ?v ServiceRegistry_new)))) ''test.service'' = None"
    using registry_lifecycle [OF rr_new, of "[]" "''test.service''" ?v] by (simp add: name)
  then show ?thesis
    using name by blast
qed

text \<open>
  Discovery: in every reachable registry the answer lists, each once, exactly the registered
  services whose name is the one asked for (when one is) and whose version is the one asked for
  (when it is not 0); asking to include inactive services changes nothing, because a registered
  service is always active.
\<close>

theorem discovery_exact:
  assumes "registry_reachable r" "discover_services r request = Inr response"
  shows "distinct (map si_service_id (sds_services response)) \<and>
    (\<forall>info. info \<in> set (sds_services response) \<longleftrightarrow>
       get_service r (si_service_id info) = Some info \<and>
       (sdr_service_id request = [] \<or> si_service_id info = sdr_service_id request) \<and>
       (sdr_version request = 0 \<or> si_version info = sdr_version request))"
proof -
  note ok = registry_reachable_ok [OF assms(1)]
  then have wf: "hm_wf (sr_services r)"
    by (simp add: registry_ok_def)
  have names: "map si_service_id (map rs_info (hm_values (sr_services r))) = hm_keys (sr_services r)"
    using registry_ok_get(1) [OF ok] wf by (auto simp: hm_values_def hm_keys_def hm_wf_mem_iff)
  have resp: "sds_services response = filter (discover_matches request) (map rs_info (hm_values (sr_services r)))"
    using assms(2) by (auto simp: discover_services_def)
  have filt: "distinct (map si_service_id (filter P xs))" if "distinct (map si_service_id xs)" for P xs
    using that by (induction xs) auto
  have once: "distinct (map si_service_id (sds_services response))"
    unfolding resp by (rule filt) (simp only: names wf [unfolded hm_wf_def])
  have listed: "info \<in> set (sds_services response) \<longleftrightarrow> get_service r (si_service_id info) = Some info \<and>
       (sdr_service_id request = [] \<or> si_service_id info = sdr_service_id request) \<and>
       (sdr_version request = 0 \<or> si_version info = sdr_version request)" for info
  proof -
    have "info \<in> set (map rs_info (hm_values (sr_services r))) \<longleftrightarrow>
        (\<exists>k v. (k, v) \<in> set (sr_services r) \<and> rs_info v = info)"
      by (rule in_map_values)
    also have "\<dots> \<longleftrightarrow> get_service r (si_service_id info) = Some info"
    proof
      assume "\<exists>k v. (k, v) \<in> set (sr_services r) \<and> rs_info v = info"
      then obtain k v where kv: "hm_get (sr_services r) k = Some v" "rs_info v = info"
        using hm_wf_mem_iff [OF wf] by blast
      then have "si_service_id info = k"
        using registry_ok_get(1) [OF ok kv(1)] by simp
      then show "get_service r (si_service_id info) = Some info"
        using kv by (simp add: get_service_def)
    next
      assume "get_service r (si_service_id info) = Some info"
      then obtain v where "hm_get (sr_services r) (si_service_id info) = Some v" "rs_info v = info"
        by (auto simp: get_service_def)
      then show "\<exists>k v. (k, v) \<in> set (sr_services r) \<and> rs_info v = info"
        using hm_wf_mem_iff [OF wf] by blast
    qed
    finally have "info \<in> set (map rs_info (hm_values (sr_services r))) \<longleftrightarrow>
        get_service r (si_service_id info) = Some info" .
    moreover have "si_active info" if "get_service r (si_service_id info) = Some info"
      using that registry_ok_get(4) [OF ok] by (auto simp: get_service_def)
    ultimately show ?thesis
      by (cases "get_service r (si_service_id info) = Some info")
        (auto simp: resp discover_matches_def word_gt_0)
  qed
  show ?thesis
    using once listed by (rule conjI [OF _ allI])
qed

theorem discovery_exact_witness:
  "distinct (map si_service_id []) \<and>
    (\<forall>info. info \<in> set [] \<longleftrightarrow> get_service ServiceRegistry_new (si_service_id info) = Some info \<and>
       ([] = [] \<or> si_service_id info = []) \<and> ((0::u32) = 0 \<or> si_version info = 0))"
  using discovery_exact [OF rr_new, of "\<lparr>sdr_service_id = [], sdr_version = 0, sdr_include_inactive = False\<rparr>"]
  by (simp add: discover_services_def ServiceRegistry_new_def hm_values_def)

text \<open>What a health check does to each service, and what a later heartbeat does.\<close>

lemma check_health_registry:
  assumes "registry_ok r" "check_health now timeout r = (ids, r')"
  shows "registry_ok r'" "distinct ids"
    and "k \<in> set ids \<longleftrightarrow> (\<exists>v. registry_lookup r k = Some v \<and> stale now timeout v)"
    and "registry_lookup r' k = (case registry_lookup r k of None \<Rightarrow> None
      | Some v \<Rightarrow> Some (if stale now timeout v then marked v else v))"
proof -
  have wf: "hm_wf (sr_services r)"
    using assms(1) by (simp add: registry_ok_def)
  have r': "r' = snd (check_health now timeout r)" and ids: "ids = fst (check_health now timeout r)"
    using assms(2) by simp_all
  show "registry_ok r'"
    using assms(1) by (simp add: r' check_health_def Let_def mark_unhealthy_ok)
  show "distinct ids"
    using wf by (simp add: ids check_health_def Let_def hm_wf_def hm_keys_def distinct_map_filter)
  show "k \<in> set ids \<longleftrightarrow> (\<exists>v. registry_lookup r k = Some v \<and> stale now timeout v)"
    using stale_ids [OF wf] by (simp add: ids registry_lookup_def)
  show "registry_lookup r' k = (case registry_lookup r k of None \<Rightarrow> None
      | Some v \<Rightarrow> Some (if stale now timeout v then marked v else v))"
    using check_health_get [OF wf] by (simp add: r' registry_lookup_def)
qed

lemma stale_iff: "stale now timeout v \<longleftrightarrow> rs_healthy v \<and> rs_last_heartbeat v + timeout < now"
  by (auto simp: stale_def)

lemma nothing_stale: "registry_ok r \<Longrightarrow> (\<And>k v. registry_lookup r k = Some v \<Longrightarrow> \<not> stale now timeout v) \<Longrightarrow>
    fst (check_health now timeout r) = []"
  using check_health_registry(3) [of r now timeout "fst (check_health now timeout r)" "snd (check_health now timeout r)"]
  by (metis last_in_set prod.collapse)

lemma heartbeat_refreshes:
  assumes "registry_ok r" "registry_lookup r (shb_service_id hb) = Some v" "shb_healthy hb"
  shows "\<exists>v'. registry_lookup (snd (handle_heartbeat (Some w) now r hb)) (shb_service_id hb) = Some v' \<and> rs_healthy v' \<and>
    shb_service_id hb \<notin> set (fst (check_health now timeout (snd (handle_heartbeat (Some w) now r hb))))"
proof -
  have "hm_wf (sr_services (snd (handle_heartbeat (Some w) now r hb)))"
    using heartbeat_ok [OF assms(1)] by (simp add: registry_ok_def)
  then show ?thesis
    using assms stale_ids [of "snd (handle_heartbeat (Some w) now r hb)" "shb_service_id hb" now timeout]
    by (auto simp: handle_heartbeat_def registry_lookup_def timestamp_def Let_def stale_def)
qed

text \<open>
  C37. The health check: it returns, each once, exactly the healthy services whose last heartbeat is
  older than the timeout, marks them unhealthy both in the entry and in what discovery shows, and
  changes no other service; checking again at once returns nothing; and a healthy heartbeat brings
  a service back.
\<close>

theorem health_check:
  assumes "registry_reachable r" "check_health now timeout r = (ids, r')"
  shows "distinct ids \<and>
    (\<forall>k. k \<in> set ids \<longleftrightarrow> (\<exists>v. registry_lookup r k = Some v \<and> rs_healthy v \<and> rs_last_heartbeat v + timeout < now)) \<and>
    (\<forall>k v. registry_lookup r k = Some v \<longrightarrow>
       (\<exists>v'. registry_lookup r' k = Some v' \<and> rs_healthy v' = (rs_healthy v \<and> k \<notin> set ids) \<and>
          si_healthy (rs_info v') = rs_healthy v' \<and> (k \<notin> set ids \<longrightarrow> v' = v))) \<and>
    fst (check_health now timeout r') = [] \<and>
    (\<forall>k v hb. registry_lookup r' k = Some v \<and> shb_service_id hb = k \<and> shb_healthy hb \<longrightarrow>
       (\<exists>v'. registry_lookup (snd (handle_heartbeat (Some w) now r' hb)) k = Some v' \<and> rs_healthy v' \<and>
          k \<notin> set (fst (check_health now timeout (snd (handle_heartbeat (Some w) now r' hb))))))"
proof -
  note ok = registry_reachable_ok [OF assms(1)]
  note C = check_health_registry [OF ok assms(2)]
  have "fst (check_health now timeout r') = []"
    by (rule nothing_stale [OF C(1)]) (auto simp: C(4) stale_def marked_def split: option.splits if_splits)
  moreover have "\<forall>k v. registry_lookup r k = Some v \<longrightarrow> (\<exists>v'. registry_lookup r' k = Some v' \<and>
      rs_healthy v' = (rs_healthy v \<and> k \<notin> set ids) \<and> si_healthy (rs_info v') = rs_healthy v' \<and> (k \<notin> set ids \<longrightarrow> v' = v))"
    using registry_ok_get(3) [OF ok, folded registry_lookup_def] by (auto simp: C(3,4) marked_def stale_def)
  moreover have "\<forall>k v hb. registry_lookup r' k = Some v \<and> shb_service_id hb = k \<and> shb_healthy hb \<longrightarrow>
      (\<exists>v'. registry_lookup (snd (handle_heartbeat (Some w) now r' hb)) k = Some v' \<and> rs_healthy v' \<and>
         k \<notin> set (fst (check_health now timeout (snd (handle_heartbeat (Some w) now r' hb)))))"
    using heartbeat_refreshes [OF C(1)] by blast
  ultimately show ?thesis
    using C(2,3) by (simp add: stale_iff)
qed

theorem health_check_witness:
  "\<exists>v. let r = snd (registry_add v ServiceRegistry_new); (ids, r') = check_health 500 100 r
    in ids = [registry_name v] \<and> fst (check_health 500 100 r') = []"
proof -
  obtain c :: ServiceCapability and cfg :: ChannelConfig where "cap_version c = 1"
    by (meson ServiceCapability.select_convs(2))
  let ?v = "(c, cfg, 5, 5, 0)"
  let ?r = "snd (registry_add ?v ServiceRegistry_new)"
  have step: "?r = snd (register_service (Some 5) (Some 5) 0 ServiceRegistry_new (registry_request ?v))"
    by (simp add: registry_add_def split: prod.splits sum.splits)
  have reach: "registry_reachable ?r"
    unfolding step by (intro rr_step [OF rr_new] rs_register)
  obtain ids r' where c: "check_health 500 100 ?r = (ids, r')"
    by fastforce
  have "ids = [registry_name ?v]"
    using c by (auto simp: registry_add_eq check_health_def Let_def ServiceRegistry_new_def hm_insert_def
        emit_def stale_def registry_entry_def new_service_def)
  then show ?thesis
    using health_check [OF reach c] c by (intro exI [of _ ?v]) (simp add: Let_def)
qed

end
