(* ===== verification/Service_Framework.thy ===== *)
theory Service_Framework
  imports Service_Registry
begin

text \<open>
  The service framework of the protocol crate (\<^verbatim>\<open>protocol/src/service.rs\<close>): the manager of the
  feature services. A service is a trait object; its state is a value of the type variable \<open>'st\<close>
  and the methods of the trait are the fields of a record that the definitions take as a
  parameter. The context that \<open>init\<close> receives is of the type variable \<open>'ctx\<close>.
\<close>

record ServiceConfig =
  svc_settings :: "(string, string) hmap"
  svc_enabled :: bool

definition ServiceConfig_default :: ServiceConfig where
  "ServiceConfig_default = \<lparr>svc_settings = [], svc_enabled = False\<rparr>"

record ServiceRequest =
  srq_service_id :: string
  srq_channel_id :: u32
  srq_request_id :: u64
  srq_payload :: bytes
  srq_metadata :: "(string, string) hmap"

record ServiceResponse =
  srp_request_id :: u64
  srp_result :: ResultCode
  srp_payload :: bytes
  srp_error_message :: string
  srp_metadata :: "(string, string) hmap"

datatype ServiceEvent =
    SE_SessionOpened
  | SE_SessionClosed
  | SE_ChannelOpened u32
  | SE_ChannelClosed u32
  | SE_CapabilityNegotiated "NegotiatedCapability list"
  | SE_PeerConfigChanged string

record ServiceStatus =
  sst_service_id :: string
  sst_running :: bool
  sst_healthy :: bool
  sst_details :: string

text \<open>The trait: what every service implements.\<close>

record ('st, 'ctx) Service =
  sv_service_id :: "'st \<Rightarrow> string"
  sv_version :: "'st \<Rightarrow> u32"
  sv_name :: "'st \<Rightarrow> string"
  sv_description :: "'st \<Rightarrow> string"
  sv_required :: "'st \<Rightarrow> bool"
  sv_init :: "'ctx \<Rightarrow> 'st \<Rightarrow> unit result \<times> 'st"
  sv_start :: "'st \<Rightarrow> unit result \<times> 'st"
  sv_stop :: "'st \<Rightarrow> unit result \<times> 'st"
  sv_handle_request :: "ServiceRequest \<Rightarrow> 'st \<Rightarrow> ServiceResponse result \<times> 'st"
  sv_handle_event :: "ServiceEvent \<Rightarrow> 'st \<Rightarrow> unit result \<times> 'st"

text \<open>The methods with a default body.\<close>

definition default_required :: "'st \<Rightarrow> bool" where
  "default_required st = False"

definition default_capabilities :: "('st, 'ctx) Service \<Rightarrow> 'st \<Rightarrow> ServiceCapability" where
  "default_capabilities sv st =
     \<lparr>cap_service_id = sv_service_id sv st, cap_version = sv_version sv st, cap_name = sv_name sv st,
      cap_description = sv_description sv st, cap_required = sv_required sv st, cap_metadata = [],
      cap_feature_flags = 0\<rparr>"

definition default_status :: "('st, 'ctx) Service \<Rightarrow> 'st \<Rightarrow> ServiceStatus" where
  "default_status sv st =
     \<lparr>sst_service_id = sv_service_id sv st, sst_running = False, sst_healthy = True,
      sst_details = []\<rparr>"

record ('st, 'ctx) ServiceManager =
  sm_services :: "(string, 'st) hmap"
  sm_context :: "'ctx option"
  sm_event_tx :: "ServiceEvent sender"

definition ServiceManager_new :: "('st, 'ctx) ServiceManager" where
  "ServiceManager_new =
     \<lparr>sm_services = [], sm_context = None,
      sm_event_tx = \<lparr>snd_queue = [], snd_capacity = 100, snd_open = True\<rparr>\<rparr>"

definition set_context :: "('st, 'ctx) ServiceManager \<Rightarrow> 'ctx \<Rightarrow> ('st, 'ctx) ServiceManager" where
  "set_context m context = m\<lparr>sm_context := Some context\<rparr>"

definition manager_register ::
  "('st, 'ctx) Service \<Rightarrow> ('st, 'ctx) ServiceManager \<Rightarrow> 'st \<Rightarrow> unit result \<times> ('st, 'ctx) ServiceManager" where
  "manager_register sv m service =
     (let service_id = sv_service_id sv service in
      if hm_contains (sm_services m) service_id
      then (Inl (Err (ServiceAlreadyRegistered service_id)), m)
      else (Inr (), m\<lparr>sm_services := hm_insert service_id service (sm_services m)\<rparr>))"

definition manager_unregister ::
  "('st, 'ctx) ServiceManager \<Rightarrow> string \<Rightarrow> unit result \<times> ('st, 'ctx) ServiceManager" where
  "manager_unregister m service_id =
     (if hm_get (sm_services m) service_id \<noteq> None
      then (Inr (), m\<lparr>sm_services := hm_remove service_id (sm_services m)\<rparr>)
      else (Inl (Err (ServiceNotRegistered service_id)), m\<lparr>sm_services := hm_remove service_id (sm_services m)\<rparr>))"

definition manager_get_service :: "('st, 'ctx) ServiceManager \<Rightarrow> string \<Rightarrow> 'st option" where
  "manager_get_service m service_id = None"

text \<open>
  A loop over the services that stops at the first error, which it wraps with \<open>wrap\<close> and the id of
  the service. The mutations made before the error stay.
\<close>

primrec try_each ::
  "(string \<Rightarrow> protocol_error \<Rightarrow> protocol_error) \<Rightarrow> ('st \<Rightarrow> unit result \<times> 'st) \<Rightarrow> (string, 'st) hmap
     \<Rightarrow> unit result \<times> (string, 'st) hmap" where
  "try_each wrap f [] = (Inr (), [])"
| "try_each wrap f (kv # rest) =
     (case f (snd kv) of
        (Inl (Err e), st) \<Rightarrow> (Inl (Err (wrap (fst kv) e)), (fst kv, st) # rest)
      | (Inl (Panic msg), st) \<Rightarrow> (Inl (Panic msg), (fst kv, st) # rest)
      | (Inr _, st) \<Rightarrow>
          (case try_each wrap f rest of (r, rest') \<Rightarrow> (r, (fst kv, st) # rest')))"

text \<open>A loop that logs the errors and goes on (a panic stops it).\<close>

primrec visit_each :: "('st \<Rightarrow> unit result \<times> 'st) \<Rightarrow> (string, 'st) hmap \<Rightarrow> unit result \<times> (string, 'st) hmap" where
  "visit_each f [] = (Inr (), [])"
| "visit_each f (kv # rest) =
     (case f (snd kv) of
        (Inl (Panic msg), st) \<Rightarrow> (Inl (Panic msg), (fst kv, st) # rest)
      | (_, st) \<Rightarrow> (case visit_each f rest of (r, rest') \<Rightarrow> (r, (fst kv, st) # rest')))"

text \<open>\<open>map_err(|e| Config(format!("Failed to {} {}: {}", ..)))\<close>\<close>

definition failed_to :: "string \<Rightarrow> (protocol_error \<Rightarrow> string) \<Rightarrow> string \<Rightarrow> protocol_error \<Rightarrow> protocol_error" where
  "failed_to what display sid e = Config (''Failed to '' @ what @ '' '' @ sid @ '': '' @ display e)"

definition init_all ::
  "(protocol_error \<Rightarrow> string) \<Rightarrow> ('st, 'ctx) Service \<Rightarrow> ('st, 'ctx) ServiceManager
     \<Rightarrow> unit result \<times> ('st, 'ctx) ServiceManager" where
  "init_all display sv m =
     (case ok_or (Config ''Service context not set'') (sm_context m) of
        Inl e \<Rightarrow> (Inl e, m)
      | Inr context \<Rightarrow>
          (case try_each (failed_to ''init'' display)
                  (sv_init sv context) (sm_services m) of
             (r, services) \<Rightarrow> (r, m\<lparr>sm_services := services\<rparr>)))"

definition start_all ::
  "(protocol_error \<Rightarrow> string) \<Rightarrow> ('st, 'ctx) Service \<Rightarrow> ('st, 'ctx) ServiceManager
     \<Rightarrow> unit result \<times> ('st, 'ctx) ServiceManager" where
  "start_all display sv m =
     (case try_each (failed_to ''start'' display)
             (sv_start sv) (sm_services m) of
        (r, services) \<Rightarrow> (r, m\<lparr>sm_services := services\<rparr>))"

definition stop_all ::
  "('st, 'ctx) Service \<Rightarrow> ('st, 'ctx) ServiceManager \<Rightarrow> unit result \<times> ('st, 'ctx) ServiceManager" where
  "stop_all sv m =
     (case visit_each (sv_stop sv) (sm_services m) of
        (r, services) \<Rightarrow> (r, m\<lparr>sm_services := services\<rparr>))"

definition manager_handle_request ::
  "('st, 'ctx) Service \<Rightarrow> ('st, 'ctx) ServiceManager \<Rightarrow> ServiceRequest
     \<Rightarrow> ServiceResponse result \<times> ('st, 'ctx) ServiceManager" where
  "manager_handle_request sv m request =
     (case hm_get (sm_services m) (srq_service_id request) of
        Some service \<Rightarrow>
          (case sv_handle_request sv request service of
             (r, service) \<Rightarrow>
               (r, m\<lparr>sm_services := hm_insert (srq_service_id request) service (sm_services m)\<rparr>))
      | None \<Rightarrow>
          (Inr \<lparr>srp_request_id = srq_request_id request, srp_result = RC_ErrorNotFound,
                srp_payload = [],
                srp_error_message = ''Service not found: '' @ srq_service_id request,
                srp_metadata = []\<rparr>, m))"

definition broadcast_event ::
  "('st, 'ctx) Service \<Rightarrow> ('st, 'ctx) ServiceManager \<Rightarrow> ServiceEvent
     \<Rightarrow> unit result \<times> ('st, 'ctx) ServiceManager" where
  "broadcast_event sv m event =
     (case visit_each (sv_handle_event sv event) (sm_services m) of
        (r, services) \<Rightarrow> (r, m\<lparr>sm_services := services\<rparr>))"

definition manager_list_services :: "('st, 'ctx) ServiceManager \<Rightarrow> string list" where
  "manager_list_services m = hm_keys (sm_services m)"

definition manager_service_count :: "('st, 'ctx) ServiceManager \<Rightarrow> nat" where
  "manager_service_count m = length (hm_keys (sm_services m))"

subsection \<open>The loops\<close>

lemma try_each_keys: "hm_keys (snd (try_each wrap f m)) = hm_keys m"
  by (induction m) (auto simp: hm_keys_def split: prod.splits sum.splits failure.splits)

lemma visit_each_keys: "hm_keys (snd (visit_each f m)) = hm_keys m"
  by (induction m) (auto simp: hm_keys_def split: prod.splits sum.splits failure.splits)

text \<open>The first service at which \<open>f\<close> fails splits the services into three parts.\<close>

lemma try_each_ok:
  "\<forall>kv \<in> set m. isl (fst (f (snd kv))) = False \<Longrightarrow>
     try_each wrap f m = (Inr (), map (\<lambda>kv. (fst kv, snd (f (snd kv)))) m)"
proof (induction m)
  case Nil
  then show ?case by simp
next
  case (Cons kv m)
  then show ?case
    by (cases "f (snd kv)") (auto simp: isl_def split: sum.splits)
qed

lemma try_each_split:
  assumes "\<forall>kv \<in> set before. isl (fst (f (snd kv))) = False" "fst (f st) = Inl (Err e)"
  shows "try_each wrap f (before @ (k, st) # after) =
    (Inl (Err (wrap k e)), map (\<lambda>kv. (fst kv, snd (f (snd kv)))) before @ (k, snd (f st)) # after)"
  using assms
proof (induction before)
  case Nil
  then show ?case
    by (cases "f st") simp
next
  case (Cons kv before)
  then show ?case
    by (cases "f (snd kv)") (auto simp: isl_def split: sum.splits)
qed

lemma visit_each_all:
  "\<forall>kv \<in> set m. \<forall>msg. fst (f (snd kv)) \<noteq> Inl (Panic msg) \<Longrightarrow>
     visit_each f m = (Inr (), map (\<lambda>kv. (fst kv, snd (f (snd kv)))) m)"
proof (induction m)
  case Nil
  then show ?case by simp
next
  case (Cons kv m)
  then show ?case
    by (cases "f (snd kv)") (auto split: sum.splits failure.splits)
qed

subsection \<open>The manager as a register\<close>

definition manager_lookup :: "('st, 'ctx) ServiceManager \<Rightarrow> string \<Rightarrow> 'st option" where
  "manager_lookup m k = hm_get (sm_services m) k"

definition manager_ok :: "('st, 'ctx) Service \<Rightarrow> ('st, 'ctx) ServiceManager \<Rightarrow> bool" where
  "manager_ok sv m \<longleftrightarrow> hm_wf (sm_services m)"

definition succeeded :: "'a result \<Rightarrow> bool" where
  "succeeded r = (\<not> isl r)"

interpretation manager: exclusive_register manager_lookup
    "\<lambda>st m. map_prod succeeded id (manager_register sv m st)"
    "\<lambda>k m. map_prod succeeded id (manager_unregister m k)"
    "sv_service_id sv" "\<lambda>st. st" "manager_ok sv" for sv
  by unfold_locales
    (auto simp: manager_lookup_def manager_register_def manager_unregister_def manager_ok_def
      succeeded_def Let_def)

subsection \<open>Properties of the manager\<close>

lemma first_failure:
  assumes "\<forall>x \<in> set xs. \<forall>msg. g x \<noteq> Inl (Panic msg)"
  obtains (all) "\<forall>x \<in> set xs. \<not> isl (g x)"
  | (first) before x after e where "xs = before @ x # after" "\<forall>y \<in> set before. \<not> isl (g y)" "g x = Inl (Err e)"
proof (cases "\<exists>x \<in> set xs. isl (g x)")
  case True
  then obtain before x after where split: "xs = before @ x # after" "isl (g x)" "\<forall>y \<in> set before. \<not> isl (g y)"
    using split_list_first_prop [of xs "\<lambda>x. isl (g x)"] by blast
  then obtain f where "g x = Inl f"
    by (auto simp: isl_def)
  then obtain e where "g x = Inl (Err e)"
    using assms split(1) by (cases f) auto
  then show thesis
    using first split by blast
next
  case False
  then show thesis
    using all by blast
qed

lemma map_values_get:
  "hm_get (map (\<lambda>kv. (fst kv, g (snd kv))) m) k = map_option g (hm_get m k)"
  by (induction m) (auto simp: hm_get_def)

text \<open>
  Initialisation of the services, for services that do not panic: without a context it is an error
  and nothing happens. With one, either every service was initialised with it and the call
  succeeds, or the call stops at the first service that fails and names it: the services before it
  are initialised, the ones behind it are untouched. Whatever happens, the same services stay
  registered.
\<close>

theorem init_all_outcome:
  assumes "\<forall>ctx st msg. fst (sv_init sv ctx st) \<noteq> Inl (Panic msg)"
  shows "manager_list_services (snd (init_all display sv m)) = manager_list_services m \<and>
    (case sm_context m of
       None \<Rightarrow> init_all display sv m = (Inl (Err (Config ''Service context not set'')), m)
     | Some ctx \<Rightarrow>
        (\<exists>m'. init_all display sv m = (Inr (), m') \<and>
           (\<forall>k. manager_lookup m' k = map_option (\<lambda>st. snd (sv_init sv ctx st)) (manager_lookup m k)) \<and>
           (\<forall>(k, st) \<in> set (sm_services m). fst (sv_init sv ctx st) = Inr ())) \<or>
        (\<exists>before k st e after. sm_services m = before @ (k, st) # after \<and>
           (\<forall>(k', st') \<in> set before. fst (sv_init sv ctx st') = Inr ()) \<and>
           fst (sv_init sv ctx st) = Inl (Err e) \<and>
           init_all display sv m =
             (Inl (Err (failed_to ''init'' display k e)),
              m\<lparr>sm_services := map (\<lambda>kv. (fst kv, snd (sv_init sv ctx (snd kv)))) before @
                (k, snd (sv_init sv ctx st)) # after\<rparr>)))"
proof (cases "sm_context m")
  case None
  then show ?thesis
    by (simp add: init_all_def)
next
  case (Some ctx)
  let ?f = "sv_init sv ctx" and ?wrap = "failed_to ''init'' display"
  have keys: "manager_list_services (snd (init_all display sv m)) = manager_list_services m"
    using Some try_each_keys [of ?wrap ?f "sm_services m"]
    by (simp add: init_all_def manager_list_services_def split_def)
  have unit: "fst (?f st) = Inr () \<longleftrightarrow> \<not> isl (fst (?f st))" for st
    by (cases "fst (?f st)") simp_all
  have np: "\<forall>kv \<in> set (sm_services m). \<forall>msg. fst (?f (snd kv)) \<noteq> Inl (Panic msg)"
    using assms by simp
  from np show ?thesis
  proof (cases rule: first_failure)
    case all
    then have "try_each ?wrap ?f (sm_services m) = (Inr (), map (\<lambda>kv. (fst kv, snd (?f (snd kv)))) (sm_services m))"
      by (intro try_each_ok) simp
    then show ?thesis
      using Some all keys map_values_get [of "\<lambda>st. snd (?f st)" "sm_services m"]
      by (auto simp: init_all_def manager_lookup_def unit)
  next
    case (first before kv after e)
    then have "try_each ?wrap ?f (sm_services m) = (Inl (Err (?wrap (fst kv) e)),
        map (\<lambda>kv. (fst kv, snd (?f (snd kv)))) before @ (fst kv, snd (?f (snd kv))) # after)"
      using try_each_split [of before ?f "snd kv" e ?wrap "fst kv" after] by simp
    moreover have "\<forall>(k', st') \<in> set before. fst (?f st') = Inr ()"
      using first(2) by (auto simp: unit)
    ultimately show ?thesis
      using Some first(1,3) keys
      by (cases kv) (auto simp: init_all_def intro!: exI [of _ before])
  qed
qed

text \<open>A service that counts its calls, to evaluate the definitions with: its state is a name and a number.\<close>

definition counting_service :: "(string \<times> nat, unit) Service" where
  "counting_service =
     \<lparr>sv_service_id = fst, sv_version = \<lambda>_. 1, sv_name = fst, sv_description = fst,
      sv_required = default_required, sv_init = \<lambda>_ st. (Inr (), (fst st, Suc (snd st))),
      sv_start = \<lambda>st. (Inl (Err Cancelled), st), sv_stop = \<lambda>st. (Inl (Err Cancelled), (fst st, 0)),
      sv_handle_request = \<lambda>r st. (Inr \<lparr>srp_request_id = srq_request_id r, srp_result = RC_Success,
         srp_payload = srq_payload r, srp_error_message = [], srp_metadata = []\<rparr>, (fst st, Suc (snd st))),
      sv_handle_event = \<lambda>e st. (Inr (), (fst st, Suc (snd st)))\<rparr>"

theorem init_all_outcome_witness:
  "\<exists>m'. init_all (\<lambda>_. []) counting_service
      ((set_context ServiceManager_new ())\<lparr>sm_services := [(''a'', (''a'', 0)), (''b'', (''b'', 3))]\<rparr>) = (Inr (), m') \<and>
    manager_lookup m' ''b'' = Some (''b'', 4)"
  using init_all_outcome [of counting_service "\<lambda>_. []"
      "(set_context ServiceManager_new ())\<lparr>sm_services := [(''a'', (''a'', 0)), (''b'', (''b'', 3))]\<rparr>"]
  by (auto simp: counting_service_def set_context_def manager_lookup_def hm_get_def)

text \<open>
  Requests reach the service they name and no other: its handler runs once, its answer is the
  answer, every other service stays as it was; a name that is not registered is answered with
  \<open>ErrorNotFound\<close> and the request's own number, changing nothing. Stopping and broadcasting succeed
  and reach every service exactly once, also behind one that reports an error.
\<close>

theorem requests_and_events_routed:
  assumes "hm_wf (sm_services m)"
    and "\<forall>st msg. fst (sv_stop sv st) \<noteq> Inl (Panic msg)" "\<forall>e st msg. fst (sv_handle_event sv e st) \<noteq> Inl (Panic msg)"
  shows "(case manager_lookup m (srq_service_id request) of
      Some st \<Rightarrow> fst (manager_handle_request sv m request) = fst (sv_handle_request sv request st)
    | None \<Rightarrow> (\<exists>response. manager_handle_request sv m request = (Inr response, m) \<and>
        srp_request_id response = srq_request_id request \<and> srp_result response = RC_ErrorNotFound)) \<and>
    (\<forall>k. manager_lookup (snd (manager_handle_request sv m request)) k =
       (if k = srq_service_id request
        then map_option (\<lambda>st. snd (sv_handle_request sv request st)) (manager_lookup m k)
        else manager_lookup m k)) \<and>
    fst (stop_all sv m) = Inr () \<and> fst (broadcast_event sv m event) = Inr () \<and>
    (\<forall>k. manager_lookup (snd (stop_all sv m)) k = map_option (\<lambda>st. snd (sv_stop sv st)) (manager_lookup m k)) \<and>
    (\<forall>k. manager_lookup (snd (broadcast_event sv m event)) k =
       map_option (\<lambda>st. snd (sv_handle_event sv event st)) (manager_lookup m k))"
proof -
  have "visit_each f (sm_services m) = (Inr (), map (\<lambda>kv. (fst kv, snd (f (snd kv)))) (sm_services m))"
    if "f = sv_stop sv \<or> f = sv_handle_event sv event" for f
    using that assms(2,3) by (intro visit_each_all) auto
  then have loops: "stop_all sv m = (Inr (), m\<lparr>sm_services := map (\<lambda>kv. (fst kv, snd (sv_stop sv (snd kv)))) (sm_services m)\<rparr>)"
    "broadcast_event sv m event =
      (Inr (), m\<lparr>sm_services := map (\<lambda>kv. (fst kv, snd (sv_handle_event sv event (snd kv)))) (sm_services m)\<rparr>)"
    by (simp_all add: stop_all_def broadcast_event_def)
  have request: "(case manager_lookup m (srq_service_id request) of
      Some st \<Rightarrow> fst (manager_handle_request sv m request) = fst (sv_handle_request sv request st)
    | None \<Rightarrow> (\<exists>response. manager_handle_request sv m request = (Inr response, m) \<and>
        srp_request_id response = srq_request_id request \<and> srp_result response = RC_ErrorNotFound))"
    by (auto simp: manager_lookup_def manager_handle_request_def split: option.splits prod.splits)
  have states: "manager_lookup (snd (manager_handle_request sv m request)) k =
       (if k = srq_service_id request
        then map_option (\<lambda>st. snd (sv_handle_request sv request st)) (manager_lookup m k)
        else manager_lookup m k)" for k
    by (auto simp: manager_lookup_def manager_handle_request_def split: option.splits prod.splits)
  show ?thesis
    using request states map_values_get [of "\<lambda>st. snd (sv_stop sv st)" "sm_services m"]
      map_values_get [of "\<lambda>st. snd (sv_handle_event sv event st)" "sm_services m"]
    by (simp add: loops manager_lookup_def)
qed

theorem requests_and_events_routed_witness:
  "let m = ServiceManager_new\<lparr>sm_services := [(''a'', (''a'', 0)), (''b'', (''b'', 3))]\<rparr>;
       (r, m') = manager_handle_request counting_service m
         \<lparr>srq_service_id = ''b'', srq_channel_id = 1, srq_request_id = 9, srq_payload = [1], srq_metadata = []\<rparr>
   in manager_lookup m' ''b'' = Some (''b'', 4) \<and> manager_lookup m' ''a'' = Some (''a'', 0) \<and>
     fst (stop_all counting_service m) = Inr ()"
proof -
  let ?m = "ServiceManager_new\<lparr>sm_services := [(''a'', (''a'', 0)), (''b'', (''b'', 3))]\<rparr>"
  let ?r = "\<lparr>srq_service_id = ''b'', srq_channel_id = 1, srq_request_id = 9, srq_payload = [1], srq_metadata = []\<rparr>"
  have "hm_wf (sm_services ?m)" "\<forall>st msg. fst (sv_stop counting_service st) \<noteq> Inl (Panic msg)"
    "\<forall>e st msg. fst (sv_handle_event counting_service e st) \<noteq> Inl (Panic msg)"
    by (simp_all add: hm_wf_def hm_keys_def counting_service_def)
  note R = requests_and_events_routed [OF this, of ?r SE_SessionOpened]
  have "sv_handle_request counting_service ?r (''b'', 3) =
      (Inr \<lparr>srp_request_id = 9, srp_result = RC_Success, srp_payload = [1], srp_error_message = [],
            srp_metadata = []\<rparr>, (''b'', 4))"
    by (simp add: counting_service_def)
  then show ?thesis
    using R by (simp add: split_def Let_def manager_lookup_def hm_get_def)
qed

end
