(* ===== verification/Frame_Wire.thy ===== *)
theory Frame_Wire
  imports Lib_Constants
begin

text \<open>
  The frame codec of \<^verbatim>\<open>protocol/src/frame.rs\<close>: the 30-byte header, flags, checksum and sequence
  number of a frame on the wire (\<open>encode\<close>, \<open>decode\<close>), fragmentation and reassembly, and the
  builders of the control frames. The checksum (crate \<^verbatim>\<open>crc32fast\<close>) and the message encoder
  (crate \<^verbatim>\<open>prost\<close>) are parameters. \<open>frame_bytes\<close> and \<open>wf_frame\<close> are the abstract wire format
  that the codec is shown to implement.
\<close>

unbundle bit_operations_syntax

subsection \<open>State\<close>

record Frame =
  fr_header :: FrameHeader
  fr_payload :: bytes
  fr_auth_tag :: bytes

record FrameFragment =
  frag_header :: FrameHeader
  frag_payload :: bytes
  frag_fragment_index :: u32
  frag_total_fragments :: u32

record FrameCodec =
  fc_max_payload_size :: nat
  fc_rx_sequence :: u64
  fc_tx_sequence :: u64
  fc_rx_fragments :: "FrameFragment list"
  fc_tx_fragments :: "FrameFragment list"

definition FrameCodec_new :: "nat \<Rightarrow> FrameCodec" where
  "FrameCodec_new max_payload_size =
     \<lparr>fc_max_payload_size = min max_payload_size MAX_FRAME_PAYLOAD_SIZE,
      fc_rx_sequence = 0, fc_tx_sequence = 0, fc_rx_fragments = [], fc_tx_fragments = []\<rparr>"

definition FrameCodec_default :: FrameCodec where
  "FrameCodec_default = FrameCodec_new (unat DEFAULT_MAX_FRAME_SIZE)"

subsection \<open>Flags and checksum\<close>

definition set_bit_if :: "bool \<Rightarrow> nat \<Rightarrow> u8 \<Rightarrow> u8" where
  "set_bit_if c k byte = (if c then byte OR push_bit k 1 else byte)"

definition pack_flags :: "FrameFlags \<Rightarrow> u8" where
  "pack_flags flags =
     (let byte = 0;
          byte = set_bit_if (ff_is_fragment flags) 0 byte;
          byte = set_bit_if (ff_is_last_fragment flags) 1 byte;
          byte = set_bit_if (ff_encrypted flags) 2 byte;
          byte = set_bit_if (ff_authenticated flags) 3 byte;
          byte = set_bit_if (ff_compressed flags) 4 byte;
          byte = set_bit_if (ff_priority flags) 5 byte;
          byte = set_bit_if (ff_ack_required flags) 6 byte;
          byte = set_bit_if (ff_reset_sequence flags) 7 byte
      in byte)"

definition unpack_flags :: "u8 \<Rightarrow> FrameFlags" where
  "unpack_flags byte =
     \<lparr>ff_is_fragment = (byte AND push_bit 0 1 \<noteq> 0),
      ff_is_last_fragment = (byte AND push_bit 1 1 \<noteq> 0),
      ff_encrypted = (byte AND push_bit 2 1 \<noteq> 0),
      ff_authenticated = (byte AND push_bit 3 1 \<noteq> 0),
      ff_compressed = (byte AND push_bit 4 1 \<noteq> 0),
      ff_priority = (byte AND push_bit 5 1 \<noteq> 0),
      ff_ack_required = (byte AND push_bit 6 1 \<noteq> 0),
      ff_reset_sequence = (byte AND push_bit 7 1 \<noteq> 0),
      ff_retransmission = False\<rparr>"

definition calculate_header_crc :: "(bytes \<Rightarrow> u32) \<Rightarrow> FrameHeader \<Rightarrow> u32 result" where
  "calculate_header_crc crc header =
     bindR (unwrap (fh_flags header)) (\<lambda>flags.
     bindR (unwrap (fh_channel_id header)) (\<lambda>channel_id.
     bindR (unwrap (fh_sequence header)) (\<lambda>sequence.
       Inr (crc (le_bytes 4 (fh_magic header) @ le_bytes 4 (fh_version header) @
         [ucast (fh_type header)] @ [pack_flags flags] @ le_bytes 4 (chid_value channel_id) @
         le_bytes 8 (seqn_value sequence) @ le_bytes 4 (fh_payload_length header))))))"

definition calculate_header_crc_raw :: "(bytes \<Rightarrow> u32) \<Rightarrow> bytes \<Rightarrow> u32" where
  "calculate_header_crc_raw crc header_bytes = crc (take 26 header_bytes)"

subsection \<open>Encoding and decoding\<close>

definition encode :: "(bytes \<Rightarrow> u32) \<Rightarrow> FrameCodec \<Rightarrow> Frame \<Rightarrow> bytes result \<times> FrameCodec" where
  "encode crc codec frame =
     (let header = (fr_header frame)\<lparr>fh_sequence := Some \<lparr>seqn_value = fc_tx_sequence codec\<rparr>\<rparr>;
          codec = codec\<lparr>fc_tx_sequence := fc_tx_sequence codec + 1\<rparr>;
          header = header\<lparr>fh_payload_length := of_nat (length (fr_payload frame))\<rparr>
      in (bindR (calculate_header_crc crc header) (\<lambda>c.
            let header = header\<lparr>fh_header_crc := c\<rparr> in
            bindR (unwrap (fh_flags header)) (\<lambda>flags.
              Inr (le_bytes 4 MAGIC_NUMBER @ le_bytes 4 (fh_version header) @
                [ucast (fh_type header)] @ [pack_flags flags] @
                le_bytes 4 (case fh_channel_id header of None \<Rightarrow> 0 | Some c \<Rightarrow> chid_value c) @
                le_bytes 8 (case fh_sequence header of None \<Rightarrow> 0 | Some s \<Rightarrow> seqn_value s) @
                le_bytes 4 (fh_payload_length header) @ le_bytes 4 (fh_header_crc header) @
                fr_payload frame @ fr_auth_tag frame))),
          codec))"

definition MIN_FRAME_SIZE :: nat where
  "MIN_FRAME_SIZE = 30 + 16"

definition decode ::
  "(bytes \<Rightarrow> u32) \<Rightarrow> FrameCodec \<Rightarrow> bytes \<Rightarrow> Frame option result \<times> FrameCodec \<times> bytes" where
  "decode crc codec buf =
     (if length buf < MIN_FRAME_SIZE then (Inr None, codec, buf)
      else let magic = from_le (slice 0 4 buf) in
      if magic \<noteq> MAGIC_NUMBER then (Inl (Err (InvalidMagic MAGIC_NUMBER magic)), codec, buf)
      else let version = from_le (slice 4 8 buf) in
      case FrameType_try_from (ucast (buf ! 8)) of
        None \<Rightarrow> (Inl (Err (UnknownFrameType (buf ! 8))), codec, buf)
      | Some frame_type \<Rightarrow>
         (let flags_byte = buf ! 9;
              channel_id = from_le (slice 10 14 buf);
              sequence = from_le (slice 14 22 buf);
              payload_length = from_le (slice 22 26 buf);
              header_crc = from_le (slice 26 30 buf);
              total_size = 30 + unat payload_length + 16
          in if length buf < total_size then (Inr None, codec, buf)
          else let calc_crc = calculate_header_crc_raw crc (take 30 buf) in
          if calc_crc \<noteq> header_crc
          then (Inl (Err (ChecksumMismatch header_crc calc_crc)), codec, buf)
          else
            (let payload_end = 30 + unat payload_length;
                 payload = slice 30 payload_end buf;
                 auth_tag = slice payload_end (payload_end + 16) buf;
                 buf = drop total_size buf
             in if sequence < fc_rx_sequence codec
                then (Inl (Err (ReplayDetected sequence)), codec, buf)
                else
                  (Inr (Some
                     \<lparr>fr_header =
                        \<lparr>fh_magic = magic, fh_version = version,
                         fh_type = FrameType_i32 frame_type,
                         fh_flags = Some (unpack_flags flags_byte),
                         fh_channel_id = Some \<lparr>chid_value = channel_id\<rparr>,
                         fh_sequence = Some \<lparr>seqn_value = sequence\<rparr>,
                         fh_payload_length = payload_length, fh_header_crc = header_crc\<rparr>,
                      fr_payload = payload, fr_auth_tag = auth_tag\<rparr>),
                   codec\<lparr>fc_rx_sequence := sequence\<rparr>, buf))))"

definition next_tx_sequence :: "FrameCodec \<Rightarrow> u64 \<times> FrameCodec" where
  "next_tx_sequence codec =
     (fc_tx_sequence codec, codec\<lparr>fc_tx_sequence := fc_tx_sequence codec + 1\<rparr>)"

definition reset_sequences :: "FrameCodec \<Rightarrow> FrameCodec" where
  "reset_sequences codec = codec\<lparr>fc_rx_sequence := 0, fc_tx_sequence := 0\<rparr>"

subsection \<open>Fragmentation and reassembly\<close>

definition data_header :: "FrameType \<Rightarrow> u32 \<Rightarrow> FrameFlags \<Rightarrow> u64 \<Rightarrow> nat \<Rightarrow> FrameHeader" where
  "data_header frame_type channel_id flags tx len =
     \<lparr>fh_magic = MAGIC_NUMBER, fh_version = 0x00010000, fh_type = FrameType_i32 frame_type,
      fh_flags = Some flags, fh_channel_id = Some \<lparr>chid_value = channel_id\<rparr>,
      fh_sequence = Some \<lparr>seqn_value = tx\<rparr>, fh_payload_length = of_nat len, fh_header_crc = 0\<rparr>"

text \<open>The loop over the chunks: its index, and the sequence number it advances.\<close>

primrec fragment_frames ::
  "FrameType \<Rightarrow> u32 \<Rightarrow> FrameFlags \<Rightarrow> nat \<Rightarrow> nat \<Rightarrow> u64 \<Rightarrow> bytes list \<Rightarrow> Frame list \<times> u64" where
  "fragment_frames frame_type channel_id flags total_fragments i tx [] = ([], tx)"
| "fragment_frames frame_type channel_id flags total_fragments i tx (chunk # rest) =
     (let frag_flags = flags\<lparr>ff_is_fragment := True, ff_is_last_fragment := (i = total_fragments - 1)\<rparr>;
          frame = \<lparr>fr_header = data_header frame_type channel_id frag_flags tx (length chunk),
                   fr_payload = chunk, fr_auth_tag = []\<rparr>;
          (frames, tx') = fragment_frames frame_type channel_id flags total_fragments (Suc i) (tx + 1) rest
      in (frame # frames, tx'))"

definition encode_fragment ::
  "(bytes \<Rightarrow> u32) \<Rightarrow> FrameCodec \<Rightarrow> FrameType \<Rightarrow> u32 \<Rightarrow> bytes \<Rightarrow> FrameFlags
     \<Rightarrow> Frame list result \<times> FrameCodec" where
  "encode_fragment crc codec frame_type channel_id payload flags =
     (let max = fc_max_payload_size codec in
      if length payload \<le> max
      then (let frame = \<lparr>fr_header = data_header frame_type channel_id flags
                            (fc_tx_sequence codec) (length payload),
                         fr_payload = payload, fr_auth_tag = []\<rparr>;
                (encoded, codec) = encode crc codec frame
            in (bindR encoded (\<lambda>_. Inr [frame]), codec))
      else if max = 0 then (Inl (Panic ''attempt to divide by zero''), codec)
      else (let total_fragments = (length payload + max - 1) div max;
                (frames, tx) = fragment_frames frame_type channel_id flags total_fragments 0
                   (fc_tx_sequence codec) (chunks max payload)
            in (Inr frames, codec\<lparr>fc_tx_sequence := tx\<rparr>)))"

text \<open>\<open>position\<close> over the buffered fragments; its predicate unwraps each one's channel.\<close>

primrec fragment_position :: "u32 \<Rightarrow> FrameFragment list \<Rightarrow> nat option result" where
  "fragment_position ch [] = Inr None"
| "fragment_position ch (f # fs) =
     bindR (unwrap (fh_channel_id (frag_header f))) (\<lambda>c.
       if chid_value c = ch then Inr (Some 0)
       else bindR (fragment_position ch fs) (\<lambda>r. Inr (map_option Suc r)))"

definition remove_at :: "nat \<Rightarrow> 'a list \<Rightarrow> 'a list" where
  "remove_at i xs = take i xs @ drop (Suc i) xs"

definition reassemble_fragment :: "FrameCodec \<Rightarrow> Frame \<Rightarrow> Frame option result \<times> FrameCodec" where
  "reassemble_fragment codec frame =
     (case fh_flags (fr_header frame) of
        None \<Rightarrow> (Inl (Panic ''unwrap on None''), codec)
      | Some flags \<Rightarrow>
         if \<not> ff_is_fragment flags then (Inr (Some frame), codec)
         else
           (case (fh_channel_id (fr_header frame), fh_sequence (fr_header frame)) of
              (Some channel, Some sequence) \<Rightarrow>
                (case fragment_position (chid_value channel) (fc_rx_fragments codec) of
                   Inl e \<Rightarrow> (Inl e, codec)
                 | Inr (Some idx) \<Rightarrow>
                    (let fragment = fc_rx_fragments codec ! idx;
                         fragment = fragment\<lparr>frag_payload := frag_payload fragment @ fr_payload frame\<rparr>;
                         codec = codec\<lparr>fc_rx_fragments := (fc_rx_fragments codec)[idx := fragment]\<rparr>
                     in if ff_is_last_fragment flags
                        then
                          (let complete = (frag_header fragment)
                                 \<lparr>fh_payload_length := of_nat (length (frag_payload fragment)),
                                  fh_flags := Some (FrameFlags_default
                                    \<lparr>ff_is_fragment := False, ff_is_last_fragment := False\<rparr>)\<rparr>
                           in (Inr (Some \<lparr>fr_header = complete, fr_payload = frag_payload fragment,
                                          fr_auth_tag = fr_auth_tag frame\<rparr>),
                               codec\<lparr>fc_rx_fragments := remove_at idx (fc_rx_fragments codec)\<rparr>))
                        else (Inr None, codec))
                 | Inr None \<Rightarrow>
                    (Inr None,
                     codec\<lparr>fc_rx_fragments := fc_rx_fragments codec @
                       [\<lparr>frag_header = fr_header frame, frag_payload = fr_payload frame,
                         frag_fragment_index = 0, frag_total_fragments = 0\<rparr>]\<rparr>))
            | _ \<Rightarrow> (Inl (Panic ''unwrap on None''), codec)))"

subsection \<open>Control frames\<close>

definition build_control_frame ::
  "('m \<Rightarrow> string + bytes) \<Rightarrow> FrameType \<Rightarrow> 'm \<Rightarrow> u32 \<Rightarrow> u64 \<Rightarrow> Frame result" where
  "build_control_frame enc frame_type payload channel_id sequence =
     (case enc payload of
        Inl e \<Rightarrow> Inl (Err (from_encode_error e))
      | Inr buf \<Rightarrow> Inr
         \<lparr>fr_header =
            \<lparr>fh_magic = MAGIC_NUMBER, fh_version = 0x00010000, fh_type = FrameType_i32 frame_type,
             fh_flags = Some
               \<lparr>ff_is_fragment = False, ff_is_last_fragment = False, ff_encrypted = False,
                ff_authenticated = True, ff_compressed = False, ff_priority = False,
                ff_ack_required = True, ff_reset_sequence = False, ff_retransmission = False\<rparr>,
             fh_channel_id = Some \<lparr>chid_value = channel_id\<rparr>,
             fh_sequence = Some \<lparr>seqn_value = sequence\<rparr>,
             fh_payload_length = of_nat (length buf), fh_header_crc = 0\<rparr>,
          fr_payload = buf, fr_auth_tag = []\<rparr>)"

definition build_session_open_request ::
  "(SessionOpenRequest \<Rightarrow> string + bytes) \<Rightarrow> SessionOpenRequest \<Rightarrow> u64 \<Rightarrow> Frame result" where
  "build_session_open_request enc request sequence =
     build_control_frame enc FT_SessionOpen request CONTROL_CHANNEL_ID sequence"

definition build_session_open_response ::
  "(SessionOpenResponse \<Rightarrow> string + bytes) \<Rightarrow> SessionOpenResponse \<Rightarrow> u64 \<Rightarrow> Frame result" where
  "build_session_open_response enc response sequence =
     build_control_frame enc FT_SessionOpenAck response CONTROL_CHANNEL_ID sequence"

definition build_keepalive :: "(KeepAlive \<Rightarrow> string + bytes) \<Rightarrow> u64 \<Rightarrow> u64 \<Rightarrow> Frame result" where
  "build_keepalive enc sequence timestamp =
     build_control_frame enc FT_Keepalive
       \<lparr>ka_timestamp = Some \<lparr>ts_value = timestamp\<rparr>, ka_sequence = ucast sequence\<rparr>
       CONTROL_CHANNEL_ID sequence"

definition build_capability_negotiate ::
  "(CapabilityNegotiateRequest \<Rightarrow> string + bytes) \<Rightarrow> CapabilityNegotiateRequest \<Rightarrow> u64
     \<Rightarrow> Frame result" where
  "build_capability_negotiate enc request sequence =
     build_control_frame enc FT_CapabilityNegotiate request CONTROL_CHANNEL_ID sequence"

definition build_auth_challenge ::
  "(AuthChallenge \<Rightarrow> string + bytes) \<Rightarrow> AuthChallenge \<Rightarrow> u64 \<Rightarrow> Frame result" where
  "build_auth_challenge enc challenge sequence =
     build_control_frame enc FT_AuthChallenge challenge CONTROL_CHANNEL_ID sequence"

definition build_auth_response ::
  "(AuthResponse \<Rightarrow> string + bytes) \<Rightarrow> AuthResponse \<Rightarrow> u64 \<Rightarrow> Frame result" where
  "build_auth_response enc response sequence =
     build_control_frame enc FT_AuthResponse response CONTROL_CHANNEL_ID sequence"

definition build_channel_open_request ::
  "(ChannelOpenRequest \<Rightarrow> string + bytes) \<Rightarrow> ChannelOpenRequest \<Rightarrow> u64 \<Rightarrow> Frame result" where
  "build_channel_open_request enc request sequence =
     build_control_frame enc FT_ChannelOpen request CONTROL_CHANNEL_ID sequence"

definition build_flow_control_update ::
  "(FlowControlUpdate \<Rightarrow> string + bytes) \<Rightarrow> FlowControlUpdate \<Rightarrow> u64 \<Rightarrow> Frame result" where
  "build_flow_control_update enc update sequence =
     build_control_frame enc FT_FlowControl update CONTROL_CHANNEL_ID sequence"


subsection \<open>The wire format\<close>

text \<open>The bytes of a frame, as the format table of the README lays them out.\<close>

definition header_bytes :: "FrameHeader \<Rightarrow> bytes" where
  "header_bytes h =
     le_bytes 4 (fh_magic h) @ le_bytes 4 (fh_version h) @ [ucast (fh_type h)] @
     [pack_flags (the (fh_flags h))] @ le_bytes 4 (chid_value (the (fh_channel_id h))) @
     le_bytes 8 (seqn_value (the (fh_sequence h))) @ le_bytes 4 (fh_payload_length h)"

definition frame_bytes :: "Frame \<Rightarrow> bytes" where
  "frame_bytes f = header_bytes (fr_header f) @ le_bytes 4 (fh_header_crc (fr_header f)) @
     fr_payload f @ fr_auth_tag f"

definition frame_sequence :: "Frame \<Rightarrow> u64" where
  "frame_sequence f = seqn_value (the (fh_sequence (fr_header f)))"

definition wf_header :: "FrameHeader \<Rightarrow> bool" where
  "wf_header h \<longleftrightarrow> fh_magic h = MAGIC_NUMBER \<and> FrameType_try_from (fh_type h) \<noteq> None \<and>
     fh_flags h \<noteq> None \<and> \<not> ff_retransmission (the (fh_flags h)) \<and>
     fh_channel_id h \<noteq> None \<and> fh_sequence h \<noteq> None"

definition wf_frame :: "(bytes \<Rightarrow> u32) \<Rightarrow> Frame \<Rightarrow> bool" where
  "wf_frame crc f \<longleftrightarrow> wf_header (fr_header f) \<and>
     unat (fh_payload_length (fr_header f)) = length (fr_payload f) \<and>
     length (fr_auth_tag f) = 16 \<and> fh_header_crc (fr_header f) = crc (header_bytes (fr_header f))"

lemma length_header_bytes [simp, bytes_simps]: "length (header_bytes h) = 26"
  by (simp add: header_bytes_def)

lemma length_frame_bytes:
  "length (frame_bytes f) = 30 + length (fr_payload f) + length (fr_auth_tag f)"
  by (simp add: frame_bytes_def)

lemma FrameType_u8 [simp]: "ucast (ucast (FrameType_i32 t) :: u8) = FrameType_i32 t"
  by (cases t) simp_all

lemma ucast_u8_i32 [simp]: "ucast (ucast (x :: u8) :: i32) = x"
  by (rule bit_word_eqI) (simp add: bit_simps)

lemma bit_set_bit_if: "k < 8 \<Longrightarrow> bit (set_bit_if c k b) n \<longleftrightarrow> c \<and> n = k \<or> bit b n"
  by (auto simp: set_bit_if_def bit_simps)

lemma bit_pack_flags:
  "bit (pack_flags f) k \<longleftrightarrow>
     ff_reset_sequence f \<and> k = 7 \<or> ff_ack_required f \<and> k = 6 \<or> ff_priority f \<and> k = 5 \<or>
     ff_compressed f \<and> k = 4 \<or> ff_authenticated f \<and> k = 3 \<or> ff_encrypted f \<and> k = 2 \<or>
     ff_is_last_fragment f \<and> k = 1 \<or> ff_is_fragment f \<and> k = 0"
  by (simp add: pack_flags_def Let_def bit_set_bit_if)

lemma unpack_flags_bits:
  "unpack_flags byte =
     \<lparr>ff_is_fragment = bit byte 0, ff_is_last_fragment = bit byte 1, ff_encrypted = bit byte 2,
      ff_authenticated = bit byte 3, ff_compressed = bit byte 4, ff_priority = bit byte 5,
      ff_ack_required = bit byte 6, ff_reset_sequence = bit byte 7, ff_retransmission = False\<rparr>"
  by (simp only: unpack_flags_def bit_iff_and_push_bit_not_eq_0)

lemma unpack_pack_flags:
  "unpack_flags (pack_flags f) = f\<lparr>ff_retransmission := False\<rparr>"
  by (cases f) (simp add: unpack_flags_bits bit_pack_flags)

lemma pack_unpack_flags: "pack_flags (unpack_flags b) = b"
proof (rule bit_word_eqI)
  fix k :: nat
  assume "k < LENGTH(8)"
  then have "k \<in> {0, 1, 2, 3, 4, 5, 6, 7}"
    by auto
  then show "bit (pack_flags (unpack_flags b)) k = bit b k"
    by (auto simp: bit_pack_flags unpack_flags_bits)
qed


text \<open>Where the fields of a header sit in the buffer, and how a buffer splits into them.\<close>

lemma header_slices:
  assumes "buf = le_bytes 4 m @ le_bytes 4 v @ [t] @ [g] @ le_bytes 4 c @ le_bytes 8 s @
    le_bytes 4 p @ le_bytes 4 k @ after"
  shows "slice 0 4 buf = le_bytes 4 m" "slice 4 8 buf = le_bytes 4 v" "buf ! 8 = t" "buf ! 9 = g"
    "slice 10 14 buf = le_bytes 4 c" "slice 14 22 buf = le_bytes 8 s"
    "slice 22 26 buf = le_bytes 4 p" "slice 26 30 buf = le_bytes 4 k" "drop 30 buf = after"
    "take 26 buf = le_bytes 4 m @ le_bytes 4 v @ [t] @ [g] @ le_bytes 4 c @ le_bytes 8 s @ le_bytes 4 p"
  by (simp_all add: assms slice_def nth_append)

lemma buffer_split:
  assumes "30 + n + 16 \<le> length buf"
  shows "buf = slice 0 4 buf @ slice 4 8 buf @ [buf ! 8] @ [buf ! 9] @ slice 10 14 buf @
    slice 14 22 buf @ slice 22 26 buf @ slice 26 30 buf @ slice 30 (30 + n) buf @
    slice (30 + n) (30 + n + 16) buf @ drop (30 + n + 16) buf"
proof -
  have "take (30 + n + 16) buf = take (30 + n) buf @ slice (30 + n) (30 + n + 16) buf"
    "take (30 + n) buf = take 30 buf @ slice 30 (30 + n) buf"
    "take 30 buf = take 26 buf @ slice 26 30 buf" "take 26 buf = take 22 buf @ slice 22 26 buf"
    "take 22 buf = take 14 buf @ slice 14 22 buf" "take 14 buf = take 10 buf @ slice 10 14 buf"
    "take 10 buf = take 9 buf @ slice 9 10 buf" "take 9 buf = take 8 buf @ slice 8 9 buf"
    "take 8 buf = take 4 buf @ slice 4 8 buf" "take 4 buf = take 0 buf @ slice 0 4 buf"
    by (rule take_slice; simp)+
  then have "take (30 + n + 16) buf = slice 0 4 buf @ slice 4 8 buf @ slice 8 9 buf @
      slice 9 10 buf @ slice 10 14 buf @ slice 14 22 buf @ slice 22 26 buf @ slice 26 30 buf @
      slice 30 (30 + n) buf @ slice (30 + n) (30 + n + 16) buf"
    by (simp only: take_0 append_Nil append.assoc)
  moreover have "slice 8 9 buf = [buf ! 8]" "slice 9 10 buf = [buf ! 9]"
    using assms slice_nth [of 8 buf] slice_nth [of 9 buf] by simp_all
  ultimately show ?thesis
    using append_take_drop_id [of "30 + n + 16" buf] by (metis append.assoc)
qed

text \<open>One complete frame at the front of the buffer: the three ways its decoding can end.\<close>

definition parsed_frame :: "u32 \<Rightarrow> FrameType \<Rightarrow> u8 \<Rightarrow> u32 \<Rightarrow> u64 \<Rightarrow> u32 \<Rightarrow> u32 \<Rightarrow> bytes \<Rightarrow> bytes \<Rightarrow> Frame" where
  "parsed_frame v t g c s p k payload tag =
     \<lparr>fr_header =
        \<lparr>fh_magic = MAGIC_NUMBER, fh_version = v, fh_type = FrameType_i32 t,
         fh_flags = Some (unpack_flags g), fh_channel_id = Some \<lparr>chid_value = c\<rparr>,
         fh_sequence = Some \<lparr>seqn_value = s\<rparr>, fh_payload_length = p, fh_header_crc = k\<rparr>,
      fr_payload = payload, fr_auth_tag = tag\<rparr>"

lemma frame_bytes_parsed:
  "frame_bytes (parsed_frame v t g c s p k payload tag) =
     le_bytes 4 MAGIC_NUMBER @ le_bytes 4 v @ [ucast (FrameType_i32 t)] @ [g] @ le_bytes 4 c @
     le_bytes 8 s @ le_bytes 4 p @ le_bytes 4 k @ payload @ tag"
  by (simp add: frame_bytes_def header_bytes_def parsed_frame_def pack_unpack_flags)

lemma decode_parts:
  assumes "unat p = length payload" and "length tag = 16"
    and "buf = frame_bytes (parsed_frame v t g c s p k payload tag) @ rest"
  shows "decode crc codec buf =
    (if crc (take 26 buf) \<noteq> k
     then (Inl (Err (ChecksumMismatch k (crc (take 26 buf)))), codec, buf)
     else if s < fc_rx_sequence codec then (Inl (Err (ReplayDetected s)), codec, rest)
     else (Inr (Some (parsed_frame v t g c s p k payload tag)),
           codec\<lparr>fc_rx_sequence := s\<rparr>, rest))"
proof -
  have buf: "buf = le_bytes 4 MAGIC_NUMBER @ le_bytes 4 v @ [ucast (FrameType_i32 t)] @ [g] @
      le_bytes 4 c @ le_bytes 8 s @ le_bytes 4 p @ le_bytes 4 k @ (payload @ tag @ rest)"
    using assms(3) by (simp add: frame_bytes_parsed)
  note fields = header_slices [OF buf] le32.get_put le64.get_put
  have len: "length buf = 30 + unat p + 16 + length rest"
    using assms by (simp add: buf)
  have after: "drop (30 + unat p) buf = tag @ rest"
    using drop_drop [of "unat p" 30 buf] assms(1) by (simp add: fields(9) add.commute)
  have tail: "slice 30 (30 + unat p) buf = payload"
    "slice (30 + unat p) (30 + unat p + 16) buf = tag" "drop (30 + unat p + 16) buf = rest"
    using assms(1,2) after drop_drop [of 16 "30 + unat p" buf]
    by (simp_all add: slice_def fields(9) add.commute add.left_commute)
  show ?thesis
    unfolding decode_def MIN_FRAME_SIZE_def calculate_header_crc_raw_def
    using len by (simp add: fields tail tail [simplified] FrameType_enum.try_from_to_i32 parsed_frame_def Let_def)
qed

lemma wf_parsed_frame:
  assumes "wf_frame crc f"
  obtains v t g c s p k payload tag where "f = parsed_frame v t g c s p k payload tag"
    "unat p = length payload" "length tag = 16" "crc (take 26 (frame_bytes f @ rest)) = k"
    "frame_sequence f = s"
proof -
  let ?h = "fr_header f"
  from assms have wf: "wf_header ?h" by (simp add: wf_frame_def)
  obtain t where "FrameType_try_from (fh_type ?h) = Some t"
    using wf by (auto simp: wf_header_def)
  then have t: "fh_type ?h = FrameType_i32 t"
    by (simp add: FrameType_enum.try_from_iff)
  obtain fl ch sq where opts: "fh_flags ?h = Some fl" "fh_channel_id ?h = Some ch"
      "fh_sequence ?h = Some sq" "\<not> ff_retransmission fl" "fh_magic ?h = MAGIC_NUMBER"
    using wf by (auto simp: wf_header_def)
  have "f = parsed_frame (fh_version ?h) t (pack_flags fl) (chid_value ch) (seqn_value sq)
      (fh_payload_length ?h) (fh_header_crc ?h) (fr_payload f) (fr_auth_tag f)"
    using opts t by (cases f; cases fl) (simp add: parsed_frame_def unpack_pack_flags)
  moreover have "crc (take 26 (frame_bytes f @ rest)) = fh_header_crc ?h"
    using assms by (simp add: wf_frame_def frame_bytes_def)
  ultimately show thesis
    using assms opts by (intro that) (auto simp: wf_frame_def frame_sequence_def)
qed

lemma decode_frame_bytes:
  assumes "wf_frame crc f"
  shows "decode crc codec (frame_bytes f @ rest) =
    (if frame_sequence f < fc_rx_sequence codec
     then (Inl (Err (ReplayDetected (frame_sequence f))), codec, rest)
     else (Inr (Some f), codec\<lparr>fc_rx_sequence := frame_sequence f\<rparr>, rest))"
proof -
  obtain v t g c s p k payload tag where f: "f = parsed_frame v t g c s p k payload tag"
    "unat p = length payload" "length tag = 16" "crc (take 26 (frame_bytes f @ rest)) = k"
    "frame_sequence f = s"
    by (rule wf_parsed_frame [OF assms])
  show ?thesis
    using decode_parts [OF f(2,3), of "frame_bytes f @ rest" v t g c s k rest crc codec] f(4,5)
    by (simp add: f(1))
qed

lemma decode_SomeD:
  assumes "decode crc codec buf = (Inr (Some f), codec', rest)"
  shows "wf_frame crc f" and "buf = frame_bytes f @ rest"
    and "\<not> frame_sequence f < fc_rx_sequence codec"
    and "codec' = codec\<lparr>fc_rx_sequence := frame_sequence f\<rparr>"
proof -
  let ?p = "from_le (slice 22 26 buf) :: u32"
  have len: "30 + unat ?p + 16 \<le> length buf" "46 \<le> length buf"
    using assms by (auto simp: decode_def MIN_FRAME_SIZE_def Let_def split: if_splits option.splits)
  have magic: "from_le (slice 0 4 buf) = MAGIC_NUMBER"
    using assms by (auto simp: decode_def Let_def split: if_splits)
  obtain t where t: "FrameType_try_from (ucast (buf ! 8)) = Some t"
    using assms by (auto simp: decode_def Let_def split: if_splits option.splits)
  then have tb: "ucast (FrameType_i32 t) = buf ! 8"
    by (simp add: FrameType_enum.try_from_iff)
  let ?f = "parsed_frame (from_le (slice 4 8 buf)) t (buf ! 9) (from_le (slice 10 14 buf))
    (from_le (slice 14 22 buf)) ?p (from_le (slice 26 30 buf)) (slice 30 (30 + unat ?p) buf)
    (slice (30 + unat ?p) (30 + unat ?p + 16) buf)"
  have buf: "buf = frame_bytes ?f @ drop (30 + unat ?p + 16) buf"
    using buffer_split [OF len(1)] len
    by (simp add: frame_bytes_parsed tb le32.put_get le64.put_get length_slice flip: magic)
  have parts: "unat ?p = length (slice 30 (30 + unat ?p) buf)"
    "length (slice (30 + unat ?p) (30 + unat ?p + 16) buf) = 16"
    using len by (simp_all add: length_slice)
  note D = decode_parts [OF parts buf, of crc codec, unfolded assms]
  from D have f: "f = ?f" "rest = drop (30 + unat ?p + 16) buf"
    and seq: "\<not> (from_le (slice 14 22 buf) :: u64) < fc_rx_sequence codec"
    and crc: "crc (take 26 buf) = from_le (slice 26 30 buf)"
    and codec: "codec' = codec\<lparr>fc_rx_sequence := from_le (slice 14 22 buf)\<rparr>"
    by (auto split: if_splits)
  show b: "buf = frame_bytes f @ rest"
    unfolding f by (rule buf)
  have "take 26 buf = header_bytes (fr_header f)"
    by (subst b) (simp add: frame_bytes_def)
  then show "wf_frame crc f"
    using crc parts by (simp add: f(1) wf_frame_def wf_header_def parsed_frame_def
        FrameType_enum.try_from_to_i32 unpack_flags_def)
  show "\<not> frame_sequence f < fc_rx_sequence codec"
    "codec' = codec\<lparr>fc_rx_sequence := frame_sequence f\<rparr>"
    using seq codec by (simp_all add: f(1) frame_sequence_def parsed_frame_def)
qed

lemma decode_NoneD:
  "decode crc codec buf = (Inr None, codec', rest) \<Longrightarrow> codec' = codec \<and> rest = buf"
  by (auto simp: decode_def Let_def split: if_splits option.splits)

lemma decode_Some_iff:
  "decode crc codec buf = (Inr (Some f), codec', rest) \<longleftrightarrow>
     wf_frame crc f \<and> buf = frame_bytes f @ rest \<and> \<not> frame_sequence f < fc_rx_sequence codec \<and>
     codec' = codec\<lparr>fc_rx_sequence := frame_sequence f\<rparr>"
  using decode_SomeD [of crc codec buf f codec' rest] by (auto simp: decode_frame_bytes)

lemma decode_extend:
  "decode crc codec buf = (Inr (Some f), codec', rest) \<Longrightarrow>
     decode crc codec (buf @ data) = (Inr (Some f), codec', rest @ data)"
  by (simp add: decode_Some_iff)

lemma decode_progress:
  "decode crc codec buf = (Inr (Some f), codec', rest) \<Longrightarrow> length rest + 46 \<le> length buf"
  by (auto simp: decode_Some_iff length_frame_bytes wf_frame_def)

lemma frame_bytes_unambiguous:
  assumes "wf_frame crc f" "wf_frame crc g" "frame_bytes f @ xs = frame_bytes g @ ys"
  shows "f = g \<and> xs = ys"
  using decode_frame_bytes [OF assms(1), of "FrameCodec_new 0" xs]
    decode_frame_bytes [OF assms(2), of "FrameCodec_new 0" ys] assms(3)
  by (simp add: FrameCodec_new_def)

text \<open>What the encoder puts on the wire: the frame with its header completed.\<close>

definition stamp :: "(bytes \<Rightarrow> u32) \<Rightarrow> u64 \<Rightarrow> Frame \<Rightarrow> Frame" where
  "stamp crc sequence f =
     (let h = (fr_header f)\<lparr>fh_magic := MAGIC_NUMBER,
                fh_flags := map_option (\<lambda>x. x\<lparr>ff_retransmission := False\<rparr>) (fh_flags (fr_header f)),
                fh_sequence := Some \<lparr>seqn_value = sequence\<rparr>,
                fh_payload_length := of_nat (length (fr_payload f))\<rparr>
      in f\<lparr>fr_header := h\<lparr>fh_header_crc := crc (header_bytes h)\<rparr>\<rparr>)"

definition sendable :: "Frame \<Rightarrow> bool" where
  "sendable f \<longleftrightarrow> fh_magic (fr_header f) = MAGIC_NUMBER \<and>
     FrameType_try_from (fh_type (fr_header f)) \<noteq> None \<and> fh_flags (fr_header f) \<noteq> None \<and>
     fh_channel_id (fr_header f) \<noteq> None \<and> length (fr_payload f) < 2 ^ 32"

lemma pack_flags_retransmission [simp]: "pack_flags (x\<lparr>ff_retransmission := b\<rparr>) = pack_flags x"
  by (simp add: pack_flags_def)

lemma header_bytes_crc [simp]: "header_bytes (h\<lparr>fh_header_crc := c\<rparr>) = header_bytes h"
  by (simp add: header_bytes_def)

lemma encode_sendable:
  assumes "sendable f"
  shows "encode crc codec f =
    (Inr (frame_bytes (stamp crc (fc_tx_sequence codec) f)),
     codec\<lparr>fc_tx_sequence := fc_tx_sequence codec + 1\<rparr>)"
  using assms
  by (auto simp: encode_def calculate_header_crc_def sendable_def stamp_def frame_bytes_def
      header_bytes_def Let_def)

lemma encode_unset_header:
  "fh_flags (fr_header f) = None \<or> fh_channel_id (fr_header f) = None \<Longrightarrow>
     fst (encode crc codec f) = Inl (Panic ''unwrap on None'')"
  by (cases "fh_flags (fr_header f)") (auto simp: encode_def calculate_header_crc_def Let_def)

lemma wf_stamp: "sendable f \<Longrightarrow> length (fr_auth_tag f) = 16 \<Longrightarrow> wf_frame crc (stamp crc s f)"
  by (auto simp: wf_frame_def wf_header_def sendable_def stamp_def Let_def unat_of_nat)

lemma frame_sequence_stamp [simp]: "frame_sequence (stamp crc s f) = s"
  by (simp add: stamp_def frame_sequence_def Let_def)

lemma stamp_payload [simp]:
  "fr_payload (stamp crc s f) = fr_payload f" "fr_auth_tag (stamp crc s f) = fr_auth_tag f"
  by (simp_all add: stamp_def Let_def)


subsection \<open>Reassembly of fragments\<close>

text \<open>Feeding a list of received frames to \<open>reassemble_fragment\<close>, stopping at the first failure.\<close>

primrec reassemble_all :: "FrameCodec \<Rightarrow> Frame list \<Rightarrow> Frame option list result \<times> FrameCodec" where
  "reassemble_all codec [] = (Inr [], codec)"
| "reassemble_all codec (f # fs) =
     (case reassemble_fragment codec f of
        (Inl e, codec') \<Rightarrow> (Inl e, codec')
      | (Inr r, codec') \<Rightarrow>
         (case reassemble_all codec' fs of
            (Inl e, codec'') \<Rightarrow> (Inl e, codec'')
          | (Inr rs, codec'') \<Rightarrow> (Inr (r # rs), codec'')))"

definition fragment_of :: "u32 \<Rightarrow> bool \<Rightarrow> Frame \<Rightarrow> bool" where
  "fragment_of ch final f \<longleftrightarrow>
     (\<exists>flags. fh_flags (fr_header f) = Some flags \<and> ff_is_fragment flags \<and> ff_is_last_fragment flags = final) \<and>
     fh_channel_id (fr_header f) = Some \<lparr>chid_value = ch\<rparr> \<and> fh_sequence (fr_header f) \<noteq> None"

definition reassembled :: "FrameHeader \<Rightarrow> bytes \<Rightarrow> bytes \<Rightarrow> Frame" where
  "reassembled h payload tag =
     \<lparr>fr_header = h\<lparr>fh_payload_length := of_nat (length payload), fh_flags := Some FrameFlags_default\<rparr>,
      fr_payload = payload, fr_auth_tag = tag\<rparr>"

lemma reassemble_unfragmented:
  "fh_flags (fr_header f) = Some flags \<Longrightarrow> \<not> ff_is_fragment flags \<Longrightarrow>
     reassemble_fragment codec f = (Inr (Some f), codec)"
  by (simp add: reassemble_fragment_def)

lemma fragment_position_snoc:
  "fragment_position ch fs = Inr None \<Longrightarrow>
   fh_channel_id (frag_header f) = Some \<lparr>chid_value = ch\<rparr> \<Longrightarrow>
   fragment_position ch (fs @ [f]) = Inr (Some (length fs))"
  by (induction fs) (auto simp: bindR_Inr_iff split: if_splits)

lemma remove_at_length [simp]: "remove_at (length xs) (xs @ [x]) = xs"
  by (simp add: remove_at_def)

lemma default_flags_update [simp]:
  "FrameFlags_default\<lparr>ff_is_fragment := False, ff_is_last_fragment := False\<rparr> = FrameFlags_default"
  by (simp add: FrameFlags_default_def)

lemma reassemble_first:
  assumes "fragment_of ch final f" "fragment_position ch (fc_rx_fragments codec) = Inr None"
  shows "reassemble_fragment codec f =
    (Inr None, codec\<lparr>fc_rx_fragments := fc_rx_fragments codec @
       [\<lparr>frag_header = fr_header f, frag_payload = fr_payload f, frag_fragment_index = 0,
         frag_total_fragments = 0\<rparr>]\<rparr>)"
  using assms by (auto simp: reassemble_fragment_def fragment_of_def)

lemma reassemble_next:
  assumes "fragment_of ch final f" "fragment_position ch frags = Inr None"
    and "fh_channel_id (frag_header p) = Some \<lparr>chid_value = ch\<rparr>"
  shows "reassemble_fragment (codec\<lparr>fc_rx_fragments := frags @ [p]\<rparr>) f =
    (if final
     then (Inr (Some (reassembled (frag_header p) (frag_payload p @ fr_payload f) (fr_auth_tag f))),
           codec\<lparr>fc_rx_fragments := frags\<rparr>)
     else (Inr None,
           codec\<lparr>fc_rx_fragments := frags @ [p\<lparr>frag_payload := frag_payload p @ fr_payload f\<rparr>]\<rparr>))"
  using assms
  by (auto simp: reassemble_fragment_def fragment_of_def fragment_position_snoc reassembled_def)

lemma reassemble_rest:
  assumes "fragment_position ch frags = Inr None" "\<forall>f \<in> set mids. fragment_of ch False f"
    "fragment_of ch True l"
  shows "fh_channel_id (frag_header p) = Some \<lparr>chid_value = ch\<rparr> \<Longrightarrow>
    reassemble_all (codec\<lparr>fc_rx_fragments := frags @ [p]\<rparr>) (mids @ [l]) =
    (Inr (replicate (length mids) None @ [Some (reassembled (frag_header p)
       (frag_payload p @ concat (map fr_payload (mids @ [l]))) (fr_auth_tag l))]),
     codec\<lparr>fc_rx_fragments := frags\<rparr>)"
  using assms(2)
proof (induction mids arbitrary: p)
  case Nil
  then show ?case
    using assms by (simp add: reassemble_next)
next
  case (Cons m mids)
  let ?p = "p\<lparr>frag_payload := frag_payload p @ fr_payload m\<rparr>"
  have "fh_channel_id (frag_header ?p) = Some \<lparr>chid_value = ch\<rparr>"
    using Cons.prems by simp
  then have IH: "reassemble_all (codec\<lparr>fc_rx_fragments := frags @ [?p]\<rparr>) (mids @ [l]) =
    (Inr (replicate (length mids) None @ [Some (reassembled (frag_header p)
       (frag_payload ?p @ concat (map fr_payload (mids @ [l]))) (fr_auth_tag l))]),
     codec\<lparr>fc_rx_fragments := frags\<rparr>)"
    using Cons.IH [of ?p] Cons.prems by simp
  have "reassemble_fragment (codec\<lparr>fc_rx_fragments := frags @ [p]\<rparr>) m =
      (Inr None, codec\<lparr>fc_rx_fragments := frags @ [?p]\<rparr>)"
    using reassemble_next [of ch False m frags p codec] assms(1) Cons.prems by simp
  with IH show ?case
    by simp
qed

lemma reassemble_run:
  assumes "fragment_position ch (fc_rx_fragments codec) = Inr None"
    and "fragment_of ch False f" "\<forall>f \<in> set mids. fragment_of ch False f" "fragment_of ch True l"
  shows "reassemble_all codec (f # mids @ [l]) =
    (Inr (replicate (Suc (length mids)) None @ [Some (reassembled (fr_header f)
       (concat (map fr_payload (f # mids @ [l]))) (fr_auth_tag l))]), codec)"
proof -
  let ?p = "\<lparr>frag_header = fr_header f, frag_payload = fr_payload f, frag_fragment_index = 0,
    frag_total_fragments = 0\<rparr>"
  have "fh_channel_id (frag_header ?p) = Some \<lparr>chid_value = ch\<rparr>"
    using assms(2) by (simp add: fragment_of_def)
  note rest = reassemble_rest [OF assms(1,3,4) this, of codec]
  show ?thesis
    using rest by (simp add: reassemble_first [OF assms(2,1)])
qed

text \<open>The frames a payload is cut into.\<close>

lemma fragment_frames_payloads:
  "map fr_payload (fst (fragment_frames ft ch fl n i tx cs)) = cs"
  by (induction cs arbitrary: i tx) (simp_all add: Let_def split_def)

lemma fragment_frames_tags:
  "f \<in> set (fst (fragment_frames ft ch fl n i tx cs)) \<Longrightarrow> fr_auth_tag f = []"
  by (induction cs arbitrary: i tx) (auto simp: Let_def split_def)

lemma fragment_frames_snd: "snd (fragment_frames ft ch fl n i tx cs) = tx + of_nat (length cs)"
  by (induction cs arbitrary: i tx) (simp_all add: Let_def split_def)

lemma length_fragment_frames: "length (fst (fragment_frames ft ch fl n i tx cs)) = length cs"
  using fragment_frames_payloads [of ft ch fl n i tx cs] length_map by metis

lemma fragment_frames_nth:
  "j < length cs \<Longrightarrow> fst (fragment_frames ft ch fl n i tx cs) ! j =
     \<lparr>fr_header = data_header ft ch (fl\<lparr>ff_is_fragment := True, ff_is_last_fragment := (i + j = n - 1)\<rparr>)
        (tx + of_nat j) (length (cs ! j)), fr_payload = cs ! j, fr_auth_tag = []\<rparr>"
  by (induction cs arbitrary: i tx j)
    (auto simp: Let_def split_def nth_Cons' less_Suc_eq_0_disj add.assoc)

lemma split_first_last: "2 \<le> length xs \<Longrightarrow> \<exists>x ms y. xs = x # ms @ [y]"
proof -
  assume "2 \<le> length xs"
  then obtain x zs where "xs = x # zs" "zs \<noteq> []"
    by (cases xs) fastforce+
  then show ?thesis
    by (metis append_butlast_last_id)
qed

lemma fragments_shape:
  assumes "2 \<le> length cs"
  obtains f mids l where "fst (fragment_frames ft ch fl (length cs) 0 tx cs) = f # mids @ [l]"
    "fragment_of ch False f" "\<forall>m \<in> set mids. fragment_of ch False m" "fragment_of ch True l"
    "fr_header f = data_header ft ch (fl\<lparr>ff_is_fragment := True, ff_is_last_fragment := False\<rparr>)
       tx (length (hd cs))"
proof -
  let ?fs = "fst (fragment_frames ft ch fl (length cs) 0 tx cs)"
  have len: "length ?fs = length cs"
    by (rule length_fragment_frames)
  then obtain f mids l where fs: "?fs = f # mids @ [l]"
    using split_first_last [of ?fs] assms by auto
  have "fragment_of ch (j = length cs - 1) (?fs ! j)" if "j < length cs" for j
    using that by (simp add: fragment_frames_nth fragment_of_def data_header_def)
  note frag = this [unfolded fs]
  have n: "length cs = Suc (Suc (length mids))"
    using len by (simp add: fs)
  have "fragment_of ch False f"
    using frag [of 0] n by simp
  moreover have "\<forall>m \<in> set mids. fragment_of ch False m"
  proof
    fix m
    assume "m \<in> set mids"
    then obtain j where "j < length mids" "mids ! j = m"
      by (auto simp: in_set_conv_nth)
    then show "fragment_of ch False m"
      using frag [of "Suc j"] n by (simp add: nth_append)
  qed
  moreover have "fragment_of ch True l"
    using frag [of "Suc (length mids)"] n by (simp add: nth_append)
  moreover have "fr_header f = data_header ft ch
      (fl\<lparr>ff_is_fragment := True, ff_is_last_fragment := False\<rparr>) tx (length (hd cs))"
    using fragment_frames_nth [of 0 cs ft ch fl "length cs" 0 tx, unfolded fs] n
    by (auto simp: length_Suc_conv)
  ultimately show thesis
    using fs by (intro that)
qed

lemma encode_fragment_large:
  assumes "0 < fc_max_payload_size codec" "fc_max_payload_size codec < length payload"
  shows "encode_fragment crc codec ft ch payload fl =
    (let cs = chunks (fc_max_payload_size codec) payload in
     (Inr (fst (fragment_frames ft ch fl (length cs) 0 (fc_tx_sequence codec) cs)),
      codec\<lparr>fc_tx_sequence := fc_tx_sequence codec + of_nat (length cs)\<rparr>))"
  using assms
  by (simp add: encode_fragment_def Let_def split_def length_chunks fragment_frames_snd)

lemma two_chunks: "0 < n \<Longrightarrow> n < length xs \<Longrightarrow> 2 \<le> length (chunks n xs)"
proof -
  assume n: "0 < n" "n < length xs"
  then have "2 * n \<le> length xs + n - 1" by simp
  then have "2 \<le> (length xs + n - 1) div n"
    using n(1) by (simp add: less_eq_div_iff_mult_less_eq)
  then show ?thesis
    using n(1) by (simp add: length_chunks)
qed


subsection \<open>Incomplete and untagged frames\<close>

lemma decode_short:
  assumes "wf_header h" "length buf < 30 + unat (fh_payload_length h) + 16"
    and "buf = take n (header_bytes h @ le_bytes 4 k @ after)"
  shows "decode crc codec buf = (Inr None, codec, buf)"
proof (cases "length buf < 46")
  case True
  then show ?thesis
    by (simp add: decode_def MIN_FRAME_SIZE_def)
next
  case False
  then have n: "46 \<le> n"
    using assms(3) by simp
  obtain t where t: "FrameType_try_from (fh_type h) = Some t"
    using assms(1) by (auto simp: wf_header_def)
  then have t8: "fh_type h = FrameType_i32 t"
    by (simp add: FrameType_enum.try_from_iff)
  have "buf = le_bytes 4 MAGIC_NUMBER @ le_bytes 4 (fh_version h) @ [ucast (fh_type h)] @
      [pack_flags (the (fh_flags h))] @ le_bytes 4 (chid_value (the (fh_channel_id h))) @
      le_bytes 8 (seqn_value (the (fh_sequence h))) @ le_bytes 4 (fh_payload_length h) @
      le_bytes 4 k @ take (n - 30) after"
    using n assms(1) by (simp add: assms(3) header_bytes_def wf_header_def take_Cons')
  note fields = header_slices [OF this] le32.get_put le64.get_put
  show ?thesis
    using assms(2) by (simp add: decode_def fields t8 FrameType_enum.try_from_to_i32 Let_def)
qed

lemma decode_strict_prefix:
  assumes "wf_frame crc f" "n < length (frame_bytes f)"
  shows "decode crc codec (take n (frame_bytes f)) = (Inr None, codec, take n (frame_bytes f))"
proof (rule decode_short [where h = "fr_header f" and n = n
      and k = "fh_header_crc (fr_header f)" and after = "fr_payload f @ fr_auth_tag f"])
  show "wf_header (fr_header f)"
    using assms(1) by (simp add: wf_frame_def)
  show "length (take n (frame_bytes f)) < 30 + unat (fh_payload_length (fr_header f)) + 16"
    using assms by (simp add: wf_frame_def length_frame_bytes)
qed (simp add: frame_bytes_def)

text \<open>A frame without its tag: it decodes only with the first 16 bytes of what follows as the tag.\<close>

lemma untagged_incomplete:
  assumes "sendable f" "fr_auth_tag f = []"
  shows "decode crc codec (frame_bytes (stamp crc s f)) = (Inr None, codec, frame_bytes (stamp crc s f))"
proof -
  let ?f = "(stamp crc s f)\<lparr>fr_auth_tag := replicate 16 0\<rparr>"
  have "?f = stamp crc s (f\<lparr>fr_auth_tag := replicate 16 0\<rparr>)"
    by (simp add: stamp_def Let_def)
  then have "wf_frame crc ?f"
    using assms wf_stamp [of "f\<lparr>fr_auth_tag := replicate 16 0\<rparr>" crc s] by (simp add: sendable_def)
  moreover have "frame_bytes (stamp crc s f) = take (30 + length (fr_payload f)) (frame_bytes ?f)"
    using assms(2) by (simp add: frame_bytes_def)
  ultimately show ?thesis
    using decode_strict_prefix [of crc ?f "30 + length (fr_payload f)" codec]
    by (simp add: length_frame_bytes)
qed

lemma untagged_swallows:
  assumes "sendable f" "fr_auth_tag f = []" "16 \<le> length more_bytes" "\<not> s < fc_rx_sequence codec"
  shows "decode crc codec (frame_bytes (stamp crc s f) @ more_bytes) =
    (Inr (Some (stamp crc s (f\<lparr>fr_auth_tag := take 16 more_bytes\<rparr>))),
     codec\<lparr>fc_rx_sequence := s\<rparr>, drop 16 more_bytes)"
proof -
  let ?g = "f\<lparr>fr_auth_tag := take 16 more_bytes\<rparr>"
  have "frame_bytes (stamp crc s f) @ more_bytes = frame_bytes (stamp crc s ?g) @ drop 16 more_bytes"
    using assms(2) by (simp add: frame_bytes_def stamp_def Let_def)
  moreover have "wf_frame crc (stamp crc s ?g)"
    using assms by (intro wf_stamp) (simp_all add: sendable_def)
  ultimately show ?thesis
    using assms(4) by (simp add: decode_frame_bytes)
qed

lemma build_control_frame_sendable:
  "build_control_frame enc ft m ch s = Inr f \<Longrightarrow> length (fr_payload f) < 2 ^ 32 \<Longrightarrow>
     sendable f \<and> fr_auth_tag f = []"
  by (auto simp: build_control_frame_def sendable_def FrameType_enum.try_from_to_i32
      split: sum.splits)


subsection \<open>Properties of the codec\<close>

text \<open>The frame of the crate's own round-trip test, and a checksum to evaluate it with.\<close>

definition test_frame :: Frame where
  "test_frame =
     \<lparr>fr_header =
        \<lparr>fh_magic = MAGIC_NUMBER, fh_version = 0x00010000, fh_type = FrameType_i32 FT_Data,
         fh_flags = Some (FrameFlags_default\<lparr>ff_authenticated := True\<rparr>),
         fh_channel_id = Some \<lparr>chid_value = 1\<rparr>, fh_sequence = Some \<lparr>seqn_value = 1\<rparr>,
         fh_payload_length = 4, fh_header_crc = 0\<rparr>,
      fr_payload = [0x74, 0x65, 0x73, 0x74], fr_auth_tag = replicate 16 0\<rparr>"

definition sum_crc :: "bytes \<Rightarrow> u32" where
  "sum_crc bs = foldr (\<lambda>b a. ucast b + a) bs 0"

lemma test_frame_sendable: "sendable test_frame"
  using FrameType_enum.try_from_to_i32 [of FT_Data] by (simp add: test_frame_def sendable_def)

lemma test_frame_tag: "length (fr_auth_tag test_frame) = 16"
  by (simp add: test_frame_def)

text \<open>
  C1. The decoder implements the wire format: it delivers a frame exactly when the buffer starts
  with the bytes of a well-formed frame (magic number, known type, checksum over the 26 header
  bytes, payload of the announced length, 16-byte tag) whose sequence number is not below the
  last one received; it consumes those bytes and records the sequence number, nothing else.
\<close>

theorem decode_refines_wire_format:
  "decode crc codec buf = (Inr (Some f), codec', rest) \<longleftrightarrow>
     wf_frame crc f \<and> buf = frame_bytes f @ rest \<and> fc_rx_sequence codec \<le> frame_sequence f \<and>
     codec' = codec\<lparr>fc_rx_sequence := frame_sequence f\<rparr>"
  by (simp add: decode_Some_iff not_less)

text \<open>
  C2. Encoding and decoding round-trip: a frame with flags, channel, magic number and a 16-byte tag
  is encoded under the sender's next sequence number, and any receiver that has not seen a later
  number decodes it, whatever follows it in the buffer, to the same frame with the header
  completed (sequence, length, checksum; the retransmission flag is not carried).
\<close>

theorem encode_decode_roundtrip:
  assumes "sendable f" "length (fr_auth_tag f) = 16"
    and "fc_rx_sequence receiver \<le> fc_tx_sequence sender"
  shows "\<exists>bs. encode crc sender f = (Inr bs, sender\<lparr>fc_tx_sequence := fc_tx_sequence sender + 1\<rparr>) \<and>
    decode crc receiver (bs @ rest) =
      (Inr (Some (stamp crc (fc_tx_sequence sender) f)),
       receiver\<lparr>fc_rx_sequence := fc_tx_sequence sender\<rparr>, rest)"
  using assms by (simp add: encode_sendable decode_frame_bytes wf_stamp)

theorem encode_decode_roundtrip_witness:
  "\<exists>bs. encode sum_crc FrameCodec_default test_frame =
      (Inr bs, FrameCodec_default\<lparr>fc_tx_sequence := fc_tx_sequence FrameCodec_default + 1\<rparr>) \<and>
    decode sum_crc FrameCodec_default (bs @ [1, 2, 3]) =
      (Inr (Some (stamp sum_crc (fc_tx_sequence FrameCodec_default) test_frame)),
       FrameCodec_default\<lparr>fc_rx_sequence := fc_tx_sequence FrameCodec_default\<rparr>, [1, 2, 3])"
  by (rule encode_decode_roundtrip)
    (simp_all add: test_frame_sendable test_frame_tag FrameCodec_default_def FrameCodec_new_def)

text \<open>
  Framing is unambiguous: two buffers that start with well-formed frames and are equal start
  with the same frame and continue with the same bytes, so no frame is a proper prefix of another.
\<close>

theorem wire_format_unambiguous:
  assumes "wf_frame crc f" "wf_frame crc g" "frame_bytes f @ xs = frame_bytes g @ ys"
  shows "f = g \<and> xs = ys"
  using assms by (rule frame_bytes_unambiguous)

theorem wire_format_unambiguous_witness:
  "stamp sum_crc 3 test_frame = stamp sum_crc 3 test_frame \<and> [1, 2] = [1, 2 :: byte]"
  by (rule wire_format_unambiguous [of sum_crc])
    (simp_all add: wf_stamp test_frame_sendable test_frame_tag)

text \<open>
  Partial input is never an error: on a strict prefix of a well-formed frame the decoder asks for
  more data and leaves both the buffer and its own state unchanged.
\<close>

theorem partial_frame_waits:
  assumes "wf_frame crc f" "n < length (frame_bytes f)"
  shows "decode crc codec (take n (frame_bytes f)) = (Inr None, codec, take n (frame_bytes f))"
  using assms by (rule decode_strict_prefix)

theorem partial_frame_waits_witness:
  "decode sum_crc FrameCodec_default (take 47 (frame_bytes (stamp sum_crc 3 test_frame))) =
     (Inr None, FrameCodec_default, take 47 (frame_bytes (stamp sum_crc 3 test_frame)))"
  by (rule partial_frame_waits)
    (simp_all add: wf_stamp test_frame_sendable test_frame_tag length_frame_bytes,
     simp add: test_frame_def)

text \<open>
  The replay check: once a frame is accepted, a well-formed frame is refused exactly when its
  sequence number is strictly below the accepted one. In particular the accepted frame itself,
  replayed, is accepted again.
\<close>

theorem replay_check_after_accept:
  assumes "decode crc codec buf = (Inr (Some f), codec', rest)" "wf_frame crc g"
  shows "decode crc codec' (frame_bytes g @ xs) =
      (if frame_sequence g < frame_sequence f
       then (Inl (Err (ReplayDetected (frame_sequence g))), codec', xs)
       else (Inr (Some g), codec'\<lparr>fc_rx_sequence := frame_sequence g\<rparr>, xs))
    \<and> decode crc codec' (frame_bytes f @ xs) = (Inr (Some f), codec', xs)"
  using assms decode_SomeD [OF assms(1)] by (simp add: decode_frame_bytes)

theorem replay_check_after_accept_witness:
  "decode sum_crc (FrameCodec_default\<lparr>fc_rx_sequence := 5\<rparr>) (frame_bytes (stamp sum_crc 3 test_frame) @ []) =
      (if frame_sequence (stamp sum_crc 3 test_frame) < frame_sequence (stamp sum_crc 5 test_frame)
       then (Inl (Err (ReplayDetected (frame_sequence (stamp sum_crc 3 test_frame)))),
             FrameCodec_default\<lparr>fc_rx_sequence := 5\<rparr>, [])
       else (Inr (Some (stamp sum_crc 3 test_frame)), FrameCodec_default\<lparr>fc_rx_sequence := 5\<rparr>
               \<lparr>fc_rx_sequence := frame_sequence (stamp sum_crc 3 test_frame)\<rparr>, []))
    \<and> decode sum_crc (FrameCodec_default\<lparr>fc_rx_sequence := 5\<rparr>) (frame_bytes (stamp sum_crc 5 test_frame) @ []) =
      (Inr (Some (stamp sum_crc 5 test_frame)), FrameCodec_default\<lparr>fc_rx_sequence := 5\<rparr>, [])"
proof (rule replay_check_after_accept)
  have wf: "wf_frame sum_crc (stamp sum_crc s test_frame)" for s
    by (simp add: wf_stamp test_frame_sendable test_frame_tag)
  then show "wf_frame sum_crc (stamp sum_crc 3 test_frame)" .
  have "fc_rx_sequence FrameCodec_default = 0"
    by (simp add: FrameCodec_default_def FrameCodec_new_def)
  then show "decode sum_crc FrameCodec_default (frame_bytes (stamp sum_crc 5 test_frame) @ []) =
      (Inr (Some (stamp sum_crc 5 test_frame)), FrameCodec_default\<lparr>fc_rx_sequence := 5\<rparr>, [])"
    by (simp only: decode_frame_bytes [OF wf]) simp
qed

text \<open>
  C38. Fragmentation round-trips: a payload larger than the codec's maximum is cut into at least two
  frames; reassembling them yields nothing until the last one, which yields the whole payload on
  the same channel with the type and sequence number of the first fragment, and leaves the
  receiver's buffers as they were. The flags of the sender are not kept: the reassembled frame has
  the default flags, so it no longer says that its payload is encrypted or compressed.
\<close>

theorem fragmentation_roundtrip:
  assumes "0 < fc_max_payload_size sender" "fc_max_payload_size sender < length payload"
    and "fragment_position ch (fc_rx_fragments receiver) = Inr None"
  shows "\<exists>frames sender' n g. encode_fragment crc sender ft ch payload flags = (Inr frames, sender') \<and>
    reassemble_all receiver frames = (Inr (replicate (Suc n) None @ [Some g]), receiver) \<and>
    fr_payload g = payload \<and>
    fr_header g = (data_header ft ch flags (fc_tx_sequence sender) (length payload))
      \<lparr>fh_flags := Some FrameFlags_default\<rparr>"
proof -
  let ?cs = "chunks (fc_max_payload_size sender) payload"
  let ?tx = "fc_tx_sequence sender"
  obtain f mids l where frames:
    "fst (fragment_frames ft ch flags (length ?cs) 0 ?tx ?cs) = f # mids @ [l]"
    "fragment_of ch False f" "\<forall>m \<in> set mids. fragment_of ch False m" "fragment_of ch True l"
    "fr_header f = data_header ft ch (flags\<lparr>ff_is_fragment := True, ff_is_last_fragment := False\<rparr>)
       ?tx (length (hd ?cs))"
    using fragments_shape [OF two_chunks [OF assms(1,2)]] by metis
  have whole: "concat (map fr_payload (f # mids @ [l])) = payload"
    using fragment_frames_payloads [of ft ch flags "length ?cs" 0 ?tx ?cs] assms(1)
    by (simp only: frames(1) concat_chunks)
  note run = reassemble_run [OF assms(3) frames(2-4), unfolded reassembled_def whole]
  show ?thesis
    using run encode_fragment_large [OF assms(1,2)]
    by (intro exI conjI) (auto simp: Let_def frames(1,5) data_header_def)
qed

theorem fragmentation_roundtrip_witness:
  "\<exists>frames sender' n g. encode_fragment sum_crc (FrameCodec_new 10) FT_Data 1 (replicate 25 7)
        (FrameFlags_default\<lparr>ff_encrypted := True\<rparr>) = (Inr frames, sender') \<and>
    reassemble_all (FrameCodec_new 10) frames =
      (Inr (replicate (Suc n) None @ [Some g]), FrameCodec_new 10) \<and>
    fr_payload g = replicate 25 7 \<and>
    fr_header g = (data_header FT_Data 1 (FrameFlags_default\<lparr>ff_encrypted := True\<rparr>)
        (fc_tx_sequence (FrameCodec_new 10)) (length (replicate 25 (7 :: byte))))
      \<lparr>fh_flags := Some FrameFlags_default\<rparr>"
  by (rule fragmentation_roundtrip) (simp_all add: FrameCodec_new_def MAX_FRAME_PAYLOAD_SIZE_def)

text \<open>
  The control frames that the builders make carry no tag, while the decoder expects 16 tag bytes
  behind every payload: the bytes of such a frame alone never decode, and when at least 16 more
  bytes arrive the decoder takes the first 16 of them, which belong to the next frame, as the tag.
\<close>

theorem control_frames_lack_tag:
  assumes "build_control_frame enc ft m ch s = Inr f" "length (fr_payload f) < 2 ^ 32"
    and "fc_rx_sequence receiver \<le> fc_tx_sequence sender" "16 \<le> length following"
  shows "\<exists>bs sender'. encode crc sender f = (Inr bs, sender') \<and>
    decode crc receiver bs = (Inr None, receiver, bs) \<and>
    decode crc receiver (bs @ following) =
      (Inr (Some (stamp crc (fc_tx_sequence sender) (f\<lparr>fr_auth_tag := take 16 following\<rparr>))),
       receiver\<lparr>fc_rx_sequence := fc_tx_sequence sender\<rparr>, drop 16 following)"
  using build_control_frame_sendable [OF assms(1,2)] assms(3,4)
  by (simp add: encode_sendable untagged_incomplete untagged_swallows not_less)

theorem control_frames_lack_tag_witness:
  "\<exists>bs sender'. encode sum_crc FrameCodec_default
        (test_frame\<lparr>fr_header := (fr_header test_frame)\<lparr>fh_type := FrameType_i32 FT_Keepalive,
           fh_flags := Some (FrameFlags_default\<lparr>ff_authenticated := True, ff_ack_required := True\<rparr>)\<rparr>,
           fr_auth_tag := []\<rparr>) = (Inr bs, sender') \<and>
    decode sum_crc FrameCodec_default bs = (Inr None, FrameCodec_default, bs) \<and>
    decode sum_crc FrameCodec_default (bs @ replicate 20 9) =
      (Inr (Some (stamp sum_crc (fc_tx_sequence FrameCodec_default)
         (test_frame\<lparr>fr_header := (fr_header test_frame)\<lparr>fh_type := FrameType_i32 FT_Keepalive,
           fh_flags := Some (FrameFlags_default\<lparr>ff_authenticated := True, ff_ack_required := True\<rparr>)\<rparr>,
           fr_auth_tag := []\<rparr>\<lparr>fr_auth_tag := take 16 (replicate 20 9)\<rparr>))),
       FrameCodec_default\<lparr>fc_rx_sequence := fc_tx_sequence FrameCodec_default\<rparr>,
       drop 16 (replicate 20 9))"
  by (rule control_frames_lack_tag [where enc = "\<lambda>m :: bytes. Inr m" and ft = FT_Keepalive
        and m = "[0x74, 0x65, 0x73, 0x74]" and ch = 1 and s = 1])
    (simp_all add: build_control_frame_def test_frame_def FrameFlags_default_def
      FrameCodec_default_def FrameCodec_new_def)

end
