(* ===== verification/Mux_Channels.thy ===== *)
theory Mux_Channels
  imports Lib_Constants
begin

text \<open>
  Logical channels and their manager (\<^verbatim>\<open>protocol/src/mux.rs\<close>). A channel is shared between the
  manager's map and the handles it gave out (\<open>Arc<RwLock<Channel>>\<close>), so channels live in a heap and
  the map and the handles hold addresses. Plain additions take the flag \<open>chk\<close> that says whether
  the build checks for overflow.
\<close>

subsection \<open>Channels\<close>

datatype ChannelState = CS_Closed | CS_Opening | CS_Open | CS_Closing | CS_Error

record Channel =
  ch_config :: ChannelConfig
  ch_state :: ChannelState
  ch_send_window :: u32
  ch_recv_window :: u32
  ch_send_window_used :: u32
  ch_recv_window_used :: u32
  ch_frames_sent :: u64
  ch_frames_received :: u64
  ch_bytes_sent :: u64
  ch_bytes_received :: u64
  ch_retransmissions :: u64
  ch_errors :: u64
  ch_tx_sender :: "bytes sender option"

definition Channel_new :: "ChannelConfig \<Rightarrow> Channel" where
  "Channel_new config =
     \<lparr>ch_config = config, ch_state = CS_Closed,
      ch_send_window = cc_send_window config, ch_recv_window = cc_receive_window config,
      ch_send_window_used = 0, ch_recv_window_used = 0, ch_frames_sent = 0, ch_frames_received = 0,
      ch_bytes_sent = 0, ch_bytes_received = 0, ch_retransmissions = 0, ch_errors = 0,
      ch_tx_sender = None\<rparr>"

definition id_or_zero :: "ChannelId option \<Rightarrow> u32" where
  "id_or_zero c = (case c of None \<Rightarrow> 0 | Some c \<Rightarrow> chid_value c)"

definition can_send :: "bool \<Rightarrow> Channel \<Rightarrow> u32 \<Rightarrow> bool result" where
  "can_send chk c frame_size =
     (if ch_state c = CS_Open
      then bindR (overflow (plus_chk chk (ch_send_window_used c) frame_size))
             (\<lambda>t. Inr (t \<le> ch_send_window c))
      else Inr False)"

definition reserve_window :: "bool \<Rightarrow> Channel \<Rightarrow> u32 \<Rightarrow> unit result \<times> Channel" where
  "reserve_window chk c n_bytes =
     (let ch_id = id_or_zero (cc_channel_id (ch_config c)) in
      case overflow (plus_chk chk (ch_send_window_used c) n_bytes) of
        Inl e \<Rightarrow> (Inl e, c)
      | Inr t \<Rightarrow>
          if t > ch_send_window c then (Inl (Err (ChannelWindowExhausted ch_id)), c)
          else (case overflow (plus_chk chk (ch_send_window_used c) n_bytes) of
                  Inl e \<Rightarrow> (Inl e, c)
                | Inr t \<Rightarrow> (Inr (), c\<lparr>ch_send_window_used := t\<rparr>)))"

definition release_window :: "Channel \<Rightarrow> u32 \<Rightarrow> Channel" where
  "release_window c n_bytes =
     c\<lparr>ch_send_window_used := saturating_sub (ch_send_window_used c) n_bytes\<rparr>"

definition update_send_window :: "Channel \<Rightarrow> u32 \<Rightarrow> Channel" where
  "update_send_window c increment =
     c\<lparr>ch_send_window := saturating_add (ch_send_window c) increment\<rparr>"

definition update_recv_window :: "Channel \<Rightarrow> u32 \<Rightarrow> Channel" where
  "update_recv_window c increment =
     c\<lparr>ch_recv_window := saturating_add (ch_recv_window c) increment\<rparr>"

definition record_sent :: "bool \<Rightarrow> Channel \<Rightarrow> u32 \<Rightarrow> unit result \<times> Channel" where
  "record_sent chk c n_bytes =
     (case overflow (plus_chk chk (ch_frames_sent c) 1) of
        Inl e \<Rightarrow> (Inl e, c)
      | Inr n \<Rightarrow>
          (let c = c\<lparr>ch_frames_sent := n\<rparr> in
           case overflow (plus_chk chk (ch_bytes_sent c) (ucast n_bytes)) of
             Inl e \<Rightarrow> (Inl e, c)
           | Inr b \<Rightarrow> (Inr (), c\<lparr>ch_bytes_sent := b\<rparr>)))"

definition record_received :: "bool \<Rightarrow> Channel \<Rightarrow> u32 \<Rightarrow> unit result \<times> Channel" where
  "record_received chk c n_bytes =
     (case overflow (plus_chk chk (ch_frames_received c) 1) of
        Inl e \<Rightarrow> (Inl e, c)
      | Inr n \<Rightarrow>
          (let c = c\<lparr>ch_frames_received := n\<rparr> in
           case overflow (plus_chk chk (ch_bytes_received c) (ucast n_bytes)) of
             Inl e \<Rightarrow> (Inl e, c)
           | Inr b \<Rightarrow> (Inr (), c\<lparr>ch_bytes_received := b\<rparr>)))"

definition record_retransmission :: "bool \<Rightarrow> Channel \<Rightarrow> unit result \<times> Channel" where
  "record_retransmission chk c =
     (case overflow (plus_chk chk (ch_retransmissions c) 1) of
        Inl e \<Rightarrow> (Inl e, c)
      | Inr n \<Rightarrow> (Inr (), c\<lparr>ch_retransmissions := n\<rparr>))"

definition record_error :: "bool \<Rightarrow> Channel \<Rightarrow> unit result \<times> Channel" where
  "record_error chk c =
     (case overflow (plus_chk chk (ch_errors c) 1) of
        Inl e \<Rightarrow> (Inl e, c)
      | Inr n \<Rightarrow> (Inr (), c\<lparr>ch_errors := n\<rparr>))"

subsection \<open>The manager\<close>

datatype ChannelEvent =
    CE_Opened u32
  | CE_Closed u32
  | CE_FlowControl u32 u32
  | CE_Error u32 string

type_synonym address = nat

record ChannelManager =
  cm_channels :: "(u32, address) hmap"
  cm_next_channel_id :: u32
  cm_event_tx :: "ChannelEvent sender option"
  cm_heap :: "Channel list"

definition ChannelManager_new :: ChannelManager where
  "ChannelManager_new =
     \<lparr>cm_channels = [], cm_next_channel_id = 1, cm_event_tx = None, cm_heap = []\<rparr>"

definition set_event_sender :: "ChannelManager \<Rightarrow> ChannelEvent sender \<Rightarrow> ChannelManager" where
  "set_event_sender m tx = m\<lparr>cm_event_tx := Some tx\<rparr>"

definition open_channel ::
  "ChannelManager \<Rightarrow> ChannelConfig \<Rightarrow> address result \<times> ChannelManager" where
  "open_channel m config =
     (let requested_id = id_or_zero (cc_channel_id config);
          channel_id = (if requested_id = 0 then cm_next_channel_id m else requested_id)
      in if channel_id \<ge> MAX_CHANNELS
         then (Inl (Err (InvalidArgument ''Maximum channels reached'')), m)
         else if hm_contains (cm_channels m) channel_id
         then (Inl (Err (InvalidArgument
                 (''Channel '' @ decimal (unat channel_id) @ '' already exists''))), m)
         else
           (let config = config\<lparr>cc_channel_id := Some \<lparr>chid_value = channel_id\<rparr>\<rparr>;
                a = length (cm_heap m);
                m = m\<lparr>cm_heap := cm_heap m @ [Channel_new config],
                      cm_channels := hm_insert channel_id a (cm_channels m)\<rparr>;
                m = m\<lparr>cm_event_tx := notify (cm_event_tx m) (CE_Opened channel_id)\<rparr>;
                m = m\<lparr>cm_next_channel_id := min (channel_id + 1) MAX_CHANNELS\<rparr>
            in (Inr a, m)))"

definition get_channel :: "ChannelManager \<Rightarrow> u32 \<Rightarrow> address option" where
  "get_channel m channel_id = hm_get (cm_channels m) channel_id"

definition heap_update :: "address \<Rightarrow> (Channel \<Rightarrow> Channel) \<Rightarrow> ChannelManager \<Rightarrow> ChannelManager" where
  "heap_update a f m = m\<lparr>cm_heap := (cm_heap m)[a := f (cm_heap m ! a)]\<rparr>"

definition close_channel :: "ChannelManager \<Rightarrow> u32 \<Rightarrow> string \<Rightarrow> unit result \<times> ChannelManager" where
  "close_channel m channel_id reason =
     (case hm_get (cm_channels m) channel_id of
        Some a \<Rightarrow>
          (let m = m\<lparr>cm_channels := hm_remove channel_id (cm_channels m)\<rparr>;
               m = heap_update a (\<lambda>c. c\<lparr>ch_state := CS_Closed\<rparr>) m
           in (Inr (), m\<lparr>cm_event_tx := notify (cm_event_tx m) (CE_Closed channel_id)\<rparr>))
      | None \<Rightarrow> (Inl (Err (ChannelNotFound channel_id)), m))"

definition handle_flow_control ::
  "ChannelManager \<Rightarrow> FlowControlUpdate \<Rightarrow> unit result \<times> ChannelManager" where
  "handle_flow_control m update =
     (let update_ch_id = id_or_zero (fcu_channel_id update) in
      case get_channel m update_ch_id of
        Some a \<Rightarrow>
          (let m = heap_update a (\<lambda>c. update_send_window c (fcu_window_increment update)) m
           in (Inr (), m\<lparr>cm_event_tx := notify (cm_event_tx m)
                 (CE_FlowControl update_ch_id (ch_send_window (cm_heap m ! a)))\<rparr>))
      | None \<Rightarrow> (Inl (Err (ChannelNotFound update_ch_id)), m))"

definition list_channels :: "ChannelManager \<Rightarrow> address list" where
  "list_channels m = hm_values (cm_channels m)"

record ChannelStats =
  cst_channel_id :: u32
  cst_channel_type :: ChannelType
  cst_priority :: ChannelPriority
  cst_state :: ChannelState
  cst_send_window :: u32
  cst_send_window_used :: u32
  cst_recv_window :: u32
  cst_recv_window_used :: u32
  cst_frames_sent :: u64
  cst_frames_received :: u64
  cst_bytes_sent :: u64
  cst_bytes_received :: u64
  cst_retransmissions :: u64
  cst_errors :: u64
  cst_service_id :: string

definition channel_stats :: "u32 \<Rightarrow> Channel \<Rightarrow> ChannelStats" where
  "channel_stats i c =
     \<lparr>cst_channel_id = i,
      cst_channel_type = (case ChannelType_try_from (cc_type (ch_config c)) of
         None \<Rightarrow> CT_Data | Some t \<Rightarrow> t),
      cst_priority = (case ChannelPriority_try_from (cc_priority (ch_config c)) of
         None \<Rightarrow> CP_PriorityNormal | Some p \<Rightarrow> p),
      cst_state = ch_state c,
      cst_send_window = ch_send_window c, cst_send_window_used = ch_send_window_used c,
      cst_recv_window = ch_recv_window c, cst_recv_window_used = ch_recv_window_used c,
      cst_frames_sent = ch_frames_sent c, cst_frames_received = ch_frames_received c,
      cst_bytes_sent = ch_bytes_sent c, cst_bytes_received = ch_bytes_received c,
      cst_retransmissions = ch_retransmissions c, cst_errors = ch_errors c,
      cst_service_id = cc_service_id (ch_config c)\<rparr>"

definition get_stats :: "ChannelManager \<Rightarrow> ChannelStats list" where
  "get_stats m = map (\<lambda>(i, a). channel_stats i (cm_heap m ! a)) (cm_channels m)"

text \<open>\<open>sum\<close> of an iterator of unsigned integers adds from the left, checked like any addition.\<close>

primrec sum_from :: "bool \<Rightarrow> u64 \<Rightarrow> u64 list \<Rightarrow> u64 result" where
  "sum_from chk acc [] = Inr acc"
| "sum_from chk acc (x # xs) = bindR (overflow (plus_chk chk acc x)) (\<lambda>s. sum_from chk s xs)"

definition total_frames_sent :: "bool \<Rightarrow> ChannelManager \<Rightarrow> u64 result" where
  "total_frames_sent chk m =
     sum_from chk 0 (map (\<lambda>a. ch_frames_sent (cm_heap m ! a)) (hm_values (cm_channels m)))"

definition total_frames_received :: "bool \<Rightarrow> ChannelManager \<Rightarrow> u64 result" where
  "total_frames_received chk m =
     sum_from chk 0 (map (\<lambda>a. ch_frames_received (cm_heap m ! a)) (hm_values (cm_channels m)))"

definition total_bytes_sent :: "bool \<Rightarrow> ChannelManager \<Rightarrow> u64 result" where
  "total_bytes_sent chk m =
     sum_from chk 0 (map (\<lambda>a. ch_bytes_sent (cm_heap m ! a)) (hm_values (cm_channels m)))"

definition total_bytes_received :: "bool \<Rightarrow> ChannelManager \<Rightarrow> u64 result" where
  "total_bytes_received chk m =
     sum_from chk 0 (map (\<lambda>a. ch_bytes_received (cm_heap m ! a)) (hm_values (cm_channels m)))"

definition default_channel_config :: "string \<Rightarrow> ChannelType \<Rightarrow> ChannelPriority \<Rightarrow> ChannelConfig" where
  "default_channel_config service_id channel_type priority =
     \<lparr>cc_channel_id = Some \<lparr>chid_value = 0\<rparr>, cc_type = ChannelType_i32 channel_type,
      cc_priority = ChannelPriority_i32 priority, cc_send_window = DEFAULT_WINDOW_SIZE,
      cc_receive_window = DEFAULT_WINDOW_SIZE, cc_max_frame_size = 16384,
      cc_service_id = service_id, cc_metadata = []\<rparr>"

subsection \<open>The manager as a state machine\<close>

text \<open>What the holder of a handle can do to its channel with the methods of \<open>Channel\<close>.\<close>

inductive channel_op :: "bool \<Rightarrow> Channel \<Rightarrow> Channel \<Rightarrow> bool" for chk where
  op_reserve: "channel_op chk c (snd (reserve_window chk c n_bytes))"
| op_release: "channel_op chk c (release_window c n_bytes)"
| op_send_window: "channel_op chk c (update_send_window c n_bytes)"
| op_recv_window: "channel_op chk c (update_recv_window c n_bytes)"
| op_sent: "channel_op chk c (snd (record_sent chk c n_bytes))"
| op_received: "channel_op chk c (snd (record_received chk c n_bytes))"
| op_retransmission: "channel_op chk c (snd (record_retransmission chk c))"
| op_error: "channel_op chk c (snd (record_error chk c))"

inductive mux_step :: "bool \<Rightarrow> ChannelManager \<Rightarrow> ChannelManager \<Rightarrow> bool" for chk where
  step_open: "mux_step chk m (snd (open_channel m config))"
| step_close: "mux_step chk m (snd (close_channel m channel_id reason))"
| step_flow: "mux_step chk m (snd (handle_flow_control m update))"
| step_sender: "mux_step chk m (set_event_sender m tx)"
| step_handle: "a < length (cm_heap m) \<Longrightarrow> channel_op chk (cm_heap m ! a) c \<Longrightarrow>
    mux_step chk m (m\<lparr>cm_heap := (cm_heap m)[a := c]\<rparr>)"

inductive mux_reachable :: "bool \<Rightarrow> ChannelManager \<Rightarrow> bool" for chk where
  reach_new: "mux_reachable chk ChannelManager_new"
| reach_step: "mux_reachable chk m \<Longrightarrow> mux_step chk m m' \<Longrightarrow> mux_reachable chk m'"

inductive_cases channel_opE: "channel_op chk c c'"
inductive_cases mux_stepE: "mux_step chk m m'"

lemma channel_op_preserves:
  assumes "channel_op chk c c'"
  shows "ch_config c' = ch_config c" "ch_state c' = ch_state c"
    "ch_send_window c \<le> ch_send_window c'"
    "ch_send_window_used c \<le> ch_send_window c \<Longrightarrow> ch_send_window_used c' \<le> ch_send_window c'"
proof -
  have sub: "u \<le> w \<Longrightarrow> saturating_sub u i \<le> w" and add: "u \<le> w \<Longrightarrow> u \<le> saturating_add w i" for u w i :: u32
    using saturating_sub_le saturating_add_ge order_trans by metis+
  show "ch_config c' = ch_config c" "ch_state c' = ch_state c"
    "ch_send_window c \<le> ch_send_window c'"
    "ch_send_window_used c \<le> ch_send_window c \<Longrightarrow> ch_send_window_used c' \<le> ch_send_window c'"
    using assms sub add
    by (auto elim!: channel_opE simp: reserve_window_def release_window_def update_send_window_def
        update_recv_window_def record_sent_def record_received_def record_retransmission_def
        record_error_def Let_def not_less split: sum.splits intro: order_trans)
qed

subsection \<open>The invariant of the manager\<close>

definition channel_ok :: "Channel \<Rightarrow> bool" where
  "channel_ok c \<longleftrightarrow> ch_state c = CS_Closed \<and> ch_send_window_used c \<le> ch_send_window c"

definition cm_inv :: "ChannelManager \<Rightarrow> bool" where
  "cm_inv m \<longleftrightarrow> hm_wf (cm_channels m) \<and> 0 < cm_next_channel_id m \<and> cm_next_channel_id m \<le> MAX_CHANNELS \<and>
     (\<forall>i a. hm_get (cm_channels m) i = Some a \<longrightarrow> 0 < i \<and> i < MAX_CHANNELS \<and> a < length (cm_heap m) \<and>
        cc_channel_id (ch_config (cm_heap m ! a)) = Some \<lparr>chid_value = i\<rparr>) \<and>
     (\<forall>c \<in> set (cm_heap m). channel_ok c)"

lemma not_max_channels_le_1 [simp]: "\<not> MAX_CHANNELS \<le> 1"
  by (simp add: MAX_CHANNELS_def word_le_nat_alt)

lemma cm_inv_new: "cm_inv ChannelManager_new"
  by (simp add: cm_inv_def ChannelManager_new_def MAX_CHANNELS_def)

lemma cm_inv_channel: "cm_inv m \<Longrightarrow> a < length (cm_heap m) \<Longrightarrow> channel_ok (cm_heap m ! a)"
  by (simp add: cm_inv_def)

text \<open>Replacing a channel by one with the same configuration that is still in order.\<close>

lemma cm_inv_update:
  assumes "cm_inv m" "channel_ok c" "ch_config c = ch_config (cm_heap m ! a)"
  shows "cm_inv (m\<lparr>cm_heap := (cm_heap m)[a := c]\<rparr>)"
proof -
  have "channel_ok d" if "d \<in> set ((cm_heap m)[a := c])" for d
    using that assms(1,2) set_update_subset_insert [of "cm_heap m" a c] by (auto simp: cm_inv_def)
  moreover have "ch_config ((cm_heap m)[a := c] ! b) = ch_config (cm_heap m ! b)"
    if "b < length (cm_heap m)" for b
    using that assms(3) by (cases "b = a") simp_all
  ultimately show ?thesis
    using assms(1) by (simp add: cm_inv_def)
qed

lemma cm_inv_event [simp]: "cm_inv (m\<lparr>cm_event_tx := tx\<rparr>) = cm_inv m"
  by (simp add: cm_inv_def)

lemma cm_inv_remove: "cm_inv m \<Longrightarrow> cm_inv (m\<lparr>cm_channels := hm_remove i (cm_channels m)\<rparr>)"
  by (simp add: cm_inv_def)

definition requested_channel :: "ChannelManager \<Rightarrow> ChannelConfig \<Rightarrow> u32" where
  "requested_channel m config =
     (if id_or_zero (cc_channel_id config) = 0 then cm_next_channel_id m
      else id_or_zero (cc_channel_id config))"

definition opened_channel :: "ChannelManager \<Rightarrow> ChannelConfig \<Rightarrow> Channel" where
  "opened_channel m config =
     Channel_new (config\<lparr>cc_channel_id := Some \<lparr>chid_value = requested_channel m config\<rparr>\<rparr>)"

lemma open_channel_eq:
  "open_channel m config =
     (let i = requested_channel m config in
      if i \<ge> MAX_CHANNELS then (Inl (Err (InvalidArgument ''Maximum channels reached'')), m)
      else if hm_get (cm_channels m) i \<noteq> None
      then (Inl (Err (InvalidArgument (''Channel '' @ decimal (unat i) @ '' already exists''))), m)
      else (Inr (length (cm_heap m)),
        m\<lparr>cm_heap := cm_heap m @ [opened_channel m config],
          cm_channels := hm_insert i (length (cm_heap m)) (cm_channels m),
          cm_event_tx := notify (cm_event_tx m) (CE_Opened i),
          cm_next_channel_id := min (i + 1) MAX_CHANNELS\<rparr>))"
  by (simp add: open_channel_def requested_channel_def opened_channel_def Let_def)

lemma requested_channel_pos: "cm_inv m \<Longrightarrow> 0 < requested_channel m config"
  by (simp add: cm_inv_def requested_channel_def word_gt_0)

lemma opened_channel_ok: "channel_ok (opened_channel m config)"
  by (simp add: channel_ok_def opened_channel_def Channel_new_def)

lemma opened_channel_id:
  "cc_channel_id (ch_config (opened_channel m config)) = Some \<lparr>chid_value = requested_channel m config\<rparr>"
  by (simp add: opened_channel_def Channel_new_def)

lemma next_id_bounds:
  assumes "i < MAX_CHANNELS"
  shows "0 < min (i + 1) MAX_CHANNELS" "min (i + 1) MAX_CHANNELS = i + 1" "i + 1 \<le> MAX_CHANNELS"
proof -
  have "unat (i + 1) = unat i + 1"
    using assms unat_plus_no_overflow [of i 1] by (simp add: MAX_CHANNELS_def word_less_nat_alt)
  then show "0 < min (i + 1) MAX_CHANNELS" "min (i + 1) MAX_CHANNELS = i + 1" "i + 1 \<le> MAX_CHANNELS"
    using assms by (auto simp: MAX_CHANNELS_def word_less_nat_alt word_le_nat_alt min_def)
qed

lemma cm_inv_open: 
  assumes "cm_inv m"
  shows "cm_inv (snd (open_channel m config))"
proof -
  let ?i = "requested_channel m config"
  have "cc_channel_id (ch_config ((cm_heap m @ [opened_channel m config]) ! a)) =
      cc_channel_id (ch_config (cm_heap m ! a))" if "a < length (cm_heap m)" for a
    using that by (simp add: nth_append)
  then show ?thesis
    using assms requested_channel_pos [OF assms, of config] opened_channel_ok [of m config]
      opened_channel_id [of m config] next_id_bounds [of ?i]
    by (auto simp: open_channel_eq Let_def cm_inv_def not_le nth_append less_Suc_eq
        split: if_splits)
qed

lemma cm_inv_close: 
  assumes "cm_inv m"
  shows "cm_inv (snd (close_channel m i reason))"
proof (cases "hm_get (cm_channels m) i")
  case None
  then show ?thesis
    using assms by (simp add: close_channel_def)
next
  case (Some a)
  then have "a < length (cm_heap m)"
    using assms by (simp add: cm_inv_def)
  then have "channel_ok ((cm_heap m ! a)\<lparr>ch_state := CS_Closed\<rparr>)"
    using cm_inv_channel [OF assms] by (simp add: channel_ok_def)
  from cm_inv_update [OF cm_inv_remove [OF assms, of i], of _ a, simplified, OF this]
  show ?thesis
    using Some by (simp add: close_channel_def heap_update_def Let_def)
qed

lemma channel_op_ok: "channel_op chk c c' \<Longrightarrow> channel_ok c \<Longrightarrow> channel_ok c'"
  using channel_op_preserves [of chk c c'] by (simp add: channel_ok_def)

lemma cm_inv_op:
  "cm_inv m \<Longrightarrow> a < length (cm_heap m) \<Longrightarrow> channel_op chk (cm_heap m ! a) c \<Longrightarrow>
     cm_inv (m\<lparr>cm_heap := (cm_heap m)[a := c]\<rparr>)"
  by (rule cm_inv_update)
    (simp_all add: channel_op_ok [OF _ cm_inv_channel] channel_op_preserves(1))

lemma cm_inv_flow:
  assumes "cm_inv m"
  shows "cm_inv (snd (handle_flow_control m update))"
proof (cases "get_channel m (id_or_zero (fcu_channel_id update))")
  case None
  then show ?thesis
    using assms by (simp add: handle_flow_control_def)
next
  case (Some a)
  then have "a < length (cm_heap m)"
    using assms by (simp add: cm_inv_def get_channel_def)
  then show ?thesis
    using Some cm_inv_op [OF assms _ op_send_window, of a]
    by (simp add: handle_flow_control_def heap_update_def Let_def)
qed

lemma mux_step_inv: "mux_step chk m m' \<Longrightarrow> cm_inv m \<Longrightarrow> cm_inv m'"
  by (erule mux_stepE)
    (auto simp: cm_inv_open cm_inv_close cm_inv_flow set_event_sender_def intro: cm_inv_op)

lemma mux_reachable_inv: "mux_reachable chk m \<Longrightarrow> cm_inv m"
  by (induction rule: mux_reachable.induct) (auto simp: cm_inv_new intro: mux_step_inv)

lemma cm_inv_get:
  assumes "cm_inv m" "get_channel m i = Some a"
  shows "0 < i" "i < MAX_CHANNELS" "a < length (cm_heap m)"
    "cc_channel_id (ch_config (cm_heap m ! a)) = Some \<lparr>chid_value = i\<rparr>"
  using assms by (auto simp: cm_inv_def get_channel_def)

text \<open>No two entries of the map share a channel: its own number tells them apart.\<close>

lemma cm_inv_no_alias: "cm_inv m \<Longrightarrow> get_channel m i = Some a \<Longrightarrow> get_channel m j = Some a \<Longrightarrow> i = j"
  using cm_inv_get(4) [of m i a] cm_inv_get(4) [of m j a] by simp

lemma distinct_values:
  assumes "hm_wf h" "\<And>i j a. hm_get h i = Some a \<Longrightarrow> hm_get h j = Some a \<Longrightarrow> i = j"
  shows "distinct (hm_values h)"
proof -
  have "inj_on snd (set h)"
    using assms(2) by (intro inj_onI) (metis assms(1) hm_wf_mem_iff prod.collapse)
  moreover have "distinct h"
    using assms(1) by (simp add: hm_wf_def hm_keys_def distinct_map)
  ultimately show ?thesis
    by (simp add: hm_values_def distinct_map)
qed

lemma cm_inv_count: 
  assumes "cm_inv m"
  shows "length (list_channels m) \<le> 15"
proof -
  let ?K = "set (hm_keys (cm_channels m))"
  have "unat ` ?K \<subseteq> {1 ..< 16}"
    using assms by (auto simp: set_hm_keys cm_inv_def MAX_CHANNELS_def word_less_nat_alt Suc_le_eq)
  then have "card (unat ` ?K) \<le> 15"
    using card_mono [of "{1 ..< 16 :: nat}"] by fastforce
  moreover have "card (unat ` ?K) = card ?K"
    by (rule card_image) (simp add: inj_on_def word_unat_eq_iff)
  moreover have "card ?K = length (hm_keys (cm_channels m))"
    using assms by (simp add: cm_inv_def hm_wf_def distinct_card)
  ultimately show ?thesis
    by (simp add: list_channels_def hm_values_def hm_keys_def)
qed

lemma reserve_window_checked:
  assumes "ch_send_window_used c \<le> ch_send_window c"
  shows "reserve_window True c n =
    (if unat (ch_send_window_used c) + unat n \<le> unat (ch_send_window c)
     then (Inr (), c\<lparr>ch_send_window_used := ch_send_window_used c + n\<rparr>)
     else if 2 ^ 32 \<le> unat (ch_send_window_used c) + unat n
     then (Inl (Panic ''attempt to add with overflow''), c)
     else (Inl (Err (ChannelWindowExhausted (id_or_zero (cc_channel_id (ch_config c))))), c))"
proof -
  have "unat (ch_send_window c) < 2 ^ 32"
    using unat_le_max [of "ch_send_window c"] by simp
  moreover have "unat (ch_send_window_used c + n) = unat (ch_send_window_used c) + unat n"
    if "unat (ch_send_window_used c) + unat n < 2 ^ 32"
    using that unat_plus_no_overflow [of "ch_send_window_used c" n] by simp
  ultimately show ?thesis
    by (auto simp: reserve_window_def plus_chk_def overflow_def Let_def word_less_nat_alt)
qed

lemma release_reserved:
  assumes "reserve_window True c n = (Inr (), c')"
  shows "release_window c' n = c"
proof -
  obtain u where u: "plus_chk True (ch_send_window_used c) n = Some u" "c' = c\<lparr>ch_send_window_used := u\<rparr>"
    using assms by (auto simp: reserve_window_def overflow_def Let_def split: if_splits option.splits)
  then have "saturating_sub u n = ch_send_window_used c"
    using plus_chk_checked [of "ch_send_window_used c" n u] by (simp add: word_unat_eq_iff unat_saturating_sub)
  then show ?thesis
    using u(2) by (simp add: release_window_def)
qed

text \<open>Opening and closing one channel when none is open, as a service that comes and goes does.\<close>

definition open_close :: "ChannelConfig \<Rightarrow> string \<Rightarrow> ChannelManager \<Rightarrow> ChannelManager" where
  "open_close config reason m =
     (let (r, m) = open_channel m config in
      snd (close_channel m (cm_next_channel_id m - 1) reason))"

lemma open_close_auto:
  assumes "id_or_zero (cc_channel_id config) = 0" "cm_channels m = []" "cm_next_channel_id m < MAX_CHANNELS"
  shows "cm_channels (open_close config reason m) = []"
    "cm_next_channel_id (open_close config reason m) = cm_next_channel_id m + 1"
proof -
  have i: "requested_channel m config = cm_next_channel_id m"
    using assms(1) by (simp add: requested_channel_def)
  show "cm_channels (open_close config reason m) = []"
    "cm_next_channel_id (open_close config reason m) = cm_next_channel_id m + 1"
    using assms(2,3) next_id_bounds [OF assms(3)]
    by (simp_all add: open_close_def open_channel_eq i Let_def not_le close_channel_def
        heap_update_def hm_remove_def hm_insert_def hm_get_def)
qed

lemma open_close_rounds:
  assumes "id_or_zero (cc_channel_id config) = 0" "n \<le> 15"
  shows "cm_channels ((open_close config reason ^^ n) ChannelManager_new) = [] \<and>
    unat (cm_next_channel_id ((open_close config reason ^^ n) ChannelManager_new)) = n + 1"
  using assms(2)
proof (induction n)
  case 0
  then show ?case
    by (simp add: ChannelManager_new_def)
next
  case (Suc n)
  let ?m = "(open_close config reason ^^ n) ChannelManager_new"
  have IH: "cm_channels ?m = []" "unat (cm_next_channel_id ?m) = n + 1"
    using Suc by simp_all
  then have lt: "cm_next_channel_id ?m < MAX_CHANNELS"
    using Suc.prems by (simp add: MAX_CHANNELS_def word_less_nat_alt)
  have "unat (cm_next_channel_id ?m + 1) = n + 2"
    using unat_plus_no_overflow [of "cm_next_channel_id ?m" 1] IH(2) Suc.prems by simp
  then show ?case
    using open_close_auto [OF assms(1) IH(1) lt, of reason] by simp
qed

subsection \<open>Properties of the channels\<close>

text \<open>
  C9. The map of open channels is sound in every reachable state: at most 15 channels are open, none
  is channel 0 or beyond 15, an entry leads to a live channel whose own configuration carries the
  entry's number, and no two entries share a channel.
\<close>

theorem channel_table_sound:
  assumes "mux_reachable chk m"
  shows "length (list_channels m) \<le> 15 \<and> distinct (list_channels m) \<and>
    (\<forall>i a. get_channel m i = Some a \<longrightarrow> 0 < i \<and> i < MAX_CHANNELS \<and> a < length (cm_heap m) \<and>
       cc_channel_id (ch_config (cm_heap m ! a)) = Some \<lparr>chid_value = i\<rparr>)"
proof -
  note inv = mux_reachable_inv [OF assms]
  have "distinct (list_channels m)"
    unfolding list_channels_def
    using inv cm_inv_no_alias [OF inv] by (intro distinct_values) (simp_all add: cm_inv_def get_channel_def)
  then show ?thesis
    using cm_inv_count [OF inv] cm_inv_get [OF inv] by blast
qed

theorem channel_table_sound_witness:
  "let m = snd (open_channel ChannelManager_new (default_channel_config ''test.service'' CT_Data CP_PriorityNormal))
   in length (list_channels m) \<le> 15 \<and> get_channel m 1 = Some 0 \<and> 1 < MAX_CHANNELS \<and>
     0 < length (cm_heap m) \<and> cc_channel_id (ch_config (cm_heap m ! 0)) = Some \<lparr>chid_value = 1\<rparr>"
proof -
  let ?c = "default_channel_config ''test.service'' CT_Data CP_PriorityNormal"
  let ?m = "snd (open_channel ChannelManager_new ?c)"
  have "mux_reachable True ?m"
    by (rule reach_step [OF reach_new step_open])
  moreover have "get_channel ?m 1 = Some 0"
    by code_simp
  ultimately show ?thesis
    using channel_table_sound [of True ?m] by (auto simp: Let_def)
qed

text \<open>
  Opening and closing a channel: opening fails, changing nothing, exactly when the number asked
  for (or the next automatic one) is above 15 or taken. Otherwise the channel appears under that
  number, fresh, with full windows and no traffic, every other entry and channel stays as it was,
  and \<open>Opened\<close> is announced; closing it removes exactly it, announces \<open>Closed\<close>, and its holder's
  handle stays readable and shows it closed.
\<close>

theorem open_close_channel:
  assumes "open_channel m config = (r, m1)" "cm_inv m"
  defines "i \<equiv> requested_channel m config"
  shows "if i \<ge> MAX_CHANNELS \<or> get_channel m i \<noteq> None
    then (\<exists>e. r = Inl (Err (InvalidArgument e))) \<and> m1 = m
    else \<exists>a m2. r = Inr a \<and> a \<notin> set (list_channels m) \<and> get_channel m1 i = Some a \<and>
      cm_heap m1 ! a = opened_channel m config \<and>
      (\<forall>j. j \<noteq> i \<longrightarrow> get_channel m1 j = get_channel m j) \<and> take a (cm_heap m1) = cm_heap m \<and>
      cm_event_tx m1 = notify (cm_event_tx m) (CE_Opened i) \<and>
      close_channel m1 i reason = (Inr (), m2) \<and> (\<forall>j. get_channel m2 j = get_channel m j) \<and>
      take a (cm_heap m2) = cm_heap m \<and> ch_state (cm_heap m2 ! a) = CS_Closed \<and>
      cm_event_tx m2 = notify (cm_event_tx m1) (CE_Closed i)"
proof -
  have "length (cm_heap m) \<notin> set (list_channels m)"
    using cm_inv_get(3) [OF assms(2)] assms(2)
    by (fastforce simp: list_channels_def hm_values_def get_channel_def cm_inv_def hm_wf_mem_iff)
  then show ?thesis
    using assms(1) unfolding i_def
    by (auto simp: open_channel_eq Let_def get_channel_def close_channel_def heap_update_def
        split: if_splits)
qed

theorem open_close_channel_witness:
  "let c = default_channel_config ''test.service'' CT_Data CP_PriorityNormal;
       (r, m1) = open_channel ChannelManager_new c;
       i = requested_channel ChannelManager_new c
   in i = 1 \<and> i < MAX_CHANNELS \<and> get_channel ChannelManager_new i = None \<and>
     (\<exists>a m2. r = Inr a \<and> get_channel m1 i = Some a \<and> close_channel m1 i ''test'' = (Inr (), m2) \<and>
        get_channel m2 i = None)"
proof -
  let ?c = "default_channel_config ''test.service'' CT_Data CP_PriorityNormal"
  obtain r m1 where o: "open_channel ChannelManager_new ?c = (r, m1)"
    by fastforce
  have i: "requested_channel ChannelManager_new ?c = 1"
    by (simp add: requested_channel_def default_channel_config_def id_or_zero_def ChannelManager_new_def)
  have "1 < MAX_CHANNELS"
    by (simp add: MAX_CHANNELS_def)
  moreover have "get_channel ChannelManager_new 1 = None"
    by (simp add: get_channel_def ChannelManager_new_def)
  ultimately show ?thesis
    using open_close_channel [OF o cm_inv_new, of "''test''"] i o
    by auto
qed

text \<open>
  C17. Flow control: in every reachable state, whether or not the build checks overflow, no channel
  has used more than its send window. With overflow checks a reservation is granted exactly when
  it fits into what is left of the window, and releasing it restores the channel. Without them the
  sum wraps: a channel that has used part of its window grants a reservation of all the remaining
  numbers up to \<open>2 ^ 32\<close>, far beyond the window, and forgets what was used.
\<close>

theorem send_window_accounting:
  assumes "mux_reachable chk m" "c \<in> set (cm_heap m)"
  shows "ch_send_window_used c \<le> ch_send_window c \<and>
    (fst (reserve_window True c n) = Inr () \<longleftrightarrow>
       unat (ch_send_window_used c) + unat n \<le> unat (ch_send_window c)) \<and>
    (fst (reserve_window True c n) = Inr () \<longrightarrow> release_window (snd (reserve_window True c n)) n = c) \<and>
    reserve_window False c (- ch_send_window_used c) = (Inr (), c\<lparr>ch_send_window_used := 0\<rparr>)"
proof -
  have used: "ch_send_window_used c \<le> ch_send_window c"
    using mux_reachable_inv [OF assms(1)] assms(2) by (auto simp: cm_inv_def channel_ok_def)
  moreover have "reserve_window False c (- ch_send_window_used c) = (Inr (), c\<lparr>ch_send_window_used := 0\<rparr>)"
    by (simp add: reserve_window_def plus_chk_def Let_def)
  ultimately show ?thesis
    using reserve_window_checked [OF used, of n] release_reserved [of c n "snd (reserve_window True c n)"]
    by (auto simp: prod_eq_iff)
qed

theorem send_window_accounting_witness:
  "(let c = Channel_new (default_channel_config ''s'' CT_Data CP_PriorityNormal
           \<lparr>cc_channel_id := Some \<lparr>chid_value = 1\<rparr>\<rparr>) in
     fst (reserve_window True c 1000) = Inr () \<and> release_window (snd (reserve_window True c 1000)) 1000 = c)"
proof -
  let ?config = "default_channel_config ''s'' CT_Data CP_PriorityNormal"
  let ?m = "snd (open_channel ChannelManager_new ?config)"
  let ?c = "Channel_new (?config\<lparr>cc_channel_id := Some \<lparr>chid_value = 1\<rparr>\<rparr>)"
  have "mux_reachable True ?m"
    by (intro reach_step [OF reach_new] step_open)
  moreover have "?c \<in> set (cm_heap ?m)"
    by (simp add: open_channel_eq requested_channel_def opened_channel_def default_channel_config_def
        id_or_zero_def ChannelManager_new_def)
  ultimately show ?thesis
    using send_window_accounting [of True ?m ?c 1000]
    by (simp add: Let_def Channel_new_def default_channel_config_def DEFAULT_WINDOW_SIZE_def)
qed

text \<open>
  Flow-control updates: an update for an open channel raises that channel's send window by the
  increment, saturating at the largest number, changes nothing else of any channel, and announces
  the new window; for a channel that is not open it is an error and changes nothing.
\<close>

theorem flow_control_update:
  assumes "cm_inv m"
  defines "i u \<equiv> id_or_zero (fcu_channel_id u)"
  shows "case get_channel m (i u) of
      None \<Rightarrow> handle_flow_control m u = (Inl (Err (ChannelNotFound (i u))), m)
    | Some a \<Rightarrow> (\<exists>m'. handle_flow_control m u = (Inr (), m') \<and>
        unat (ch_send_window (cm_heap m' ! a)) =
          min (unat (ch_send_window (cm_heap m ! a)) + unat (fcu_window_increment u)) (2 ^ 32 - 1) \<and>
        (cm_heap m' ! a)\<lparr>ch_send_window := ch_send_window (cm_heap m ! a)\<rparr> = cm_heap m ! a \<and>
        (\<forall>b. b \<noteq> a \<longrightarrow> cm_heap m' ! b = cm_heap m ! b) \<and> cm_channels m' = cm_channels m \<and>
        sent_events (cm_event_tx m') = sent_events (cm_event_tx m) @
          (if sender_room (cm_event_tx m)
           then [CE_FlowControl (i u) (ch_send_window (cm_heap m' ! a))] else []))"
proof (cases "get_channel m (i u)")
  case None
  then show ?thesis
    by (simp add: handle_flow_control_def i_def)
next
  case (Some a)
  then have "a < length (cm_heap m)"
    using cm_inv_get [OF assms(1)] by simp
  then show ?thesis
    using Some by (simp add: handle_flow_control_def i_def Let_def heap_update_def
        update_send_window_def unat_saturating_add sent_events_notify)
qed

theorem flow_control_update_witness:
  "case get_channel ChannelManager_new (id_or_zero None) of
      None \<Rightarrow> handle_flow_control ChannelManager_new \<lparr>fcu_channel_id = None, fcu_window_increment = 5\<rparr> =
        (Inl (Err (ChannelNotFound (id_or_zero None))), ChannelManager_new)
    | Some a \<Rightarrow> True"
  using flow_control_update [OF cm_inv_new, of "\<lparr>fcu_channel_id = None, fcu_window_increment = 5\<rparr>"]
  by (simp add: get_channel_def ChannelManager_new_def)

text \<open>
  No channel ever opens: nothing in the manager moves a channel out of the state \<open>Closed\<close> that it
  is created in, so for every channel reachable through the manager \<open>can_send\<close> answers no to every
  frame.
\<close>

theorem channels_never_send:
  assumes "mux_reachable chk m" "get_channel m i = Some a"
  shows "can_send chk' (cm_heap m ! a) n = Inr False"
proof -
  note inv = mux_reachable_inv [OF assms(1)]
  show ?thesis
    using cm_inv_channel [OF inv cm_inv_get(3) [OF inv assms(2)]] by (simp add: channel_ok_def can_send_def)
qed

theorem channels_never_send_witness:
  "can_send True (cm_heap (snd (open_channel ChannelManager_new
     (default_channel_config ''s'' CT_Data CP_PriorityNormal))) ! 0) 1 = Inr False"
proof (rule channels_never_send)
  show "mux_reachable True (snd (open_channel ChannelManager_new
      (default_channel_config ''s'' CT_Data CP_PriorityNormal)))"
    by (intro reach_step [OF reach_new] step_open)
  show "get_channel (snd (open_channel ChannelManager_new
      (default_channel_config ''s'' CT_Data CP_PriorityNormal))) 1 = Some 0"
    by (simp add: open_channel_eq requested_channel_def default_channel_config_def
        id_or_zero_def ChannelManager_new_def get_channel_def)
qed

text \<open>
  Automatic numbers run out: a service that opens a channel without naming a number and closes it
  again can do so 15 times; after that, with no channel open, opening fails with "Maximum channels
  reached", because closing a channel does not give its number back.
\<close>

theorem automatic_ids_run_out:
  fixes config :: ChannelConfig and reason :: string
  assumes "id_or_zero (cc_channel_id config) = 0"
  defines "m \<equiv> (open_close config reason ^^ 15) ChannelManager_new"
  shows "list_channels m = [] \<and>
    open_channel m config = (Inl (Err (InvalidArgument ''Maximum channels reached'')), m)"
proof -
  have "cm_channels m = []" "unat (cm_next_channel_id m) = 16"
    using open_close_rounds [OF assms(1), of 15 reason] by (simp_all add: m_def)
  then show ?thesis
    using assms(1) by (simp add: open_channel_eq requested_channel_def list_channels_def hm_values_def
        MAX_CHANNELS_def word_le_nat_alt Let_def)
qed

theorem automatic_ids_run_out_witness:
  "let c = default_channel_config ''s'' CT_Data CP_PriorityNormal;
       m = (open_close c ''done'' ^^ 15) ChannelManager_new
   in list_channels m = [] \<and>
    open_channel m c = (Inl (Err (InvalidArgument ''Maximum channels reached'')), m)"
  unfolding Let_def by (rule automatic_ids_run_out) (simp add: default_channel_config_def id_or_zero_def)

end
