(* ===== verification/Capability_Negotiation.thy ===== *)
theory Capability_Negotiation
  imports Lib_Constants
begin

text \<open>
  Capability negotiation (\<^verbatim>\<open>protocol/src/capability.rs\<close>): what two peers agree on, the queries on
  the agreement, the compatibility report, and the default capability sets. The agreement is
  compared with its abstract specification \<open>agreed\<close>.
\<close>

subsection \<open>Negotiation\<close>

record CapabilityNegotiator =
  cn_local_capabilities :: CapabilitySet
  cn_negotiated :: "NegotiatedCapability list"

definition CapabilityNegotiator_new :: CapabilityNegotiator where
  "CapabilityNegotiator_new = \<lparr>cn_local_capabilities = CapabilitySet_default, cn_negotiated = []\<rparr>"

definition set_local_capabilities :: "CapabilityNegotiator \<Rightarrow> CapabilitySet \<Rightarrow> CapabilityNegotiator" where
  "set_local_capabilities n capabilities = n\<lparr>cn_local_capabilities := capabilities\<rparr>"

definition local_capabilities :: "CapabilityNegotiator \<Rightarrow> CapabilitySet" where
  "local_capabilities n = cn_local_capabilities n"

text \<open>The loop over the local metadata: keep the entries whose key the remote side has too.\<close>

primrec common_features ::
  "(string, string) hmap \<Rightarrow> (string, string) hmap \<Rightarrow> (string, string) hmap \<Rightarrow> (string, string) hmap" where
  "common_features remote [] acc = acc"
| "common_features remote (kv # rest) acc =
     common_features remote rest
       (if hm_contains remote (fst kv) then hm_insert (fst kv) (snd kv) acc else acc)"

definition negotiate_single :: "ServiceCapability \<Rightarrow> ServiceCapability \<Rightarrow> NegotiatedCapability" where
  "negotiate_single here remote =
     (let negotiated_version = min (cap_version here) (cap_version remote) in
      if negotiated_version = 0
      then \<lparr>nc_service_id = cap_service_id here, nc_negotiated_version = 0,
            nc_negotiated_features = [], nc_available = False,
            nc_unavailable_reason = ''Version mismatch''\<rparr>
      else \<lparr>nc_service_id = cap_service_id here, nc_negotiated_version = negotiated_version,
            nc_negotiated_features = common_features (cap_metadata remote) (cap_metadata here) [],
            nc_available = True, nc_unavailable_reason = []\<rparr>)"

definition find_capability :: "string \<Rightarrow> ServiceCapability list \<Rightarrow> ServiceCapability option" where
  "find_capability service_id caps = find (\<lambda>c. cap_service_id c = service_id) caps"

primrec negotiate_remote ::
  "ServiceCapability list \<Rightarrow> ServiceCapability list \<Rightarrow> NegotiatedCapability list result" where
  "negotiate_remote here [] = Inr []"
| "negotiate_remote here (remote_cap # rest) =
     bindR
       (case find_capability (cap_service_id remote_cap) here of
          Some local_cap \<Rightarrow> Inr (negotiate_single local_cap remote_cap)
        | None \<Rightarrow>
            if cap_required remote_cap
            then Inl (Err (RequiredCapabilityMissing (cap_service_id remote_cap)))
            else Inr \<lparr>nc_service_id = cap_service_id remote_cap, nc_negotiated_version = 0,
                      nc_negotiated_features = [], nc_available = False,
                      nc_unavailable_reason = ''Not supported locally''\<rparr>)
       (\<lambda>negotiated_cap. bindR (negotiate_remote here rest) (\<lambda>ns. Inr (negotiated_cap # ns)))"

primrec check_required :: "NegotiatedCapability list \<Rightarrow> ServiceCapability list \<Rightarrow> unit result" where
  "check_required negotiated [] = Inr ()"
| "check_required negotiated (local_cap # rest) =
     (if cap_required local_cap \<and>
         \<not> list_ex (\<lambda>n. nc_service_id n = cap_service_id local_cap \<and> nc_available n) negotiated
      then Inl (Err (RequiredCapabilityMissing (cap_service_id local_cap)))
      else check_required negotiated rest)"

definition negotiate ::
  "CapabilityNegotiator \<Rightarrow> CapabilitySet \<Rightarrow> NegotiatedCapability list result \<times> CapabilityNegotiator" where
  "negotiate n remote_capabilities =
     (let here = cset_capabilities (cn_local_capabilities n) in
      case negotiate_remote here (cset_capabilities remote_capabilities) of
        Inl e \<Rightarrow> (Inl e, n)
      | Inr negotiated \<Rightarrow>
          (case check_required negotiated here of
             Inl e \<Rightarrow> (Inl e, n)
           | Inr _ \<Rightarrow> (Inr negotiated, n\<lparr>cn_negotiated := negotiated\<rparr>)))"

subsection \<open>Queries\<close>

definition is_capability_supported :: "CapabilityNegotiator \<Rightarrow> string \<Rightarrow> u32 \<Rightarrow> bool" where
  "is_capability_supported n service_id required_version =
     list_ex (\<lambda>c. nc_service_id c = service_id \<and> nc_available c \<and>
       nc_negotiated_version c \<ge> required_version) (cn_negotiated n)"

definition negotiated :: "CapabilityNegotiator \<Rightarrow> NegotiatedCapability list" where
  "negotiated n = cn_negotiated n"

definition is_available :: "CapabilityNegotiator \<Rightarrow> string \<Rightarrow> bool" where
  "is_available n service_id =
     list_ex (\<lambda>c. nc_service_id c = service_id \<and> nc_available c) (cn_negotiated n)"

definition get_version :: "CapabilityNegotiator \<Rightarrow> string \<Rightarrow> u32 option" where
  "get_version n service_id =
     map_option nc_negotiated_version
       (find (\<lambda>c. nc_service_id c = service_id \<and> nc_available c) (cn_negotiated n))"

definition compatibility_of :: "ServiceCapability list \<Rightarrow> ServiceCapability \<Rightarrow> VersionCompatibility" where
  "compatibility_of remote local_cap =
     (let remote_cap = find_capability (cap_service_id local_cap) remote;
          compatible = (case remote_cap of None \<Rightarrow> False | Some r \<Rightarrow> cap_version r = cap_version local_cap)
      in \<lparr>vc_service_id = cap_service_id local_cap, vc_local_version = cap_version local_cap,
          vc_remote_version = (case remote_cap of None \<Rightarrow> 0 | Some r \<Rightarrow> cap_version r),
          vc_compatible = compatible,
          vc_incompatibility_reason = (if compatible then [] else ''Version mismatch'')\<rparr>)"

definition check_compatibility :: "CapabilityNegotiator \<Rightarrow> CapabilitySet \<Rightarrow> VersionCompatibility list" where
  "check_compatibility n remote =
     map (compatibility_of (cset_capabilities remote)) (cset_capabilities (cn_local_capabilities n))"

subsection \<open>Default capability sets\<close>

definition default_filesystem :: ServiceCapability where
  "default_filesystem =
     \<lparr>cap_service_id = ''bpl.filesystem'', cap_version = 1, cap_name = ''Filesystem Service'',
      cap_description = ''Remote filesystem access and manipulation'', cap_required = False,
      cap_metadata = [], cap_feature_flags = 0\<rparr>"

definition default_sync :: ServiceCapability where
  "default_sync =
     \<lparr>cap_service_id = ''bpl.sync'', cap_version = 1, cap_name = ''File Sync Service'',
      cap_description = ''Bidirectional file synchronization'', cap_required = False,
      cap_metadata = [], cap_feature_flags = 0\<rparr>"

definition default_config :: ServiceCapability where
  "default_config =
     \<lparr>cap_service_id = ''bpl.config'', cap_version = 1, cap_name = ''Configuration Service'',
      cap_description = ''Device configuration management'', cap_required = True,
      cap_metadata = [], cap_feature_flags = 0\<rparr>"

definition default_photo_backup :: ServiceCapability where
  "default_photo_backup =
     \<lparr>cap_service_id = ''bpl.photo_backup'', cap_version = 1, cap_name = ''Photo Backup Service'',
      cap_description = ''Automatic photo and video backup'', cap_required = False,
      cap_metadata = [], cap_feature_flags = 0\<rparr>"

definition default_shell :: ServiceCapability where
  "default_shell =
     \<lparr>cap_service_id = ''bpl.shell'', cap_version = 1, cap_name = ''Remote Shell Service'',
      cap_description = ''Remote command execution and shell access'', cap_required = False,
      cap_metadata = [], cap_feature_flags = 0\<rparr>"

definition default_media_control :: ServiceCapability where
  "default_media_control =
     \<lparr>cap_service_id = ''bpl.media_control'', cap_version = 1, cap_name = ''Media Control Service'',
      cap_description = ''Remote media playback control'', cap_required = False,
      cap_metadata = [], cap_feature_flags = 0\<rparr>"

definition default_phone_fs :: ServiceCapability where
  "default_phone_fs =
     \<lparr>cap_service_id = ''bpl.phone_fs'', cap_version = 1, cap_name = ''Phone Filesystem Service'',
      cap_description = ''Access to Android SAF document trees'', cap_required = False,
      cap_metadata = [], cap_feature_flags = 0\<rparr>"

definition default_proximity :: ServiceCapability where
  "default_proximity =
     \<lparr>cap_service_id = ''bpl.proximity'', cap_version = 1, cap_name = ''Proximity Service'',
      cap_description = ''Proximity detection and RSSI monitoring'', cap_required = False,
      cap_metadata = [], cap_feature_flags = 0\<rparr>"

definition default_file_stream :: ServiceCapability where
  "default_file_stream =
     \<lparr>cap_service_id = ''bpl.file_stream'', cap_version = 1, cap_name = ''File Stream Service'',
      cap_description = ''High-speed streaming file transfers'', cap_required = False,
      cap_metadata = [], cap_feature_flags = 0\<rparr>"

definition default_app_launcher :: ServiceCapability where
  "default_app_launcher =
     \<lparr>cap_service_id = ''bpl.app_launcher'', cap_version = 1, cap_name = ''App Launcher Service'',
      cap_description = ''Remote application launching'', cap_required = False,
      cap_metadata = [], cap_feature_flags = 0\<rparr>"

text \<open>The package version that the workspace manifest \<^verbatim>\<open>desktop/Cargo.toml\<close> gives.\<close>

definition CARGO_PKG_VERSION :: string where
  "CARGO_PKG_VERSION = ''0.1.0''"

definition desktop_default :: CapabilitySet where
  "desktop_default =
     \<lparr>cset_capabilities =
        [default_filesystem, default_sync, default_config, default_photo_backup, default_shell,
         default_media_control, default_phone_fs, default_proximity, default_file_stream,
         default_app_launcher],
      cset_protocol_version = Some \<lparr>pv_major = 1, pv_minor = 0, pv_patch = 0\<rparr>,
      cset_software_version = CARGO_PKG_VERSION, cset_device_name = ''BPL Desktop'',
      cset_device_id = Some \<lparr>did_value = []\<rparr>\<rparr>"

definition android_default :: CapabilitySet where
  "android_default =
     \<lparr>cset_capabilities =
        [default_filesystem, default_sync, default_config, default_photo_backup, default_shell,
         default_media_control, default_phone_fs, default_proximity, default_file_stream,
         default_app_launcher],
      cset_protocol_version = Some \<lparr>pv_major = 1, pv_minor = 0, pv_patch = 0\<rparr>,
      cset_software_version = CARGO_PKG_VERSION, cset_device_name = ''BPL Android'',
      cset_device_id = Some \<lparr>did_value = []\<rparr>\<rparr>"

lemmas default_sets = desktop_default_def android_default_def default_filesystem_def
  default_sync_def default_config_def default_photo_backup_def default_shell_def
  default_media_control_def default_phone_fs_def default_proximity_def default_file_stream_def
  default_app_launcher_def

subsection \<open>What was agreed\<close>

text \<open>
  The specification: a service is agreed on when both sides offer it with a version above zero, at
  the lower of the two versions. \<open>find_capability\<close> is the offer of a side, \<open>ids_distinct\<close> says
  that a side offers each service once.
\<close>

definition ids_distinct :: "ServiceCapability list \<Rightarrow> bool" where
  "ids_distinct caps \<longleftrightarrow> distinct (map cap_service_id caps)"

definition agreed :: "ServiceCapability list \<Rightarrow> ServiceCapability list \<Rightarrow> string \<Rightarrow> u32 option" where
  "agreed here remote i =
     (case (find_capability i here, find_capability i remote) of
        (Some l, Some r) \<Rightarrow>
          (if min (cap_version l) (cap_version r) = 0 then None else Some (min (cap_version l) (cap_version r)))
      | _ \<Rightarrow> None)"

definition offered :: "string \<Rightarrow> ServiceCapability list \<Rightarrow> bool" where
  "offered i caps \<longleftrightarrow> i \<in> cap_service_id ` set caps"

lemma agreed_commute: "agreed here remote i = agreed remote here i"
  by (auto simp: agreed_def min.commute split: option.splits)

lemma find_capability_id: "find_capability i caps = Some c \<Longrightarrow> cap_service_id c = i \<and> c \<in> set caps"
  by (auto simp: find_capability_def find_Some_iff)

lemma find_capability_None: "find_capability i caps = None \<longleftrightarrow> \<not> offered i caps"
  by (auto simp: find_capability_def find_None_iff offered_def)

lemma find_capability_Some: "offered i caps \<longleftrightarrow> (\<exists>c. find_capability i caps = Some c)"
  by (metis find_capability_None not_None_eq)

lemma find_capability_mem:
  "ids_distinct caps \<Longrightarrow> c \<in> set caps \<Longrightarrow> find_capability (cap_service_id c) caps = Some c"
proof (induction caps)
  case Nil
  then show ?case by simp
next
  case (Cons d caps)
  then show ?case
    by (auto simp: find_capability_def ids_distinct_def)
qed

lemma find_capability_Cons:
  "find_capability i (c # caps) = (if cap_service_id c = i then Some c else find_capability i caps)"
  by (simp add: find_capability_def)

lemma negotiate_single_simps:
  "nc_service_id (negotiate_single l r) = cap_service_id l"
  "nc_negotiated_version (negotiate_single l r) = min (cap_version l) (cap_version r)"
  "nc_available (negotiate_single l r) \<longleftrightarrow> min (cap_version l) (cap_version r) \<noteq> 0"
  by (simp_all add: negotiate_single_def Let_def)

lemma common_features_get:
  "distinct (map fst here) \<Longrightarrow>
     hm_get (common_features remote here acc) k =
       (if hm_get here k \<noteq> None \<and> hm_get remote k \<noteq> None then hm_get here k else hm_get acc k)"
proof (induction here arbitrary: acc)
  case Nil
  then show ?case by simp
next
  case (Cons kv rest)
  then have "hm_get rest (fst kv) = None"
    by (simp add: hm_get_def map_of_eq_None_iff)
  with Cons show ?case
    by (cases kv) (auto simp: hm_get_def [of "_ # _"] simp flip: hm_get_def)
qed

lemma negotiate_single_features:
  assumes "hm_wf (cap_metadata l)" "nc_available (negotiate_single l r)"
  shows "hm_get (nc_negotiated_features (negotiate_single l r)) k =
    (if hm_get (cap_metadata r) k \<noteq> None then hm_get (cap_metadata l) k else None)"
  using assms common_features_get [of "cap_metadata l" "cap_metadata r" "[]" k]
  by (auto simp: negotiate_single_def Let_def hm_wf_def hm_keys_def split: if_splits)

text \<open>The two loops: when they fail, and what the first one produces.\<close>

definition negotiated_for :: "ServiceCapability list \<Rightarrow> ServiceCapability \<Rightarrow> NegotiatedCapability" where
  "negotiated_for here r =
     (case find_capability (cap_service_id r) here of
        Some l \<Rightarrow> negotiate_single l r
      | None \<Rightarrow> \<lparr>nc_service_id = cap_service_id r, nc_negotiated_version = 0,
                 nc_negotiated_features = [], nc_available = False,
                 nc_unavailable_reason = ''Not supported locally''\<rparr>)"

definition missing_here :: "ServiceCapability list \<Rightarrow> ServiceCapability \<Rightarrow> bool" where
  "missing_here here r \<longleftrightarrow> cap_required r \<and> \<not> offered (cap_service_id r) here"

lemma negotiate_remote_eq:
  "negotiate_remote here remote =
     (case find (missing_here here) remote of
        Some r \<Rightarrow> Inl (Err (RequiredCapabilityMissing (cap_service_id r)))
      | None \<Rightarrow> Inr (map (negotiated_for here) remote))"
  by (induction remote)
    (auto simp: negotiated_for_def missing_here_def find_capability_None [symmetric]
      split: option.splits)

lemma check_required_eq:
  "check_required ns here =
     (case find (\<lambda>l. cap_required l \<and> \<not> (\<exists>n \<in> set ns. nc_service_id n = cap_service_id l \<and> nc_available n)) here of
        Some l \<Rightarrow> Inl (Err (RequiredCapabilityMissing (cap_service_id l)))
      | None \<Rightarrow> Inr ())"
  by (induction here) (auto simp: list_ex_iff)

lemma negotiated_for_id [simp]: "nc_service_id (negotiated_for here r) = cap_service_id r"
  by (auto simp: negotiated_for_def negotiate_single_simps dest: find_capability_id split: option.splits)

lemma negotiated_for_available:
  "nc_available (negotiated_for here r) \<longleftrightarrow>
     (\<exists>l. find_capability (cap_service_id r) here = Some l \<and> min (cap_version l) (cap_version r) \<noteq> 0)"
  by (auto simp: negotiated_for_def negotiate_single_simps split: option.splits)

lemma negotiated_for_version:
  "nc_available (negotiated_for here r) \<Longrightarrow> find_capability (cap_service_id r) here = Some l \<Longrightarrow>
     nc_negotiated_version (negotiated_for here r) = min (cap_version l) (cap_version r)"
  by (auto simp: negotiated_for_def negotiate_single_simps split: option.splits)

lemma find_agreed:
  assumes "ids_distinct remote"
  shows "map_option nc_negotiated_version
      (find (\<lambda>c. nc_service_id c = i \<and> nc_available c) (map (negotiated_for here) remote)) =
    agreed here remote i"
  using assms
proof (induction remote)
  case Nil
  then show ?case
    by (simp add: agreed_def find_capability_def split: option.splits)
next
  case (Cons r remote)
  note IH = Cons.IH
  show ?case
  proof (cases "cap_service_id r = i")
    case False
    then show ?thesis
      using Cons by (simp add: agreed_def find_capability_Cons ids_distinct_def)
  next
    case True
    then have "\<not> offered i remote"
      using Cons.prems by (auto simp: ids_distinct_def offered_def)
    then have "agreed here remote i = None"
      by (simp add: agreed_def find_capability_None [symmetric] split: option.splits)
    then show ?thesis
      using Cons True negotiated_for_version [of here r]
      by (auto simp: agreed_def find_capability_Cons negotiated_for_available ids_distinct_def
          split: option.splits)
  qed
qed

lemma list_ex_agreed:
  assumes "ids_distinct remote"
  shows "(\<exists>c \<in> negotiated_for here ` set remote. nc_service_id c = i \<and> nc_available c \<and>
      v \<le> nc_negotiated_version c) \<longleftrightarrow> (\<exists>w. agreed here remote i = Some w \<and> v \<le> w)" (is "?L \<longleftrightarrow> ?R")
proof
  assume ?L
  then obtain r where r: "r \<in> set remote" "cap_service_id r = i" "nc_available (negotiated_for here r)"
    "v \<le> nc_negotiated_version (negotiated_for here r)"
    by auto
  then obtain l where l: "find_capability i here = Some l" "min (cap_version l) (cap_version r) \<noteq> 0"
    by (auto simp: negotiated_for_available)
  then show ?R
    using r find_capability_mem [OF assms r(1)] negotiated_for_version [OF r(3)]
    by (auto simp: agreed_def)
next
  assume ?R
  then obtain l r where lr: "find_capability i here = Some l" "find_capability i remote = Some r"
    "min (cap_version l) (cap_version r) \<noteq> 0" "v \<le> min (cap_version l) (cap_version r)"
    by (auto simp: agreed_def split: option.splits if_splits)
  then have r: "r \<in> set remote" "cap_service_id r = i"
    using find_capability_id by auto
  moreover have "nc_available (negotiated_for here r)"
    using lr r by (auto simp: negotiated_for_available)
  moreover have "v \<le> nc_negotiated_version (negotiated_for here r)"
    using lr r negotiated_for_version [OF calculation(3)] by simp
  ultimately show ?L
    by auto
qed

definition negotiable :: "ServiceCapability list \<Rightarrow> ServiceCapability list \<Rightarrow> bool" where
  "negotiable here remote \<longleftrightarrow> (\<forall>r \<in> set remote. \<not> missing_here here r) \<and>
     (\<forall>l \<in> set here. cap_required l \<longrightarrow> agreed here remote (cap_service_id l) \<noteq> None)"

lemma available_agreed:
  assumes "ids_distinct remote"
  shows "(\<exists>c \<in> set (map (negotiated_for here) remote). nc_service_id c = i \<and> nc_available c) \<longleftrightarrow>
    agreed here remote i \<noteq> None"
  using list_ex_agreed [OF assms, of here i 0] by auto

lemma negotiate_ok:
  fixes n :: CapabilityNegotiator and R :: CapabilitySet
  defines "here \<equiv> cset_capabilities (cn_local_capabilities n)" and "remote \<equiv> cset_capabilities R"
  assumes "ids_distinct remote" "negotiable here remote"
  shows "negotiate n R = (Inr (map (negotiated_for here) remote),
    n\<lparr>cn_negotiated := map (negotiated_for here) remote\<rparr>)"
proof -
  have "find (missing_here here) remote = None"
    using assms(4) by (simp add: negotiable_def find_None_iff)
  moreover have "find (\<lambda>l. cap_required l \<and> \<not> (\<exists>c \<in> set (map (negotiated_for here) remote).
      nc_service_id c = cap_service_id l \<and> nc_available c)) here = None"
    using assms(4) available_agreed [OF assms(3)] by (simp add: negotiable_def find_None_iff)
  ultimately show ?thesis
    using check_required_eq [of "map (negotiated_for here) remote" here] negotiate_remote_eq [of here remote]
    by (simp add: negotiate_def Let_def flip: here_def remote_def)
qed

lemma negotiate_fails:
  fixes n :: CapabilityNegotiator and R :: CapabilitySet
  defines "here \<equiv> cset_capabilities (cn_local_capabilities n)" and "remote \<equiv> cset_capabilities R"
  assumes "ids_distinct remote" "\<not> negotiable here remote"
  shows "\<exists>c \<in> set here \<union> set remote. cap_required c \<and> agreed here remote (cap_service_id c) = None \<and>
    negotiate n R = (Inl (Err (RequiredCapabilityMissing (cap_service_id c))), n)"
proof (cases "find (missing_here here) remote")
  case (Some r)
  then have "r \<in> set remote" "missing_here here r"
    by (auto simp: find_Some_iff)
  moreover from this have "agreed here remote (cap_service_id r) = None"
    by (simp add: agreed_def missing_here_def find_capability_None [symmetric] split: option.splits)
  moreover have "negotiate n R = (Inl (Err (RequiredCapabilityMissing (cap_service_id r))), n)"
    using Some negotiate_remote_eq [of here remote] by (simp add: negotiate_def Let_def flip: here_def remote_def)
  ultimately show ?thesis
    by (auto simp: missing_here_def)
next
  case None
  let ?bad = "\<lambda>l. cap_required l \<and> \<not> (\<exists>c \<in> set (map (negotiated_for here) remote).
      nc_service_id c = cap_service_id l \<and> nc_available c)"
  have "find ?bad here \<noteq> None"
    using assms(4) None available_agreed [OF assms(3)] by (auto simp: negotiable_def find_None_iff)
  then obtain l where l: "find ?bad here = Some l"
    by auto
  then have "l \<in> set here" "?bad l"
    by (auto simp: find_Some_iff)
  then have "l \<in> set here" "cap_required l" "agreed here remote (cap_service_id l) = None"
    using available_agreed [OF assms(3), of here "cap_service_id l"] by auto
  moreover have "negotiate n R = (Inl (Err (RequiredCapabilityMissing (cap_service_id l))), n)"
    using None l check_required_eq [of "map (negotiated_for here) remote" here] negotiate_remote_eq [of here remote]
    by (simp add: negotiate_def Let_def flip: here_def remote_def)
  ultimately show ?thesis
    by auto
qed

lemma agreed_offered: "agreed here remote i \<noteq> None \<Longrightarrow> offered i here \<and> offered i remote"
  by (auto simp: agreed_def find_capability_Some split: option.splits)

lemma agreed_versions_nonzero:
  assumes "\<forall>c \<in> set here \<union> set remote. cap_version c \<noteq> 0"
  shows "agreed here remote i \<noteq> None \<longleftrightarrow> offered i here \<and> offered i remote"
proof
  assume "offered i here \<and> offered i remote"
  then obtain l r where "find_capability i here = Some l" "find_capability i remote = Some r"
    by (auto simp: find_capability_Some)
  moreover from this have "cap_version l \<noteq> 0" "cap_version r \<noteq> 0"
    using assms find_capability_id by blast+
  ultimately show "agreed here remote i \<noteq> None"
    by (auto simp: agreed_def min_def)
qed (rule agreed_offered)

lemma negotiable_commute:
  assumes "\<forall>c \<in> set here \<union> set remote. cap_version c \<noteq> 0"
  shows "negotiable here remote \<longleftrightarrow> negotiable remote here"
proof -
  have "negotiable here remote \<longleftrightarrow>
      (\<forall>c \<in> set here \<union> set remote. cap_required c \<longrightarrow> offered (cap_service_id c) here \<and> offered (cap_service_id c) remote)"
    if "\<forall>c \<in> set here \<union> set remote. cap_version c \<noteq> 0" for here remote
    using agreed_versions_nonzero [OF that] by (auto simp: negotiable_def missing_here_def offered_def)
  from this [OF assms] this [of remote here] show ?thesis
    using assms by blast
qed

subsection \<open>Properties of the negotiation\<close>

text \<open>
  When negotiation succeeds: exactly when every service the remote side requires is offered here
  and every service required here is agreed on. It then returns and stores one entry per service
  of the remote side, in its order. Otherwise it names a required service that is not agreed on
  and leaves the negotiator as it was.
\<close>

theorem negotiation_outcome:
  fixes n :: CapabilityNegotiator and R :: CapabilitySet
  defines "here \<equiv> cset_capabilities (cn_local_capabilities n)" and "remote \<equiv> cset_capabilities R"
  assumes "ids_distinct remote"
  shows "if (\<forall>r \<in> set remote. cap_required r \<longrightarrow> offered (cap_service_id r) here) \<and>
        (\<forall>l \<in> set here. cap_required l \<longrightarrow> agreed here remote (cap_service_id l) \<noteq> None)
    then \<exists>ns. negotiate n R = (Inr ns, n\<lparr>cn_negotiated := ns\<rparr>) \<and>
      map nc_service_id ns = map cap_service_id remote
    else \<exists>c \<in> set here \<union> set remote. cap_required c \<and> agreed here remote (cap_service_id c) = None \<and>
      negotiate n R = (Inl (Err (RequiredCapabilityMissing (cap_service_id c))), n)"
proof -
  have cond: "(\<forall>r \<in> set remote. cap_required r \<longrightarrow> offered (cap_service_id r) here) \<and>
      (\<forall>l \<in> set here. cap_required l \<longrightarrow> agreed here remote (cap_service_id l) \<noteq> None) \<longleftrightarrow>
      negotiable here remote"
    by (auto simp: negotiable_def missing_here_def)
  show ?thesis
  proof (cases "negotiable here remote")
    case True
    then show ?thesis
      using negotiate_ok [of R n] assms unfolding cond by (simp add: comp_def)
  next
    case False
    then show ?thesis
      using negotiate_fails [of R n] assms unfolding cond by simp
  qed
qed

lemma default_ids_distinct:
  "ids_distinct (cset_capabilities android_default)" "ids_distinct (cset_capabilities desktop_default)"
  by (simp_all add: ids_distinct_def default_sets)

theorem negotiation_outcome_witness:
  "\<exists>c \<in> {default_config, default_sync}. cap_required c \<and>
     negotiate CapabilityNegotiator_new
       (CapabilitySet_default\<lparr>cset_capabilities := [default_sync, default_config]\<rparr>) =
       (Inl (Err (RequiredCapabilityMissing (cap_service_id c))), CapabilityNegotiator_new)"
  using negotiation_outcome
    [of "CapabilitySet_default\<lparr>cset_capabilities := [default_sync, default_config]\<rparr>" CapabilityNegotiator_new]
  by (simp add: ids_distinct_def CapabilityNegotiator_new_def CapabilitySet_default_def offered_def
      default_sync_def default_config_def)

text \<open>
  C16. The queries answer from the agreement: after a successful negotiation \<open>get_version\<close> gives the
  version agreed on (the lower of the two offers, none when a side does not offer the service or
  offers version 0), \<open>is_available\<close> says whether there is one, and \<open>is_capability_supported\<close>
  whether it is at least the version asked for.
\<close>

theorem negotiated_queries:
  fixes n :: CapabilityNegotiator and R :: CapabilitySet
  defines "a \<equiv> agreed (cset_capabilities (cn_local_capabilities n)) (cset_capabilities R)"
  assumes "ids_distinct (cset_capabilities R)" "negotiate n R = (Inr ns, n')"
  shows "get_version n' i = a i \<and> (is_available n' i \<longleftrightarrow> a i \<noteq> None) \<and>
    (is_capability_supported n' i v \<longleftrightarrow> (\<exists>w. a i = Some w \<and> v \<le> w))"
proof -
  have "negotiable (cset_capabilities (cn_local_capabilities n)) (cset_capabilities R)"
    using negotiate_fails [of R n] assms(2,3) by auto
  then have "cn_negotiated n' =
      map (negotiated_for (cset_capabilities (cn_local_capabilities n))) (cset_capabilities R)"
    using negotiate_ok [of R n] assms(2,3) by auto
  then show ?thesis
    using find_agreed [OF assms(2)] available_agreed [OF assms(2)] list_ex_agreed [OF assms(2)]
    by (auto simp: a_def get_version_def is_available_def is_capability_supported_def list_ex_iff)
qed

lemma defaults_negotiable:
  "negotiable (cset_capabilities desktop_default) (cset_capabilities android_default)"
  by (simp add: negotiable_def missing_here_def agreed_def find_capability_def offered_def default_sets)

theorem negotiated_queries_witness:
  "let n = set_local_capabilities CapabilityNegotiator_new desktop_default;
       (r, n') = negotiate n android_default
   in get_version n' ''bpl.config'' = Some 1 \<and> is_capability_supported n' ''bpl.sync'' 1 \<and>
     \<not> is_available n' ''bpl.unknown''"
proof -
  let ?n = "set_local_capabilities CapabilityNegotiator_new desktop_default"
  have here: "cset_capabilities (cn_local_capabilities ?n) = cset_capabilities desktop_default"
    by (simp add: set_local_capabilities_def)
  obtain ns n' where ok: "negotiate ?n android_default = (Inr ns, n')"
    using negotiate_ok [of android_default ?n] default_ids_distinct(1) defaults_negotiable
    unfolding here by blast
  note q = negotiated_queries [OF default_ids_distinct(1) ok, unfolded here]
  have "agreed (cset_capabilities desktop_default) (cset_capabilities android_default) ''bpl.config'' = Some 1"
    "agreed (cset_capabilities desktop_default) (cset_capabilities android_default) ''bpl.sync'' = Some 1"
    "agreed (cset_capabilities desktop_default) (cset_capabilities android_default) ''bpl.unknown'' = None"
    by (simp_all add: agreed_def find_capability_def default_sets)
  then show ?thesis
    using q [of "''bpl.config''" 0] q [of "''bpl.sync''" 1] q [of "''bpl.unknown''" 0] by (simp add: ok)
qed

text \<open>
  C30. Both sides come to the same agreement: two peers that offer each service once and no version 0
  either both succeed or both fail when they negotiate with each other's set, and when they
  succeed they hold the same version for every service.
\<close>

theorem negotiation_symmetric:
  fixes A B :: CapabilityNegotiator
  defines "a \<equiv> cn_local_capabilities A" and "b \<equiv> cn_local_capabilities B"
  assumes "ids_distinct (cset_capabilities a)" "ids_distinct (cset_capabilities b)"
    and "\<forall>c \<in> set (cset_capabilities a) \<union> set (cset_capabilities b). cap_version c \<noteq> 0"
  shows "case (negotiate A b, negotiate B a) of
      ((Inr _, A'), (Inr _, B')) \<Rightarrow> (\<forall>i. get_version A' i = get_version B' i)
    | ((Inl _, A'), (Inl _, B')) \<Rightarrow> A' = A \<and> B' = B
    | _ \<Rightarrow> False"
proof (cases "negotiable (cset_capabilities a) (cset_capabilities b)")
  case True
  then have "negotiable (cset_capabilities b) (cset_capabilities a)"
    using negotiable_commute assms(5) by (metis Un_commute)
  then show ?thesis
    using True negotiate_ok [of b A] negotiate_ok [of a B] assms
      find_agreed [of "cset_capabilities a" _ "cset_capabilities b"]
      find_agreed [of "cset_capabilities b" _ "cset_capabilities a"]
    by (simp add: get_version_def agreed_commute)
next
  case False
  then have "\<not> negotiable (cset_capabilities b) (cset_capabilities a)"
    using negotiable_commute assms(5) by (metis Un_commute)
  then show ?thesis
    using False negotiate_fails [of b A] negotiate_fails [of a B] assms by auto
qed

theorem negotiation_symmetric_witness:
  "let A = set_local_capabilities CapabilityNegotiator_new desktop_default;
       B = set_local_capabilities CapabilityNegotiator_new android_default
   in case (negotiate A (cn_local_capabilities B), negotiate B (cn_local_capabilities A)) of
      ((Inr _, A'), (Inr _, B')) \<Rightarrow> (\<forall>i. get_version A' i = get_version B' i)
    | ((Inl _, A'), (Inl _, B')) \<Rightarrow> A' = A \<and> B' = B
    | _ \<Rightarrow> False"
  unfolding Let_def
proof (rule negotiation_symmetric)
  show "\<forall>c \<in> set (cset_capabilities (cn_local_capabilities
        (set_local_capabilities CapabilityNegotiator_new desktop_default))) \<union>
      set (cset_capabilities (cn_local_capabilities
        (set_local_capabilities CapabilityNegotiator_new android_default))). cap_version c \<noteq> 0"
    by (simp add: set_local_capabilities_def default_sets)
qed (simp_all add: set_local_capabilities_def default_ids_distinct)

text \<open>
  The compatibility report is stricter than the negotiation: for a service both sides offer, it
  says "compatible" exactly when the two versions are equal, while negotiation agrees on the lower
  one whenever neither is 0. So a service with different versions is reported incompatible and is
  available at the same time.
\<close>

theorem compatibility_vs_negotiation:
  fixes n :: CapabilityNegotiator and R :: CapabilitySet
  assumes "ids_distinct (cset_capabilities R)" "ids_distinct (cset_capabilities (cn_local_capabilities n))"
    and "negotiate n R = (Inr ns, n')"
    and "l \<in> set (cset_capabilities (cn_local_capabilities n))" "r \<in> set (cset_capabilities R)"
    and "cap_service_id r = cap_service_id l"
  shows "\<exists>entry \<in> set (check_compatibility n' R). vc_service_id entry = cap_service_id l \<and>
    (vc_compatible entry \<longleftrightarrow> cap_version l = cap_version r) \<and>
    (is_available n' (cap_service_id l) \<longleftrightarrow> cap_version l \<noteq> 0 \<and> cap_version r \<noteq> 0)"
proof -
  let ?here = "cset_capabilities (cn_local_capabilities n)" and ?remote = "cset_capabilities R"
  have find: "find_capability (cap_service_id l) ?here = Some l" "find_capability (cap_service_id l) ?remote = Some r"
    using find_capability_mem [OF assms(2,4)] find_capability_mem [OF assms(1,5)] assms(6) by simp_all
  have neg: "negotiable ?here ?remote"
    using negotiate_fails [of R n] assms(1,3) by auto
  have n': "n' = n\<lparr>cn_negotiated := map (negotiated_for ?here) ?remote\<rparr>"
    using negotiate_ok [of R n] assms(1,3) neg by auto
  have "is_available n' (cap_service_id l) \<longleftrightarrow> agreed ?here ?remote (cap_service_id l) \<noteq> None"
    using available_agreed [OF assms(1), of ?here "cap_service_id l"] by (auto simp: n' is_available_def list_ex_iff)
  also have "\<dots> \<longleftrightarrow> cap_version l \<noteq> 0 \<and> cap_version r \<noteq> 0"
    by (auto simp: agreed_def find min_def)
  finally show ?thesis
    using assms(4) find by (auto simp: n' check_compatibility_def compatibility_of_def Let_def intro!: bexI [of _ l])
qed

theorem compatibility_vs_negotiation_witness:
  "let n = set_local_capabilities CapabilityNegotiator_new (CapabilitySet_default
           \<lparr>cset_capabilities := [default_sync\<lparr>cap_version := 2\<rparr>]\<rparr>);
       R = CapabilitySet_default\<lparr>cset_capabilities := [default_sync]\<rparr>;
       (_, n') = negotiate n R
   in is_available n' ''bpl.sync'' \<and> (\<exists>entry \<in> set (check_compatibility n' R). \<not> vc_compatible entry)"
proof -
  let ?l = "default_sync\<lparr>cap_version := 2\<rparr>"
  let ?n = "set_local_capabilities CapabilityNegotiator_new (CapabilitySet_default\<lparr>cset_capabilities := [?l]\<rparr>)"
  let ?R = "CapabilitySet_default\<lparr>cset_capabilities := [default_sync]\<rparr>"
  have "negotiable [?l] [default_sync]"
    by (simp add: negotiable_def missing_here_def default_sync_def)
  then obtain ns n' where ok: "negotiate ?n ?R = (Inr ns, n')"
    using negotiate_ok [of ?R ?n] by (simp add: set_local_capabilities_def ids_distinct_def)
  show ?thesis
    using compatibility_vs_negotiation [OF _ _ ok, of ?l default_sync] ok
    by (auto simp: set_local_capabilities_def ids_distinct_def default_sync_def)
qed

end
