(* ===== verification/Auth_Keys.thy ===== *)
theory Auth_Keys
  imports Lib_Constants
begin

text \<open>
  Authentication with a pre-shared key and the key schedule (\<^verbatim>\<open>protocol/src/auth.rs\<close>). The primitives
  of the crates \<^verbatim>\<open>hmac\<close>, \<^verbatim>\<open>hkdf\<close>, \<^verbatim>\<open>aes_gcm\<close> and \<^verbatim>\<open>bincode\<close> are the fields of a record that the
  definitions take as a parameter; \<open>crypto_ok\<close> states what is documented of them. A byte array of
  fixed size is a byte list.
\<close>

subsection \<open>Keys and primitives\<close>

record ChannelKeys =
  chk_encryption_key :: bytes
  chk_authentication_key :: bytes
  chk_iv_salt :: bytes

definition ChannelKeys_default :: ChannelKeys where
  "ChannelKeys_default =
     \<lparr>chk_encryption_key = replicate 32 0, chk_authentication_key = replicate 32 0,
      chk_iv_salt = replicate 16 0\<rparr>"

record SessionKeys =
  sk_master_key :: bytes
  sk_encryption_key :: bytes
  sk_authentication_key :: bytes
  sk_iv_salt :: bytes
  sk_channel_keys :: "(u32, ChannelKeys) hmap"

definition SessionKeys_default :: SessionKeys where
  "SessionKeys_default =
     \<lparr>sk_master_key = replicate 32 0, sk_encryption_key = replicate 32 0,
      sk_authentication_key = replicate 32 0, sk_iv_salt = replicate 16 0, sk_channel_keys = []\<rparr>"

text \<open>
  The primitives: \<open>cr_hmac key data\<close> (\<open>None\<close> when the key is refused), \<open>cr_hkdf salt ikm info n\<close>
  (extract, then expand to \<open>n\<close> bytes), AES-256-GCM with key, nonce and input, and the serializer of
  the session keys.
\<close>

record crypto =
  cr_hmac :: "bytes \<Rightarrow> bytes \<Rightarrow> bytes option"
  cr_hkdf :: "bytes option \<Rightarrow> bytes \<Rightarrow> bytes \<Rightarrow> nat \<Rightarrow> bytes option"
  cr_encrypt :: "bytes \<Rightarrow> bytes \<Rightarrow> bytes \<Rightarrow> string + bytes"
  cr_decrypt :: "bytes \<Rightarrow> bytes \<Rightarrow> bytes \<Rightarrow> string + bytes"
  cr_serialize :: "SessionKeys \<Rightarrow> string + bytes"
  cr_deserialize :: "bytes \<Rightarrow> string + SessionKeys"

text \<open>
  What the crates document: HMAC-SHA256 takes a key of any length and gives 32 bytes; HKDF expands
  to any length up to 255 blocks of 32 bytes; GCM appends 16 tag bytes, and with the same key and
  nonce (12 bytes) decryption inverts encryption.
\<close>

definition crypto_ok :: "crypto \<Rightarrow> bool" where
  "crypto_ok cr \<longleftrightarrow>
     (\<forall>key data. \<exists>tag. cr_hmac cr key data = Some tag \<and> length tag = 32) \<and>
     (\<forall>salt ikm info n. n \<le> 255 * 32 \<longrightarrow> (\<exists>out. cr_hkdf cr salt ikm info n = Some out \<and> length out = n)) \<and>
     (\<forall>key nonce data. length nonce = 12 \<longrightarrow>
        (\<exists>ct. cr_encrypt cr key nonce data = Inr ct \<and> length ct = length data + 16 \<and>
           cr_decrypt cr key nonce ct = Inr data))"

definition ascii :: "string \<Rightarrow> bytes" where
  "ascii s = map (\<lambda>c. of_nat (of_char c)) s"

subsection \<open>State\<close>

record AuthManager =
  am_psk :: "bytes option"
  am_method :: AuthMethod
  am_session_keys :: "SessionKeys option"
  am_pairing_records :: "(bytes, PairingRecord) hmap"

definition AuthManager_new :: AuthManager where
  "AuthManager_new =
     \<lparr>am_psk = None, am_method = AM_Psk, am_session_keys = None, am_pairing_records = []\<rparr>"

definition set_psk :: "AuthManager \<Rightarrow> bytes \<Rightarrow> AuthManager" where
  "set_psk m psk = m\<lparr>am_psk := Some psk\<rparr>"

definition get_psk :: "AuthManager \<Rightarrow> bytes option" where
  "get_psk m = am_psk m"

definition set_method :: "AuthManager \<Rightarrow> AuthMethod \<Rightarrow> AuthManager" where
  "set_method m mt = m\<lparr>am_method := mt\<rparr>"

definition auth_method :: "AuthManager \<Rightarrow> AuthMethod" where
  "auth_method m = am_method m"

text \<open>The two random fillings are the arguments.\<close>

definition generate_challenge :: "bytes \<Rightarrow> bytes \<Rightarrow> AuthChallenge result" where
  "generate_challenge challenge salt =
     Inr \<lparr>ac_challenge = challenge, ac_method = ''psk'', ac_salt = salt, ac_iterations = 100000\<rparr>"

subsection \<open>The key schedule\<close>

definition hkdf_expand ::
  "crypto \<Rightarrow> bytes option \<Rightarrow> bytes \<Rightarrow> string \<Rightarrow> nat \<Rightarrow> string \<Rightarrow> bytes result" where
  "hkdf_expand cr salt ikm info n msg =
     ok_or (KeyDerivation msg) (cr_hkdf cr salt ikm (ascii info) n)"

definition channel_info :: "u32 \<Rightarrow> string" where
  "channel_info channel_id = ''bpl-channel-'' @ decimal (unat channel_id)"

definition derive_channel_keys :: "crypto \<Rightarrow> bytes \<Rightarrow> u32 \<Rightarrow> ChannelKeys result" where
  "derive_channel_keys cr master_key channel_id =
     (let keys = ChannelKeys_default; info = channel_info channel_id in
      bindR (hkdf_expand cr None master_key info 32 ''Channel encryption key failed'') (\<lambda>k.
      let keys = keys\<lparr>chk_encryption_key := k\<rparr> in
      bindR (hkdf_expand cr None master_key (info @ ''-auth'') 32 ''Channel auth key failed'') (\<lambda>k.
      let keys = keys\<lparr>chk_authentication_key := k\<rparr> in
      bindR (hkdf_expand cr None master_key (info @ ''-iv'') 16 ''Channel IV salt failed'') (\<lambda>k.
        Inr (keys\<lparr>chk_iv_salt := k\<rparr>)))))"

text \<open>The loop \<open>for channel_id in 0..16\<close>, stopping at the first error.\<close>

primrec derive_all_channels ::
  "crypto \<Rightarrow> bytes \<Rightarrow> u32 list \<Rightarrow> (u32, ChannelKeys) hmap \<Rightarrow> (u32, ChannelKeys) hmap result" where
  "derive_all_channels cr master_key [] acc = Inr acc"
| "derive_all_channels cr master_key (channel_id # rest) acc =
     bindR (derive_channel_keys cr master_key channel_id) (\<lambda>keys.
       derive_all_channels cr master_key rest (hm_insert channel_id keys acc))"

definition channel_ids :: "u32 list" where
  "channel_ids = map of_nat [0 ..< 16]"

definition derive_session_keys ::
  "crypto \<Rightarrow> bytes \<Rightarrow> AuthChallenge \<Rightarrow> bytes \<Rightarrow> SessionKeys result" where
  "derive_session_keys cr psk challenge client_nonce =
     (let keys = SessionKeys_default in
      bindR (hkdf_expand cr (Some (ac_salt challenge)) psk ''bpl-master'' 32
               ''Master key derivation failed'') (\<lambda>k.
      let keys = keys\<lparr>sk_master_key := k\<rparr> in
      bindR (hkdf_expand cr (Some (sk_master_key keys)) [] ''bpl-enc'' 32
               ''Encryption key derivation failed'') (\<lambda>k.
      let keys = keys\<lparr>sk_encryption_key := k\<rparr> in
      bindR (hkdf_expand cr (Some (sk_master_key keys)) [] ''bpl-auth'' 32
               ''Auth key derivation failed'') (\<lambda>k.
      let keys = keys\<lparr>sk_authentication_key := k\<rparr> in
      bindR (hkdf_expand cr (Some (sk_master_key keys)) [] ''bpl-iv'' 16
               ''IV salt derivation failed'') (\<lambda>k.
      let keys = keys\<lparr>sk_iv_salt := k\<rparr> in
      bindR (derive_all_channels cr (sk_master_key keys) channel_ids (sk_channel_keys keys)) (\<lambda>cs.
        Inr (keys\<lparr>sk_channel_keys := cs\<rparr>)))))))"

definition rotate_keys :: "crypto \<Rightarrow> AuthManager \<Rightarrow> bytes \<Rightarrow> SessionKeys result \<times> AuthManager" where
  "rotate_keys cr m new_master_key =
     (let keys = SessionKeys_default\<lparr>sk_master_key := new_master_key\<rparr>;
          derived =
            bindR (hkdf_expand cr None (sk_master_key keys) ''bpl-enc'' 32
                     ''Encryption key derivation failed'') (\<lambda>k.
            let keys = keys\<lparr>sk_encryption_key := k\<rparr> in
            bindR (hkdf_expand cr None (sk_master_key keys) ''bpl-auth'' 32
                     ''Auth key derivation failed'') (\<lambda>k.
            let keys = keys\<lparr>sk_authentication_key := k\<rparr> in
            bindR (hkdf_expand cr None (sk_master_key keys) ''bpl-iv'' 16
                     ''IV salt derivation failed'') (\<lambda>k.
            let keys = keys\<lparr>sk_iv_salt := k\<rparr> in
            bindR (derive_all_channels cr (sk_master_key keys) channel_ids (sk_channel_keys keys)) (\<lambda>cs.
              Inr (keys\<lparr>sk_channel_keys := cs\<rparr>)))))
      in case derived of
           Inl e \<Rightarrow> (Inl e, m)
         | Inr keys \<Rightarrow> (Inr keys, m\<lparr>am_session_keys := Some keys\<rparr>))"

subsection \<open>The handshake\<close>

definition compute_client_hmac ::
  "crypto \<Rightarrow> bytes \<Rightarrow> AuthChallenge \<Rightarrow> bytes \<Rightarrow> bytes result" where
  "compute_client_hmac cr psk challenge client_nonce =
     ok_or (AuthenticationFailed ''HMAC init failed'')
       (cr_hmac cr psk (ac_challenge challenge @ client_nonce @ ascii ''client''))"

definition compute_server_hmac ::
  "crypto \<Rightarrow> bytes \<Rightarrow> AuthChallenge \<Rightarrow> bytes \<Rightarrow> bytes result" where
  "compute_server_hmac cr psk challenge client_nonce =
     ok_or (AuthenticationFailed ''HMAC init failed'')
       (cr_hmac cr psk (ac_challenge challenge @ client_nonce @ ascii ''server''))"

definition encrypt_session_keys :: "crypto \<Rightarrow> SessionKeys \<Rightarrow> bytes result" where
  "encrypt_session_keys cr keys =
     (case cr_serialize cr keys of
        Inl e \<Rightarrow> Inl (Err (Serialization e))
      | Inr plaintext \<Rightarrow>
          (case cr_encrypt cr (sk_master_key keys) (take 12 (sk_iv_salt keys)) plaintext of
             Inl e \<Rightarrow> Inl (Err (Encryption e))
           | Inr ciphertext \<Rightarrow> Inr ciphertext))"

definition decrypt_session_keys :: "crypto \<Rightarrow> bytes \<Rightarrow> bytes \<Rightarrow> bytes \<Rightarrow> SessionKeys result" where
  "decrypt_session_keys cr encrypted master_key iv_salt =
     (case cr_decrypt cr master_key (take 12 iv_salt) encrypted of
        Inl e \<Rightarrow> Inl (Err (Decryption e))
      | Inr plaintext \<Rightarrow>
          (case cr_deserialize cr plaintext of
             Inl e \<Rightarrow> Inl (Err (Deserialization e))
           | Inr keys \<Rightarrow> Inr keys))"

definition verify_response ::
  "crypto \<Rightarrow> AuthManager \<Rightarrow> AuthChallenge \<Rightarrow> AuthResponse \<Rightarrow> AuthSuccess result \<times> AuthManager" where
  "verify_response cr m challenge response =
     (case get_psk m of
        None \<Rightarrow> (Inl (Err (AuthenticationFailed ''PSK not configured'')), m)
      | Some psk \<Rightarrow>
        (case compute_client_hmac cr psk challenge (ar_client_nonce response) of
           Inl e \<Rightarrow> (Inl e, m)
         | Inr expected_hmac \<Rightarrow>
           if expected_hmac \<noteq> ar_response response
           then (Inl (Err (AuthenticationFailed ''Invalid HMAC'')), m)
           else
           (case derive_session_keys cr psk challenge (ar_client_nonce response) of
              Inl e \<Rightarrow> (Inl e, m)
            | Inr session_keys \<Rightarrow>
              (let m = m\<lparr>am_session_keys := Some session_keys\<rparr> in
               (bindR (compute_server_hmac cr psk challenge (ar_client_nonce response)) (\<lambda>server_hmac.
                bindR (encrypt_session_keys cr session_keys) (\<lambda>encrypted_keys.
                  Inr \<lparr>asu_key_confirmation = server_hmac,
                       asu_session_keys_encrypted = encrypted_keys\<rparr>)), m)))))"

definition verify_server_response ::
  "crypto \<Rightarrow> AuthManager \<Rightarrow> AuthChallenge \<Rightarrow> AuthSuccess \<Rightarrow> SessionKeys result \<times> AuthManager" where
  "verify_server_response cr m challenge response =
     (case get_psk m of
        None \<Rightarrow> (Inl (Err (AuthenticationFailed ''PSK not configured'')), m)
      | Some psk \<Rightarrow>
        (case derive_session_keys cr psk challenge (replicate 32 0) of
           Inl e \<Rightarrow> (Inl e, m)
         | Inr session_keys \<Rightarrow> (Inr session_keys, m\<lparr>am_session_keys := Some session_keys\<rparr>)))"

definition session_keys :: "AuthManager \<Rightarrow> SessionKeys option" where
  "session_keys m = am_session_keys m"

definition channel_keys :: "AuthManager \<Rightarrow> u32 \<Rightarrow> ChannelKeys option" where
  "channel_keys m channel_id =
     (case am_session_keys m of None \<Rightarrow> None | Some k \<Rightarrow> hm_get (sk_channel_keys k) channel_id)"

definition clear_keys :: "AuthManager \<Rightarrow> AuthManager" where
  "clear_keys m = m\<lparr>am_session_keys := None\<rparr>"

subsection \<open>Pairing records\<close>

definition pairing_id :: "PairingRecord \<Rightarrow> bytes" where
  "pairing_id record = (case pr_device_id record of None \<Rightarrow> [] | Some d \<Rightarrow> did_value d)"

definition add_pairing :: "AuthManager \<Rightarrow> PairingRecord \<Rightarrow> AuthManager" where
  "add_pairing m record =
     m\<lparr>am_pairing_records := hm_insert (pairing_id record) record (am_pairing_records m)\<rparr>"

definition get_pairing :: "AuthManager \<Rightarrow> bytes \<Rightarrow> PairingRecord option" where
  "get_pairing m device_id = hm_get (am_pairing_records m) device_id"

definition list_pairings :: "AuthManager \<Rightarrow> PairingRecord list" where
  "list_pairings m = hm_values (am_pairing_records m)"

definition remove_pairing :: "AuthManager \<Rightarrow> bytes \<Rightarrow> bool \<times> AuthManager" where
  "remove_pairing m device_id =
     (hm_get (am_pairing_records m) device_id \<noteq> None,
      m\<lparr>am_pairing_records := hm_remove device_id (am_pairing_records m)\<rparr>)"

subsection \<open>Protecting data with the keys of a channel\<close>

definition channel_nonce :: "ChannelKeys \<Rightarrow> u64 \<Rightarrow> bytes" where
  "channel_nonce keys sequence = le_bytes 8 sequence @ take 4 (chk_iv_salt keys)"

definition encrypt_with_channel_keys ::
  "crypto \<Rightarrow> bytes \<Rightarrow> ChannelKeys \<Rightarrow> u64 \<Rightarrow> (bytes \<times> bytes) result" where
  "encrypt_with_channel_keys cr data keys sequence =
     (case cr_encrypt cr (chk_encryption_key keys) (channel_nonce keys sequence) data of
        Inl e \<Rightarrow> Inl (Err (Encryption e))
      | Inr ciphertext \<Rightarrow>
          (let len = length ciphertext in
           if len < 16 then Inl (Panic ''attempt to subtract with overflow'')
           else Inr (take (len - 16) ciphertext, drop (len - 16) ciphertext)))"

definition decrypt_with_channel_keys ::
  "crypto \<Rightarrow> bytes \<Rightarrow> bytes \<Rightarrow> ChannelKeys \<Rightarrow> u64 \<Rightarrow> bytes result" where
  "decrypt_with_channel_keys cr ciphertext tag keys sequence =
     (case cr_decrypt cr (chk_encryption_key keys) (channel_nonce keys sequence) (ciphertext @ tag) of
        Inl e \<Rightarrow> Inl (Err (Decryption e))
      | Inr data \<Rightarrow> Inr data)"

definition authenticate_data :: "crypto \<Rightarrow> bytes \<Rightarrow> ChannelKeys \<Rightarrow> bytes result" where
  "authenticate_data cr data keys =
     (case cr_hmac cr (chk_authentication_key keys) data of
        None \<Rightarrow> Inl (Panic ''HMAC key is valid'')
      | Some tag \<Rightarrow> Inr tag)"

text \<open>\<open>ct_eq\<close> of slices is false for different lengths and otherwise compares the bytes.\<close>

definition verify_authentication :: "crypto \<Rightarrow> bytes \<Rightarrow> bytes \<Rightarrow> ChannelKeys \<Rightarrow> bool result" where
  "verify_authentication cr data tag keys =
     bindR (authenticate_data cr data keys) (\<lambda>expected. Inr (expected = tag))"

subsection \<open>The schedule never fails and covers the channels\<close>

lemma crypto_hkdf:
  "crypto_ok cr \<Longrightarrow> n \<le> 255 * 32 \<Longrightarrow> \<exists>out. hkdf_expand cr salt ikm info n msg = Inr out \<and> length out = n"
  unfolding crypto_ok_def hkdf_expand_def by (metis ok_or_simps(1))

lemma expand32: "crypto_ok cr \<Longrightarrow> \<exists>out. hkdf_expand cr salt ikm info 32 msg = Inr out \<and> length out = 32"
  by (rule crypto_hkdf) simp_all

lemma expand16: "crypto_ok cr \<Longrightarrow> \<exists>out. hkdf_expand cr salt ikm info 16 msg = Inr out \<and> length out = 16"
  by (rule crypto_hkdf) simp_all

lemma crypto_hmac: "crypto_ok cr \<Longrightarrow> \<exists>tag. cr_hmac cr key data = Some tag \<and> length tag = 32"
  by (simp add: crypto_ok_def)

lemma crypto_aead:
  "crypto_ok cr \<Longrightarrow> length nonce = 12 \<Longrightarrow>
     \<exists>ct. cr_encrypt cr key nonce data = Inr ct \<and> length ct = length data + 16 \<and>
       cr_decrypt cr key nonce ct = Inr data"
  by (simp add: crypto_ok_def)

definition channel_keys_wf :: "ChannelKeys \<Rightarrow> bool" where
  "channel_keys_wf k \<longleftrightarrow> length (chk_encryption_key k) = 32 \<and> length (chk_authentication_key k) = 32 \<and>
     length (chk_iv_salt k) = 16"

definition session_keys_wf :: "crypto \<Rightarrow> SessionKeys \<Rightarrow> bool" where
  "session_keys_wf cr k \<longleftrightarrow> length (sk_master_key k) = 32 \<and> length (sk_encryption_key k) = 32 \<and>
     length (sk_authentication_key k) = 32 \<and> length (sk_iv_salt k) = 16 \<and>
     (\<forall>i. (\<exists>c. hm_get (sk_channel_keys k) i = Some c) \<longleftrightarrow> i < MAX_CHANNELS) \<and>
     (\<forall>i c. hm_get (sk_channel_keys k) i = Some c \<longrightarrow>
        channel_keys_wf c \<and> derive_channel_keys cr (sk_master_key k) i = Inr c)"

lemma derive_channel_keys_ok:
  assumes "crypto_ok cr"
  shows "\<exists>k. derive_channel_keys cr master i = Inr k \<and> channel_keys_wf k"
proof -
  let ?x = "\<lambda>info n msg. hkdf_expand cr None master info n msg"
  obtain a where a: "?x (channel_info i) 32 ''Channel encryption key failed'' = Inr a" "length a = 32"
    using expand32 [OF assms] by blast
  obtain b where b: "?x (channel_info i @ ''-auth'') 32 ''Channel auth key failed'' = Inr b" "length b = 32"
    using expand32 [OF assms] by blast
  obtain c where c: "?x (channel_info i @ ''-iv'') 16 ''Channel IV salt failed'' = Inr c" "length c = 16"
    using expand16 [OF assms] by blast
  show ?thesis
    using a b c by (simp add: derive_channel_keys_def channel_keys_wf_def)
qed

lemma derive_all_channels_ok:
  assumes "crypto_ok cr"
  shows "\<exists>cs. derive_all_channels cr master is acc = Inr cs \<and>
    (\<forall>i. hm_get cs i = (if i \<in> set is then (case derive_channel_keys cr master i of Inr k \<Rightarrow> Some k | Inl _ \<Rightarrow> None)
       else hm_get acc i))"
proof (induction "is" arbitrary: acc)
  case Nil
  then show ?case by simp
next
  case (Cons j js)
  obtain k where "derive_channel_keys cr master j = Inr k"
    using derive_channel_keys_ok [OF assms] by blast
  then show ?case
    using Cons [of "hm_insert j k acc"] by auto
qed

lemma set_channel_ids: "set channel_ids = {i. i < MAX_CHANNELS}"
proof -
  have "i \<in> set channel_ids" if "i < MAX_CHANNELS" for i
  proof -
    have "unat i < 16" "i = of_nat (unat i)"
      using that by (simp_all add: MAX_CHANNELS_def word_less_nat_alt)
    then show ?thesis
      unfolding channel_ids_def by (metis atLeast0LessThan image_eqI lessThan_iff list.set_map set_upt)
  qed
  moreover have "of_nat n < MAX_CHANNELS" if "n < 16" for n
    using that by (simp add: MAX_CHANNELS_def word_less_nat_alt unat_of_nat)
  ultimately show ?thesis
    by (auto simp: channel_ids_def)
qed

lemma all_channels_wf:
  assumes "crypto_ok cr"
  obtains cs where "derive_all_channels cr master channel_ids [] = Inr cs"
    "\<And>i. (\<exists>c. hm_get cs i = Some c) \<longleftrightarrow> i < MAX_CHANNELS"
    "\<And>i c. hm_get cs i = Some c \<Longrightarrow> channel_keys_wf c \<and> derive_channel_keys cr master i = Inr c"
proof -
  obtain cs where cs: "derive_all_channels cr master channel_ids [] = Inr cs"
    "\<And>i. hm_get cs i = (if i < MAX_CHANNELS
       then (case derive_channel_keys cr master i of Inr k \<Rightarrow> Some k | Inl _ \<Rightarrow> None) else None)"
    using derive_all_channels_ok [OF assms, of master channel_ids "[]"] by (auto simp: set_channel_ids)
  show thesis
  proof (rule that [OF cs(1)])
    fix i
    obtain k where "derive_channel_keys cr master i = Inr k" "channel_keys_wf k"
      using derive_channel_keys_ok [OF assms] by blast
    then show "(\<exists>c. hm_get cs i = Some c) \<longleftrightarrow> i < MAX_CHANNELS"
      and "\<And>c. hm_get cs i = Some c \<Longrightarrow> channel_keys_wf c \<and> derive_channel_keys cr master i = Inr c"
      by (auto simp: cs(2) split: if_splits)
  qed
qed

lemma derive_session_keys_ok:
  assumes "crypto_ok cr"
  shows "\<exists>k. derive_session_keys cr psk ch nonce = Inr k \<and> session_keys_wf cr k"
proof -
  obtain m where m: "hkdf_expand cr (Some (ac_salt ch)) psk ''bpl-master'' 32 ''Master key derivation failed'' = Inr m"
    "length m = 32"
    using expand32 [OF assms] by blast
  let ?x = "\<lambda>info n msg. hkdf_expand cr (Some m) [] info n msg"
  obtain a where a: "?x ''bpl-enc'' 32 ''Encryption key derivation failed'' = Inr a" "length a = 32"
    using expand32 [OF assms] by blast
  obtain b where b: "?x ''bpl-auth'' 32 ''Auth key derivation failed'' = Inr b" "length b = 32"
    using expand32 [OF assms] by blast
  obtain c where c: "?x ''bpl-iv'' 16 ''IV salt derivation failed'' = Inr c" "length c = 16"
    using expand16 [OF assms] by blast
  obtain cs where cs: "derive_all_channels cr m channel_ids [] = Inr cs"
    "\<And>i. (\<exists>c. hm_get cs i = Some c) \<longleftrightarrow> i < MAX_CHANNELS"
    "\<And>i c. hm_get cs i = Some c \<Longrightarrow> channel_keys_wf c \<and> derive_channel_keys cr m i = Inr c"
    using all_channels_wf [OF assms] by metis
  have "sk_channel_keys SessionKeys_default = []"
    by (simp add: SessionKeys_default_def)
  then show ?thesis
    using m a b c cs by (simp add: derive_session_keys_def session_keys_wf_def)
qed

lemma rotate_keys_ok:
  assumes "crypto_ok cr" "length master = 32"
  shows "\<exists>k. rotate_keys cr m master = (Inr k, m\<lparr>am_session_keys := Some k\<rparr>) \<and>
    session_keys_wf cr k \<and> sk_master_key k = master"
proof -
  let ?x = "\<lambda>info n msg. hkdf_expand cr None master info n msg"
  obtain a where a: "?x ''bpl-enc'' 32 ''Encryption key derivation failed'' = Inr a" "length a = 32"
    using expand32 [OF assms(1)] by blast
  obtain b where b: "?x ''bpl-auth'' 32 ''Auth key derivation failed'' = Inr b" "length b = 32"
    using expand32 [OF assms(1)] by blast
  obtain c where c: "?x ''bpl-iv'' 16 ''IV salt derivation failed'' = Inr c" "length c = 16"
    using expand16 [OF assms(1)] by blast
  obtain cs where cs: "derive_all_channels cr master channel_ids [] = Inr cs"
    "\<And>i. (\<exists>c. hm_get cs i = Some c) \<longleftrightarrow> i < MAX_CHANNELS"
    "\<And>i c. hm_get cs i = Some c \<Longrightarrow> channel_keys_wf c \<and> derive_channel_keys cr master i = Inr c"
    using all_channels_wf [OF assms(1)] by metis
  have "sk_channel_keys SessionKeys_default = []"
    by (simp add: SessionKeys_default_def)
  then show ?thesis
    using assms(2) a b c cs by (simp add: rotate_keys_def session_keys_wf_def Let_def)
qed

subsection \<open>Labels and nonces\<close>

definition label_suffixes :: "string set" where
  "label_suffixes = {[], ''-auth'', ''-iv''}"

definition channel_label :: "u32 \<Rightarrow> string \<Rightarrow> bytes" where
  "channel_label i suffix = ascii (channel_info i @ suffix)"

lemma ascii_inject [simp]: "ascii s = ascii t \<longleftrightarrow> s = t"
proof -
  have "c = d" if "(of_nat (of_char c) :: byte) = of_nat (of_char d)" for c d
  proof -
    have "of_char c < (256 :: nat)" "of_char d < (256 :: nat)"
      by simp_all
    then have "(of_char c :: nat) = of_char d"
      using arg_cong [OF that, of unat] by (simp add: unat_of_nat)
    then show ?thesis
      by simp
  qed
  then show ?thesis
    unfolding ascii_def by (intro inj_map_eq_map) (auto simp: inj_def)
qed

lemma digits_decimal: "set (decimal n) \<subseteq> {char_of k | k :: nat. 48 \<le> k \<and> k < 58}"
proof (induction n rule: decimal.induct)
  case (1 n)
  have "char_of (48 + n mod 10) \<in> {char_of k | k :: nat. 48 \<le> k \<and> k < 58}"
    by (rule CollectI, rule exI [of _ "48 + n mod 10"]) simp
  moreover have "char_of (48 + n) \<in> {char_of k | k :: nat. 48 \<le> k \<and> k < 58}" if "n < 10"
    using that by (intro CollectI exI [of _ "48 + n"]) simp
  ultimately show ?case
    using 1 by (subst decimal.simps) auto
qed

lemma dash_not_digit: "CHR ''-'' \<notin> set (decimal n)"
proof
  assume "CHR ''-'' \<in> set (decimal n)"
  then obtain k :: nat where "CHR ''-'' = char_of k" "48 \<le> k" "k < 58"
    using digits_decimal by blast
  have "(45 :: nat) = of_char (CHR ''-'')"
    by simp
  also have "\<dots> = of_char (char_of k :: char)"
    by (rule arg_cong [OF \<open>CHR ''-'' = char_of k\<close>])
  also have "\<dots> = k"
    using \<open>k < 58\<close> by simp
  finally show False
    using \<open>48 \<le> k\<close> by simp
qed

text \<open>Everything up to the first dash behind the fixed prefix is the channel number.\<close>

lemma takeWhile_digits:
  assumes "suffix \<in> label_suffixes"
  shows "takeWhile (\<lambda>c. c \<noteq> CHR ''-'') (decimal n @ suffix) = decimal n"
proof -
  have "c \<noteq> CHR ''-''" if "c \<in> set (decimal n)" for c
    using that dash_not_digit by metis
  then have "takeWhile (\<lambda>c. c \<noteq> CHR ''-'') (decimal n @ suffix) =
      decimal n @ takeWhile (\<lambda>c. c \<noteq> CHR ''-'') suffix"
    by (rule takeWhile_append2)
  moreover have "takeWhile (\<lambda>c. c \<noteq> CHR ''-'') suffix = []"
    using assms by (auto simp: label_suffixes_def)
  ultimately show ?thesis
    by (simp only: append_Nil2)
qed

lemma channel_label_inject:
  assumes "s \<in> label_suffixes" "t \<in> label_suffixes"
  shows "channel_label i s = channel_label j t \<longleftrightarrow> i = j \<and> s = t"
proof
  assume "channel_label i s = channel_label j t"
  then have eq: "decimal (unat i) @ s = decimal (unat j) @ t"
    by (simp add: channel_label_def channel_info_def)
  then have "decimal (unat i) = decimal (unat j)"
    using takeWhile_digits assms by metis
  then show "i = j \<and> s = t"
    using eq by (simp add: word_unat_eq_iff)
qed simp

lemma length_channel_nonce: "channel_keys_wf keys \<Longrightarrow> length (channel_nonce keys s) = 12"
  by (simp add: channel_nonce_def channel_keys_wf_def)

lemma channel_nonce_inject: "channel_nonce keys s = channel_nonce keys s' \<longleftrightarrow> s = s'"
  by (simp add: channel_nonce_def le64.append_put_eq le64.put_inject)

lemma encrypt_decrypt_channel:
  assumes "crypto_ok cr" "channel_keys_wf keys"
  shows "\<exists>ct tag. encrypt_with_channel_keys cr data keys s = Inr (ct, tag) \<and>
    length ct = length data \<and> length tag = 16 \<and> decrypt_with_channel_keys cr ct tag keys s = Inr data"
proof -
  obtain ct where "cr_encrypt cr (chk_encryption_key keys) (channel_nonce keys s) data = Inr ct"
    "length ct = length data + 16" "cr_decrypt cr (chk_encryption_key keys) (channel_nonce keys s) ct = Inr data"
    using crypto_aead [OF assms(1) length_channel_nonce [OF assms(2)]] by blast
  then show ?thesis
    by (simp add: encrypt_with_channel_keys_def decrypt_with_channel_keys_def Let_def)
qed

text \<open>A tag verifies exactly when it is the one computed for the data.\<close>

lemma verify_authentication_iff:
  "crypto_ok cr \<Longrightarrow> \<exists>expected. authenticate_data cr data keys = Inr expected \<and> length expected = 32 \<and>
     verify_authentication cr data tag keys = Inr (tag = expected)"
  using crypto_hmac [of cr "chk_authentication_key keys" data]
  by (auto simp: authenticate_data_def verify_authentication_def)

text \<open>The pairing records are a keyed store under the device id.\<close>

lemma pairing_store:
  "get_pairing (add_pairing m r) d = (if d = pairing_id r then Some r else get_pairing m d)"
  "hm_wf (am_pairing_records m) \<Longrightarrow>
     get_pairing (snd (remove_pairing m d)) d' = (if d' = d then None else get_pairing m d')"
  "hm_wf (am_pairing_records m) \<Longrightarrow>
     length (list_pairings (snd (remove_pairing m d))) =
       (if fst (remove_pairing m d) then length (list_pairings m) - 1 else length (list_pairings m))"
  using hm.count_del [of "am_pairing_records m" d]
  by (simp_all add: get_pairing_def add_pairing_def remove_pairing_def list_pairings_def hm_values_def hm_keys_def)

subsection \<open>Properties of authentication\<close>

text \<open>A set of primitives that satisfies \<open>crypto_ok\<close>, to evaluate the definitions with.\<close>

definition sample_crypto :: crypto where
  "sample_crypto =
     \<lparr>cr_hmac = \<lambda>key data. Some (take 32 (key @ data @ replicate 32 0)),
      cr_hkdf = \<lambda>salt ikm info n. Some (take n (info @ ikm @ replicate n 0)),
      cr_encrypt = \<lambda>key nonce data. Inr (data @ nonce @ replicate 4 0),
      cr_decrypt = \<lambda>key nonce ct. if drop (length ct - 16) ct = nonce @ replicate 4 0
        then Inr (take (length ct - 16) ct) else Inl ''tag'',
      cr_serialize = \<lambda>keys. Inr (sk_master_key keys),
      cr_deserialize = \<lambda>b. Inr SessionKeys_default\<rparr>"

lemma sample_crypto_ok: "crypto_ok sample_crypto"
  by (auto simp: crypto_ok_def sample_crypto_def min_def)

lemma crypto_ok_deserialize [simp]: "crypto_ok (cr\<lparr>cr_deserialize := d\<rparr>) = crypto_ok cr"
  by (simp add: crypto_ok_def)

lemma hkdf_expand_deserialize [simp]: "hkdf_expand (cr\<lparr>cr_deserialize := d\<rparr>) = hkdf_expand cr"
  by (intro ext) (simp add: hkdf_expand_def)

lemma derive_channel_keys_deserialize [simp]:
  "derive_channel_keys (cr\<lparr>cr_deserialize := d\<rparr>) = derive_channel_keys cr"
  by (intro ext) (simp add: derive_channel_keys_def)

lemma derive_all_channels_deserialize [simp]:
  "derive_all_channels (cr\<lparr>cr_deserialize := d\<rparr>) m is acc = derive_all_channels cr m is acc"
  by (induction "is" arbitrary: acc) simp_all

lemma derive_session_keys_deserialize [simp]:
  "derive_session_keys (cr\<lparr>cr_deserialize := d\<rparr>) = derive_session_keys cr"
  by (intro ext) (simp add: derive_session_keys_def)

text \<open>
  C6. The handshake works: when both sides hold the same key and the client answers a challenge with
  its HMAC over the challenge and its nonce, the server accepts, and after the client has taken
  the server's answer both hold the same session keys, well-formed, with the same keys for every
  channel; and the keys the server sends along decrypt, under their own master key, to themselves.
\<close>

theorem psk_handshake:
  assumes "crypto_ok cr" "am_psk server = Some psk" "am_psk client = Some psk"
    and "compute_client_hmac cr psk ch (ar_client_nonce r) = Inr (ar_response r)"
    and "\<forall>keys. derive_session_keys cr psk ch (ar_client_nonce r) = Inr keys \<longrightarrow>
      (\<exists>b. cr_serialize cr keys = Inr b \<and> cr_deserialize cr b = Inr keys)"
  shows "\<exists>success server' client' keys.
    verify_response cr server ch r = (Inr success, server') \<and>
    verify_server_response cr client ch success = (Inr keys, client') \<and>
    session_keys server' = Some keys \<and> session_keys client' = Some keys \<and> session_keys_wf cr keys \<and>
    (\<forall>i. channel_keys server' i = channel_keys client' i) \<and>
    decrypt_session_keys cr (asu_session_keys_encrypted success) (sk_master_key keys) (sk_iv_salt keys) =
      Inr keys"
proof -
  obtain keys where keys: "derive_session_keys cr psk ch (ar_client_nonce r) = Inr keys" "session_keys_wf cr keys"
    using derive_session_keys_ok [OF assms(1)] by blast
  then obtain b where b: "cr_serialize cr keys = Inr b" "cr_deserialize cr b = Inr keys"
    using assms(5) by blast
  have "length (take 12 (sk_iv_salt keys)) = 12"
    using keys(2) by (simp add: session_keys_wf_def)
  then obtain ct where ct: "cr_encrypt cr (sk_master_key keys) (take 12 (sk_iv_salt keys)) b = Inr ct"
    "cr_decrypt cr (sk_master_key keys) (take 12 (sk_iv_salt keys)) ct = Inr b"
    using crypto_aead [OF assms(1)] by blast
  obtain tag where tag: "compute_server_hmac cr psk ch (ar_client_nonce r) = Inr tag"
    using crypto_hmac [OF assms(1)] unfolding compute_server_hmac_def by (metis ok_or_simps(1))
  have "derive_session_keys cr psk ch (replicate 32 0) = Inr keys"
    using keys(1) by (simp add: derive_session_keys_def)
  then show ?thesis
    using assms(2-4) keys b ct tag
    by (simp add: verify_response_def verify_server_response_def get_psk_def encrypt_session_keys_def
        decrypt_session_keys_def session_keys_def channel_keys_def)
qed

theorem psk_handshake_witness:
  "\<exists>K r. let cr = sample_crypto\<lparr>cr_deserialize := \<lambda>b. Inr K\<rparr>;
        m = set_psk AuthManager_new (replicate 32 42);
        ch = \<lparr>ac_challenge = replicate 32 1, ac_method = ''psk'', ac_salt = replicate 32 2,
              ac_iterations = 100000\<rparr>
    in \<exists>success server' client' keys. verify_response cr m ch r = (Inr success, server') \<and>
      verify_server_response cr m ch success = (Inr keys, client') \<and>
      session_keys server' = Some keys \<and> session_keys client' = Some keys"
proof -
  let ?m = "set_psk AuthManager_new (replicate 32 42)"
  let ?ch = "\<lparr>ac_challenge = replicate 32 1, ac_method = ''psk'', ac_salt = replicate 32 2,
    ac_iterations = 100000\<rparr>"
  obtain K where K: "derive_session_keys sample_crypto (replicate 32 42) ?ch [] = Inr K"
    using derive_session_keys_ok [OF sample_crypto_ok] by blast
  let ?cr = "sample_crypto\<lparr>cr_deserialize := \<lambda>b. Inr K\<rparr>"
  obtain tag where tag: "compute_client_hmac ?cr (replicate 32 42) ?ch [] = Inr tag"
    by (simp add: compute_client_hmac_def sample_crypto_def)
  have ser: "cr_serialize sample_crypto = (\<lambda>keys. Inr (sk_master_key keys))"
    by (simp add: sample_crypto_def)
  let ?r = "\<lparr>ar_response = tag, ar_client_nonce = [], ar_public_key = []\<rparr>"
  have "crypto_ok ?cr" "am_psk ?m = Some (replicate 32 42)"
    by (simp_all add: sample_crypto_ok set_psk_def)
  moreover have "compute_client_hmac ?cr (replicate 32 42) ?ch (ar_client_nonce ?r) = Inr (ar_response ?r)"
    using tag by simp
  moreover have "\<forall>keys. derive_session_keys ?cr (replicate 32 42) ?ch (ar_client_nonce ?r) = Inr keys \<longrightarrow>
      (\<exists>b. cr_serialize ?cr keys = Inr b \<and> cr_deserialize ?cr b = Inr keys)"
    using K by (simp add: ser)
  ultimately have "\<exists>success server' client' keys. verify_response ?cr ?m ?ch ?r = (Inr success, server') \<and>
      verify_server_response ?cr ?m ?ch success = (Inr keys, client') \<and>
      session_keys server' = Some keys \<and> session_keys client' = Some keys"
    using psk_handshake [of ?cr ?m "replicate 32 42" ?m ?ch ?r] by blast
  then show ?thesis
    unfolding Let_def by blast
qed

text \<open>
  C40. The server's gate: it accepts a response exactly when a key is configured and the response is
  the HMAC under that key of the challenge, the client's nonce and the word "client". In every
  other case it answers \<open>AuthenticationFailed\<close> and stores nothing.
\<close>

theorem server_accepts_iff:
  assumes "crypto_ok cr" "\<forall>keys. \<exists>b. cr_serialize cr keys = Inr b"
  shows "if \<exists>psk. am_psk m = Some psk \<and>
        cr_hmac cr psk (ac_challenge ch @ ar_client_nonce r @ ascii ''client'') = Some (ar_response r)
    then \<exists>success m'. verify_response cr m ch r = (Inr success, m') \<and> session_keys m' \<noteq> None
    else \<exists>msg. verify_response cr m ch r = (Inl (Err (AuthenticationFailed msg)), m)"
proof (cases "am_psk m")
  case None
  then show ?thesis
    by (simp add: verify_response_def get_psk_def)
next
  case (Some psk)
  obtain mac where mac: "cr_hmac cr psk (ac_challenge ch @ ar_client_nonce r @ ascii ''client'') = Some mac"
    using crypto_hmac [OF assms(1)] by blast
  obtain keys where keys: "derive_session_keys cr psk ch (ar_client_nonce r) = Inr keys" "session_keys_wf cr keys"
    using derive_session_keys_ok [OF assms(1)] by blast
  obtain b where b: "cr_serialize cr keys = Inr b"
    using assms(2) by blast
  have "length (take 12 (sk_iv_salt keys)) = 12"
    using keys(2) by (simp add: session_keys_wf_def)
  then obtain ct where ct: "cr_encrypt cr (sk_master_key keys) (take 12 (sk_iv_salt keys)) b = Inr ct"
    using crypto_aead [OF assms(1)] by blast
  obtain tag where tag: "compute_server_hmac cr psk ch (ar_client_nonce r) = Inr tag"
    using crypto_hmac [OF assms(1)] unfolding compute_server_hmac_def by (metis ok_or_simps(1))
  show ?thesis
    using Some mac keys(1) b ct tag
    by (simp add: verify_response_def get_psk_def compute_client_hmac_def encrypt_session_keys_def
        session_keys_def)
qed

theorem server_accepts_iff_witness:
  "\<exists>msg. verify_response sample_crypto AuthManager_new
      \<lparr>ac_challenge = [], ac_method = ''psk'', ac_salt = [], ac_iterations = 1\<rparr>
      \<lparr>ar_response = [], ar_client_nonce = [], ar_public_key = []\<rparr> =
    (Inl (Err (AuthenticationFailed msg)), AuthManager_new)"
  using server_accepts_iff [OF sample_crypto_ok, of AuthManager_new
      "\<lparr>ac_challenge = [], ac_method = ''psk'', ac_salt = [], ac_iterations = 1\<rparr>"
      "\<lparr>ar_response = [], ar_client_nonce = [], ar_public_key = []\<rparr>"]
  by (simp add: AuthManager_new_def sample_crypto_def)

text \<open>
  The client does not authenticate the server: with a key configured it accepts every answer to
  a challenge, whatever its key confirmation and encrypted keys say, and derives keys that depend
  only on its own key and the salt of the challenge; the nonce it chose does not enter them.
\<close>

theorem client_accepts_any_server:
  assumes "crypto_ok cr" "am_psk client = Some psk"
  shows "\<exists>keys. \<forall>success challenge' nonce.
    verify_server_response cr client ch success = (Inr keys, client\<lparr>am_session_keys := Some keys\<rparr>) \<and>
    derive_session_keys cr psk (ch\<lparr>ac_challenge := challenge'\<rparr>) nonce = Inr keys"
proof -
  obtain keys where keys: "derive_session_keys cr psk ch [] = Inr keys"
    using derive_session_keys_ok [OF assms(1)] by blast
  have "derive_session_keys cr psk (ch\<lparr>ac_challenge := challenge'\<rparr>) nonce = derive_session_keys cr psk ch []"
    for challenge' nonce
    by (simp add: derive_session_keys_def)
  moreover from this [of "ac_challenge ch"] have "derive_session_keys cr psk ch nonce = derive_session_keys cr psk ch []" for nonce
    by simp
  ultimately show ?thesis
    using keys assms(2) by (auto simp: verify_server_response_def get_psk_def)
qed

theorem client_accepts_any_server_witness:
  "\<exists>keys. \<forall>success challenge' nonce.
    verify_server_response sample_crypto (set_psk AuthManager_new [1])
        \<lparr>ac_challenge = [], ac_method = ''psk'', ac_salt = [], ac_iterations = 1\<rparr> success =
      (Inr keys, (set_psk AuthManager_new [1])\<lparr>am_session_keys := Some keys\<rparr>) \<and>
    derive_session_keys sample_crypto [1]
      (\<lparr>ac_challenge = [], ac_method = ''psk'', ac_salt = [], ac_iterations = 1\<rparr>\<lparr>ac_challenge := challenge'\<rparr>)
      nonce = Inr keys"
  by (rule client_accepts_any_server) (simp_all add: sample_crypto_ok set_psk_def)

text \<open>
  C29. The key schedule: derivation never fails; it gives well-formed keys to exactly the channels 0
  to 15, the three keys of a channel being the HKDF outputs of the master key under the labels
  "bpl-channel-N", "bpl-channel-N-auth" and "bpl-channel-N-iv"; and no two of these labels, over
  all channels and uses, are equal.
\<close>

theorem channel_key_schedule:
  assumes "crypto_ok cr"
  shows "\<exists>keys. derive_session_keys cr psk ch nonce = Inr keys \<and> session_keys_wf cr keys \<and>
    (\<forall>i. case hm_get (sk_channel_keys keys) i of
       None \<Rightarrow> i \<ge> MAX_CHANNELS
     | Some c \<Rightarrow> i < MAX_CHANNELS \<and>
         cr_hkdf cr None (sk_master_key keys) (channel_label i []) 32 = Some (chk_encryption_key c) \<and>
         cr_hkdf cr None (sk_master_key keys) (channel_label i ''-auth'') 32 = Some (chk_authentication_key c) \<and>
         cr_hkdf cr None (sk_master_key keys) (channel_label i ''-iv'') 16 = Some (chk_iv_salt c)) \<and>
    inj_on (\<lambda>(i, suffix). channel_label i suffix) (UNIV \<times> label_suffixes)"
proof -
  obtain keys where keys: "derive_session_keys cr psk ch nonce = Inr keys" "session_keys_wf cr keys"
    using derive_session_keys_ok [OF assms] by blast
  let ?out = "\<lambda>i suffix n. cr_hkdf cr None (sk_master_key keys) (channel_label i suffix) n"
  have "?out i [] 32 = Some (chk_encryption_key c) \<and> ?out i ''-auth'' 32 = Some (chk_authentication_key c) \<and>
      ?out i ''-iv'' 16 = Some (chk_iv_salt c)" if "hm_get (sk_channel_keys keys) i = Some c" for i c
  proof -
    have "derive_channel_keys cr (sk_master_key keys) i = Inr c"
      using keys(2) that by (simp add: session_keys_wf_def)
    then show ?thesis
      by (auto simp: derive_channel_keys_def Let_def bindR_Inr_iff hkdf_expand_def
          channel_label_def ok_or_def split: option.splits)
  qed
  moreover have "i < MAX_CHANNELS \<longleftrightarrow> hm_get (sk_channel_keys keys) i \<noteq> None" for i
    using keys(2) by (simp add: session_keys_wf_def)
  moreover have "inj_on (\<lambda>(i, suffix). channel_label i suffix) (UNIV \<times> label_suffixes)"
    by (auto simp: inj_on_def channel_label_inject)
  ultimately show ?thesis
    using keys by (intro exI [of _ keys]) (auto simp: not_less [symmetric] split: option.splits)
qed

theorem channel_key_schedule_witness:
  "\<exists>keys c. derive_session_keys sample_crypto [1]
      \<lparr>ac_challenge = [5], ac_method = ''psk'', ac_salt = [6], ac_iterations = 1\<rparr> [] = Inr keys \<and>
    hm_get (sk_channel_keys keys) 15 = Some c \<and> hm_get (sk_channel_keys keys) 16 = None \<and>
    cr_hkdf sample_crypto None (sk_master_key keys) (channel_label 15 ''-iv'') 16 = Some (chk_iv_salt c)"
proof -
  obtain keys where k: "derive_session_keys sample_crypto [1]
      \<lparr>ac_challenge = [5], ac_method = ''psk'', ac_salt = [6], ac_iterations = 1\<rparr> [] = Inr keys"
    "\<forall>i. case hm_get (sk_channel_keys keys) i of
       None \<Rightarrow> i \<ge> MAX_CHANNELS
     | Some c \<Rightarrow> i < MAX_CHANNELS \<and>
         cr_hkdf sample_crypto None (sk_master_key keys) (channel_label i []) 32 = Some (chk_encryption_key c) \<and>
         cr_hkdf sample_crypto None (sk_master_key keys) (channel_label i ''-auth'') 32 = Some (chk_authentication_key c) \<and>
         cr_hkdf sample_crypto None (sk_master_key keys) (channel_label i ''-iv'') 16 = Some (chk_iv_salt c)"
    using channel_key_schedule [OF sample_crypto_ok] by blast
  show ?thesis
    using k(1) spec [OF k(2), of 15] spec [OF k(2), of 16]
    by (auto simp: MAX_CHANNELS_def split: option.splits)
qed

text \<open>
  Encryption with the keys of a channel round-trips: it gives a ciphertext as long as the data and
  a 16-byte tag, and decryption under the same keys and sequence number gives the data back; the
  nonces of different sequence numbers under the same keys are different.
\<close>

theorem channel_encryption_roundtrip:
  assumes "crypto_ok cr" "channel_keys_wf keys"
  shows "\<exists>ct tag. encrypt_with_channel_keys cr data keys s = Inr (ct, tag) \<and>
    length ct = length data \<and> length tag = 16 \<and>
    decrypt_with_channel_keys cr ct tag keys s = Inr data \<and>
    (\<forall>s'. channel_nonce keys s' = channel_nonce keys s \<longrightarrow> s' = s)"
  using encrypt_decrypt_channel [OF assms, of data s] by (simp add: channel_nonce_inject)

theorem channel_encryption_roundtrip_witness:
  "\<exists>ct tag. encrypt_with_channel_keys sample_crypto [1, 2, 3] ChannelKeys_default 7 = Inr (ct, tag) \<and>
    length ct = length [1 :: byte, 2, 3] \<and> length tag = 16 \<and>
    decrypt_with_channel_keys sample_crypto ct tag ChannelKeys_default 7 = Inr [1, 2, 3] \<and>
    channel_nonce ChannelKeys_default 8 \<noteq> channel_nonce ChannelKeys_default 7"
proof -
  have "channel_keys_wf ChannelKeys_default"
    by (simp add: channel_keys_wf_def ChannelKeys_default_def)
  from channel_encryption_roundtrip [OF sample_crypto_ok this, of "[1, 2, 3]" 7] show ?thesis
    by fastforce
qed

text \<open>
  Key rotation: two peers in any state that rotate to the same new master key hold equal,
  well-formed session keys under that master key, whatever they held before; nothing else of
  either changes, and the keys of each channel are those of the schedule for the new master key.
\<close>

theorem key_rotation_agrees:
  assumes "crypto_ok cr" "length master = 32"
  shows "\<exists>keys. rotate_keys cr a master = (Inr keys, a\<lparr>am_session_keys := Some keys\<rparr>) \<and>
    rotate_keys cr b master = (Inr keys, b\<lparr>am_session_keys := Some keys\<rparr>) \<and>
    session_keys_wf cr keys \<and> sk_master_key keys = master \<and>
    (\<forall>i c. channel_keys (snd (rotate_keys cr a master)) i = Some c \<longrightarrow>
       derive_channel_keys cr master i = Inr c)"
proof -
  obtain k where a: "rotate_keys cr a master = (Inr k, a\<lparr>am_session_keys := Some k\<rparr>)" "session_keys_wf cr k"
    "sk_master_key k = master"
    using rotate_keys_ok [OF assms] by blast
  obtain k' where b: "rotate_keys cr b master = (Inr k', b\<lparr>am_session_keys := Some k'\<rparr>)"
    using rotate_keys_ok [OF assms] by blast
  have "fst (rotate_keys cr a master) = fst (rotate_keys cr b master)"
    by (auto simp: rotate_keys_def Let_def split: sum.splits)
  then have "k' = k"
    using a b by simp
  then show ?thesis
    using a b by (auto simp: channel_keys_def session_keys_wf_def)
qed

theorem key_rotation_agrees_witness:
  "\<exists>keys. rotate_keys sample_crypto AuthManager_new (replicate 32 9) =
      (Inr keys, AuthManager_new\<lparr>am_session_keys := Some keys\<rparr>) \<and> sk_master_key keys = replicate 32 9"
  using key_rotation_agrees [OF sample_crypto_ok, of "replicate 32 9" AuthManager_new AuthManager_new]
  by auto

end
