(* ===== verification/Session_Lifecycle.thy ===== *)
theory Session_Lifecycle
  imports Frame_Wire Mux_Channels Capability_Negotiation Auth_Keys Service_Registry
    "HOL-Library.Sublist"
begin

text \<open>
  Sessions (\<^verbatim>\<open>protocol/src/session.rs\<close>): their creation by the manager, their state, sequence numbers
  and activity, the keepalive task and the ways a session ends. Time is in milliseconds and an
  argument; the broadcast channel that a manager and its sessions share is \<open>event_bus\<close>.
\<close>

subsection \<open>State\<close>

record SessionConfig =
  sc_protocol_version :: ProtocolVersion
  sc_local_device_id :: DeviceId
  sc_remote_device_id :: DeviceId
  sc_session_id :: SessionId
  sc_negotiated_capabilities :: "NegotiatedCapability list"
  sc_capability_versions :: "(string, u32) hmap"
  sc_max_channels :: u32
  sc_max_frame_size :: u32
  sc_keepalive_interval :: nat
  sc_session_timeout :: nat
  sc_session_keys :: SessionKeys
  sc_established_at :: nat
  sc_last_activity :: nat

definition SessionConfig_default :: "nat \<Rightarrow> SessionConfig" where
  "SessionConfig_default now =
     \<lparr>sc_protocol_version = \<lparr>pv_major = 1, pv_minor = 0, pv_patch = 0\<rparr>,
      sc_local_device_id = \<lparr>did_value = []\<rparr>, sc_remote_device_id = \<lparr>did_value = []\<rparr>,
      sc_session_id = \<lparr>sid_value = []\<rparr>, sc_negotiated_capabilities = [],
      sc_capability_versions = [], sc_max_channels = MAX_CHANNELS, sc_max_frame_size = 16384,
      sc_keepalive_interval = unat DEFAULT_KEEPALIVE_INTERVAL_MS,
      sc_session_timeout = unat DEFAULT_SESSION_TIMEOUT_MS, sc_session_keys = SessionKeys_default,
      sc_established_at = now, sc_last_activity = now\<rparr>"

datatype SessionState =
    SS_Closed
  | SS_Opening
  | SS_NegotiatingCapabilities
  | SS_Authenticating
  | SS_Active
  | SS_Closing
  | SS_Reconnecting

record SessionEvent =
  sev_session_id :: SessionId
  sev_event_type :: SessionEventType
  sev_timestamp :: nat
  sev_message :: string
  sev_details :: bytes

text \<open>
  The sending side of the broadcast channel: the events that were handed to it, in order; with no receiver
  \<open>send\<close> is an error, which the sources ignore. Receiving is not modelled, nor is what a receiver misses that is
  further behind than the capacity of 100.
\<close>

record event_bus =
  bus_sent :: "SessionEvent list"
  bus_receivers :: nat

definition bus_send :: "SessionEvent \<Rightarrow> event_bus \<Rightarrow> event_bus" where
  "bus_send e bus = (if 0 < bus_receivers bus then bus\<lparr>bus_sent := bus_sent bus @ [e]\<rparr> else bus)"

record SessionManagerConfig =
  smc_max_sessions :: nat
  smc_session_timeout :: nat
  smc_keepalive_interval :: nat
  smc_enable_reconnection :: bool

definition SessionManagerConfig_default :: SessionManagerConfig where
  "SessionManagerConfig_default =
     \<lparr>smc_max_sessions = 1, smc_session_timeout = unat DEFAULT_SESSION_TIMEOUT_MS,
      smc_keepalive_interval = unat DEFAULT_KEEPALIVE_INTERVAL_MS, smc_enable_reconnection = True\<rparr>"

record Session =
  ses_config :: SessionConfig
  ses_state :: SessionState
  ses_channel_manager :: ChannelManager
  ses_service_registry :: ServiceRegistry
  ses_auth_manager :: AuthManager
  ses_capability_negotiator :: CapabilityNegotiator
  ses_keepalive_running :: bool
  ses_rx_sequence :: u64
  ses_tx_sequence :: u64
  ses_last_activity :: nat

text \<open>
  A session is shared between the manager's map and the handles it returned, so sessions live in a
  heap and the map holds addresses. The manager's frame codec is never used by the sources.
\<close>

record SessionManager =
  smg_sessions :: "(SessionId, nat) hmap"
  smg_config :: SessionManagerConfig
  smg_bus :: event_bus
  smg_codec :: FrameCodec
  smg_heap :: "Session list"

definition SessionManager_new :: "SessionManagerConfig \<Rightarrow> SessionManager" where
  "SessionManager_new config =
     \<lparr>smg_sessions = [], smg_config = config, smg_bus = \<lparr>bus_sent = [], bus_receivers = 1\<rparr>,
      smg_codec = FrameCodec_default, smg_heap = []\<rparr>"

subsection \<open>Creating and looking up sessions\<close>

definition Session_new :: "nat \<Rightarrow> SessionConfig \<Rightarrow> Session" where
  "Session_new now config =
     \<lparr>ses_config = config, ses_state = SS_Opening, ses_channel_manager = ChannelManager_new,
      ses_service_registry = ServiceRegistry_new, ses_auth_manager = AuthManager_new,
      ses_capability_negotiator = CapabilityNegotiator_new, ses_keepalive_running = False,
      ses_rx_sequence = 0, ses_tx_sequence = 0, ses_last_activity = now\<rparr>"

definition session_event :: "SessionId \<Rightarrow> SessionEventType \<Rightarrow> nat \<Rightarrow> string \<Rightarrow> SessionEvent" where
  "session_event sid event_type now message =
     \<lparr>sev_session_id = sid, sev_event_type = event_type, sev_timestamp = now,
      sev_message = message, sev_details = []\<rparr>"

text \<open>\<open>session_id_bytes\<close> is the random filling of the 16-byte identifier.\<close>

definition create_session ::
  "bytes \<Rightarrow> nat \<Rightarrow> SessionManager \<Rightarrow> DeviceId \<Rightarrow> DeviceId \<Rightarrow> CapabilitySet \<Rightarrow> nat result \<times> SessionManager" where
  "create_session session_id_bytes now m local_device_id remote_device_id capabilities =
     (let session_id = \<lparr>sid_value = session_id_bytes\<rparr>;
          config = (SessionConfig_default now)
            \<lparr>sc_local_device_id := local_device_id, sc_remote_device_id := remote_device_id,
             sc_session_id := session_id,
             sc_keepalive_interval := smc_keepalive_interval (smg_config m),
             sc_session_timeout := smc_session_timeout (smg_config m)\<rparr>;
          a = length (smg_heap m);
          m = m\<lparr>smg_heap := smg_heap m @ [Session_new now config]\<rparr>;
          m = m\<lparr>smg_sessions := hm_insert session_id a (smg_sessions m)\<rparr>;
          m = m\<lparr>smg_bus := bus_send
                 (session_event session_id SET_SessionEventOpened now ''Session opened'') (smg_bus m)\<rparr>
      in (Inr a, m))"

definition get_session :: "SessionManager \<Rightarrow> SessionId \<Rightarrow> nat option" where
  "get_session m session_id = hm_get (smg_sessions m) session_id"

definition remove_session :: "SessionManager \<Rightarrow> SessionId \<Rightarrow> nat option \<times> SessionManager" where
  "remove_session m session_id =
     (hm_get (smg_sessions m) session_id, m\<lparr>smg_sessions := hm_remove session_id (smg_sessions m)\<rparr>)"

definition list_sessions :: "SessionManager \<Rightarrow> nat list" where
  "list_sessions m = hm_values (smg_sessions m)"

definition subscribe :: "SessionManager \<Rightarrow> SessionManager" where
  "subscribe m = m\<lparr>smg_bus := (smg_bus m)\<lparr>bus_receivers := Suc (bus_receivers (smg_bus m))\<rparr>\<rparr>"

subsection \<open>Operations of a session\<close>

definition set_state :: "Session \<Rightarrow> SessionState \<Rightarrow> Session" where
  "set_state s st = s\<lparr>ses_state := st\<rparr>"

definition session_next_tx_sequence :: "Session \<Rightarrow> u64 \<times> Session" where
  "session_next_tx_sequence s = (ses_tx_sequence s, s\<lparr>ses_tx_sequence := ses_tx_sequence s + 1\<rparr>)"

definition session_set_rx_sequence :: "Session \<Rightarrow> u64 \<Rightarrow> Session" where
  "session_set_rx_sequence s seq = s\<lparr>ses_rx_sequence := seq\<rparr>"

definition touch :: "nat \<Rightarrow> Session \<Rightarrow> Session" where
  "touch now s = s\<lparr>ses_last_activity := now\<rparr>"

definition is_alive :: "nat \<Rightarrow> Session \<Rightarrow> bool" where
  "is_alive now s \<longleftrightarrow> now - ses_last_activity s < sc_session_timeout (ses_config s)"

definition start_keepalive :: "Session \<Rightarrow> Session" where
  "start_keepalive s = s\<lparr>ses_keepalive_running := True\<rparr>"

definition stop_keepalive :: "Session \<Rightarrow> Session" where
  "stop_keepalive s = s\<lparr>ses_keepalive_running := False\<rparr>"

definition send_keepalive :: "nat option \<Rightarrow> Session \<Rightarrow> unit result \<times> Session" where
  "send_keepalive wall s =
     (let (sequence, s) = session_next_tx_sequence s in
      (bindR (unwrap wall) (\<lambda>timestamp. Inr ()), s))"

definition handle_timeout :: "nat \<Rightarrow> Session \<Rightarrow> event_bus \<Rightarrow> Session \<times> event_bus" where
  "handle_timeout now s bus =
     (let s = set_state s SS_Closing in
      (s, bus_send (session_event (sc_session_id (ses_config s)) SET_SessionEventKeepaliveTimeout now
             ''Keepalive timeout'') bus))"

definition handle_keepalive_response :: "nat \<Rightarrow> Session \<Rightarrow> u64 \<Rightarrow> Session" where
  "handle_keepalive_response now s rtt_ms = touch now s"

definition session_close ::
  "nat \<Rightarrow> Session \<Rightarrow> event_bus \<Rightarrow> ResultCode \<Rightarrow> string \<Rightarrow> Session \<times> event_bus" where
  "session_close now s bus reason message =
     (let s = set_state s SS_Closing; s = stop_keepalive s in
      (s, bus_send (session_event (sc_session_id (ses_config s)) SET_SessionEventClosed now message) bus))"

subsection \<open>The keepalive task\<close>

definition MAX_MISSED :: nat where
  "MAX_MISSED = 3"

datatype loop_end = Left_Active_State | Timed_Out | Task_Panicked

text \<open>
  One round of the loop, after its tick: \<open>Inr\<close> the count of misses to go on with, or \<open>Inl\<close> how the
  loop ends.
\<close>

definition keepalive_tick ::
  "nat \<Rightarrow> nat option \<Rightarrow> nat \<Rightarrow> Session \<Rightarrow> event_bus \<Rightarrow> (loop_end + nat) \<times> Session \<times> event_bus" where
  "keepalive_tick now wall missed s bus =
     (if ses_state s \<noteq> SS_Active then (Inl Left_Active_State, s, bus)
      else
        (let missed = (if \<not> is_alive now s then missed + 1 else 0) in
         if \<not> is_alive now s \<and> missed \<ge> MAX_MISSED
         then (let (s, bus) = handle_timeout now s bus in (Inl Timed_Out, s, bus))
         else
           (case send_keepalive wall s of
              (Inl (Panic _), s) \<Rightarrow> (Inl Task_Panicked, s, bus)
            | (Inl (Err _), s) \<Rightarrow>
                (let missed = missed + 1 in
                 if missed \<ge> MAX_MISSED
                 then (let (s, bus) = handle_timeout now s bus in (Inl Timed_Out, s, bus))
                 else (Inr missed, s, bus))
            | (Inr _, s) \<Rightarrow> (Inr missed, s, bus))))"

text \<open>
  The loop over the ticks that happen: each with the monotonic and the wall clock and with what
  other tasks did to the session since the tick before. The result is how the loop ended, or
  \<open>None\<close> when it is still running after the last tick.
\<close>

primrec keepalive_loop ::
  "(nat \<times> nat option \<times> (Session \<Rightarrow> Session)) list \<Rightarrow> nat \<Rightarrow> Session \<Rightarrow> event_bus
     \<Rightarrow> loop_end option \<times> Session \<times> event_bus" where
  "keepalive_loop [] missed s bus = (None, s, bus)"
| "keepalive_loop (t # ticks) missed s bus =
     (case t of (now, wall, others) \<Rightarrow>
       (case keepalive_tick now wall missed (others s) bus of
          (Inl e, s, bus) \<Rightarrow> (Some e, s, bus)
        | (Inr missed, s, bus) \<Rightarrow> keepalive_loop ticks missed s bus))"

subsection \<open>The session as a state machine\<close>

text \<open>What the operations of this module, other than the bare setter \<open>set_state\<close>, do to a session.\<close>

inductive session_step :: "Session \<Rightarrow> Session \<Rightarrow> bool" where
  ss_tx: "session_step s (snd (session_next_tx_sequence s))"
| ss_rx: "session_step s (session_set_rx_sequence s seq)"
| ss_touch: "session_step s (touch now s)"
| ss_response: "session_step s (handle_keepalive_response now s rtt)"
| ss_start: "session_step s (start_keepalive s)"
| ss_stop: "session_step s (stop_keepalive s)"
| ss_close: "session_step s (fst (session_close now s bus reason message))"
| ss_tick: "session_step s (fst (snd (keepalive_tick now wall missed s bus)))"

inductive session_reachable :: "Session \<Rightarrow> bool" where
  sr_new: "session_reachable (Session_new now config)"
| sr_step: "session_reachable s \<Longrightarrow> session_step s s' \<Longrightarrow> session_reachable s'"

inductive_cases session_stepE: "session_step s s'"

lemma bus_send_receivers [simp]: "bus_receivers (bus_send e bus) = bus_receivers bus"
  by (simp add: bus_send_def)

lemma send_keepalive_simps:
  "snd (send_keepalive wall s) = s\<lparr>ses_tx_sequence := ses_tx_sequence s + 1\<rparr>"
  "send_keepalive (Some w) s = (Inr (), s\<lparr>ses_tx_sequence := ses_tx_sequence s + 1\<rparr>)"
  by (simp_all add: send_keepalive_def session_next_tx_sequence_def)

lemma tick_state:
  "ses_state (fst (snd (keepalive_tick now wall missed s bus))) \<in> {ses_state s, SS_Closing}"
  "ses_config (fst (snd (keepalive_tick now wall missed s bus))) = ses_config s"
  "ses_last_activity (fst (snd (keepalive_tick now wall missed s bus))) = ses_last_activity s"
  by (auto simp: keepalive_tick_def handle_timeout_def set_state_def send_keepalive_def
      session_next_tx_sequence_def Let_def split: sum.splits failure.splits)

lemma session_step_state:
  assumes "session_step s s'"
  shows "ses_state s' \<in> {ses_state s, SS_Closing}"
  using assms
proof cases
  case (ss_tick now wall missed bus)
  then show ?thesis
    using tick_state(1) by simp
qed (simp_all add: session_next_tx_sequence_def session_set_rx_sequence_def touch_def
    handle_keepalive_response_def start_keepalive_def stop_keepalive_def session_close_def
    set_state_def Let_def)

lemma session_reachable_state: "session_reachable s \<Longrightarrow> ses_state s \<in> {SS_Opening, SS_Closing}"
proof (induction rule: session_reachable.induct)
  case (sr_new now config)
  then show ?case
    by (simp add: Session_new_def)
next
  case (sr_step s s')
  then show ?case
    using session_step_state by fastforce
qed

text \<open>A tick on an active session, with the wall clock readable.\<close>

lemma keepalive_tick_active:
  assumes "ses_state s = SS_Active"
  shows "keepalive_tick now (Some w) missed s bus =
    (if is_alive now s then (Inr 0, s\<lparr>ses_tx_sequence := ses_tx_sequence s + 1\<rparr>, bus)
     else if MAX_MISSED \<le> missed + 1
     then (Inl Timed_Out, s\<lparr>ses_state := SS_Closing\<rparr>,
           bus_send (session_event (sc_session_id (ses_config s)) SET_SessionEventKeepaliveTimeout now
             ''Keepalive timeout'') bus)
     else (Inr (missed + 1), s\<lparr>ses_tx_sequence := ses_tx_sequence s + 1\<rparr>, bus))"
  using assms by (simp add: keepalive_tick_def send_keepalive_simps handle_timeout_def set_state_def Let_def)

subsection \<open>Detecting a dead peer\<close>

text \<open>
  Ticks at which the wall clock is readable and the only thing other tasks did to the session is,
  possibly, to record activity at a given time.
\<close>

type_synonym quiet_tick = "nat \<times> nat \<times> nat option"

definition quiet :: "quiet_tick \<Rightarrow> nat \<times> nat option \<times> (Session \<Rightarrow> Session)" where
  "quiet t = (case t of (now, w, activity) \<Rightarrow>
     (now, Some w, case activity of None \<Rightarrow> id | Some a \<Rightarrow> touch a))"

primrec alive_flags :: "nat \<Rightarrow> nat \<Rightarrow> quiet_tick list \<Rightarrow> bool list" where
  "alive_flags timeout latest [] = []"
| "alive_flags timeout latest (t # ts) =
     (case t of (now, w, activity) \<Rightarrow>
       (let latest = (case activity of None \<Rightarrow> latest | Some a \<Rightarrow> a) in
        (now - latest < timeout) # alive_flags timeout latest ts))"

text \<open>One tick of the loop on an active session that another task may have touched before it.\<close>

definition touched :: "nat option \<Rightarrow> Session \<Rightarrow> Session" where
  "touched activity s = (case activity of None \<Rightarrow> s | Some a \<Rightarrow> touch a s)"

lemma touched_simps [simp]:
  "ses_state (touched activity s) = ses_state s" "ses_config (touched activity s) = ses_config s"
  "ses_tx_sequence (touched activity s) = ses_tx_sequence s"
  "ses_last_activity (touched activity s) = (case activity of None \<Rightarrow> ses_last_activity s | Some a \<Rightarrow> a)"
  by (simp_all add: touched_def touch_def split: option.splits)

lemma keepalive_loop_tick:
  assumes "ses_state s = SS_Active" "missed < 3" and s1: "s1 = touched activity s"
  shows "keepalive_loop (map quiet ((now, w, activity) # ts)) missed s bus =
    (if is_alive now s1 then keepalive_loop (map quiet ts) 0 (s1\<lparr>ses_tx_sequence := ses_tx_sequence s + 1\<rparr>) bus
     else if missed = 2 then (Some Timed_Out, s1\<lparr>ses_state := SS_Closing\<rparr>,
       bus_send (session_event (sc_session_id (ses_config s)) SET_SessionEventKeepaliveTimeout now ''Keepalive timeout'') bus)
     else keepalive_loop (map quiet ts) (missed + 1) (s1\<lparr>ses_tx_sequence := ses_tx_sequence s + 1\<rparr>) bus)"
proof -
  have act: "ses_state s1 = SS_Active"
    using assms(1) by (simp add: s1)
  have loop: "keepalive_loop (map quiet ((now, w, activity) # ts)) missed s bus =
      (case keepalive_tick now (Some w) missed s1 bus of
         (Inl e, s, bus) \<Rightarrow> (Some e, s, bus)
       | (Inr missed, s, bus) \<Rightarrow> keepalive_loop (map quiet ts) missed s bus)"
    by (simp add: quiet_def s1 touched_def split: option.splits)
  have "missed = 0 \<or> missed = 1 \<or> missed = 2"
    using assms(2) by linarith
  then show ?thesis
    unfolding loop keepalive_tick_active [OF act] by (auto simp: MAX_MISSED_def s1)
qed

lemma keepalive_loop_quiet:
  assumes "missed < 3"
  shows "ses_state s = SS_Active \<Longrightarrow>
    (case keepalive_loop (map quiet ts) missed s bus of (r, s', bus') \<Rightarrow>
      if sublist [False, False, False]
           (replicate missed False @ alive_flags (sc_session_timeout (ses_config s)) (ses_last_activity s) ts)
      then r = Some Timed_Out \<and> ses_state s' = SS_Closing \<and>
        (\<exists>now. bus' = bus_send (session_event (sc_session_id (ses_config s)) SET_SessionEventKeepaliveTimeout now
           ''Keepalive timeout'') bus)
      else r = None \<and> ses_state s' = SS_Active \<and> bus' = bus \<and>
        ses_tx_sequence s' = ses_tx_sequence s + of_nat (length ts))"
  using assms
proof (induction ts arbitrary: s missed)
  case Nil
  then have "missed = 0 \<or> missed = 1 \<or> missed = 2"
    by linarith
  then show ?case
    using Nil by (auto simp: eval_nat_numeral sublist_Cons_right)
next
  case (Cons t ts)
  obtain now w activity where t: "t = (now, w, activity)"
    by (cases t)
  let ?s' = "(touched activity s)\<lparr>ses_tx_sequence := ses_tx_sequence s + 1\<rparr>"
  let ?flags = "alive_flags (sc_session_timeout (ses_config s)) (ses_last_activity ?s') ts"
  have active: "ses_state ?s' = SS_Active"
    using Cons.prems(1) by simp
  have flags: "alive_flags (sc_session_timeout (ses_config s)) (ses_last_activity s) (t # ts) =
      is_alive now (touched activity s) # ?flags"
    by (simp add: t is_alive_def Let_def)
  note tick = keepalive_loop_tick [OF Cons.prems refl, of now w activity ts bus, folded t]
  have cases: "missed = 0 \<or> missed = 1 \<or> missed = 2"
    using Cons.prems(2) by linarith
  show ?case
  proof (cases "is_alive now (touched activity s)")
    case True
    have "sublist [False, False, False] (replicate missed False @ True # ?flags) \<longleftrightarrow>
        sublist [False, False, False] ?flags"
      using cases by (auto simp: sublist_Cons_right eval_nat_numeral)
    moreover obtain r s2 b2 where "keepalive_loop (map quiet ts) 0 ?s' bus = (r, s2, b2)"
      by (metis prod_cases3)
    ultimately show ?thesis
      using Cons.IH [OF active, of 0] True unfolding flags tick by (simp add: add.assoc split: if_splits)
  next
    case False
    show ?thesis
    proof (cases "missed = 2")
      case True
      then have "sublist [False, False, False] (replicate missed False @ False # ?flags)"
        by (simp add: sublist_Cons_right eval_nat_numeral)
      then show ?thesis
        using False True unfolding flags tick by auto
    next
      case small: False
      obtain r s2 b2 where "keepalive_loop (map quiet ts) (missed + 1) ?s' bus = (r, s2, b2)"
        by (metis prod_cases3)
      moreover have "missed + 1 < 3"
        using small cases by auto
      ultimately show ?thesis
        using Cons.IH [OF active, of "missed + 1"] False small
        unfolding flags tick by (simp add: add.assoc replicate_app_Cons_same split: if_splits)
    qed
  qed
qed

subsection \<open>Properties of sessions\<close>

text \<open>
  C28. Dead-peer detection: on an active session whose clock is readable and that other tasks only
  touch, the keepalive task ends by itself exactly when at three consecutive ticks the session had
  been silent for at least its timeout; it then has moved the session to \<open>Closing\<close> and announced
  \<open>KeepaliveTimeout\<close>. Otherwise it still runs, the session is still active, nothing was announced,
  and every tick has used one sequence number.
\<close>

theorem keepalive_timeout_detected:
  assumes "ses_state s = SS_Active" "keepalive_loop (map quiet ts) 0 s bus = (r, s', bus')"
  shows "if sublist [False, False, False]
        (alive_flags (sc_session_timeout (ses_config s)) (ses_last_activity s) ts)
    then r = Some Timed_Out \<and> ses_state s' = SS_Closing \<and>
      (\<exists>now. bus' = bus_send (session_event (sc_session_id (ses_config s))
         SET_SessionEventKeepaliveTimeout now ''Keepalive timeout'') bus)
    else r = None \<and> ses_state s' = SS_Active \<and> bus' = bus \<and>
      ses_tx_sequence s' = ses_tx_sequence s + of_nat (length ts)"
  using keepalive_loop_quiet [of 0 s ts bus] assms by simp

theorem keepalive_timeout_detected_witness:
  "let s = set_state (Session_new 0 (SessionConfig_default 0)) SS_Active;
       (r, s', bus') = keepalive_loop (map quiet [(30000, 1, None), (120000, 1, Some 60000), (150000, 1, None),
         (180000, 1, None), (210000, 1, None)]) 0 s \<lparr>bus_sent = [], bus_receivers = 1\<rparr>
   in r = Some Timed_Out \<and> ses_state s' = SS_Closing"
proof -
  let ?s = "set_state (Session_new 0 (SessionConfig_default 0)) SS_Active"
  let ?ts = "[(30000, 1, None), (120000, 1, Some 60000), (150000, 1, None), (180000, 1, None), (210000, 1, None)]"
  have flags: "alive_flags (sc_session_timeout (ses_config ?s)) (ses_last_activity ?s) ?ts =
      [True, True, False, False, False]"
    by (simp add: set_state_def Session_new_def SessionConfig_default_def DEFAULT_SESSION_TIMEOUT_MS_def)
  have "ses_state ?s = SS_Active"
    by (simp add: set_state_def)
  moreover obtain r s' bus' where "keepalive_loop (map quiet ?ts) 0 ?s \<lparr>bus_sent = [], bus_receivers = 1\<rparr> = (r, s', bus')"
    by (metis prod_cases3)
  ultimately show ?thesis
    using keepalive_timeout_detected [of ?s ?ts "\<lparr>bus_sent = [], bus_receivers = 1\<rparr>" r s' bus']
    unfolding flags by (simp add: sublist_Cons_right)
qed

text \<open>
  No operation of the session module makes a session active or closed: a session is created in
  \<open>Opening\<close>, and whatever sequence of operations (other than the bare setter of the state) follows,
  it is in \<open>Opening\<close> or \<open>Closing\<close>. So the keepalive task leaves at its first tick and sends nothing,
  and closing a session takes it to \<open>Closing\<close>, stops the task, announces \<open>Closed\<close>, and that is where
  it stays.
\<close>

theorem session_never_active:
  assumes "session_reachable s"
  shows "ses_state s \<in> {SS_Opening, SS_Closing} \<and>
    keepalive_loop ((now, wall, id) # ticks) missed s bus = (Some Left_Active_State, s, bus) \<and>
    (case session_close now s bus reason message of (s', bus') \<Rightarrow>
       ses_state s' = SS_Closing \<and> \<not> ses_keepalive_running s' \<and>
       bus' = bus_send (session_event (sc_session_id (ses_config s)) SET_SessionEventClosed now message) bus \<and>
       (\<forall>s''. session_step s' s'' \<longrightarrow> ses_state s'' = SS_Closing))"
proof -
  have state: "ses_state s \<in> {SS_Opening, SS_Closing}"
    by (rule session_reachable_state [OF assms])
  then have "keepalive_loop ((now, wall, id) # ticks) missed s bus = (Some Left_Active_State, s, bus)"
    by (auto simp: keepalive_tick_def)
  moreover have "ses_state s'' = SS_Closing" if "session_step s' s''" "ses_state s' = SS_Closing" for s' s''
    using session_step_state [OF that(1)] that(2) by simp
  ultimately show ?thesis
    using state by (simp add: session_close_def set_state_def stop_keepalive_def Let_def)
qed

theorem session_never_active_witness:
  "ses_state (start_keepalive (Session_new 0 (SessionConfig_default 0))) \<in> {SS_Opening, SS_Closing} \<and>
    keepalive_loop [(30000, Some 5, id)] 0 (start_keepalive (Session_new 0 (SessionConfig_default 0)))
        \<lparr>bus_sent = [], bus_receivers = 1\<rparr> =
      (Some Left_Active_State, start_keepalive (Session_new 0 (SessionConfig_default 0)),
       \<lparr>bus_sent = [], bus_receivers = 1\<rparr>)"
proof -
  have "session_reachable (start_keepalive (Session_new 0 (SessionConfig_default 0)))"
    by (rule sr_step [OF sr_new ss_start])
  from session_never_active [OF this, of 30000 "Some 5" "[]" 0] show ?thesis
    by simp
qed

definition create_sessions :: "bytes list \<Rightarrow> SessionManager \<Rightarrow> SessionManager" where
  "create_sessions ids m =
     fold (\<lambda>i m. snd (create_session i 0 m \<lparr>did_value = []\<rparr> \<lparr>did_value = []\<rparr> CapabilitySet_default)) ids m"

lemma create_session_get:
  "create_session i now m l r caps = (Inr a, m') \<Longrightarrow>
     get_session m' j = (if j = \<lparr>sid_value = i\<rparr> then Some a else get_session m j) \<and>
     a = length (smg_heap m) \<and> take a (smg_heap m') = smg_heap m \<and> smg_config m' = smg_config m \<and>
     ses_state (smg_heap m' ! a) = SS_Opening \<and> sc_session_id (ses_config (smg_heap m' ! a)) = \<lparr>sid_value = i\<rparr> \<and>
     smg_bus m' = bus_send (session_event \<lparr>sid_value = i\<rparr> SET_SessionEventOpened now ''Session opened'') (smg_bus m)"
  by (auto simp: create_session_def get_session_def Let_def Session_new_def)

lemma create_session_Inr: "\<exists>a m'. create_session i now m l r caps = (Inr a, m')"
  by (simp add: create_session_def Let_def)

lemma count_create_sessions:
  "hm_wf (smg_sessions m) \<Longrightarrow> distinct ids \<Longrightarrow> \<forall>i \<in> set ids. get_session m \<lparr>sid_value = i\<rparr> = None \<Longrightarrow>
     length (list_sessions (create_sessions ids m)) = length (list_sessions m) + length ids"
proof (induction ids arbitrary: m)
  case Nil
  then show ?case
    by (simp add: create_sessions_def)
next
  case (Cons i ids)
  let ?m = "snd (create_session i 0 m \<lparr>did_value = []\<rparr> \<lparr>did_value = []\<rparr> CapabilitySet_default)"
  have sessions: "smg_sessions ?m = hm_insert \<lparr>sid_value = i\<rparr> (length (smg_heap m)) (smg_sessions m)"
    by (simp add: create_session_def Let_def)
  then have "length (list_sessions ?m) = Suc (length (list_sessions m))"
    using Cons.prems hm.count_put [of "smg_sessions m" "\<lparr>sid_value = i\<rparr>"]
    by (simp add: list_sessions_def hm_values_def hm_keys_def get_session_def)
  moreover have "length (list_sessions (create_sessions ids ?m)) = length (list_sessions ?m) + length ids"
    using Cons.prems by (intro Cons.IH) (auto simp: sessions get_session_def)
  ultimately show ?case
    by (simp add: create_sessions_def)
qed

text \<open>
  Creating sessions: each creation under a new identifier succeeds, stores a session of its own in
  state \<open>Opening\<close>, keeps every session that was there, and announces \<open>Opened\<close>; the limit
  \<open>max_sessions\<close> of the configuration is not consulted, so after n creations there are n more
  sessions, whatever the limit.
\<close>

theorem session_limit_not_enforced:
  assumes "hm_wf (smg_sessions m)" "distinct ids" "\<forall>i \<in> set ids. get_session m \<lparr>sid_value = i\<rparr> = None"
    and "create_session i now m l r caps = (res, m')"
  shows "length (list_sessions (create_sessions ids m)) = length (list_sessions m) + length ids \<and>
    (\<exists>a. res = Inr a \<and> a = length (smg_heap m) \<and> take a (smg_heap m') = smg_heap m \<and>
       (\<forall>j. get_session m' j = (if j = \<lparr>sid_value = i\<rparr> then Some a else get_session m j)) \<and>
       ses_state (smg_heap m' ! a) = SS_Opening \<and>
       smg_bus m' = bus_send (session_event \<lparr>sid_value = i\<rparr> SET_SessionEventOpened now ''Session opened'') (smg_bus m))"
  using count_create_sessions [OF assms(1-3)] create_session_Inr [of i now m l r caps]
    create_session_get [of i now m l r caps] assms(4)
  by auto

theorem session_limit_not_enforced_witness:
  "smc_max_sessions SessionManagerConfig_default = 1 \<and>
    length (list_sessions (create_sessions [[1], [2], [3]] (SessionManager_new SessionManagerConfig_default))) = 3"
proof -
  let ?m = "SessionManager_new SessionManagerConfig_default"
  obtain res m' where "create_session [1] 0 ?m \<lparr>did_value = []\<rparr> \<lparr>did_value = []\<rparr> CapabilitySet_default = (res, m')"
    by fastforce
  from session_limit_not_enforced [OF _ _ _ this, of "[[1], [2], [3]]"] show ?thesis
    by (simp add: SessionManager_new_def SessionManagerConfig_default_def get_session_def list_sessions_def
        hm_values_def)
qed

text \<open>
  The capabilities given to a new session are not used: whatever set is passed, the negotiator of
  the session that is created offers nothing, so negotiating with a peer that requires any service
  fails for lack of it. Two peers with the default sets cannot agree, because both require
  the configuration service.
\<close>

theorem session_ignores_capabilities:
  assumes "create_session i now m l r caps = (Inr a, m')"
    and "c \<in> set (cset_capabilities remote)" "cap_required c" "ids_distinct (cset_capabilities remote)"
  shows "\<exists>sid. fst (negotiate (ses_capability_negotiator (smg_heap m' ! a)) remote) =
    Inl (Err (RequiredCapabilityMissing sid))"
proof -
  have n: "ses_capability_negotiator (smg_heap m' ! a) = CapabilityNegotiator_new"
    using assms(1) by (auto simp: create_session_def Let_def Session_new_def)
  have "\<not> negotiable [] (cset_capabilities remote)"
    using assms(2,3) by (auto simp: negotiable_def missing_here_def offered_def)
  then have "\<not> negotiable (cset_capabilities (cn_local_capabilities CapabilityNegotiator_new)) (cset_capabilities remote)"
    by (simp add: CapabilityNegotiator_new_def CapabilitySet_default_def)
  from negotiate_fails [OF assms(4) this] show ?thesis
    by (auto simp: n)
qed

theorem session_ignores_capabilities_witness:
  "\<exists>a m' sid. create_session [1] 0 (SessionManager_new SessionManagerConfig_default) \<lparr>did_value = []\<rparr>
        \<lparr>did_value = []\<rparr> desktop_default = (Inr a, m') \<and>
    fst (negotiate (ses_capability_negotiator (smg_heap m' ! a)) android_default) =
      Inl (Err (RequiredCapabilityMissing sid))"
proof -
  obtain a m' where c: "create_session [1] 0 (SessionManager_new SessionManagerConfig_default) \<lparr>did_value = []\<rparr>
      \<lparr>did_value = []\<rparr> desktop_default = (Inr a, m')"
    using create_session_Inr by blast
  have "default_config \<in> set (cset_capabilities android_default)" "cap_required default_config"
    by (simp_all add: android_default_def default_config_def)
  from session_ignores_capabilities [OF c this default_ids_distinct(1)] c show ?thesis
    by blast
qed

end
