(* ===== verification/Core_Events.thy ===== *)
theory Core_Events
  imports ProtoTypes
begin

text \<open>
  The event bus of the desktop core (\<^verbatim>\<open>core/src/events.rs\<close>): the events, with the records they
  carry, and the bus, which keeps the latest thousand events and hands every event to the live
  subscribers over a bounded channel. A clone of a bus shares its sender and its history, so all
  clones are one state here. A floating-point number is the word of its bits.
\<close>

type_synonym i16 = "16 word"
type_synonym f32 = "32 word"

subsection \<open>Events\<close>

record AdapterInfo =
  eai_id :: string
  eai_name :: string
  eai_address :: string
  eai_powered :: bool
  eai_discoverable :: bool
  eai_pairable :: bool

record DeviceInfo =
  edi_id :: DeviceId
  edi_name :: "string option"
  edi_address :: string
  edi_paired :: bool
  edi_connected :: bool
  edi_rssi :: "i16 option"
  edi_device_class :: "u32 option"
  edi_services :: "string list"

record ServiceCapability_ev =
  esc_service_id :: string
  esc_version :: u32
  esc_name :: string
  esc_description :: string
  esc_required :: bool
  esc_metadata :: "(string, string) hmap"
  esc_feature_flags :: u64

record FileMetadata =
  efm_path :: string
  efm_name :: string
  efm_size :: u64
  efm_is_directory :: bool
  efm_modified_time :: u64
  efm_created_time :: u64
  efm_mime_type :: "string option"
  efm_hash :: "string option"
  efm_permissions :: u32
  efm_is_symlink :: bool
  efm_symlink_target :: "string option"

record SyncStats =
  ess_files_total :: u64
  ess_files_synced :: u64
  ess_files_skipped :: u64
  ess_files_conflicted :: u64
  ess_bytes_total :: u64
  ess_bytes_synced :: u64
  ess_errors :: u64

record SyncConflict =
  esy_id :: string
  esy_job_id :: string
  esy_local_path :: string
  esy_remote_path :: string
  esy_local_metadata :: string
  esy_remote_metadata :: string
  esy_local_hash :: string
  esy_remote_hash :: string

record PhotoBackupStats =
  epb_total_photos :: u64
  epb_backed_up :: u64
  epb_skipped :: u64
  epb_errors :: u64
  epb_bytes_total :: u64
  epb_bytes_transferred :: u64

record MediaState =
  ems_state :: string
  ems_position_ms :: u64
  ems_duration_ms :: u64
  ems_volume :: f32
  ems_muted :: bool
  ems_shuffle :: bool
  ems_repeat :: string

record MediaMetadata =
  emm_title :: string
  emm_artist :: string
  emm_album :: string
  emm_album_artist :: string
  emm_genre :: string
  emm_track_number :: u32
  emm_total_tracks :: u32
  emm_year :: u32
  emm_duration_ms :: u64
  emm_artwork_uri :: "string option"
  emm_artwork_data :: "bytes option"

record ProximityState =
  eps_state :: string
  eps_rssi :: i16
  eps_distance_estimate :: "f32 option"
  eps_confidence :: f32

record StreamInfo =
  esi_stream_id :: string
  esi_path :: string
  esi_file_size :: u64
  esi_mime_type :: string
  esi_seekable :: bool
  esi_supports_range :: bool
  esi_recommended_chunk_size :: u32

datatype (plugins only: code size) Event =
    EV_BluetoothAdapterAdded AdapterInfo
  | EV_BluetoothAdapterRemoved string
  | EV_BluetoothDeviceFound DeviceInfo
  | EV_BluetoothDeviceLost DeviceId
  | EV_BluetoothDevicePaired DeviceId
  | EV_BluetoothDeviceUnpaired DeviceId
  | EV_BluetoothDeviceConnected DeviceId
  | EV_BluetoothDeviceDisconnected DeviceId
  | EV_SessionOpening SessionId
  | EV_SessionOpened SessionId
  | EV_SessionNegotiatingCapabilities SessionId
  | EV_SessionAuthenticating SessionId
  | EV_SessionActive SessionId
  | EV_SessionClosing SessionId
  | EV_SessionClosed SessionId
  | EV_SessionError SessionId string
  | EV_CapabilitiesReceived DeviceId "ServiceCapability_ev list"
  | EV_CapabilitiesNegotiated SessionId "NegotiatedCapability list"
  | EV_AuthChallengeSent SessionId
  | EV_AuthChallengeReceived SessionId
  | EV_AuthResponseSent SessionId
  | EV_AuthResponseReceived SessionId
  | EV_AuthSuccess SessionId
  | EV_AuthFailure SessionId string
  | EV_ChannelOpened SessionId ChannelId string
  | EV_ChannelClosed SessionId ChannelId
  | EV_ChannelError SessionId ChannelId string
  | EV_ServiceRegistered string
  | EV_ServiceUnregistered string
  | EV_ServiceStarted string
  | EV_ServiceStopped string
  | EV_ServiceHealthChanged string bool
  | EV_FileCreated string FileMetadata
  | EV_FileModified string FileMetadata
  | EV_FileDeleted string
  | EV_FileMoved string string
  | EV_DirectoryCreated string
  | EV_DirectoryDeleted string
  | EV_SyncJobStarted string
  | EV_SyncJobCompleted string SyncStats
  | EV_SyncJobFailed string string
  | EV_SyncConflictDetected string SyncConflict
  | EV_SyncConflictResolved string string
  | EV_SyncProgress string u64 u64
  | EV_PhotoBackupStarted string
  | EV_PhotoBackupProgress string u64 u64 string
  | EV_PhotoBackupCompleted string PhotoBackupStats
  | EV_PhotoBackupFailed string string
  | EV_ShellSessionCreated string DeviceId
  | EV_ShellCommandExecuted string string i32
  | EV_ShellOutput string string string
  | EV_ShellSessionClosed string
  | EV_MediaStateChanged MediaState
  | EV_MediaMetadataChanged MediaMetadata
  | EV_MediaVolumeChanged f32
  | EV_ProximityStateChanged ProximityState
  | EV_ProximityRssiUpdated i16
  | EV_StreamOpened string StreamInfo
  | EV_StreamData string bytes
  | EV_StreamClosed string
  | EV_StreamError string string
  | EV_AppLaunched string string
  | EV_AppLaunchFailed string string
  | EV_ConfigChanged string string string
  | EV_ShutdownRequested
  | EV_ConfigReloaded


subsection \<open>The bus\<close>

text \<open>
  The broadcast channel of the async runtime, by its documentation. It has a fixed number of slots,
  which may be more than the capacity asked for: that number is the function \<open>slots\<close> of the
  capacity, a parameter. \<open>send\<close> fails and stores nothing when there is no receiver; otherwise the
  event takes a slot, the oldest one's when all are taken. A receiver is a handle with a position,
  the number of events stored before the next one it is to read. One whose position is in front of
  the oldest event kept is told how many it has lost, and goes on with that oldest one. \<open>Empty\<close>
  means that \<open>recv\<close> waits.
\<close>

record 'e broadcast =
  bc_slots :: nat
  bc_buffer :: "'e list"
  bc_stored :: nat
  bc_receivers :: "(nat, nat) hmap"
  bc_next_receiver :: nat

datatype 'e delivery = Received 'e | Lagged nat | Empty

definition broadcast_channel :: "(nat \<Rightarrow> nat) \<Rightarrow> nat \<Rightarrow> 'e broadcast" where
  "broadcast_channel slots capacity =
     \<lparr>bc_slots = slots capacity, bc_buffer = [], bc_stored = 0, bc_receivers = [], bc_next_receiver = 0\<rparr>"

definition broadcast_send :: "'e \<Rightarrow> 'e broadcast \<Rightarrow> 'e broadcast" where
  "broadcast_send e bc =
     (if bc_receivers bc = [] then bc
      else let buffer = bc_buffer bc @ [e] in
        bc\<lparr>bc_buffer := drop (length buffer - bc_slots bc) buffer, bc_stored := Suc (bc_stored bc)\<rparr>)"

definition broadcast_subscribe :: "'e broadcast \<Rightarrow> nat \<times> 'e broadcast" where
  "broadcast_subscribe bc =
     (let rx = bc_next_receiver bc in
      (rx, bc\<lparr>bc_receivers := hm_insert rx (bc_stored bc) (bc_receivers bc), bc_next_receiver := Suc rx\<rparr>))"

definition broadcast_unsubscribe :: "nat \<Rightarrow> 'e broadcast \<Rightarrow> 'e broadcast" where
  "broadcast_unsubscribe rx bc = bc\<lparr>bc_receivers := hm_remove rx (bc_receivers bc)\<rparr>"

definition broadcast_recv :: "nat \<Rightarrow> 'e broadcast \<Rightarrow> 'e delivery \<times> 'e broadcast" where
  "broadcast_recv rx bc =
     (case hm_get (bc_receivers bc) rx of
        None \<Rightarrow> (Empty, bc)
      | Some pos \<Rightarrow>
          (let oldest = bc_stored bc - length (bc_buffer bc);
               go_to = (\<lambda>p. bc\<lparr>bc_receivers := hm_insert rx p (bc_receivers bc)\<rparr>)
           in if pos < oldest then (Lagged (oldest - pos), go_to oldest)
              else if pos < bc_stored bc then (Received (bc_buffer bc ! (pos - oldest)), go_to (Suc pos))
              else (Empty, bc)))"

text \<open>
  The bus. \<open>new\<close> drops the receiver that comes with the channel, so the bus begins without one.
\<close>

record EventBus =
  eb_sender :: "Event broadcast"
  eb_event_history :: "Event list"
  eb_max_history :: nat

definition EventBus_new :: "(nat \<Rightarrow> nat) \<Rightarrow> EventBus" where
  "EventBus_new slots =
     \<lparr>eb_sender = broadcast_channel slots 1000, eb_event_history = [], eb_max_history = 1000\<rparr>"

definition EventBus_default :: "(nat \<Rightarrow> nat) \<Rightarrow> EventBus" where
  "EventBus_default slots = EventBus_new slots"

definition EventBus_clone :: "EventBus \<Rightarrow> EventBus" where
  "EventBus_clone bus =
     \<lparr>eb_sender = eb_sender bus, eb_event_history = eb_event_history bus,
      eb_max_history = eb_max_history bus\<rparr>"

definition publish :: "Event \<Rightarrow> EventBus \<Rightarrow> unit result \<times> EventBus" where
  "publish event bus =
     (let history = eb_event_history bus @ [event];
          excess = length history - eb_max_history bus;
          history = (if excess > 0 then drop excess history else history)
      in (Inr (), bus\<lparr>eb_event_history := history, eb_sender := broadcast_send event (eb_sender bus)\<rparr>))"

definition subscribe :: "EventBus \<Rightarrow> nat \<times> EventBus" where
  "subscribe bus = (case broadcast_subscribe (eb_sender bus) of (rx, bc) \<Rightarrow> (rx, bus\<lparr>eb_sender := bc\<rparr>))"

definition history :: "EventBus \<Rightarrow> Event list" where
  "history bus = eb_event_history bus"

definition clear_history :: "EventBus \<Rightarrow> EventBus" where
  "clear_history bus = bus\<lparr>eb_event_history := []\<rparr>"

definition history_size :: "EventBus \<Rightarrow> nat" where
  "history_size bus = length (eb_event_history bus)"

text \<open>What a subscriber does with the handle it was given: receive, and drop it.\<close>

definition receive :: "nat \<Rightarrow> EventBus \<Rightarrow> Event delivery \<times> EventBus" where
  "receive rx bus = (case broadcast_recv rx (eb_sender bus) of (d, bc) \<Rightarrow> (d, bus\<lparr>eb_sender := bc\<rparr>))"

definition unsubscribe :: "nat \<Rightarrow> EventBus \<Rightarrow> EventBus" where
  "unsubscribe rx bus = bus\<lparr>eb_sender := broadcast_unsubscribe rx (eb_sender bus)\<rparr>"

subsection \<open>The bus under any sequence of calls\<close>

datatype bus_call = Publish Event | Subscribe | Receive nat | Unsubscribe nat | Clear_History

primrec bus_step :: "bus_call \<Rightarrow> EventBus \<Rightarrow> EventBus" where
  "bus_step (Publish e) bus = snd (publish e bus)"
| "bus_step Subscribe bus = snd (subscribe bus)"
| "bus_step (Receive rx) bus = snd (receive rx bus)"
| "bus_step (Unsubscribe rx) bus = unsubscribe rx bus"
| "bus_step Clear_History bus = clear_history bus"

definition bus_run :: "bus_call list \<Rightarrow> EventBus \<Rightarrow> EventBus" where
  "bus_run calls bus = fold bus_step calls bus"

text \<open>What one subscriber got for its calls of \<open>recv\<close>.\<close>

primrec deliveries :: "nat \<Rightarrow> bus_call list \<Rightarrow> EventBus \<Rightarrow> Event delivery list" where
  "deliveries rx [] bus = []"
| "deliveries rx (c # calls) bus =
     (if c = Receive rx then [fst (receive rx bus)] else []) @ deliveries rx calls (bus_step c bus)"

text \<open>What the callers published, all of it and since the history was last cleared.\<close>

definition published :: "bus_call list \<Rightarrow> Event list" where
  "published calls = concat (map (\<lambda>c. case c of Publish e \<Rightarrow> [e] | _ \<Rightarrow> []) calls)"

definition since_clear :: "bus_call list \<Rightarrow> Event list" where
  "since_clear calls = published (rev (takeWhile (\<lambda>c. c \<noteq> Clear_History) (rev calls)))"

definition latest :: "nat \<Rightarrow> 'a list \<Rightarrow> 'a list" where
  "latest n xs = drop (length xs - n) xs"

text \<open>
  What is still to come of the events \<open>es\<close> after the deliveries: each event received has to be the
  next one, and a lag skips as many as it says. \<open>None\<close> when the deliveries are not of this kind.
\<close>

fun outstanding :: "'e delivery list \<Rightarrow> 'e list \<Rightarrow> 'e list option" where
  "outstanding [] es = Some es"
| "outstanding (Empty # ds) es = outstanding ds es"
| "outstanding (Lagged n # ds) es = (if 0 < n \<and> n \<le> length es then outstanding ds (drop n es) else None)"
| "outstanding (Received e # ds) (e' # es) = (if e = e' then outstanding ds es else None)"
| "outstanding (Received e # ds) [] = None"

text \<open>What a receive gives when the events \<open>es\<close> are still to come.\<close>

definition next_delivery :: "nat \<Rightarrow> 'e list \<Rightarrow> 'e delivery" where
  "next_delivery n es =
     (if n < length es then Lagged (length es - n) else case es of [] \<Rightarrow> Empty | e # _ \<Rightarrow> Received e)"

definition events_of :: "'e delivery list \<Rightarrow> 'e list" where
  "events_of ds = concat (map (\<lambda>d. case d of Received e \<Rightarrow> [e] | _ \<Rightarrow> []) ds)"

subsection \<open>The history\<close>

lemma latest_snoc: "latest n (latest n xs @ [x]) = latest n (xs @ [x])"
  by (cases "length xs < n") (auto simp: latest_def Suc_diff_le)

lemma latest_all: "length xs \<le> n \<Longrightarrow> latest n xs = xs"
  by (simp add: latest_def)

lemma length_latest: "length (latest n xs) \<le> n"
  by (simp add: latest_def)

lemma bus_run_snoc: "bus_run (calls @ [c]) bus = bus_step c (bus_run calls bus)"
  by (simp add: bus_run_def)

lemma bus_run_Cons: "bus_run (c # calls) bus = bus_run calls (bus_step c bus)"
  by (simp add: bus_run_def)

lemma published_simps [simp]:
  "published [] = []" "published (Publish e # calls) = e # published calls"
  "published (Subscribe # calls) = published calls" "published (Clear_History # calls) = published calls"
  "published (Receive rx # calls) = published calls" "published (Unsubscribe rx # calls) = published calls"
  "published (calls @ calls') = published calls @ published calls'"
  by (simp_all add: published_def)

lemma published_Cons: "published (c # calls) = published [c] @ published calls"
  by (cases c) simp_all

lemma since_clear_snoc:
  "since_clear (calls @ [c]) = (if c = Clear_History then [] else since_clear calls @ published [c])"
  by (simp add: since_clear_def)

lemma bus_step_history:
  "eb_event_history (bus_step c bus) =
     (if c = Clear_History then [] else
        case c of Publish e \<Rightarrow> latest (eb_max_history bus) (eb_event_history bus @ [e]) | _ \<Rightarrow> eb_event_history bus)"
  by (cases c) (simp_all add: publish_def subscribe_def broadcast_subscribe_def receive_def unsubscribe_def
      clear_history_def Let_def latest_def split: prod.splits)

lemma bus_step_max [simp]: "eb_max_history (bus_step c bus) = eb_max_history bus"
  by (cases c) (simp_all add: publish_def subscribe_def broadcast_subscribe_def receive_def unsubscribe_def
      clear_history_def Let_def split: prod.splits)

lemma bus_step_slots [simp]: "bc_slots (eb_sender (bus_step c bus)) = bc_slots (eb_sender bus)"
  by (cases c) (simp_all add: publish_def subscribe_def broadcast_subscribe_def receive_def broadcast_recv_def
      unsubscribe_def broadcast_unsubscribe_def broadcast_send_def clear_history_def Let_def split: option.split)

lemma bus_run_slots [simp]: "bc_slots (eb_sender (bus_run calls bus)) = bc_slots (eb_sender bus)"
  by (induction calls arbitrary: bus) (simp_all add: bus_run_def)

lemma bus_run_history:
  "eb_max_history (bus_run calls (EventBus_new slots)) = 1000 \<and>
   history (bus_run calls (EventBus_new slots)) = latest 1000 (since_clear calls)"
proof (induction calls rule: rev_induct)
  case Nil
  then show ?case
    by (simp add: bus_run_def EventBus_new_def history_def since_clear_def latest_def)
next
  case (snoc c calls)
  then show ?case
    by (cases c)
      (simp_all add: bus_run_snoc since_clear_snoc history_def bus_step_history latest_snoc latest_all
        del: bus_step.simps)
qed

subsection \<open>A subscriber\<close>

text \<open>The channel keeps the latest of all the events stored in it, as many as it has slots.\<close>

definition keeps_latest :: "'e broadcast \<Rightarrow> 'e list \<Rightarrow> bool" where
  "keeps_latest bc stored \<longleftrightarrow> bc_buffer bc = latest (bc_slots bc) stored \<and> bc_stored bc = length stored"

text \<open>The events \<open>es\<close> are what a live receiver still has to read or to lose.\<close>

definition backlog :: "nat \<Rightarrow> 'e broadcast \<Rightarrow> 'e list \<Rightarrow> bool" where
  "backlog rx bc es \<longleftrightarrow> rx < bc_next_receiver bc \<and>
     (\<exists>stored pos. keeps_latest bc stored \<and> hm_get (bc_receivers bc) rx = Some pos \<and> pos \<le> length stored \<and>
        es = drop pos stored)"

text \<open>The events stored so far, in every state that calls reach.\<close>

lemma send_keeps_latest:
  "keeps_latest bc stored \<Longrightarrow> bc_receivers bc \<noteq> [] \<Longrightarrow> keeps_latest (broadcast_send e bc) (stored @ [e])"
  using latest_snoc [of "bc_slots bc" stored e]
  by (simp add: keeps_latest_def broadcast_send_def Let_def latest_def [of _ "latest _ _ @ _"])

lemma step_keeps_latest:
  "keeps_latest (eb_sender bus) stored \<Longrightarrow> \<exists>stored'. keeps_latest (eb_sender (bus_step c bus)) stored'"
proof (cases c)
  case (Publish e)
  assume "keeps_latest (eb_sender bus) stored"
  then show ?thesis
    using send_keeps_latest [of "eb_sender bus" stored e] Publish
    by (cases "bc_receivers (eb_sender bus) = []") (auto simp: publish_def Let_def broadcast_send_def)
qed (auto simp: keeps_latest_def subscribe_def broadcast_subscribe_def receive_def broadcast_recv_def
    unsubscribe_def broadcast_unsubscribe_def clear_history_def Let_def split: option.split)

lemma channel_keeps_latest: "\<exists>stored. keeps_latest (eb_sender (bus_run calls (EventBus_new slots))) stored"
proof (induction calls rule: rev_induct)
  case Nil
  then show ?case
    by (simp add: bus_run_def EventBus_new_def broadcast_channel_def keeps_latest_def latest_def)
next
  case (snoc c calls)
  then show ?case
    using step_keeps_latest by (auto simp: bus_run_snoc)
qed

lemma recv_backlog:
  assumes "backlog rx bc es" "0 < bc_slots bc"
  shows "fst (broadcast_recv rx bc) = next_delivery (bc_slots bc) es \<and>
    (\<exists>es'. (\<forall>more. outstanding [fst (broadcast_recv rx bc)] (es @ more) = Some (es' @ more)) \<and>
       backlog rx (snd (broadcast_recv rx bc)) es')"
proof -
  obtain stored pos where st: "rx < bc_next_receiver bc" "keeps_latest bc stored"
    "hm_get (bc_receivers bc) rx = Some pos" "pos \<le> length stored" "es = drop pos stored"
    using assms(1) by (auto simp: backlog_def)
  let ?n = "bc_slots bc" and ?oldest = "length stored - bc_slots bc"
  let ?go = "\<lambda>p. bc\<lparr>bc_receivers := hm_insert rx p (bc_receivers bc)\<rparr>"
  have buffer: "bc_buffer bc = drop ?oldest stored" "bc_stored bc - length (bc_buffer bc) = ?oldest"
    using st(2) by (auto simp: keeps_latest_def latest_def)
  have at: "backlog rx (?go p) (drop p stored)" if "p \<le> length stored" for p
    using st(1,2) that by (auto simp: backlog_def keeps_latest_def)
  consider (lagged) "pos < ?oldest" | (ready) "?oldest \<le> pos" "pos < length stored" | (none) "pos = length stored"
    using st(4) by linarith
  then show ?thesis
  proof cases
    case lagged
    then have "broadcast_recv rx bc = (Lagged (?oldest - pos), ?go ?oldest)"
      using st(3) buffer(2) by (simp add: broadcast_recv_def Let_def)
    moreover have "drop (?oldest - pos) es = drop ?oldest stored"
      using lagged st(5) by simp
    ultimately show ?thesis
      using lagged st(5) at [of ?oldest] by (auto simp: next_delivery_def intro!: exI [of _ "drop ?oldest stored"])
  next
    case ready
    then have es: "es = stored ! pos # drop (Suc pos) stored"
      using st(5) by (simp add: Cons_nth_drop_Suc)
    have "broadcast_recv rx bc = (Received (stored ! pos), ?go (Suc pos))"
      using ready st(2,3) buffer by (simp add: broadcast_recv_def keeps_latest_def latest_def Let_def)
    then show ?thesis
      using ready es at [of "Suc pos"] assms(2)
      by (auto simp: next_delivery_def intro!: exI [of _ "drop (Suc pos) stored"])
  next
    case none
    then have "broadcast_recv rx bc = (Empty, bc)" "es = []"
      using st(2,3,5) assms(2) buffer(2) by (simp_all add: broadcast_recv_def keeps_latest_def Let_def)
    then show ?thesis
      using assms(1) by (auto simp: next_delivery_def intro!: exI [of _ "[]"])
  qed
qed

lemma other_step_backlog:
  assumes "backlog rx (eb_sender bus) es" "c \<noteq> Receive rx" "c \<noteq> Unsubscribe rx"
  shows "backlog rx (eb_sender (bus_step c bus)) (es @ published [c])"
proof -
  obtain stored pos where st: "rx < bc_next_receiver (eb_sender bus)" "keeps_latest (eb_sender bus) stored"
    "hm_get (bc_receivers (eb_sender bus)) rx = Some pos" "pos \<le> length stored" "es = drop pos stored"
    using assms(1) by (auto simp: backlog_def)
  have some: "bc_receivers (eb_sender bus) \<noteq> []"
    using st(3) by (auto simp: hm_get_def)
  show ?thesis
  proof (cases c)
    case (Publish e)
    have "eb_sender (bus_step c bus) = broadcast_send e (eb_sender bus)"
      by (simp add: Publish publish_def Let_def)
    moreover have "hm_get (bc_receivers (broadcast_send e (eb_sender bus))) rx = Some pos"
      "bc_next_receiver (broadcast_send e (eb_sender bus)) = bc_next_receiver (eb_sender bus)"
      using st(3) some by (simp_all add: broadcast_send_def Let_def)
    ultimately show ?thesis
      using send_keeps_latest [OF st(2) some, of e] st Publish by (auto simp: backlog_def)
  next
    case (Receive rx')
    then show ?thesis
      using st assms(2)
      by (auto simp: backlog_def keeps_latest_def receive_def broadcast_recv_def Let_def split: option.split prod.splits)
  qed (use st assms(3) in \<open>auto simp: backlog_def keeps_latest_def subscribe_def broadcast_subscribe_def
      unsubscribe_def broadcast_unsubscribe_def clear_history_def Let_def\<close>)
qed


lemma subscriber_run:
  assumes "0 < bc_slots (eb_sender bus)" "backlog rx (eb_sender bus) es" "Unsubscribe rx \<notin> set calls"
  shows "\<exists>es'. outstanding (deliveries rx calls bus) (es @ published calls) = Some es' \<and>
    backlog rx (eb_sender (bus_run calls bus)) es'"
  using assms
proof (induction calls arbitrary: bus es)
  case Nil
  then show ?case
    by (simp add: bus_run_def)
next
  case (Cons c calls)
  have slots: "0 < bc_slots (eb_sender (bus_step c bus))"
    using Cons.prems(1) by simp
  show ?case
  proof (cases "c = Receive rx")
    case True
    obtain es' where es': "outstanding [fst (receive rx bus)] (es @ published calls) = Some (es' @ published calls)"
      "backlog rx (eb_sender (bus_step c bus)) es'"
      using recv_backlog [OF Cons.prems(2,1)] True by (auto simp: receive_def split_def)
    have "outstanding (d # ds) all = outstanding ds rest" if "outstanding [d] all = Some rest" for d ds and all rest :: "Event list"
      using that by (cases "([d], all)" rule: outstanding.cases) (auto split: if_splits)
    then show ?thesis
      using Cons.IH [OF slots es'(2)] Cons.prems(3) es'(1) True by (simp add: bus_run_Cons)
  next
    case False
    have "backlog rx (eb_sender (bus_step c bus)) (es @ published [c])"
      using other_step_backlog [OF Cons.prems(2) False] Cons.prems(3) by auto
    then show ?thesis
      using Cons.IH [OF slots, of "es @ published [c]"] Cons.prems(3) False published_Cons [of c calls]
      by (simp add: bus_run_Cons)
  qed
qed

lemma events_of_outstanding:
  "outstanding ds es = Some es' \<Longrightarrow> \<forall>n. Lagged n \<notin> set ds \<Longrightarrow> es = events_of ds @ es'"
  by (induction ds es rule: outstanding.induct) (auto simp: events_of_def split: if_splits)

text \<open>
  C23. The bus keeps its promises under every sequence of calls. The history is exactly the latest
  thousand of the events published since it was last cleared, in the order of publication, and
  publishing never fails. What a subscriber is delivered, for its calls of \<open>recv\<close> between all
  the others and until it drops its handle, is what is published after it subscribed, in that order, each event
  once, except that it is told how many events it has lost: its next delivery is the oldest event
  that is still to come for it as long as no more of them are to come than the channel has slots,
  which is a thousand at least, and otherwise a lag over just the events beyond that number. A
  subscriber that is never told of a lag has received everything but what is still to come.
\<close>

theorem event_bus_delivers:
  assumes "1000 \<le> slots 1000" "Core_Events.subscribe (bus_run calls (EventBus_new slots)) = (rx, bus)"
    and "Unsubscribe rx \<notin> set calls'"
  defines "ds \<equiv> deliveries rx calls' bus" and "bus' \<equiv> bus_run calls' bus"
  shows "history (bus_run calls (EventBus_new slots)) = latest 1000 (since_clear calls) \<and>
    history_size (bus_run calls (EventBus_new slots)) \<le> 1000 \<and>
    fst (publish e (bus_run calls (EventBus_new slots))) = Inr () \<and>
    (\<exists>es. outstanding ds (published calls') = Some es \<and>
       fst (receive rx bus') = next_delivery (slots 1000) es \<and>
       (length es \<le> 1000 \<longrightarrow> fst (receive rx bus') = (case es of [] \<Rightarrow> Empty | e # _ \<Rightarrow> Received e)) \<and>
       ((\<forall>n. Lagged n \<notin> set ds) \<longrightarrow> published calls' = events_of ds @ es))"
proof -
  let ?bus = "bus_run calls (EventBus_new slots)"
  have slots: "bc_slots (eb_sender bus) = slots 1000"
    using bus_step_slots [of Subscribe ?bus] assms(2) by (simp add: EventBus_new_def broadcast_channel_def)
  obtain stored where "keeps_latest (eb_sender ?bus) stored"
    using channel_keeps_latest by blast
  then have "backlog rx (eb_sender bus) []"
    using assms(2) by (auto simp: backlog_def keeps_latest_def subscribe_def broadcast_subscribe_def Let_def)
  then obtain es where es: "outstanding ds (published calls') = Some es" "backlog rx (eb_sender bus') es"
    using subscriber_run [OF _ _ assms(3), of bus "[]"] assms(1) slots by (auto simp: ds_def bus'_def)
  have "fst (receive rx bus') = next_delivery (slots 1000) es"
    using recv_backlog [OF es(2)] assms(1) slots by (simp add: receive_def bus'_def split_def)
  moreover have "next_delivery (slots 1000) es = (case es of [] \<Rightarrow> Empty | e # _ \<Rightarrow> Received e)" if "length es \<le> 1000"
    using that assms(1) by (simp add: next_delivery_def)
  ultimately show ?thesis
    using bus_run_history [of calls slots] length_latest [of 1000 "since_clear calls"] es(1) events_of_outstanding [OF es(1)]
    by (simp add: history_size_def history_def publish_def Let_def)
qed

text \<open>A channel of a thousand slots, and a subscriber that receives between two events.\<close>

theorem event_bus_delivers_witness:
  "\<exists>bus. Core_Events.subscribe (bus_run [] (EventBus_new id)) = (0, bus) \<and>
    deliveries 0 [Publish EV_ShutdownRequested, Receive 0, Publish EV_ConfigReloaded] bus =
      [Received EV_ShutdownRequested] \<and>
    fst (receive 0 (bus_run [Publish EV_ShutdownRequested, Receive 0, Publish EV_ConfigReloaded] bus)) =
      Received EV_ConfigReloaded"
proof -
  let ?calls = "[Publish EV_ShutdownRequested, Receive 0, Publish EV_ConfigReloaded]"
  obtain bus where bus: "Core_Events.subscribe (bus_run [] (EventBus_new id)) = (0, bus)"
    by (simp add: bus_run_def EventBus_new_def broadcast_channel_def subscribe_def broadcast_subscribe_def Let_def)
  have "deliveries 0 ?calls bus = [Received EV_ShutdownRequested]"
    using bus by (auto simp: bus_run_def EventBus_new_def broadcast_channel_def subscribe_def broadcast_subscribe_def
        publish_def receive_def broadcast_send_def broadcast_recv_def hm_insert_def hm_get_def Let_def)
  then show ?thesis
    using event_bus_delivers [OF _ bus, of ?calls, where e = EV_ConfigReloaded] bus by (simp add: next_delivery_def)
qed

end
