(* ===== verification/Store_Contracts.thy ===== *)
theory Store_Contracts
  imports Main
begin

text \<open>
  The contracts of stores in which writing an entry under a name that is taken replaces it: what the
  trusted devices of the configuration and the tables of the database promise their callers. A
  write may be refused; what it makes of an entry can depend on the entry that it replaces.
\<close>

locale upsert_store =
  fixes lookup :: "'s \<Rightarrow> 'k \<Rightarrow> 'e option"
    and put :: "'v \<Rightarrow> 's \<Rightarrow> bool \<times> 's"
    and name :: "'v \<Rightarrow> 'k"
    and merge :: "'e option \<Rightarrow> 'v \<Rightarrow> 'e"
    and admits :: "'v \<Rightarrow> 's \<Rightarrow> bool"
    and inv :: "'s \<Rightarrow> bool"
  assumes put_admitted: "inv s \<Longrightarrow> admits v s \<Longrightarrow> fst (put v s) \<and> inv (snd (put v s)) \<and>
      lookup (snd (put v s)) k = (if k = name v then Some (merge (lookup s k) v) else lookup s k)"
    and put_refused: "inv s \<Longrightarrow> \<not> admits v s \<Longrightarrow> put v s = (False, s)"
begin

lemma put_iff: "inv s \<Longrightarrow> fst (put v s) \<longleftrightarrow> admits v s"
  using put_admitted put_refused by fastforce

lemma put_inv: "inv s \<Longrightarrow> inv (snd (put v s))"
  using put_admitted put_refused by (metis snd_conv)

lemma put_other: "inv s \<Longrightarrow> k \<noteq> name v \<Longrightarrow> lookup (snd (put v s)) k = lookup s k"
  using put_admitted put_refused by (metis snd_conv)

lemma put_same: "inv s \<Longrightarrow> fst (put v s) \<Longrightarrow> lookup (snd (put v s)) (name v) = Some (merge (lookup s (name v)) v)"
  using put_admitted put_iff by simp

text \<open>A sequence of writes: which of them take effect, and what a name then holds.\<close>

primrec run :: "'v list \<Rightarrow> 's \<Rightarrow> 's" where
  "run [] s = s"
| "run (v # vs) s = run vs (snd (put v s))"

primrec accepted :: "'v list \<Rightarrow> 's \<Rightarrow> 'v list" where
  "accepted [] s = []"
| "accepted (v # vs) s = (if fst (put v s) then [v] else []) @ accepted vs (snd (put v s))"

lemma run_inv: "inv s \<Longrightarrow> inv (run vs s)"
  by (induction vs arbitrary: s) (simp_all add: put_inv)

lemma run_lookup:
  "inv s \<Longrightarrow> lookup (run vs s) k =
     fold (\<lambda>v e. Some (merge e v)) (filter (\<lambda>v. name v = k) (accepted vs s)) (lookup s k)"
proof (induction vs arbitrary: s)
  case Nil
  then show ?case by simp
next
  case (Cons v vs)
  note IH = Cons.IH [OF put_inv [OF Cons.prems], of v]
  show ?case
  proof (cases "fst (put v s)")
    case True
    then show ?thesis
      using IH put_admitted [OF Cons.prems, of v k] put_iff [OF Cons.prems] by auto
  next
    case False
    then show ?thesis
      using IH put_refused [OF Cons.prems, of v] put_iff [OF Cons.prems] by auto
  qed
qed

lemma run_fold: "run vs s = fold (\<lambda>v s. snd (put v s)) vs s"
  by (induction vs arbitrary: s) simp_all

lemma accepted_all: "inv s \<Longrightarrow> (\<And>v s. inv s \<Longrightarrow> admits v s) \<Longrightarrow> accepted vs s = vs"
  by (induction vs arbitrary: s) (simp_all add: put_iff put_inv)

text \<open>When a write replaces the whole entry, the last accepted write under a name is what it holds.\<close>

lemma last_write_wins:
  assumes "inv s" "\<And>e v. merge e v = entry v"
  shows "lookup (run vs s) k =
    (case rev (filter (\<lambda>v. name v = k) (accepted vs s)) of [] \<Rightarrow> lookup s k | v # _ \<Rightarrow> Some (entry v))"
proof -
  have "fold (\<lambda>v e. Some (merge e v)) xs e0 = (case rev xs of [] \<Rightarrow> e0 | v # _ \<Rightarrow> Some (entry v))" for xs e0
    using assms(2) by (induction xs rule: rev_induct) simp_all
  then show ?thesis
    using run_lookup [OF assms(1)] by simp
qed

end

text \<open>The same with removal, which may spare entries.\<close>

locale upsert_delete_store = upsert_store lookup put name merge admits inv
  for lookup :: "'s \<Rightarrow> 'k \<Rightarrow> 'e option" and put :: "'v \<Rightarrow> 's \<Rightarrow> bool \<times> 's" and name :: "'v \<Rightarrow> 'k"
    and merge :: "'e option \<Rightarrow> 'v \<Rightarrow> 'e" and admits :: "'v \<Rightarrow> 's \<Rightarrow> bool" and inv :: "'s \<Rightarrow> bool" +
  fixes del :: "'k \<Rightarrow> 's \<Rightarrow> 's" and removable :: "'e \<Rightarrow> bool"
  assumes del_lookup: "inv s \<Longrightarrow> lookup (del k s) k' =
      (if k' = k \<and> (\<forall>e. lookup s k = Some e \<longrightarrow> removable e) then None else lookup s k')"
    and del_inv: "inv s \<Longrightarrow> inv (del k s)"
begin

lemma del_other: "inv s \<Longrightarrow> k' \<noteq> k \<Longrightarrow> lookup (del k s) k' = lookup s k'"
  by (simp add: del_lookup)

lemma del_spared: "inv s \<Longrightarrow> lookup s k = Some e \<Longrightarrow> \<not> removable e \<Longrightarrow> lookup (del k s) k = Some e"
  by (simp add: del_lookup)

lemma del_removed: "inv s \<Longrightarrow> lookup s k = Some e \<Longrightarrow> removable e \<Longrightarrow> lookup (del k s) k = None"
  by (simp add: del_lookup)

lemma del_put:
  "inv s \<Longrightarrow> fst (put v s) \<Longrightarrow> removable (merge (lookup s (name v)) v) \<Longrightarrow>
     lookup (del (name v) (snd (put v s))) k = (if k = name v then None else lookup s k)"
  using put_same put_other put_inv by (simp add: del_lookup)

end

end
