(* ===== verification/Core_Config.thy ===== *)
theory Core_Config
  imports ProtoTypes Store_Contracts
begin

text \<open>
  The configuration of the desktop core (\<^verbatim>\<open>core/src/config.rs\<close>): the sections with their defaults,
  how the derived serialiser and deserialiser map them to a tree of values, and the manager that
  keeps the configuration in memory and in a file. The text format of the tree (crates \<^verbatim>\<open>toml\<close> and
  \<^verbatim>\<open>config\<close>), the reading of single values, base64 and the file system's failures are parameters;
  \<open>crates_ok\<close> states what is documented of them.
\<close>

subsection \<open>The sections\<close>

text \<open>A value of \<^verbatim>\<open>serde_json\<close>; a number is kept as its text.\<close>

datatype json =
    JNull
  | JBool bool
  | JNumber string
  | JString string
  | JArray "json list"
  | JObject "(string \<times> json) list"

record BluetoothConfig =
  btc_adapter_id :: "string option"
  btc_service_uuid :: string
  btc_device_name :: string
  btc_auto_connect :: bool
  btc_reconnect_interval_sec :: u64
  btc_max_reconnect_attempts :: u32

record DatabaseConfig =
  dbc_path :: string
  dbc_max_connections :: u32
  dbc_backup_enabled :: bool
  dbc_backup_interval_hours :: u32
  dbc_backup_dir :: "string option"

record LoggingConfig =
  lgc_level :: string
  lgc_format :: string
  lgc_output :: string
  lgc_file_path :: "string option"
  lgc_max_file_size_mb :: u64
  lgc_max_files :: u32

record SecurityConfig =
  scc_psk :: "string option"
  scc_require_authentication :: bool
  scc_session_timeout_sec :: u64
  scc_max_failed_attempts :: u32
  scc_lockout_duration_sec :: u64

record ServiceSettings =
  stg_enabled :: bool
  stg_settings :: json

record ServicesConfig =
  svs_filesystem :: ServiceSettings
  svs_sync :: ServiceSettings
  svs_photo_backup :: ServiceSettings
  svs_shell :: ServiceSettings
  svs_media_control :: ServiceSettings
  svs_phone_fs :: ServiceSettings
  svs_proximity :: ServiceSettings
  svs_file_stream :: ServiceSettings
  svs_app_launcher :: ServiceSettings
  svs_config :: ServiceSettings

record TrustedDevice =
  td_device_id :: string
  td_name :: string
  td_paired_at :: string
  td_last_seen :: string
  td_trusted :: bool
  td_psk :: "string option"

record DeviceConfig =
  dvc_device_id :: "string option"
  dvc_trusted_devices :: "TrustedDevice list"

record AppConfig =
  ac_bluetooth :: BluetoothConfig
  ac_database :: DatabaseConfig
  ac_logging :: LoggingConfig
  ac_security :: SecurityConfig
  ac_services :: ServicesConfig
  ac_device :: DeviceConfig

definition BluetoothConfig_default :: BluetoothConfig where
  "BluetoothConfig_default =
     \<lparr>btc_adapter_id = None, btc_service_uuid = ''B7E5E0F0-1A2B-4C3D-8E9F-A0B1C2D3E4F5'',
      btc_device_name = ''BPL Desktop'', btc_auto_connect = True, btc_reconnect_interval_sec = 30,
      btc_max_reconnect_attempts = 10\<rparr>"

definition DatabaseConfig_default :: DatabaseConfig where
  "DatabaseConfig_default =
     \<lparr>dbc_path = ''bpl.db'', dbc_max_connections = 5, dbc_backup_enabled = True,
      dbc_backup_interval_hours = 24, dbc_backup_dir = None\<rparr>"

definition LoggingConfig_default :: LoggingConfig where
  "LoggingConfig_default =
     \<lparr>lgc_level = ''info'', lgc_format = ''json'', lgc_output = ''stdout'', lgc_file_path = None,
      lgc_max_file_size_mb = 100, lgc_max_files = 10\<rparr>"

definition SecurityConfig_default :: SecurityConfig where
  "SecurityConfig_default =
     \<lparr>scc_psk = None, scc_require_authentication = True, scc_session_timeout_sec = 3600,
      scc_max_failed_attempts = 5, scc_lockout_duration_sec = 300\<rparr>"

definition ServicesConfig_default :: ServicesConfig where
  "ServicesConfig_default =
     \<lparr>svs_filesystem = \<lparr>stg_enabled = True, stg_settings = JObject []\<rparr>,
      svs_sync = \<lparr>stg_enabled = True, stg_settings = JObject []\<rparr>,
      svs_photo_backup = \<lparr>stg_enabled = False, stg_settings = JObject []\<rparr>,
      svs_shell = \<lparr>stg_enabled = True, stg_settings = JObject []\<rparr>,
      svs_media_control = \<lparr>stg_enabled = True, stg_settings = JObject []\<rparr>,
      svs_phone_fs = \<lparr>stg_enabled = True, stg_settings = JObject []\<rparr>,
      svs_proximity = \<lparr>stg_enabled = True, stg_settings = JObject []\<rparr>,
      svs_file_stream = \<lparr>stg_enabled = True, stg_settings = JObject []\<rparr>,
      svs_app_launcher = \<lparr>stg_enabled = True, stg_settings = JObject []\<rparr>,
      svs_config = \<lparr>stg_enabled = True, stg_settings = JObject []\<rparr>\<rparr>"

definition DeviceConfig_default :: DeviceConfig where
  "DeviceConfig_default = \<lparr>dvc_device_id = None, dvc_trusted_devices = []\<rparr>"

definition AppConfig_default :: AppConfig where
  "AppConfig_default =
     \<lparr>ac_bluetooth = BluetoothConfig_default, ac_database = DatabaseConfig_default,
      ac_logging = LoggingConfig_default, ac_security = SecurityConfig_default,
      ac_services = ServicesConfig_default, ac_device = DeviceConfig_default\<rparr>"

subsection \<open>The tree of values and the crates\<close>

datatype cfg_value =
    CBool bool
  | CInt int
  | CString string
  | CArray "cfg_value list"
  | CTable "(string \<times> cfg_value) list"

record config_crates =
  cr_print :: "cfg_value \<Rightarrow> string + string"
  cr_build :: "string option \<Rightarrow> string + cfg_value"
  cr_bool :: "cfg_value \<Rightarrow> string + bool"
  cr_string :: "cfg_value \<Rightarrow> string + string"
  cr_u32 :: "cfg_value \<Rightarrow> string + u32"
  cr_u64 :: "cfg_value \<Rightarrow> string + u64"
  cr_json_in :: "cfg_value \<Rightarrow> string + json"
  cr_json_out :: "json \<Rightarrow> string + cfg_value"
  cr_b64_encode :: "bytes \<Rightarrow> string"
  cr_b64_decode :: "string \<Rightarrow> string + bytes"

text \<open>
  \<open>cr_print\<close> writes a tree as text; \<open>cr_build\<close> reads the text of the file (\<open>None\<close> when there is no
  file) and merges the environment. The other fields read single values, convert JSON values, and
  encode bytes.
\<close>

text \<open>
  What the derived deserialiser does with a field: the value under its name; a missing value is
  \<open>None\<close> for an \<open>Option\<close>, the default where the structure has \<^verbatim>\<open>#[serde(default)]\<close>, and an error
  otherwise. Unknown names are skipped.
\<close>

definition as_table :: "cfg_value \<Rightarrow> string + (string \<times> cfg_value) list" where
  "as_table v = (case v of CTable kvs \<Rightarrow> Inr kvs | _ \<Rightarrow> Inl ''invalid type'')"

definition as_array :: "cfg_value \<Rightarrow> string + cfg_value list" where
  "as_array v = (case v of CArray vs \<Rightarrow> Inr vs | _ \<Rightarrow> Inl ''invalid type'')"

definition field :: "(cfg_value \<Rightarrow> string + 'a) \<Rightarrow> string \<Rightarrow> (string \<times> cfg_value) list \<Rightarrow> string + 'a" where
  "field rd name kvs =
     (case map_of kvs name of None \<Rightarrow> Inl (''missing field '' @ name) | Some v \<Rightarrow> rd v)"

definition opt_field ::
  "(cfg_value \<Rightarrow> string + 'a) \<Rightarrow> string \<Rightarrow> (string \<times> cfg_value) list \<Rightarrow> string + 'a option" where
  "opt_field rd name kvs =
     (case map_of kvs name of None \<Rightarrow> Inr None | Some v \<Rightarrow> bindE (rd v) (\<lambda>a. Inr (Some a)))"

definition default_field ::
  "'a \<Rightarrow> (cfg_value \<Rightarrow> string + 'a) \<Rightarrow> string \<Rightarrow> (string \<times> cfg_value) list \<Rightarrow> string + 'a" where
  "default_field d rd name kvs = (case map_of kvs name of None \<Rightarrow> Inr d | Some v \<Rightarrow> rd v)"

text \<open>What the derived serialiser does: \<open>None\<close> is left out; the format has signed 64-bit integers only.\<close>

definition opt_out :: "string \<Rightarrow> string option \<Rightarrow> (string \<times> cfg_value) list" where
  "opt_out name v = (case v of None \<Rightarrow> [] | Some s \<Rightarrow> [(name, CString s)])"

definition u64_out :: "u64 \<Rightarrow> string + cfg_value" where
  "u64_out n = (if unat n < 2 ^ 63 then Inr (CInt (uint n)) else Inl ''out of range'')"

definition u32_out :: "u32 \<Rightarrow> cfg_value" where
  "u32_out n = CInt (uint n)"

subsection \<open>Serialisers and deserialisers\<close>

definition BluetoothConfig_out :: "BluetoothConfig \<Rightarrow> string + cfg_value" where
  "BluetoothConfig_out c =
     bindE (u64_out (btc_reconnect_interval_sec c)) (\<lambda>v_reconnect_interval_sec.
     Inr (CTable (opt_out ''adapter_id'' (btc_adapter_id c) @
       [(''service_uuid'', CString (btc_service_uuid c)), (''device_name'',
       CString (btc_device_name c)), (''auto_connect'', CBool (btc_auto_connect c)),
       (''reconnect_interval_sec'', v_reconnect_interval_sec), (''max_reconnect_attempts'',
       u32_out (btc_max_reconnect_attempts c))])))"

definition BluetoothConfig_in :: "config_crates \<Rightarrow> cfg_value \<Rightarrow> string + BluetoothConfig" where
  "BluetoothConfig_in cr v =
     bindE (as_table v) (\<lambda>kvs.
     bindE (opt_field (cr_string cr) ''adapter_id'' kvs) (\<lambda>v_adapter_id.
     bindE (field (cr_string cr) ''service_uuid'' kvs) (\<lambda>v_service_uuid.
     bindE (field (cr_string cr) ''device_name'' kvs) (\<lambda>v_device_name.
     bindE (field (cr_bool cr) ''auto_connect'' kvs) (\<lambda>v_auto_connect.
     bindE (field (cr_u64 cr) ''reconnect_interval_sec'' kvs) (\<lambda>v_reconnect_interval_sec.
     bindE (field (cr_u32 cr) ''max_reconnect_attempts'' kvs) (\<lambda>v_max_reconnect_attempts.
     Inr \<lparr>btc_adapter_id = v_adapter_id, btc_service_uuid = v_service_uuid,
       btc_device_name = v_device_name, btc_auto_connect = v_auto_connect,
       btc_reconnect_interval_sec = v_reconnect_interval_sec,
       btc_max_reconnect_attempts = v_max_reconnect_attempts\<rparr>)))))))"

definition DatabaseConfig_out :: "DatabaseConfig \<Rightarrow> string + cfg_value" where
  "DatabaseConfig_out c =
     Inr (CTable ([(''path'', CString (dbc_path c)), (''max_connections'',
       u32_out (dbc_max_connections c)), (''backup_enabled'', CBool (dbc_backup_enabled c)),
       (''backup_interval_hours'', u32_out (dbc_backup_interval_hours c))] @
       opt_out ''backup_dir'' (dbc_backup_dir c)))"

definition DatabaseConfig_in :: "config_crates \<Rightarrow> cfg_value \<Rightarrow> string + DatabaseConfig" where
  "DatabaseConfig_in cr v =
     bindE (as_table v) (\<lambda>kvs.
     bindE (field (cr_string cr) ''path'' kvs) (\<lambda>v_path.
     bindE (field (cr_u32 cr) ''max_connections'' kvs) (\<lambda>v_max_connections.
     bindE (field (cr_bool cr) ''backup_enabled'' kvs) (\<lambda>v_backup_enabled.
     bindE (field (cr_u32 cr) ''backup_interval_hours'' kvs) (\<lambda>v_backup_interval_hours.
     bindE (opt_field (cr_string cr) ''backup_dir'' kvs) (\<lambda>v_backup_dir.
     Inr \<lparr>dbc_path = v_path, dbc_max_connections = v_max_connections,
       dbc_backup_enabled = v_backup_enabled, dbc_backup_interval_hours = v_backup_interval_hours,
       dbc_backup_dir = v_backup_dir\<rparr>))))))"

definition LoggingConfig_out :: "LoggingConfig \<Rightarrow> string + cfg_value" where
  "LoggingConfig_out c =
     bindE (u64_out (lgc_max_file_size_mb c)) (\<lambda>v_max_file_size_mb.
     Inr (CTable ([(''level'', CString (lgc_level c)), (''format'', CString (lgc_format c)),
       (''output'', CString (lgc_output c))] @
       opt_out ''file_path'' (lgc_file_path c) @
       [(''max_file_size_mb'', v_max_file_size_mb), (''max_files'', u32_out (lgc_max_files c))])))"

definition LoggingConfig_in :: "config_crates \<Rightarrow> cfg_value \<Rightarrow> string + LoggingConfig" where
  "LoggingConfig_in cr v =
     bindE (as_table v) (\<lambda>kvs.
     bindE (field (cr_string cr) ''level'' kvs) (\<lambda>v_level.
     bindE (field (cr_string cr) ''format'' kvs) (\<lambda>v_format.
     bindE (field (cr_string cr) ''output'' kvs) (\<lambda>v_output.
     bindE (opt_field (cr_string cr) ''file_path'' kvs) (\<lambda>v_file_path.
     bindE (field (cr_u64 cr) ''max_file_size_mb'' kvs) (\<lambda>v_max_file_size_mb.
     bindE (field (cr_u32 cr) ''max_files'' kvs) (\<lambda>v_max_files.
     Inr \<lparr>lgc_level = v_level, lgc_format = v_format, lgc_output = v_output,
       lgc_file_path = v_file_path, lgc_max_file_size_mb = v_max_file_size_mb,
       lgc_max_files = v_max_files\<rparr>)))))))"

definition SecurityConfig_out :: "SecurityConfig \<Rightarrow> string + cfg_value" where
  "SecurityConfig_out c =
     bindE (u64_out (scc_session_timeout_sec c)) (\<lambda>v_session_timeout_sec.
     bindE (u64_out (scc_lockout_duration_sec c)) (\<lambda>v_lockout_duration_sec.
     Inr (CTable (opt_out ''psk'' (scc_psk c) @
       [(''require_authentication'', CBool (scc_require_authentication c)), (''session_timeout_sec'',
       v_session_timeout_sec), (''max_failed_attempts'', u32_out (scc_max_failed_attempts c)),
       (''lockout_duration_sec'', v_lockout_duration_sec)]))))"

definition SecurityConfig_in :: "config_crates \<Rightarrow> cfg_value \<Rightarrow> string + SecurityConfig" where
  "SecurityConfig_in cr v =
     bindE (as_table v) (\<lambda>kvs.
     bindE (opt_field (cr_string cr) ''psk'' kvs) (\<lambda>v_psk.
     bindE (field (cr_bool cr) ''require_authentication'' kvs) (\<lambda>v_require_authentication.
     bindE (field (cr_u64 cr) ''session_timeout_sec'' kvs) (\<lambda>v_session_timeout_sec.
     bindE (field (cr_u32 cr) ''max_failed_attempts'' kvs) (\<lambda>v_max_failed_attempts.
     bindE (field (cr_u64 cr) ''lockout_duration_sec'' kvs) (\<lambda>v_lockout_duration_sec.
     Inr \<lparr>scc_psk = v_psk, scc_require_authentication = v_require_authentication,
       scc_session_timeout_sec = v_session_timeout_sec,
       scc_max_failed_attempts = v_max_failed_attempts,
       scc_lockout_duration_sec = v_lockout_duration_sec\<rparr>))))))"

definition ServiceSettings_out :: "config_crates \<Rightarrow> ServiceSettings \<Rightarrow> string + cfg_value" where
  "ServiceSettings_out cr c =
     bindE (cr_json_out cr (stg_settings c)) (\<lambda>v_settings.
     Inr (CTable ([(''enabled'', CBool (stg_enabled c)), (''settings'', v_settings)])))"

definition ServiceSettings_in :: "config_crates \<Rightarrow> cfg_value \<Rightarrow> string + ServiceSettings" where
  "ServiceSettings_in cr v =
     bindE (as_table v) (\<lambda>kvs.
     bindE (field (cr_bool cr) ''enabled'' kvs) (\<lambda>v_enabled.
     bindE (field (cr_json_in cr) ''settings'' kvs) (\<lambda>v_settings.
     Inr \<lparr>stg_enabled = v_enabled, stg_settings = v_settings\<rparr>)))"

definition ServicesConfig_out :: "config_crates \<Rightarrow> ServicesConfig \<Rightarrow> string + cfg_value" where
  "ServicesConfig_out cr c =
     bindE (ServiceSettings_out cr (svs_filesystem c)) (\<lambda>v_filesystem.
     bindE (ServiceSettings_out cr (svs_sync c)) (\<lambda>v_sync.
     bindE (ServiceSettings_out cr (svs_photo_backup c)) (\<lambda>v_photo_backup.
     bindE (ServiceSettings_out cr (svs_shell c)) (\<lambda>v_shell.
     bindE (ServiceSettings_out cr (svs_media_control c)) (\<lambda>v_media_control.
     bindE (ServiceSettings_out cr (svs_phone_fs c)) (\<lambda>v_phone_fs.
     bindE (ServiceSettings_out cr (svs_proximity c)) (\<lambda>v_proximity.
     bindE (ServiceSettings_out cr (svs_file_stream c)) (\<lambda>v_file_stream.
     bindE (ServiceSettings_out cr (svs_app_launcher c)) (\<lambda>v_app_launcher.
     bindE (ServiceSettings_out cr (svs_config c)) (\<lambda>v_config.
     Inr (CTable ([(''filesystem'', v_filesystem), (''sync'', v_sync), (''photo_backup'',
       v_photo_backup), (''shell'', v_shell), (''media_control'', v_media_control), (''phone_fs'',
       v_phone_fs), (''proximity'', v_proximity), (''file_stream'', v_file_stream), (''app_launcher'',
       v_app_launcher), (''config'', v_config)]))))))))))))"

definition ServicesConfig_in :: "config_crates \<Rightarrow> cfg_value \<Rightarrow> string + ServicesConfig" where
  "ServicesConfig_in cr v =
     bindE (as_table v) (\<lambda>kvs.
     bindE (field (ServiceSettings_in cr) ''filesystem'' kvs) (\<lambda>v_filesystem.
     bindE (field (ServiceSettings_in cr) ''sync'' kvs) (\<lambda>v_sync.
     bindE (field (ServiceSettings_in cr) ''photo_backup'' kvs) (\<lambda>v_photo_backup.
     bindE (field (ServiceSettings_in cr) ''shell'' kvs) (\<lambda>v_shell.
     bindE (field (ServiceSettings_in cr) ''media_control'' kvs) (\<lambda>v_media_control.
     bindE (field (ServiceSettings_in cr) ''phone_fs'' kvs) (\<lambda>v_phone_fs.
     bindE (field (ServiceSettings_in cr) ''proximity'' kvs) (\<lambda>v_proximity.
     bindE (field (ServiceSettings_in cr) ''file_stream'' kvs) (\<lambda>v_file_stream.
     bindE (field (ServiceSettings_in cr) ''app_launcher'' kvs) (\<lambda>v_app_launcher.
     bindE (field (ServiceSettings_in cr) ''config'' kvs) (\<lambda>v_config.
     Inr \<lparr>svs_filesystem = v_filesystem, svs_sync = v_sync, svs_photo_backup = v_photo_backup,
       svs_shell = v_shell, svs_media_control = v_media_control, svs_phone_fs = v_phone_fs,
       svs_proximity = v_proximity, svs_file_stream = v_file_stream, svs_app_launcher = v_app_launcher,
       svs_config = v_config\<rparr>)))))))))))"

definition TrustedDevice_out :: "TrustedDevice \<Rightarrow> string + cfg_value" where
  "TrustedDevice_out c =
     Inr (CTable ([(''device_id'', CString (td_device_id c)), (''name'', CString (td_name c)),
       (''paired_at'', CString (td_paired_at c)), (''last_seen'', CString (td_last_seen c)),
       (''trusted'', CBool (td_trusted c))] @
       opt_out ''psk'' (td_psk c)))"

definition TrustedDevice_in :: "config_crates \<Rightarrow> cfg_value \<Rightarrow> string + TrustedDevice" where
  "TrustedDevice_in cr v =
     bindE (as_table v) (\<lambda>kvs.
     bindE (field (cr_string cr) ''device_id'' kvs) (\<lambda>v_device_id.
     bindE (field (cr_string cr) ''name'' kvs) (\<lambda>v_name.
     bindE (field (cr_string cr) ''paired_at'' kvs) (\<lambda>v_paired_at.
     bindE (field (cr_string cr) ''last_seen'' kvs) (\<lambda>v_last_seen.
     bindE (field (cr_bool cr) ''trusted'' kvs) (\<lambda>v_trusted.
     bindE (opt_field (cr_string cr) ''psk'' kvs) (\<lambda>v_psk.
     Inr \<lparr>td_device_id = v_device_id, td_name = v_name, td_paired_at = v_paired_at,
       td_last_seen = v_last_seen, td_trusted = v_trusted, td_psk = v_psk\<rparr>)))))))"

definition DeviceConfig_out :: "DeviceConfig \<Rightarrow> string + cfg_value" where
  "DeviceConfig_out c =
     bindE (mapE TrustedDevice_out (dvc_trusted_devices c)) (\<lambda>v_trusted_devices.
     Inr (CTable (opt_out ''device_id'' (dvc_device_id c) @
       [(''trusted_devices'', CArray v_trusted_devices)])))"

definition DeviceConfig_in :: "config_crates \<Rightarrow> cfg_value \<Rightarrow> string + DeviceConfig" where
  "DeviceConfig_in cr v =
     bindE (as_table v) (\<lambda>kvs.
     bindE (opt_field (cr_string cr) ''device_id'' kvs) (\<lambda>v_device_id.
     bindE (field (\<lambda>w. bindE (as_array w) (mapE (TrustedDevice_in cr))) ''trusted_devices'' kvs) (\<lambda>v_trusted_devices.
     Inr \<lparr>dvc_device_id = v_device_id, dvc_trusted_devices = v_trusted_devices\<rparr>)))"

definition AppConfig_out :: "config_crates \<Rightarrow> AppConfig \<Rightarrow> string + cfg_value" where
  "AppConfig_out cr c =
     bindE (BluetoothConfig_out (ac_bluetooth c)) (\<lambda>v_bluetooth.
     bindE (DatabaseConfig_out (ac_database c)) (\<lambda>v_database.
     bindE (LoggingConfig_out (ac_logging c)) (\<lambda>v_logging.
     bindE (SecurityConfig_out (ac_security c)) (\<lambda>v_security.
     bindE (ServicesConfig_out cr (ac_services c)) (\<lambda>v_services.
     bindE (DeviceConfig_out (ac_device c)) (\<lambda>v_device.
     Inr (CTable ([(''bluetooth'', v_bluetooth), (''database'', v_database), (''logging'', v_logging),
       (''security'', v_security), (''services'', v_services), (''device'', v_device)]))))))))"

definition AppConfig_in :: "config_crates \<Rightarrow> cfg_value \<Rightarrow> string + AppConfig" where
  "AppConfig_in cr v =
     bindE (as_table v) (\<lambda>kvs.
     bindE (default_field BluetoothConfig_default (BluetoothConfig_in cr) ''bluetooth'' kvs) (\<lambda>v_bluetooth.
     bindE (default_field DatabaseConfig_default (DatabaseConfig_in cr) ''database'' kvs) (\<lambda>v_database.
     bindE (default_field LoggingConfig_default (LoggingConfig_in cr) ''logging'' kvs) (\<lambda>v_logging.
     bindE (default_field SecurityConfig_default (SecurityConfig_in cr) ''security'' kvs) (\<lambda>v_security.
     bindE (default_field ServicesConfig_default (ServicesConfig_in cr) ''services'' kvs) (\<lambda>v_services.
     bindE (default_field DeviceConfig_default (DeviceConfig_in cr) ''device'' kvs) (\<lambda>v_device.
     Inr \<lparr>ac_bluetooth = v_bluetooth, ac_database = v_database, ac_logging = v_logging,
       ac_security = v_security, ac_services = v_services, ac_device = v_device\<rparr>)))))))"

text \<open>
  The documented behaviour of the crates, for an environment without overriding variables. The text
  of a configuration reads back as its tree when the free-form settings of the services are empty
  (other settings may hold values that the text format lacks).
\<close>

definition plain_settings :: "AppConfig \<Rightarrow> bool" where
  "plain_settings c \<longleftrightarrow>
     (let s = ac_services c in
      \<forall>x \<in> set [svs_filesystem s, svs_sync s, svs_photo_backup s, svs_shell s, svs_media_control s,
        svs_phone_fs s, svs_proximity s, svs_file_stream s, svs_app_launcher s, svs_config s].
        stg_settings x = JObject [])"

definition crates_ok :: "config_crates \<Rightarrow> bool" where
  "crates_ok cr \<longleftrightarrow>
     (\<forall>c v t. plain_settings c \<longrightarrow> AppConfig_out cr c = Inr v \<longrightarrow> cr_print cr v = Inr t \<longrightarrow>
        cr_build cr (Some t) = Inr v) \<and>
     cr_build cr None = Inr (CTable []) \<and>
     (\<forall>b. cr_bool cr (CBool b) = Inr b) \<and>
     (\<forall>s. cr_string cr (CString s) = Inr s) \<and>
     (\<forall>n. cr_u32 cr (CInt (uint n)) = Inr n) \<and>
     (\<forall>n. cr_u64 cr (CInt (uint n)) = Inr n) \<and>
     cr_json_out cr (JObject []) = Inr (CTable []) \<and> cr_json_in cr (CTable []) = Inr (JObject []) \<and>
     (\<forall>bs. cr_b64_decode cr (cr_b64_encode cr bs) = Inr bs)"

subsection \<open>The manager\<close>

text \<open>
  The file system: the files, the error that creating a directory gives (if any), and the error that
  writing gives, with what the file then holds; a failed write need not leave the old contents.
\<close>

record disk =
  dk_files :: "(string, string) hmap"
  dk_mkdir_error :: "string \<Rightarrow> string option"
  dk_write_error :: "(string \<times> string option) option"

record ConfigManager =
  cm_config :: AppConfig
  cm_config_path :: string

text \<open>Paths, with the separator of Unix.\<close>

definition path_join :: "string \<Rightarrow> string \<Rightarrow> string" where
  "path_join dir file = dir @ ''/'' @ file"

definition path_parent :: "string \<Rightarrow> string option" where
  "path_parent p =
     (case dropWhile (\<lambda>ch. ch = CHR ''/'') (rev p) of
        [] \<Rightarrow> None
      | cs \<Rightarrow> Some (rev (dropWhile (\<lambda>ch. ch = CHR ''/'') (dropWhile (\<lambda>ch. ch \<noteq> CHR ''/'') cs))))"

definition write_file :: "string \<Rightarrow> string \<Rightarrow> disk \<Rightarrow> unit result \<times> disk" where
  "write_file path text d =
     (case dk_write_error d of
        None \<Rightarrow> (Inr (), d\<lparr>dk_files := hm_insert path text (dk_files d)\<rparr>)
      | Some (e, left) \<Rightarrow>
          (Inl (Err (Config e)),
           d\<lparr>dk_files := (case left of None \<Rightarrow> hm_remove path (dk_files d)
                           | Some t \<Rightarrow> hm_insert path t (dk_files d))\<rparr>))"

definition config_err :: "string + 'a \<Rightarrow> 'a result" where
  "config_err r = (case r of Inl e \<Rightarrow> Inl (Err (Config e)) | Inr a \<Rightarrow> Inr a)"

definition save :: "config_crates \<Rightarrow> ConfigManager \<Rightarrow> disk \<Rightarrow> unit result \<times> disk" where
  "save cr m d =
     (case config_err (bindE (AppConfig_out cr (cm_config m)) (cr_print cr)) of
        Inl e \<Rightarrow> (Inl e, d)
      | Inr toml \<Rightarrow> write_file (cm_config_path m) toml d)"

definition read_config :: "config_crates \<Rightarrow> string option \<Rightarrow> string + AppConfig" where
  "read_config cr text = bindE (cr_build cr text) (AppConfig_in cr)"

definition load_from_path :: "config_crates \<Rightarrow> string \<Rightarrow> disk \<Rightarrow> ConfigManager result \<times> disk" where
  "load_from_path cr path d =
     (case (case path_parent path of None \<Rightarrow> None | Some parent \<Rightarrow> dk_mkdir_error d parent) of
        Some e \<Rightarrow> (Inl (Err (Config e)), d)
      | None \<Rightarrow>
          (case config_err (read_config cr (hm_get (dk_files d) path)) of
             Inl e \<Rightarrow> (Inl e, d)
           | Inr app_config \<Rightarrow>
               let manager = \<lparr>cm_config = app_config, cm_config_path = path\<rparr> in
               if \<not> hm_contains (dk_files d) path
               then (case save cr manager d of
                       (Inl e, d') \<Rightarrow> (Inl e, d')
                     | (Inr _, d') \<Rightarrow> (Inr manager, d'))
               else (Inr manager, d)))"

text \<open>The directories of the user, as the crate \<^verbatim>\<open>dirs\<close> gives them.\<close>

definition config_dir :: "string option \<Rightarrow> string result" where
  "config_dir dir =
     (case dir of Some dir \<Rightarrow> Inr (path_join dir ''bluetooth-personal-link'')
      | None \<Rightarrow> Inl (Err (Config ''Could not determine config directory'')))"

definition data_dir :: "string option \<Rightarrow> string result" where
  "data_dir dir =
     (case dir of Some dir \<Rightarrow> Inr (path_join dir ''bluetooth-personal-link'')
      | None \<Rightarrow> Inl (Err (Config ''Could not determine data directory'')))"

definition load :: "config_crates \<Rightarrow> string option \<Rightarrow> disk \<Rightarrow> ConfigManager result \<times> disk" where
  "load cr user_dir d =
     (case config_dir user_dir of
        Inl e \<Rightarrow> (Inl e, d)
      | Inr dir \<Rightarrow> load_from_path cr (path_join dir ''config.toml'') d)"

definition ConfigManager_default :: ConfigManager where
  "ConfigManager_default = \<lparr>cm_config = AppConfig_default, cm_config_path = []\<rparr>"

definition get_config :: "ConfigManager \<Rightarrow> AppConfig" where
  "get_config m = cm_config m"

definition update_config :: "(AppConfig \<Rightarrow> AppConfig) \<Rightarrow> ConfigManager \<Rightarrow> ConfigManager" where
  "update_config f m = m\<lparr>cm_config := f (cm_config m)\<rparr>"

text \<open>An operation that changes the configuration in memory and then saves it.\<close>

definition update_and_save ::
  "config_crates \<Rightarrow> (AppConfig \<Rightarrow> AppConfig) \<Rightarrow> ConfigManager \<Rightarrow> disk \<Rightarrow> unit result \<times> ConfigManager \<times> disk" where
  "update_and_save cr f m d =
     (let m = update_config f m in case save cr m d of (r, d) \<Rightarrow> (r, m, d))"

subsection \<open>Device identity and key\<close>

definition set_device_id :: "string \<Rightarrow> AppConfig \<Rightarrow> AppConfig" where
  "set_device_id s c = c\<lparr>ac_device := (ac_device c)\<lparr>dvc_device_id := Some s\<rparr>\<rparr>"

text \<open>\<open>fresh\<close> are the 16 bytes that the random generator gives.\<close>

definition get_or_create_device_id ::
  "config_crates \<Rightarrow> bytes \<Rightarrow> ConfigManager \<Rightarrow> disk \<Rightarrow> DeviceId result \<times> ConfigManager \<times> disk" where
  "get_or_create_device_id cr fresh m d =
     (let existing =
        (case dvc_device_id (ac_device (cm_config m)) of
           None \<Rightarrow> Inr None
         | Some s \<Rightarrow>
             (case cr_b64_decode cr s of
                Inl e \<Rightarrow> Inl (Err (Config (''Invalid device ID: '' @ e)))
              | Inr bs \<Rightarrow> Inr (if length bs = 16 then Some bs else None)))
      in case existing of
           Inl e \<Rightarrow> (Inl e, m, d)
         | Inr (Some bs) \<Rightarrow> (Inr \<lparr>did_value = bs\<rparr>, m, d)
         | Inr None \<Rightarrow>
             (case update_and_save cr (set_device_id (cr_b64_encode cr fresh)) m d of
                (Inl e, m, d) \<Rightarrow> (Inl e, m, d)
              | (Inr _, m, d) \<Rightarrow> (Inr \<lparr>did_value = fresh\<rparr>, m, d)))"

definition get_psk :: "config_crates \<Rightarrow> ConfigManager \<Rightarrow> bytes option" where
  "get_psk cr m =
     (case scc_psk (ac_security (cm_config m)) of
        None \<Rightarrow> None
      | Some s \<Rightarrow> (case cr_b64_decode cr s of Inl _ \<Rightarrow> None | Inr bs \<Rightarrow> Some bs))"

definition set_psk :: "config_crates \<Rightarrow> bytes \<Rightarrow> ConfigManager \<Rightarrow> disk \<Rightarrow> unit result \<times> ConfigManager \<times> disk" where
  "set_psk cr psk =
     update_and_save cr (\<lambda>c. c\<lparr>ac_security := (ac_security c)\<lparr>scc_psk := Some (cr_b64_encode cr psk)\<rparr>\<rparr>)"

subsection \<open>Trusted devices\<close>

definition on_devices :: "(TrustedDevice list \<Rightarrow> TrustedDevice list) \<Rightarrow> AppConfig \<Rightarrow> AppConfig" where
  "on_devices f c = c\<lparr>ac_device := (ac_device c)\<lparr>dvc_trusted_devices := f (dvc_trusted_devices (ac_device c))\<rparr>\<rparr>"

definition retain_others :: "string \<Rightarrow> TrustedDevice list \<Rightarrow> TrustedDevice list" where
  "retain_others device_id ds = filter (\<lambda>d. td_device_id d \<noteq> device_id) ds"

definition add_trusted_device ::
  "config_crates \<Rightarrow> TrustedDevice \<Rightarrow> ConfigManager \<Rightarrow> disk \<Rightarrow> unit result \<times> ConfigManager \<times> disk" where
  "add_trusted_device cr device =
     update_and_save cr (on_devices (\<lambda>ds. retain_others (td_device_id device) ds @ [device]))"

definition remove_trusted_device ::
  "config_crates \<Rightarrow> string \<Rightarrow> ConfigManager \<Rightarrow> disk \<Rightarrow> unit result \<times> ConfigManager \<times> disk" where
  "remove_trusted_device cr device_id = update_and_save cr (on_devices (retain_others device_id))"

definition get_trusted_devices :: "ConfigManager \<Rightarrow> TrustedDevice list" where
  "get_trusted_devices m = dvc_trusted_devices (ac_device (cm_config m))"

definition get_trusted_device :: "ConfigManager \<Rightarrow> string \<Rightarrow> TrustedDevice option" where
  "get_trusted_device m device_id = find (\<lambda>d. td_device_id d = device_id) (get_trusted_devices m)"

text \<open>\<open>iter_mut().find(..)\<close>: the first match is changed in place.\<close>

primrec update_first :: "('a \<Rightarrow> bool) \<Rightarrow> ('a \<Rightarrow> 'a) \<Rightarrow> 'a list \<Rightarrow> 'a list" where
  "update_first P f [] = []"
| "update_first P f (x # xs) = (if P x then f x # xs else x # update_first P f xs)"

definition update_device_last_seen ::
  "config_crates \<Rightarrow> string \<Rightarrow> string \<Rightarrow> ConfigManager \<Rightarrow> disk \<Rightarrow> unit result \<times> ConfigManager \<times> disk" where
  "update_device_last_seen cr now device_id =
     update_and_save cr
       (on_devices (update_first (\<lambda>d. td_device_id d = device_id) (\<lambda>d. d\<lparr>td_last_seen := now\<rparr>)))"

subsection \<open>Settings of the services\<close>

definition get_service_settings :: "ConfigManager \<Rightarrow> string \<Rightarrow> ServiceSettings option" where
  "get_service_settings m service =
     (let services = ac_services (cm_config m) in
      if service = ''filesystem'' then Some (svs_filesystem services)
      else if service = ''sync'' then Some (svs_sync services)
      else if service = ''photo_backup'' then Some (svs_photo_backup services)
      else if service = ''shell'' then Some (svs_shell services)
      else if service = ''media_control'' then Some (svs_media_control services)
      else if service = ''phone_fs'' then Some (svs_phone_fs services)
      else if service = ''proximity'' then Some (svs_proximity services)
      else if service = ''file_stream'' then Some (svs_file_stream services)
      else if service = ''app_launcher'' then Some (svs_app_launcher services)
      else if service = ''config'' then Some (svs_config services)
      else None)"

definition set_service :: "string \<Rightarrow> ServiceSettings \<Rightarrow> ServicesConfig \<Rightarrow> ServicesConfig option" where
  "set_service service settings services =
     (if service = ''filesystem'' then Some (services\<lparr>svs_filesystem := settings\<rparr>)
      else if service = ''sync'' then Some (services\<lparr>svs_sync := settings\<rparr>)
      else if service = ''photo_backup'' then Some (services\<lparr>svs_photo_backup := settings\<rparr>)
      else if service = ''shell'' then Some (services\<lparr>svs_shell := settings\<rparr>)
      else if service = ''media_control'' then Some (services\<lparr>svs_media_control := settings\<rparr>)
      else if service = ''phone_fs'' then Some (services\<lparr>svs_phone_fs := settings\<rparr>)
      else if service = ''proximity'' then Some (services\<lparr>svs_proximity := settings\<rparr>)
      else if service = ''file_stream'' then Some (services\<lparr>svs_file_stream := settings\<rparr>)
      else if service = ''app_launcher'' then Some (services\<lparr>svs_app_launcher := settings\<rparr>)
      else if service = ''config'' then Some (services\<lparr>svs_config := settings\<rparr>)
      else None)"

definition update_service_settings ::
  "config_crates \<Rightarrow> string \<Rightarrow> ServiceSettings \<Rightarrow> ConfigManager \<Rightarrow> disk \<Rightarrow> unit result \<times> ConfigManager \<times> disk" where
  "update_service_settings cr service settings m d =
     (case set_service service settings (ac_services (cm_config m)) of
        None \<Rightarrow> (Inl (Err (Config (''Unknown service: '' @ service))), m, d)
      | Some services \<Rightarrow> update_and_save cr (\<lambda>c. c\<lparr>ac_services := services\<rparr>) m d)"

subsection \<open>A saved configuration reads back\<close>

named_theorems cfg_roundtrip "a section that is written reads back"

lemma fields_simps [simp]:
  "field rd name ((n, v) # kvs) = (if n = name then rd v else field rd name kvs)"
  "opt_field rd name ((n, v) # kvs) = (if n = name then bindE (rd v) (\<lambda>a. Inr (Some a)) else opt_field rd name kvs)"
  "opt_field rd name [] = Inr None"
  "default_field df rd name ((n, v) # kvs) = (if n = name then rd v else default_field df rd name kvs)"
  "default_field df rd name [] = Inr df"
  by (simp_all add: field_def opt_field_def default_field_def)

lemma fields_opt_out [simp]:
  "field rd name (opt_out n v @ kvs) = (if n = name \<and> v \<noteq> None then rd (CString (the v)) else field rd name kvs)"
  "opt_field rd name (opt_out n v @ kvs) =
     (if n = name \<and> v \<noteq> None then bindE (rd (CString (the v))) (\<lambda>a. Inr (Some a)) else opt_field rd name kvs)"
  "field rd name (opt_out n v) = (if n = name \<and> v \<noteq> None then rd (CString (the v)) else field rd name [])"
  "opt_field rd name (opt_out n v) =
     (if n = name \<and> v \<noteq> None then bindE (rd (CString (the v))) (\<lambda>a. Inr (Some a)) else Inr None)"
  by (cases v; simp add: opt_out_def)+

lemma as_simps [simp]: "as_table (CTable kvs) = Inr kvs" "as_array (CArray vs) = Inr vs"
  by (simp_all add: as_table_def as_array_def)

lemma u64_out_iff: "u64_out n = Inr v \<longleftrightarrow> v = CInt (uint n) \<and> unat n < 2 ^ 63"
  by (auto simp: u64_out_def)

lemma the_default: "v \<noteq> None \<Longrightarrow> Some (the v) = v"
  by simp

text \<open>The laws of the crates as rewrite rules.\<close>

lemma crates_read:
  assumes "crates_ok cr"
  shows "cr_bool cr (CBool b) = Inr b" "cr_string cr (CString str) = Inr str"
    "cr_u32 cr (u32_out n32) = Inr n32" "cr_u64 cr (CInt (uint n64)) = Inr n64"
    "cr_json_in cr (CTable []) = Inr (JObject [])" "cr_json_out cr (JObject []) = Inr (CTable [])"
    "cr_b64_decode cr (cr_b64_encode cr bs) = Inr bs" "cr_build cr None = Inr (CTable [])"
  using assms by (simp_all add: crates_ok_def u32_out_def)

lemma BluetoothConfig_roundtrip [cfg_roundtrip]:
  "crates_ok cr \<Longrightarrow> BluetoothConfig_out c = Inr v \<Longrightarrow> BluetoothConfig_in cr v = Inr c"
  by (cases c; cases "btc_adapter_id c")
    (auto simp: BluetoothConfig_out_def BluetoothConfig_in_def crates_read bindE_Inr_iff u64_out_iff)

lemma DatabaseConfig_roundtrip [cfg_roundtrip]:
  "crates_ok cr \<Longrightarrow> DatabaseConfig_out c = Inr v \<Longrightarrow> DatabaseConfig_in cr v = Inr c"
  by (cases c; cases "dbc_backup_dir c")
    (auto simp: DatabaseConfig_out_def DatabaseConfig_in_def crates_read)

lemma LoggingConfig_roundtrip [cfg_roundtrip]:
  "crates_ok cr \<Longrightarrow> LoggingConfig_out c = Inr v \<Longrightarrow> LoggingConfig_in cr v = Inr c"
  by (cases c; cases "lgc_file_path c")
    (auto simp: LoggingConfig_out_def LoggingConfig_in_def crates_read bindE_Inr_iff u64_out_iff)

lemma SecurityConfig_roundtrip [cfg_roundtrip]:
  "crates_ok cr \<Longrightarrow> SecurityConfig_out c = Inr v \<Longrightarrow> SecurityConfig_in cr v = Inr c"
  by (cases c; cases "scc_psk c")
    (auto simp: SecurityConfig_out_def SecurityConfig_in_def crates_read bindE_Inr_iff u64_out_iff)

lemma ServiceSettings_out_plain:
  "crates_ok cr \<Longrightarrow> stg_settings c = JObject [] \<Longrightarrow>
     ServiceSettings_out cr c = Inr (CTable [(''enabled'', CBool (stg_enabled c)), (''settings'', CTable [])])"
  by (simp add: ServiceSettings_out_def crates_read)

lemma ServiceSettings_in_plain:
  "crates_ok cr \<Longrightarrow> ServiceSettings_in cr (CTable [(''enabled'', CBool b), (''settings'', CTable [])]) =
     Inr \<lparr>stg_enabled = b, stg_settings = JObject []\<rparr>"
  by (simp add: ServiceSettings_in_def crates_read)

lemma ServiceSettings_eqI: "stg_settings c = JObject [] \<Longrightarrow> \<lparr>stg_enabled = stg_enabled c, stg_settings = JObject []\<rparr> = c"
  by simp

lemma ServicesConfig_roundtrip [cfg_roundtrip]:
  assumes "crates_ok cr" "plain_settings c" "ServicesConfig_out cr (ac_services c) = Inr v"
  shows "ServicesConfig_in cr v = Inr (ac_services c)"
  using assms(2,3)
  by (auto simp: ServicesConfig_out_def ServicesConfig_in_def plain_settings_def Let_def
      ServiceSettings_out_plain [OF assms(1)] ServiceSettings_in_plain [OF assms(1)] ServiceSettings_eqI)

lemma TrustedDevice_roundtrip [cfg_roundtrip]:
  "crates_ok cr \<Longrightarrow> TrustedDevice_out c = Inr v \<Longrightarrow> TrustedDevice_in cr v = Inr c"
  by (cases c; cases "td_psk c")
    (auto simp: TrustedDevice_out_def TrustedDevice_in_def crates_read)

lemma mapE_roundtrip:
  "(\<And>x v. f x = Inr v \<Longrightarrow> g v = Inr x) \<Longrightarrow> mapE f xs = Inr vs \<Longrightarrow> mapE g vs = Inr xs"
proof (induction xs arbitrary: vs)
  case Nil
  then show ?case by simp
next
  case (Cons x xs)
  then show ?case
    by (auto simp: bindE_Inr_iff)
qed

lemma DeviceConfig_roundtrip [cfg_roundtrip]:
  assumes "crates_ok cr" "DeviceConfig_out c = Inr v"
  shows "DeviceConfig_in cr v = Inr c"
proof -
  obtain vs where vs: "mapE TrustedDevice_out (dvc_trusted_devices c) = Inr vs"
    "v = CTable (opt_out ''device_id'' (dvc_device_id c) @ [(''trusted_devices'', CArray vs)])"
    using assms(2) by (auto simp: DeviceConfig_out_def bindE_Inr_iff)
  have "mapE (TrustedDevice_in cr) vs = Inr (dvc_trusted_devices c)"
    using mapE_roundtrip [OF TrustedDevice_roundtrip [OF assms(1)] vs(1)] .
  then show ?thesis
    using assms(1) by (cases "dvc_device_id c") (auto simp: vs(2) DeviceConfig_in_def crates_read)
qed

lemma AppConfig_roundtrip:
  assumes "crates_ok cr" "plain_settings c" "AppConfig_out cr c = Inr v"
  shows "AppConfig_in cr v = Inr c"
  using assms
  by (auto simp: AppConfig_out_def AppConfig_in_def bindE_Inr_iff cfg_roundtrip)

lemma save_reads_back:
  assumes "crates_ok cr" "plain_settings (cm_config m)" "save cr m d = (Inr (), d')"
  shows "hm_contains (dk_files d') (cm_config_path m)"
    "read_config cr (hm_get (dk_files d') (cm_config_path m)) = Inr (cm_config m)"
    "dk_mkdir_error d' = dk_mkdir_error d" "dk_write_error d' = None"
proof -
  obtain v t where v: "AppConfig_out cr (cm_config m) = Inr v" "cr_print cr v = Inr t"
    and d': "dk_write_error d = None" "d' = d\<lparr>dk_files := hm_insert (cm_config_path m) t (dk_files d)\<rparr>"
    using assms(3)
    by (auto simp: save_def write_file_def config_err_def bindE_Inr_iff
        split: sum.splits option.splits prod.splits)
  have "cr_build cr (Some t) = Inr v"
    using assms(1,2) v by (auto simp: crates_ok_def)
  then show "read_config cr (hm_get (dk_files d') (cm_config_path m)) = Inr (cm_config m)"
    using AppConfig_roundtrip [OF assms(1,2) v(1)] by (simp add: d' read_config_def)
  show "hm_contains (dk_files d') (cm_config_path m)" "dk_mkdir_error d' = dk_mkdir_error d"
    "dk_write_error d' = None"
    using d' by simp_all
qed

subsection \<open>Trusted devices as a store\<close>

definition trusted_ok :: "ConfigManager \<Rightarrow> bool" where
  "trusted_ok m \<longleftrightarrow> distinct (map td_device_id (get_trusted_devices m))"

definition trusted_put :: "TrustedDevice \<Rightarrow> ConfigManager \<Rightarrow> bool \<times> ConfigManager" where
  "trusted_put device m =
     (True, update_config (on_devices (\<lambda>ds. retain_others (td_device_id device) ds @ [device])) m)"

definition trusted_del :: "string \<Rightarrow> ConfigManager \<Rightarrow> ConfigManager" where
  "trusted_del device_id m = update_config (on_devices (retain_others device_id)) m"

lemma trusted_devices_simps [simp]:
  "get_trusted_devices (update_config (on_devices f) m) = f (get_trusted_devices m)"
  by (simp add: get_trusted_devices_def update_config_def on_devices_def)

lemma find_retain_others:
  "find (\<lambda>d. td_device_id d = k') (retain_others k ds) =
     (if k' = k then None else find (\<lambda>d. td_device_id d = k') ds)"
  by (induction ds) (auto simp: retain_others_def)

lemma distinct_retain_others: "distinct (map td_device_id ds) \<Longrightarrow> distinct (map td_device_id (retain_others k ds))"
  by (simp add: retain_others_def distinct_map_filter)

lemma retain_others_gone: "k \<notin> td_device_id ` set (retain_others k ds)"
  by (auto simp: retain_others_def)

interpretation trusted: upsert_delete_store get_trusted_device trusted_put td_device_id "\<lambda>_ v. v"
    "\<lambda>_ _. True" trusted_ok trusted_del "\<lambda>_. True"
proof unfold_locales
  show "fst (trusted_put v m) \<and> trusted_ok (snd (trusted_put v m)) \<and>
      get_trusted_device (snd (trusted_put v m)) k = (if k = td_device_id v then Some v else get_trusted_device m k)"
    if "trusted_ok m" for m v k
    using that distinct_retain_others [of "get_trusted_devices m" "td_device_id v"]
      retain_others_gone [of "td_device_id v" "get_trusted_devices m"]
    by (simp add: trusted_put_def trusted_ok_def get_trusted_device_def find_append find_retain_others
        split: option.splits)
  show "get_trusted_device (trusted_del k m) k' =
      (if k' = k \<and> (\<forall>e. get_trusted_device m k = Some e \<longrightarrow> True) then None else get_trusted_device m k')"
    if "trusted_ok m" for m k k'
    by (simp add: trusted_del_def get_trusted_device_def find_retain_others)
  show "trusted_ok (trusted_del k m)" if "trusted_ok m" for m k
    using that by (simp add: trusted_del_def trusted_ok_def distinct_retain_others)
qed simp

lemma find_update_first:
  "(\<And>x. key (f x) = key x) \<Longrightarrow>
     find (\<lambda>x. key x = k') (update_first (\<lambda>x. key x = k) f xs) =
     (if k' = k then map_option f (find (\<lambda>x. key x = k) xs) else find (\<lambda>x. key x = k') xs)"
  by (induction xs) auto

lemma map_update_first: "(\<And>x. key (f x) = key x) \<Longrightarrow> map key (update_first P f xs) = map key xs"
  by (induction xs) simp_all

lemma update_and_save_config:
  "update_and_save cr f m d = (r, m', d') \<Longrightarrow> m' = update_config f m \<and> save cr (update_config f m) d = (r, d')"
  by (auto simp: update_and_save_def Let_def split: prod.splits)

lemma device_changes:
  "add_trusted_device cr device m d = (r, m', d') \<Longrightarrow> m' = snd (trusted_put device m)"
  "remove_trusted_device cr k m d = (r, m', d') \<Longrightarrow> m' = trusted_del k m"
  by (auto simp: add_trusted_device_def remove_trusted_device_def trusted_put_def trusted_del_def
      dest: update_and_save_config)

subsection \<open>Properties of the configuration\<close>

lemma load_existing:
  assumes "\<forall>p. dk_mkdir_error d p = None" "hm_contains (dk_files d) path"
    and "read_config cr (hm_get (dk_files d) path) = Inr c"
  shows "load_from_path cr path d = (Inr \<lparr>cm_config = c, cm_config_path = path\<rparr>, d)"
  using assms by (auto simp: load_from_path_def config_err_def Let_def split: option.splits)

lemma saved_then_loaded:
  assumes "crates_ok cr" "plain_settings (cm_config m)" "\<forall>p. dk_mkdir_error d p = None"
    and "save cr m d = (Inr (), d')"
  shows "load_from_path cr (cm_config_path m) d' = (Inr m, d')"
  using load_existing [of d' "cm_config_path m" cr "cm_config m"] save_reads_back [OF assms(1,2,4)] assms(3)
  by simp

text \<open>
  C10. Changes of the configuration are durable: when one of the changing operations reports success,
  starting again from the same file gives exactly the configuration that is in memory; the first
  start, without a file, gives the defaults and writes them, so that the second start gives the same.
  When the file cannot be written, the error is reported but the change stays in memory.
\<close>

theorem config_update_durable:
  assumes "crates_ok cr" "\<forall>p. dk_mkdir_error d p = None"
    and "update_and_save cr f m d = (r, m', d')" "plain_settings (f (cm_config m))"
  shows "cm_config m' = f (cm_config m) \<and> cm_config_path m' = cm_config_path m \<and>
    (r = Inr () \<longrightarrow> load_from_path cr (cm_config_path m) d' = (Inr m', d')) \<and>
    (dk_write_error d \<noteq> None \<longrightarrow> (\<exists>e. r = Inl (Err (Config e)))) \<and>
    (hm_get (dk_files d) path = None \<longrightarrow> load_from_path cr path d = (Inr m1, d1) \<longrightarrow>
       cm_config m1 = AppConfig_default \<and> load_from_path cr path d1 = (Inr m1, d1))"
proof -
  have m': "m' = update_config f m" "save cr m' d = (r, d')"
    using update_and_save_config [OF assms(3)] by simp_all
  then have plain: "plain_settings (cm_config m')" "cm_config_path m' = cm_config_path m"
    using assms(4) by (simp_all add: update_config_def)
  have "load_from_path cr (cm_config_path m) d' = (Inr m', d')" if "r = Inr ()"
    using saved_then_loaded [OF assms(1) plain(1) assms(2)] m'(2) plain(2) that by simp
  moreover have "\<exists>e. r = Inl (Err (Config e))" if "dk_write_error d \<noteq> None"
    using m'(2) that
    by (auto simp: save_def config_err_def write_file_def split: sum.splits option.splits prod.splits)
  moreover have "cm_config m1 = AppConfig_default \<and> load_from_path cr path d1 = (Inr m1, d1)"
    if none: "hm_get (dk_files d) path = None" and l: "load_from_path cr path d = (Inr m1, d1)"
  proof -
    have "read_config cr None = Inr AppConfig_default"
      using assms(1) by (simp add: read_config_def crates_read AppConfig_in_def AppConfig_default_def)
    then have m1: "m1 = \<lparr>cm_config = AppConfig_default, cm_config_path = path\<rparr>" "save cr m1 d = (Inr (), d1)"
      using l none assms(2)
      by (auto simp: load_from_path_def config_err_def Let_def split: option.splits sum.splits prod.splits)
    have "plain_settings (cm_config m1)"
      by (simp add: m1(1) plain_settings_def AppConfig_default_def ServicesConfig_default_def Let_def)
    then show ?thesis
      using saved_then_loaded [OF assms(1) _ assms(2) m1(2)] m1(1) by simp
  qed
  ultimately show ?thesis
    using m'(1) plain(2) by (simp add: update_config_def)
qed

text \<open>
  Crates to evaluate the definitions with: the text of a configuration that is the default one up to
  the device identifier is that identifier, other configurations have none.
\<close>

definition sample_values :: config_crates where
  "sample_values =
     \<lparr>cr_print = \<lambda>v. Inl ''unsupported'', cr_build = \<lambda>t. Inr (CTable []),
      cr_bool = \<lambda>v. (case v of CBool b \<Rightarrow> Inr b | _ \<Rightarrow> Inl ''not a boolean''),
      cr_string = \<lambda>v. (case v of CString s \<Rightarrow> Inr s | _ \<Rightarrow> Inl ''not a string''),
      cr_u32 = \<lambda>v. (case v of CInt i \<Rightarrow> Inr (word_of_int i) | _ \<Rightarrow> Inl ''not an integer''),
      cr_u64 = \<lambda>v. (case v of CInt i \<Rightarrow> Inr (word_of_int i) | _ \<Rightarrow> Inl ''not an integer''),
      cr_json_in = \<lambda>v. (case v of CTable [] \<Rightarrow> Inr (JObject []) | _ \<Rightarrow> Inl ''unsupported''),
      cr_json_out = \<lambda>j. (case j of JObject [] \<Rightarrow> Inr (CTable []) | _ \<Rightarrow> Inl ''unsupported''),
      cr_b64_encode = \<lambda>bs. map (\<lambda>b. char_of (unat b)) bs,
      cr_b64_decode = \<lambda>s. Inr (map (\<lambda>ch. of_char ch) s)\<rparr>"

definition sample_tree :: "string option \<Rightarrow> cfg_value" where
  "sample_tree device_id =
     (case AppConfig_out sample_values
        (AppConfig_default\<lparr>ac_device := \<lparr>dvc_device_id = device_id, dvc_trusted_devices = []\<rparr>\<rparr>) of
        Inr v \<Rightarrow> v | Inl _ \<Rightarrow> CTable [])"

definition sample_crates :: config_crates where
  "sample_crates = sample_values
     \<lparr>cr_print := \<lambda>v.
        (case v of CTable kvs \<Rightarrow>
          (case map_of kvs ''device'' of Some (CTable ds) \<Rightarrow>
            (case map_of ds ''device_id'' of
               Some (CString s) \<Rightarrow> if v = sample_tree (Some s) then Inr (CHR ''+'' # s) else Inl ''unsupported''
             | _ \<Rightarrow> if v = sample_tree None then Inr ''-'' else Inl ''unsupported'')
           | _ \<Rightarrow> Inl ''unsupported'')
         | _ \<Rightarrow> Inl ''unsupported''),
      cr_build := \<lambda>t.
        (case t of None \<Rightarrow> Inr (CTable [])
         | Some text \<Rightarrow> Inr (sample_tree (if text = ''-'' then None else Some (tl text))))\<rparr>"

lemma sample_print:
  "cr_print sample_crates v = Inr t \<Longrightarrow> cr_build sample_crates (Some t) = Inr v"
  by (auto simp: sample_crates_def split: cfg_value.splits option.splits if_splits)

lemma sample_bytes: "map (\<lambda>ch. of_char ch) (map (\<lambda>b. char_of (unat b)) bs) = (bs :: bytes)"
proof (induction bs)
  case Nil
  then show ?case by simp
next
  case (Cons b bs)
  have "unat b mod 256 = unat b"
    using unat_le_max [of b] by simp
  then have "of_char (char_of (unat b)) = (of_nat (unat b) :: byte)"
    by (metis of_char_of of_nat_of_char)
  then show ?case
    using Cons by simp
qed

lemma sample_crates_ok: "crates_ok sample_crates"
proof -
  have "cr_json_out sample_crates = cr_json_out sample_values"
    by (simp add: sample_crates_def)
  then show ?thesis
    unfolding crates_ok_def
    using sample_print sample_bytes
    by (auto simp: sample_crates_def sample_values_def comp_def)
qed

definition empty_disk :: disk where
  "empty_disk = \<lparr>dk_files = [], dk_mkdir_error = \<lambda>_. None, dk_write_error = None\<rparr>"

text \<open>The default configuration on an empty disk, with the operation that stores a new device identifier.\<close>

definition sample_manager :: ConfigManager where
  "sample_manager = \<lparr>cm_config = AppConfig_default, cm_config_path = ''/c/config.toml''\<rparr>"

lemma sample_manager_plain: "plain_settings (cm_config sample_manager)"
  "plain_settings (set_device_id s (cm_config sample_manager))"
  by (simp_all add: sample_manager_def plain_settings_def set_device_id_def AppConfig_default_def
      ServicesConfig_default_def Let_def)

lemma sample_sections:
  obtains b dc l se ss where
    "\<And>od. AppConfig_out sample_values
        (AppConfig_default\<lparr>ac_device := \<lparr>dvc_device_id = od, dvc_trusted_devices = []\<rparr>\<rparr>) =
      Inr (CTable [(''bluetooth'', b), (''database'', dc), (''logging'', l), (''security'', se), (''services'', ss),
        (''device'', CTable (opt_out ''device_id'' od @ [(''trusted_devices'', CArray [])]))])"
proof -
  have b: "\<exists>v. BluetoothConfig_out BluetoothConfig_default = Inr v"
    by (simp add: BluetoothConfig_out_def BluetoothConfig_default_def u64_out_def)
  have dc: "\<exists>v. DatabaseConfig_out DatabaseConfig_default = Inr v"
    by (simp add: DatabaseConfig_out_def)
  have l: "\<exists>v. LoggingConfig_out LoggingConfig_default = Inr v"
    by (simp add: LoggingConfig_out_def LoggingConfig_default_def u64_out_def)
  have se: "\<exists>v. SecurityConfig_out SecurityConfig_default = Inr v"
    by (simp add: SecurityConfig_out_def SecurityConfig_default_def u64_out_def)
  have "cr_json_out sample_values (JObject []) = Inr (CTable [])"
    by (simp add: sample_values_def)
  then have ss: "\<exists>v. ServicesConfig_out sample_values ServicesConfig_default = Inr v"
    by (simp add: ServicesConfig_out_def ServicesConfig_default_def ServiceSettings_out_def)
  show thesis
    using b dc l se ss by (elim exE) (rule that, simp add: AppConfig_out_def AppConfig_default_def DeviceConfig_out_def)
qed

lemma sample_save:
  "save sample_crates (update_config (set_device_id s) sample_manager) empty_disk =
     (Inr (), empty_disk\<lparr>dk_files := [(''/c/config.toml'', CHR ''+'' # s)]\<rparr>)"
proof -
  let ?c = "set_device_id s AppConfig_default"
  have out: "AppConfig_out sample_crates ?c = AppConfig_out sample_values ?c"
    by (simp add: AppConfig_out_def ServicesConfig_out_def ServiceSettings_out_def sample_crates_def)
  have c: "?c = AppConfig_default\<lparr>ac_device := \<lparr>dvc_device_id = Some s, dvc_trusted_devices = []\<rparr>\<rparr>"
    by (simp add: set_device_id_def AppConfig_default_def DeviceConfig_default_def)
  obtain kvs where tree: "AppConfig_out sample_values ?c = Inr (CTable kvs)" "sample_tree (Some s) = CTable kvs"
    and dev: "map_of kvs ''device'' =
      Some (CTable (opt_out ''device_id'' (Some s) @ [(''trusted_devices'', CArray [])]))"
    unfolding c sample_tree_def by (rule sample_sections) auto
  have "cr_print sample_crates (CTable kvs) = Inr (CHR ''+'' # s)"
    using dev tree(2) by (simp add: sample_crates_def opt_out_def)
  then show ?thesis
    using out tree
    by (simp add: save_def sample_manager_def update_config_def config_err_def write_file_def empty_disk_def
        hm_insert_def)
qed

theorem config_update_durable_witness:
  "\<exists>m' d'. update_and_save sample_crates (set_device_id ''x'') sample_manager empty_disk = (Inr (), m', d') \<and>
    dvc_device_id (ac_device (cm_config m')) = Some ''x'' \<and>
    load_from_path sample_crates ''/c/config.toml'' d' = (Inr m', d')"
proof -
  have call: "update_and_save sample_crates (set_device_id ''x'') sample_manager empty_disk =
      (Inr (), update_config (set_device_id ''x'') sample_manager,
       empty_disk\<lparr>dk_files := [(''/c/config.toml'', ''+x'')]\<rparr>)"
    using sample_save [of "''x''"] by (simp add: update_and_save_def Let_def)
  have disk: "\<forall>p. dk_mkdir_error empty_disk p = None"
    by (simp add: empty_disk_def)
  have plain: "plain_settings (set_device_id ''x'' (cm_config sample_manager))"
    by (rule sample_manager_plain)
  note D = config_update_durable [OF sample_crates_ok disk call plain]
  have "load_from_path sample_crates (cm_config_path sample_manager)
        (empty_disk\<lparr>dk_files := [(''/c/config.toml'', ''+x'')]\<rparr>) =
      (Inr (update_config (set_device_id ''x'') sample_manager), empty_disk\<lparr>dk_files := [(''/c/config.toml'', ''+x'')]\<rparr>)"
    using D by blast
  moreover have "cm_config_path sample_manager = ''/c/config.toml''"
    by (simp add: sample_manager_def)
  moreover have "dvc_device_id (ac_device (cm_config (update_config (set_device_id ''x'') sample_manager))) = Some ''x''"
    by (simp add: update_config_def set_device_id_def)
  ultimately show ?thesis
    using call by metis
qed

lemma device_id_kept:
  assumes "crates_ok cr" "plain_settings (cm_config m)" "\<forall>p. dk_mkdir_error d p = None"
    and "length fresh = 16" "get_or_create_device_id cr fresh m d = (Inr did, m', d')"
  shows "length (did_value did) = 16 \<and>
    get_or_create_device_id cr fresh' m' d'' = (Inr did, m', d'') \<and>
    (m' = m \<and> d' = d \<or> did_value did = fresh \<and> load_from_path cr (cm_config_path m) d' = (Inr m', d'))"
proof (cases "m' = m \<and> d' = d \<and> (\<exists>s. dvc_device_id (ac_device (cm_config m)) = Some s \<and>
    cr_b64_decode cr s = Inr (did_value did) \<and> length (did_value did) = 16)")
  case True
  then show ?thesis
    by (auto simp: get_or_create_device_id_def Let_def)
next
  case False
  let ?f = "set_device_id (cr_b64_encode cr fresh)"
  have "update_and_save cr ?f m d = (Inr (), m', d') \<and> did = \<lparr>did_value = fresh\<rparr>"
    using assms(5) False
    by (auto simp: get_or_create_device_id_def Let_def split: option.splits sum.splits if_splits prod.splits)
  then have made: "did = \<lparr>did_value = fresh\<rparr>" "m' = update_config ?f m" "save cr m' d = (Inr (), d')"
    by (auto dest: update_and_save_config)
  have "plain_settings (cm_config m')" "cm_config_path m' = cm_config_path m"
    using assms(2) by (simp_all add: made(2) update_config_def set_device_id_def plain_settings_def)
  then have "load_from_path cr (cm_config_path m) d' = (Inr m', d')"
    using saved_then_loaded [OF assms(1) _ assms(3) made(3)] by simp
  moreover have "get_or_create_device_id cr fresh' m' d'' = (Inr did, m', d'')"
    using assms(1,4)
    by (simp add: made(1,2) get_or_create_device_id_def update_config_def set_device_id_def crates_read Let_def)
  ultimately show ?thesis
    using assms(4) made(1) by simp
qed

text \<open>
  C35. The device identifier is stable: whenever the manager answers with an identifier, it has 16
  bytes, every later call gives the same one without changing anything, whatever the random
  generator gives, and an identifier that was made new is also what a restart from the file gives.
\<close>

theorem device_id_stable:
  assumes "crates_ok cr" "plain_settings (cm_config m)" "\<forall>p. dk_mkdir_error d p = None"
    and "length fresh = 16" "get_or_create_device_id cr fresh m d = (Inr did, m', d')"
  shows "length (did_value did) = 16 \<and>
    get_or_create_device_id cr fresh' m' d'' = (Inr did, m', d'') \<and>
    (m' = m \<and> d' = d \<or> did_value did = fresh \<and> load_from_path cr (cm_config_path m) d' = (Inr m', d'))"
  by (rule device_id_kept [OF assms])

theorem device_id_stable_witness:
  "\<exists>m' d'. get_or_create_device_id sample_crates (replicate 16 7) sample_manager empty_disk =
      (Inr \<lparr>did_value = replicate 16 7\<rparr>, m', d') \<and>
    get_or_create_device_id sample_crates [] m' empty_disk = (Inr \<lparr>did_value = replicate 16 7\<rparr>, m', empty_disk)"
proof -
  let ?s = "cr_b64_encode sample_crates (replicate 16 7)"
  let ?m = "update_config (set_device_id ?s) sample_manager"
  let ?d = "empty_disk\<lparr>dk_files := [(''/c/config.toml'', CHR ''+'' # ?s)]\<rparr>"
  have "dvc_device_id (ac_device (cm_config sample_manager)) = None"
    by (simp add: sample_manager_def AppConfig_default_def DeviceConfig_default_def)
  then have call: "get_or_create_device_id sample_crates (replicate 16 7) sample_manager empty_disk =
      (Inr \<lparr>did_value = replicate 16 7\<rparr>, ?m, ?d)"
    by (simp add: get_or_create_device_id_def update_and_save_def sample_save Let_def)
  have "\<forall>p. dk_mkdir_error empty_disk p = None"
    by (simp add: empty_disk_def)
  from device_id_stable [OF sample_crates_ok sample_manager_plain(1) this _ call, of "[]" empty_disk]
  show ?thesis
    using call by auto
qed

text \<open>The fields that the deserialiser demands of a section that is present.\<close>

definition mandatory_fields :: "(string \<times> string list) list" where
  "mandatory_fields =
     [(''bluetooth'', [''service_uuid'', ''device_name'', ''auto_connect'', ''reconnect_interval_sec'',
        ''max_reconnect_attempts'']),
      (''database'', [''path'', ''max_connections'', ''backup_enabled'', ''backup_interval_hours'']),
      (''logging'', [''level'', ''format'', ''output'', ''max_file_size_mb'', ''max_files'']),
      (''security'', [''require_authentication'', ''session_timeout_sec'', ''max_failed_attempts'',
        ''lockout_duration_sec'']),
      (''services'', [''filesystem'', ''sync'', ''photo_backup'', ''shell'', ''media_control'', ''phone_fs'',
        ''proximity'', ''file_stream'', ''app_launcher'', ''config'']),
      (''device'', [''trusted_devices''])]"

lemma field_Inr: "field rd name kvs = Inr a \<Longrightarrow> map_of kvs name \<noteq> None"
  by (auto simp: field_def split: option.splits)

lemma default_field_Inr:
  "default_field df rd name kvs = Inr a \<longleftrightarrow>
     (case map_of kvs name of None \<Rightarrow> a = df | Some v \<Rightarrow> rd v = Inr a)"
  by (auto simp: default_field_def split: option.splits)

lemma sections_complete:
  "BluetoothConfig_in cr (CTable fs) = Inr b \<Longrightarrow> x \<in> set (the (map_of mandatory_fields ''bluetooth'')) \<Longrightarrow> map_of fs x \<noteq> None"
  "DatabaseConfig_in cr (CTable fs) = Inr dc \<Longrightarrow> x \<in> set (the (map_of mandatory_fields ''database'')) \<Longrightarrow> map_of fs x \<noteq> None"
  "LoggingConfig_in cr (CTable fs) = Inr l \<Longrightarrow> x \<in> set (the (map_of mandatory_fields ''logging'')) \<Longrightarrow> map_of fs x \<noteq> None"
  "SecurityConfig_in cr (CTable fs) = Inr se \<Longrightarrow> x \<in> set (the (map_of mandatory_fields ''security'')) \<Longrightarrow> map_of fs x \<noteq> None"
  "ServicesConfig_in cr (CTable fs) = Inr ss \<Longrightarrow> x \<in> set (the (map_of mandatory_fields ''services'')) \<Longrightarrow> map_of fs x \<noteq> None"
  "DeviceConfig_in cr (CTable fs) = Inr dv \<Longrightarrow> x \<in> set (the (map_of mandatory_fields ''device'')) \<Longrightarrow> map_of fs x \<noteq> None"
  by (auto simp: mandatory_fields_def BluetoothConfig_in_def DatabaseConfig_in_def LoggingConfig_in_def
      SecurityConfig_in_def ServicesConfig_in_def DeviceConfig_in_def bindE_Inr_iff dest: field_Inr)

lemma mandatory_lookup: "(section, names) \<in> set mandatory_fields \<Longrightarrow> map_of mandatory_fields section = Some names"
  by (auto simp: mandatory_fields_def)

lemma mandatory_sections:
  "(section, names) \<in> set mandatory_fields \<Longrightarrow>
     section \<in> {''bluetooth'', ''database'', ''logging'', ''security'', ''services'', ''device''}"
  by (auto simp: mandatory_fields_def)

lemma AppConfig_in_table:
  "AppConfig_in cr (CTable kvs) = Inr c \<longleftrightarrow>
     default_field BluetoothConfig_default (BluetoothConfig_in cr) ''bluetooth'' kvs = Inr (ac_bluetooth c) \<and>
     default_field DatabaseConfig_default (DatabaseConfig_in cr) ''database'' kvs = Inr (ac_database c) \<and>
     default_field LoggingConfig_default (LoggingConfig_in cr) ''logging'' kvs = Inr (ac_logging c) \<and>
     default_field SecurityConfig_default (SecurityConfig_in cr) ''security'' kvs = Inr (ac_security c) \<and>
     default_field ServicesConfig_default (ServicesConfig_in cr) ''services'' kvs = Inr (ac_services c) \<and>
     default_field DeviceConfig_default (DeviceConfig_in cr) ''device'' kvs = Inr (ac_device c)"
  by (cases c) (auto simp: AppConfig_in_def bindE_Inr_iff)

lemma incomplete_section_read:
  assumes "map_of kvs section = Some (CTable fs)" "(section, names) \<in> set mandatory_fields"
    and "x \<in> set names" "map_of fs x = None"
  shows "AppConfig_in cr (CTable kvs) \<noteq> Inr c"
  using mandatory_sections [OF assms(2)] mandatory_lookup [OF assms(2)] assms(1,3,4)
    sections_complete [of cr fs _ x]
  by (auto simp: AppConfig_in_table default_field_Inr)

text \<open>
  A configuration file need not be complete, but its sections must be: a section that the file
  leaves out is the default one, while a section that lacks one of its mandatory fields makes the
  whole file be refused with a configuration error, and the file is left as it was.
\<close>

theorem incomplete_section_refused:
  assumes "cr_build cr (hm_get (dk_files d) path) = Inr (CTable kvs)"
    and "map_of kvs section = Some (CTable fs)" "(section, names) \<in> set mandatory_fields"
    and "x \<in> set names" "map_of fs x = None" "cr_build cr (hm_get (dk_files d) path') = Inr (CTable kvs')"
  shows "(\<exists>e. load_from_path cr path d = (Inl (Err (Config e)), d)) \<and>
    (\<forall>m d'. load_from_path cr path' d = (Inr m, d') \<longrightarrow>
       (map_of kvs' ''bluetooth'' = None \<longrightarrow> ac_bluetooth (cm_config m) = BluetoothConfig_default) \<and>
       (map_of kvs' ''database'' = None \<longrightarrow> ac_database (cm_config m) = DatabaseConfig_default) \<and>
       (map_of kvs' ''logging'' = None \<longrightarrow> ac_logging (cm_config m) = LoggingConfig_default) \<and>
       (map_of kvs' ''security'' = None \<longrightarrow> ac_security (cm_config m) = SecurityConfig_default) \<and>
       (map_of kvs' ''services'' = None \<longrightarrow> ac_services (cm_config m) = ServicesConfig_default) \<and>
       (map_of kvs' ''device'' = None \<longrightarrow> ac_device (cm_config m) = DeviceConfig_default))"
proof -
  have "AppConfig_in cr (CTable kvs) \<noteq> Inr c" for c
    using incomplete_section_read [OF assms(2-5)] .
  then obtain e where "AppConfig_in cr (CTable kvs) = Inl e"
    by (cases "AppConfig_in cr (CTable kvs)") auto
  then have "\<exists>e. load_from_path cr path d = (Inl (Err (Config e)), d)"
    using assms(1) by (auto simp: load_from_path_def read_config_def config_err_def split: option.splits)
  moreover have "AppConfig_in cr (CTable kvs') = Inr (cm_config m)" if "load_from_path cr path' d = (Inr m, d')" for m d'
    using that assms(6)
    by (auto simp: load_from_path_def read_config_def config_err_def Let_def
        split: option.splits sum.splits if_splits prod.splits)
  ultimately show ?thesis
    by (auto simp: AppConfig_in_table default_field_Inr)
qed

text \<open>The Bluetooth section of the sample configuration in the README.\<close>

definition readme_bluetooth :: "(string \<times> cfg_value) list" where
  "readme_bluetooth =
     [(''adapter_id'', CString []), (''service_uuid'', CString ''B7E5E0F0-1A2B-4C3D-8E9F-A0B1C2D3E4F5''),
      (''device_name'', CString ''BPL Desktop''), (''auto_connect'', CBool True),
      (''reconnect_interval_sec'', CInt 30), (''keepalive_interval_sec'', CInt 30),
      (''max_frame_size'', CInt 16384), (''max_channels'', CInt 16)]"

theorem incomplete_section_refused_witness:
  "\<exists>e. load_from_path (sample_values\<lparr>cr_build := \<lambda>_. Inr (CTable [(''bluetooth'', CTable readme_bluetooth)])\<rparr>)
      ''/c/config.toml'' empty_disk = (Inl (Err (Config e)), empty_disk)"
  using incomplete_section_refused [of "sample_values\<lparr>cr_build := \<lambda>_. Inr (CTable [(''bluetooth'', CTable readme_bluetooth)])\<rparr>"
      empty_disk "''/c/config.toml''" "[(''bluetooth'', CTable readme_bluetooth)]" "''bluetooth''" readme_bluetooth
      "[''service_uuid'', ''device_name'', ''auto_connect'', ''reconnect_interval_sec'', ''max_reconnect_attempts'']"
      "''max_reconnect_attempts''" "''/c/config.toml''" "[(''bluetooth'', CTable readme_bluetooth)]"]
  by (simp add: mandatory_fields_def readme_bluetooth_def)

text \<open>
  C31. The trusted devices are a store of one entry per device: after any sequence of additions a device
  has the entry that was added for it last (or the one it had), removal removes exactly the named
  device, \<open>update_device_last_seen\<close> changes only when that device was last seen, and no device is
  ever listed twice.
\<close>

theorem trusted_devices_store:
  assumes "trusted_ok m" "remove_trusted_device cr k m d = (r, m1, d1)"
    and "update_device_last_seen cr now k m d = (r', m2, d2)"
  shows "get_trusted_device (fold (\<lambda>v m. fst (snd (add_trusted_device cr v m d))) vs m) j =
      (case rev (filter (\<lambda>v. td_device_id v = j) vs) of
         [] \<Rightarrow> get_trusted_device m j | v # _ \<Rightarrow> Some v) \<and>
    trusted_ok (fold (\<lambda>v m. fst (snd (add_trusted_device cr v m d))) vs m) \<and> trusted_ok m1 \<and> trusted_ok m2 \<and>
    get_trusted_device m1 j = (if j = k then None else get_trusted_device m j) \<and>
    get_trusted_device m2 j =
      (if j = k then map_option (\<lambda>v. v\<lparr>td_last_seen := now\<rparr>) (get_trusted_device m k)
       else get_trusted_device m j)"
proof -
  have m1: "m1 = trusted_del k m"
    using assms(2) by (rule device_changes)
  let ?f = "\<lambda>v. v\<lparr>td_last_seen := now\<rparr>"
  have m2: "m2 = update_config (on_devices (update_first (\<lambda>v. td_device_id v = k) ?f)) m"
    using assms(3) by (auto simp: update_device_last_seen_def dest: update_and_save_config)
  have "trusted_ok m2"
    using assms(1) by (simp add: m2 trusted_ok_def map_update_first)
  moreover have "fst (snd (add_trusted_device cr v m d)) = snd (trusted_put v m)" for v m
    using device_changes(1) [of cr v m d] by (metis prod_cases3 fst_conv snd_conv)
  then have "fold (\<lambda>v m. fst (snd (add_trusted_device cr v m d))) vs m = trusted.run vs m"
    by (simp add: trusted.run_fold)
  ultimately show ?thesis
    using trusted.last_write_wins [OF assms(1), of "\<lambda>v. v"] trusted.run_inv [OF assms(1)]
      trusted.del_lookup [OF assms(1)] trusted.del_inv [OF assms(1)] trusted.accepted_all [OF assms(1)]
    by (simp add: m1 m2 get_trusted_device_def find_update_first)
qed

definition sample_device :: "string \<Rightarrow> string \<Rightarrow> TrustedDevice" where
  "sample_device i n = \<lparr>td_device_id = i, td_name = n, td_paired_at = [], td_last_seen = [], td_trusted = True, td_psk = None\<rparr>"

theorem trusted_devices_store_witness:
  "get_trusted_device (fold (\<lambda>v m. fst (snd (add_trusted_device sample_crates v m empty_disk)))
      [sample_device ''a'' ''x'', sample_device ''b'' ''y'', sample_device ''a'' ''z'']
      ConfigManager_default) ''a'' = Some (sample_device ''a'' ''z'')"
proof -
  have ok: "trusted_ok ConfigManager_default"
    by (simp add: trusted_ok_def get_trusted_devices_def ConfigManager_default_def AppConfig_default_def
        DeviceConfig_default_def)
  obtain r m1 d1 r' m2 d2 where ops:
    "remove_trusted_device sample_crates ''a'' ConfigManager_default empty_disk = (r, m1, d1)"
    "update_device_last_seen sample_crates [] ''a'' ConfigManager_default empty_disk = (r', m2, d2)"
    by (metis prod_cases3)
  have ids: "td_device_id (sample_device i n) = i" for i n
    by (simp add: sample_device_def)
  note T = trusted_devices_store [OF ok ops, of "[sample_device ''a'' ''x'', sample_device ''b'' ''y'', sample_device ''a'' ''z'']" "''a''"]
  have "rev (filter (\<lambda>v. td_device_id v = ''a'') [sample_device ''a'' ''x'', sample_device ''b'' ''y'', sample_device ''a'' ''z'']) =
      [sample_device ''a'' ''z'', sample_device ''a'' ''x'']"
    by (simp add: ids)
  with T [THEN conjunct1] show ?thesis
    by (simp only: list.case)
qed

end
