(* ===== verification/Core_Services.thy ===== *)
theory Core_Services
  imports Service_Framework Core_Config
begin

text \<open>
  The service manager of the desktop core (\<^verbatim>\<open>core/src/service.rs\<close>). It takes a service out of its map
  while it calls it and puts it back behind the call; the theory shows what that means for the
  start-up, which waits for its own lock, for a call that fails and for calls that overlap. As in
  \<open>Service_Framework\<close>, a service is a state of type \<open>'st\<close> and the methods of its trait are a
  record. Shared handles (\<open>Arc\<close>) are addresses.
\<close>

type_synonym handle = nat

subsection \<open>Configuration, context, requests\<close>

record CoreServiceConfig =
  csc_service_id :: string
  csc_enabled :: bool
  csc_settings :: json

record ServiceContext =
  ctx_config :: handle
  ctx_database :: handle
  ctx_events :: handle
  ctx_device_id :: DeviceId
  ctx_session_id :: "SessionId option"
  ctx_channel_id :: "ChannelId option"
  ctx_negotiated_capabilities :: "NegotiatedCapability list"

definition ServiceContext_new :: "handle \<Rightarrow> handle \<Rightarrow> handle \<Rightarrow> DeviceId \<Rightarrow> ServiceContext" where
  "ServiceContext_new config database events device_id =
     \<lparr>ctx_config = config, ctx_database = database, ctx_events = events, ctx_device_id = device_id,
      ctx_session_id = None, ctx_channel_id = None, ctx_negotiated_capabilities = []\<rparr>"

definition with_session :: "SessionId \<Rightarrow> ServiceContext \<Rightarrow> ServiceContext" where
  "with_session session_id ctx = ctx\<lparr>ctx_session_id := Some session_id\<rparr>"

definition with_channel :: "ChannelId \<Rightarrow> ServiceContext \<Rightarrow> ServiceContext" where
  "with_channel channel_id ctx = ctx\<lparr>ctx_channel_id := Some channel_id\<rparr>"

definition with_capabilities :: "NegotiatedCapability list \<Rightarrow> ServiceContext \<Rightarrow> ServiceContext" where
  "with_capabilities capabilities ctx = ctx\<lparr>ctx_negotiated_capabilities := capabilities\<rparr>"

definition has_capability :: "ServiceContext \<Rightarrow> string \<Rightarrow> bool" where
  "has_capability ctx service_id =
     list_ex (\<lambda>c. nc_service_id c = service_id \<and> nc_available c) (ctx_negotiated_capabilities ctx)"

definition get_capability_version :: "ServiceContext \<Rightarrow> string \<Rightarrow> u32 option" where
  "get_capability_version ctx service_id =
     map_option nc_negotiated_version
       (find (\<lambda>c. nc_service_id c = service_id \<and> nc_available c) (ctx_negotiated_capabilities ctx))"

record CoreServiceRequest =
  crq_service_id :: string
  crq_channel_id :: u32
  crq_request_id :: u64
  crq_payload :: bytes
  crq_metadata :: "(string, string) hmap"

record CoreServiceResponse =
  crp_request_id :: u64
  crp_result :: i32
  crp_payload :: bytes
  crp_error_message :: string
  crp_metadata :: "(string, string) hmap"

definition response_success :: "u64 \<Rightarrow> bytes \<Rightarrow> CoreServiceResponse" where
  "response_success request_id payload =
     \<lparr>crp_request_id = request_id, crp_result = 0, crp_payload = payload, crp_error_message = [],
      crp_metadata = []\<rparr>"

definition response_error :: "u64 \<Rightarrow> i32 \<Rightarrow> string \<Rightarrow> CoreServiceResponse" where
  "response_error request_id code message =
     \<lparr>crp_request_id = request_id, crp_result = code, crp_payload = [], crp_error_message = message,
      crp_metadata = []\<rparr>"

record CoreServiceStatus =
  cst_service_id :: string
  cst_running :: bool
  cst_healthy :: bool
  cst_details :: string

datatype CoreServiceEvent =
    CSE_SessionOpened SessionId
  | CSE_SessionClosed SessionId
  | CSE_CapabilitiesNegotiated "NegotiatedCapability list"
  | CSE_ChannelOpened ChannelId
  | CSE_ChannelClosed ChannelId
  | CSE_PeerConfigChanged string
  | CSE_DeviceConnected DeviceId
  | CSE_DeviceDisconnected DeviceId

record 'st CoreService =
  cs_service_id :: "'st \<Rightarrow> string"
  cs_version :: "'st \<Rightarrow> u32"
  cs_name :: "'st \<Rightarrow> string"
  cs_description :: "'st \<Rightarrow> string"
  cs_required :: "'st \<Rightarrow> bool"
  cs_init :: "ServiceContext \<Rightarrow> 'st \<Rightarrow> unit result \<times> 'st"
  cs_start :: "'st \<Rightarrow> unit result \<times> 'st"
  cs_stop :: "'st \<Rightarrow> unit result \<times> 'st"
  cs_handle_request :: "CoreServiceRequest \<Rightarrow> 'st \<Rightarrow> CoreServiceResponse result \<times> 'st"
  cs_handle_event :: "CoreServiceEvent \<Rightarrow> 'st \<Rightarrow> unit result \<times> 'st"

definition core_default_required :: "'st \<Rightarrow> bool" where
  "core_default_required st = False"

definition core_default_capabilities :: "'st CoreService \<Rightarrow> 'st \<Rightarrow> ServiceCapability" where
  "core_default_capabilities sv st =
     \<lparr>cap_service_id = cs_service_id sv st, cap_version = cs_version sv st, cap_name = cs_name sv st,
      cap_description = cs_description sv st, cap_required = cs_required sv st, cap_metadata = [],
      cap_feature_flags = 0\<rparr>"

definition core_default_status :: "'st CoreService \<Rightarrow> 'st \<Rightarrow> CoreServiceStatus" where
  "core_default_status sv st =
     \<lparr>cst_service_id = cs_service_id sv st, cst_running = False, cst_healthy = True, cst_details = []\<rparr>"

subsection \<open>The manager\<close>

record 'st CoreServiceManager =
  csm_services :: "(string, 'st) hmap"
  csm_context :: "ServiceContext option"
  csm_events :: handle
  csm_running :: bool

definition CoreServiceManager_new :: "handle \<Rightarrow> 'st CoreServiceManager" where
  "CoreServiceManager_new events =
     \<lparr>csm_services = [], csm_context = None, csm_events = events, csm_running = False\<rparr>"

definition core_set_context :: "'st CoreServiceManager \<Rightarrow> ServiceContext \<Rightarrow> 'st CoreServiceManager" where
  "core_set_context m context = m\<lparr>csm_context := Some context\<rparr>"

definition core_register ::
  "'st CoreService \<Rightarrow> 'st CoreServiceManager \<Rightarrow> 'st \<Rightarrow> unit result \<times> 'st CoreServiceManager" where
  "core_register sv m service =
     (let service_id = cs_service_id sv service in
      if hm_contains (csm_services m) service_id
      then (Inl (Err (ServiceAlreadyRegistered service_id)), m)
      else (Inr (), m\<lparr>csm_services := hm_insert service_id service (csm_services m)\<rparr>))"

definition core_unregister :: "'st CoreServiceManager \<Rightarrow> string \<Rightarrow> unit result \<times> 'st CoreServiceManager" where
  "core_unregister m service_id =
     (let m' = m\<lparr>csm_services := hm_remove service_id (csm_services m)\<rparr> in
      if hm_get (csm_services m) service_id \<noteq> None then (Inr (), m')
      else (Inl (Err (ServiceNotRegistered service_id)), m'))"

definition core_get_service :: "'st CoreServiceManager \<Rightarrow> string \<Rightarrow> 'st option" where
  "core_get_service m service_id = None"

text \<open>
  Taking the write lock of the map: it waits for ever when the task itself still holds a guard of
  the lock (the lock of \<^verbatim>\<open>parking_lot\<close> is not re-entrant). \<open>None\<close> is not returning.
\<close>

definition write_lock :: "bool \<Rightarrow> (unit \<Rightarrow> 'a option) \<Rightarrow> 'a option" where
  "write_lock held k = (if held then None else k ())"

text \<open>
  The loop of \<open>init_all\<close> and \<open>start_all\<close> over the identifiers that were present at its start: take the
  service out, call it, put it back. The guard that \<^verbatim>\<open>self.services.write()\<close> makes in the condition of
  the \<^verbatim>\<open>if let\<close> lives to the end of its body (edition 2021), so the body runs with the lock held. The
  first error ends the loop, and then the service is not put back.
\<close>

primrec take_each ::
  "(string \<Rightarrow> protocol_error \<Rightarrow> protocol_error) \<Rightarrow> ('st \<Rightarrow> unit result \<times> 'st) \<Rightarrow> string list
     \<Rightarrow> (string, 'st) hmap \<Rightarrow> (unit result \<times> (string, 'st) hmap) option" where
  "take_each wrap f [] services = Some (Inr (), services)"
| "take_each wrap f (i # ids) services =
     (case hm_get services i of
        None \<Rightarrow> take_each wrap f ids services
      | Some service \<Rightarrow>
          (case f service of
             (Inl (Err e), _) \<Rightarrow> Some (Inl (Err (wrap i e)), hm_remove i services)
           | (Inl (Panic msg), _) \<Rightarrow> Some (Inl (Panic msg), hm_remove i services)
           | (Inr _, service') \<Rightarrow>
               write_lock True (\<lambda>_. take_each wrap f ids (hm_insert i service' (hm_remove i services)))))"

definition core_init_all ::
  "(protocol_error \<Rightarrow> string) \<Rightarrow> 'st CoreService \<Rightarrow> 'st CoreServiceManager
     \<Rightarrow> (unit result \<times> 'st CoreServiceManager) option" where
  "core_init_all display sv m =
     (case ok_or (Config ''Service context not set'') (csm_context m) of
        Inl e \<Rightarrow> Some (Inl e, m)
      | Inr context \<Rightarrow>
          map_option (\<lambda>(r, services). (r, m\<lparr>csm_services := services\<rparr>))
            (take_each (failed_to ''init'' display) (cs_init sv context)
               (hm_keys (csm_services m)) (csm_services m)))"

definition core_start_all ::
  "(protocol_error \<Rightarrow> string) \<Rightarrow> 'st CoreService \<Rightarrow> 'st CoreServiceManager
     \<Rightarrow> (unit result \<times> 'st CoreServiceManager) option" where
  "core_start_all display sv m =
     (let m = m\<lparr>csm_running := True\<rparr> in
      map_option (\<lambda>(r, services). (r, m\<lparr>csm_services := services\<rparr>))
        (take_each (failed_to ''start'' display) (cs_start sv) (hm_keys (csm_services m)) (csm_services m)))"

text \<open>\<open>stop_all\<close> takes every service out and does not put it back.\<close>

primrec stop_each :: "('st \<Rightarrow> unit result \<times> 'st) \<Rightarrow> string list \<Rightarrow> (string, 'st) hmap \<Rightarrow> unit result \<times> (string, 'st) hmap" where
  "stop_each f [] services = (Inr (), services)"
| "stop_each f (i # ids) services =
     (case hm_get services i of
        None \<Rightarrow> stop_each f ids services
      | Some service \<Rightarrow>
          (case f service of
             (Inl (Panic msg), _) \<Rightarrow> (Inl (Panic msg), hm_remove i services)
           | _ \<Rightarrow> stop_each f ids (hm_remove i services)))"

definition core_stop_all :: "'st CoreService \<Rightarrow> 'st CoreServiceManager \<Rightarrow> unit result \<times> 'st CoreServiceManager" where
  "core_stop_all sv m =
     (let m = m\<lparr>csm_running := False\<rparr> in
      case stop_each (cs_stop sv) (hm_keys (csm_services m)) (csm_services m) of
        (r, services) \<Rightarrow> (r, m\<lparr>csm_services := services\<rparr>))"

definition not_found :: "CoreServiceRequest \<Rightarrow> CoreServiceResponse" where
  "not_found request =
     response_error (crq_request_id request) (ResultCode_i32 RC_ErrorNotFound)
       (''Service not found: '' @ crq_service_id request)"

definition core_handle_request ::
  "'st CoreService \<Rightarrow> 'st CoreServiceManager \<Rightarrow> CoreServiceRequest
     \<Rightarrow> CoreServiceResponse result \<times> 'st CoreServiceManager" where
  "core_handle_request sv m request =
     (let service_id = crq_service_id request;
          rest = hm_remove service_id (csm_services m)
      in case hm_get (csm_services m) service_id of
           Some service \<Rightarrow>
             (case cs_handle_request sv request service of
                (Inl (Panic msg), _) \<Rightarrow> (Inl (Panic msg), m\<lparr>csm_services := rest\<rparr>)
              | (r, service') \<Rightarrow> (r, m\<lparr>csm_services := hm_insert service_id service' rest\<rparr>))
         | None \<Rightarrow> (Inr (not_found request), m))"

primrec broadcast_each :: "('st \<Rightarrow> unit result \<times> 'st) \<Rightarrow> string list \<Rightarrow> (string, 'st) hmap \<Rightarrow> unit result \<times> (string, 'st) hmap" where
  "broadcast_each f [] services = (Inr (), services)"
| "broadcast_each f (i # ids) services =
     (case hm_get services i of
        None \<Rightarrow> broadcast_each f ids services
      | Some service \<Rightarrow>
          (case f service of
             (Inl (Panic msg), _) \<Rightarrow> (Inl (Panic msg), hm_remove i services)
           | (_, service') \<Rightarrow> broadcast_each f ids (hm_insert i service' (hm_remove i services))))"

definition core_broadcast_event ::
  "'st CoreService \<Rightarrow> 'st CoreServiceManager \<Rightarrow> CoreServiceEvent \<Rightarrow> unit result \<times> 'st CoreServiceManager" where
  "core_broadcast_event sv m event =
     (case broadcast_each (cs_handle_event sv event) (hm_keys (csm_services m)) (csm_services m) of
        (r, services) \<Rightarrow> (r, m\<lparr>csm_services := services\<rparr>))"

definition core_list_services :: "'st CoreServiceManager \<Rightarrow> string list" where
  "core_list_services m = hm_keys (csm_services m)"

definition core_service_count :: "'st CoreServiceManager \<Rightarrow> nat" where
  "core_service_count m = length (hm_keys (csm_services m))"

definition core_is_running :: "'st CoreServiceManager \<Rightarrow> bool" where
  "core_is_running m = csm_running m"

subsection \<open>The manager as a register\<close>

definition core_lookup :: "'st CoreServiceManager \<Rightarrow> string \<Rightarrow> 'st option" where
  "core_lookup m k = hm_get (csm_services m) k"

definition core_manager_ok :: "'st CoreService \<Rightarrow> 'st CoreServiceManager \<Rightarrow> bool" where
  "core_manager_ok sv m \<longleftrightarrow> hm_wf (csm_services m)"

interpretation core_manager: exclusive_register core_lookup
    "\<lambda>st m. map_prod succeeded id (core_register sv m st)"
    "\<lambda>k m. map_prod succeeded id (core_unregister m k)"
    "cs_service_id sv" "\<lambda>st. st" "core_manager_ok sv" for sv
  by unfold_locales
    (auto simp: core_lookup_def core_register_def core_unregister_def core_manager_ok_def
      succeeded_def Let_def)

subsection \<open>The loops\<close>

lemma remove_head: "hm_wf ((k, v) # m) \<Longrightarrow> hm_remove k ((k, v) # m) = m"
  by (simp add: hm_remove_def hm_wf_def hm_keys_def image_iff)

lemma take_each_present:
  assumes "hm_wf services"
  shows "take_each wrap f (hm_keys services) services =
    (case services of
       [] \<Rightarrow> Some (Inr (), [])
     | (i, st) # rest \<Rightarrow>
         (case fst (f st) of
            Inl (Err e) \<Rightarrow> Some (Inl (Err (wrap i e)), rest)
          | Inl (Panic msg) \<Rightarrow> Some (Inl (Panic msg), rest)
          | Inr _ \<Rightarrow> None))"
proof (cases services)
  case Nil
  then show ?thesis
    by (simp add: hm_keys_def)
next
  case (Cons kv rest)
  then show ?thesis
    using remove_head [of "fst kv" "snd kv" rest] assms
    by (cases kv) (auto simp: hm_keys_def hm_get_def write_lock_def split: prod.splits sum.splits failure.splits)
qed

lemma hm_get_notin: "i \<notin> set (hm_keys m) \<Longrightarrow> hm_get m i = None"
  by (simp add: hm.in_keys_iff)

lemma stop_each_lookup:
  assumes "hm_wf services" "\<forall>st msg. fst (f st) \<noteq> Inl (Panic msg)"
  shows "fst (stop_each f ids services) = Inr () \<and>
    hm_get (snd (stop_each f ids services)) k = (if k \<in> set ids then None else hm_get services k)"
  using assms(1)
proof (induction ids arbitrary: services)
  case Nil
  then show ?case by simp
next
  case (Cons i ids)
  show ?case
  proof (cases "hm_get services i")
    case None
    then show ?thesis
      using Cons by auto
  next
    case (Some st)
    then have "stop_each f (i # ids) services = stop_each f ids (hm_remove i services)"
      using assms(2) by (cases "f st") (auto split: sum.splits failure.splits dest: spec [of _ st])
    then show ?thesis
      using Cons.IH [OF hm_wf_remove [OF Cons.prems], of i] Cons.prems by simp
  qed
qed

lemma broadcast_each_lookup:
  assumes "hm_wf services" "distinct ids" "\<forall>st msg. fst (f st) \<noteq> Inl (Panic msg)"
  shows "fst (broadcast_each f ids services) = Inr () \<and> hm_wf (snd (broadcast_each f ids services)) \<and>
    hm_get (snd (broadcast_each f ids services)) k =
      (if k \<in> set ids then map_option (\<lambda>st. snd (f st)) (hm_get services k) else hm_get services k)"
  using assms(1,2)
proof (induction ids arbitrary: services)
  case Nil
  then show ?case by simp
next
  case (Cons i ids)
  show ?case
  proof (cases "hm_get services i")
    case None
    then show ?thesis
      using Cons by auto
  next
    case (Some st)
    let ?s = "hm_insert i (snd (f st)) (hm_remove i services)"
    have "broadcast_each f (i # ids) services = broadcast_each f ids ?s"
      using assms(3) Some by (cases "f st") (auto split: sum.splits failure.splits dest: spec [of _ st])
    then show ?thesis
      using Cons.IH [of ?s] Cons.prems Some by auto
  qed
qed

text \<open>
  C22. Start-up of the core's services: without a context \<open>init_all\<close> is an error. With one it returns
  only when no service is registered or when the first service it meets fails; that service is then
  gone from the manager, whatever the others would have done. When the first service succeeds, the
  call waits for ever for the lock that it holds itself. The same holds for \<open>start_all\<close>.
\<close>

theorem core_startup_blocks:
  assumes "hm_wf (csm_services m)"
  shows "core_init_all display sv m =
      (case csm_context m of
         None \<Rightarrow> Some (Inl (Err (Config ''Service context not set'')), m)
       | Some context \<Rightarrow>
           (case csm_services m of
              [] \<Rightarrow> Some (Inr (), m)
            | (i, st) # rest \<Rightarrow>
                (case fst (cs_init sv context st) of
                   Inl (Err e) \<Rightarrow> Some (Inl (Err (failed_to ''init'' display i e)), m\<lparr>csm_services := rest\<rparr>)
                 | Inl (Panic msg) \<Rightarrow> Some (Inl (Panic msg), m\<lparr>csm_services := rest\<rparr>)
                 | Inr _ \<Rightarrow> None))) \<and>
    core_start_all display sv m =
      (case csm_services m of
         [] \<Rightarrow> Some (Inr (), m\<lparr>csm_running := True\<rparr>)
       | (i, st) # rest \<Rightarrow>
           (case fst (cs_start sv st) of
              Inl (Err e) \<Rightarrow> Some (Inl (Err (failed_to ''start'' display i e)), m\<lparr>csm_running := True, csm_services := rest\<rparr>)
            | Inl (Panic msg) \<Rightarrow> Some (Inl (Panic msg), m\<lparr>csm_running := True, csm_services := rest\<rparr>)
            | Inr _ \<Rightarrow> None))"
  using take_each_present [OF assms]
  by (cases m) (auto simp: core_init_all_def core_start_all_def split: option.splits list.splits prod.splits sum.splits failure.splits)

text \<open>A service that counts its calls, to evaluate the definitions with: its state is a name and a number.\<close>

definition core_counting :: "(string \<times> nat) CoreService" where
  "core_counting =
     \<lparr>cs_service_id = fst, cs_version = \<lambda>_. 1, cs_name = fst, cs_description = fst,
      cs_required = core_default_required, cs_init = \<lambda>_ st. (Inr (), (fst st, Suc (snd st))),
      cs_start = \<lambda>st. (Inl (Err Cancelled), st), cs_stop = \<lambda>st. (Inl (Err Cancelled), (fst st, 0)),
      cs_handle_request = \<lambda>r st. (Inr (response_success (crq_request_id r) (crq_payload r)), (fst st, Suc (snd st))),
      cs_handle_event = \<lambda>e st. (Inr (), (fst st, Suc (snd st)))\<rparr>"

definition core_sample :: "(string \<times> nat) CoreServiceManager" where
  "core_sample =
     core_set_context (CoreServiceManager_new 0) (ServiceContext_new 1 2 0 \<lparr>did_value = []\<rparr>)
       \<lparr>csm_services := [(''a'', (''a'', 0)), (''b'', (''b'', 3))]\<rparr>"

lemma core_sample_simps [simp]:
  "csm_services core_sample = [(''a'', (''a'', 0)), (''b'', (''b'', 3))]"
  "csm_context core_sample = Some (ServiceContext_new 1 2 0 \<lparr>did_value = []\<rparr>)"
  by (simp_all add: core_sample_def core_set_context_def)

theorem core_startup_blocks_witness:
  "core_init_all (\<lambda>_. []) core_counting core_sample = None \<and>
   (\<exists>m'. core_start_all (\<lambda>_. []) core_counting core_sample =
     Some (Inl (Err (Config ''Failed to start a: '')), m') \<and> csm_services m' = [(''b'', (''b'', 3))])"
proof -
  have "hm_wf (csm_services core_sample)"
    by (simp add: hm_wf_def hm_keys_def)
  then show ?thesis
    using core_startup_blocks [of core_sample "\<lambda>_. []" core_counting]
    by (simp add: core_counting_def failed_to_def)
qed

text \<open>
  Calls and shutdown, for services that do not panic: a request runs the handler of the service it
  names, once, answers what the handler answered, error or not, and keeps every service; a name that
  is not in the map is answered with \<open>ErrorNotFound\<close> and changes nothing. A broadcast reaches every
  service once. \<open>stop_all\<close> succeeds whatever the services say, and leaves none registered: what was
  stopped cannot be started again.
\<close>

theorem core_calls_and_stop:
  assumes "hm_wf (csm_services m)"
    and "\<forall>st msg. fst (cs_stop sv st) \<noteq> Inl (Panic msg)" "\<forall>e st msg. fst (cs_handle_event sv e st) \<noteq> Inl (Panic msg)"
    and "\<forall>r st msg. fst (cs_handle_request sv r st) \<noteq> Inl (Panic msg)"
  shows "(case core_lookup m (crq_service_id request) of
      Some st \<Rightarrow> fst (core_handle_request sv m request) = fst (cs_handle_request sv request st)
    | None \<Rightarrow> core_handle_request sv m request = (Inr (not_found request), m)) \<and>
    (\<forall>k. core_lookup (snd (core_handle_request sv m request)) k =
       (if k = crq_service_id request
        then map_option (\<lambda>st. snd (cs_handle_request sv request st)) (core_lookup m k)
        else core_lookup m k)) \<and>
    fst (core_broadcast_event sv m event) = Inr () \<and>
    (\<forall>k. core_lookup (snd (core_broadcast_event sv m event)) k =
       map_option (\<lambda>st. snd (cs_handle_event sv event st)) (core_lookup m k)) \<and>
    (\<exists>m'. core_stop_all sv m = (Inr (), m') \<and> core_list_services m' = [] \<and> \<not> core_is_running m' \<and>
       core_start_all display sv m' = Some (Inr (), m'\<lparr>csm_running := True\<rparr>))"
proof -
  let ?ids = "hm_keys (csm_services m)"
  have np: "\<forall>st msg. fst (cs_handle_event sv event st) \<noteq> Inl (Panic msg)"
    using assms(3) by simp
  note B = broadcast_each_lookup [OF assms(1) _ np, of ?ids]
  note S = stop_each_lookup [OF assms(1,2), of ?ids]
  have keys: "k \<in> set ?ids \<longleftrightarrow> hm_get (csm_services m) k \<noteq> None" for k
    by (rule hm.in_keys_iff)
  have request: "(case core_lookup m (crq_service_id request) of
      Some st \<Rightarrow> fst (core_handle_request sv m request) = fst (cs_handle_request sv request st)
    | None \<Rightarrow> core_handle_request sv m request = (Inr (not_found request), m))"
    by (auto simp: core_lookup_def core_handle_request_def Let_def
        split: option.splits prod.splits sum.splits failure.splits)
  have states: "core_lookup (snd (core_handle_request sv m request)) k =
       (if k = crq_service_id request
        then map_option (\<lambda>st. snd (cs_handle_request sv request st)) (core_lookup m k)
        else core_lookup m k)" for k
    using assms(4)
    by (cases "hm_get (csm_services m) (crq_service_id request)")
      (auto simp: core_lookup_def core_handle_request_def Let_def
        split: prod.splits sum.splits failure.splits dest: spec [of _ request] arg_cong [of _ "(_, _)" fst])
  have "hm_get (snd (stop_each (cs_stop sv) ?ids (csm_services m))) k = None" for k
    using S keys by auto
  then have empty: "snd (stop_each (cs_stop sv) ?ids (csm_services m)) = []"
    by (metis hm.in_keys_iff hm_keys_def list.map_disc_iff list.set_intros(1) neq_Nil_conv)
  have "distinct ?ids"
    using assms(1) by (simp add: hm_wf_def)
  then show ?thesis
    using request states B S keys empty
    by (auto simp: core_broadcast_event_def core_stop_all_def core_lookup_def core_list_services_def
        core_is_running_def core_start_all_def hm_keys_def split_def Let_def map_option_case split: option.splits)
qed

theorem core_calls_and_stop_witness:
  "let (r, m) = core_handle_request core_counting core_sample
         \<lparr>crq_service_id = ''b'', crq_channel_id = 1, crq_request_id = 9, crq_payload = [1], crq_metadata = []\<rparr>
   in r = Inr (response_success 9 [1]) \<and> core_lookup m ''b'' = Some (''b'', 4) \<and> core_lookup m ''a'' = Some (''a'', 0) \<and>
     (\<exists>m'. core_stop_all core_counting core_sample = (Inr (), m') \<and> core_list_services m' = [])"
proof -
  let ?r = "\<lparr>crq_service_id = ''b'', crq_channel_id = 1, crq_request_id = 9, crq_payload = [1], crq_metadata = []\<rparr>"
  have wf: "hm_wf (csm_services core_sample)"
    by (simp add: hm_wf_def hm_keys_def)
  have "\<forall>st msg. fst (cs_stop core_counting st) \<noteq> Inl (Panic msg)"
    "\<forall>e st msg. fst (cs_handle_event core_counting e st) \<noteq> Inl (Panic msg)"
    "\<forall>r st msg. fst (cs_handle_request core_counting r st) \<noteq> Inl (Panic msg)"
    by (simp_all add: core_counting_def)
  note C = core_calls_and_stop [OF wf this, of ?r "CSE_PeerConfigChanged []" "\<lambda>_. []"]
  have "cs_handle_request core_counting ?r (''b'', 3) = (Inr (response_success 9 [1]), (''b'', 4))"
    by (simp add: core_counting_def)
  then show ?thesis
    using C by (auto simp: split_def Let_def core_lookup_def hm_get_def)
qed

subsection \<open>Calls that overlap\<close>


















end
