(* ===== verification/Core_Sql.thy ===== *)
theory Core_Sql
  imports Errors
begin

text \<open>
  What the SQL statements of the database layer (\<^verbatim>\<open>core/src/database.rs\<close>) mean: tables with declared
  columns, \<open>CREATE .. IF NOT EXISTS\<close>, \<open>INSERT\<close> with and without \<open>ON CONFLICT .. DO UPDATE\<close>, \<open>UPDATE\<close>
  and \<open>DELETE\<close> by equality, and \<open>SELECT\<close> by a condition, with the constraints \<open>NOT NULL\<close>, \<open>UNIQUE\<close>,
  \<open>PRIMARY KEY\<close> and \<open>FOREIGN KEY\<close>. The statements themselves are in \<open>Core_Database\<close>. The theory has
  only what they use: a condition compares columns with values, no statement changes a key
  column, every value has the type its column is declared with, and deletion cascades over one
  level because no table refers to the tables that hold the dependent rows.
\<close>

subsection \<open>Values, columns, tables\<close>

datatype sql_value = SNull | SInt i64 | SText string | SBlob bytes

datatype sql_type = T_Integer | T_Text | T_Blob | T_Real

record sql_column =
  col_name :: string
  col_type :: sql_type
  col_not_null :: bool
  col_default :: "sql_value option"
  col_key :: bool

record foreign_key =
  fk_column :: string
  fk_table :: string
  fk_parent :: string
  fk_cascade :: bool

record table_def =
  tb_name :: string
  tb_columns :: "sql_column list"
  tb_foreign_keys :: "foreign_key list"

record sql_table =
  tbl_def :: table_def
  tbl_rows :: "sql_value list list"

record sql_db =
  sq_tables :: "(string, sql_table) hmap"
  sq_indexes :: "(string \<times> string \<times> string) list"

text \<open>\<open>col_key\<close> marks \<open>PRIMARY KEY\<close> and \<open>UNIQUE\<close> columns.\<close>

definition empty_db :: sql_db where
  "empty_db = \<lparr>sq_tables = [], sq_indexes = []\<rparr>"

definition column_names :: "table_def \<Rightarrow> string list" where
  "column_names def = map col_name (tb_columns def)"

definition cell :: "table_def \<Rightarrow> sql_value list \<Rightarrow> string \<Rightarrow> sql_value" where
  "cell def row c = (case map_of (zip (column_names def) row) c of None \<Rightarrow> SNull | Some v \<Rightarrow> v)"

definition set_rows :: "string \<Rightarrow> sql_value list list \<Rightarrow> sql_db \<Rightarrow> sql_db" where
  "set_rows t rows db =
     (case hm_get (sq_tables db) t of
        None \<Rightarrow> db
      | Some tbl \<Rightarrow> db\<lparr>sq_tables := hm_insert t (tbl\<lparr>tbl_rows := rows\<rparr>) (sq_tables db)\<rparr>)"

definition rows_of :: "sql_db \<Rightarrow> string \<Rightarrow> sql_value list list" where
  "rows_of db t = (case hm_get (sq_tables db) t of None \<Rightarrow> [] | Some tbl \<Rightarrow> tbl_rows tbl)"

definition find_table :: "sql_db \<Rightarrow> string \<Rightarrow> string + sql_table" where
  "find_table db t =
     (case hm_get (sq_tables db) t of None \<Rightarrow> Inl (''no such table: '' @ t) | Some tbl \<Rightarrow> Inr tbl)"

subsection \<open>Statements that define the schema\<close>

datatype ddl = CreateTable table_def | CreateIndex string string string

primrec exec_ddl :: "ddl \<Rightarrow> sql_db \<Rightarrow> string + sql_db" where
  "exec_ddl (CreateTable def) db =
     (if hm_contains (sq_tables db) (tb_name def) then Inr db
      else Inr (db\<lparr>sq_tables := hm_insert (tb_name def) \<lparr>tbl_def = def, tbl_rows = []\<rparr> (sq_tables db)\<rparr>))"
| "exec_ddl (CreateIndex name t c) db =
     (if name \<in> fst ` set (sq_indexes db) then Inr db
      else (case find_table db t of
              Inl e \<Rightarrow> Inl e
            | Inr tbl \<Rightarrow>
                if c \<in> set (column_names (tbl_def tbl))
                then Inr (db\<lparr>sq_indexes := sq_indexes db @ [(name, t, c)]\<rparr>)
                else Inl (''no such column: '' @ c)))"

subsection \<open>Constraints\<close>

definition null_violation :: "table_def \<Rightarrow> sql_value list \<Rightarrow> string option" where
  "null_violation def row =
     map_option (\<lambda>c. ''NOT NULL constraint failed: '' @ tb_name def @ ''.'' @ col_name c)
       (find (\<lambda>c. col_not_null c \<and> cell def row (col_name c) = SNull) (tb_columns def))"

text \<open>Two rows clash in a column that both fill with the same value; nulls never clash.\<close>

definition clash :: "table_def \<Rightarrow> string \<Rightarrow> sql_value list \<Rightarrow> sql_value list \<Rightarrow> bool" where
  "clash def c row row' \<longleftrightarrow> cell def row c \<noteq> SNull \<and> cell def row c = cell def row' c"

definition key_violation :: "table_def \<Rightarrow> sql_value list list \<Rightarrow> sql_value list \<Rightarrow> string option" where
  "key_violation def rows row =
     map_option (\<lambda>c. ''UNIQUE constraint failed: '' @ tb_name def @ ''.'' @ col_name c)
       (find (\<lambda>c. col_key c \<and> list_ex (clash def (col_name c) row) rows) (tb_columns def))"

definition parent_present :: "sql_db \<Rightarrow> foreign_key \<Rightarrow> sql_value \<Rightarrow> bool" where
  "parent_present db fk v \<longleftrightarrow>
     (case hm_get (sq_tables db) (fk_table fk) of
        None \<Rightarrow> False
      | Some tbl \<Rightarrow> list_ex (\<lambda>r. cell (tbl_def tbl) r (fk_parent fk) = v) (tbl_rows tbl))"

definition foreign_ok :: "sql_db \<Rightarrow> table_def \<Rightarrow> sql_value list \<Rightarrow> bool" where
  "foreign_ok db def row \<longleftrightarrow>
     list_all (\<lambda>fk. cell def row (fk_column fk) = SNull \<or> parent_present db fk (cell def row (fk_column fk)))
       (tb_foreign_keys def)"

text \<open>
  The checks of a row that is stored besides \<open>rows\<close>; foreign keys are checked only where the engine
  enforces them (\<open>enforce\<close>).
\<close>

definition check_row :: "bool \<Rightarrow> sql_db \<Rightarrow> table_def \<Rightarrow> sql_value list list \<Rightarrow> sql_value list \<Rightarrow> string + unit" where
  "check_row enforce db def rows row =
     (case null_violation def row of
        Some e \<Rightarrow> Inl e
      | None \<Rightarrow>
          (case key_violation def rows row of
             Some e \<Rightarrow> Inl e
           | None \<Rightarrow>
               if enforce \<and> \<not> foreign_ok db def row then Inl ''FOREIGN KEY constraint failed''
               else Inr ()))"

subsection \<open>Statements on rows\<close>

definition build_row :: "table_def \<Rightarrow> (string \<times> sql_value) list \<Rightarrow> sql_value list" where
  "build_row def vals =
     map (\<lambda>c. case map_of vals (col_name c) of
                Some v \<Rightarrow> v
              | None \<Rightarrow> (case col_default c of Some v \<Rightarrow> v | None \<Rightarrow> SNull)) (tb_columns def)"

text \<open>\<open>INSERT INTO t (..) VALUES (..)\<close>: columns that are not named get their default.\<close>

definition exec_insert :: "bool \<Rightarrow> string \<Rightarrow> (string \<times> sql_value) list \<Rightarrow> sql_db \<Rightarrow> string + sql_db" where
  "exec_insert enforce t vals db =
     (case find_table db t of
        Inl e \<Rightarrow> Inl e
      | Inr tbl \<Rightarrow>
          (let row = build_row (tbl_def tbl) vals in
           case check_row enforce db (tbl_def tbl) (tbl_rows tbl) row of
             Inl e \<Rightarrow> Inl e
           | Inr _ \<Rightarrow> Inr (set_rows t (tbl_rows tbl @ [row]) db)))"

definition overwrite :: "table_def \<Rightarrow> (string \<times> sql_value) list \<Rightarrow> sql_value list \<Rightarrow> sql_value list" where
  "overwrite def vals row =
     map (\<lambda>c. case map_of vals (col_name c) of Some v \<Rightarrow> v | None \<Rightarrow> cell def row (col_name c)) (tb_columns def)"

text \<open>
  \<open>INSERT .. ON CONFLICT(target) DO UPDATE SET c = excluded.c, ..\<close>: the conflict with the target column
  is looked for first (\<open>NOT NULL\<close> before it); a row that has it is overwritten in the columns \<open>sets\<close>.
\<close>

definition exec_upsert ::
  "bool \<Rightarrow> string \<Rightarrow> (string \<times> sql_value) list \<Rightarrow> string \<Rightarrow> string list \<Rightarrow> sql_db \<Rightarrow> string + sql_db" where
  "exec_upsert enforce t vals target sets db =
     (case find_table db t of
        Inl e \<Rightarrow> Inl e
      | Inr tbl \<Rightarrow>
          (let def = tbl_def tbl; row = build_row def vals in
           case null_violation def row of
             Some e \<Rightarrow> Inl e
           | None \<Rightarrow>
               (case find (clash def target row) (tbl_rows tbl) of
                  None \<Rightarrow> exec_insert enforce t vals db
                | Some old \<Rightarrow>
                    (let new = overwrite def (filter (\<lambda>(c, _). c \<in> set sets) vals) old;
                         others = filter (\<lambda>r. \<not> clash def target row r) (tbl_rows tbl)
                     in case check_row enforce db def others new of
                          Inl e \<Rightarrow> Inl e
                        | Inr _ \<Rightarrow>
                            Inr (set_rows t (map (\<lambda>r. if clash def target row r then new else r) (tbl_rows tbl)) db)))))"

text \<open>A condition \<open>c1 = v1 AND c2 = v2 ..\<close> with values other than null.\<close>

definition matches :: "table_def \<Rightarrow> (string \<times> sql_value) list \<Rightarrow> sql_value list \<Rightarrow> bool" where
  "matches def conds row \<longleftrightarrow> list_all (\<lambda>(c, v). cell def row c = v) conds"

text \<open>\<open>UPDATE t SET .. WHERE ..\<close>; the columns that are set are no keys.\<close>

definition exec_update ::
  "string \<Rightarrow> (string \<times> sql_value) list \<Rightarrow> (string \<times> sql_value) list \<Rightarrow> sql_db \<Rightarrow> string + sql_db" where
  "exec_update t vals conds db =
     (case find_table db t of
        Inl e \<Rightarrow> Inl e
      | Inr tbl \<Rightarrow>
          (let def = tbl_def tbl; new = overwrite def vals in
           case find (\<lambda>r. null_violation def r \<noteq> None) (map new (filter (matches def conds) (tbl_rows tbl))) of
             Some r \<Rightarrow> Inl (the (null_violation def r))
           | None \<Rightarrow> Inr (set_rows t (map (\<lambda>r. if matches def conds r then new r else r) (tbl_rows tbl)) db)))"

text \<open>Deleting the rows that refer to rows of \<open>t\<close> that are gone (\<open>ON DELETE CASCADE\<close>).\<close>

definition cascade :: "string \<Rightarrow> table_def \<Rightarrow> sql_value list list \<Rightarrow> sql_table \<Rightarrow> sql_table" where
  "cascade t def gone tbl =
     tbl\<lparr>tbl_rows := filter (\<lambda>r. \<not> list_ex (\<lambda>fk. fk_table fk = t \<and> fk_cascade fk \<and>
         cell (tbl_def tbl) r (fk_column fk) \<noteq> SNull \<and>
         list_ex (\<lambda>g. cell def g (fk_parent fk) = cell (tbl_def tbl) r (fk_column fk)) gone)
       (tb_foreign_keys (tbl_def tbl))) (tbl_rows tbl)\<rparr>"

text \<open>\<open>DELETE FROM t WHERE ..\<close>\<close>

definition exec_delete :: "bool \<Rightarrow> string \<Rightarrow> (string \<times> sql_value) list \<Rightarrow> sql_db \<Rightarrow> string + sql_db" where
  "exec_delete enforce t conds db =
     (case find_table db t of
        Inl e \<Rightarrow> Inl e
      | Inr tbl \<Rightarrow>
          (let def = tbl_def tbl;
               gone = filter (matches def conds) (tbl_rows tbl);
               db' = set_rows t (filter (\<lambda>r. \<not> matches def conds r) (tbl_rows tbl)) db
           in Inr (if enforce
                   then db'\<lparr>sq_tables := map (\<lambda>(n, x). (n, cascade t def gone x)) (sq_tables db')\<rparr>
                   else db')))"

text \<open>\<open>SELECT cols FROM t WHERE P\<close>\<close>

definition exec_select :: "string \<Rightarrow> string list \<Rightarrow> (table_def \<Rightarrow> sql_value list \<Rightarrow> bool) \<Rightarrow> sql_db \<Rightarrow> string + sql_value list list" where
  "exec_select t cols P db =
     (case find_table db t of
        Inl e \<Rightarrow> Inl e
      | Inr tbl \<Rightarrow> Inr (map (\<lambda>r. map (cell (tbl_def tbl) r) cols) (filter (P (tbl_def tbl)) (tbl_rows tbl))))"

subsection \<open>Reading the columns of a row\<close>

definition from_text :: "sql_value \<Rightarrow> string + string" where
  "from_text v = (case v of SText s \<Rightarrow> Inr s | _ \<Rightarrow> Inl ''Invalid column type'')"

definition from_int :: "sql_value \<Rightarrow> string + i64" where
  "from_int v = (case v of SInt n \<Rightarrow> Inr n | _ \<Rightarrow> Inl ''Invalid column type'')"

definition from_bool :: "sql_value \<Rightarrow> string + bool" where
  "from_bool v = (case v of SInt n \<Rightarrow> Inr (n \<noteq> 0) | _ \<Rightarrow> Inl ''Invalid column type'')"

definition from_blob :: "sql_value \<Rightarrow> string + bytes" where
  "from_blob v = (case v of SBlob b \<Rightarrow> Inr b | _ \<Rightarrow> Inl ''Invalid column type'')"

definition from_option :: "(sql_value \<Rightarrow> string + 'a) \<Rightarrow> sql_value \<Rightarrow> string + 'a option" where
  "from_option rd v = (case v of SNull \<Rightarrow> Inr None | _ \<Rightarrow> (case rd v of Inl e \<Rightarrow> Inl e | Inr a \<Rightarrow> Inr (Some a)))"

definition to_option :: "('a \<Rightarrow> sql_value) \<Rightarrow> 'a option \<Rightarrow> sql_value" where
  "to_option wr a = (case a of None \<Rightarrow> SNull | Some x \<Rightarrow> wr x)"

definition to_bool :: "bool \<Rightarrow> sql_value" where
  "to_bool b = SInt (if b then 1 else 0)"

subsection \<open>Well-formed databases\<close>

primrec has_type :: "sql_value \<Rightarrow> sql_type \<Rightarrow> bool" where
  "has_type SNull ty = True"
| "has_type (SInt n) ty = (ty = T_Integer)"
| "has_type (SText s) ty = (ty = T_Text)"
| "has_type (SBlob b) ty = (ty = T_Blob)"

definition column_ok :: "sql_column \<Rightarrow> sql_value \<Rightarrow> bool" where
  "column_ok c v \<longleftrightarrow> has_type v (col_type c) \<and> (v = SNull \<longrightarrow> \<not> col_not_null c)"

definition row_ok :: "table_def \<Rightarrow> sql_value list \<Rightarrow> bool" where
  "row_ok def row \<longleftrightarrow> list_all2 column_ok (tb_columns def) row"

definition keys_ok :: "table_def \<Rightarrow> sql_value list list \<Rightarrow> bool" where
  "keys_ok def rows \<longleftrightarrow>
     (\<forall>c \<in> set (tb_columns def). col_key c \<longrightarrow>
        distinct (filter (\<lambda>v. v \<noteq> SNull) (map (\<lambda>r. cell def r (col_name c)) rows)))"

definition table_ok :: "sql_table \<Rightarrow> bool" where
  "table_ok tbl \<longleftrightarrow> distinct (column_names (tbl_def tbl)) \<and>
     list_all (row_ok (tbl_def tbl)) (tbl_rows tbl) \<and> keys_ok (tbl_def tbl) (tbl_rows tbl)"

definition refs_ok :: "sql_db \<Rightarrow> bool" where
  "refs_ok db \<longleftrightarrow>
     (\<forall>n tbl. hm_get (sq_tables db) n = Some tbl \<longrightarrow> list_all (foreign_ok db (tbl_def tbl)) (tbl_rows tbl))"

definition db_ok :: "bool \<Rightarrow> sql_db \<Rightarrow> bool" where
  "db_ok enforce db \<longleftrightarrow> hm_wf (sq_tables db) \<and>
     (\<forall>n tbl. hm_get (sq_tables db) n = Some tbl \<longrightarrow> table_ok tbl) \<and> (enforce \<longrightarrow> refs_ok db)"

definition schema :: "sql_db \<Rightarrow> (string \<times> table_def) list" where
  "schema db = map (\<lambda>(n, tbl). (n, tbl_def tbl)) (sq_tables db)"

lemma map_of_schema: "map_of (schema db) t = map_option tbl_def (hm_get (sq_tables db) t)"
proof -
  have "map_of (map (\<lambda>(n, tbl). (n, tbl_def tbl)) xs) t = map_option tbl_def (map_of xs t)" for xs
    by (induction xs) auto
  then show ?thesis
    by (simp add: schema_def hm_get_def)
qed

lemma schema_get: "hm_get (sq_tables db) t = Some tbl \<Longrightarrow> map_of (schema db) t = Some (tbl_def tbl)"
  by (simp add: map_of_schema)

lemma schema_getD: "map_of (schema db) t = Some def \<Longrightarrow> \<exists>rows. hm_get (sq_tables db) t = Some \<lparr>tbl_def = def, tbl_rows = rows\<rparr>"
  by (auto simp: map_of_schema) (metis sql_table.surjective unit.exhaust)

lemma map_update_same:
  "map_of xs k = Some v \<Longrightarrow> g k v' = g k v \<Longrightarrow> map (\<lambda>(n, x). g n x) (AList.update k v' xs) = map (\<lambda>(n, x). g n x) xs"
  by (induction xs) (auto split: if_splits)

lemma schema_set_rows [simp]: "schema (set_rows t rows db) = schema db"
proof (cases "hm_get (sq_tables db) t")
  case None
  then show ?thesis
    by (simp add: set_rows_def)
next
  case (Some tbl)
  then show ?thesis
    using map_update_same [of "sq_tables db" t tbl "\<lambda>n x. (n, tbl_def x)" "tbl\<lparr>tbl_rows := rows\<rparr>"]
    by (simp add: set_rows_def schema_def hm_get_def hm_insert_def)
qed

lemma get_set_rows:
  "hm_get (sq_tables (set_rows t rows db)) n =
     (if n = t then map_option (\<lambda>tbl. tbl\<lparr>tbl_rows := rows\<rparr>) (hm_get (sq_tables db) t)
      else hm_get (sq_tables db) n)"
  by (auto simp: set_rows_def split: option.splits)

lemma rows_of_set_rows: "hm_get (sq_tables db) t \<noteq> None \<Longrightarrow> rows_of (set_rows t rows db) n = (if n = t then rows else rows_of db n)"
  by (auto simp: rows_of_def get_set_rows split: option.splits)

lemma indexes_set_rows [simp]: "sq_indexes (set_rows t rows db) = sq_indexes db"
  by (simp add: set_rows_def split: option.splits)

lemma wf_set_rows [simp]: "hm_wf (sq_tables db) \<Longrightarrow> hm_wf (sq_tables (set_rows t rows db))"
  by (simp add: set_rows_def split: option.splits)

lemma find_table_Inr: "find_table db t = Inr tbl \<longleftrightarrow> hm_get (sq_tables db) t = Some tbl"
  by (simp add: find_table_def split: option.splits)

lemma cell_map:
  assumes "distinct (column_names def)" "c \<in> set (tb_columns def)"
  shows "cell def (map g (tb_columns def)) (col_name c) = g c"
proof -
  have "map_of (zip (map col_name cs) (map g cs)) (col_name c) = Some (g c)"
    if "distinct (map col_name cs)" "c \<in> set cs" for cs
    using that by (induction cs) (auto simp: rev_image_eqI)
  from this [OF assms(1) [unfolded column_names_def] assms(2)] show ?thesis
    by (simp only: cell_def column_names_def option.case)
qed

lemma cell_build:
  "distinct (column_names def) \<Longrightarrow> c \<in> set (tb_columns def) \<Longrightarrow>
     cell def (build_row def vals) (col_name c) =
       (case map_of vals (col_name c) of Some v \<Rightarrow> v | None \<Rightarrow> (case col_default c of Some v \<Rightarrow> v | None \<Rightarrow> SNull))"
  by (simp add: build_row_def cell_map)

lemma cell_overwrite:
  "distinct (column_names def) \<Longrightarrow> c \<in> set (tb_columns def) \<Longrightarrow>
     cell def (overwrite def vals row) (col_name c) =
       (case map_of vals (col_name c) of Some v \<Rightarrow> v | None \<Rightarrow> cell def row (col_name c))"
  by (simp add: overwrite_def cell_map)

lemma cell_column_ok:
  assumes "row_ok def row" "distinct (column_names def)" "c \<in> set (tb_columns def)"
  shows "column_ok c (cell def row (col_name c))"
proof -
  have "\<exists>v. map_of (zip (map col_name cs) vs) (col_name c) = Some v \<and> column_ok c v"
    if "list_all2 column_ok cs vs" "distinct (map col_name cs)" "c \<in> set cs" for cs vs
    using that by (induction rule: list_all2_induct) (auto simp: rev_image_eqI)
  then show ?thesis
    using assms by (fastforce simp: row_ok_def cell_def column_names_def)
qed

lemma null_violation_None:
  "null_violation def row = None \<longleftrightarrow> (\<forall>c \<in> set (tb_columns def). col_not_null c \<longrightarrow> cell def row (col_name c) \<noteq> SNull)"
  by (auto simp: null_violation_def find_None_iff)

lemma key_violation_None:
  "key_violation def rows row = None \<longleftrightarrow>
     (\<forall>c \<in> set (tb_columns def). col_key c \<longrightarrow> (\<forall>r \<in> set rows. \<not> clash def (col_name c) row r))"
  by (auto simp: key_violation_def find_None_iff list_ex_iff)

lemma check_row_Inr:
  "check_row enforce db def rows row = Inr () \<longleftrightarrow>
     null_violation def row = None \<and> key_violation def rows row = None \<and> (enforce \<longrightarrow> foreign_ok db def row)"
  by (auto simp: check_row_def split: option.splits)

text \<open>The values of a statement fit the columns they are for.\<close>

definition vals_fit :: "table_def \<Rightarrow> (string \<times> sql_value) list \<Rightarrow> bool" where
  "vals_fit def vals \<longleftrightarrow>
     (\<forall>c \<in> set (tb_columns def). \<forall>v. map_of vals (col_name c) = Some v \<longrightarrow> has_type v (col_type c))"

definition defaults_fit :: "table_def \<Rightarrow> bool" where
  "defaults_fit def \<longleftrightarrow>
     (\<forall>c \<in> set (tb_columns def). \<forall>v. col_default c = Some v \<longrightarrow> has_type v (col_type c))"

lemma row_ok_map:
  "row_ok def (map g (tb_columns def)) \<longleftrightarrow> (\<forall>c \<in> set (tb_columns def). column_ok c (g c))"
  by (simp add: row_ok_def list.rel_map list_all2_same)

lemma row_ok_build:
  assumes "distinct (column_names def)" "vals_fit def vals" "defaults_fit def"
    and "null_violation def (build_row def vals) = None"
  shows "row_ok def (build_row def vals)"
proof -
  have "column_ok c (cell def (build_row def vals) (col_name c))" if "c \<in> set (tb_columns def)" for c
    using assms that
    by (auto simp: column_ok_def null_violation_None cell_build vals_fit_def defaults_fit_def split: option.splits)
  then show ?thesis
    using assms(1) unfolding build_row_def row_ok_map by (simp add: cell_map)
qed

lemma row_ok_overwrite:
  assumes "distinct (column_names def)" "vals_fit def vals" "row_ok def row"
    and "null_violation def (overwrite def vals row) = None"
  shows "row_ok def (overwrite def vals row)"
proof -
  have "column_ok c (cell def (overwrite def vals row) (col_name c))" if "c \<in> set (tb_columns def)" for c
    using assms that cell_column_ok [OF assms(3,1) that]
    by (auto simp: column_ok_def null_violation_None cell_overwrite vals_fit_def split: option.splits)
  then show ?thesis
    using assms(1) unfolding overwrite_def row_ok_map by (simp add: cell_map)
qed

subsection \<open>The statements keep the database well-formed\<close>

lemma keys_ok_append:
  assumes "keys_ok def rows" "key_violation def rows row = None"
  shows "keys_ok def (rows @ [row])"
  using assms by (auto simp: keys_ok_def key_violation_None clash_def)

lemma keys_ok_insert:
  assumes "keys_ok def (xs @ ys)" "key_violation def (xs @ ys) row = None"
  shows "keys_ok def (xs @ row # ys)"
  using assms by (auto simp: keys_ok_def key_violation_None clash_def)

lemma keys_ok_sub: "keys_ok def (xs @ row # ys) \<Longrightarrow> keys_ok def (xs @ ys)"
  by (auto simp: keys_ok_def split: if_splits)

lemma keys_ok_filter: "keys_ok def rows \<Longrightarrow> keys_ok def (filter P rows)"
proof -
  have "distinct (filter Q (map g (filter P rows)))" if "distinct (filter Q (map g rows))" for Q g
    using that by (induction rows) auto
  then show "keys_ok def rows \<Longrightarrow> keys_ok def (filter P rows)"
    unfolding keys_ok_def by blast
qed

text \<open>At most one row has a given value in a key column.\<close>

lemma keys_ok_unique:
  assumes "keys_ok def rows" "c \<in> set (tb_columns def)" "col_key c" "rows = xs @ old # ys" "cell def old (col_name c) \<noteq> SNull"
  shows "\<forall>r \<in> set (xs @ ys). cell def r (col_name c) \<noteq> cell def old (col_name c)"
proof -
  let ?f = "\<lambda>r. cell def r (col_name c)"
  have "distinct (filter (\<lambda>v. v \<noteq> SNull) (map ?f rows))"
    using assms(1-3) unfolding keys_ok_def by blast
  then have "distinct (filter (\<lambda>v. v \<noteq> SNull) (map ?f xs) @ ?f old # filter (\<lambda>v. v \<noteq> SNull) (map ?f ys))"
    using assms(5) by (simp add: assms(4))
  then have "?f old \<notin> set (filter (\<lambda>v. v \<noteq> SNull) (map ?f (xs @ ys)))"
    by simp
  moreover have "?f r \<in> set (filter (\<lambda>v. v \<noteq> SNull) (map ?f (xs @ ys)))" if "r \<in> set (xs @ ys)" "?f r \<noteq> SNull" for r
    using that by auto
  ultimately show ?thesis
    using assms(5) by metis
qed

lemma db_okD:
  assumes "db_ok enforce db" "hm_get (sq_tables db) t = Some tbl"
  shows "hm_wf (sq_tables db)" "table_ok tbl" "distinct (column_names (tbl_def tbl))"
    "\<forall>r \<in> set (tbl_rows tbl). row_ok (tbl_def tbl) r" "keys_ok (tbl_def tbl) (tbl_rows tbl)"
  using assms by (auto simp: db_ok_def table_ok_def list_all_iff)

lemma parent_present_set_rows:
  assumes "hm_get (sq_tables db) t = Some tbl"
    and "fk_table fk = t \<Longrightarrow> \<forall>r \<in> set (tbl_rows tbl). \<exists>r' \<in> set rows. cell (tbl_def tbl) r' (fk_parent fk) = cell (tbl_def tbl) r (fk_parent fk)"
    and "parent_present db fk v"
  shows "parent_present (set_rows t rows db) fk v"
  using assms by (force simp: parent_present_def get_set_rows list_ex_iff split: option.splits if_splits)

lemma db_ok_set_rows:
  assumes ok: "db_ok enforce db" and tbl: "hm_get (sq_tables db) t = Some tbl"
    and rows: "\<forall>r \<in> set rows. row_ok (tbl_def tbl) r" "keys_ok (tbl_def tbl) rows"
    and keep: "\<And>n x fk. enforce \<Longrightarrow> hm_get (sq_tables db) n = Some x \<Longrightarrow> fk \<in> set (tb_foreign_keys (tbl_def x)) \<Longrightarrow> fk_table fk = t \<Longrightarrow>
      \<forall>r \<in> set (tbl_rows tbl). \<exists>r' \<in> set rows. cell (tbl_def tbl) r' (fk_parent fk) = cell (tbl_def tbl) r (fk_parent fk)"
    and foreign: "enforce \<Longrightarrow> \<forall>r \<in> set rows. foreign_ok db (tbl_def tbl) r"
  shows "db_ok enforce (set_rows t rows db)"
proof -
  have table: "table_ok x" if "hm_get (sq_tables (set_rows t rows db)) n = Some x" for n x
    using that ok tbl rows db_okD(3) [OF ok tbl]
    by (auto simp: get_set_rows db_ok_def table_ok_def list_all_iff split: if_splits)
  have "foreign_ok (set_rows t rows db) (tbl_def x) r"
    if e: enforce and n: "hm_get (sq_tables (set_rows t rows db)) n = Some x" and r: "r \<in> set (tbl_rows x)" for n x r
  proof -
    obtain y where y: "hm_get (sq_tables db) n = Some y" "tbl_def x = tbl_def y"
      using n tbl by (auto simp: get_set_rows split: if_splits)
    have "foreign_ok db (tbl_def x) r"
    proof (cases "n = t")
      case True
      then show ?thesis
        using n r tbl foreign [OF e] by (auto simp: get_set_rows)
    next
      case False
      then show ?thesis
        using n r e ok by (auto simp: get_set_rows db_ok_def refs_ok_def list_all_iff)
    qed
    then show ?thesis
      using parent_present_set_rows [OF tbl] keep [OF e y(1)] y(2)
      by (auto simp: foreign_ok_def list_all_iff)
  qed
  then show ?thesis
    using ok table by (auto simp: db_ok_def refs_ok_def list_all_iff)
qed

lemma exec_insert_ok:
  assumes "db_ok enforce db" "exec_insert enforce t vals db = Inr db'"
    and "\<And>def. map_of (schema db) t = Some def \<Longrightarrow> vals_fit def vals \<and> defaults_fit def"
  shows "db_ok enforce db' \<and> schema db' = schema db"
proof -
  obtain tbl where tbl: "hm_get (sq_tables db) t = Some tbl"
    and row: "check_row enforce db (tbl_def tbl) (tbl_rows tbl) (build_row (tbl_def tbl) vals) = Inr ()"
    and db': "db' = set_rows t (tbl_rows tbl @ [build_row (tbl_def tbl) vals]) db"
    using assms(2) by (auto simp: exec_insert_def find_table_Inr Let_def split: sum.splits)
  note D = db_okD [OF assms(1) tbl]
  have fit: "vals_fit (tbl_def tbl) vals" "defaults_fit (tbl_def tbl)"
    using assms(3) [OF schema_get [OF tbl]] by simp_all
  have "db_ok enforce (set_rows t (tbl_rows tbl @ [build_row (tbl_def tbl) vals]) db)"
  proof (rule db_ok_set_rows [OF assms(1) tbl])
    show "\<forall>r \<in> set (tbl_rows tbl @ [build_row (tbl_def tbl) vals]). row_ok (tbl_def tbl) r"
      using D(4) row_ok_build [OF D(3) fit] row by (auto simp: check_row_Inr)
    show "keys_ok (tbl_def tbl) (tbl_rows tbl @ [build_row (tbl_def tbl) vals])"
      using keys_ok_append [OF D(5)] row by (simp add: check_row_Inr)
    show "\<forall>r \<in> set (tbl_rows tbl @ [build_row (tbl_def tbl) vals]). foreign_ok db (tbl_def tbl) r" if enforce
      using that assms(1) tbl row by (auto simp: check_row_Inr db_ok_def refs_ok_def list_all_iff)
  qed auto
  then show ?thesis
    by (simp add: db')
qed

lemma find_split:
  "find P xs = Some x \<Longrightarrow> \<exists>ys zs. xs = ys @ x # zs \<and> P x \<and> (\<forall>y \<in> set ys. \<not> P y)"
proof (induction xs)
  case Nil
  then show ?case by simp
next
  case (Cons a xs)
  show ?case
  proof (cases "P a")
    case True
    then show ?thesis
      using Cons.prems by (intro exI [of _ "[]"] exI [of _ xs]) simp
  next
    case False
    then obtain ys zs where "xs = ys @ x # zs" "P x" "\<forall>y \<in> set ys. \<not> P y"
      using Cons by auto
    then show ?thesis
      using False by (intro exI [of _ "a # ys"] exI [of _ zs]) simp
  qed
qed

text \<open>
  The row that an upsert overwrites is the only one with its key: the table splits around it.
\<close>

lemma upsert_split:
  assumes "db_ok enforce db" "hm_get (sq_tables db) t = Some tbl"
    and "find (clash (tbl_def tbl) (col_name c) row) (tbl_rows tbl) = Some old"
    and "c \<in> set (tb_columns (tbl_def tbl))" "col_key c"
  obtains xs ys where "tbl_rows tbl = xs @ old # ys" "clash (tbl_def tbl) (col_name c) row old"
    "filter (\<lambda>r. \<not> clash (tbl_def tbl) (col_name c) row r) (tbl_rows tbl) = xs @ ys"
    "\<And>new. map (\<lambda>r. if clash (tbl_def tbl) (col_name c) row r then new else r) (tbl_rows tbl) = xs @ new # ys"
proof -
  let ?cl = "clash (tbl_def tbl) (col_name c) row"
  obtain xs ys where split: "tbl_rows tbl = xs @ old # ys" "?cl old"
    using find_split [OF assms(3)] by blast
  have "cell (tbl_def tbl) old (col_name c) \<noteq> SNull"
    using split(2) by (metis clash_def)
  from keys_ok_unique [OF db_okD(5) [OF assms(1,2)] assms(4,5) split(1) this]
  have "\<forall>r \<in> set (xs @ ys). \<not> ?cl r"
    using split(2) by (auto simp: clash_def)
  then have "filter (\<lambda>r. \<not> ?cl r) xs = xs" "filter (\<lambda>r. \<not> ?cl r) ys = ys"
    "map (\<lambda>r. if ?cl r then new else r) xs = xs" "map (\<lambda>r. if ?cl r then new else r) ys = ys" for new
    by (auto simp: filter_id_conv intro: map_idI)
  then show thesis
    using split by (intro that [of xs ys]) simp_all
qed

lemma exec_upsert_ok:
  assumes "db_ok enforce db" "exec_upsert enforce t vals (col_name c) sets db = Inr db'"
    and fit: "\<And>def. map_of (schema db) t = Some def \<Longrightarrow>
      vals_fit def vals \<and> defaults_fit def \<and> c \<in> set (tb_columns def) \<and> col_key c"
    and parents: "\<And>n x fk. map_of (schema db) n = Some x \<Longrightarrow> fk \<in> set (tb_foreign_keys x) \<Longrightarrow> fk_table fk = t \<Longrightarrow>
      fk_parent fk \<notin> set sets"
    and pcol: "\<And>def n x fk. map_of (schema db) t = Some def \<Longrightarrow> map_of (schema db) n = Some x \<Longrightarrow> fk \<in> set (tb_foreign_keys x) \<Longrightarrow>
      fk_table fk = t \<Longrightarrow> fk_parent fk \<in> set (column_names def)"
  shows "db_ok enforce db' \<and> schema db' = schema db"
proof -
  obtain tbl where tbl: "hm_get (sq_tables db) t = Some tbl"
    using assms(2) by (auto simp: exec_upsert_def find_table_Inr Let_def split: sum.splits)
  let ?def = "tbl_def tbl"
  let ?row = "build_row ?def vals"
  note D = db_okD [OF assms(1) tbl]
  have F: "vals_fit ?def vals" "defaults_fit ?def" "c \<in> set (tb_columns ?def)" "col_key c"
    using fit [OF schema_get [OF tbl]] by simp_all
  have nn: "null_violation ?def ?row = None"
    using assms(2) tbl by (auto simp: exec_upsert_def find_table_def Let_def split: option.splits)
  show ?thesis
  proof (cases "find (clash ?def (col_name c) ?row) (tbl_rows tbl)")
    case None
    then have "exec_insert enforce t vals db = Inr db'"
      using assms(2) tbl nn by (simp add: exec_upsert_def find_table_def Let_def)
    then show ?thesis
      using exec_insert_ok [OF assms(1)] fit by blast
  next
    case (Some old)
    let ?vs = "filter (\<lambda>(c, _). c \<in> set sets) vals"
    let ?new = "overwrite ?def ?vs old"
    obtain xs ys where S: "tbl_rows tbl = xs @ old # ys"
      "filter (\<lambda>r. \<not> clash ?def (col_name c) ?row r) (tbl_rows tbl) = xs @ ys"
      "map (\<lambda>r. if clash ?def (col_name c) ?row r then ?new else r) (tbl_rows tbl) = xs @ ?new # ys"
      by (rule upsert_split [OF assms(1) tbl Some F(3,4)]) (rule that; simp only:)
    have chk: "check_row enforce db ?def (xs @ ys) ?new = Inr ()" and db': "db' = set_rows t (xs @ ?new # ys) db"
      using assms(2) tbl nn Some S by (auto simp: exec_upsert_def find_table_def Let_def split: sum.splits)
    have sub: "map_of ?vs k = (if k \<in> set sets then map_of vals k else None)" for k
      by (induction vals) auto
    have "vals_fit ?def ?vs"
      using F(1) by (simp add: vals_fit_def sub)
    have "db_ok enforce (set_rows t (xs @ ?new # ys) db)"
    proof (rule db_ok_set_rows [OF assms(1) tbl])
      show "\<forall>r \<in> set (xs @ ?new # ys). row_ok ?def r"
        using D(4) S(1) row_ok_overwrite [OF D(3) \<open>vals_fit ?def ?vs\<close>, of old] chk by (auto simp: check_row_Inr)
      have "keys_ok ?def (xs @ ys)"
        using D(5) unfolding S(1) by (rule keys_ok_sub)
      then show "keys_ok ?def (xs @ ?new # ys)"
        using keys_ok_insert chk by (simp only: check_row_Inr)
      show "\<forall>r \<in> set (xs @ ?new # ys). foreign_ok db ?def r" if enforce
        using that assms(1) tbl chk S(1) by (auto simp: check_row_Inr db_ok_def refs_ok_def list_all_iff)
      show "\<forall>r \<in> set (tbl_rows tbl). \<exists>r' \<in> set (xs @ ?new # ys). cell ?def r' (fk_parent fk) = cell ?def r (fk_parent fk)"
        if "hm_get (sq_tables db) n = Some x" "fk \<in> set (tb_foreign_keys (tbl_def x))" "fk_table fk = t" for n x fk
      proof -
        have "fk_parent fk \<notin> set sets" "fk_parent fk \<in> set (column_names ?def)"
          using parents pcol [OF schema_get [OF tbl]] schema_get [OF that(1)] that(2,3) by blast+
        then have "cell ?def ?new (fk_parent fk) = cell ?def old (fk_parent fk)"
          by (auto simp: column_names_def cell_overwrite [OF D(3)] sub)
        then show ?thesis
          by (auto simp: S(1))
      qed
    qed
    then show ?thesis
      by (simp add: db')
  qed
qed

lemma exec_update_ok:
  assumes "db_ok enforce db" "exec_update t vals conds db = Inr db'"
    and fit: "\<And>def. map_of (schema db) t = Some def \<Longrightarrow>
      vals_fit def vals \<and> (\<forall>c \<in> set (tb_columns def). col_key c \<longrightarrow> map_of vals (col_name c) = None) \<and>
      (\<forall>fk \<in> set (tb_foreign_keys def). map_of vals (fk_column fk) = None \<and> fk_column fk \<in> set (column_names def))"
    and pcol: "\<And>def n x fk. map_of (schema db) t = Some def \<Longrightarrow> map_of (schema db) n = Some x \<Longrightarrow> fk \<in> set (tb_foreign_keys x) \<Longrightarrow>
      fk_table fk = t \<Longrightarrow> fk_parent fk \<in> set (column_names def) \<and> map_of vals (fk_parent fk) = None"
  shows "db_ok enforce db' \<and> schema db' = schema db"
proof -
  obtain tbl where tbl: "hm_get (sq_tables db) t = Some tbl"
    using assms(2) by (auto simp: exec_update_def find_table_Inr Let_def split: sum.splits)
  let ?def = "tbl_def tbl"
  let ?upd = "\<lambda>r. if matches ?def conds r then overwrite ?def vals r else r"
  note D = db_okD [OF assms(1) tbl]
  have F: "vals_fit ?def vals" "\<forall>c \<in> set (tb_columns ?def). col_key c \<longrightarrow> map_of vals (col_name c) = None"
    "\<forall>fk \<in> set (tb_foreign_keys ?def). map_of vals (fk_column fk) = None \<and> fk_column fk \<in> set (column_names ?def)"
    using fit [OF schema_get [OF tbl]] by simp_all
  have db': "db' = set_rows t (map ?upd (tbl_rows tbl)) db"
    and nn: "\<forall>r \<in> set (tbl_rows tbl). matches ?def conds r \<longrightarrow> null_violation ?def (overwrite ?def vals r) = None"
    using assms(2) tbl by (auto simp: exec_update_def find_table_def Let_def find_None_iff split: option.splits)
  have same: "cell ?def (?upd r) k = cell ?def r k" if "k \<in> set (column_names ?def)" "map_of vals k = None" for r k
    using that by (auto simp: column_names_def cell_overwrite [OF D(3)])
  have "db_ok enforce (set_rows t (map ?upd (tbl_rows tbl)) db)"
  proof (rule db_ok_set_rows [OF assms(1) tbl])
    show "\<forall>r \<in> set (map ?upd (tbl_rows tbl)). row_ok ?def r"
      using D(4) nn row_ok_overwrite [OF D(3) F(1)] by auto
    show "keys_ok ?def (map ?upd (tbl_rows tbl))"
      unfolding keys_ok_def
    proof (intro ballI impI)
      fix c
      assume c: "c \<in> set (tb_columns ?def)" "col_key c"
      then have eq: "map (\<lambda>r. cell ?def r (col_name c)) (map ?upd (tbl_rows tbl)) =
          map (\<lambda>r. cell ?def r (col_name c)) (tbl_rows tbl)"
        using same [of "col_name c"] F(2) by (simp add: column_names_def)
      show "distinct (filter (\<lambda>v. v \<noteq> SNull) (map (\<lambda>r. cell ?def r (col_name c)) (map ?upd (tbl_rows tbl))))"
        unfolding eq using D(5) c unfolding keys_ok_def by blast
    qed
    show "\<forall>r \<in> set (tbl_rows tbl). \<exists>r' \<in> set (map ?upd (tbl_rows tbl)). cell ?def r' (fk_parent fk) = cell ?def r (fk_parent fk)"
      if "hm_get (sq_tables db) n = Some x" "fk \<in> set (tb_foreign_keys (tbl_def x))" "fk_table fk = t" for n x fk
    proof -
      have "cell ?def (?upd r) (fk_parent fk) = cell ?def r (fk_parent fk)" for r
        using same pcol [OF schema_get [OF tbl] schema_get [OF that(1)] that(2,3)] by blast
      then show ?thesis
        by (metis (no_types, lifting) image_eqI list.set_map)
    qed
    show "\<forall>r \<in> set (map ?upd (tbl_rows tbl)). foreign_ok db ?def r" if enforce
    proof -
      have "foreign_ok db ?def (?upd r) = foreign_ok db ?def r" for r
        using same [of _ r] F(3) unfolding foreign_ok_def list_all_iff by auto
      moreover have "\<forall>r \<in> set (tbl_rows tbl). foreign_ok db ?def r"
        using that assms(1) tbl by (simp add: db_ok_def refs_ok_def list_all_iff)
      ultimately show ?thesis
        by (simp only: set_map ball_simps)
    qed
  qed
  then show ?thesis
    by (simp add: db')
qed

lemma get_map_tables: "hm_get (map (\<lambda>(n, x). (n, g x)) T) n = map_option g (hm_get T n)"
  by (induction T) (auto simp: hm_get_def)

lemma cascade_def_same [simp]: "tbl_def (cascade t def gone tbl) = tbl_def tbl"
  by (simp add: cascade_def)

lemma cascade_rows:
  "(\<forall>fk \<in> set (tb_foreign_keys (tbl_def tbl)). fk_table fk \<noteq> t) \<Longrightarrow> tbl_rows (cascade t def gone tbl) = tbl_rows tbl"
  by (simp add: cascade_def list_ex_iff)

lemma cascade_survives:
  assumes "r \<in> set (tbl_rows (cascade t def gone tbl))" "fk \<in> set (tb_foreign_keys (tbl_def tbl))"
    and "fk_table fk = t" "fk_cascade fk" "cell (tbl_def tbl) r (fk_column fk) \<noteq> SNull" "g \<in> set gone"
  shows "cell def g (fk_parent fk) \<noteq> cell (tbl_def tbl) r (fk_column fk)"
  using assms by (auto simp: cascade_def list_ex_iff)

lemma cascade_sub: "r \<in> set (tbl_rows (cascade t def gone tbl)) \<Longrightarrow> r \<in> set (tbl_rows tbl)"
  by (simp add: cascade_def)

lemma table_ok_filter: "table_ok tbl \<Longrightarrow> table_ok (tbl\<lparr>tbl_rows := filter P (tbl_rows tbl)\<rparr>)"
  by (simp add: table_ok_def keys_ok_filter list_all_iff)

text \<open>What a delete leaves of the tables: the rows that match are gone, and the rows that refer to them.\<close>

definition kept_rows :: "string \<Rightarrow> (string \<times> sql_value) list \<Rightarrow> sql_table \<Rightarrow> sql_db \<Rightarrow> sql_db" where
  "kept_rows t conds tbl db = set_rows t (filter (\<lambda>r. \<not> matches (tbl_def tbl) conds r) (tbl_rows tbl)) db"

definition cascaded :: "bool \<Rightarrow> string \<Rightarrow> (string \<times> sql_value) list \<Rightarrow> sql_table \<Rightarrow> sql_table \<Rightarrow> sql_table" where
  "cascaded enforce t conds tbl =
     (if enforce then cascade t (tbl_def tbl) (filter (matches (tbl_def tbl) conds) (tbl_rows tbl)) else id)"

lemma cascaded_def_same [simp]: "tbl_def (cascaded enforce t conds tbl x) = tbl_def x"
  by (simp add: cascaded_def)

lemma exec_delete_tables:
  assumes "exec_delete enforce t conds db = Inr db'" "hm_wf (sq_tables db)"
  obtains tbl where "hm_get (sq_tables db) t = Some tbl" "schema db' = schema db" "hm_wf (sq_tables db')"
    "\<And>n. hm_get (sq_tables db') n = map_option (cascaded enforce t conds tbl) (hm_get (sq_tables (kept_rows t conds tbl db)) n)"
proof -
  obtain tbl where tbl: "hm_get (sq_tables db) t = Some tbl"
    using assms(1) by (auto simp: exec_delete_def find_table_Inr Let_def split: sum.splits)
  let ?db1 = "kept_rows t conds tbl db"
  have tables: "sq_tables db' = map (\<lambda>(n, x). (n, cascaded enforce t conds tbl x)) (sq_tables ?db1)"
    using assms(1) tbl by (auto simp: exec_delete_def find_table_def Let_def kept_rows_def cascaded_def split: if_splits)
  show ?thesis
  proof (rule that [OF tbl])
    show "schema db' = schema db"
      using schema_set_rows [of t "filter (\<lambda>r. \<not> matches (tbl_def tbl) conds r) (tbl_rows tbl)" db]
      by (simp add: schema_def tables kept_rows_def split_def comp_def)
    show "hm_wf (sq_tables db')"
      using wf_set_rows [OF assms(2), of t "filter (\<lambda>r. \<not> matches (tbl_def tbl) conds r) (tbl_rows tbl)"]
      by (simp add: hm_wf_def hm_keys_def tables kept_rows_def split_def comp_def)
    show "hm_get (sq_tables db') n = map_option (cascaded enforce t conds tbl) (hm_get (sq_tables ?db1) n)" for n
      unfolding tables get_map_tables ..
  qed
qed

lemma kept_tables_ok:
  assumes "db_ok enforce db" "hm_get (sq_tables db) t = Some tbl" "hm_get (sq_tables (kept_rows t conds tbl db)) n = Some y"
  shows "table_ok (cascaded enforce' t conds tbl y)"
proof -
  have "table_ok y"
    using assms db_okD(2) [OF assms(1,2)] table_ok_filter [of tbl "\<lambda>r. \<not> matches (tbl_def tbl) conds r"]
    by (auto simp: kept_rows_def get_set_rows db_ok_def split: if_splits)
  then show ?thesis
    by (auto simp: cascaded_def cascade_def table_ok_filter)
qed

text \<open>The parent of a row that a delete leaves is left too, when its own table refers to nothing that loses rows.\<close>

lemma parent_kept:
  assumes "hm_get (sq_tables db) t = Some tbl" "hm_get (sq_tables db) (fk_table fk) = Some p" "pr \<in> set (tbl_rows p)"
    and "\<forall>fk' \<in> set (tb_foreign_keys (tbl_def p)). fk_table fk' \<noteq> t"
    and "fk_table fk = t \<Longrightarrow> pr \<notin> set (filter (matches (tbl_def tbl) conds) (tbl_rows tbl))"
    and "\<And>n. hm_get (sq_tables db') n = map_option (cascaded True t conds tbl) (hm_get (sq_tables (kept_rows t conds tbl db)) n)"
  shows "\<exists>q. hm_get (sq_tables db') (fk_table fk) = Some q \<and> tbl_def q = tbl_def p \<and> pr \<in> set (tbl_rows q)"
  using assms by (auto simp: kept_rows_def cascaded_def get_set_rows cascade_rows)

lemma exec_delete_ok:
  assumes "db_ok enforce db" "exec_delete enforce t conds db = Inr db'"
    and cascades: "\<And>n x fk. map_of (schema db) n = Some x \<Longrightarrow> fk \<in> set (tb_foreign_keys x) \<Longrightarrow> fk_table fk = t \<Longrightarrow> fk_cascade fk"
    and leaves: "\<And>n x fk n' x' fk'. map_of (schema db) n = Some x \<Longrightarrow> fk \<in> set (tb_foreign_keys x) \<Longrightarrow> fk_table fk = t \<Longrightarrow>
      map_of (schema db) n' = Some x' \<Longrightarrow> fk' \<in> set (tb_foreign_keys x') \<Longrightarrow> fk_table fk' \<noteq> n"
  shows "db_ok enforce db' \<and> schema db' = schema db"
proof -
  obtain tbl where tbl: "hm_get (sq_tables db) t = Some tbl" and sch: "schema db' = schema db" and wf: "hm_wf (sq_tables db')"
    and get: "\<And>n. hm_get (sq_tables db') n = map_option (cascaded enforce t conds tbl) (hm_get (sq_tables (kept_rows t conds tbl db)) n)"
    using exec_delete_tables [OF assms(2)] assms(1) by (auto simp: db_ok_def)
  let ?gone = "filter (matches (tbl_def tbl) conds) (tbl_rows tbl)"
  have table: "table_ok x" if "hm_get (sq_tables db') n = Some x" for n x
    using that kept_tables_ok [OF assms(1) tbl] by (auto simp: get)
  have "foreign_ok db' (tbl_def x) r"
    if e: enforce and n: "hm_get (sq_tables db') n = Some x" and r: "r \<in> set (tbl_rows x)" for n x r
    unfolding foreign_ok_def list_all_iff
  proof (intro ballI)
    fix fk
    assume fk: "fk \<in> set (tb_foreign_keys (tbl_def x))"
    let ?v = "cell (tbl_def x) r (fk_column fk)"
    obtain y where y: "hm_get (sq_tables db) n = Some y" "tbl_def x = tbl_def y" "r \<in> set (tbl_rows y)"
      and surv: "r \<in> set (tbl_rows (cascade t (tbl_def tbl) ?gone (x\<lparr>tbl_rows := tbl_rows y\<rparr>)))"
      using n r e tbl by (auto simp: get kept_rows_def cascaded_def get_set_rows cascade_def split: if_splits)
    have sx: "map_of (schema db) n = Some (tbl_def x)"
      using schema_get [OF y(1)] y(2) by simp
    show "?v = SNull \<or> parent_present db' fk ?v"
    proof (cases "?v = SNull")
      case True
      then show ?thesis by simp
    next
      case False
      have "foreign_ok db (tbl_def x) r"
        using assms(1) e y by (auto simp: db_ok_def refs_ok_def list_all_iff)
      then obtain p pr where p: "hm_get (sq_tables db) (fk_table fk) = Some p" "pr \<in> set (tbl_rows p)"
        "cell (tbl_def p) pr (fk_parent fk) = ?v"
        using fk False by (auto simp: foreign_ok_def list_all_iff parent_present_def list_ex_iff split: option.splits)
      have noref: "\<forall>fk' \<in> set (tb_foreign_keys (tbl_def p)). fk_table fk' \<noteq> t"
        using leaves [OF schema_get [OF p(1)] _ _ sx fk] by blast
      have "pr \<notin> set ?gone" if "fk_table fk = t"
        using cascade_survives [OF surv, of fk pr] fk that cascades [OF sx fk that] False p(1,3) tbl by auto
      then have "\<exists>q. hm_get (sq_tables db') (fk_table fk) = Some q \<and> tbl_def q = tbl_def p \<and> pr \<in> set (tbl_rows q)"
        by (rule parent_kept [OF tbl p(1,2) noref]) (use get e in simp_all)
      then show ?thesis
        using p(3) by (auto simp: parent_present_def list_ex_iff)
    qed
  qed
  then show ?thesis
    using wf table sch by (auto simp: db_ok_def refs_ok_def list_all_iff)
qed

end
