(* ===== verification/Core_Database.thy ===== *)
theory Core_Database
  imports ProtoTypes Store_Contracts Core_Sql Service_Registry
begin

text \<open>
  The database layer of \<^verbatim>\<open>core/src/database.rs\<close>: its schema and migrations, and the operations on
  devices, sessions, configuration entries, sync jobs and sync conflicts. Statements have the
  meaning that \<open>Core_Sql\<close> gives them. The surroundings of a call are a record \<open>db_env\<close>: whether the
  directory and the pool can be made and a connection be had, which statements of the call the
  engine fails (a full disk, a busy file), the clock at each statement, and whether foreign keys are
  enforced. The order of the rows of a result is the order of insertion here; the statements have no
  \<open>ORDER BY\<close>, so that the properties speak of the rows and not of their order.
\<close>

subsection \<open>Schema\<close>

definition column :: "string \<Rightarrow> sql_type \<Rightarrow> bool \<Rightarrow> sql_value option \<Rightarrow> bool \<Rightarrow> sql_column" where
  "column c ty nn d k = \<lparr>col_name = c, col_type = ty, col_not_null = nn, col_default = d, col_key = k\<rparr>"

definition schema_migrations_table :: table_def where
  "schema_migrations_table =
     \<lparr>tb_name = ''schema_migrations'',
      tb_columns =
        [column ''version'' T_Integer False None True,
         column ''applied_at'' T_Integer True None False],
      tb_foreign_keys = []\<rparr>"

definition devices_table :: table_def where
  "devices_table =
     \<lparr>tb_name = ''devices'',
      tb_columns =
        [column ''id'' T_Blob False None True,
         column ''name'' T_Text False None False,
         column ''address'' T_Text True None True,
         column ''paired'' T_Integer True (Some (SInt 0)) False,
         column ''trusted'' T_Integer True (Some (SInt 0)) False,
         column ''psk'' T_Blob False None False,
         column ''last_seen'' T_Integer False None False,
         column ''created_at'' T_Integer True None False,
         column ''metadata'' T_Text False None False],
      tb_foreign_keys = []\<rparr>"

definition sessions_table :: table_def where
  "sessions_table =
     \<lparr>tb_name = ''sessions'',
      tb_columns =
        [column ''id'' T_Blob False None True,
         column ''device_id'' T_Blob True None False,
         column ''protocol_version'' T_Text True None False,
         column ''session_keys'' T_Blob False None False,
         column ''capabilities'' T_Text False None False,
         column ''state'' T_Text True None False,
         column ''created_at'' T_Integer True None False,
         column ''last_activity'' T_Integer True None False,
         column ''bytes_sent'' T_Integer False (Some (SInt 0)) False,
         column ''bytes_received'' T_Integer False (Some (SInt 0)) False],
      tb_foreign_keys = [\<lparr>fk_column = ''device_id'', fk_table = ''devices'', fk_parent = ''id'', fk_cascade = True\<rparr>]\<rparr>"

definition services_table :: table_def where
  "services_table =
     \<lparr>tb_name = ''services'',
      tb_columns =
        [column ''id'' T_Text False None True,
         column ''session_id'' T_Blob True None False,
         column ''name'' T_Text True None False,
         column ''version'' T_Integer True None False,
         column ''channel_id'' T_Integer True None False,
         column ''channel_type'' T_Text True None False,
         column ''active'' T_Integer True (Some (SInt 0)) False,
         column ''healthy'' T_Integer True (Some (SInt 1)) False,
         column ''registered_at'' T_Integer True None False,
         column ''last_heartbeat'' T_Integer False None False,
         column ''metadata'' T_Text False None False],
      tb_foreign_keys = [\<lparr>fk_column = ''session_id'', fk_table = ''sessions'', fk_parent = ''id'', fk_cascade = True\<rparr>]\<rparr>"

definition sync_jobs_table :: table_def where
  "sync_jobs_table =
     \<lparr>tb_name = ''sync_jobs'',
      tb_columns =
        [column ''id'' T_Text False None True,
         column ''name'' T_Text True None False,
         column ''description'' T_Text False None False,
         column ''direction'' T_Text True None False,
         column ''local_path'' T_Text True None False,
         column ''remote_path'' T_Text True None False,
         column ''enabled'' T_Integer True (Some (SInt 1)) False,
         column ''auto_sync'' T_Integer True (Some (SInt 0)) False,
         column ''schedule_type'' T_Text False None False,
         column ''schedule_value'' T_Text False None False,
         column ''conflict_strategy'' T_Text True (Some (SText ''last_write_wins'')) False,
         column ''filters'' T_Text False None False,
         column ''status'' T_Text True (Some (SText ''idle'')) False,
         column ''last_sync'' T_Integer False None False,
         column ''created_at'' T_Integer True None False,
         column ''updated_at'' T_Integer True None False,
         column ''stats'' T_Text False None False],
      tb_foreign_keys = []\<rparr>"

definition sync_conflicts_table :: table_def where
  "sync_conflicts_table =
     \<lparr>tb_name = ''sync_conflicts'',
      tb_columns =
        [column ''id'' T_Text False None True,
         column ''job_id'' T_Text True None False,
         column ''local_path'' T_Text True None False,
         column ''remote_path'' T_Text True None False,
         column ''local_metadata'' T_Text False None False,
         column ''remote_metadata'' T_Text False None False,
         column ''local_hash'' T_Text False None False,
         column ''remote_hash'' T_Text False None False,
         column ''detected_at'' T_Integer True None False,
         column ''resolved'' T_Integer True (Some (SInt 0)) False,
         column ''resolution_strategy'' T_Text False None False],
      tb_foreign_keys = [\<lparr>fk_column = ''job_id'', fk_table = ''sync_jobs'', fk_parent = ''id'', fk_cascade = True\<rparr>]\<rparr>"

definition photo_backup_sessions_table :: table_def where
  "photo_backup_sessions_table =
     \<lparr>tb_name = ''photo_backup_sessions'',
      tb_columns =
        [column ''id'' T_Text False None True,
         column ''device_id'' T_Blob True None False,
         column ''status'' T_Text True None False,
         column ''total_photos'' T_Integer False (Some (SInt 0)) False,
         column ''backed_up'' T_Integer False (Some (SInt 0)) False,
         column ''skipped'' T_Integer False (Some (SInt 0)) False,
         column ''errors'' T_Integer False (Some (SInt 0)) False,
         column ''bytes_total'' T_Integer False (Some (SInt 0)) False,
         column ''bytes_transferred'' T_Integer False (Some (SInt 0)) False,
         column ''started_at'' T_Integer True None False,
         column ''completed_at'' T_Integer False None False,
         column ''config'' T_Text False None False],
      tb_foreign_keys = []\<rparr>"

definition photos_table :: table_def where
  "photos_table =
     \<lparr>tb_name = ''photos'',
      tb_columns =
        [column ''id'' T_Text False None True,
         column ''backup_session_id'' T_Text False None False,
         column ''filename'' T_Text True None False,
         column ''path'' T_Text True None False,
         column ''size'' T_Integer True None False,
         column ''mime_type'' T_Text False None False,
         column ''width'' T_Integer False None False,
         column ''height'' T_Integer False None False,
         column ''created_time'' T_Integer True None False,
         column ''modified_time'' T_Integer True None False,
         column ''hash'' T_Text False None False,
         column ''exif'' T_Text False None False,
         column ''location_lat'' T_Real False None False,
         column ''location_lon'' T_Real False None False,
         column ''albums'' T_Text False None False,
         column ''favorite'' T_Integer False (Some (SInt 0)) False,
         column ''trashed'' T_Integer False (Some (SInt 0)) False],
      tb_foreign_keys = [\<lparr>fk_column = ''backup_session_id'', fk_table = ''photo_backup_sessions'', fk_parent = ''id'', fk_cascade = False\<rparr>]\<rparr>"

definition shell_sessions_table :: table_def where
  "shell_sessions_table =
     \<lparr>tb_name = ''shell_sessions'',
      tb_columns =
        [column ''id'' T_Text False None True,
         column ''device_id'' T_Blob True None False,
         column ''name'' T_Text False None False,
         column ''working_directory'' T_Text False None False,
         column ''environment'' T_Text False None False,
         column ''state'' T_Text True None False,
         column ''cols'' T_Integer False None False,
         column ''rows'' T_Integer False None False,
         column ''created_at'' T_Integer True None False,
         column ''last_activity'' T_Integer True None False],
      tb_foreign_keys = [\<lparr>fk_column = ''device_id'', fk_table = ''devices'', fk_parent = ''id'', fk_cascade = True\<rparr>]\<rparr>"

definition shell_history_table :: table_def where
  "shell_history_table =
     \<lparr>tb_name = ''shell_history'',
      tb_columns =
        [column ''id'' T_Integer False None True,
         column ''session_id'' T_Text True None False,
         column ''command'' T_Text True None False,
         column ''exit_code'' T_Integer False None False,
         column ''executed_at'' T_Integer True None False],
      tb_foreign_keys = [\<lparr>fk_column = ''session_id'', fk_table = ''shell_sessions'', fk_parent = ''id'', fk_cascade = True\<rparr>]\<rparr>"

definition config_table :: table_def where
  "config_table =
     \<lparr>tb_name = ''config'',
      tb_columns =
        [column ''key'' T_Text False None True,
         column ''value'' T_Text True None False,
         column ''description'' T_Text False None False,
         column ''read_only'' T_Integer False (Some (SInt 0)) False,
         column ''secret'' T_Integer False (Some (SInt 0)) False,
         column ''updated_at'' T_Integer True None False],
      tb_foreign_keys = []\<rparr>"

definition migration_001_initial_schema :: "ddl list" where
  "migration_001_initial_schema = map CreateTable
     [devices_table, sessions_table, services_table, sync_jobs_table, sync_conflicts_table,
      photo_backup_sessions_table, photos_table, shell_sessions_table, shell_history_table, config_table]"

definition migration_002_add_indexes :: "ddl list" where
  "migration_002_add_indexes =
     [CreateIndex ''idx_devices_address'' ''devices'' ''address'',
      CreateIndex ''idx_devices_paired'' ''devices'' ''paired'',
      CreateIndex ''idx_devices_trusted'' ''devices'' ''trusted'',
      CreateIndex ''idx_sessions_device'' ''sessions'' ''device_id'',
      CreateIndex ''idx_sessions_state'' ''sessions'' ''state'',
      CreateIndex ''idx_services_session'' ''services'' ''session_id'',
      CreateIndex ''idx_sync_jobs_enabled'' ''sync_jobs'' ''enabled'',
      CreateIndex ''idx_sync_conflicts_job'' ''sync_conflicts'' ''job_id'',
      CreateIndex ''idx_photos_session'' ''photos'' ''backup_session_id'',
      CreateIndex ''idx_photos_hash'' ''photos'' ''hash'',
      CreateIndex ''idx_shell_sessions_device'' ''shell_sessions'' ''device_id'',
      CreateIndex ''idx_shell_history_session'' ''shell_history'' ''session_id'']"

text \<open>The third migration creates a table that the first has created; the rest do nothing.\<close>

definition migration_003_add_config_table :: "ddl list" where
  "migration_003_add_config_table = [CreateTable config_table]"

definition migrations :: "ddl list list" where
  "migrations = [migration_001_initial_schema, migration_002_add_indexes, migration_003_add_config_table, [], [], [], []]"

subsection \<open>Connections, statements and the clock\<close>

record db_env =
  de_dir_error :: "string option"
  de_build_error :: "string option"
  de_pool_error :: "string option"
  de_statement_error :: "nat \<Rightarrow> string option"
  de_clock :: "nat \<Rightarrow> nat option"
  de_enforce :: bool

definition db_err :: "string \<Rightarrow> failure" where
  "db_err e = Err (Database e)"

definition get_connection :: "db_env \<Rightarrow> unit result" where
  "get_connection env = (case de_pool_error env of Some e \<Rightarrow> Inl (Err (Database e)) | None \<Rightarrow> Inr ())"

text \<open>
  Milliseconds since the epoch, cast to 64 bits; a clock before the epoch makes \<open>unwrap\<close> panic. The
  number is that of the statement the time is for.
\<close>

definition db_timestamp :: "db_env \<Rightarrow> nat \<Rightarrow> i64 result" where
  "db_timestamp env n =
     (case de_clock env n of None \<Rightarrow> Inl (Panic ''SystemTimeError'') | Some ms \<Rightarrow> Inr (of_nat ms))"

definition statement :: "db_env \<Rightarrow> nat \<Rightarrow> string + 'a \<Rightarrow> 'a result" where
  "statement env n r =
     (case de_statement_error env n of
        Some e \<Rightarrow> Inl (db_err e)
      | None \<Rightarrow> (case r of Inl e \<Rightarrow> Inl (db_err e) | Inr a \<Rightarrow> Inr a))"

text \<open>A call that executes one statement, which takes effect wholly or not at all.\<close>

definition execute :: "db_env \<Rightarrow> (sql_db \<Rightarrow> string + sql_db) \<Rightarrow> sql_db \<Rightarrow> unit result \<times> sql_db" where
  "execute env st db =
     (case bindR (get_connection env) (\<lambda>_. statement env 0 (st db)) of
        Inl e \<Rightarrow> (Inl e, db)
      | Inr db' \<Rightarrow> (Inr (), db'))"

definition execute_now :: "db_env \<Rightarrow> (i64 \<Rightarrow> sql_db \<Rightarrow> string + sql_db) \<Rightarrow> sql_db \<Rightarrow> unit result \<times> sql_db" where
  "execute_now env st db =
     (case bindR (get_connection env) (\<lambda>_. db_timestamp env 0) of
        Inl e \<Rightarrow> (Inl e, db)
      | Inr now \<Rightarrow> execute env (st now) db)"

text \<open>\<open>query_row\<close> with \<open>optional\<close> reads the first row, \<open>query_map\<close> all of them.\<close>

definition query_optional ::
  "db_env \<Rightarrow> string \<Rightarrow> string list \<Rightarrow> (table_def \<Rightarrow> sql_value list \<Rightarrow> bool) \<Rightarrow> (sql_value list \<Rightarrow> string + 'a) \<Rightarrow> sql_db \<Rightarrow> 'a option result" where
  "query_optional env t cols P rd db =
     bindR (get_connection env) (\<lambda>_. statement env 0 (bindE (exec_select t cols P db) (\<lambda>rows.
       case rows of [] \<Rightarrow> Inr None | row # _ \<Rightarrow> bindE (rd row) (\<lambda>r. Inr (Some r)))))"

definition query_all ::
  "db_env \<Rightarrow> string \<Rightarrow> string list \<Rightarrow> (table_def \<Rightarrow> sql_value list \<Rightarrow> bool) \<Rightarrow> (sql_value list \<Rightarrow> string + 'a) \<Rightarrow> sql_db \<Rightarrow> 'a list result" where
  "query_all env t cols P rd db =
     bindR (get_connection env) (\<lambda>_. statement env 0 (bindE (exec_select t cols P db) (mapE rd)))"

definition where_eq :: "string \<Rightarrow> sql_value \<Rightarrow> table_def \<Rightarrow> sql_value list \<Rightarrow> bool" where
  "where_eq c v = (\<lambda>def. matches def [(c, v)])"

subsection \<open>Migrations\<close>

text \<open>A batch stops at the first statement that fails; what ran before it stays.\<close>

primrec run_batch :: "db_env \<Rightarrow> nat \<Rightarrow> ddl list \<Rightarrow> sql_db \<Rightarrow> unit result \<times> sql_db" where
  "run_batch env n [] db = (Inr (), db)"
| "run_batch env n (d # ds) db =
     (case statement env n (exec_ddl d db) of
        Inl e \<Rightarrow> (Inl e, db)
      | Inr db' \<Rightarrow> run_batch env (Suc n) ds db')"

primrec run_versions :: "db_env \<Rightarrow> nat \<Rightarrow> i64 \<Rightarrow> ddl list list \<Rightarrow> sql_db \<Rightarrow> unit result \<times> sql_db" where
  "run_versions env n v [] db = (Inr (), db)"
| "run_versions env n v (m # ms) db =
     (case statement env n (exec_select ''schema_migrations'' [''version''] (where_eq ''version'' (SInt v)) db) of
        Inl e \<Rightarrow> (Inl e, db)
      | Inr rows \<Rightarrow>
          if rows \<noteq> [] then run_versions env (Suc n) (v + 1) ms db
          else (case run_batch env (Suc n) m db of
                  (Inl e, db1) \<Rightarrow> (Inl e, db1)
                | (Inr _, db1) \<Rightarrow>
                    (let k = Suc (n + length m) in
                     case db_timestamp env k of
                       Inl e \<Rightarrow> (Inl e, db1)
                     | Inr now \<Rightarrow>
                         (case statement env k (exec_insert (de_enforce env) ''schema_migrations''
                                 [(''version'', SInt v), (''applied_at'', SInt now)] db1) of
                            Inl e \<Rightarrow> (Inl e, db1)
                          | Inr db2 \<Rightarrow> run_versions env (Suc k) (v + 1) ms db2))))"

definition run_migrations :: "db_env \<Rightarrow> sql_db \<Rightarrow> unit result \<times> sql_db" where
  "run_migrations env db =
     (case statement env 0 (exec_ddl (CreateTable schema_migrations_table) db) of
        Inl e \<Rightarrow> (Inl e, db)
      | Inr db1 \<Rightarrow> run_versions env 1 1 migrations db1)"

definition migrate :: "db_env \<Rightarrow> sql_db \<Rightarrow> unit result \<times> sql_db" where
  "migrate env db =
     (case get_connection env of Inl e \<Rightarrow> (Inl e, db) | Inr _ \<Rightarrow> run_migrations env db)"

text \<open>Opening the database in a file that holds \<open>db\<close>; what a file without one holds is \<open>empty_db\<close>.\<close>

definition Database_new :: "db_env \<Rightarrow> sql_db \<Rightarrow> unit result \<times> sql_db" where
  "Database_new env db =
     (case de_dir_error env of
        Some e \<Rightarrow> (Inl (Err (Io e)), db)
      | None \<Rightarrow>
          (case de_build_error env of
             Some e \<Rightarrow> (Inl (Err (Database e)), db)
           | None \<Rightarrow> migrate env db))"

subsection \<open>Devices\<close>

record DeviceRecord =
  dr_id :: DeviceId
  dr_name :: "string option"
  dr_address :: string
  dr_paired :: bool
  dr_trusted :: bool
  dr_psk :: "bytes option"
  dr_last_seen :: "i64 option"
  dr_created_at :: i64
  dr_metadata :: string

text \<open>What \<open>row.get(i)\<close> reads, column by column; the first that does not fit ends the reading.\<close>

definition DeviceRecord_read :: "sql_value list \<Rightarrow> string + DeviceRecord" where
  "DeviceRecord_read row =
     bindE (from_blob (row ! 0)) (\<lambda>i.
     bindE (from_option from_text (row ! 1)) (\<lambda>nm.
     bindE (from_text (row ! 2)) (\<lambda>address.
     bindE (from_bool (row ! 3)) (\<lambda>paired.
     bindE (from_bool (row ! 4)) (\<lambda>trusted.
     bindE (from_option from_blob (row ! 5)) (\<lambda>psk.
     bindE (from_option from_int (row ! 6)) (\<lambda>last_seen.
     bindE (from_int (row ! 7)) (\<lambda>created_at.
     bindE (from_text (row ! 8)) (\<lambda>metadata.
       Inr \<lparr>dr_id = \<lparr>did_value = i\<rparr>, dr_name = nm, dr_address = address, dr_paired = paired,
         dr_trusted = trusted, dr_psk = psk, dr_last_seen = last_seen, dr_created_at = created_at,
         dr_metadata = metadata\<rparr>)))))))))"

definition device_cols :: "string list" where
  "device_cols = [''id'', ''name'', ''address'', ''paired'', ''trusted'', ''psk'', ''last_seen'', ''created_at'', ''metadata'']"

definition upsert_device ::
  "db_env \<Rightarrow> DeviceId \<Rightarrow> string option \<Rightarrow> string \<Rightarrow> bool \<Rightarrow> bool \<Rightarrow> bytes option \<Rightarrow> sql_db \<Rightarrow> unit result \<times> sql_db" where
  "upsert_device env device_id nm address paired trusted psk =
     execute_now env (\<lambda>now. exec_upsert (de_enforce env) ''devices''
       [(''id'', SBlob (did_value device_id)), (''name'', to_option SText nm), (''address'', SText address),
        (''paired'', to_bool paired), (''trusted'', to_bool trusted), (''psk'', to_option SBlob psk),
        (''last_seen'', SInt now), (''created_at'', SInt now), (''metadata'', SText ''{}'')]
       ''id'' [''name'', ''address'', ''paired'', ''trusted'', ''psk'', ''last_seen''])"

definition get_device :: "db_env \<Rightarrow> DeviceId \<Rightarrow> sql_db \<Rightarrow> DeviceRecord option result" where
  "get_device env device_id =
     query_optional env ''devices'' device_cols (where_eq ''id'' (SBlob (did_value device_id))) DeviceRecord_read"

definition get_paired_devices :: "db_env \<Rightarrow> sql_db \<Rightarrow> DeviceRecord list result" where
  "get_paired_devices env = query_all env ''devices'' device_cols (where_eq ''paired'' (SInt 1)) DeviceRecord_read"

subsection \<open>Sessions\<close>

record SessionRecord =
  sr_id :: SessionId
  sr_device_id :: DeviceId
  sr_protocol_version :: string
  sr_session_keys :: bytes
  sr_capabilities :: string
  sr_state :: string
  sr_created_at :: i64
  sr_last_activity :: i64
  sr_bytes_sent :: i64
  sr_bytes_received :: i64

definition SessionRecord_read :: "sql_value list \<Rightarrow> string + SessionRecord" where
  "SessionRecord_read row =
     bindE (from_blob (row ! 0)) (\<lambda>i.
     bindE (from_blob (row ! 1)) (\<lambda>device_id.
     bindE (from_text (row ! 2)) (\<lambda>protocol_version.
     bindE (from_blob (row ! 3)) (\<lambda>session_keys.
     bindE (from_text (row ! 4)) (\<lambda>capabilities.
     bindE (from_text (row ! 5)) (\<lambda>state.
     bindE (from_int (row ! 6)) (\<lambda>created_at.
     bindE (from_int (row ! 7)) (\<lambda>last_activity.
     bindE (from_int (row ! 8)) (\<lambda>bytes_sent.
     bindE (from_int (row ! 9)) (\<lambda>bytes_received.
       Inr \<lparr>sr_id = \<lparr>sid_value = i\<rparr>, sr_device_id = \<lparr>did_value = device_id\<rparr>,
         sr_protocol_version = protocol_version, sr_session_keys = session_keys,
         sr_capabilities = capabilities, sr_state = state, sr_created_at = created_at,
         sr_last_activity = last_activity, sr_bytes_sent = bytes_sent,
         sr_bytes_received = bytes_received\<rparr>))))))))))"

definition session_cols :: "string list" where
  "session_cols = [''id'', ''device_id'', ''protocol_version'', ''session_keys'', ''capabilities'', ''state'',
     ''created_at'', ''last_activity'', ''bytes_sent'', ''bytes_received'']"

definition create_session ::
  "db_env \<Rightarrow> SessionId \<Rightarrow> DeviceId \<Rightarrow> string \<Rightarrow> bytes \<Rightarrow> string \<Rightarrow> sql_db \<Rightarrow> unit result \<times> sql_db" where
  "create_session env session_id device_id protocol_version session_keys capabilities =
     execute_now env (\<lambda>now. exec_insert (de_enforce env) ''sessions''
       [(''id'', SBlob (sid_value session_id)), (''device_id'', SBlob (did_value device_id)),
        (''protocol_version'', SText protocol_version), (''session_keys'', SBlob session_keys),
        (''capabilities'', SText capabilities), (''state'', SText ''opening''),
        (''created_at'', SInt now), (''last_activity'', SInt now)])"

definition update_session_state :: "db_env \<Rightarrow> SessionId \<Rightarrow> string \<Rightarrow> sql_db \<Rightarrow> unit result \<times> sql_db" where
  "update_session_state env session_id state =
     execute_now env (\<lambda>now. exec_update ''sessions'' [(''state'', SText state), (''last_activity'', SInt now)]
       [(''id'', SBlob (sid_value session_id))])"

definition get_session :: "db_env \<Rightarrow> SessionId \<Rightarrow> sql_db \<Rightarrow> SessionRecord option result" where
  "get_session env session_id =
     query_optional env ''sessions'' session_cols (where_eq ''id'' (SBlob (sid_value session_id))) SessionRecord_read"

definition get_active_sessions :: "db_env \<Rightarrow> sql_db \<Rightarrow> SessionRecord list result" where
  "get_active_sessions env =
     query_all env ''sessions'' session_cols
       (\<lambda>def row. cell def row ''state'' \<in> SText ` {''opening'', ''negotiating'', ''authenticating'', ''active''})
       SessionRecord_read"

subsection \<open>Configuration entries\<close>

record ConfigRecord =
  cr_key :: string
  cr_value :: string
  cr_description :: "string option"
  cr_read_only :: bool
  cr_secret :: bool
  cr_updated_at :: i64

definition ConfigRecord_read :: "sql_value list \<Rightarrow> string + ConfigRecord" where
  "ConfigRecord_read row =
     bindE (from_text (row ! 0)) (\<lambda>key.
     bindE (from_text (row ! 1)) (\<lambda>value.
     bindE (from_option from_text (row ! 2)) (\<lambda>description.
     bindE (from_bool (row ! 3)) (\<lambda>read_only.
     bindE (from_bool (row ! 4)) (\<lambda>secret.
     bindE (from_int (row ! 5)) (\<lambda>updated_at.
       Inr \<lparr>cr_key = key, cr_value = value, cr_description = description, cr_read_only = read_only,
         cr_secret = secret, cr_updated_at = updated_at\<rparr>))))))"

definition config_cols :: "string list" where
  "config_cols = [''key'', ''value'', ''description'', ''read_only'', ''secret'', ''updated_at'']"

definition set_config ::
  "db_env \<Rightarrow> string \<Rightarrow> string \<Rightarrow> string option \<Rightarrow> bool \<Rightarrow> bool \<Rightarrow> sql_db \<Rightarrow> unit result \<times> sql_db" where
  "set_config env key value description read_only secret =
     execute_now env (\<lambda>now. exec_upsert (de_enforce env) ''config''
       [(''key'', SText key), (''value'', SText value), (''description'', to_option SText description),
        (''read_only'', to_bool read_only), (''secret'', to_bool secret), (''updated_at'', SInt now)]
       ''key'' [''value'', ''description'', ''read_only'', ''secret'', ''updated_at''])"

definition db_get_config :: "db_env \<Rightarrow> string \<Rightarrow> sql_db \<Rightarrow> string option result" where
  "db_get_config env key =
     query_optional env ''config'' [''value''] (where_eq ''key'' (SText key)) (\<lambda>row. from_text (row ! 0))"

definition delete_config :: "db_env \<Rightarrow> string \<Rightarrow> sql_db \<Rightarrow> unit result \<times> sql_db" where
  "delete_config env key =
     execute env (exec_delete (de_enforce env) ''config'' [(''key'', SText key), (''read_only'', SInt 0)])"

definition list_config :: "db_env \<Rightarrow> sql_db \<Rightarrow> ConfigRecord list result" where
  "list_config env = query_all env ''config'' config_cols (\<lambda>def row. True) ConfigRecord_read"

subsection \<open>Sync jobs\<close>

record SyncJobRecord =
  sj_id :: string
  sj_name :: string
  sj_description :: string
  sj_direction :: string
  sj_local_path :: string
  sj_remote_path :: string
  sj_enabled :: bool
  sj_auto_sync :: bool
  sj_schedule_type :: "string option"
  sj_schedule_value :: "string option"
  sj_conflict_strategy :: string
  sj_filters :: string
  sj_status :: string
  sj_last_sync :: "i64 option"
  sj_created_at :: i64
  sj_updated_at :: i64
  sj_stats :: string

definition SyncJobRecord_read :: "sql_value list \<Rightarrow> string + SyncJobRecord" where
  "SyncJobRecord_read row =
     bindE (from_text (row ! 0)) (\<lambda>i.
     bindE (from_text (row ! 1)) (\<lambda>nm.
     bindE (from_text (row ! 2)) (\<lambda>description.
     bindE (from_text (row ! 3)) (\<lambda>direction.
     bindE (from_text (row ! 4)) (\<lambda>local_path.
     bindE (from_text (row ! 5)) (\<lambda>remote_path.
     bindE (from_bool (row ! 6)) (\<lambda>enabled.
     bindE (from_bool (row ! 7)) (\<lambda>auto_sync.
     bindE (from_option from_text (row ! 8)) (\<lambda>schedule_type.
     bindE (from_option from_text (row ! 9)) (\<lambda>schedule_value.
     bindE (from_text (row ! 10)) (\<lambda>conflict_strategy.
     bindE (from_text (row ! 11)) (\<lambda>filters.
     bindE (from_text (row ! 12)) (\<lambda>status.
     bindE (from_option from_int (row ! 13)) (\<lambda>last_sync.
     bindE (from_int (row ! 14)) (\<lambda>created_at.
     bindE (from_int (row ! 15)) (\<lambda>updated_at.
     bindE (from_text (row ! 16)) (\<lambda>stats.
       Inr \<lparr>sj_id = i, sj_name = nm, sj_description = description, sj_direction = direction,
         sj_local_path = local_path, sj_remote_path = remote_path, sj_enabled = enabled,
         sj_auto_sync = auto_sync, sj_schedule_type = schedule_type,
         sj_schedule_value = schedule_value, sj_conflict_strategy = conflict_strategy,
         sj_filters = filters, sj_status = status, sj_last_sync = last_sync,
         sj_created_at = created_at, sj_updated_at = updated_at, sj_stats = stats\<rparr>)))))))))))))))))"

definition sync_job_cols :: "string list" where
  "sync_job_cols = [''id'', ''name'', ''description'', ''direction'', ''local_path'', ''remote_path'', ''enabled'',
     ''auto_sync'', ''schedule_type'', ''schedule_value'', ''conflict_strategy'', ''filters'', ''status'',
     ''last_sync'', ''created_at'', ''updated_at'', ''stats'']"

definition create_sync_job :: "db_env \<Rightarrow> SyncJobRecord \<Rightarrow> sql_db \<Rightarrow> unit result \<times> sql_db" where
  "create_sync_job env job =
     execute env (exec_insert (de_enforce env) ''sync_jobs''
       [(''id'', SText (sj_id job)), (''name'', SText (sj_name job)), (''description'', SText (sj_description job)),
        (''direction'', SText (sj_direction job)), (''local_path'', SText (sj_local_path job)),
        (''remote_path'', SText (sj_remote_path job)), (''enabled'', to_bool (sj_enabled job)),
        (''auto_sync'', to_bool (sj_auto_sync job)),
        (''schedule_type'', to_option SText (sj_schedule_type job)),
        (''schedule_value'', to_option SText (sj_schedule_value job)),
        (''conflict_strategy'', SText (sj_conflict_strategy job)), (''filters'', SText (sj_filters job)),
        (''status'', SText ''idle''), (''last_sync'', to_option SInt (sj_last_sync job)),
        (''created_at'', SInt (sj_created_at job)), (''updated_at'', SInt (sj_updated_at job)),
        (''stats'', SText ''{}'')])"

definition get_sync_job :: "db_env \<Rightarrow> string \<Rightarrow> sql_db \<Rightarrow> SyncJobRecord option result" where
  "get_sync_job env job_id =
     query_optional env ''sync_jobs'' sync_job_cols (where_eq ''id'' (SText job_id)) SyncJobRecord_read"

definition list_sync_jobs :: "db_env \<Rightarrow> sql_db \<Rightarrow> SyncJobRecord list result" where
  "list_sync_jobs env = query_all env ''sync_jobs'' sync_job_cols (\<lambda>def row. True) SyncJobRecord_read"

definition update_sync_job_status :: "db_env \<Rightarrow> string \<Rightarrow> string \<Rightarrow> sql_db \<Rightarrow> unit result \<times> sql_db" where
  "update_sync_job_status env job_id status =
     execute_now env (\<lambda>now. exec_update ''sync_jobs'' [(''status'', SText status), (''updated_at'', SInt now)]
       [(''id'', SText job_id)])"

definition update_sync_job_last_sync :: "db_env \<Rightarrow> string \<Rightarrow> i64 \<Rightarrow> sql_db \<Rightarrow> unit result \<times> sql_db" where
  "update_sync_job_last_sync env job_id last_sync =
     execute_now env (\<lambda>now. exec_update ''sync_jobs'' [(''last_sync'', SInt last_sync), (''updated_at'', SInt now)]
       [(''id'', SText job_id)])"

definition delete_sync_job :: "db_env \<Rightarrow> string \<Rightarrow> sql_db \<Rightarrow> unit result \<times> sql_db" where
  "delete_sync_job env job_id =
     execute env (exec_delete (de_enforce env) ''sync_jobs'' [(''id'', SText job_id)])"

subsection \<open>Sync conflicts\<close>

record SyncConflictRecord =
  sc_id :: string
  sc_job_id :: string
  sc_local_path :: string
  sc_remote_path :: string
  sc_local_metadata :: string
  sc_remote_metadata :: string
  sc_local_hash :: string
  sc_remote_hash :: string
  sc_detected_at :: i64
  sc_resolved :: bool
  sc_resolution_strategy :: string

definition SyncConflictRecord_read :: "sql_value list \<Rightarrow> string + SyncConflictRecord" where
  "SyncConflictRecord_read row =
     bindE (from_text (row ! 0)) (\<lambda>i.
     bindE (from_text (row ! 1)) (\<lambda>job_id.
     bindE (from_text (row ! 2)) (\<lambda>local_path.
     bindE (from_text (row ! 3)) (\<lambda>remote_path.
     bindE (from_text (row ! 4)) (\<lambda>local_metadata.
     bindE (from_text (row ! 5)) (\<lambda>remote_metadata.
     bindE (from_text (row ! 6)) (\<lambda>local_hash.
     bindE (from_text (row ! 7)) (\<lambda>remote_hash.
     bindE (from_int (row ! 8)) (\<lambda>detected_at.
     bindE (from_bool (row ! 9)) (\<lambda>resolved.
     bindE (from_text (row ! 10)) (\<lambda>resolution_strategy.
       Inr \<lparr>sc_id = i, sc_job_id = job_id, sc_local_path = local_path, sc_remote_path = remote_path,
         sc_local_metadata = local_metadata, sc_remote_metadata = remote_metadata,
         sc_local_hash = local_hash, sc_remote_hash = remote_hash, sc_detected_at = detected_at,
         sc_resolved = resolved, sc_resolution_strategy = resolution_strategy\<rparr>)))))))))))"

definition sync_conflict_cols :: "string list" where
  "sync_conflict_cols = [''id'', ''job_id'', ''local_path'', ''remote_path'', ''local_metadata'', ''remote_metadata'',
     ''local_hash'', ''remote_hash'', ''detected_at'', ''resolved'', ''resolution_strategy'']"

definition add_sync_conflict :: "db_env \<Rightarrow> SyncConflictRecord \<Rightarrow> sql_db \<Rightarrow> unit result \<times> sql_db" where
  "add_sync_conflict env conflict =
     execute env (exec_insert (de_enforce env) ''sync_conflicts''
       [(''id'', SText (sc_id conflict)), (''job_id'', SText (sc_job_id conflict)),
        (''local_path'', SText (sc_local_path conflict)), (''remote_path'', SText (sc_remote_path conflict)),
        (''local_metadata'', SText (sc_local_metadata conflict)),
        (''remote_metadata'', SText (sc_remote_metadata conflict)),
        (''local_hash'', SText (sc_local_hash conflict)), (''remote_hash'', SText (sc_remote_hash conflict)),
        (''detected_at'', SInt (sc_detected_at conflict)), (''resolved'', SInt 0),
        (''resolution_strategy'', SText (sc_resolution_strategy conflict))])"

definition get_sync_conflicts :: "db_env \<Rightarrow> string \<Rightarrow> sql_db \<Rightarrow> SyncConflictRecord list result" where
  "get_sync_conflicts env job_id =
     query_all env ''sync_conflicts'' sync_conflict_cols (where_eq ''job_id'' (SText job_id)) SyncConflictRecord_read"

definition resolve_sync_conflict :: "db_env \<Rightarrow> string \<Rightarrow> string \<Rightarrow> sql_db \<Rightarrow> unit result \<times> sql_db" where
  "resolve_sync_conflict env conflict_id strategy =
     execute env (exec_update ''sync_conflicts''
       [(''resolved'', SInt 1), (''resolution_strategy'', SText strategy)] [(''id'', SText conflict_id)])"

subsection \<open>The calls that change the database\<close>

datatype (plugins only: code size) db_call =
    Upsert_device DeviceId "string option" string bool bool "bytes option"
  | Create_session SessionId DeviceId string bytes string
  | Update_session_state SessionId string
  | Set_config string string "string option" bool bool
  | Delete_config string
  | Create_sync_job SyncJobRecord
  | Update_sync_job_status string string
  | Update_sync_job_last_sync string i64
  | Delete_sync_job string
  | Add_sync_conflict SyncConflictRecord
  | Resolve_sync_conflict string string

definition db_step :: "db_env \<Rightarrow> db_call \<Rightarrow> sql_db \<Rightarrow> unit result \<times> sql_db" where
  "db_step env c =
     (case c of
        Upsert_device i nm address paired trusted psk \<Rightarrow> upsert_device env i nm address paired trusted psk
      | Create_session i d ver keys caps \<Rightarrow> create_session env i d ver keys caps
      | Update_session_state i st \<Rightarrow> update_session_state env i st
      | Set_config k v d ro sec \<Rightarrow> set_config env k v d ro sec
      | Delete_config k \<Rightarrow> delete_config env k
      | Create_sync_job job \<Rightarrow> create_sync_job env job
      | Update_sync_job_status i st \<Rightarrow> update_sync_job_status env i st
      | Update_sync_job_last_sync i ls \<Rightarrow> update_sync_job_last_sync env i ls
      | Delete_sync_job i \<Rightarrow> delete_sync_job env i
      | Add_sync_conflict con \<Rightarrow> add_sync_conflict env con
      | Resolve_sync_conflict i st \<Rightarrow> resolve_sync_conflict env i st)"

text \<open>
  The states a database file can reach, from one that does not exist: opening it, with any failure
  on the way, and once it has been opened, any call in any surroundings.
\<close>

inductive db_reach :: "bool \<Rightarrow> bool \<Rightarrow> sql_db \<Rightarrow> bool" for enforce :: bool where
  fresh: "db_reach enforce False empty_db"
| opens: "db_reach enforce opened db \<Longrightarrow> de_enforce env = enforce \<Longrightarrow> Database_new env db = (r, db') \<Longrightarrow>
    db_reach enforce (opened \<or> r = Inr ()) db'"
| calls: "db_reach enforce True db \<Longrightarrow> de_enforce env = enforce \<Longrightarrow> db_step env c db = (r, db') \<Longrightarrow>
    db_reach enforce True db'"

end
