(* ===== verification/Database_Laws.thy ===== *)
theory Database_Laws
  imports Core_Database
begin

text \<open>
  The laws of the database layer as a whole: that interrupted migrations are completed by the next
  attempt, and the invariant of every reachable database, which each statement of the operations
  keeps. What single operations promise is in \<open>Database_Stores\<close>
  and \<open>Database_Records\<close>.
\<close>

subsection \<open>The schema the migrations aim at\<close>

definition all_tables :: "table_def list" where
  "all_tables = [schema_migrations_table, devices_table, sessions_table, services_table, sync_jobs_table,
     sync_conflicts_table, photo_backup_sessions_table, photos_table, shell_sessions_table,
     shell_history_table, config_table]"

definition target :: "string \<Rightarrow> table_def option" where
  "target = map_of (map (\<lambda>d. (tb_name d, d)) all_tables)"

lemmas table_defs =
  schema_migrations_table_def devices_table_def sessions_table_def services_table_def sync_jobs_table_def
  sync_conflicts_table_def photo_backup_sessions_table_def photos_table_def shell_sessions_table_def
  shell_history_table_def config_table_def

lemma tb_names [simp]:
  "tb_name schema_migrations_table = ''schema_migrations''" "tb_name devices_table = ''devices''"
  "tb_name sessions_table = ''sessions''" "tb_name services_table = ''services''"
  "tb_name sync_jobs_table = ''sync_jobs''" "tb_name sync_conflicts_table = ''sync_conflicts''"
  "tb_name photo_backup_sessions_table = ''photo_backup_sessions''" "tb_name photos_table = ''photos''"
  "tb_name shell_sessions_table = ''shell_sessions''" "tb_name shell_history_table = ''shell_history''"
  "tb_name config_table = ''config''"
  by (simp_all add: table_defs)

lemma target_simps [simp]:
  "target ''schema_migrations'' = Some schema_migrations_table" "target ''devices'' = Some devices_table"
  "target ''sessions'' = Some sessions_table" "target ''sync_jobs'' = Some sync_jobs_table"
  "target ''sync_conflicts'' = Some sync_conflicts_table" "target ''config'' = Some config_table"
  by (simp_all add: target_def all_tables_def)

lemma all_tables_distinct: "distinct (map tb_name all_tables)"
  by (simp add: all_tables_def)

lemma target_iff: "target n = Some x \<longleftrightarrow> x \<in> set all_tables \<and> n = tb_name x"
proof -
  have "distinct (map fst (map (\<lambda>d. (tb_name d, d)) all_tables))"
    using all_tables_distinct by (simp add: comp_def)
  from map_of_eq_Some_iff [OF this] show ?thesis
    by (auto simp: target_def)
qed

text \<open>The foreign keys of the schema.\<close>

definition reference :: "string \<Rightarrow> foreign_key \<Rightarrow> bool" where
  "reference n fk \<longleftrightarrow> (\<exists>x. target n = Some x \<and> fk \<in> set (tb_foreign_keys x))"

lemma reference_iff:
  "reference n fk \<longleftrightarrow> (n, fk) \<in>
     {(''sessions'', \<lparr>fk_column = ''device_id'', fk_table = ''devices'', fk_parent = ''id'', fk_cascade = True\<rparr>),
      (''services'', \<lparr>fk_column = ''session_id'', fk_table = ''sessions'', fk_parent = ''id'', fk_cascade = True\<rparr>),
      (''sync_conflicts'', \<lparr>fk_column = ''job_id'', fk_table = ''sync_jobs'', fk_parent = ''id'', fk_cascade = True\<rparr>),
      (''photos'', \<lparr>fk_column = ''backup_session_id'', fk_table = ''photo_backup_sessions'', fk_parent = ''id'', fk_cascade = False\<rparr>),
      (''shell_sessions'', \<lparr>fk_column = ''device_id'', fk_table = ''devices'', fk_parent = ''id'', fk_cascade = True\<rparr>),
      (''shell_history'', \<lparr>fk_column = ''session_id'', fk_table = ''shell_sessions'', fk_parent = ''id'', fk_cascade = True\<rparr>)}"
proof -
  have "reference n fk \<longleftrightarrow> (\<exists>x \<in> set all_tables. n = tb_name x \<and> fk \<in> set (tb_foreign_keys x))"
    by (auto simp: reference_def target_iff)
  also have "\<dots> \<longleftrightarrow> (n, fk) \<in> set (concat (map (\<lambda>d. map (Pair (tb_name d)) (tb_foreign_keys d)) all_tables))"
    by auto
  finally show ?thesis
    by (simp add: all_tables_def table_defs)
qed

lemma columns_distinct: "target n = Some x \<Longrightarrow> distinct (column_names x)"
proof -
  have "list_all (\<lambda>d. distinct (column_names d)) all_tables"
    by (simp add: all_tables_def column_names_def column_def table_defs)
  then show "target n = Some x \<Longrightarrow> distinct (column_names x)"
    by (simp add: target_iff list_all_iff)
qed

lemma defaults_typed: "target n = Some x \<Longrightarrow> defaults_fit x"
proof -
  have "list_all defaults_fit all_tables"
    by (simp add: all_tables_def column_def defaults_fit_def table_defs)
  then show "target n = Some x \<Longrightarrow> defaults_fit x"
    by (simp add: target_iff list_all_iff)
qed

subsection \<open>The invariant\<close>

text \<open>The columns that may be null by their declaration but that no operation leaves null.\<close>

definition required :: "string \<Rightarrow> string list" where
  "required t =
     (if t = ''devices'' then [''id'', ''metadata'']
      else if t = ''sessions'' then [''id'', ''session_keys'', ''capabilities'', ''bytes_sent'', ''bytes_received'']
      else if t = ''config'' then [''key'', ''read_only'', ''secret'']
      else if t = ''sync_jobs'' then [''id'', ''description'', ''filters'', ''stats'']
      else if t = ''sync_conflicts'' then [''id'', ''local_metadata'', ''remote_metadata'', ''local_hash'', ''remote_hash'', ''resolution_strategy'']
      else [])"

definition row_filled :: "string \<Rightarrow> table_def \<Rightarrow> sql_value list \<Rightarrow> bool" where
  "row_filled t def row \<longleftrightarrow> list_all (\<lambda>c. cell def row c \<noteq> SNull) (required t)"

definition filled :: "sql_db \<Rightarrow> bool" where
  "filled db \<longleftrightarrow> (\<forall>t tbl. hm_get (sq_tables db) t = Some tbl \<longrightarrow> list_all (row_filled t (tbl_def tbl)) (tbl_rows tbl))"

text \<open>What a statement of a migration leaves behind, and which versions are recorded.\<close>

primrec effect :: "ddl \<Rightarrow> sql_db \<Rightarrow> bool" where
  "effect (CreateTable def) db \<longleftrightarrow> hm_get (sq_tables db) (tb_name def) \<noteq> None"
| "effect (CreateIndex i t c) db \<longleftrightarrow> (i, t, c) \<in> set (sq_indexes db)"

definition applied :: "sql_db \<Rightarrow> i64 \<Rightarrow> bool" where
  "applied db v \<longleftrightarrow> list_ex (where_eq ''version'' (SInt v) schema_migrations_table) (rows_of db ''schema_migrations'')"

definition version :: "nat \<Rightarrow> i64" where
  "version i = of_nat (Suc i)"

definition all_ddl :: "ddl list" where
  "all_ddl = CreateTable schema_migrations_table # concat migrations"

definition all_indexes :: "(string \<times> string \<times> string) list" where
  "all_indexes = concat (map (\<lambda>d. case d of CreateTable _ \<Rightarrow> [] | CreateIndex i t c \<Rightarrow> [(i, t, c)]) migration_002_add_indexes)"

definition db_inv :: "bool \<Rightarrow> sql_db \<Rightarrow> bool" where
  "db_inv enforce db \<longleftrightarrow> db_ok enforce db \<and> filled db \<and>
     (\<forall>t def. map_of (schema db) t = Some def \<longrightarrow> target t = Some def) \<and>
     set (sq_indexes db) \<subseteq> set all_indexes \<and>
     (\<forall>i < length migrations. applied db (version i) \<longrightarrow> (\<forall>d \<in> set (migrations ! i). effect d db))"

definition complete :: "sql_db \<Rightarrow> bool" where
  "complete db \<longleftrightarrow> (\<forall>d \<in> set all_ddl. effect d db) \<and> (\<forall>i < length migrations. applied db (version i))"

lemma db_invD:
  assumes "db_inv enforce db"
  shows "db_ok enforce db" "filled db" "map_of (schema db) t = Some def \<Longrightarrow> target t = Some def"
    "set (sq_indexes db) \<subseteq> set all_indexes"
    "i < length migrations \<Longrightarrow> applied db (version i) \<Longrightarrow> d \<in> set (migrations ! i) \<Longrightarrow> effect d db"
  using assms by (auto simp: db_inv_def)

lemma db_inv_empty: "db_inv enforce empty_db"
  by (simp add: db_inv_def db_ok_def refs_ok_def filled_def empty_db_def schema_def applied_def rows_of_def)

lemma all_ddl_tables: "set all_ddl = CreateTable ` set all_tables \<union> (\<lambda>(i, t, c). CreateIndex i t c) ` set all_indexes"
proof -
  have "map (\<lambda>(i, t, c). CreateIndex i t c) all_indexes = migration_002_add_indexes"
    by (simp add: all_indexes_def migration_002_add_indexes_def)
  then have "set migration_002_add_indexes = (\<lambda>(i, t, c). CreateIndex i t c) ` set all_indexes"
    by (metis set_map)
  moreover have "CreateTable schema_migrations_table # migration_001_initial_schema = map CreateTable all_tables"
    by (simp add: migration_001_initial_schema_def all_tables_def)
  then have "insert (CreateTable schema_migrations_table) (set migration_001_initial_schema) = CreateTable ` set all_tables"
    by (metis list.set(2) set_map)
  moreover have "CreateTable config_table \<in> CreateTable ` set all_tables"
    by (simp add: all_tables_def)
  ultimately show ?thesis
    by (auto simp: all_ddl_def migrations_def migration_003_add_config_table_def)
qed

lemma index_names: "(i, t, c) \<in> set all_indexes \<Longrightarrow> (i, t', c') \<in> set all_indexes \<Longrightarrow> t = t' \<and> c = c'"
proof -
  have "distinct (map fst all_indexes)"
    by (simp add: all_indexes_def migration_002_add_indexes_def)
  then show "(i, t, c) \<in> set all_indexes \<Longrightarrow> (i, t', c') \<in> set all_indexes \<Longrightarrow> t = t' \<and> c = c'"
    by (metis eq_key_imp_eq_value prod.inject)
qed

lemma index_columns: "(i, t, c) \<in> set all_indexes \<Longrightarrow> \<exists>x. target t = Some x \<and> c \<in> set (column_names x)"
proof -
  have "list_all (\<lambda>(i, t, c). case target t of None \<Rightarrow> False | Some x \<Rightarrow> c \<in> set (column_names x)) all_indexes"
    by (simp add: all_indexes_def migration_002_add_indexes_def target_def all_tables_def table_defs column_names_def column_def)
  then show "(i, t, c) \<in> set all_indexes \<Longrightarrow> \<exists>x. target t = Some x \<and> c \<in> set (column_names x)"
    by (auto simp: list_all_iff split: option.splits)
qed

subsection \<open>Migrations keep it\<close>

lemma rows_of_create:
  "hm_get (sq_tables db) (tb_name def) = None \<Longrightarrow>
     rows_of (db\<lparr>sq_tables := hm_insert (tb_name def) \<lparr>tbl_def = def, tbl_rows = []\<rparr> (sq_tables db)\<rparr>) t = rows_of db t"
  by (simp add: rows_of_def)

lemma refs_ok_create:
  assumes "refs_ok db" "hm_get (sq_tables db) (tb_name def) = None"
  shows "refs_ok (db\<lparr>sq_tables := hm_insert (tb_name def) \<lparr>tbl_def = def, tbl_rows = []\<rparr> (sq_tables db)\<rparr>)"
proof -
  let ?db = "db\<lparr>sq_tables := hm_insert (tb_name def) \<lparr>tbl_def = def, tbl_rows = []\<rparr> (sq_tables db)\<rparr>"
  have "parent_present ?db fk v" if "parent_present db fk v" for fk v
    using that assms(2) by (auto simp: parent_present_def split: option.splits if_splits)
  then have "foreign_ok ?db d r" if "foreign_ok db d r" for d r
    using that by (auto simp: foreign_ok_def list_all_iff)
  then show ?thesis
    using assms(1) by (auto simp: refs_ok_def list_all_iff)
qed

definition ddl_kept :: "bool \<Rightarrow> ddl \<Rightarrow> sql_db \<Rightarrow> sql_db \<Rightarrow> bool" where
  "ddl_kept enforce d db db' \<longleftrightarrow> db_inv enforce db' \<and> effect d db' \<and> (\<forall>x. effect x db \<longrightarrow> effect x db') \<and>
     (\<forall>t. rows_of db' t = rows_of db t)"

lemma new_table_inv:
  assumes "db_inv enforce db" "target (tb_name def) = Some def" "hm_get (sq_tables db) (tb_name def) = None"
    and db': "db' = db\<lparr>sq_tables := hm_insert (tb_name def) \<lparr>tbl_def = def, tbl_rows = []\<rparr> (sq_tables db)\<rparr>"
  shows "ddl_kept enforce (CreateTable def) db db'"
proof -
  note D = db_invD [OF assms(1)]
  have rows: "rows_of db' t = rows_of db t" for t
    unfolding db' by (rule rows_of_create [OF assms(3)])
  have eff: "effect x db'" if "effect x db" for x
    using that by (cases x) (simp_all add: db')
  have "table_ok \<lparr>tbl_def = def, tbl_rows = []\<rparr>"
    using columns_distinct [OF assms(2)] by (simp add: table_ok_def keys_ok_def)
  then have "db_ok enforce db'"
    using D(1) refs_ok_create [OF _ assms(3)] by (auto simp: db_ok_def db')
  moreover have "filled db'"
    using D(2) by (auto simp: filled_def db')
  moreover have "\<forall>t def. map_of (schema db') t = Some def \<longrightarrow> target t = Some def"
    using D(3) assms(2) by (auto simp: map_of_schema db' split: if_splits)
  moreover have "\<forall>i < length migrations. applied db' (version i) \<longrightarrow> (\<forall>d \<in> set (migrations ! i). effect d db')"
    using D(5) eff by (auto simp: applied_def rows)
  ultimately show ?thesis
    using D(4) rows eff by (auto simp: ddl_kept_def db_inv_def db')
qed

lemma new_index_inv:
  assumes "db_inv enforce db" "(i, t, c) \<in> set all_indexes" and db': "db' = db\<lparr>sq_indexes := sq_indexes db @ [(i, t, c)]\<rparr>"
  shows "ddl_kept enforce (CreateIndex i t c) db db'"
proof -
  note D = db_invD [OF assms(1)]
  have eff: "effect x db'" if "effect x db" for x
    using that by (cases x) (simp_all add: db')
  have "foreign_ok db' = foreign_ok db"
    by (intro ext) (simp add: foreign_ok_def parent_present_def db')
  then have "refs_ok db' = refs_ok db"
    by (simp add: refs_ok_def db')
  then show ?thesis
    using D assms(2) eff
    by (auto simp: ddl_kept_def db_inv_def db_ok_def filled_def schema_def rows_of_def applied_def db')
qed

lemma exec_ddl_kept:
  assumes "db_inv enforce db" "d \<in> set all_ddl" "exec_ddl d db = Inr db'"
  shows "ddl_kept enforce d db db'"
proof (cases d)
  case (CreateTable def)
  have tg: "target (tb_name def) = Some def"
    using assms(2) by (auto simp: CreateTable all_ddl_tables target_iff)
  show ?thesis
  proof (cases "hm_get (sq_tables db) (tb_name def)")
    case None
    then show ?thesis
      unfolding CreateTable by (intro new_table_inv [OF assms(1) tg]) (use assms(3) in \<open>simp_all add: CreateTable\<close>)
  next
    case (Some tbl)
    then have "db' = db"
      using assms(3) by (simp add: CreateTable)
    then show ?thesis
      using assms(1) Some by (simp add: CreateTable ddl_kept_def)
  qed
next
  case (CreateIndex i t c)
  have mem: "(i, t, c) \<in> set all_indexes"
    using assms(2) by (auto simp: CreateIndex all_ddl_tables)
  show ?thesis
  proof (cases "i \<in> fst ` set (sq_indexes db)")
    case True
    then obtain t' c' where "(i, t', c') \<in> set (sq_indexes db)"
      by auto
    then have "(i, t, c) \<in> set (sq_indexes db)"
      using index_names [OF mem, of t' c'] db_invD(4) [OF assms(1)] by auto
    moreover have "db' = db"
      using assms(3) True by (simp add: CreateIndex)
    ultimately show ?thesis
      using assms(1) by (simp add: CreateIndex ddl_kept_def)
  next
    case False
    then have "db' = db\<lparr>sq_indexes := sq_indexes db @ [(i, t, c)]\<rparr>"
      using assms(3) by (auto simp: CreateIndex split: sum.splits if_splits)
    then show ?thesis
      using new_index_inv [OF assms(1) mem] by (simp add: CreateIndex)
  qed
qed

lemma exec_ddl_inv:
  assumes "db_inv enforce db" "d \<in> set all_ddl" "exec_ddl d db = Inr db'"
  shows "db_inv enforce db'" "effect d db'" "effect x db \<Longrightarrow> effect x db'" "rows_of db' t = rows_of db t"
  using exec_ddl_kept [OF assms] by (simp_all add: ddl_kept_def)

definition tables_present :: "sql_db \<Rightarrow> bool" where
  "tables_present db \<longleftrightarrow> (\<forall>x \<in> set all_tables. effect (CreateTable x) db)"

lemma exec_ddl_succeeds:
  assumes "db_inv enforce db" "d \<in> set all_ddl" "tables_present db \<or> (\<exists>x. d = CreateTable x)"
  shows "\<exists>db'. exec_ddl d db = Inr db'"
proof (cases d)
  case (CreateTable def)
  then show ?thesis
    by simp
next
  case (CreateIndex i t c)
  then have "(i, t, c) \<in> set all_indexes"
    using assms(2) by (auto simp: all_ddl_tables)
  then obtain x where x: "target t = Some x" "c \<in> set (column_names x)"
    using index_columns by blast
  then have "hm_get (sq_tables db) t \<noteq> None"
    using assms(3) by (auto simp: CreateIndex target_iff tables_present_def)
  then obtain tbl where tbl: "hm_get (sq_tables db) t = Some tbl"
    by blast
  moreover have "tbl_def tbl = x"
    using db_invD(3) [OF assms(1) schema_get [OF tbl]] x(1) by simp
  ultimately show ?thesis
    using x(2) by (simp add: CreateIndex find_table_def)
qed

definition calm :: "db_env \<Rightarrow> bool" where
  "calm env \<longleftrightarrow> de_dir_error env = None \<and> de_build_error env = None \<and> de_pool_error env = None \<and>
     de_statement_error env = (\<lambda>n. None) \<and> (\<forall>n. de_clock env n \<noteq> None)"

lemma calm_statement: "calm env \<Longrightarrow> statement env n r = (case r of Inl e \<Rightarrow> Inl (db_err e) | Inr a \<Rightarrow> Inr a)"
  by (simp add: calm_def statement_def)

lemma calm_time: "calm env \<Longrightarrow> \<exists>now. db_timestamp env n = Inr now"
  by (auto simp: calm_def db_timestamp_def split: option.splits)

lemma calm_connection: "calm env \<Longrightarrow> get_connection env = Inr ()"
  by (simp add: calm_def get_connection_def)

lemma statement_Inr: "statement env n r = Inr a \<Longrightarrow> r = Inr a"
  by (auto simp: statement_def split: option.splits sum.splits)

definition grown :: "sql_db \<Rightarrow> sql_db \<Rightarrow> bool" where
  "grown db db' \<longleftrightarrow> (\<forall>x. effect x db \<longrightarrow> effect x db') \<and> (\<forall>v. applied db v \<longrightarrow> applied db' v)"

lemma grown_refl [simp]: "grown db db"
  by (simp add: grown_def)

lemma grown_trans: "grown a b \<Longrightarrow> grown b c \<Longrightarrow> grown a c"
  by (simp add: grown_def)

lemma run_batch_inv:
  assumes "db_inv enforce db" "set ds \<subseteq> set all_ddl" "run_batch env n ds db = (r, db')"
  shows "db_inv enforce db' \<and> grown db db' \<and> applied db' = applied db \<and> (r = Inr () \<longrightarrow> (\<forall>d \<in> set ds. effect d db')) \<and>
    (calm env \<longrightarrow> tables_present db \<or> (\<forall>d \<in> set ds. \<exists>x. d = CreateTable x) \<longrightarrow> r = Inr ())"
  using assms
proof (induction ds arbitrary: db n)
  case Nil
  then show ?case
    by simp
next
  case (Cons d ds)
  have d: "d \<in> set all_ddl" "set ds \<subseteq> set all_ddl"
    using Cons.prems(2) by simp_all
  show ?case
  proof (cases "statement env n (exec_ddl d db)")
    case (Inl e)
    then have "\<not> (calm env \<and> (tables_present db \<or> (\<exists>x. d = CreateTable x)))"
      using exec_ddl_succeeds [OF Cons.prems(1) d(1)] by (metis calm_statement sum.case(2) sum.distinct(1))
    then show ?thesis
      using Cons.prems Inl by auto
  next
    case (Inr db1)
    note E = exec_ddl_inv [OF Cons.prems(1) d(1) statement_Inr [OF Inr]]
    have "grown db db1" "applied db1 = applied db"
      using E(3,4) by (auto simp: grown_def applied_def)
    moreover have "tables_present db \<Longrightarrow> tables_present db1"
      using E(3) unfolding tables_present_def by blast
    moreover have "run_batch env (Suc n) ds db1 = (r, db')"
      using Cons.prems(3) Inr by simp
    note IH = Cons.IH [OF E(1) d(2) this]
    ultimately show ?thesis
      using E(2) IH unfolding grown_def by auto
  qed
qed

lemma version_row: "build_row schema_migrations_table [(''version'', SInt v), (''applied_at'', SInt now)] = [SInt v, SInt now]"
  by (simp add: build_row_def schema_migrations_table_def column_def)

lemma version_cell: "cell schema_migrations_table [SInt v, SInt now] ''version'' = SInt v"
  by (simp add: cell_def column_names_def schema_migrations_table_def column_def)

lemma length_migrations: "length migrations = 7"
  by (simp add: migrations_def)

lemma versions_distinct:
  assumes "i < length migrations" "j < length migrations" "version i = version j"
  shows "i = j"
proof -
  have "unat (of_nat (Suc i) :: i64) = Suc i" "unat (of_nat (Suc j) :: i64) = Suc j"
    using assms(1,2) unfolding length_migrations by (simp_all only: unat_of_nat) simp_all
  with arg_cong [OF assms(3) [unfolded version_def], of unat] have "Suc i = Suc j"
    by (simp only:)
  then show ?thesis
    by simp
qed

definition record_version :: "bool \<Rightarrow> i64 \<Rightarrow> i64 \<Rightarrow> sql_db \<Rightarrow> string + sql_db" where
  "record_version enforce v now = exec_insert enforce ''schema_migrations'' [(''version'', SInt v), (''applied_at'', SInt now)]"

lemma record_version_inv:
  assumes "db_inv enforce db" "record_version enforce (version i) now db = Inr db'"
    and "i < length migrations" "\<forall>d \<in> set (migrations ! i). effect d db"
  shows "db_inv enforce db' \<and> grown db db' \<and> applied db' (version i)"
proof -
  let ?v = "version i"
  note D = db_invD [OF assms(1)]
  obtain tbl where tbl: "hm_get (sq_tables db) ''schema_migrations'' = Some tbl"
    using assms(2) by (auto simp: record_version_def exec_insert_def find_table_Inr split: sum.splits)
  have def: "tbl_def tbl = schema_migrations_table"
    using D(3) [OF schema_get [OF tbl]] by simp
  have db': "db' = set_rows ''schema_migrations'' (tbl_rows tbl @ [[SInt ?v, SInt now]]) db"
    using assms(2) tbl def
    by (auto simp: record_version_def exec_insert_def find_table_Inr version_row Let_def split: sum.splits)
  have "db_ok enforce db' \<and> schema db' = schema db"
  proof (rule exec_insert_ok [OF D(1) assms(2) [unfolded record_version_def]])
    fix x
    assume "map_of (schema db) ''schema_migrations'' = Some x"
    then have "x = schema_migrations_table"
      using D(3) [of "''schema_migrations''" x] by simp
    then show "vals_fit x [(''version'', SInt ?v), (''applied_at'', SInt now)] \<and> defaults_fit x"
      using defaults_typed [of "''schema_migrations''"] by (simp add: vals_fit_def schema_migrations_table_def column_def)
  qed
  moreover have "filled db'"
    using D(2) tbl by (auto simp: filled_def db' get_set_rows row_filled_def required_def list_all_iff)
  moreover have eff: "effect x db \<Longrightarrow> effect x db'" for x
    using tbl by (cases x) (auto simp: db' get_set_rows)
  moreover have app: "applied db' w \<longleftrightarrow> w = ?v \<or> applied db w" for w
    using tbl by (auto simp: applied_def db' get_set_rows rows_of_def where_eq_def matches_def version_cell)
  moreover have "set (sq_indexes db') \<subseteq> set all_indexes"
    using D(4) by (simp add: db')
  moreover have "effect d db'"
    if "j < length migrations" "applied db' (version j)" "d \<in> set (migrations ! j)" for j d
  proof (cases "j = i")
    case True
    then show ?thesis
      using assms(4) eff that(3) by blast
  next
    case False
    then show ?thesis
      using that app [of "version j"] versions_distinct [OF that(1) assms(3)] D(5) [OF that(1) _ that(3)] eff by blast
  qed
  ultimately show ?thesis
    using D(3) by (auto simp: db_inv_def grown_def)
qed

lemma record_version_succeeds:
  assumes "db_inv enforce db" "effect (CreateTable schema_migrations_table) db" "\<not> applied db v"
  shows "\<exists>db'. record_version enforce v now db = Inr db'"
proof -
  note D = db_invD [OF assms(1)]
  obtain tbl where tbl: "hm_get (sq_tables db) ''schema_migrations'' = Some tbl"
    using assms(2) by auto
  have def: "tbl_def tbl = schema_migrations_table"
    using D(3) [OF schema_get [OF tbl]] by simp
  have "check_row enforce db schema_migrations_table (tbl_rows tbl) [SInt v, SInt now] = Inr ()"
    using assms(3) tbl
    by (auto simp: check_row_Inr null_violation_None key_violation_None clash_def foreign_ok_def applied_def rows_of_def
        where_eq_def matches_def list_ex_iff schema_migrations_table_def column_def cell_def column_names_def)
  then show ?thesis
    using tbl def by (simp add: record_version_def exec_insert_def find_table_def version_row)
qed

lemma select_version:
  assumes "db_inv enforce db" "effect (CreateTable schema_migrations_table) db"
  shows "\<exists>rows. exec_select ''schema_migrations'' [''version''] (where_eq ''version'' (SInt v)) db = Inr rows \<and>
    (rows \<noteq> [] \<longleftrightarrow> applied db v)"
proof -
  obtain tbl where tbl: "hm_get (sq_tables db) ''schema_migrations'' = Some tbl"
    using assms(2) by auto
  have "tbl_def tbl = schema_migrations_table"
    using db_invD(3) [OF assms(1) schema_get [OF tbl]] by simp
  then show ?thesis
    using tbl by (auto simp: exec_select_def find_table_def applied_def rows_of_def list_ex_iff filter_empty_conv)
qed

lemma tables_after_first:
  assumes "db_inv enforce db" "effect (CreateTable schema_migrations_table) db" "applied db (version 0)"
  shows "tables_present db"
proof -
  have "effect d db" if "d \<in> set migration_001_initial_schema" for d
    using db_invD(5) [OF assms(1) _ assms(3), of d] that by (simp add: length_migrations) (simp add: migrations_def)
  moreover have "CreateTable x \<in> set migration_001_initial_schema" if "x \<in> set all_tables" "x \<noteq> schema_migrations_table" for x
    using that by (auto simp: migration_001_initial_schema_def all_tables_def)
  ultimately show ?thesis
    using assms(2) unfolding tables_present_def by blast
qed

lemma first_creates: "d \<in> set (migrations ! 0) \<Longrightarrow> \<exists>x. d = CreateTable x"
  by (auto simp: migrations_def migration_001_initial_schema_def)

lemma migration_ddl: "i < length migrations \<Longrightarrow> set (migrations ! i) \<subseteq> set all_ddl"
  by (auto simp: all_ddl_def)

definition all_applied :: "sql_db \<Rightarrow> bool" where
  "all_applied db \<longleftrightarrow> (\<forall>i < length migrations. applied db (version i))"

lemma run_versions_unrecorded:
  assumes "exec_select ''schema_migrations'' [''version''] (where_eq ''version'' (SInt v)) db = Inr []"
    and "statement env n (Inr ([] :: sql_value list list)) = Inr []" "run_batch env (Suc n) m db = (r1, db1)"
  shows "run_versions env n v (m # ms) db =
    (case r1 of Inl e \<Rightarrow> (Inl e, db1) | Inr _ \<Rightarrow>
      (case db_timestamp env (Suc (n + length m)) of Inl e \<Rightarrow> (Inl e, db1) | Inr now \<Rightarrow>
        (case statement env (Suc (n + length m)) (record_version (de_enforce env) v now db1) of Inl e \<Rightarrow> (Inl e, db1)
         | Inr db2 \<Rightarrow> run_versions env (Suc (Suc (n + length m))) (v + 1) ms db2)))"
  unfolding record_version_def using assms by (cases r1) (simp_all add: Let_def)

lemma next_version: "version i + 1 = version (Suc i)"
  by (simp add: version_def)

text \<open>The statements of one migration that has not been recorded, up to its own record.\<close>

lemma one_migration:
  assumes "db_inv enforce db" "effect (CreateTable schema_migrations_table) db" "i < length migrations"
    and "\<forall>j < i. applied db (version j)" "\<not> applied db (version i)" "run_batch env n (migrations ! i) db = (r1, db1)"
  shows "db_inv enforce db1 \<and> grown db db1 \<and> (calm env \<longrightarrow> r1 = Inr ())"
    and "statement env k (record_version enforce (version i) now db1) = Inr db2 \<Longrightarrow> r1 = Inr () \<Longrightarrow>
      db_inv enforce db2 \<and> grown db db2 \<and> applied db2 (version i)"
    and "statement env k (record_version enforce (version i) now db1) = Inl e \<Longrightarrow> \<not> calm env"
proof -
  have "tables_present db \<or> (\<forall>d \<in> set (migrations ! i). \<exists>x. d = CreateTable x)"
    using first_creates tables_after_first [OF assms(1,2)] assms(4) by (cases i) (simp, blast)
  note B = run_batch_inv [OF assms(1) _ assms(6), OF migration_ddl [OF assms(3)]] this
  show kept: "db_inv enforce db1 \<and> grown db db1 \<and> (calm env \<longrightarrow> r1 = Inr ())"
    using B by blast
  show "db_inv enforce db2 \<and> grown db db2 \<and> applied db2 (version i)"
    if "statement env k (record_version enforce (version i) now db1) = Inr db2" "r1 = Inr ()"
    using record_version_inv [OF _ statement_Inr [OF that(1)] assms(3)] B that(2) grown_trans [of db db1 db2] by auto
  have "effect (CreateTable schema_migrations_table) db1" "\<not> applied db1 (version i)"
    using B assms(2,5) unfolding grown_def by (blast, simp)
  then show "\<not> calm env" if "statement env k (record_version enforce (version i) now db1) = Inl e"
    using record_version_succeeds [of enforce db1 "version i" now] kept that by (metis calm_statement sum.case(2) sum.distinct(1))
qed

lemma run_versions_inv:
  assumes "db_inv enforce db" "effect (CreateTable schema_migrations_table) db" "de_enforce env = enforce"
    and "ms = drop i migrations" "\<forall>j < i. applied db (version j)"
    and "run_versions env n (version i) ms db = (r, db')"
  shows "db_inv enforce db' \<and> grown db db' \<and> (r = Inr () \<longrightarrow> all_applied db') \<and> (calm env \<longrightarrow> r = Inr ()) \<and>
    (all_applied db \<longrightarrow> db' = db)"
  using assms
proof (induction ms arbitrary: i db n)
  case Nil
  then show ?case
    by (auto simp: all_applied_def)
next
  case (Cons m ms)
  have i: "i < length migrations" and m: "m = migrations ! i" and ms: "ms = drop (Suc i) migrations"
    using Cons.prems(4) by (metis drop_eq_Nil2 leI list.distinct(1)) (metis Cons.prems(4) nth_via_drop, metis Cons.prems(4) drop_Suc list.sel(3) tl_drop)
  let ?v = "version i"
  obtain rows where rows: "exec_select ''schema_migrations'' [''version''] (where_eq ''version'' (SInt ?v)) db = Inr rows"
    "rows \<noteq> [] \<longleftrightarrow> applied db ?v"
    using select_version [OF Cons.prems(1,2)] by blast
  have next_all: "\<forall>j < Suc i. applied db2 (version j)" if "grown db db2" "applied db2 ?v" for db2
    using that Cons.prems(5) less_Suc_eq unfolding grown_def by blast
  show ?case
  proof (cases "statement env n (Inr rows :: string + sql_value list list)")
    case (Inl e)
    then show ?thesis
      using Cons.prems(1,6) rows by (auto simp: calm_statement)
  next
    case (Inr rows')
    then have [simp]: "rows' = rows"
      using statement_Inr by fastforce
    show ?thesis
    proof (cases "applied db ?v")
      case True
      then have "run_versions env (Suc n) (version (Suc i)) ms db = (r, db')"
        using Cons.prems(6) rows Inr by (simp only: run_versions.simps next_version) simp
      then show ?thesis
        by (rule Cons.IH [OF Cons.prems(1-3) ms next_all [OF grown_refl True]])
    next
      case False
      then have not_all: "\<not> all_applied db"
        using i by (auto simp: all_applied_def)
      obtain r1 db1 where b: "run_batch env (Suc n) m db = (r1, db1)"
        by fastforce
      note M = one_migration [OF Cons.prems(1,2) i Cons.prems(5) False b [unfolded m]]
      let ?k = "Suc (n + length m)"
      have *: "(case r1 of Inl e \<Rightarrow> (Inl e, db1) | Inr _ \<Rightarrow>
          (case db_timestamp env ?k of Inl e \<Rightarrow> (Inl e, db1) | Inr now \<Rightarrow>
            (case statement env ?k (record_version enforce ?v now db1) of Inl e \<Rightarrow> (Inl e, db1)
             | Inr db2 \<Rightarrow> run_versions env (Suc ?k) (version (Suc i)) ms db2))) = (r, db')"
        using run_versions_unrecorded [of "version i" db env n m r1 db1 ms] rows False Inr b Cons.prems(3,6)
        by (simp only: next_version) simp
      consider (stopped) e where "r = Inl e" "db' = db1" "\<not> calm env"
        | (recorded) now db2 where "r1 = Inr ()" "statement env ?k (record_version enforce ?v now db1) = Inr db2"
            "run_versions env (Suc ?k) (version (Suc i)) ms db2 = (r, db')"
        using * M(1) M(3) [of ?k] calm_time [of env ?k] by (auto split: sum.splits)
      then show ?thesis
      proof cases
        case stopped
        then show ?thesis
          using M(1) not_all by auto
      next
        case (recorded now db2)
        note R = M(2) [OF recorded(2,1)]
        then show ?thesis
          using Cons.IH [OF _ _ Cons.prems(3) ms next_all, of db2 "Suc ?k"] recorded(3) Cons.prems(2) not_all grown_trans
          unfolding grown_def by blast
      qed
    qed
  qed
qed

lemma complete_iff: "db_inv enforce db \<Longrightarrow> complete db \<longleftrightarrow> effect (CreateTable schema_migrations_table) db \<and> all_applied db"
proof
  assume "db_inv enforce db" "effect (CreateTable schema_migrations_table) db \<and> all_applied db"
  then show "complete db"
    using db_invD(5) by (fastforce simp: complete_def all_applied_def all_ddl_def in_set_conv_nth)
qed (auto simp: complete_def all_applied_def all_ddl_def)

lemma run_migrations_inv:
  assumes "db_inv enforce db" "de_enforce env = enforce" "run_migrations env db = (r, db')"
  shows "db_inv enforce db' \<and> (r = Inr () \<longrightarrow> complete db') \<and> (calm env \<longrightarrow> r = Inr ()) \<and> (complete db \<longrightarrow> db' = db)"
proof (cases "statement env 0 (exec_ddl (CreateTable schema_migrations_table) db)")
  case (Inl e)
  then show ?thesis
    using assms by (auto simp: run_migrations_def calm_statement split: if_splits)
next
  case (Inr db1)
  have mem: "CreateTable schema_migrations_table \<in> set all_ddl"
    by (simp add: all_ddl_def)
  note E = exec_ddl_inv [OF assms(1) mem statement_Inr [OF Inr]]
  have "run_versions env 1 (version 0) migrations db1 = (r, db')"
    using assms(3) Inr by (simp add: run_migrations_def version_def)
  note V = run_versions_inv [OF E(1,2) assms(2) _ _ this]
  have "complete db \<Longrightarrow> db1 = db \<and> all_applied db1"
    using statement_Inr [OF Inr] complete_iff [OF assms(1)] by auto
  moreover have "db_inv enforce db' \<and> effect (CreateTable schema_migrations_table) db' \<and>
      (r = Inr () \<longrightarrow> all_applied db') \<and> (calm env \<longrightarrow> r = Inr ()) \<and> (all_applied db1 \<longrightarrow> db' = db1)"
    using V E(2) unfolding grown_def by (metis drop0 not_less_zero)
  ultimately show ?thesis
    using complete_iff [of enforce db'] by blast
qed

lemma Database_new_inv:
  assumes "db_inv enforce db" "de_enforce env = enforce" "Database_new env db = (r, db')"
  shows "db_inv enforce db' \<and> (r = Inr () \<longrightarrow> complete db') \<and> (calm env \<longrightarrow> r = Inr ()) \<and> (complete db \<longrightarrow> db' = db)"
  using assms run_migrations_inv [OF assms(1,2)]
  by (auto simp: Database_new_def migrate_def calm_def get_connection_def split: option.splits sum.splits)

text \<open>Opening a database repeatedly, in surroundings that may fail at any point.\<close>

primrec opened_by :: "db_env list \<Rightarrow> sql_db \<Rightarrow> sql_db" where
  "opened_by [] db = db"
| "opened_by (env # envs) db = opened_by envs (snd (Database_new env db))"

lemma opened_by_inv:
  "db_inv enforce db \<Longrightarrow> \<forall>env \<in> set envs. de_enforce env = enforce \<Longrightarrow> db_inv enforce (opened_by envs db)"
proof (induction envs arbitrary: db)
  case (Cons env envs)
  then show ?case
    using Database_new_inv [OF Cons.prems(1), of env "fst (Database_new env db)" "snd (Database_new env db)"] by simp
qed simp

lemma complete_schema:
  assumes "db_inv enforce db" "complete db"
  shows "map_of (schema db) = target \<and> set (sq_indexes db) = set all_indexes"
proof (intro conjI ext)
  fix t
  show "map_of (schema db) t = target t"
  proof (cases "target t")
    case None
    then show ?thesis
      using db_invD(3) [OF assms(1)] by (metis not_None_eq)
  next
    case (Some x)
    then have "effect (CreateTable x) db"
      using assms(2) unfolding complete_def all_ddl_tables target_iff by blast
    then obtain tbl where "map_of (schema db) t = Some tbl"
      using Some by (auto simp: target_iff map_of_schema)
    then show ?thesis
      using db_invD(3) [OF assms(1)] by simp
  qed
next
  have "(i, t, c) \<in> set (sq_indexes db)" if "(i, t, c) \<in> set all_indexes" for i t c
  proof -
    have "CreateIndex i t c \<in> set all_ddl"
      using that unfolding all_ddl_tables by force
    then have "effect (CreateIndex i t c) db"
      using assms(2) unfolding complete_def by blast
    then show ?thesis
      by (simp only: effect.simps)
  qed
  then show "set (sq_indexes db) = set all_indexes"
    using db_invD(4) [OF assms(1)] by auto
qed

text \<open>
  C8. Migrations complete. However many attempts to open a new database are cut short, by a
  directory or pool that cannot be made, by a statement that fails anywhere in a migration or by a clock
  before the epoch, the next attempt that meets no failure succeeds. Then the tables are exactly those of the
  schema, the indexes are exactly those of the second migration, and all seven versions are
  recorded; opening the database again never changes it, whatever happens in the course.
\<close>

theorem migrations_complete:
  assumes "\<forall>env \<in> set envs. de_enforce env = enforce" "calm env" "de_enforce env = enforce"
  shows "\<exists>db. Database_new env (opened_by envs empty_db) = (Inr (), db) \<and> map_of (schema db) = target \<and>
    set (sq_indexes db) = set all_indexes \<and> all_applied db \<and>
    (\<forall>env'. de_enforce env' = enforce \<longrightarrow> snd (Database_new env' db) = db)"
proof -
  obtain r db where db: "Database_new env (opened_by envs empty_db) = (r, db)"
    by fastforce
  note O = Database_new_inv [OF opened_by_inv [OF db_inv_empty assms(1)] assms(3) db]
  have c: "complete db" "db_inv enforce db" "r = Inr ()"
    using O assms(2) by blast+
  have "snd (Database_new env' db) = db" if "de_enforce env' = enforce" for env'
    using Database_new_inv [OF c(2) that, of "fst (Database_new env' db)" "snd (Database_new env' db)"] c(1) by simp
  then show ?thesis
    using db c complete_schema [OF c(2,1)] complete_iff [OF c(2)] by blast
qed

theorem migrations_complete_witness:
  "\<exists>db. Database_new \<lparr>de_dir_error = None, de_build_error = None, de_pool_error = None, de_statement_error = \<lambda>n. None,
      de_clock = \<lambda>n. Some n, de_enforce = True\<rparr>
    (opened_by [\<lparr>de_dir_error = None, de_build_error = None, de_pool_error = None,
      de_statement_error = \<lambda>n. if n = 5 then Some ''disk I/O error'' else None, de_clock = \<lambda>n. None, de_enforce = True\<rparr>] empty_db) =
      (Inr (), db) \<and> all_applied db"
  using migrations_complete [of "[\<lparr>de_dir_error = None, de_build_error = None, de_pool_error = None,
      de_statement_error = \<lambda>n. if n = 5 then Some ''disk I/O error'' else None, de_clock = \<lambda>n. None, de_enforce = True\<rparr>]" True
    "\<lparr>de_dir_error = None, de_build_error = None, de_pool_error = None, de_statement_error = \<lambda>n. None,
      de_clock = \<lambda>n. Some n, de_enforce = True\<rparr>"]
  by (simp only: calm_def list.set ball_simps db_env.select_convs) blast

subsection \<open>Calls keep it\<close>

lemma required_column:
  assumes "target t = Some def" "c \<in> set (required t)"
  shows "\<exists>col \<in> set (tb_columns def). col_name col = c"
proof -
  have "list_all (\<lambda>d. list_all (\<lambda>c. c \<in> set (column_names d)) (required (tb_name d))) all_tables"
    by (simp add: all_tables_def required_def table_defs column_names_def column_def)
  then show ?thesis
    using assms by (fastforce simp: target_iff list_all_iff column_names_def)
qed

lemma row_filled_overwrite:
  assumes "target t = Some def" "row_filled t def old" "\<forall>c \<in> set (required t). map_of vals c \<noteq> Some SNull"
  shows "row_filled t def (overwrite def vals old)"
  unfolding row_filled_def list_all_iff
proof
  fix c
  assume c: "c \<in> set (required t)"
  then obtain col where "col \<in> set (tb_columns def)" "col_name col = c"
    using required_column [OF assms(1)] by blast
  then have "cell def (overwrite def vals old) c = (case map_of vals c of Some v \<Rightarrow> v | None \<Rightarrow> cell def old c)"
    using cell_overwrite [OF columns_distinct [OF assms(1)]] by blast
  then show "cell def (overwrite def vals old) c \<noteq> SNull"
    using assms(2,3) c by (auto simp: row_filled_def list_all_iff split: option.splits)
qed

lemma call_inv:
  assumes "db_inv enforce db" "complete db" "db_ok enforce db' \<and> schema db' = schema db" "sq_indexes db' = sq_indexes db"
    and "rows_of db' ''schema_migrations'' = rows_of db ''schema_migrations''" "filled db'"
  shows "db_inv enforce db' \<and> complete db'"
proof -
  have "hm_get (sq_tables db') t \<noteq> None \<longleftrightarrow> hm_get (sq_tables db) t \<noteq> None" for t
    using map_of_schema [of db' t] map_of_schema [of db t] assms(3) by (metis map_option_is_None)
  then have "effect x db' \<longleftrightarrow> effect x db" for x
    using assms(4) by (cases x) (simp_all only: effect.simps)
  moreover have "applied db' v \<longleftrightarrow> applied db v" for v
    using assms(5) by (simp only: applied_def)
  ultimately show ?thesis
    using assms by (simp add: db_inv_def complete_def)
qed

lemma the_table:
  assumes "db_inv enforce db" "complete db" "target t = Some def"
  shows "\<exists>rows. hm_get (sq_tables db) t = Some \<lparr>tbl_def = def, tbl_rows = rows\<rparr>"
proof -
  have "map_of (schema db) t = Some def"
    using complete_schema [OF assms(1,2)] assms(3) by simp
  then show ?thesis
    by (rule schema_getD)
qed

lemma filled_set_rows:
  assumes "filled db" "hm_get (sq_tables db) t = Some tbl" "\<forall>r \<in> set rows. row_filled t (tbl_def tbl) r"
  shows "filled (set_rows t rows db)"
  using assms by (auto simp: filled_def get_set_rows list_all_iff)

lemma rows_filled: "filled db \<Longrightarrow> hm_get (sq_tables db) t = Some tbl \<Longrightarrow> r \<in> set (tbl_rows tbl) \<Longrightarrow> row_filled t (tbl_def tbl) r"
  by (simp add: filled_def list_all_iff)

lemma rows_of_other: "t \<noteq> n \<Longrightarrow> rows_of (set_rows t rows db) n = rows_of db n"
  by (simp add: rows_of_def get_set_rows)

lemma insert_call:
  assumes "db_inv enforce db" "complete db" "exec_insert enforce t vals db = Inr db'" "target t = Some def"
    and "t \<noteq> ''schema_migrations''" "vals_fit def vals" "row_filled t def (build_row def vals)"
  shows "db_inv enforce db' \<and> complete db'"
proof -
  obtain rows where tbl: "hm_get (sq_tables db) t = Some \<lparr>tbl_def = def, tbl_rows = rows\<rparr>"
    using the_table [OF assms(1,2,4)] by blast
  then have db': "db' = set_rows t (rows @ [build_row def vals]) db"
    using assms(3) by (auto simp: exec_insert_def find_table_def Let_def split: sum.splits)
  have "filled db'"
    unfolding db' using assms(7) db_invD(2) [OF assms(1)] rows_filled [OF _ tbl]
    by (intro filled_set_rows [OF _ tbl]) auto
  moreover have "map_of (schema db) t = Some d \<Longrightarrow> vals_fit d vals \<and> defaults_fit d" for d
    using assms(4,6) defaults_typed [OF assms(4)] db_invD(3) [OF assms(1)] by simp
  note exec_insert_ok [OF db_invD(1) [OF assms(1)] assms(3) this]
  ultimately show ?thesis
    using assms(5) by (intro call_inv [OF assms(1,2)]) (simp_all add: db' rows_of_other)
qed

lemma reference_parent: "reference n fk \<Longrightarrow> d = def \<Longrightarrow> target t = Some def \<Longrightarrow> fk_table fk = t \<Longrightarrow> fk_parent fk \<in> set (column_names d)"
  by (auto simp: reference_iff target_def all_tables_def table_defs column_names_def column_def)

lemma reference_column: "target t = Some def \<Longrightarrow> fk \<in> set (tb_foreign_keys def) \<Longrightarrow> fk_column fk \<in> set (column_names def)"
proof -
  have "list_all (\<lambda>d. list_all (\<lambda>fk. fk_column fk \<in> set (column_names d)) (tb_foreign_keys d)) all_tables"
    by (simp add: all_tables_def table_defs column_names_def column_def)
  then show "target t = Some def \<Longrightarrow> fk \<in> set (tb_foreign_keys def) \<Longrightarrow> fk_column fk \<in> set (column_names def)"
    by (auto simp: target_iff list_all_iff)
qed

lemma upsert_call:
  assumes "db_inv enforce db" "complete db" "exec_upsert enforce t vals (col_name c) sets db = Inr db'" "target t = Some def"
    and "t \<noteq> ''schema_migrations''" "vals_fit def vals" "row_filled t def (build_row def vals)"
    and "c \<in> set (tb_columns def)" "col_key c" "\<forall>k \<in> set (required t). map_of vals k \<noteq> Some SNull" "''id'' \<notin> set sets"
  shows "db_inv enforce db' \<and> complete db'"
proof -
  obtain rows where tbl: "hm_get (sq_tables db) t = Some \<lparr>tbl_def = def, tbl_rows = rows\<rparr>"
    using the_table [OF assms(1,2,4)] by blast
  let ?row = "build_row def vals"
  have ok: "db_ok enforce db' \<and> schema db' = schema db"
  proof (rule exec_upsert_ok [OF db_invD(1) [OF assms(1)] assms(3)])
    fix d
    assume d: "map_of (schema db) t = Some d"
    then have "d = def"
      using db_invD(3) [OF assms(1)] assms(4) by simp
    then show "vals_fit d vals \<and> defaults_fit d \<and> c \<in> set (tb_columns d) \<and> col_key c"
      using assms(6,8,9) defaults_typed [OF assms(4)] by simp
    fix n x fk
    assume "map_of (schema db) n = Some x" "fk \<in> set (tb_foreign_keys x)" "fk_table fk = t"
    then have "reference n fk"
      using db_invD(3) [OF assms(1)] by (auto simp: reference_def)
    then show "fk_parent fk \<in> set (column_names d)"
      using \<open>d = def\<close> assms(4) \<open>fk_table fk = t\<close> by (rule reference_parent)
  next
    fix n x fk
    assume "map_of (schema db) n = Some x" "fk \<in> set (tb_foreign_keys x)" "fk_table fk = t"
    then have "reference n fk"
      using db_invD(3) [OF assms(1)] by (auto simp: reference_def)
    then show "fk_parent fk \<notin> set sets"
      using assms(11) by (auto simp: reference_iff)
  qed
  show ?thesis
  proof (cases "find (clash def (col_name c) ?row) rows")
    case None
    then have "exec_insert enforce t vals db = Inr db'"
      using assms(3) tbl by (auto simp: exec_upsert_def find_table_def Let_def split: option.splits)
    then show ?thesis
      by (rule insert_call [OF assms(1,2) _ assms(4-7)])
  next
    case (Some old)
    let ?new = "overwrite def (filter (\<lambda>(c, _). c \<in> set sets) vals) old"
    have db': "db' = set_rows t (map (\<lambda>r. if clash def (col_name c) ?row r then ?new else r) rows) db"
      using assms(3) tbl Some by (auto simp: exec_upsert_def find_table_def Let_def split: option.splits sum.splits)
    have "old \<in> set rows"
      using Some by (auto simp: find_Some_iff)
    moreover have "map_of (filter (\<lambda>(c, _). c \<in> set sets) vals) k = (if k \<in> set sets then map_of vals k else None)" for k
      by (induction vals) auto
    ultimately have "row_filled t def ?new"
      using rows_filled [OF db_invD(2) [OF assms(1)] tbl] assms(10) by (intro row_filled_overwrite [OF assms(4)]) auto
    then have "filled db'"
      unfolding db' using db_invD(2) [OF assms(1)] rows_filled [OF _ tbl] by (intro filled_set_rows [OF _ tbl]) auto
    then show ?thesis
      using ok assms(5) by (intro call_inv [OF assms(1,2)]) (simp_all add: db' rows_of_other)
  qed
qed

lemma update_call:
  assumes "db_inv enforce db" "complete db" "exec_update t vals conds db = Inr db'" "target t = Some def"
    and "t \<noteq> ''schema_migrations''" "vals_fit def vals" "\<forall>k \<in> set (required t). map_of vals k \<noteq> Some SNull"
    and "list_all (\<lambda>c. col_key c \<longrightarrow> map_of vals (col_name c) = None) (tb_columns def)"
    and "list_all (\<lambda>fk. map_of vals (fk_column fk) = None) (tb_foreign_keys def)" "map_of vals ''id'' = None"
  shows "db_inv enforce db' \<and> complete db'"
proof -
  obtain rows where tbl: "hm_get (sq_tables db) t = Some \<lparr>tbl_def = def, tbl_rows = rows\<rparr>"
    using the_table [OF assms(1,2,4)] by blast
  have db': "db' = set_rows t (map (\<lambda>r. if matches def conds r then overwrite def vals r else r) rows) db"
    using assms(3) tbl by (auto simp: exec_update_def find_table_def Let_def split: option.splits)
  have ok: "db_ok enforce db' \<and> schema db' = schema db"
  proof (rule exec_update_ok [OF db_invD(1) [OF assms(1)] assms(3)])
    fix d
    assume d: "map_of (schema db) t = Some d"
    then have "d = def"
      using db_invD(3) [OF assms(1)] assms(4) by simp
    then show "vals_fit d vals \<and> (\<forall>c \<in> set (tb_columns d). col_key c \<longrightarrow> map_of vals (col_name c) = None) \<and>
        (\<forall>fk \<in> set (tb_foreign_keys d). map_of vals (fk_column fk) = None \<and> fk_column fk \<in> set (column_names d))"
      using assms(6,8,9) reference_column [OF assms(4)] by (auto simp: list_all_iff)
    fix n x fk
    assume "map_of (schema db) n = Some x" "fk \<in> set (tb_foreign_keys x)" "fk_table fk = t"
    then have ref: "reference n fk"
      using db_invD(3) [OF assms(1)] by (auto simp: reference_def)
    then have "fk_parent fk = ''id''"
      by (auto simp: reference_iff)
    then show "fk_parent fk \<in> set (column_names d) \<and> map_of vals (fk_parent fk) = None"
      using reference_parent [OF ref \<open>d = def\<close> assms(4) \<open>fk_table fk = t\<close>] assms(10) by simp
  qed
  have "filled db'"
    unfolding db' using db_invD(2) [OF assms(1)] rows_filled [OF _ tbl] row_filled_overwrite [OF assms(4) _ assms(7)]
    by (intro filled_set_rows [OF _ tbl]) auto
  then show ?thesis
    using ok assms(5) by (intro call_inv [OF assms(1,2)]) (simp_all add: db' rows_of_other)
qed

lemma delete_call:
  assumes "db_inv enforce db" "complete db" "exec_delete enforce t conds db = Inr db'" "t \<in> {''config'', ''sync_jobs''}"
  shows "db_inv enforce db' \<and> complete db'"
proof -
  obtain def where def: "target t = Some def"
    using assms(4) by auto
  obtain rows where tbl: "hm_get (sq_tables db) t = Some \<lparr>tbl_def = def, tbl_rows = rows\<rparr>"
    using the_table [OF assms(1,2) def] by blast
  have ref: "reference n fk" if "map_of (schema db) n = Some x" "fk \<in> set (tb_foreign_keys x)" for n x fk
    using db_invD(3) [OF assms(1) that(1)] that(2) by (auto simp: reference_def)
  have ok: "db_ok enforce db' \<and> schema db' = schema db"
  proof (rule exec_delete_ok [OF db_invD(1) [OF assms(1)] assms(3)])
    fix n x fk n' x' fk'
    assume 1: "map_of (schema db) n = Some x" "fk \<in> set (tb_foreign_keys x)" "fk_table fk = t"
    show "fk_cascade fk"
      using ref [OF 1(1,2)] 1(3) assms(4) by (auto simp: reference_iff)
    assume 2: "map_of (schema db) n' = Some x'" "fk' \<in> set (tb_foreign_keys x')"
    show "fk_table fk' \<noteq> n"
      using ref [OF 1(1,2)] 1(3) ref [OF 2] assms(4) by (auto simp: reference_iff)
  qed
  let ?db1 = "set_rows t (filter (\<lambda>r. \<not> matches def conds r) rows) db"
  have get: "\<exists>x1. hm_get (sq_tables ?db1) n = Some x1 \<and> tbl_def x = tbl_def x1 \<and> set (tbl_rows x) \<subseteq> set (tbl_rows x1)"
    if "hm_get (sq_tables db') n = Some x" for n x
    using assms(3) tbl that by (auto simp: exec_delete_def find_table_def get_map_tables cascade_def Let_def split: if_splits)
  have "filled ?db1"
    using db_invD(2) [OF assms(1)] rows_filled [OF _ tbl] by (intro filled_set_rows [OF _ tbl]) auto
  then have "row_filled n (tbl_def x) r" if "hm_get (sq_tables db') n = Some x" "r \<in> set (tbl_rows x)" for n x r
    using get [OF that(1)] rows_filled [of ?db1 n _ r] that(2) by fastforce
  then have "filled db'"
    unfolding filled_def list_all_iff by blast
  moreover have "rows_of db' ''schema_migrations'' = rows_of db ''schema_migrations''" "sq_indexes db' = sq_indexes db"
  proof -
    obtain mrows where m: "hm_get (sq_tables db) ''schema_migrations'' = Some \<lparr>tbl_def = schema_migrations_table, tbl_rows = mrows\<rparr>"
      using the_table [OF assms(1,2), of "''schema_migrations''"] by auto
    have "tb_foreign_keys schema_migrations_table = []"
      by (simp add: schema_migrations_table_def)
    then show "rows_of db' ''schema_migrations'' = rows_of db ''schema_migrations''" "sq_indexes db' = sq_indexes db"
      using assms(3,4) tbl m
      by (auto simp: exec_delete_def find_table_def rows_of_def get_map_tables get_set_rows cascade_def Let_def)
  qed
  ultimately show ?thesis
    using ok by (intro call_inv [OF assms(1,2)]) auto
qed

lemma value_types [simp]:
  "has_type (to_option SText nm) T_Text" "has_type (to_option SBlob b) T_Blob" "has_type (to_option SInt n) T_Integer"
  "has_type (to_bool v) T_Integer" "to_bool v \<noteq> SNull"
  by (simp_all add: to_option_def to_bool_def split: option.splits)

lemmas row_eval = vals_fit_def row_filled_def required_def build_row_def cell_def column_names_def column_def

lemma execute_cases: "execute env st db = (r, db') \<Longrightarrow> db' = db \<or> st db = Inr db'"
  using statement_Inr by (fastforce simp: execute_def bindR_def split: sum.splits)

lemma execute_now_cases: "execute_now env st db = (r, db') \<Longrightarrow> db' = db \<or> (\<exists>now. st now db = Inr db')"
  using execute_cases by (fastforce simp: execute_now_def split: sum.splits)

lemma upsert_device_inv:
  assumes "db_inv enforce db" "complete db" "de_enforce env = enforce" "upsert_device env i nm address paired trusted psk db = (r, db')"
  shows "db_inv enforce db' \<and> complete db'"
  using execute_now_cases [OF assms(4) [unfolded upsert_device_def]]
proof
  assume "\<exists>now. exec_upsert (de_enforce env) ''devices''
     [(''id'', SBlob (did_value i)), (''name'', to_option SText nm), (''address'', SText address),
      (''paired'', to_bool paired), (''trusted'', to_bool trusted), (''psk'', to_option SBlob psk),
      (''last_seen'', SInt now), (''created_at'', SInt now), (''metadata'', SText ''{}'')]
     ''id'' [''name'', ''address'', ''paired'', ''trusted'', ''psk'', ''last_seen''] db = Inr db'"
  then obtain now where u: "exec_upsert enforce ''devices''
     [(''id'', SBlob (did_value i)), (''name'', to_option SText nm), (''address'', SText address),
      (''paired'', to_bool paired), (''trusted'', to_bool trusted), (''psk'', to_option SBlob psk),
      (''last_seen'', SInt now), (''created_at'', SInt now), (''metadata'', SText ''{}'')]
     (col_name (column ''id'' T_Blob False None True)) [''name'', ''address'', ''paired'', ''trusted'', ''psk'', ''last_seen''] db = Inr db'"
    using assms(3) by (auto simp: column_def)
  show ?thesis
    by (rule upsert_call [OF assms(1,2) u]) (simp_all add: row_eval, simp_all add: devices_table_def column_def)
qed (use assms in simp)

lemma set_config_inv:
  assumes "db_inv enforce db" "complete db" "de_enforce env = enforce" "set_config env key val description ro secret db = (r, db')"
  shows "db_inv enforce db' \<and> complete db'"
  using execute_now_cases [OF assms(4) [unfolded set_config_def]]
proof
  assume "\<exists>now. exec_upsert (de_enforce env) ''config''
     [(''key'', SText key), (''value'', SText val), (''description'', to_option SText description),
      (''read_only'', to_bool ro), (''secret'', to_bool secret), (''updated_at'', SInt now)]
     ''key'' [''value'', ''description'', ''read_only'', ''secret'', ''updated_at''] db = Inr db'"
  then obtain now where u: "exec_upsert enforce ''config''
     [(''key'', SText key), (''value'', SText val), (''description'', to_option SText description),
      (''read_only'', to_bool ro), (''secret'', to_bool secret), (''updated_at'', SInt now)]
     (col_name (column ''key'' T_Text False None True)) [''value'', ''description'', ''read_only'', ''secret'', ''updated_at''] db = Inr db'"
    using assms(3) by (auto simp: column_def)
  show ?thesis
    by (rule upsert_call [OF assms(1,2) u]) (simp_all add: row_eval, simp_all add: config_table_def column_def)
qed (use assms in simp)

lemma create_session_inv:
  assumes "db_inv enforce db" "complete db" "de_enforce env = enforce" "create_session env i d ver keys caps db = (r, db')"
  shows "db_inv enforce db' \<and> complete db'"
  using execute_now_cases [OF assms(4) [unfolded create_session_def assms(3)]]
proof (elim disjE exE)
  fix now
  assume "exec_insert enforce ''sessions''
       [(''id'', SBlob (sid_value i)), (''device_id'', SBlob (did_value d)), (''protocol_version'', SText ver),
        (''session_keys'', SBlob keys), (''capabilities'', SText caps), (''state'', SText ''opening''),
        (''created_at'', SInt now), (''last_activity'', SInt now)] db = Inr db'"
  from insert_call [OF assms(1,2) this] show ?thesis
    by (simp add: row_eval) (simp add: sessions_table_def column_def)
qed (use assms in simp)

lemma update_session_state_inv:
  assumes "db_inv enforce db" "complete db" "update_session_state env i st db = (r, db')"
  shows "db_inv enforce db' \<and> complete db'"
  using execute_now_cases [OF assms(3) [unfolded update_session_state_def]]
proof (elim disjE exE)
  fix now
  assume "exec_update ''sessions'' [(''state'', SText st), (''last_activity'', SInt now)] [(''id'', SBlob (sid_value i))] db = Inr db'"
  from update_call [OF assms(1,2) this] show ?thesis
    by (simp add: row_eval) (simp add: sessions_table_def column_def)
qed (use assms in simp)

lemma create_sync_job_inv:
  assumes "db_inv enforce db" "complete db" "de_enforce env = enforce" "create_sync_job env job db = (r, db')"
  shows "db_inv enforce db' \<and> complete db'"
  using execute_cases [OF assms(4) [unfolded create_sync_job_def assms(3)]]
proof
  assume "exec_insert enforce ''sync_jobs''
       [(''id'', SText (sj_id job)), (''name'', SText (sj_name job)), (''description'', SText (sj_description job)),
        (''direction'', SText (sj_direction job)), (''local_path'', SText (sj_local_path job)),
        (''remote_path'', SText (sj_remote_path job)), (''enabled'', to_bool (sj_enabled job)),
        (''auto_sync'', to_bool (sj_auto_sync job)),
        (''schedule_type'', to_option SText (sj_schedule_type job)),
        (''schedule_value'', to_option SText (sj_schedule_value job)),
        (''conflict_strategy'', SText (sj_conflict_strategy job)), (''filters'', SText (sj_filters job)),
        (''status'', SText ''idle''), (''last_sync'', to_option SInt (sj_last_sync job)),
        (''created_at'', SInt (sj_created_at job)), (''updated_at'', SInt (sj_updated_at job)),
        (''stats'', SText ''{}'')] db = Inr db'"
  from insert_call [OF assms(1,2) this] show ?thesis
    by (simp add: row_eval) (simp add: sync_jobs_table_def column_def)
qed (use assms in simp)

lemma update_sync_job_status_inv:
  assumes "db_inv enforce db" "complete db" "update_sync_job_status env i st db = (r, db')"
  shows "db_inv enforce db' \<and> complete db'"
  using execute_now_cases [OF assms(3) [unfolded update_sync_job_status_def]]
proof (elim disjE exE)
  fix now
  assume "exec_update ''sync_jobs'' [(''status'', SText st), (''updated_at'', SInt now)] [(''id'', SText i)] db = Inr db'"
  from update_call [OF assms(1,2) this] show ?thesis
    by (simp add: row_eval) (simp add: sync_jobs_table_def column_def)
qed (use assms in simp)

lemma update_sync_job_last_sync_inv:
  assumes "db_inv enforce db" "complete db" "update_sync_job_last_sync env i t db = (r, db')"
  shows "db_inv enforce db' \<and> complete db'"
  using execute_now_cases [OF assms(3) [unfolded update_sync_job_last_sync_def]]
proof (elim disjE exE)
  fix now
  assume "exec_update ''sync_jobs'' [(''last_sync'', SInt t), (''updated_at'', SInt now)] [(''id'', SText i)] db = Inr db'"
  from update_call [OF assms(1,2) this] show ?thesis
    by (simp add: row_eval) (simp add: sync_jobs_table_def column_def)
qed (use assms in simp)

lemma resolve_sync_conflict_inv:
  assumes "db_inv enforce db" "complete db" "resolve_sync_conflict env i st db = (r, db')"
  shows "db_inv enforce db' \<and> complete db'"
  using execute_cases [OF assms(3) [unfolded resolve_sync_conflict_def]]
proof
  assume "exec_update ''sync_conflicts'' [(''resolved'', SInt 1), (''resolution_strategy'', SText st)] [(''id'', SText i)] db = Inr db'"
  from update_call [OF assms(1,2) this] show ?thesis
    by (simp add: row_eval) (simp add: sync_conflicts_table_def column_def)
qed (use assms in simp)

lemma add_sync_conflict_inv:
  assumes "db_inv enforce db" "complete db" "de_enforce env = enforce" "add_sync_conflict env con db = (r, db')"
  shows "db_inv enforce db' \<and> complete db'"
  using execute_cases [OF assms(4) [unfolded add_sync_conflict_def assms(3)]]
proof
  assume "exec_insert enforce ''sync_conflicts''
       [(''id'', SText (sc_id con)), (''job_id'', SText (sc_job_id con)),
        (''local_path'', SText (sc_local_path con)), (''remote_path'', SText (sc_remote_path con)),
        (''local_metadata'', SText (sc_local_metadata con)),
        (''remote_metadata'', SText (sc_remote_metadata con)),
        (''local_hash'', SText (sc_local_hash con)), (''remote_hash'', SText (sc_remote_hash con)),
        (''detected_at'', SInt (sc_detected_at con)), (''resolved'', SInt 0),
        (''resolution_strategy'', SText (sc_resolution_strategy con))] db = Inr db'"
  from insert_call [OF assms(1,2) this] show ?thesis
    by (simp add: row_eval) (simp add: sync_conflicts_table_def column_def)
qed (use assms in simp)

lemma delete_inv:
  assumes "db_inv enforce db" "complete db" "de_enforce env = enforce"
  shows "delete_config env k db = (r, db') \<Longrightarrow> db_inv enforce db' \<and> complete db'"
    and "delete_sync_job env k db = (r, db') \<Longrightarrow> db_inv enforce db' \<and> complete db'"
  using assms execute_cases delete_call [OF assms(1,2)] unfolding delete_config_def delete_sync_job_def by blast+

lemma db_step_inv:
  assumes "db_inv enforce db" "complete db" "de_enforce env = enforce" "db_step env c db = (r, db')"
  shows "db_inv enforce db' \<and> complete db'"
  using assms(4) upsert_device_inv [OF assms(1-3)] create_session_inv [OF assms(1-3)] update_session_state_inv [OF assms(1,2)]
    set_config_inv [OF assms(1-3)] delete_inv [OF assms(1-3)] create_sync_job_inv [OF assms(1-3)]
    update_sync_job_status_inv [OF assms(1,2)] update_sync_job_last_sync_inv [OF assms(1,2)]
    add_sync_conflict_inv [OF assms(1-3)] resolve_sync_conflict_inv [OF assms(1,2)]
  by (cases c) (simp_all add: db_step_def)

lemma db_reach_inv: "db_reach enforce opened db \<Longrightarrow> db_inv enforce db \<and> (opened \<longrightarrow> complete db)"
proof (induction rule: db_reach.induct)
  case fresh
  then show ?case
    by (simp add: db_inv_empty)
next
  case (opens opened db env r db')
  then show ?case
    using Database_new_inv [of enforce db env r db'] by auto
next
  case (calls db env c r db')
  then show ?case
    using db_step_inv by blast
qed

lemma db_reach_invD: "db_reach enforce True db \<Longrightarrow> db_inv enforce db" "db_reach enforce True db \<Longrightarrow> complete db"
  using db_reach_inv by blast+

text \<open>Surroundings in which nothing fails, and a database opened in them.\<close>

definition quiet :: "bool \<Rightarrow> nat \<Rightarrow> db_env" where
  "quiet enforce t = \<lparr>de_dir_error = None, de_build_error = None, de_pool_error = None, de_statement_error = \<lambda>n. None,
     de_clock = \<lambda>n. Some t, de_enforce = enforce\<rparr>"

definition opened_db :: "bool \<Rightarrow> sql_db" where
  "opened_db enforce = snd (Database_new (quiet enforce 0) empty_db)"

lemma calm_quiet [simp]: "calm (quiet enforce t)" "de_enforce (quiet enforce t) = enforce"
  by (simp_all add: calm_def quiet_def)

lemma reach_opened: "db_reach enforce True (opened_db enforce)"
proof -
  obtain r db where db: "Database_new (quiet enforce 0) empty_db = (r, db)"
    by fastforce
  then have "r = Inr ()"
    using Database_new_inv [OF db_inv_empty, of "quiet enforce 0" enforce r db] by simp
  then show ?thesis
    using db_reach.opens [OF db_reach.fresh, of "quiet enforce 0" enforce r db] db by (simp add: opened_db_def)
qed

lemma reach_call: "db_reach enforce True db \<Longrightarrow> db_reach enforce True (snd (db_step (quiet enforce t) c db))"
  by (rule db_reach.calls [of _ _ "quiet enforce t" c "fst (db_step (quiet enforce t) c db)"]) simp_all

text \<open>
  C7. Database invariant. In whatever order a database is opened and used, and whatever fails in the course, every
  row has a value of the declared type in every column, no null where the schema forbids it, and
  no value of a key column twice; where foreign keys are enforced every reference has its parent row. Once the
  database has been opened its tables are those of the schema.
\<close>

theorem database_invariant:
  assumes "db_reach enforce opened db"
  shows "db_ok enforce db \<and> (opened \<longrightarrow> map_of (schema db) = target)"
  using db_reach_inv [OF assms] db_invD(1) complete_schema by blast

theorem database_invariant_witness:
  "db_ok True (snd (db_step (quiet True 5) (Set_config ''a'' ''b'' None True False) (opened_db True)))"
  using database_invariant [OF reach_call [OF reach_opened, of True 5 "Set_config ''a'' ''b'' None True False"]] by blast

end
