(* ===== verification/Core_App.thy ===== *)
theory Core_App
  imports Core_Events Core_Services Database_Laws
begin

text \<open>
  The composition of the desktop core (\<^verbatim>\<open>core/src/lib.rs\<close>) and the daemon that runs it
  (\<^verbatim>\<open>daemon/src/main.rs\<close>). The state outside the process is a \<open>world\<close>: the disk with the
  configuration, and the database files. The surroundings of a process are a \<open>process_env\<close>. The services are those of the parameter \<open>sv\<close>, as in
  \<open>Core_Services\<close>; \<open>None\<close> is not returning.
\<close>

subsection \<open>The process and its surroundings\<close>

record world =
  wd_disk :: disk
  wd_databases :: "(string, sql_db) hmap"

record process_env =
  pe_crates :: config_crates
  pe_user_dir :: "string option"
  pe_cwd :: string
  pe_random :: bytes
  pe_db :: db_env
  pe_display :: "protocol_error \<Rightarrow> string"
  pe_signal :: bool
  pe_slots :: "nat \<Rightarrow> nat"

text \<open>\<open>pe_signal\<close> says whether Ctrl-C comes; \<open>pe_display\<close> renders an error; \<open>pe_slots\<close> is the number of slots
  that the runtime gives a broadcast channel. A relative path is relative to the working directory.\<close>

definition resolve :: "string \<Rightarrow> string \<Rightarrow> string" where
  "resolve cwd path = (if take 1 path = ''/'' then path else path_join cwd path)"

definition database_at :: "world \<Rightarrow> string \<Rightarrow> sql_db" where
  "database_at w path = (case hm_get (wd_databases w) path of None \<Rightarrow> empty_db | Some db \<Rightarrow> db)"

subsection \<open>The core\<close>

record 'st Core =
  co_config :: ConfigManager
  co_database :: string
  co_services :: "'st CoreServiceManager"
  co_events :: EventBus
  co_device_id :: DeviceId

text \<open>The address of the event bus is 0; the manager keeps it and does not use it.\<close>

definition Core_new :: "process_env \<Rightarrow> world \<Rightarrow> 'st Core result \<times> world" where
  "Core_new env w =
     (case load (pe_crates env) (pe_user_dir env) (wd_disk w) of
        (Inl e, d) \<Rightarrow> (Inl e, w\<lparr>wd_disk := d\<rparr>)
      | (Inr config, d) \<Rightarrow>
          (let path = resolve (pe_cwd env) (dbc_path (ac_database (get_config config)));
               w = w\<lparr>wd_disk := d\<rparr>
           in case Database_new (pe_db env) (database_at w path) of
                (Inl e, db) \<Rightarrow> (Inl e, w\<lparr>wd_databases := hm_insert path db (wd_databases w)\<rparr>)
              | (Inr _, db) \<Rightarrow>
                  (let w = w\<lparr>wd_databases := hm_insert path db (wd_databases w)\<rparr>;
                       events = EventBus_new (pe_slots env); services = CoreServiceManager_new 0
                   in case get_or_create_device_id (pe_crates env) (pe_random env) config (wd_disk w) of
                        (Inl e, _, d) \<Rightarrow> (Inl e, w\<lparr>wd_disk := d\<rparr>)
                      | (Inr device_id, config, d) \<Rightarrow>
                          (Inr \<lparr>co_config = config, co_database = path, co_services = services, co_events = events,
                             co_device_id = device_id\<rparr>, w\<lparr>wd_disk := d\<rparr>))))"

definition Core_init :: "(protocol_error \<Rightarrow> string) \<Rightarrow> 'st CoreService \<Rightarrow> 'st Core \<Rightarrow> (unit result \<times> 'st Core) option" where
  "Core_init display sv core =
     map_option (\<lambda>(r, services). (r, core\<lparr>co_services := services\<rparr>)) (core_init_all display sv (co_services core))"

definition Core_start :: "(protocol_error \<Rightarrow> string) \<Rightarrow> 'st CoreService \<Rightarrow> 'st Core \<Rightarrow> (unit result \<times> 'st Core) option" where
  "Core_start display sv core =
     map_option (\<lambda>(r, services). (r, core\<lparr>co_services := services\<rparr>)) (core_start_all display sv (co_services core))"

definition Core_stop :: "'st CoreService \<Rightarrow> 'st Core \<Rightarrow> unit result \<times> 'st Core" where
  "Core_stop sv core =
     (case core_stop_all sv (co_services core) of (r, services) \<Rightarrow> (r, core\<lparr>co_services := services\<rparr>))"

definition Core_device_id :: "'st Core \<Rightarrow> DeviceId" where
  "Core_device_id core = co_device_id core"

subsection \<open>The daemon\<close>

text \<open>Errors of the daemon: an error of the core with the contexts that are added to it, the outermost first, or a panic.\<close>

datatype daemon_failure = Failed "string list" protocol_error | Panicked string

definition with_context :: "string \<Rightarrow> 'a result \<Rightarrow> daemon_failure + 'a" where
  "with_context msg r = (case r of Inl (Err e) \<Rightarrow> Inl (Failed [msg] e) | Inl (Panic p) \<Rightarrow> Inl (Panicked p) | Inr a \<Rightarrow> Inr a)"

definition add_context :: "string \<Rightarrow> daemon_failure \<Rightarrow> daemon_failure" where
  "add_context msg f = (case f of Failed ms e \<Rightarrow> Failed (msg # ms) e | Panicked p \<Rightarrow> Panicked p)"

record Args =
  ar_foreground :: bool
  ar_daemonize :: bool
  ar_log_level :: string
  ar_log_format :: string
  ar_config :: "string option"
  ar_pid_file :: "string option"
  ar_data_dir :: "string option"
  ar_validate_config :: bool

record 'st Daemon =
  dm_args :: Args
  dm_core :: "'st Core option"

definition Daemon_new :: "Args \<Rightarrow> 'st Daemon" where
  "Daemon_new args = \<lparr>dm_args = args, dm_core = None\<rparr>"

definition Daemon_initialize ::
  "process_env \<Rightarrow> 'st CoreService \<Rightarrow> 'st Daemon \<Rightarrow> world \<Rightarrow> ((daemon_failure + unit) \<times> 'st Daemon \<times> world) option" where
  "Daemon_initialize env sv dm w =
     (case load (pe_crates env) (pe_user_dir env) (wd_disk w) of
        (r, d) \<Rightarrow>
          (let w = w\<lparr>wd_disk := d\<rparr> in
           case with_context ''Failed to load configuration'' r of
             Inl e \<Rightarrow> Some (Inl e, dm, w)
           | Inr _ \<Rightarrow>
               (case Core_new env w of
                  (r, w) \<Rightarrow>
                    (case with_context ''Failed to create core'' r of
                       Inl e \<Rightarrow> Some (Inl e, dm, w)
                     | Inr core \<Rightarrow>
                         map_option (\<lambda>(r, core).
                            (case with_context ''Failed to initialize services'' r of
                               Inl e \<Rightarrow> (Inl e, dm, w)
                             | Inr _ \<Rightarrow> (Inr (), dm\<lparr>dm_core := Some core\<rparr>, w)))
                           (Core_init (pe_display env) sv core)))))"

text \<open>The main loop waits for a signal and does nothing else; nobody sends on the shutdown channel.\<close>

definition Daemon_run :: "process_env \<Rightarrow> 'st Daemon \<Rightarrow> ((daemon_failure + unit) \<times> 'st Daemon) option" where
  "Daemon_run env dm = (if pe_signal env then Some (Inr (), dm) else None)"

definition Daemon_start :: "process_env \<Rightarrow> 'st CoreService \<Rightarrow> 'st Daemon \<Rightarrow> ((daemon_failure + unit) \<times> 'st Daemon) option" where
  "Daemon_start env sv dm =
     (case dm_core dm of
        None \<Rightarrow> Daemon_run env dm
      | Some core \<Rightarrow>
          (case Core_start (pe_display env) sv core of
             None \<Rightarrow> None
           | Some (r, core) \<Rightarrow>
               (case with_context ''Failed to start core services'' r of
                  Inl e \<Rightarrow> Some (Inl e, dm\<lparr>dm_core := Some core\<rparr>)
                | Inr _ \<Rightarrow> Daemon_run env (dm\<lparr>dm_core := Some core\<rparr>))))"

definition Daemon_stop :: "'st CoreService \<Rightarrow> 'st Daemon \<Rightarrow> (daemon_failure + unit) \<times> 'st Daemon" where
  "Daemon_stop sv dm =
     (case dm_core dm of
        None \<Rightarrow> (Inr (), dm)
      | Some core \<Rightarrow>
          (case Core_stop sv core of
             (r, core) \<Rightarrow> (with_context ''Failed to stop core'' r, dm\<lparr>dm_core := Some core\<rparr>)))"

text \<open>\<open>main\<close>, where setting up the log does not fail (it does so once per process).\<close>

definition daemon_main ::
  "process_env \<Rightarrow> 'st CoreService \<Rightarrow> Args \<Rightarrow> world \<Rightarrow> ((daemon_failure + unit) \<times> world) option" where
  "daemon_main env sv args w =
     (if ar_validate_config args
      then (case load (pe_crates env) (pe_user_dir env) (wd_disk w) of
              (r, d) \<Rightarrow> Some (map_sum id (\<lambda>_. ()) (with_context ''Configuration validation failed'' r), w\<lparr>wd_disk := d\<rparr>))
      else (case Daemon_initialize env sv (Daemon_new args) w of
              None \<Rightarrow> None
            | Some (Inl e, _, w) \<Rightarrow> Some (Inl (add_context ''Failed to initialize daemon'' e), w)
            | Some (Inr _, dm, w) \<Rightarrow>
                (case Daemon_start env sv dm of
                   None \<Rightarrow> None
                 | Some (Inl e, _) \<Rightarrow> Some (Inl (add_context ''Daemon failed'' e), w)
                 | Some (Inr _, dm) \<Rightarrow>
                     Some (map_sum (add_context ''Failed to stop daemon gracefully'') id (fst (Daemon_stop sv dm)), w))))"

subsection \<open>Starting and restarting\<close>

lemma load_again:
  assumes "crates_ok cr" "\<forall>p. dk_mkdir_error d p = None" "load_from_path cr path d = (Inr m, d1)" "plain_settings (cm_config m)"
  shows "load_from_path cr path d1 = (Inr m, d1) \<and> cm_config_path m = path \<and> (\<forall>p. dk_mkdir_error d1 p = None)"
proof (cases "hm_contains (dk_files d) path")
  case True
  then show ?thesis
    using assms(2,3) by (auto simp: load_from_path_def Let_def split: option.splits sum.splits)
next
  case False
  then have m: "cm_config_path m = path" "save cr m d = (Inr (), d1)"
    using assms(2,3) by (auto simp: load_from_path_def Let_def split: option.splits sum.splits prod.splits)
  then show ?thesis
    using saved_then_loaded [OF assms(1,4,2) m(2)] save_reads_back(3) [OF assms(1,4) m(2)] assms(2) by simp
qed

lemma id_keeps_sections:
  assumes "get_or_create_device_id cr fresh m d = (r, m', d')"
  shows "ac_database (cm_config m') = ac_database (cm_config m)" "ac_services (cm_config m') = ac_services (cm_config m)"
  using assms
  by (auto simp: get_or_create_device_id_def update_and_save_def update_config_def set_device_id_def Let_def
      split: option.splits sum.splits if_splits prod.splits)

lemma hm_insert_twice: "hm_insert k v (hm_insert k v m) = hm_insert k v m"
  by (simp add: hm_insert_def)

lemma load_world:
  assumes "crates_ok (pe_crates env)" "\<forall>p. dk_mkdir_error d p = None" "load (pe_crates env) (pe_user_dir env) d = (Inr m, d1)"
    and "plain_settings (cm_config m)"
  shows "load (pe_crates env) (pe_user_dir env) d1 = (Inr m, d1)" "\<forall>p. dk_mkdir_error d1 p = None"
    "load (pe_crates env) (pe_user_dir env) d' = load_from_path (pe_crates env) (cm_config_path m) d'"
proof -
  obtain dir where dir: "config_dir (pe_user_dir env) = Inr dir" "load_from_path (pe_crates env) (path_join dir ''config.toml'') d = (Inr m, d1)"
    using assms(3) by (auto simp: load_def split: sum.splits)
  note A = load_again [OF assms(1,2) dir(2) assms(4)]
  then show "load (pe_crates env) (pe_user_dir env) d1 = (Inr m, d1)" "\<forall>p. dk_mkdir_error d1 p = None"
    "load (pe_crates env) (pe_user_dir env) d' = load_from_path (pe_crates env) (cm_config_path m) d'"
    using dir(1) by (auto simp: load_def)
qed

lemma Core_new_Inr:
  assumes "Core_new env w = (Inr core, w')"
  shows "\<exists>m d1 db. load (pe_crates env) (pe_user_dir env) (wd_disk w) = (Inr m, d1) \<and>
    co_database core = resolve (pe_cwd env) (dbc_path (ac_database (cm_config m))) \<and>
    Database_new (pe_db env) (database_at w (co_database core)) = (Inr (), db) \<and>
    wd_databases w' = hm_insert (co_database core) db (wd_databases w) \<and>
    get_or_create_device_id (pe_crates env) (pe_random env) m d1 = (Inr (co_device_id core), co_config core, wd_disk w') \<and>
    co_services core = CoreServiceManager_new 0 \<and> co_events core = EventBus_new (pe_slots env)"
  using assms by (auto simp: Core_new_def get_config_def Let_def database_at_def split: sum.splits prod.splits)

text \<open>
  C20. Starting and restarting. When the core comes up, for a configuration whose
  services have no free-form settings, the identifier of the device has 16 bytes and the database in the working directory's (or the
  configured) file has the full schema. Starting it again with
  the same files, whatever the random generator and the clock give, yields the same core with the
  same identifier and leaves configuration and databases as they are.
\<close>

theorem core_restart:
  assumes "crates_ok (pe_crates env)" "\<forall>p. dk_mkdir_error (wd_disk w) p = None" "length (pe_random env) = 16"
    and "Core_new env w = (Inr core, w')" "plain_settings (cm_config (co_config core))"
    and "db_reach (de_enforce (pe_db env)) opened (database_at w (co_database core))"
    and "calm dbenv" "de_enforce dbenv = de_enforce (pe_db env)"
  shows "length (did_value (co_device_id core)) = 16 \<and> map_of (schema (database_at w' (co_database core))) = target \<and>
    Core_new (env\<lparr>pe_random := random, pe_db := dbenv\<rparr>) w' = (Inr core, w')"
proof -
  obtain m d1 db where N: "load (pe_crates env) (pe_user_dir env) (wd_disk w) = (Inr m, d1)"
    "co_database core = resolve (pe_cwd env) (dbc_path (ac_database (cm_config m)))"
    "Database_new (pe_db env) (database_at w (co_database core)) = (Inr (), db)"
    "wd_databases w' = hm_insert (co_database core) db (wd_databases w)"
    "get_or_create_device_id (pe_crates env) (pe_random env) m d1 = (Inr (co_device_id core), co_config core, wd_disk w')"
    "co_services core = CoreServiceManager_new 0" "co_events core = EventBus_new (pe_slots env)"
    using Core_new_Inr [OF assms(4)] by blast
  have plain: "plain_settings (cm_config m)"
    using assms(5) id_keeps_sections(2) [OF N(5)] by (simp add: plain_settings_def)
  note L = load_world [OF assms(1,2) N(1) plain]
  note K = device_id_kept [OF assms(1) plain L(2) assms(3) N(5)]
  have "load (pe_crates env) (pe_user_dir env) (wd_disk w') = (Inr (co_config core), wd_disk w')"
    using K L(1,3) by metis
  moreover have "db_reach (de_enforce (pe_db env)) True db"
    using db_reach.opens [OF assms(6) refl N(3)] by simp
  note R = db_reach_invD [OF this]
  have "Database_new dbenv db = (Inr (), db)"
    using Database_new_inv [OF R(1) assms(8), of "fst (Database_new dbenv db)" "snd (Database_new dbenv db)"] R(2) assms(7)
    by (simp add: prod_eq_iff)
  moreover have db: "database_at w' (co_database core) = db"
    by (simp add: database_at_def N(4))
  moreover have "hm_insert (co_database core) db (wd_databases w') = wd_databases w'"
    unfolding N(4) by (rule hm_insert_twice)
  moreover have "dbc_path (ac_database (cm_config (co_config core))) = dbc_path (ac_database (cm_config m))"
    using id_keeps_sections(1) [OF N(5)] by simp
  ultimately have "Core_new (env\<lparr>pe_random := random, pe_db := dbenv\<rparr>) w' = (Inr core, w')"
    using K N(2,6,7) by (simp add: Core_new_def get_config_def)
  then show ?thesis
    using K complete_schema [OF R] db by blast
qed

text \<open>Surroundings to evaluate the definitions in: a configuration file that holds the identifier of the device.\<close>

definition sample_env :: process_env where
  "sample_env = \<lparr>pe_crates = sample_crates, pe_user_dir = Some ''/c'', pe_cwd = ''/w'', pe_random = replicate 16 9,
     pe_db = quiet True 5, pe_display = \<lambda>_. [], pe_signal = True, pe_slots = id\<rparr>"

definition sample_id :: string where
  "sample_id = cr_b64_encode sample_crates (replicate 16 7)"

definition sample_file :: "(string \<times> string) list" where
  "sample_file = [(''/c/bluetooth-personal-link/config.toml'', CHR ''+'' # sample_id)]"

definition sample_world :: world where
  "sample_world = \<lparr>wd_disk = empty_disk\<lparr>dk_files := sample_file\<rparr>, wd_databases = []\<rparr>"

definition sample_config :: ConfigManager where
  "sample_config = \<lparr>cm_config = set_device_id sample_id AppConfig_default, cm_config_path = ''/c/bluetooth-personal-link/config.toml''\<rparr>"

lemma sample_load: "load sample_crates (Some ''/c'') (wd_disk sample_world) = (Inr sample_config, wd_disk sample_world)"
proof -
  let ?c = "set_device_id sample_id AppConfig_default"
  have c: "?c = AppConfig_default\<lparr>ac_device := \<lparr>dvc_device_id = Some sample_id, dvc_trusted_devices = []\<rparr>\<rparr>"
    by (simp add: set_device_id_def AppConfig_default_def DeviceConfig_default_def)
  have out: "AppConfig_out sample_crates ?c = AppConfig_out sample_values ?c"
    by (simp add: AppConfig_out_def ServicesConfig_out_def ServiceSettings_out_def sample_crates_def)
  obtain v where v: "AppConfig_out sample_values ?c = Inr v" "sample_tree (Some sample_id) = v"
    unfolding c sample_tree_def by (rule sample_sections) auto
  have "plain_settings ?c"
    using sample_manager_plain(2) [of sample_id] by (simp add: sample_manager_def)
  then have "AppConfig_in sample_crates v = Inr ?c"
    using AppConfig_roundtrip [OF sample_crates_ok] out v(1) by simp
  then have "read_config sample_crates (Some (CHR ''+'' # sample_id)) = Inr ?c"
    using v(2) by (simp add: read_config_def sample_crates_def)
  then have "load_from_path sample_crates ''/c/bluetooth-personal-link/config.toml'' (wd_disk sample_world) =
      (Inr \<lparr>cm_config = ?c, cm_config_path = ''/c/bluetooth-personal-link/config.toml''\<rparr>, wd_disk sample_world)"
    by (intro load_existing) (simp_all add: sample_world_def sample_file_def empty_disk_def hm_get_def)
  then show ?thesis
    by (simp add: load_def config_dir_def path_join_def sample_config_def)
qed

lemma sample_core_new:
  "\<exists>core w'. Core_new sample_env sample_world = (Inr core, w') \<and> co_config core = sample_config \<and> co_database core = ''/w/bpl.db'' \<and>
     co_device_id core = \<lparr>did_value = replicate 16 7\<rparr> \<and> co_services core = CoreServiceManager_new 0"
proof -
  obtain r db where db: "Database_new (quiet True 5) empty_db = (r, db)"
    by fastforce
  then have "r = Inr ()"
    using Database_new_inv [OF db_inv_empty, of "quiet True 5" True r db] by simp
  moreover have "cr_b64_decode sample_crates sample_id = Inr (replicate 16 7)"
    using crates_read(7) [OF sample_crates_ok] by (simp only: sample_id_def)
  then have "get_or_create_device_id sample_crates rnd sample_config d = (Inr \<lparr>did_value = replicate 16 7\<rparr>, sample_config, d)" for rnd d
    by (simp add: get_or_create_device_id_def sample_config_def set_device_id_def)
  moreover have "dbc_path (ac_database (cm_config sample_config)) = ''bpl.db''"
    by (simp add: sample_config_def set_device_id_def AppConfig_default_def DatabaseConfig_default_def)
  moreover have "database_at (sample_world\<lparr>wd_disk := d\<rparr>) p = empty_db" for d p
    by (simp add: database_at_def sample_world_def)
  ultimately show ?thesis
    using db sample_load
    by (simp add: Core_new_def sample_env_def get_config_def resolve_def path_join_def Let_def)
qed

theorem core_restart_witness:
  "\<exists>core w'. Core_new sample_env sample_world = (Inr core, w') \<and> did_value (co_device_id core) = replicate 16 7 \<and>
     Core_new (sample_env\<lparr>pe_random := [], pe_db := quiet True 9\<rparr>) w' = (Inr (core :: nat Core), w')"
proof -
  obtain core :: "nat Core" and w' where c: "Core_new sample_env sample_world = (Inr core, w')" "co_config core = sample_config"
    "co_database core = ''/w/bpl.db''" "co_device_id core = \<lparr>did_value = replicate 16 7\<rparr>"
    using sample_core_new by blast
  have "crates_ok (pe_crates sample_env)" "\<forall>p. dk_mkdir_error (wd_disk sample_world) p = None" "length (pe_random sample_env) = 16"
    by (simp_all add: sample_env_def sample_crates_ok sample_world_def empty_disk_def)
  moreover have "plain_settings (cm_config (co_config core))"
    using sample_manager_plain(2) [of sample_id] by (simp add: c(2) sample_config_def sample_manager_def)
  moreover have "db_reach (de_enforce (pe_db sample_env)) False (database_at sample_world (co_database core))"
    by (simp add: database_at_def sample_world_def db_reach.fresh)
  ultimately show ?thesis
    using core_restart [OF _ _ _ c(1), of False "quiet True 9" "[]"] c by (auto simp: sample_env_def)
qed

text \<open>
  C21. The daemon never gets past its initialization. Whatever the arguments, the
  configuration and the services: unless it only validates the configuration, \<open>main\<close> ends with an error, and when configuration and core come up, the error
  is that the service context is not set, which nothing in the program ever sets. So no service is
  started and the main loop is not reached. Apart from \<open>validate_config\<close> the arguments make no difference to what it does.
\<close>

theorem daemon_never_starts:
  assumes "\<not> ar_validate_config args"
  shows "\<exists>e w'. daemon_main env (sv :: 'st CoreService) args w = Some (Inl e, w') \<and>
    (\<forall>m d w''. load (pe_crates env) (pe_user_dir env) (wd_disk w) = (Inr m, d) \<and>
       (\<exists>core :: 'st Core. Core_new env (w\<lparr>wd_disk := d\<rparr>) = (Inr core, w'')) \<longrightarrow>
       e = Failed [''Failed to initialize daemon'', ''Failed to initialize services''] (Config ''Service context not set'') \<and> w' = w'') \<and>
    (\<forall>args'. \<not> ar_validate_config args' \<longrightarrow> daemon_main env sv args' w = daemon_main env sv args w)"
proof -
  have init: "core_init_all (pe_display env) sv (co_services core) = Some (Inl (Err (Config ''Service context not set'')), co_services core)"
    if "Core_new env w1 = (Inr core, w2)" for core :: "'st Core" and w1 w2
    using Core_new_Inr [OF that] by (auto simp: core_init_all_def CoreServiceManager_new_def)
  let ?main = "\<lambda>a. daemon_main env sv a w"
  obtain r d where l: "load (pe_crates env) (pe_user_dir env) (wd_disk w) = (r, d)"
    by fastforce
  obtain rc w2 where c: "(Core_new env (w\<lparr>wd_disk := d\<rparr>) :: 'st Core result \<times> world) = (rc, w2)"
    by fastforce
  show ?thesis
  proof (cases "with_context ''Failed to load configuration'' r")
    case (Inl e)
    then have "?main a = Some (Inl (add_context ''Failed to initialize daemon'' e), w\<lparr>wd_disk := d\<rparr>)" if "\<not> ar_validate_config a" for a
      using that l by (simp add: daemon_main_def Daemon_initialize_def)
    then show ?thesis
      using assms l Inl by (auto simp: with_context_def)
  next
    case load: (Inr m)
    show ?thesis
    proof (cases "with_context ''Failed to create core'' rc")
      case (Inl e)
      then have "?main a = Some (Inl (add_context ''Failed to initialize daemon'' e), w2)" if "\<not> ar_validate_config a" for a
        using that l load c by (simp add: daemon_main_def Daemon_initialize_def)
      then show ?thesis
        using assms l c Inl by (auto simp: with_context_def)
    next
      case (Inr core)
      then have "rc = Inr core"
        by (auto simp: with_context_def split: sum.splits failure.splits)
      then have "?main a = Some (Inl (Failed [''Failed to initialize daemon'', ''Failed to initialize services'']
          (Config ''Service context not set'')), w2)" if "\<not> ar_validate_config a" for a
        using that l load c Inr init [of "w\<lparr>wd_disk := d\<rparr>" core w2]
        by (simp add: daemon_main_def Daemon_initialize_def Core_init_def with_context_def [of "''Failed to initialize services''"] add_context_def)
      then show ?thesis
        using assms l c \<open>rc = Inr core\<close> by auto
    qed
  qed
qed

theorem daemon_never_starts_witness:
  "\<exists>w'. daemon_main sample_env core_counting
      \<lparr>ar_foreground = True, ar_daemonize = False, ar_log_level = ''info'', ar_log_format = ''json'', ar_config = Some ''/etc/bpl.toml'',
       ar_pid_file = None, ar_data_dir = None, ar_validate_config = False\<rparr> sample_world =
    Some (Inl (Failed [''Failed to initialize daemon'', ''Failed to initialize services''] (Config ''Service context not set'')), w')"
proof -
  obtain core :: "(string \<times> nat) Core" and w' where "Core_new sample_env sample_world = (Inr core, w')"
    using sample_core_new by blast
  moreover have "load (pe_crates sample_env) (pe_user_dir sample_env) (wd_disk sample_world) = (Inr sample_config, wd_disk sample_world)"
    using sample_load by (simp add: sample_env_def)
  ultimately show ?thesis
    using daemon_never_starts [of "\<lparr>ar_foreground = True, ar_daemonize = False, ar_log_level = ''info'', ar_log_format = ''json'',
      ar_config = Some ''/etc/bpl.toml'', ar_pid_file = None, ar_data_dir = None, ar_validate_config = False\<rparr>" sample_env core_counting sample_world]
    by auto
qed

end
