(* ===== verification/Database_Stores.thy ===== *)
theory Database_Stores
  imports Database_Laws
begin

text \<open>
  What the operations of the database promise, first part: rows can always be read back into the
  records, and devices and configuration entries are stores in which writing replaces.
\<close>

subsection \<open>Reading rows\<close>

definition reads :: "'e + 'a \<Rightarrow> bool" where
  "reads r \<longleftrightarrow> (\<exists>a. r = Inr a)"

lemma reads_bind: "reads r \<Longrightarrow> (\<And>b. reads (f b)) \<Longrightarrow> reads (bindE r f)"
  by (auto simp: reads_def)

lemma reads_Inr: "reads (Inr a)"
  by (simp add: reads_def)

lemma reads_value:
  "has_type v T_Text \<Longrightarrow> v \<noteq> SNull \<Longrightarrow> reads (from_text v)" "has_type v T_Integer \<Longrightarrow> v \<noteq> SNull \<Longrightarrow> reads (from_int v)"
  "has_type v T_Integer \<Longrightarrow> v \<noteq> SNull \<Longrightarrow> reads (from_bool v)" "has_type v T_Blob \<Longrightarrow> v \<noteq> SNull \<Longrightarrow> reads (from_blob v)"
  by (cases v; simp add: reads_def from_text_def from_int_def from_bool_def from_blob_def)+

lemma reads_option:
  "has_type v T_Text \<Longrightarrow> reads (from_option from_text v)" "has_type v T_Integer \<Longrightarrow> reads (from_option from_int v)"
  "has_type v T_Blob \<Longrightarrow> reads (from_option from_blob v)"
  by (cases v; simp add: reads_def from_text_def from_int_def from_bool_def from_blob_def from_option_def)+

lemma table_columns:
  "tb_columns devices_table =
     [column ''id'' T_Blob False None True,
      column ''name'' T_Text False None False,
      column ''address'' T_Text True None True,
      column ''paired'' T_Integer True (Some (SInt 0)) False,
      column ''trusted'' T_Integer True (Some (SInt 0)) False,
      column ''psk'' T_Blob False None False,
      column ''last_seen'' T_Integer False None False,
      column ''created_at'' T_Integer True None False,
      column ''metadata'' T_Text False None False]"
  "tb_columns sessions_table =
     [column ''id'' T_Blob False None True,
      column ''device_id'' T_Blob True None False,
      column ''protocol_version'' T_Text True None False,
      column ''session_keys'' T_Blob False None False,
      column ''capabilities'' T_Text False None False,
      column ''state'' T_Text True None False,
      column ''created_at'' T_Integer True None False,
      column ''last_activity'' T_Integer True None False,
      column ''bytes_sent'' T_Integer False (Some (SInt 0)) False,
      column ''bytes_received'' T_Integer False (Some (SInt 0)) False]"
  "tb_columns config_table =
     [column ''key'' T_Text False None True,
      column ''value'' T_Text True None False,
      column ''description'' T_Text False None False,
      column ''read_only'' T_Integer False (Some (SInt 0)) False,
      column ''secret'' T_Integer False (Some (SInt 0)) False,
      column ''updated_at'' T_Integer True None False]"
  "tb_columns sync_jobs_table =
     [column ''id'' T_Text False None True,
      column ''name'' T_Text True None False,
      column ''description'' T_Text False None False,
      column ''direction'' T_Text True None False,
      column ''local_path'' T_Text True None False,
      column ''remote_path'' T_Text True None False,
      column ''enabled'' T_Integer True (Some (SInt 1)) False,
      column ''auto_sync'' T_Integer True (Some (SInt 0)) False,
      column ''schedule_type'' T_Text False None False,
      column ''schedule_value'' T_Text False None False,
      column ''conflict_strategy'' T_Text True (Some (SText ''last_write_wins'')) False,
      column ''filters'' T_Text False None False,
      column ''status'' T_Text True (Some (SText ''idle'')) False,
      column ''last_sync'' T_Integer False None False,
      column ''created_at'' T_Integer True None False,
      column ''updated_at'' T_Integer True None False,
      column ''stats'' T_Text False None False]"
  "tb_columns sync_conflicts_table =
     [column ''id'' T_Text False None True,
      column ''job_id'' T_Text True None False,
      column ''local_path'' T_Text True None False,
      column ''remote_path'' T_Text True None False,
      column ''local_metadata'' T_Text False None False,
      column ''remote_metadata'' T_Text False None False,
      column ''local_hash'' T_Text False None False,
      column ''remote_hash'' T_Text False None False,
      column ''detected_at'' T_Integer True None False,
      column ''resolved'' T_Integer True (Some (SInt 0)) False,
      column ''resolution_strategy'' T_Text False None False]"
  by (simp_all add: devices_table_def sessions_table_def config_table_def sync_jobs_table_def sync_conflicts_table_def)

lemma row_cells:
  "row_ok def row \<Longrightarrow> distinct (column_names def) \<Longrightarrow> list_all (\<lambda>c. column_ok c (cell def row (col_name c))) (tb_columns def)"
  using cell_column_ok by (simp add: list_all_iff)

lemmas cells_eval = table_columns column_def column_ok_def row_filled_def required_def

lemma table_row_cells:
  "target t = Some def \<Longrightarrow> row_ok def row \<Longrightarrow> list_all (\<lambda>c. column_ok c (cell def row (col_name c))) (tb_columns def)"
  by (rule row_cells [OF _ columns_distinct])

lemma device_reads:
  assumes "row_ok devices_table row" "row_filled ''devices'' devices_table row"
  shows "reads (DeviceRecord_read (map (cell devices_table row) device_cols))"
  using table_row_cells [of "''devices''" devices_table, OF _ assms(1)] assms(2)
  by (simp add: cells_eval DeviceRecord_read_def device_cols_def)
    (intro reads_bind reads_Inr reads_value reads_option; simp)

lemma session_reads:
  assumes "row_ok sessions_table row" "row_filled ''sessions'' sessions_table row"
  shows "reads (SessionRecord_read (map (cell sessions_table row) session_cols))"
  using table_row_cells [of "''sessions''" sessions_table, OF _ assms(1)] assms(2)
  by (simp add: cells_eval SessionRecord_read_def session_cols_def)
    (intro reads_bind reads_Inr reads_value reads_option; simp)

lemma config_reads:
  assumes "row_ok config_table row" "row_filled ''config'' config_table row"
  shows "reads (ConfigRecord_read (map (cell config_table row) config_cols))"
  using table_row_cells [of "''config''" config_table, OF _ assms(1)] assms(2)
  by (simp add: cells_eval ConfigRecord_read_def config_cols_def)
    (intro reads_bind reads_Inr reads_value reads_option; simp)

lemma sync_job_reads:
  assumes "row_ok sync_jobs_table row" "row_filled ''sync_jobs'' sync_jobs_table row"
  shows "reads (SyncJobRecord_read (map (cell sync_jobs_table row) sync_job_cols))"
  using table_row_cells [of "''sync_jobs''" sync_jobs_table, OF _ assms(1)] assms(2)
  by (simp add: cells_eval SyncJobRecord_read_def sync_job_cols_def)
    (intro reads_bind reads_Inr reads_value reads_option; simp)

lemma sync_conflict_reads:
  assumes "row_ok sync_conflicts_table row" "row_filled ''sync_conflicts'' sync_conflicts_table row"
  shows "reads (SyncConflictRecord_read (map (cell sync_conflicts_table row) sync_conflict_cols))"
  using table_row_cells [of "''sync_conflicts''" sync_conflicts_table, OF _ assms(1)] assms(2)
  by (simp add: cells_eval SyncConflictRecord_read_def sync_conflict_cols_def)
    (intro reads_bind reads_Inr reads_value reads_option; simp)

lemma config_value_reads:
  assumes "row_ok config_table row" "row_filled ''config'' config_table row"
  shows "reads (from_text (cell config_table row ''value''))"
  using table_row_cells [of "''config''" config_table, OF _ assms(1)] by (simp add: cells_eval reads_value)

lemma reads_projr: "reads r \<Longrightarrow> r = Inr (projr r)"
  by (auto simp: reads_def)

lemma mapE_reads: "\<forall>x \<in> set xs. reads (f x) \<Longrightarrow> mapE f xs = Inr (map (\<lambda>x. projr (f x)) xs)"
  by (induction xs) (auto simp: reads_def)

text \<open>What a query returns in a database whose rows can be read.\<close>

definition decoded :: "(sql_value list \<Rightarrow> string + 'a) \<Rightarrow> string list \<Rightarrow> table_def \<Rightarrow> sql_value list \<Rightarrow> 'a" where
  "decoded rd cols def row = projr (rd (map (cell def row) cols))"

definition table_rows_ok :: "sql_db \<Rightarrow> string \<Rightarrow> table_def \<Rightarrow> bool" where
  "table_rows_ok db t def \<longleftrightarrow> (\<forall>r \<in> set (rows_of db t). row_ok def r \<and> row_filled t def r)"

lemma reach_rows:
  assumes "db_reach enforce True db" "target t = Some def"
  shows "hm_get (sq_tables db) t = Some \<lparr>tbl_def = def, tbl_rows = rows_of db t\<rparr>" "table_rows_ok db t def"
    "keys_ok def (rows_of db t)"
proof -
  note I = db_reach_invD [OF assms(1)]
  obtain rows where "hm_get (sq_tables db) t = Some \<lparr>tbl_def = def, tbl_rows = rows\<rparr>"
    using the_table [OF I assms(2)] by blast
  then show g: "hm_get (sq_tables db) t = Some \<lparr>tbl_def = def, tbl_rows = rows_of db t\<rparr>"
    by (simp add: rows_of_def)
  show "table_rows_ok db t def" "keys_ok def (rows_of db t)"
    using db_okD(4,5) [OF db_invD(1) [OF I(1)] g] rows_filled [OF db_invD(2) [OF I(1)] g]
    by (auto simp: table_rows_ok_def)
qed

lemma query_all_calm:
  assumes "db_reach enforce True db" "target t = Some def" "calm env"
    and "\<And>row. row_ok def row \<Longrightarrow> row_filled t def row \<Longrightarrow> reads (rd (map (cell def row) cols))"
  shows "query_all env t cols P rd db = Inr (map (decoded rd cols def) (filter (P def) (rows_of db t)))"
proof -
  have "mapE rd (map (\<lambda>r. map (cell def r) cols) (filter (P def) (rows_of db t))) =
      Inr (map (decoded rd cols def) (filter (P def) (rows_of db t)))"
    using assms(4) reach_rows(2) [OF assms(1,2)] by (subst mapE_reads) (auto simp: table_rows_ok_def decoded_def comp_def)
  then show ?thesis
    using reach_rows(1) [OF assms(1,2)] assms(3)
    by (simp add: query_all_def calm_connection calm_statement exec_select_def find_table_def)
qed

lemma find_filter: "find P xs = (case filter P xs of [] \<Rightarrow> None | x # _ \<Rightarrow> Some x)"
  by (induction xs) simp_all

lemma query_optional_calm:
  assumes "db_reach enforce True db" "target t = Some def" "calm env"
    and "\<And>row. row_ok def row \<Longrightarrow> row_filled t def row \<Longrightarrow> reads (rd (map (cell def row) cols))"
  shows "query_optional env t cols P rd db = Inr (map_option (decoded rd cols def) (find (P def) (rows_of db t)))"
proof (cases "filter (P def) (rows_of db t)")
  case Nil
  then show ?thesis
    using reach_rows(1) [OF assms(1,2)] assms(3)
    by (simp add: query_optional_def calm_connection calm_statement exec_select_def find_table_def find_filter)
next
  case (Cons row rest)
  then have "row \<in> set (rows_of db t)"
    by (metis filter_is_subset list.set_intros(1) subsetD)
  then have "rd (map (cell def row) cols) = Inr (decoded rd cols def row)"
    using assms(4) reach_rows(2) [OF assms(1,2)] unfolding table_rows_ok_def decoded_def by (blast intro: reads_projr)
  then show ?thesis
    using reach_rows(1) [OF assms(1,2)] assms(3) Cons
    by (simp add: query_optional_def calm_connection calm_statement exec_select_def find_table_def find_filter)
qed

text \<open>The queries of the sources.\<close>

lemma calm_queries:
  assumes "db_reach enforce True db" "calm env"
  shows
    "get_device env i db = Inr (map_option (decoded DeviceRecord_read device_cols devices_table) (find (where_eq ''id'' (SBlob (did_value i)) devices_table) (rows_of db ''devices'')))"
    "get_paired_devices env db = Inr (map (decoded DeviceRecord_read device_cols devices_table) (filter (where_eq ''paired'' (SInt 1) devices_table) (rows_of db ''devices'')))"
    "get_session env sid db = Inr (map_option (decoded SessionRecord_read session_cols sessions_table) (find (where_eq ''id'' (SBlob (sid_value sid)) sessions_table) (rows_of db ''sessions'')))"
    "get_active_sessions env db = Inr (map (decoded SessionRecord_read session_cols sessions_table) (filter (\<lambda>r. cell sessions_table r ''state'' \<in> SText ` {''opening'', ''negotiating'', ''authenticating'', ''active''}) (rows_of db ''sessions'')))"
    "list_config env db = Inr (map (decoded ConfigRecord_read config_cols config_table) (filter (\<lambda>r. True) (rows_of db ''config'')))"
    "get_sync_job env k db = Inr (map_option (decoded SyncJobRecord_read sync_job_cols sync_jobs_table) (find (where_eq ''id'' (SText k) sync_jobs_table) (rows_of db ''sync_jobs'')))"
    "list_sync_jobs env db = Inr (map (decoded SyncJobRecord_read sync_job_cols sync_jobs_table) (filter (\<lambda>r. True) (rows_of db ''sync_jobs'')))"
    "get_sync_conflicts env k db = Inr (map (decoded SyncConflictRecord_read sync_conflict_cols sync_conflicts_table) (filter (where_eq ''job_id'' (SText k) sync_conflicts_table) (rows_of db ''sync_conflicts'')))"
proof -
  show "get_device env i db = Inr (map_option (decoded DeviceRecord_read device_cols devices_table) (find (where_eq ''id'' (SBlob (did_value i)) devices_table) (rows_of db ''devices'')))"
    unfolding get_device_def by (rule query_optional_calm [OF assms(1) _ assms(2)]) (simp_all add: device_reads)
  show "get_paired_devices env db = Inr (map (decoded DeviceRecord_read device_cols devices_table) (filter (where_eq ''paired'' (SInt 1) devices_table) (rows_of db ''devices'')))"
    unfolding get_paired_devices_def by (rule query_all_calm [OF assms(1) _ assms(2)]) (simp_all add: device_reads)
  show "get_session env sid db = Inr (map_option (decoded SessionRecord_read session_cols sessions_table) (find (where_eq ''id'' (SBlob (sid_value sid)) sessions_table) (rows_of db ''sessions'')))"
    unfolding get_session_def by (rule query_optional_calm [OF assms(1) _ assms(2)]) (simp_all add: session_reads)
  show "get_active_sessions env db = Inr (map (decoded SessionRecord_read session_cols sessions_table) (filter (\<lambda>r. cell sessions_table r ''state'' \<in> SText ` {''opening'', ''negotiating'', ''authenticating'', ''active''}) (rows_of db ''sessions'')))"
    unfolding get_active_sessions_def by (rule query_all_calm [OF assms(1) _ assms(2)]) (simp_all add: session_reads)
  show "list_config env db = Inr (map (decoded ConfigRecord_read config_cols config_table) (filter (\<lambda>r. True) (rows_of db ''config'')))"
    unfolding list_config_def by (rule query_all_calm [OF assms(1) _ assms(2)]) (simp_all add: config_reads)
  show "get_sync_job env k db = Inr (map_option (decoded SyncJobRecord_read sync_job_cols sync_jobs_table) (find (where_eq ''id'' (SText k) sync_jobs_table) (rows_of db ''sync_jobs'')))"
    unfolding get_sync_job_def by (rule query_optional_calm [OF assms(1) _ assms(2)]) (simp_all add: sync_job_reads)
  show "list_sync_jobs env db = Inr (map (decoded SyncJobRecord_read sync_job_cols sync_jobs_table) (filter (\<lambda>r. True) (rows_of db ''sync_jobs'')))"
    unfolding list_sync_jobs_def by (rule query_all_calm [OF assms(1) _ assms(2)]) (simp_all add: sync_job_reads)
  show "get_sync_conflicts env k db = Inr (map (decoded SyncConflictRecord_read sync_conflict_cols sync_conflicts_table) (filter (where_eq ''job_id'' (SText k) sync_conflicts_table) (rows_of db ''sync_conflicts'')))"
    unfolding get_sync_conflicts_def by (rule query_all_calm [OF assms(1) _ assms(2)]) (simp_all add: sync_conflict_reads)
qed

lemma get_config_calm:
  assumes "db_reach enforce True db" "calm env"
  shows "db_get_config env k db =
    Inr (map_option (decoded (\<lambda>row. from_text (row ! 0)) [''value''] config_table)
      (find (where_eq ''key'' (SText k) config_table) (rows_of db ''config'')))"
  unfolding db_get_config_def by (rule query_optional_calm [OF assms(1) _ assms(2)]) (simp_all add: config_value_reads)

text \<open>
  C11. Rows fit the records they are read into. In a database that has been opened and used in
  any way, a query that meets no failure of the engine returns the records of all rows that match: no row is ever of a shape that \<open>row.get\<close>
  refuses, though the schema lets columns be null that the records do not.
\<close>

theorem queries_never_misread:
  assumes "db_reach enforce True db" "calm env"
  shows "(\<exists>rs. list_config env db = Inr rs \<and> length rs = length (rows_of db ''config'')) \<and>
    (\<exists>rs. list_sync_jobs env db = Inr rs \<and> length rs = length (rows_of db ''sync_jobs'')) \<and>
    reads (get_device env i db) \<and> reads (get_paired_devices env db) \<and> reads (get_session env sid db) \<and>
    reads (get_active_sessions env db) \<and> reads (db_get_config env k db) \<and> reads (get_sync_job env k db) \<and>
    reads (get_sync_conflicts env k db)"
  by (simp add: calm_queries [OF assms] get_config_calm [OF assms] reads_Inr)

theorem queries_never_misread_witness:
  "reads (get_session (quiet True 1) \<lparr>sid_value = [7]\<rparr> (opened_db True)) \<and> reads (db_get_config (quiet True 1) ''a'' (opened_db True))"
  using queries_never_misread [OF reach_opened, of "quiet True 1" True _ "\<lparr>sid_value = [7]\<rparr>" "''a''"] by simp

subsection \<open>What an upsert does to the rows of a table\<close>

lemma where_eq_clash:
  assumes "cell def row c = K" "K \<noteq> SNull"
  shows "clash def c row = where_eq c K def"
  using assms by (auto simp: clash_def where_eq_def matches_def fun_eq_iff)

definition upserted :: "table_def \<Rightarrow> (string \<times> sql_value) list \<Rightarrow> string list \<Rightarrow> sql_value list option \<Rightarrow> sql_value list" where
  "upserted def vals sets old =
     (case old of None \<Rightarrow> build_row def vals | Some r \<Rightarrow> overwrite def (filter (\<lambda>(x, _). x \<in> set sets) vals) r)"

text \<open>A row other than the one that is replaced has one of the unique values of the new row.\<close>

definition collides :: "table_def \<Rightarrow> sql_column \<Rightarrow> sql_value \<Rightarrow> sql_value list \<Rightarrow> sql_value list list \<Rightarrow> bool" where
  "collides def c K new rows \<longleftrightarrow>
     (\<exists>c' \<in> set (tb_columns def). col_key c' \<and> c' \<noteq> c \<and>
        (\<exists>r \<in> set rows. cell def r (col_name c) \<noteq> K \<and> clash def (col_name c') new r))"

lemma key_violation_collides:
  assumes "cell def new (col_name c) = K" "set others = {r \<in> set rows. cell def r (col_name c) \<noteq> K}"
  shows "key_violation def others new = None \<longleftrightarrow> \<not> collides def c K new rows"
proof -
  have none: "\<forall>r \<in> set rows. cell def r (col_name c) \<noteq> K \<longrightarrow> \<not> clash def (col_name c) new r"
    using assms(1) by (auto simp: clash_def)
  have others: "(\<forall>r \<in> set others. P r) \<longleftrightarrow> (\<forall>r \<in> set rows. cell def r (col_name c) \<noteq> K \<longrightarrow> P r)" for P
    by (auto simp: assms(2))
  show ?thesis
    unfolding key_violation_None collides_def others using none by blast
qed

lemma map_of_filter_sets: "map_of (filter (\<lambda>(x, _). x \<in> S) vals) k = (if k \<in> S then map_of vals k else None)"
  by (induction vals) auto

lemma null_upserted:
  assumes "distinct (column_names def)" "null_violation def (build_row def vals) = None" "\<forall>r. old = Some r \<longrightarrow> row_ok def r"
  shows "null_violation def (upserted def vals sets old) = None"
proof (cases old)
  case None
  then show ?thesis
    using assms(2) by (simp add: upserted_def)
next
  case (Some r)
  show ?thesis
    unfolding null_violation_None
  proof (intro ballI impI)
    fix c
    assume c: "c \<in> set (tb_columns def)" "col_not_null c"
    have "cell def (build_row def vals) (col_name c) \<noteq> SNull"
      using assms(2) c unfolding null_violation_None by blast
    moreover have "cell def r (col_name c) \<noteq> SNull"
      using cell_column_ok [OF _ assms(1) c(1), of r] assms(3) Some c(2) by (simp add: column_ok_def)
    ultimately show "cell def (upserted def vals sets old) (col_name c) \<noteq> SNull"
      using c(1) by (auto simp: upserted_def Some cell_overwrite [OF assms(1)] cell_build [OF assms(1)] map_of_filter_sets
          split: option.splits)
  qed
qed

text \<open>The two ways of an upsert: its key is free and the row is added, or it is taken and the row is replaced.\<close>

lemma upsert_added:
  assumes reach: "db_reach enforce True db" and def: "target t = Some def" "c \<in> set (tb_columns def)" "col_key c" "tb_foreign_keys def = []"
    and vals: "map_of vals (col_name c) = Some K" "K \<noteq> SNull" "col_name c \<notin> set sets" "null_violation def (build_row def vals) = None"
    and none: "find (where_eq (col_name c) K def) (rows_of db t) = None" and new: "new = build_row def vals"
  shows "if collides def c K new (rows_of db t) then \<exists>m. exec_upsert enforce t vals (col_name c) sets db = Inl m
    else \<exists>rows. exec_upsert enforce t vals (col_name c) sets db = Inr (set_rows t rows db) \<and>
      (\<forall>k. find (where_eq (col_name c) k def) rows = (if k = K then Some new else find (where_eq (col_name c) k def) (rows_of db t)))"
proof -
  note T = reach_rows [OF reach def(1)]
  let ?rows = "rows_of db t"
  have K: "cell def new (col_name c) = K"
    by (simp add: new cell_build [OF columns_distinct [OF def(1)] def(2)] vals(1))
  have no: "\<forall>r \<in> set ?rows. cell def r (col_name c) \<noteq> K"
    using none by (auto simp: find_None_iff where_eq_def matches_def)
  have chk: "check_row enforce db def ?rows new = Inr () \<longleftrightarrow> \<not> collides def c K new ?rows"
    using no vals(4) def(4) key_violation_collides [OF K, of ?rows ?rows]
    unfolding check_row_Inr by (auto simp: foreign_ok_def new)
  have run: "exec_upsert enforce t vals (col_name c) sets db =
      (case check_row enforce db def ?rows new of Inl e \<Rightarrow> Inl e | Inr _ \<Rightarrow> Inr (set_rows t (?rows @ [new]) db))"
    using T(1) none vals(4) where_eq_clash [OF K [unfolded new] vals(2)]
    by (cases "check_row enforce db def ?rows new") (simp_all add: exec_upsert_def exec_insert_def find_table_def Let_def new)
  have "find (where_eq (col_name c) k def) (?rows @ [new]) =
      (if k = K then Some new else find (where_eq (col_name c) k def) ?rows)" for k
    using none K by (simp add: find_append where_eq_def matches_def split: option.splits)
  then show ?thesis
    using chk run by (cases "check_row enforce db def ?rows new") auto
qed

lemma upsert_replaced:
  assumes reach: "db_reach enforce True db" and def: "target t = Some def" "c \<in> set (tb_columns def)" "col_key c" "tb_foreign_keys def = []"
    and vals: "map_of vals (col_name c) = Some K" "K \<noteq> SNull" "col_name c \<notin> set sets" "null_violation def (build_row def vals) = None"
    and some: "find (where_eq (col_name c) K def) (rows_of db t) = Some old" and new: "new = upserted def vals sets (Some old)"
  shows "if collides def c K new (rows_of db t) then \<exists>m. exec_upsert enforce t vals (col_name c) sets db = Inl m
    else \<exists>rows. exec_upsert enforce t vals (col_name c) sets db = Inr (set_rows t rows db) \<and>
      (\<forall>k. find (where_eq (col_name c) k def) rows = (if k = K then Some new else find (where_eq (col_name c) k def) (rows_of db t)))"
proof -
  note T = reach_rows [OF reach def(1)]
  note dist = columns_distinct [OF def(1)]
  let ?rows = "rows_of db t" and ?row = "build_row def vals"
  have K: "cell def ?row (col_name c) = K"
    by (simp add: cell_build [OF dist def(2)] vals(1))
  note cl = where_eq_clash [OF K vals(2)]
  have notnull: "null_violation def new = None"
    unfolding new using T(2) some by (intro null_upserted [OF dist vals(4)]) (auto simp: table_rows_ok_def find_Some_iff all_set_conv_all_nth)
  have "db_ok enforce db"
    using db_reach_invD(1) [OF reach] db_invD(1) by blast
  then obtain xs ys where S: "?rows = xs @ old # ys" "where_eq (col_name c) K def old"
    "filter (\<lambda>r. \<not> where_eq (col_name c) K def r) ?rows = xs @ ys"
    "\<And>new. map (\<lambda>r. if where_eq (col_name c) K def r then new else r) ?rows = xs @ new # ys"
    using upsert_split [OF _ T(1), of enforce c ?row old] some def(2,3) by (auto simp: cl)
  have newK: "cell def new (col_name c) = K"
    using S(2) vals(3) def(2) by (simp add: new upserted_def cell_overwrite [OF dist] map_of_filter_sets where_eq_def matches_def)
  have "set (xs @ ys) = set (filter (\<lambda>r. \<not> where_eq (col_name c) K def r) ?rows)"
    by (simp only: S(3))
  then have rest: "\<forall>r \<in> set (xs @ ys). cell def r (col_name c) \<noteq> K"
    by (auto simp: where_eq_def matches_def)
  have chk: "check_row enforce db def (xs @ ys) new = Inr () \<longleftrightarrow> \<not> collides def c K new ?rows"
    using rest notnull S(2) def(4) key_violation_collides [OF newK, of "xs @ ys" ?rows]
    unfolding check_row_Inr by (auto simp: foreign_ok_def S(1) where_eq_def matches_def)
  have run: "exec_upsert enforce t vals (col_name c) sets db =
      (case check_row enforce db def (xs @ ys) new of Inl e \<Rightarrow> Inl e | Inr _ \<Rightarrow> Inr (set_rows t (xs @ new # ys) db))"
    using T(1) some vals(4) S(3,4)
    by (cases "check_row enforce db def (xs @ ys) new") (simp_all add: exec_upsert_def find_table_def cl new upserted_def Let_def)
  have "find (where_eq (col_name c) K def) xs = None"
    using rest by (auto simp: find_None_iff where_eq_def matches_def)
  then have "find (where_eq (col_name c) k def) (xs @ new # ys) =
      (if k = K then Some new else find (where_eq (col_name c) k def) ?rows)" for k
    using newK S(2) by (auto simp: S(1) find_append where_eq_def matches_def split: option.splits)
  then show ?thesis
    using chk run by (cases "check_row enforce db def (xs @ ys) new") auto
qed

lemma upsert_result:
  assumes reach: "db_reach enforce True db" and def: "target t = Some def" "c \<in> set (tb_columns def)" "col_key c" "tb_foreign_keys def = []"
    and vals: "map_of vals (col_name c) = Some K" "K \<noteq> SNull" "col_name c \<notin> set sets" "null_violation def (build_row def vals) = None"
    and new: "new = upserted def vals sets (find (where_eq (col_name c) K def) (rows_of db t))"
  shows "collides def c K new (rows_of db t) \<Longrightarrow> \<exists>m. exec_upsert enforce t vals (col_name c) sets db = Inl m"
    and "\<not> collides def c K new (rows_of db t) \<Longrightarrow> \<exists>db'. exec_upsert enforce t vals (col_name c) sets db = Inr db' \<and>
      (\<forall>k. find (where_eq (col_name c) k def) (rows_of db' t) =
         (if k = K then Some new else find (where_eq (col_name c) k def) (rows_of db t))) \<and>
      (\<forall>n. n \<noteq> t \<longrightarrow> rows_of db' n = rows_of db n)"
proof -
  have "if collides def c K new (rows_of db t) then \<exists>m. exec_upsert enforce t vals (col_name c) sets db = Inl m
    else \<exists>rows. exec_upsert enforce t vals (col_name c) sets db = Inr (set_rows t rows db) \<and>
      (\<forall>k. find (where_eq (col_name c) k def) rows = (if k = K then Some new else find (where_eq (col_name c) k def) (rows_of db t)))"
  proof (cases "find (where_eq (col_name c) K def) (rows_of db t)")
    case None
    then have "new = build_row def vals"
      by (simp add: new upserted_def)
    then show ?thesis
      by (rule upsert_added [OF reach def vals None])
  next
    case (Some old)
    then show ?thesis
      using new by (intro upsert_replaced [OF reach def vals Some]) simp
  qed
  then show "collides def c K new (rows_of db t) \<Longrightarrow> \<exists>m. exec_upsert enforce t vals (col_name c) sets db = Inl m"
    "\<not> collides def c K new (rows_of db t) \<Longrightarrow> \<exists>db'. exec_upsert enforce t vals (col_name c) sets db = Inr db' \<and>
      (\<forall>k. find (where_eq (col_name c) k def) (rows_of db' t) =
         (if k = K then Some new else find (where_eq (col_name c) k def) (rows_of db t))) \<and>
      (\<forall>n. n \<noteq> t \<longrightarrow> rows_of db' n = rows_of db n)"
    using reach_rows(1) [OF reach def(1)] by (fastforce simp: rows_of_set_rows)+
qed

subsection \<open>The columns of a row, by position\<close>

lemma device_cells [simp]:
  "cell devices_table [x0, x1, x2, x3, x4, x5, x6, x7, x8] ''id'' = x0"
  "cell devices_table [x0, x1, x2, x3, x4, x5, x6, x7, x8] ''name'' = x1"
  "cell devices_table [x0, x1, x2, x3, x4, x5, x6, x7, x8] ''address'' = x2"
  "cell devices_table [x0, x1, x2, x3, x4, x5, x6, x7, x8] ''paired'' = x3"
  "cell devices_table [x0, x1, x2, x3, x4, x5, x6, x7, x8] ''trusted'' = x4"
  "cell devices_table [x0, x1, x2, x3, x4, x5, x6, x7, x8] ''psk'' = x5"
  "cell devices_table [x0, x1, x2, x3, x4, x5, x6, x7, x8] ''last_seen'' = x6"
  "cell devices_table [x0, x1, x2, x3, x4, x5, x6, x7, x8] ''created_at'' = x7"
  "cell devices_table [x0, x1, x2, x3, x4, x5, x6, x7, x8] ''metadata'' = x8"
  by (simp_all add: cell_def column_names_def table_columns column_def)

lemma session_cells [simp]:
  "cell sessions_table [x0, x1, x2, x3, x4, x5, x6, x7, x8, x9] ''id'' = x0"
  "cell sessions_table [x0, x1, x2, x3, x4, x5, x6, x7, x8, x9] ''device_id'' = x1"
  "cell sessions_table [x0, x1, x2, x3, x4, x5, x6, x7, x8, x9] ''protocol_version'' = x2"
  "cell sessions_table [x0, x1, x2, x3, x4, x5, x6, x7, x8, x9] ''session_keys'' = x3"
  "cell sessions_table [x0, x1, x2, x3, x4, x5, x6, x7, x8, x9] ''capabilities'' = x4"
  "cell sessions_table [x0, x1, x2, x3, x4, x5, x6, x7, x8, x9] ''state'' = x5"
  "cell sessions_table [x0, x1, x2, x3, x4, x5, x6, x7, x8, x9] ''created_at'' = x6"
  "cell sessions_table [x0, x1, x2, x3, x4, x5, x6, x7, x8, x9] ''last_activity'' = x7"
  "cell sessions_table [x0, x1, x2, x3, x4, x5, x6, x7, x8, x9] ''bytes_sent'' = x8"
  "cell sessions_table [x0, x1, x2, x3, x4, x5, x6, x7, x8, x9] ''bytes_received'' = x9"
  by (simp_all add: cell_def column_names_def table_columns column_def)

lemma config_cells [simp]:
  "cell config_table [x0, x1, x2, x3, x4, x5] ''key'' = x0"
  "cell config_table [x0, x1, x2, x3, x4, x5] ''value'' = x1"
  "cell config_table [x0, x1, x2, x3, x4, x5] ''description'' = x2"
  "cell config_table [x0, x1, x2, x3, x4, x5] ''read_only'' = x3"
  "cell config_table [x0, x1, x2, x3, x4, x5] ''secret'' = x4"
  "cell config_table [x0, x1, x2, x3, x4, x5] ''updated_at'' = x5"
  by (simp_all add: cell_def column_names_def table_columns column_def)

lemma sync_job_cells [simp]:
  "cell sync_jobs_table [x0, x1, x2, x3, x4, x5, x6, x7, x8, x9, x10, x11, x12, x13, x14, x15, x16] ''id'' = x0"
  "cell sync_jobs_table [x0, x1, x2, x3, x4, x5, x6, x7, x8, x9, x10, x11, x12, x13, x14, x15, x16] ''name'' = x1"
  "cell sync_jobs_table [x0, x1, x2, x3, x4, x5, x6, x7, x8, x9, x10, x11, x12, x13, x14, x15, x16] ''description'' = x2"
  "cell sync_jobs_table [x0, x1, x2, x3, x4, x5, x6, x7, x8, x9, x10, x11, x12, x13, x14, x15, x16] ''direction'' = x3"
  "cell sync_jobs_table [x0, x1, x2, x3, x4, x5, x6, x7, x8, x9, x10, x11, x12, x13, x14, x15, x16] ''local_path'' = x4"
  "cell sync_jobs_table [x0, x1, x2, x3, x4, x5, x6, x7, x8, x9, x10, x11, x12, x13, x14, x15, x16] ''remote_path'' = x5"
  "cell sync_jobs_table [x0, x1, x2, x3, x4, x5, x6, x7, x8, x9, x10, x11, x12, x13, x14, x15, x16] ''enabled'' = x6"
  "cell sync_jobs_table [x0, x1, x2, x3, x4, x5, x6, x7, x8, x9, x10, x11, x12, x13, x14, x15, x16] ''auto_sync'' = x7"
  "cell sync_jobs_table [x0, x1, x2, x3, x4, x5, x6, x7, x8, x9, x10, x11, x12, x13, x14, x15, x16] ''schedule_type'' = x8"
  "cell sync_jobs_table [x0, x1, x2, x3, x4, x5, x6, x7, x8, x9, x10, x11, x12, x13, x14, x15, x16] ''schedule_value'' = x9"
  "cell sync_jobs_table [x0, x1, x2, x3, x4, x5, x6, x7, x8, x9, x10, x11, x12, x13, x14, x15, x16] ''conflict_strategy'' = x10"
  "cell sync_jobs_table [x0, x1, x2, x3, x4, x5, x6, x7, x8, x9, x10, x11, x12, x13, x14, x15, x16] ''filters'' = x11"
  "cell sync_jobs_table [x0, x1, x2, x3, x4, x5, x6, x7, x8, x9, x10, x11, x12, x13, x14, x15, x16] ''status'' = x12"
  "cell sync_jobs_table [x0, x1, x2, x3, x4, x5, x6, x7, x8, x9, x10, x11, x12, x13, x14, x15, x16] ''last_sync'' = x13"
  "cell sync_jobs_table [x0, x1, x2, x3, x4, x5, x6, x7, x8, x9, x10, x11, x12, x13, x14, x15, x16] ''created_at'' = x14"
  "cell sync_jobs_table [x0, x1, x2, x3, x4, x5, x6, x7, x8, x9, x10, x11, x12, x13, x14, x15, x16] ''updated_at'' = x15"
  "cell sync_jobs_table [x0, x1, x2, x3, x4, x5, x6, x7, x8, x9, x10, x11, x12, x13, x14, x15, x16] ''stats'' = x16"
  by (simp_all add: cell_def column_names_def table_columns column_def)

lemma sync_conflict_cells [simp]:
  "cell sync_conflicts_table [x0, x1, x2, x3, x4, x5, x6, x7, x8, x9, x10] ''id'' = x0"
  "cell sync_conflicts_table [x0, x1, x2, x3, x4, x5, x6, x7, x8, x9, x10] ''job_id'' = x1"
  "cell sync_conflicts_table [x0, x1, x2, x3, x4, x5, x6, x7, x8, x9, x10] ''local_path'' = x2"
  "cell sync_conflicts_table [x0, x1, x2, x3, x4, x5, x6, x7, x8, x9, x10] ''remote_path'' = x3"
  "cell sync_conflicts_table [x0, x1, x2, x3, x4, x5, x6, x7, x8, x9, x10] ''local_metadata'' = x4"
  "cell sync_conflicts_table [x0, x1, x2, x3, x4, x5, x6, x7, x8, x9, x10] ''remote_metadata'' = x5"
  "cell sync_conflicts_table [x0, x1, x2, x3, x4, x5, x6, x7, x8, x9, x10] ''local_hash'' = x6"
  "cell sync_conflicts_table [x0, x1, x2, x3, x4, x5, x6, x7, x8, x9, x10] ''remote_hash'' = x7"
  "cell sync_conflicts_table [x0, x1, x2, x3, x4, x5, x6, x7, x8, x9, x10] ''detected_at'' = x8"
  "cell sync_conflicts_table [x0, x1, x2, x3, x4, x5, x6, x7, x8, x9, x10] ''resolved'' = x9"
  "cell sync_conflicts_table [x0, x1, x2, x3, x4, x5, x6, x7, x8, x9, x10] ''resolution_strategy'' = x10"
  by (simp_all add: cell_def column_names_def table_columns column_def)

lemma from_to [simp]:
  "from_text (SText s) = Inr s" "from_int (SInt n) = Inr n" "from_blob (SBlob b) = Inr b" "from_bool (to_bool v) = Inr v"
  "from_option from_text (to_option SText nm) = Inr nm" "from_option from_blob (to_option SBlob bs) = Inr bs"
  "from_option from_int (to_option SInt k) = Inr k" "from_option from_int (SInt n) = Inr (Some n)" "from_bool (SInt n) = Inr (n \<noteq> 0)"
  by (simp_all add: from_text_def from_int_def from_blob_def from_bool_def to_bool_def from_option_def to_option_def split: option.splits)

lemma where_eq_find:
  "find (where_eq c K def) rows = Some row \<Longrightarrow> cell def row c = K \<and> row \<in> set rows"
  by (auto simp: find_Some_iff where_eq_def matches_def)

subsection \<open>Configuration entries\<close>

definition config_entry :: "sql_db \<Rightarrow> string \<Rightarrow> ConfigRecord option" where
  "config_entry db k = map_option (decoded ConfigRecord_read config_cols config_table)
     (find (where_eq ''key'' (SText k) config_table) (rows_of db ''config''))"

definition config_vals :: "ConfigRecord \<Rightarrow> (string \<times> sql_value) list" where
  "config_vals r = [(''key'', SText (cr_key r)), (''value'', SText (cr_value r)), (''description'', to_option SText (cr_description r)),
     (''read_only'', to_bool (cr_read_only r)), (''secret'', to_bool (cr_secret r)), (''updated_at'', SInt (cr_updated_at r))]"

definition config_sets :: "string list" where
  "config_sets = [''value'', ''description'', ''read_only'', ''secret'', ''updated_at'']"

definition config_put :: "bool \<Rightarrow> ConfigRecord \<Rightarrow> sql_db \<Rightarrow> bool \<times> sql_db" where
  "config_put enforce r db =
     (case set_config (quiet enforce (unat (cr_updated_at r))) (cr_key r) (cr_value r) (cr_description r) (cr_read_only r) (cr_secret r) db
      of (x, db') \<Rightarrow> (x = Inr (), db'))"

definition config_del :: "bool \<Rightarrow> string \<Rightarrow> sql_db \<Rightarrow> sql_db" where
  "config_del enforce k db = snd (delete_config (quiet enforce 0) k db)"

lemma execute_calm: "calm env \<Longrightarrow> execute env st db = (case st db of Inl e \<Rightarrow> (Inl (db_err e), db) | Inr db' \<Rightarrow> (Inr (), db'))"
  by (auto simp: execute_def calm_connection calm_statement split: sum.splits)

lemma execute_now_quiet: "execute_now (quiet enforce t) st = execute (quiet enforce t) (st (of_nat t))"
  by (intro ext) (simp add: execute_now_def calm_connection db_timestamp_def, simp add: quiet_def)

lemma config_put_exec:
  "config_put enforce r db = (case exec_upsert enforce ''config'' (config_vals r) ''key'' config_sets db of Inl e \<Rightarrow> (False, db) | Inr db' \<Rightarrow> (True, db'))"
  by (simp add: config_put_def set_config_def execute_now_quiet execute_calm config_vals_def config_sets_def split: sum.splits)

lemma config_decoded:
  "old = None \<or> (\<exists>row. old = Some row \<and> cell config_table row ''key'' = SText (cr_key r)) \<Longrightarrow>
     decoded ConfigRecord_read config_cols config_table (upserted config_table (config_vals r) config_sets old) = r"
  by (auto simp: decoded_def upserted_def config_vals_def config_sets_def config_cols_def ConfigRecord_read_def build_row_def overwrite_def
      table_columns column_def)

lemma config_put_result:
  assumes "db_reach enforce True db"
  shows "fst (config_put enforce r db)"
    "find (where_eq ''key'' k config_table) (rows_of (snd (config_put enforce r db)) ''config'') =
       (if k = SText (cr_key r)
        then Some (upserted config_table (config_vals r) config_sets (find (where_eq ''key'' (SText (cr_key r)) config_table) (rows_of db ''config'')))
        else find (where_eq ''key'' k config_table) (rows_of db ''config''))"
    "n \<noteq> ''config'' \<Longrightarrow> rows_of (snd (config_put enforce r db)) n = rows_of db n"
proof -
  let ?c = "column ''key'' T_Text False None True"
  let ?new = "upserted config_table (config_vals r) config_sets (find (where_eq (col_name ?c) (SText (cr_key r)) config_table) (rows_of db ''config''))"
  have nc: "\<not> collides config_table ?c (SText (cr_key r)) ?new (rows_of db ''config'')"
    by (simp add: collides_def table_columns column_def)
  have "null_violation config_table (build_row config_table (config_vals r)) = None"
    by (simp add: null_violation_None table_columns column_def build_row_def config_vals_def)
  then obtain db' where db': "exec_upsert enforce ''config'' (config_vals r) (col_name ?c) config_sets db = Inr db'"
    "\<forall>k. find (where_eq (col_name ?c) k config_table) (rows_of db' ''config'') =
      (if k = SText (cr_key r) then Some ?new else find (where_eq (col_name ?c) k config_table) (rows_of db ''config''))"
    "\<forall>n. n \<noteq> ''config'' \<longrightarrow> rows_of db' n = rows_of db n"
    using upsert_result(2) [OF assms, of "''config''" config_table ?c "config_vals r" "SText (cr_key r)" config_sets ?new, OF _ _ _ _ _ _ _ _ refl nc]
    by (auto simp: table_columns column_def config_vals_def config_sets_def config_table_def)
  then have "config_put enforce r db = (True, db')"
    by (simp add: config_put_exec column_def)
  then show "fst (config_put enforce r db)" "n \<noteq> ''config'' \<Longrightarrow> rows_of (snd (config_put enforce r db)) n = rows_of db n"
    "find (where_eq ''key'' k config_table) (rows_of (snd (config_put enforce r db)) ''config'') =
       (if k = SText (cr_key r)
        then Some (upserted config_table (config_vals r) config_sets (find (where_eq ''key'' (SText (cr_key r)) config_table) (rows_of db ''config'')))
        else find (where_eq ''key'' k config_table) (rows_of db ''config''))"
    using db'(2,3) by (simp_all add: column_def)
qed

lemma delete_result:
  assumes "db_reach enforce True db" "target t = Some def"
  shows "\<exists>db'. exec_delete enforce t conds db = Inr db' \<and>
    (\<forall>n x. target n = Some x \<longrightarrow> rows_of db' n =
       (let rows = (if n = t then filter (\<lambda>r. \<not> matches def conds r) (rows_of db t) else rows_of db n) in
        if enforce then tbl_rows (cascade t def (filter (matches def conds) (rows_of db t)) \<lparr>tbl_def = x, tbl_rows = rows\<rparr>) else rows))"
proof -
  note T = reach_rows(1) [OF assms]
  let ?db1 = "set_rows t (filter (\<lambda>r. \<not> matches def conds r) (rows_of db t)) db"
  let ?gone = "filter (matches def conds) (rows_of db t)"
  let ?db2 = "if enforce then ?db1\<lparr>sq_tables := map (\<lambda>(n, x). (n, cascade t def ?gone x)) (sq_tables ?db1)\<rparr> else ?db1"
  have "exec_delete enforce t conds db = Inr ?db2"
    using T by (simp add: exec_delete_def find_table_def Let_def)
  moreover have "rows_of ?db2 n =
       (let rows = (if n = t then filter (\<lambda>r. \<not> matches def conds r) (rows_of db t) else rows_of db n) in
        if enforce then tbl_rows (cascade t def ?gone \<lparr>tbl_def = x, tbl_rows = rows\<rparr>) else rows)"
    if "target n = Some x" for n x
  proof -
    have "hm_get (sq_tables ?db1) n =
        Some \<lparr>tbl_def = x, tbl_rows = (if n = t then filter (\<lambda>r. \<not> matches def conds r) (rows_of db t) else rows_of db n)\<rparr>"
      using T reach_rows(1) [OF assms(1) that] that assms(2) by (auto simp: get_set_rows)
    then show ?thesis
      by (cases enforce) (simp_all add: rows_of_def [of "_\<lparr>sq_tables := _\<rparr>"] rows_of_def [of "set_rows _ _ _"] get_map_tables Let_def)
  qed
  ultimately show ?thesis
    by blast
qed

lemma no_reference_cascade:
  assumes "target n = Some x" "\<forall>fk. \<not> (reference n fk \<and> fk_table fk = t)"
  shows "tbl_rows (cascade t def gone \<lparr>tbl_def = x, tbl_rows = rows\<rparr>) = rows"
  using assms by (subst cascade_rows) (auto simp: reference_def)

lemma find_after_delete:
  assumes "keys_ok def rows" "c \<in> set (tb_columns def)" "col_key c" "K \<noteq> SNull"
  shows "find (where_eq (col_name c) k def) (filter (\<lambda>r. \<not> (where_eq (col_name c) K def r \<and> Q r)) rows) =
    (if k = K \<and> (\<forall>r. find (where_eq (col_name c) k def) rows = Some r \<longrightarrow> Q r) then None
     else find (where_eq (col_name c) k def) rows)"
proof (cases "find (where_eq (col_name c) K def) rows")
  case None
  then have "filter (\<lambda>r. \<not> (where_eq (col_name c) K def r \<and> Q r)) rows = rows"
    by (auto simp: find_None_iff filter_id_conv)
  then show ?thesis
    using None by simp
next
  case (Some old)
  then obtain xs ys where S: "rows = xs @ old # ys" "where_eq (col_name c) K def old"
    using find_split [OF Some] by blast
  then have "\<forall>r \<in> set (xs @ ys). \<not> where_eq (col_name c) K def r"
    using keys_ok_unique [OF assms(1-3) S(1)] assms(4) by (auto simp: where_eq_def matches_def)
  then have rest: "filter (\<lambda>r. \<not> (where_eq (col_name c) K def r \<and> Q r)) xs = xs" "filter (\<lambda>r. \<not> (where_eq (col_name c) K def r \<and> Q r)) ys = ys"
    "find (where_eq (col_name c) K def) xs = None" "find (where_eq (col_name c) K def) ys = None"
    by (auto simp: filter_id_conv find_None_iff)
  have "\<not> where_eq (col_name c) k def old" if "k \<noteq> K"
    using S(2) that by (auto simp: where_eq_def matches_def)
  then show ?thesis
    using S rest by (auto simp: find_append split: option.splits)
qed

lemma decoded_eq: "reads (rd (map (cell def row) cols)) \<Longrightarrow> rd (map (cell def row) cols) = Inr (decoded rd cols def row)"
  by (simp add: decoded_def reads_projr)

lemma from_bool_Inr: "from_bool v = Inr b \<longleftrightarrow> (\<exists>n. v = SInt n \<and> b = (n \<noteq> 0))"
  by (auto simp: from_bool_def split: sql_value.splits)

lemma config_read_only:
  assumes "row_ok config_table row" "row_filled ''config'' config_table row"
  shows "cr_read_only (decoded ConfigRecord_read config_cols config_table row) \<longleftrightarrow> cell config_table row ''read_only'' \<noteq> SInt 0"
    "cr_value (decoded ConfigRecord_read config_cols config_table row) =
      decoded (\<lambda>row. from_text (row ! 0)) [''value''] config_table row"
proof -
  obtain e where e: "ConfigRecord_read (map (cell config_table row) config_cols) = Inr e"
    using config_reads [OF assms] by (auto simp: reads_def)
  then have d: "decoded ConfigRecord_read config_cols config_table row = e"
    by (simp add: decoded_def)
  show "cr_read_only (decoded ConfigRecord_read config_cols config_table row) \<longleftrightarrow> cell config_table row ''read_only'' \<noteq> SInt 0"
    "cr_value (decoded ConfigRecord_read config_cols config_table row) =
      decoded (\<lambda>row. from_text (row ! 0)) [''value''] config_table row"
    unfolding d using e by (auto simp: ConfigRecord_read_def bindE_Inr_iff config_cols_def from_bool_Inr decoded_def)
qed

lemma config_del_result:
  assumes "db_reach enforce True db"
  shows "config_entry (config_del enforce k db) k' =
      (if k' = k \<and> (\<forall>e. config_entry db k = Some e \<longrightarrow> \<not> cr_read_only e) then None else config_entry db k')"
    "target n = Some x \<Longrightarrow> n \<noteq> ''config'' \<Longrightarrow> rows_of (config_del enforce k db) n = rows_of db n"
proof -
  let ?conds = "[(''key'', SText k), (''read_only'', SInt 0)]"
  let ?Q = "\<lambda>r. cell config_table r ''read_only'' = SInt 0"
  let ?c = "column ''key'' T_Text False None True"
  note T = reach_rows [OF assms, of "''config''" config_table]
  obtain db' where db': "exec_delete enforce ''config'' ?conds db = Inr db'"
    and rows: "\<forall>n x. target n = Some x \<longrightarrow> rows_of db' n =
       (let rows = (if n = ''config'' then filter (\<lambda>r. \<not> matches config_table ?conds r) (rows_of db ''config'') else rows_of db n) in
        if enforce then tbl_rows (cascade ''config'' config_table (filter (matches config_table ?conds) (rows_of db ''config''))
          \<lparr>tbl_def = x, tbl_rows = rows\<rparr>) else rows)"
    using delete_result [OF assms, of "''config''" config_table ?conds] by auto
  have rows': "rows_of db' n = (if n = ''config'' then filter (\<lambda>r. \<not> matches config_table ?conds r) (rows_of db ''config'') else rows_of db n)"
    if "target n = Some x" for n x
  proof -
    have "\<forall>fk. \<not> (reference n fk \<and> fk_table fk = ''config'')"
      by (auto simp: reference_iff)
    then show ?thesis
      using rows that no_reference_cascade [OF that] by (simp add: Let_def)
  qed
  have del: "config_del enforce k db = db'"
    using db' by (simp add: config_del_def delete_config_def execute_calm)
  then show "target n = Some x \<Longrightarrow> n \<noteq> ''config'' \<Longrightarrow> rows_of (config_del enforce k db) n = rows_of db n"
    using rows' by simp
  have m: "matches config_table ?conds r \<longleftrightarrow> where_eq (col_name ?c) (SText k) config_table r \<and> ?Q r" for r
    by (simp add: matches_def where_eq_def column_def)
  have F: "find (where_eq (col_name ?c) (SText k') config_table) (rows_of db' ''config'') =
      (if SText k' = SText k \<and> (\<forall>r. find (where_eq (col_name ?c) (SText k') config_table) (rows_of db ''config'') = Some r \<longrightarrow> ?Q r) then None
       else find (where_eq (col_name ?c) (SText k') config_table) (rows_of db ''config''))"
    unfolding rows' [of "''config''" config_table, simplified] m
    by (rule find_after_delete [of config_table]) (use T(3) in \<open>simp_all add: table_columns column_def\<close>)
  have "\<not> cr_read_only (decoded ConfigRecord_read config_cols config_table r) \<longleftrightarrow> ?Q r"
    if "find (where_eq ''key'' (SText k) config_table) (rows_of db ''config'') = Some r" for r
    using config_read_only(1) [of r] T(2) where_eq_find [OF that] by (auto simp: table_rows_ok_def)
  then show "config_entry (config_del enforce k db) k' =
      (if k' = k \<and> (\<forall>e. config_entry db k = Some e \<longrightarrow> \<not> cr_read_only e) then None else config_entry db k')"
    using F by (auto simp: config_entry_def del column_def)
qed

lemma config_del_reach: "db_reach enforce True db \<Longrightarrow> db_reach enforce True (config_del enforce k db)"
  using reach_call [of enforce db 0 "Delete_config k"] by (simp add: config_del_def db_step_def)

lemma config_put_reach: "db_reach enforce True db \<Longrightarrow> db_reach enforce True (snd (config_put enforce r db))"
  using reach_call [of enforce db "unat (cr_updated_at r)" "Set_config (cr_key r) (cr_value r) (cr_description r) (cr_read_only r) (cr_secret r)"]
  by (simp add: config_put_def db_step_def split_def)

interpretation stored_config: upsert_delete_store config_entry "config_put enforce" cr_key "\<lambda>_ r. r" "\<lambda>_ _. True"
    "db_reach enforce True" "config_del enforce" "\<lambda>r. \<not> cr_read_only r" for enforce
proof unfold_locales
  show "fst (config_put enforce v s) \<and> db_reach enforce True (snd (config_put enforce v s)) \<and>
      config_entry (snd (config_put enforce v s)) k = (if k = cr_key v then Some v else config_entry s k)"
    if "db_reach enforce True s" for s v k
  proof -
    let ?old = "find (where_eq ''key'' (SText (cr_key v)) config_table) (rows_of s ''config'')"
    have "?old = None \<or> (\<exists>row. ?old = Some row \<and> cell config_table row ''key'' = SText (cr_key v))"
      using where_eq_find by (cases ?old) blast+
    note dec = config_decoded [OF this]
    have "config_entry (snd (config_put enforce v s)) k = (if k = cr_key v then Some v else config_entry s k)"
      unfolding config_entry_def config_put_result(2) [OF that] by (simp add: dec)
    then show ?thesis
      using config_put_result(1) [OF that] config_put_reach [OF that] by blast
  qed
qed (simp_all add: config_del_result(1) config_del_reach)

lemma get_config_entry:
  assumes "db_reach enforce True db" "calm env"
  shows "db_get_config env k db = Inr (map_option cr_value (config_entry db k))"
proof (cases "find (where_eq ''key'' (SText k) config_table) (rows_of db ''config'')")
  case None
  then show ?thesis
    by (simp add: get_config_calm [OF assms] config_entry_def)
next
  case (Some row)
  then show ?thesis
    using config_read_only(2) [of row] reach_rows(2) [OF assms(1), of "''config''" config_table] where_eq_find [OF Some]
    by (auto simp: get_config_calm [OF assms] config_entry_def table_rows_ok_def)
qed

lemma list_config_entry:
  assumes "db_reach enforce True db" "calm env" "config_entry db k = Some e"
  shows "\<exists>rs. list_config env db = Inr rs \<and> e \<in> set rs"
  using assms(3) where_eq_find by (fastforce simp: calm_queries [OF assms(1,2)] config_entry_def)

lemma config_put_snd:
  "snd (config_put enforce r s) =
     snd (set_config (quiet enforce (unat (cr_updated_at r))) (cr_key r) (cr_value r) (cr_description r) (cr_read_only r) (cr_secret r) s)"
  by (simp add: config_put_def split_def)

text \<open>
  C12. The configuration table is a store in which the last write wins. After any sequence of \<open>set_config\<close> a
  key reads as the value of the last entry written under it, or as before when there is none, whether or not an
  entry that was replaced was marked read-only; \<open>delete_config\<close> removes an entry unless it is
  marked read-only, and then leaves it without a report; other keys are not affected.
\<close>

theorem config_store:
  assumes "db_reach enforce True db" "calm env"
  shows "db_get_config env k (fold (\<lambda>r s. snd (set_config (quiet enforce (unat (cr_updated_at r))) (cr_key r) (cr_value r)
        (cr_description r) (cr_read_only r) (cr_secret r) s)) (rs :: ConfigRecord list) db) =
      Inr (case rev (filter (\<lambda>r. cr_key r = k) rs) of [] \<Rightarrow> map_option cr_value (config_entry db k) | r # _ \<Rightarrow> Some (cr_value r)) \<and>
    fst (delete_config (quiet enforce 0) k' db) = Inr () \<and>
    db_get_config env k (snd (delete_config (quiet enforce 0) k' db)) =
      (if k = k' \<and> (\<forall>e. config_entry db k = Some e \<longrightarrow> \<not> cr_read_only e) then Inr None else db_get_config env k db)"
proof -
  let ?db = "fold (\<lambda>r s. snd (config_put enforce r s)) rs db"
  have run: "?db = stored_config.run enforce rs db"
    by (simp add: stored_config.run_fold)
  have reach: "db_reach enforce True ?db"
    unfolding run by (rule stored_config.run_inv [OF assms(1)])
  have acc: "stored_config.accepted enforce rs db = rs"
    by (rule stored_config.accepted_all [OF assms(1)]) simp
  have "config_entry ?db k = (case rev (filter (\<lambda>r. cr_key r = k) rs) of [] \<Rightarrow> config_entry db k | r # _ \<Rightarrow> Some r)"
    using stored_config.last_write_wins [OF assms(1), where entry = "\<lambda>r. r" and vs = rs and k = k] unfolding run acc by simp
  then have "db_get_config env k ?db =
      Inr (case rev (filter (\<lambda>r. cr_key r = k) rs) of [] \<Rightarrow> map_option cr_value (config_entry db k) | r # _ \<Rightarrow> Some (cr_value r))"
    using get_config_entry [OF reach assms(2)] by (simp split: list.splits)
  moreover have "fst (delete_config (quiet enforce 0) k' db) = Inr ()"
    using delete_result [OF assms(1), of "''config''" config_table "[(''key'', SText k'), (''read_only'', SInt 0)]"]
    by (auto simp: delete_config_def execute_calm)
  moreover have "db_get_config env k (config_del enforce k' db) =
      (if k = k' \<and> (\<forall>e. config_entry db k = Some e \<longrightarrow> \<not> cr_read_only e) then Inr None else db_get_config env k db)"
    using stored_config.del_lookup [OF assms(1), of k' k]
    by (auto simp: get_config_entry [OF config_del_reach [OF assms(1)] assms(2)] get_config_entry [OF assms])
  ultimately show ?thesis
    unfolding config_put_snd config_del_def by blast
qed

theorem config_store_witness:
  "db_get_config (quiet True 0) ''a''
     (fold (\<lambda>r s. snd (set_config (quiet True (unat (cr_updated_at r))) (cr_key r) (cr_value r) (cr_description r) (cr_read_only r) (cr_secret r) s))
       [\<lparr>cr_key = ''a'', cr_value = ''x'', cr_description = None, cr_read_only = True, cr_secret = False, cr_updated_at = 1\<rparr>,
        \<lparr>cr_key = ''a'', cr_value = ''y'', cr_description = None, cr_read_only = True, cr_secret = False, cr_updated_at = 2\<rparr>] (opened_db True)) =
   Inr (Some ''y'')"
  using config_store [where env = "quiet True 0" and k = "''a''" and rs =
      "[\<lparr>cr_key = ''a'', cr_value = ''x'', cr_description = None, cr_read_only = True, cr_secret = False, cr_updated_at = 1\<rparr>,
        \<lparr>cr_key = ''a'', cr_value = ''y'', cr_description = None, cr_read_only = True, cr_secret = False, cr_updated_at = 2\<rparr>]",
      OF reach_opened [of True] calm_quiet(1)] by simp

subsection \<open>Devices\<close>

definition device_entry :: "sql_db \<Rightarrow> DeviceId \<Rightarrow> DeviceRecord option" where
  "device_entry db i = map_option (decoded DeviceRecord_read device_cols devices_table)
     (find (where_eq ''id'' (SBlob (did_value i)) devices_table) (rows_of db ''devices''))"

text \<open>A record stands for a call with its fields, at the time \<open>dr_created_at\<close>.\<close>

definition device_vals :: "DeviceRecord \<Rightarrow> (string \<times> sql_value) list" where
  "device_vals d = [(''id'', SBlob (did_value (dr_id d))), (''name'', to_option SText (dr_name d)), (''address'', SText (dr_address d)),
     (''paired'', to_bool (dr_paired d)), (''trusted'', to_bool (dr_trusted d)), (''psk'', to_option SBlob (dr_psk d)),
     (''last_seen'', SInt (dr_created_at d)), (''created_at'', SInt (dr_created_at d)), (''metadata'', SText ''{}'')]"

definition device_sets :: "string list" where
  "device_sets = [''name'', ''address'', ''paired'', ''trusted'', ''psk'', ''last_seen'']"

definition device_put :: "bool \<Rightarrow> DeviceRecord \<Rightarrow> sql_db \<Rightarrow> bool \<times> sql_db" where
  "device_put enforce d db =
     (case upsert_device (quiet enforce (unat (dr_created_at d))) (dr_id d) (dr_name d) (dr_address d) (dr_paired d) (dr_trusted d) (dr_psk d) db
      of (x, db') \<Rightarrow> (x = Inr (), db'))"

text \<open>What the call makes of the record of the device, if it has one: the time it was created and the metadata stay.\<close>

definition device_merge :: "DeviceRecord option \<Rightarrow> DeviceRecord \<Rightarrow> DeviceRecord" where
  "device_merge old d = d\<lparr>dr_last_seen := Some (dr_created_at d),
     dr_created_at := (case old of None \<Rightarrow> dr_created_at d | Some o1 \<Rightarrow> dr_created_at o1),
     dr_metadata := (case old of None \<Rightarrow> ''{}'' | Some o1 \<Rightarrow> dr_metadata o1)\<rparr>"

definition address_free :: "DeviceRecord \<Rightarrow> sql_db \<Rightarrow> bool" where
  "address_free d db \<longleftrightarrow> list_all (\<lambda>r. cell devices_table r ''id'' = SBlob (did_value (dr_id d)) \<or>
     cell devices_table r ''address'' \<noteq> SText (dr_address d)) (rows_of db ''devices'')"

lemma device_put_exec:
  "device_put enforce d db = (case exec_upsert enforce ''devices'' (device_vals d) ''id'' device_sets db of Inl e \<Rightarrow> (False, db) | Inr db' \<Rightarrow> (True, db'))"
  by (simp add: device_put_def upsert_device_def execute_now_quiet execute_calm device_vals_def device_sets_def split: sum.splits)

lemma from_Inr:
  "from_int v = Inr n \<longleftrightarrow> v = SInt n" "from_text v = Inr s \<longleftrightarrow> v = SText s" "from_blob v = Inr b \<longleftrightarrow> v = SBlob b"
  by (auto simp: from_int_def from_text_def from_blob_def split: sql_value.splits)

lemma device_decoded:
  assumes "old = None \<or> (\<exists>row. old = Some row \<and> cell devices_table row ''id'' = SBlob (did_value (dr_id d)) \<and>
      row_ok devices_table row \<and> row_filled ''devices'' devices_table row)"
  shows "decoded DeviceRecord_read device_cols devices_table (upserted devices_table (device_vals d) device_sets old) =
    device_merge (map_option (decoded DeviceRecord_read device_cols devices_table) old) d"
proof (cases old)
  case None
  then show ?thesis
    by (simp add: decoded_def upserted_def device_vals_def device_cols_def DeviceRecord_read_def build_row_def table_columns column_def device_merge_def)
next
  case (Some row)
  then have row: "cell devices_table row ''id'' = SBlob (did_value (dr_id d))" "row_ok devices_table row" "row_filled ''devices'' devices_table row"
    using assms by auto
  obtain e where e: "DeviceRecord_read (map (cell devices_table row) device_cols) = Inr e"
    using device_reads [OF row(2,3)] by (auto simp: reads_def)
  then have c: "cell devices_table row ''created_at'' = SInt (dr_created_at e)" "cell devices_table row ''metadata'' = SText (dr_metadata e)"
    by (auto simp: DeviceRecord_read_def bindE_Inr_iff device_cols_def from_Inr)
  have "decoded DeviceRecord_read device_cols devices_table row = e"
    using e by (simp add: decoded_def)
  moreover have "upserted devices_table (device_vals d) device_sets old =
      [SBlob (did_value (dr_id d)), to_option SText (dr_name d), SText (dr_address d), to_bool (dr_paired d), to_bool (dr_trusted d),
       to_option SBlob (dr_psk d), SInt (dr_created_at d), SInt (dr_created_at e), SText (dr_metadata e)]"
    using row(1) c by (simp add: Some upserted_def device_vals_def device_sets_def overwrite_def table_columns column_def)
  ultimately show ?thesis
    by (simp add: decoded_def device_cols_def DeviceRecord_read_def device_merge_def Some)
qed

lemma address_collides:
  assumes "cell devices_table new ''address'' = SText (dr_address d)"
  shows "collides devices_table (column ''id'' T_Blob False None True) (SBlob (did_value (dr_id d))) new (rows_of db ''devices'') \<longleftrightarrow>
    \<not> address_free d db"
proof -
  have "collides devices_table (column ''id'' T_Blob False None True) K new rows \<longleftrightarrow>
      (\<exists>r \<in> set rows. cell devices_table r ''id'' \<noteq> K \<and> clash devices_table ''address'' new r)" for K rows
    by (simp add: collides_def table_columns column_def)
  moreover have "clash devices_table ''address'' new r \<longleftrightarrow> cell devices_table r ''address'' = SText (dr_address d)" for r
    using assms by (auto simp: clash_def)
  ultimately show ?thesis
    by (auto simp: address_free_def list_all_iff)
qed

lemma device_upserted_address:
  "cell devices_table (upserted devices_table (device_vals d) device_sets old) ''address'' = SText (dr_address d)"
  by (cases old) (simp_all add: upserted_def device_vals_def device_sets_def build_row_def overwrite_def table_columns column_def)

lemma device_put_result:
  assumes "db_reach enforce True db"
  shows "\<not> address_free d db \<Longrightarrow> device_put enforce d db = (False, db)"
    and "address_free d db \<Longrightarrow> fst (device_put enforce d db) \<and>
      device_entry (snd (device_put enforce d db)) i =
        (if i = dr_id d then Some (device_merge (device_entry db i) d) else device_entry db i)"
proof -
  let ?c = "column ''id'' T_Blob False None True"
  let ?K = "SBlob (did_value (dr_id d))"
  let ?old = "find (where_eq (col_name ?c) ?K devices_table) (rows_of db ''devices'')"
  let ?new = "upserted devices_table (device_vals d) device_sets ?old"
  have cond: "?c \<in> set (tb_columns devices_table)" "col_key ?c" "tb_foreign_keys devices_table = []"
    "map_of (device_vals d) (col_name ?c) = Some ?K" "?K \<noteq> SNull" "col_name ?c \<notin> set device_sets"
    by (simp_all add: table_columns column_def device_vals_def device_sets_def) (simp add: devices_table_def)
  have nn: "null_violation devices_table (build_row devices_table (device_vals d)) = None"
    by (simp add: null_violation_None table_columns column_def build_row_def device_vals_def)
  note U = upsert_result [OF assms, of "''devices''" devices_table ?c "device_vals d" ?K device_sets ?new, OF _ cond nn refl]
  note coll = address_collides [OF device_upserted_address, of d ?old db]
  show "device_put enforce d db = (False, db)" if "\<not> address_free d db"
    using U(1) coll that by (auto simp: device_put_exec column_def)
  assume free: "address_free d db"
  then obtain db' where db': "exec_upsert enforce ''devices'' (device_vals d) (col_name ?c) device_sets db = Inr db'"
    "\<forall>k. find (where_eq (col_name ?c) k devices_table) (rows_of db' ''devices'') =
       (if k = ?K then Some ?new else find (where_eq (col_name ?c) k devices_table) (rows_of db ''devices''))"
    using U(2) coll by auto
  have put: "device_put enforce d db = (True, db')"
    using db'(1) by (simp add: device_put_exec column_def)
  have "?old = None \<or> (\<exists>row. ?old = Some row \<and> cell devices_table row ''id'' = ?K \<and> row_ok devices_table row \<and>
      row_filled ''devices'' devices_table row)"
  proof (cases ?old)
    case (Some row)
    then show ?thesis
      using where_eq_find [OF Some] reach_rows(2) [OF assms, of "''devices''" devices_table]
      by (auto simp: table_rows_ok_def column_def)
  qed simp
  from device_decoded [OF this]
  have dec: "decoded DeviceRecord_read device_cols devices_table ?new = device_merge (device_entry db (dr_id d)) d"
    by (simp add: device_entry_def column_def)
  have "SBlob (did_value i) = ?K \<longleftrightarrow> i = dr_id d"
    by (cases i, cases "dr_id d") simp
  then have "device_entry db' i = (if i = dr_id d then Some (device_merge (device_entry db i) d) else device_entry db i)"
    using db'(2) dec by (auto simp: device_entry_def column_def)
  then show "fst (device_put enforce d db) \<and> device_entry (snd (device_put enforce d db)) i =
      (if i = dr_id d then Some (device_merge (device_entry db i) d) else device_entry db i)"
    by (simp add: put)
qed

lemma device_put_reach: "db_reach enforce True db \<Longrightarrow> db_reach enforce True (snd (device_put enforce d db))"
  using reach_call [of enforce db "unat (dr_created_at d)"
      "Upsert_device (dr_id d) (dr_name d) (dr_address d) (dr_paired d) (dr_trusted d) (dr_psk d)"]
  by (simp add: device_put_def db_step_def split_def)

interpretation stored_devices: upsert_store device_entry "device_put enforce" dr_id device_merge address_free "db_reach enforce True"
  for enforce
proof unfold_locales
  show "fst (device_put enforce v s) \<and> db_reach enforce True (snd (device_put enforce v s)) \<and>
      device_entry (snd (device_put enforce v s)) k = (if k = dr_id v then Some (device_merge (device_entry s k) v) else device_entry s k)"
    if "db_reach enforce True s" "address_free v s" for s v k
    using device_put_result(2) [OF that, of k] device_put_reach [OF that(1)] by blast
qed (rule device_put_result(1))

lemma get_device_entry:
  "db_reach enforce True db \<Longrightarrow> calm env \<Longrightarrow> get_device env i db = Inr (device_entry db i)"
  by (simp add: calm_queries device_entry_def)

lemma device_put_eq:
  "device_put enforce d s =
     (let x = upsert_device (quiet enforce (unat (dr_created_at d))) (dr_id d) (dr_name d) (dr_address d) (dr_paired d) (dr_trusted d)
        (dr_psk d) s in (fst x = Inr (), snd x))"
  by (simp add: device_put_def split_def Let_def)

lemma merges_keep_creation:
  "\<exists>e'. fold (\<lambda>d e. Some (device_merge e d)) ds (Some e) = Some e' \<and> dr_created_at e' = dr_created_at e \<and> dr_metadata e' = dr_metadata e"
proof (induction ds arbitrary: e)
  case (Cons d ds)
  have "dr_created_at (device_merge (Some e) d) = dr_created_at e" "dr_metadata (device_merge (Some e) d) = dr_metadata e"
    by (simp_all add: device_merge_def)
  then show ?case
    using Cons [of "device_merge (Some e) d"] by simp
qed simp

text \<open>
  C13. The devices table is a store in which an upsert replaces. In surroundings where nothing fails \<open>upsert_device\<close> is refused exactly when
  another device holds the address, and then changes nothing; otherwise the device reads back with
  the values of the call, except that a device that was known keeps the time it was created and its metadata;
  other devices are as before. A device never disappears, and its creation time survives any sequence of
  upserts, of any devices, some of them refused.
\<close>

theorem devices_store:
  assumes "db_reach enforce True db" "calm env"
  shows "(let (r, db') = upsert_device (quiet enforce (unat (dr_created_at d))) (dr_id d) (dr_name d) (dr_address d) (dr_paired d)
          (dr_trusted d) (dr_psk d) db in
      (r = Inr () \<longleftrightarrow> address_free d db) \<and> (r \<noteq> Inr () \<longrightarrow> db' = db) \<and>
      get_device env i db' = (if r = Inr () \<and> i = dr_id d then Inr (Some (device_merge (device_entry db i) d)) else get_device env i db)) \<and>
    (\<forall>e. get_device env i db = Inr (Some e) \<longrightarrow>
      (\<exists>e'. get_device env i (fold (\<lambda>d s. snd (upsert_device (quiet enforce (unat (dr_created_at d))) (dr_id d) (dr_name d) (dr_address d)
            (dr_paired d) (dr_trusted d) (dr_psk d) s)) (ds :: DeviceRecord list) db) = Inr (Some e') \<and>
        dr_created_at e' = dr_created_at e \<and> dr_metadata e' = dr_metadata e))"
proof -
  obtain r db' where call: "upsert_device (quiet enforce (unat (dr_created_at d))) (dr_id d) (dr_name d) (dr_address d) (dr_paired d)
          (dr_trusted d) (dr_psk d) db = (r, db')"
    by fastforce
  then have put: "device_put enforce d db = (r = Inr (), db')"
    by (simp add: device_put_eq)
  have reach: "db_reach enforce True db'"
    using device_put_reach [OF assms(1), of d] put by simp
  have one: "(r = Inr () \<longleftrightarrow> address_free d db) \<and> (r \<noteq> Inr () \<longrightarrow> db' = db) \<and>
      get_device env i db' = (if r = Inr () \<and> i = dr_id d then Inr (Some (device_merge (device_entry db i) d)) else get_device env i db)"
    using stored_devices.put_iff [OF assms(1), of d] stored_devices.put_refused [OF assms(1), of d] stored_devices.put_same [OF assms(1), of d]
      stored_devices.put_other [OF assms(1), of i d]
    by (auto simp: put get_device_entry [OF reach assms(2)] get_device_entry [OF assms])
  let ?db = "fold (\<lambda>d s. snd (device_put enforce d s)) ds db"
  have run: "?db = stored_devices.run enforce ds db"
    by (simp add: stored_devices.run_fold)
  have "db_reach enforce True ?db"
    unfolding run by (rule stored_devices.run_inv [OF assms(1)])
  then have "\<exists>e'. get_device env i ?db = Inr (Some e') \<and> dr_created_at e' = dr_created_at e \<and> dr_metadata e' = dr_metadata e"
    if "get_device env i db = Inr (Some e)" for e
    using merges_keep_creation [of "filter (\<lambda>d. dr_id d = i) (stored_devices.accepted enforce ds db)" e]
      stored_devices.run_lookup [OF assms(1), where vs = ds and k = i] that
    unfolding get_device_entry [OF assms] run by (simp add: get_device_entry [OF _ assms(2)])
  then show ?thesis
    using one call by (simp add: device_put_eq Let_def)
qed

theorem devices_store_witness:
  "get_device (quiet True 9) \<lparr>did_value = [1]\<rparr>
     (snd (upsert_device (quiet True (unat (5 :: i64))) \<lparr>did_value = [1]\<rparr> None ''AA'' True False None (opened_db True))) =
   Inr (Some \<lparr>dr_id = \<lparr>did_value = [1]\<rparr>, dr_name = None, dr_address = ''AA'', dr_paired = True, dr_trusted = False, dr_psk = None,
     dr_last_seen = Some 5, dr_created_at = 5, dr_metadata = ''{}''\<rparr>)"
proof -
  let ?d = "\<lparr>dr_id = \<lparr>did_value = [1]\<rparr>, dr_name = None, dr_address = ''AA'', dr_paired = True, dr_trusted = False, dr_psk = None,
     dr_last_seen = None, dr_created_at = 5, dr_metadata = []\<rparr> :: DeviceRecord"
  have "rows_of (opened_db True) ''devices'' = []"
    by code_simp
  then have "address_free ?d (opened_db True)" "device_entry (opened_db True) \<lparr>did_value = [1]\<rparr> = None"
    by (simp_all add: address_free_def device_entry_def)
  moreover obtain r db' where "upsert_device (quiet True (unat (5 :: i64))) \<lparr>did_value = [1]\<rparr> None ''AA'' True False None (opened_db True) = (r, db')"
    by fastforce
  ultimately show ?thesis
    using devices_store [where env = "quiet True 9" and d = ?d and i = "\<lparr>did_value = [1]\<rparr>" and ds = "[]",
        OF reach_opened [of True] calm_quiet(1)]
    by (simp add: device_merge_def)
qed

end
