(* ===== verification/Cli.thy ===== *)
theory Cli
  imports Core_App Database_Stores "HOL-Library.Sublist"
begin

text \<open>
  The command line of the desktop (\<^verbatim>\<open>cli/src/main.rs\<close>): the commands, what each prints, and what it
  does to the world. Most commands only print that they are not implemented; the listings start a
  core, \<open>config\<close> reads the configuration by dotted keys, and \<open>set-psk\<close> stores a key. A command
  yields its outcome, the lines it printed and the world; log messages are left out.
\<close>

subsection \<open>Commands\<close>

datatype ConfigAction = CA_Get string | CA_Set string string | CA_List | CA_Reset

text \<open>The volume is a 32-bit float, here its bits.\<close>

datatype (plugins only: code size) Command =
    Pair string "string option"
  | Unpair string
  | ListDevices
  | DeviceInfo_cmd string
  | Services
  | StartService string
  | StopService string
  | Config_cmd ConfigAction
  | Shell string "string list"
  | Sync string "string option" bool
  | SyncStatus "string option"
  | ListSyncJobs
  | CreateSyncJob string string string string string bool
  | LaunchApp string string "string option"
  | ListApps string
  | MediaState_cmd string
  | MediaControl string string "32 word option"
  | Proximity string
  | Stream_cmd string string "string option"
  | Logs nat bool
  | Status
  | GeneratePsk
  | SetPsk string

datatype cli_failure = Core_Failed protocol_error | Message "string list" | Crashed string

type_synonym outcome = "(cli_failure + unit) \<times> string list \<times> world"

definition cli_error :: "failure \<Rightarrow> cli_failure" where
  "cli_error f = (case f of Err e \<Rightarrow> Core_Failed e | Panic p \<Rightarrow> Crashed p)"

text \<open>A command that prints some lines and is done.\<close>

definition prints :: "string list \<Rightarrow> world \<Rightarrow> outcome" where
  "prints ls w = (Inr (), ls, w)"

text \<open>\<open>?\<close> on a result of the core.\<close>

definition try_core :: "'a result \<times> world \<Rightarrow> ('a \<Rightarrow> world \<Rightarrow> outcome) \<Rightarrow> outcome" where
  "try_core r k = (case r of (Inl e, w) \<Rightarrow> (Inl (cli_error e), [], w) | (Inr a, w) \<Rightarrow> k a w)"

subsection \<open>The configuration as JSON\<close>

fun decimal :: "nat \<Rightarrow> string" where
  "decimal n = (if n < 10 then [char_of (48 + n)] else decimal (n div 10) @ [char_of (48 + n mod 10)])"

declare decimal.simps [simp del]

definition json_number :: "'a::len word \<Rightarrow> json" where
  "json_number n = JNumber (decimal (unat n))"

definition json_option :: "string option \<Rightarrow> json" where
  "json_option v = (case v of None \<Rightarrow> JNull | Some s \<Rightarrow> JString s)"

text \<open>The derived serialiser to \<^verbatim>\<open>serde_json::Value\<close>, whose objects keep their keys sorted.\<close>

definition BluetoothConfig_json :: "BluetoothConfig \<Rightarrow> json" where
  "BluetoothConfig_json c = JObject
     [(''adapter_id'', json_option (btc_adapter_id c)), (''auto_connect'', JBool (btc_auto_connect c)),
      (''device_name'', JString (btc_device_name c)),
      (''max_reconnect_attempts'', json_number (btc_max_reconnect_attempts c)),
      (''reconnect_interval_sec'', json_number (btc_reconnect_interval_sec c)),
      (''service_uuid'', JString (btc_service_uuid c))]"

definition DatabaseConfig_json :: "DatabaseConfig \<Rightarrow> json" where
  "DatabaseConfig_json c = JObject
     [(''backup_dir'', json_option (dbc_backup_dir c)), (''backup_enabled'', JBool (dbc_backup_enabled c)),
      (''backup_interval_hours'', json_number (dbc_backup_interval_hours c)),
      (''max_connections'', json_number (dbc_max_connections c)), (''path'', JString (dbc_path c))]"

definition LoggingConfig_json :: "LoggingConfig \<Rightarrow> json" where
  "LoggingConfig_json c = JObject
     [(''file_path'', json_option (lgc_file_path c)), (''format'', JString (lgc_format c)), (''level'', JString (lgc_level c)),
      (''max_file_size_mb'', json_number (lgc_max_file_size_mb c)), (''max_files'', json_number (lgc_max_files c)),
      (''output'', JString (lgc_output c))]"

definition SecurityConfig_json :: "SecurityConfig \<Rightarrow> json" where
  "SecurityConfig_json c = JObject
     [(''lockout_duration_sec'', json_number (scc_lockout_duration_sec c)),
      (''max_failed_attempts'', json_number (scc_max_failed_attempts c)), (''psk'', json_option (scc_psk c)),
      (''require_authentication'', JBool (scc_require_authentication c)),
      (''session_timeout_sec'', json_number (scc_session_timeout_sec c))]"

definition ServiceSettings_json :: "ServiceSettings \<Rightarrow> json" where
  "ServiceSettings_json c = JObject [(''enabled'', JBool (stg_enabled c)), (''settings'', stg_settings c)]"

definition ServicesConfig_json :: "ServicesConfig \<Rightarrow> json" where
  "ServicesConfig_json c = JObject
     [(''app_launcher'', ServiceSettings_json (svs_app_launcher c)), (''config'', ServiceSettings_json (svs_config c)),
      (''file_stream'', ServiceSettings_json (svs_file_stream c)), (''filesystem'', ServiceSettings_json (svs_filesystem c)),
      (''media_control'', ServiceSettings_json (svs_media_control c)), (''phone_fs'', ServiceSettings_json (svs_phone_fs c)),
      (''photo_backup'', ServiceSettings_json (svs_photo_backup c)), (''proximity'', ServiceSettings_json (svs_proximity c)),
      (''shell'', ServiceSettings_json (svs_shell c)), (''sync'', ServiceSettings_json (svs_sync c))]"

definition TrustedDevice_json :: "TrustedDevice \<Rightarrow> json" where
  "TrustedDevice_json c = JObject
     [(''device_id'', JString (td_device_id c)), (''last_seen'', JString (td_last_seen c)), (''name'', JString (td_name c)),
      (''paired_at'', JString (td_paired_at c)), (''psk'', json_option (td_psk c)), (''trusted'', JBool (td_trusted c))]"

definition DeviceConfig_json :: "DeviceConfig \<Rightarrow> json" where
  "DeviceConfig_json c = JObject
     [(''device_id'', json_option (dvc_device_id c)),
      (''trusted_devices'', JArray (map TrustedDevice_json (dvc_trusted_devices c)))]"

definition AppConfig_json :: "AppConfig \<Rightarrow> json" where
  "AppConfig_json c = JObject
     [(''bluetooth'', BluetoothConfig_json (ac_bluetooth c)), (''database'', DatabaseConfig_json (ac_database c)),
      (''device'', DeviceConfig_json (ac_device c)), (''logging'', LoggingConfig_json (ac_logging c)),
      (''security'', SecurityConfig_json (ac_security c)), (''services'', ServicesConfig_json (ac_services c))]"

text \<open>How \<^verbatim>\<open>serde_json\<close> writes a value on one line.\<close>

definition hex_digit :: "nat \<Rightarrow> char" where
  "hex_digit n = (if n < 10 then char_of (48 + n) else char_of (87 + n))"

definition escape_char :: "char \<Rightarrow> string" where
  "escape_char ch =
     (let n = (of_char ch :: nat) in
      if n = 34 then [CHR 0x5C, CHR 0x22] else if n = 92 then [CHR 0x5C, CHR 0x5C]
      else if n = 8 then [CHR 0x5C, CHR ''b''] else if n = 9 then [CHR 0x5C, CHR ''t'']
      else if n = 10 then [CHR 0x5C, CHR ''n''] else if n = 12 then [CHR 0x5C, CHR ''f'']
      else if n = 13 then [CHR 0x5C, CHR ''r'']
      else if n < 32 then CHR 0x5C # ''u00'' @ [hex_digit (n div 16), hex_digit (n mod 16)]
      else [ch])"

definition json_quote :: "string \<Rightarrow> string" where
  "json_quote s = CHR 0x22 # concat (map escape_char s) @ [CHR 0x22]"

primrec join_with :: "string \<Rightarrow> string list \<Rightarrow> string" where
  "join_with sep [] = []"
| "join_with sep (s # ss) = (if ss = [] then s else s @ sep @ join_with sep ss)"

primrec json_text :: "json \<Rightarrow> string" where
  "json_text JNull = ''null''"
| "json_text (JBool b) = (if b then ''true'' else ''false'')"
| "json_text (JNumber s) = s"
| "json_text (JString s) = json_quote s"
| "json_text (JArray vs) = ''['' @ join_with '','' (map json_text vs) @ '']''"
| "json_text (JObject kvs) =
     ''{'' @ join_with '','' (map (\<lambda>(k, t). json_quote k @ '':'' @ t) (map (map_prod id json_text) kvs)) @ ''}''"

definition format_json_value :: "json \<Rightarrow> string" where
  "format_json_value v = (case v of JString s \<Rightarrow> s | _ \<Rightarrow> json_text v)"

text \<open>\<open>split('.')\<close> gives at least one part; \<open>Value::get\<close> with a name is defined on objects only.\<close>

fun split_dots :: "string \<Rightarrow> string list" where
  "split_dots [] = [[]]"
| "split_dots (c # cs) =
     (if c = CHR ''.'' then [] # split_dots cs
      else (case split_dots cs of [] \<Rightarrow> [[c]] | p # ps \<Rightarrow> (c # p) # ps))"

definition json_get :: "json \<Rightarrow> string \<Rightarrow> json option" where
  "json_get v part = (case v of JObject kvs \<Rightarrow> map_of kvs part | _ \<Rightarrow> None)"

primrec walk :: "string list \<Rightarrow> json \<Rightarrow> json option" where
  "walk [] v = Some v"
| "walk (p # ps) v = (case json_get v p of None \<Rightarrow> None | Some v' \<Rightarrow> walk ps v')"

definition get_json_value :: "json \<Rightarrow> string \<Rightarrow> json option" where
  "get_json_value v key = walk (split_dots key) v"

subsection \<open>The commands\<close>

definition cmd_pair :: "string \<Rightarrow> string option \<Rightarrow> world \<Rightarrow> outcome" where
  "cmd_pair device pin = prints ([''Pairing with '' @ device @ ''...''] @
     (case pin of None \<Rightarrow> [] | Some p \<Rightarrow> [''Using PIN: '' @ p]) @
     [''Pairing not yet implemented - connect to daemon via IPC''])"

definition cmd_unpair :: "string \<Rightarrow> world \<Rightarrow> outcome" where
  "cmd_unpair device = prints [''Unpairing '' @ device @ ''...'', ''Unpairing not yet implemented - connect to daemon via IPC'']"

definition device_line :: "DeviceRecord \<Rightarrow> string" where
  "device_line d = ''  '' @ (case dr_name d of None \<Rightarrow> ''Unknown'' | Some nm \<Rightarrow> nm) @ '' ('' @ dr_address d @ '') - '' @
     (if dr_paired d then ''paired'' else ''unpaired'') @ (if dr_trusted d then '' (trusted)'' else [])"

definition cmd_list_devices :: "process_env \<Rightarrow> world \<Rightarrow> outcome" where
  "cmd_list_devices env w =
     try_core (Core_new env w :: unit Core result \<times> world) (\<lambda>core w.
     try_core (get_paired_devices (pe_db env) (database_at w (co_database core)), w) (\<lambda>devices.
       prints (if devices = [] then [''No paired devices''] else ''Paired devices:'' # map device_line devices)))"

definition cmd_device_info :: "string \<Rightarrow> world \<Rightarrow> outcome" where
  "cmd_device_info device = prints [''Device info for '' @ device @ '' not yet implemented'']"

definition cmd_services :: "process_env \<Rightarrow> world \<Rightarrow> outcome" where
  "cmd_services env w =
     try_core (Core_new env w :: unit Core result \<times> world) (\<lambda>core.
       prints (''Registered services:'' # map (\<lambda>s. ''  '' @ s) (core_list_services (co_services core))))"

definition cmd_start_service :: "string \<Rightarrow> world \<Rightarrow> outcome" where
  "cmd_start_service service = prints [''Starting service '' @ service @ ''...'', ''Service start not yet implemented'']"

definition cmd_stop_service :: "string \<Rightarrow> world \<Rightarrow> outcome" where
  "cmd_stop_service service = prints [''Stopping service '' @ service @ ''...'', ''Service stop not yet implemented'']"

definition load_config :: "process_env \<Rightarrow> world \<Rightarrow> ConfigManager result \<times> world" where
  "load_config env w = (case load (pe_crates env) (pe_user_dir env) (wd_disk w) of (r, d) \<Rightarrow> (r, w\<lparr>wd_disk := d\<rparr>))"

definition cmd_config :: "process_env \<Rightarrow> ConfigAction \<Rightarrow> world \<Rightarrow> outcome" where
  "cmd_config env action w =
     try_core (load_config env w) (\<lambda>config.
       case action of
         CA_Get key \<Rightarrow>
           (case get_json_value (AppConfig_json (get_config config)) key of
              Some v \<Rightarrow> prints [key @ '' = '' @ format_json_value v]
            | None \<Rightarrow> prints [''Key '' @ [CHR 0x27] @ key @ [CHR 0x27] @ '' not found''])
       | CA_Set key v \<Rightarrow>
           prints [''Setting configuration values from the CLI is not yet implemented.'', ''Requested: '' @ key @ '' = '' @ v]
       | CA_List \<Rightarrow>
           (case AppConfig_json (get_config config) of
              JObject kvs \<Rightarrow> prints (map (\<lambda>(k, v). k @ '' = '' @ format_json_value v) kvs)
            | v \<Rightarrow> prints [json_text v])
       | CA_Reset \<Rightarrow> prints [''Config reset not yet implemented''])"

definition cmd_shell :: "string \<Rightarrow> string list \<Rightarrow> world \<Rightarrow> outcome" where
  "cmd_shell device command = prints [''Shell on '' @ device @ '' not yet implemented'']"

definition cmd_sync :: "string \<Rightarrow> string option \<Rightarrow> bool \<Rightarrow> world \<Rightarrow> outcome" where
  "cmd_sync tgt path force = prints [''Sync not yet implemented'']"

definition cmd_sync_status :: "string option \<Rightarrow> world \<Rightarrow> outcome" where
  "cmd_sync_status job = prints [''Sync status not yet implemented'']"

definition bool_text :: "bool \<Rightarrow> string" where
  "bool_text b = (if b then ''true'' else ''false'')"

definition job_lines :: "SyncJobRecord \<Rightarrow> string list" where
  "job_lines job =
     [''  '' @ sj_id job @ '' ('' @ sj_direction job @ '') - '' @ sj_name job,
      ''    Local: '' @ sj_local_path job @ '' -> Remote: '' @ sj_remote_path job,
      ''    Enabled: '' @ bool_text (sj_enabled job) @ '', Auto: '' @ bool_text (sj_auto_sync job) @ '', Strategy: '' @
        sj_conflict_strategy job]"

definition cmd_list_sync_jobs :: "process_env \<Rightarrow> world \<Rightarrow> outcome" where
  "cmd_list_sync_jobs env w =
     try_core (Core_new env w :: unit Core result \<times> world) (\<lambda>core w.
     try_core (list_sync_jobs (pe_db env) (database_at w (co_database core)), w) (\<lambda>jobs.
       prints (if jobs = [] then [''No sync jobs configured''] else ''Sync jobs:'' # concat (map job_lines jobs))))"

definition cmd_create_sync_job :: "string \<Rightarrow> string \<Rightarrow> string \<Rightarrow> string \<Rightarrow> string \<Rightarrow> bool \<Rightarrow> world \<Rightarrow> outcome" where
  "cmd_create_sync_job nm local_path remote_path direction conflict_strategy auto =
     prints [''Creating sync job '' @ [CHR 0x27] @ nm @ [CHR 0x27] @ ''...'', ''Sync job creation not yet implemented'']"

definition cmd_launch_app :: "string \<Rightarrow> string \<Rightarrow> string option \<Rightarrow> world \<Rightarrow> outcome" where
  "cmd_launch_app device package activity =
     prints [''Launching '' @ package @ '' on '' @ device @ ''...'', ''App launch not yet implemented'']"

definition cmd_list_apps :: "string \<Rightarrow> world \<Rightarrow> outcome" where
  "cmd_list_apps device = prints [''Apps on '' @ device @ '' not yet implemented'']"

definition cmd_media_state :: "string \<Rightarrow> world \<Rightarrow> outcome" where
  "cmd_media_state device = prints [''Media state for '' @ device @ '' not yet implemented'']"

definition cmd_media_control :: "string \<Rightarrow> string \<Rightarrow> 32 word option \<Rightarrow> world \<Rightarrow> outcome" where
  "cmd_media_control device action volume =
     prints [''Media control '' @ action @ '' on '' @ device @ ''...'', ''Media control not yet implemented'']"

definition cmd_proximity :: "string \<Rightarrow> world \<Rightarrow> outcome" where
  "cmd_proximity device = prints [''Proximity for '' @ device @ '' not yet implemented'']"

definition cmd_stream :: "string \<Rightarrow> string \<Rightarrow> string option \<Rightarrow> world \<Rightarrow> outcome" where
  "cmd_stream device path output = prints [''Streaming not yet implemented'']"

definition cmd_logs :: "nat \<Rightarrow> bool \<Rightarrow> world \<Rightarrow> outcome" where
  "cmd_logs n follow = prints [''Logs not yet implemented'']"

definition cmd_status :: "world \<Rightarrow> outcome" where
  "cmd_status = prints [''Daemon status not yet implemented'']"

text \<open>The random generator gives 32 bytes here.\<close>

definition cmd_generate_psk :: "process_env \<Rightarrow> bytes \<Rightarrow> world \<Rightarrow> outcome" where
  "cmd_generate_psk env psk =
     prints [''Generated PSK: '' @ cr_b64_encode (pe_crates env) psk, ''Share this with the Android app during pairing'']"

definition cmd_set_psk :: "process_env \<Rightarrow> string \<Rightarrow> world \<Rightarrow> outcome" where
  "cmd_set_psk env psk w =
     try_core (load_config env w) (\<lambda>config w.
       case cr_b64_decode (pe_crates env) psk of
         Inl e \<Rightarrow> (Inl (Message [''Invalid base64 PSK'', e]), [], w)
       | Inr psk_bytes \<Rightarrow>
           if length psk_bytes \<noteq> 32 then (Inl (Message [''PSK must be 32 bytes (base64 encoded)'']), [], w)
           else (case set_psk (pe_crates env) psk_bytes config (wd_disk w) of
                   (r, _, d) \<Rightarrow> try_core (r, w\<lparr>wd_disk := d\<rparr>) (\<lambda>_. prints [''PSK set successfully''])))"

definition execute_command :: "process_env \<Rightarrow> bytes \<Rightarrow> Command \<Rightarrow> world \<Rightarrow> outcome" where
  "execute_command env rnd c =
     (case c of
        Pair device pin \<Rightarrow> cmd_pair device pin
      | Unpair device \<Rightarrow> cmd_unpair device
      | ListDevices \<Rightarrow> cmd_list_devices env
      | DeviceInfo_cmd device \<Rightarrow> cmd_device_info device
      | Services \<Rightarrow> cmd_services env
      | StartService service \<Rightarrow> cmd_start_service service
      | StopService service \<Rightarrow> cmd_stop_service service
      | Config_cmd action \<Rightarrow> cmd_config env action
      | Shell device command \<Rightarrow> cmd_shell device command
      | Sync tgt path force \<Rightarrow> cmd_sync tgt path force
      | SyncStatus job \<Rightarrow> cmd_sync_status job
      | ListSyncJobs \<Rightarrow> cmd_list_sync_jobs env
      | CreateSyncJob nm local_path remote_path direction conflict_strategy auto \<Rightarrow>
          cmd_create_sync_job nm local_path remote_path direction conflict_strategy auto
      | LaunchApp device package activity \<Rightarrow> cmd_launch_app device package activity
      | ListApps device \<Rightarrow> cmd_list_apps device
      | MediaState_cmd device \<Rightarrow> cmd_media_state device
      | MediaControl device action volume \<Rightarrow> cmd_media_control device action volume
      | Proximity device \<Rightarrow> cmd_proximity device
      | Stream_cmd device path output \<Rightarrow> cmd_stream device path output
      | Logs n follow \<Rightarrow> cmd_logs n follow
      | Status \<Rightarrow> cmd_status
      | GeneratePsk \<Rightarrow> cmd_generate_psk env rnd
      | SetPsk psk \<Rightarrow> cmd_set_psk env psk)"

subsection \<open>Reading a configuration value\<close>

definition no_dot :: "string \<Rightarrow> bool" where
  "no_dot p \<longleftrightarrow> CHR ''.'' \<notin> set p"

lemma split_dots_nonempty: "split_dots s \<noteq> []"
  by (induction s) (auto split: list.splits)

lemma split_dots_no_dot: "list_all no_dot (split_dots s)"
proof (induction s)
  case (Cons c cs)
  then show ?case
    by (cases "split_dots cs") (auto simp: no_dot_def)
qed (simp add: no_dot_def)

lemma join_split: "join_with ''.'' (split_dots s) = s"
proof (induction s)
  case (Cons c cs)
  then show ?case
    using split_dots_nonempty [of cs] by (cases "split_dots cs") (auto split: if_splits)
qed simp

lemma split_append: "no_dot p \<Longrightarrow> split_dots (p @ CHR ''.'' # s) = p # split_dots s"
  by (induction p) (auto simp: no_dot_def)

lemma split_one: "no_dot p \<Longrightarrow> split_dots p = [p]"
  by (induction p) (auto simp: no_dot_def)

lemma split_join: "ps \<noteq> [] \<Longrightarrow> list_all no_dot ps \<Longrightarrow> split_dots (join_with ''.'' ps) = ps"
  by (induction ps) (auto simp: split_append split_one)

lemma split_dots_iff: "split_dots key = ps \<longleftrightarrow> ps \<noteq> [] \<and> list_all no_dot ps \<and> join_with ''.'' ps = key"
  using split_dots_nonempty split_dots_no_dot join_split split_join by metis

text \<open>
  Configuration values by dotted keys. \<open>config get\<close> splits its key at the dots into the one sequence of dot-free
  names that joins to it again, walks the names through the sections, and prints the value that it reaches, or that
  there is none; it never changes the world further than loading the configuration does. So a setting whose own name has a dot cannot be asked for.
\<close>

theorem config_get_dotted:
  assumes "load_config env w = (Inr m, w')"
  shows "cmd_config env (CA_Get key) w =
      (Inr (), [case walk (split_dots key) (AppConfig_json (cm_config m)) of
         Some v \<Rightarrow> key @ '' = '' @ format_json_value v | None \<Rightarrow> ''Key '' @ [CHR 0x27] @ key @ [CHR 0x27] @ '' not found''], w') \<and>
    (split_dots key = ps \<longleftrightarrow> ps \<noteq> [] \<and> list_all no_dot ps \<and> join_with ''.'' ps = key)"
  using assms split_dots_iff
  by (auto simp: cmd_config_def try_core_def get_json_value_def get_config_def prints_def split: option.split)

lemma sample_load_config: "load_config sample_env sample_world = (Inr sample_config, sample_world)"
  using sample_load by (simp add: load_config_def sample_env_def)

theorem config_get_dotted_witness:
  "cmd_config sample_env (CA_Get ''database.max_connections'') sample_world =
     (Inr (), [''database.max_connections = 5''], sample_world)"
proof -
  have five: "decimal 5 = ''5''"
    by code_simp
  have "walk (split_dots ''database.max_connections'') (AppConfig_json (cm_config sample_config)) = Some (JNumber ''5'')"
    by (simp add: AppConfig_json_def json_get_def sample_config_def set_device_id_def AppConfig_default_def DatabaseConfig_default_def
        DatabaseConfig_json_def json_number_def five)
  then show ?thesis
    using config_get_dotted [OF sample_load_config, of "''database.max_connections''"] by (simp add: format_json_value_def)
qed

subsection \<open>Storing a key\<close>

text \<open>
  C19. Setting the pre-shared key, for a configuration whose services have no free-form settings. When \<open>set-psk\<close> reports success, its
  argument was base64 of 32 bytes, and whoever loads the configuration from then on finds
  exactly these bytes as the key and the rest of the configuration as it was. An argument that is not base64 of 32 bytes is refused
  and leaves the world as loading the configuration did.
\<close>

theorem psk_set_then_read:
  assumes "crates_ok (pe_crates env)" "\<forall>p. dk_mkdir_error (wd_disk w) p = None"
    and "load_config env w = (Inr m, w1)" "plain_settings (cm_config m)" "cmd_set_psk env psk w = (r, out, w')"
  shows "(r = Inr () \<longrightarrow> (\<exists>bs m'. cr_b64_decode (pe_crates env) psk = Inr bs \<and> length bs = 32 \<and> load_config env w' = (Inr m', w') \<and>
      get_psk (pe_crates env) m' = Some bs \<and>
      cm_config m' = (cm_config m)\<lparr>ac_security := (ac_security (cm_config m))\<lparr>scc_psk := scc_psk (ac_security (cm_config m'))\<rparr>\<rparr>)) \<and>
    ((\<forall>bs. cr_b64_decode (pe_crates env) psk = Inr bs \<longrightarrow> length bs \<noteq> 32) \<longrightarrow> r \<noteq> Inr () \<and> w' = w1)"
proof -
  let ?cr = "pe_crates env"
  obtain d1 where l: "load ?cr (pe_user_dir env) (wd_disk w) = (Inr m, d1)" "w1 = w\<lparr>wd_disk := d1\<rparr>"
    using assms(3) by (auto simp: load_config_def split: prod.splits)
  note L = load_world [OF assms(1,2) l(1) assms(4)]
  have call: "(case cr_b64_decode ?cr psk of
      Inl e \<Rightarrow> (Inl (Message [''Invalid base64 PSK'', e]), [], w1)
    | Inr bs \<Rightarrow>
        if length bs \<noteq> 32 then (Inl (Message [''PSK must be 32 bytes (base64 encoded)'']), [], w1)
        else (case set_psk ?cr bs m (wd_disk w1) of
                (r, _, d) \<Rightarrow> try_core (r, w1\<lparr>wd_disk := d\<rparr>) (\<lambda>_. prints [''PSK set successfully'']))) = (r, out, w')"
    using assms(3,5) by (simp add: cmd_set_psk_def try_core_def)
  have "\<exists>bs m'. cr_b64_decode ?cr psk = Inr bs \<and> length bs = 32 \<and> load_config env w' = (Inr m', w') \<and> get_psk ?cr m' = Some bs \<and>
      cm_config m' = (cm_config m)\<lparr>ac_security := (ac_security (cm_config m))\<lparr>scc_psk := scc_psk (ac_security (cm_config m'))\<rparr>\<rparr>"
    if ok: "r = Inr ()"
  proof -
    obtain bs where bs: "cr_b64_decode ?cr psk = Inr bs" "length bs = 32"
      using call ok by (auto split: sum.splits if_splits)
    obtain r2 m2 d2 where s: "set_psk ?cr bs m d1 = (r2, m2, d2)"
      using prod_cases3 by blast
    then have "r2 = Inr ()" "w' = w\<lparr>wd_disk := d2\<rparr>"
      using call ok bs by (auto simp: try_core_def prints_def l(2) split: sum.splits)
    then have U: "m2 = update_config (\<lambda>c. c\<lparr>ac_security := (ac_security c)\<lparr>scc_psk := Some (cr_b64_encode ?cr bs)\<rparr>\<rparr>) m"
      "save ?cr m2 d1 = (Inr (), d2)"
      using update_and_save_config [OF s [unfolded set_psk_def]] \<open>r2 = Inr ()\<close> by simp_all
    have plain: "plain_settings (cm_config m2)" "cm_config_path m2 = cm_config_path m"
      using assms(4) by (simp_all add: U(1) update_config_def plain_settings_def)
    have "load ?cr (pe_user_dir env) d2 = (Inr m2, d2)"
      using saved_then_loaded [OF assms(1) plain(1) L(2) U(2)] plain(2) L(3) [of d2] by simp
    then have "load_config env w' = (Inr m2, w')"
      by (simp add: load_config_def \<open>w' = w\<lparr>wd_disk := d2\<rparr>\<close>)
    moreover have "get_psk ?cr m2 = Some bs"
      using assms(1) by (simp add: U(1) update_config_def get_psk_def crates_read)
    ultimately show ?thesis
      using bs by (intro exI [of _ bs] exI [of _ m2]) (simp add: U(1) update_config_def)
  qed
  moreover have "r \<noteq> Inr () \<and> w' = w1" if "\<forall>bs. cr_b64_decode ?cr psk = Inr bs \<longrightarrow> length bs \<noteq> 32"
    using call that by (auto split: sum.splits if_splits)
  ultimately show ?thesis
    by blast
qed

theorem psk_set_then_read_witness:
  "fst (cmd_set_psk sample_env (replicate 31 CHR ''x'') sample_world) \<noteq> Inr ()"
proof -
  obtain r out w' where c: "cmd_set_psk sample_env (replicate 31 CHR ''x'') sample_world = (r, out, w')"
    using prod_cases3 by blast
  have "crates_ok (pe_crates sample_env)" "\<forall>p. dk_mkdir_error (wd_disk sample_world) p = None" "plain_settings (cm_config sample_config)"
    using sample_manager_plain(2) [of sample_id]
    by (simp_all add: sample_env_def sample_crates_ok sample_world_def empty_disk_def sample_config_def sample_manager_def)
  note P = psk_set_then_read [OF this(1,2) sample_load_config this(3) c]
  have "length bs = 31" if "cr_b64_decode (pe_crates sample_env) (replicate 31 CHR ''x'') = Inr bs" for bs
    using that by (auto simp: sample_env_def sample_crates_def sample_values_def)
  then show ?thesis
    using P c by auto
qed

subsection \<open>What the commands leave undone\<close>

definition implemented :: "Command \<Rightarrow> bool" where
  "implemented c \<longleftrightarrow> (case c of ListDevices \<Rightarrow> True | Services \<Rightarrow> True | Config_cmd _ \<Rightarrow> True | ListSyncJobs \<Rightarrow> True | GeneratePsk \<Rightarrow> True
     | SetPsk _ \<Rightarrow> True | _ \<Rightarrow> False)"

lemma Core_new_no_services: "Core_new env w = (Inr core, w') \<Longrightarrow> core_list_services (co_services core) = []"
  using Core_new_Inr [of env w core w'] by (auto simp: core_list_services_def CoreServiceManager_new_def hm_keys_def)

text \<open>
  What the command line does not do. Seventeen of its commands report success and change nothing, and only say in their last line
  that they are not implemented; \<open>config set\<close> and \<open>config reset\<close> report success and leave the configuration as
  loading it did; \<open>services\<close> never lists a service, because the core that it starts has none.
\<close>

theorem commands_not_implemented:
  shows "(\<not> implemented c \<longrightarrow> (\<exists>out. execute_command env rnd c w = (Inr (), out, w) \<and> out \<noteq> [] \<and>
      sublist ''not yet implemented'' (last out))) \<and>
    (\<forall>m w' k v. load_config env w = (Inr m, w') \<longrightarrow>
      (\<exists>out out'. execute_command env rnd (Config_cmd (CA_Set k v)) w = (Inr (), out, w') \<and>
         execute_command env rnd (Config_cmd CA_Reset) w = (Inr (), out', w'))) \<and>
    (\<exists>out w'. snd (execute_command env rnd Services w) = (out, w') \<and> (out = [] \<or> out = [''Registered services:'']))"
proof (intro conjI impI allI)
  have tail: "sublist ''not yet implemented'' (x @ '' not yet implemented'')" for x
    unfolding sublist_def by (rule exI [of _ "x @ '' ''"], rule exI [of _ "[]"]) simp
  show "\<exists>out. execute_command env rnd c w = (Inr (), out, w) \<and> out \<noteq> [] \<and> sublist ''not yet implemented'' (last out)"
    if "\<not> implemented c"
    using that
    by (cases c) (simp_all add: implemented_def execute_command_def prints_def cmd_pair_def cmd_unpair_def cmd_device_info_def
        cmd_start_service_def cmd_stop_service_def cmd_shell_def cmd_sync_def cmd_sync_status_def cmd_create_sync_job_def
        cmd_launch_app_def cmd_list_apps_def cmd_media_state_def cmd_media_control_def cmd_proximity_def cmd_stream_def
        cmd_logs_def cmd_status_def sublist_code tail)
qed (auto simp: execute_command_def cmd_config_def cmd_services_def try_core_def prints_def Core_new_no_services split: prod.split sum.split)

theorem commands_not_implemented_witness:
  "\<exists>out. execute_command sample_env [] Status sample_world = (Inr (), out, sample_world) \<and>
    sublist ''not yet implemented'' (last out)"
proof -
  have "\<not> implemented Status"
    by (simp add: implemented_def)
  then show ?thesis
    using commands_not_implemented [where env = sample_env and rnd = "[]" and w = sample_world and c = Status] by blast
qed

end
