(* ===== verification/Database_Records.thy ===== *)
theory Database_Records
  imports Database_Stores
begin

text \<open>
  What the operations of the database promise, second part: sessions belong to known devices, sync
  jobs are a register in which a name is taken once, and deleting a job deletes its conflicts.
\<close>

subsection \<open>Inserting and updating rows\<close>

lemma table_references:
  "tb_foreign_keys sessions_table = [\<lparr>fk_column = ''device_id'', fk_table = ''devices'', fk_parent = ''id'', fk_cascade = True\<rparr>]"
  "tb_foreign_keys sync_conflicts_table = [\<lparr>fk_column = ''job_id'', fk_table = ''sync_jobs'', fk_parent = ''id'', fk_cascade = True\<rparr>]"
  "tb_foreign_keys sync_jobs_table = []"
  by (simp_all add: sessions_table_def sync_conflicts_table_def sync_jobs_table_def)

definition insert_refused :: "bool \<Rightarrow> sql_db \<Rightarrow> string \<Rightarrow> table_def \<Rightarrow> sql_value list \<Rightarrow> bool" where
  "insert_refused enforce db t def row \<longleftrightarrow>
     (\<exists>c \<in> set (tb_columns def). col_key c \<and> (\<exists>r \<in> set (rows_of db t). clash def (col_name c) row r)) \<or>
     (enforce \<and> \<not> foreign_ok db def row)"

lemma insert_result:
  assumes "db_reach enforce True db" "target t = Some def" "null_violation def (build_row def vals) = None"
  shows "insert_refused enforce db t def (build_row def vals) \<Longrightarrow> \<exists>m. exec_insert enforce t vals db = Inl m"
    and "\<not> insert_refused enforce db t def (build_row def vals) \<Longrightarrow>
      exec_insert enforce t vals db = Inr (set_rows t (rows_of db t @ [build_row def vals]) db)"
proof -
  note T = reach_rows(1) [OF assms(1,2)]
  have "check_row enforce db def (rows_of db t) (build_row def vals) = Inr () \<longleftrightarrow> \<not> insert_refused enforce db t def (build_row def vals)"
    using assms(3) by (auto simp: check_row_Inr key_violation_None insert_refused_def)
  then show "insert_refused enforce db t def (build_row def vals) \<Longrightarrow> \<exists>m. exec_insert enforce t vals db = Inl m"
    "\<not> insert_refused enforce db t def (build_row def vals) \<Longrightarrow>
      exec_insert enforce t vals db = Inr (set_rows t (rows_of db t @ [build_row def vals]) db)"
    using T by (cases "check_row enforce db def (rows_of db t) (build_row def vals)"; simp add: exec_insert_def find_table_def Let_def)+
qed

lemma find_appended:
  assumes "cell def row c = K" "find (where_eq c K def) rows = None"
  shows "find (where_eq c k def) (rows @ [row]) = (if k = K then Some row else find (where_eq c k def) rows)"
  using assms by (auto simp: find_append where_eq_def matches_def split: option.splits)

lemma rows_set_rows:
  "db_reach enforce True db \<Longrightarrow> target t = Some def \<Longrightarrow> rows_of (set_rows t rows db) n = (if n = t then rows else rows_of db n)"
  using reach_rows(1) by (simp add: rows_of_set_rows)

lemma update_result:
  assumes "db_reach enforce True db" "target t = Some def"
    and "\<forall>c \<in> set (tb_columns def). map_of vals (col_name c) \<noteq> Some SNull"
  shows "exec_update t vals conds db =
    Inr (set_rows t (map (\<lambda>r. if matches def conds r then overwrite def vals r else r) (rows_of db t)) db)"
proof -
  note T = reach_rows [OF assms(1,2)]
  have "null_violation def (overwrite def vals r) = None" if "r \<in> set (rows_of db t)" for r
    unfolding null_violation_None
  proof (intro ballI impI)
    fix c
    assume c: "c \<in> set (tb_columns def)" "col_not_null c"
    have "column_ok c (cell def r (col_name c))"
      using cell_column_ok [OF _ columns_distinct [OF assms(2)] c(1), of r] T(2) that by (auto simp: table_rows_ok_def)
    then show "cell def (overwrite def vals r) (col_name c) \<noteq> SNull"
      using c assms(3) by (auto simp: cell_overwrite [OF columns_distinct [OF assms(2)]] column_ok_def split: option.splits)
  qed
  then have "find (\<lambda>r. null_violation def r \<noteq> None) (map (overwrite def vals) (filter (matches def conds) (rows_of db t))) = None"
    by (auto simp: find_None_iff)
  then show ?thesis
    using T(1) by (simp add: exec_update_def find_table_def Let_def)
qed

lemma find_updated:
  assumes "\<And>r. cell def (overwrite def vals r) c = cell def r c"
  shows "find (where_eq c k def) (map (\<lambda>r. if where_eq c K def r then overwrite def vals r else r) rows) =
    map_option (\<lambda>r. if k = K then overwrite def vals r else r) (find (where_eq c k def) rows)"
  using assms by (induction rows) (auto simp: where_eq_def matches_def)

subsection \<open>Sessions\<close>

definition session_entry :: "sql_db \<Rightarrow> SessionId \<Rightarrow> SessionRecord option" where
  "session_entry db i = map_option (decoded SessionRecord_read session_cols sessions_table)
     (find (where_eq ''id'' (SBlob (sid_value i)) sessions_table) (rows_of db ''sessions''))"

definition session_vals :: "SessionId \<Rightarrow> DeviceId \<Rightarrow> string \<Rightarrow> bytes \<Rightarrow> string \<Rightarrow> i64 \<Rightarrow> (string \<times> sql_value) list" where
  "session_vals i d ver keys caps now = [(''id'', SBlob (sid_value i)), (''device_id'', SBlob (did_value d)),
     (''protocol_version'', SText ver), (''session_keys'', SBlob keys), (''capabilities'', SText caps), (''state'', SText ''opening''),
     (''created_at'', SInt now), (''last_activity'', SInt now)]"

lemma session_row:
  "build_row sessions_table (session_vals i d ver keys caps now) =
     [SBlob (sid_value i), SBlob (did_value d), SText ver, SBlob keys, SText caps, SText ''opening'', SInt now, SInt now, SInt 0, SInt 0]"
  by (simp add: build_row_def session_vals_def table_columns column_def)

lemma parent_present_find:
  assumes "db_reach enforce True db" "target (fk_table fk) = Some p"
  shows "parent_present db fk v \<longleftrightarrow> find (where_eq (fk_parent fk) v p) (rows_of db (fk_table fk)) \<noteq> None"
  using reach_rows(1) [OF assms] by (auto simp: parent_present_def list_ex_iff find_None_iff where_eq_def matches_def)

lemma session_refused:
  assumes "db_reach enforce True db"
  shows "insert_refused enforce db ''sessions'' sessions_table (build_row sessions_table (session_vals i d ver keys caps now)) \<longleftrightarrow>
    session_entry db i \<noteq> None \<or> (enforce \<and> device_entry db d = None)"
proof -
  have fk: "foreign_ok db sessions_table (build_row sessions_table (session_vals i d ver keys caps now)) \<longleftrightarrow> device_entry db d \<noteq> None"
    unfolding session_row using parent_present_find [OF assms, of "\<lparr>fk_column = ''device_id'', fk_table = ''devices'', fk_parent = ''id'', fk_cascade = True\<rparr>" devices_table]
    by (simp add: foreign_ok_def device_entry_def table_references)
  have key: "(\<exists>c \<in> set (tb_columns sessions_table). col_key c \<and>
      (\<exists>r \<in> set (rows_of db ''sessions''). clash sessions_table (col_name c) (build_row sessions_table (session_vals i d ver keys caps now)) r)) \<longleftrightarrow>
      session_entry db i \<noteq> None"
    unfolding session_row
    by (auto simp: table_columns column_def clash_def session_entry_def find_None_iff where_eq_def matches_def eq_commute [of "SBlob _"])
  show ?thesis
    unfolding insert_refused_def fk key by simp
qed

lemma create_session_result:
  assumes "db_reach enforce True db"
  shows "session_entry db i \<noteq> None \<or> (enforce \<and> device_entry db d = None) \<Longrightarrow>
      \<exists>m. create_session (quiet enforce t) i d ver keys caps db = (Inl (Err (Database m)), db)"
    and "session_entry db i = None \<Longrightarrow> enforce \<longrightarrow> device_entry db d \<noteq> None \<Longrightarrow>
      \<exists>db'. create_session (quiet enforce t) i d ver keys caps db = (Inr (), db') \<and>
        (\<forall>j. session_entry db' j = (if j = i then Some \<lparr>sr_id = i, sr_device_id = d, sr_protocol_version = ver, sr_session_keys = keys,
          sr_capabilities = caps, sr_state = ''opening'', sr_created_at = of_nat t, sr_last_activity = of_nat t, sr_bytes_sent = 0,
          sr_bytes_received = 0\<rparr> else session_entry db j))"
proof -
  let ?vals = "session_vals i d ver keys caps (of_nat t)"
  let ?row = "build_row sessions_table ?vals"
  have nn: "null_violation sessions_table ?row = None"
    unfolding session_row by (simp add: null_violation_None table_columns column_def)
  note I = insert_result [OF assms, of "''sessions''" sessions_table, OF _ nn, unfolded session_refused [OF assms]]
  have call: "create_session (quiet enforce t) i d ver keys caps db =
      (case exec_insert enforce ''sessions'' ?vals db of Inl e \<Rightarrow> (Inl (db_err e), db) | Inr db' \<Rightarrow> (Inr (), db'))"
    by (simp add: create_session_def execute_now_quiet execute_calm session_vals_def)
  show "\<exists>m. create_session (quiet enforce t) i d ver keys caps db = (Inl (Err (Database m)), db)"
    if "session_entry db i \<noteq> None \<or> (enforce \<and> device_entry db d = None)"
    using I(1) that unfolding call by (auto simp: db_err_def)
  assume free: "session_entry db i = None" "enforce \<longrightarrow> device_entry db d \<noteq> None"
  let ?db' = "set_rows ''sessions'' (rows_of db ''sessions'' @ [?row]) db"
  have ok: "create_session (quiet enforce t) i d ver keys caps db = (Inr (), ?db')"
    using I(2) free unfolding call by auto
  have F: "find (where_eq ''id'' (SBlob (sid_value j)) sessions_table) (rows_of ?db' ''sessions'') =
      (if SBlob (sid_value j) = SBlob (sid_value i) then Some ?row
       else find (where_eq ''id'' (SBlob (sid_value j)) sessions_table) (rows_of db ''sessions''))" for j
    unfolding rows_set_rows [OF assms, of "''sessions''" sessions_table, simplified]
    using free(1) by (simp only: if_True simp_thms, intro find_appended) (simp_all add: session_row session_entry_def)
  have S: "sid_value j = sid_value i \<longleftrightarrow> j = i" for j
    by (cases i, cases j) simp
  have D: "decoded SessionRecord_read session_cols sessions_table ?row =
      \<lparr>sr_id = i, sr_device_id = d, sr_protocol_version = ver, sr_session_keys = keys,
          sr_capabilities = caps, sr_state = ''opening'', sr_created_at = of_nat t, sr_last_activity = of_nat t, sr_bytes_sent = 0,
          sr_bytes_received = 0\<rparr>"
    unfolding session_row by (simp add: decoded_def session_cols_def SessionRecord_read_def)
  have "session_entry ?db' j = (if j = i then Some \<lparr>sr_id = i, sr_device_id = d, sr_protocol_version = ver, sr_session_keys = keys,
          sr_capabilities = caps, sr_state = ''opening'', sr_created_at = of_nat t, sr_last_activity = of_nat t, sr_bytes_sent = 0,
          sr_bytes_received = 0\<rparr> else session_entry db j)" for j
    unfolding session_entry_def F by (simp add: S D)
  then show "\<exists>db'. create_session (quiet enforce t) i d ver keys caps db = (Inr (), db') \<and>
        (\<forall>j. session_entry db' j = (if j = i then Some \<lparr>sr_id = i, sr_device_id = d, sr_protocol_version = ver, sr_session_keys = keys,
          sr_capabilities = caps, sr_state = ''opening'', sr_created_at = of_nat t, sr_last_activity = of_nat t, sr_bytes_sent = 0,
          sr_bytes_received = 0\<rparr> else session_entry db j))"
    using ok by blast
qed

lemma session_overwrite:
  assumes "row_ok sessions_table r" "row_filled ''sessions'' sessions_table r"
  shows "decoded SessionRecord_read session_cols sessions_table
      (overwrite sessions_table [(''state'', SText st), (''last_activity'', SInt now)] r) =
    (decoded SessionRecord_read session_cols sessions_table r)\<lparr>sr_state := st, sr_last_activity := now\<rparr>"
proof -
  obtain e where e: "SessionRecord_read (map (cell sessions_table r) session_cols) = Inr e"
    using session_reads [OF assms] by (auto simp: reads_def)
  then have "decoded SessionRecord_read session_cols sessions_table r = e"
    by (simp add: decoded_def)
  moreover have "SessionRecord_read (map (cell sessions_table
        (overwrite sessions_table [(''state'', SText st), (''last_activity'', SInt now)] r)) session_cols) =
      Inr (e\<lparr>sr_state := st, sr_last_activity := now\<rparr>)"
    using e by (auto simp: SessionRecord_read_def bindE_Inr_iff session_cols_def overwrite_def table_columns column_def)
  ultimately show ?thesis
    by (simp add: decoded_def)
qed

lemma update_session_result:
  assumes "db_reach enforce True db"
  shows "\<exists>db'. update_session_state (quiet enforce t) i st db = (Inr (), db') \<and>
    (\<forall>j. session_entry db' j = map_option (\<lambda>e. if j = i then e\<lparr>sr_state := st, sr_last_activity := of_nat t\<rparr> else e) (session_entry db j))"
proof -
  let ?vals = "[(''state'', SText st), (''last_activity'', SInt (of_nat t))]"
  let ?db' = "set_rows ''sessions'' (map (\<lambda>r. if where_eq ''id'' (SBlob (sid_value i)) sessions_table r then overwrite sessions_table ?vals r else r)
      (rows_of db ''sessions'')) db"
  have "exec_update ''sessions'' ?vals [(''id'', SBlob (sid_value i))] db = Inr ?db'"
    using update_result [OF assms, of "''sessions''" sessions_table ?vals "[(''id'', SBlob (sid_value i))]"]
    by (simp add: table_columns column_def where_eq_def)
  then have call: "update_session_state (quiet enforce t) i st db = (Inr (), ?db')"
    by (simp add: update_session_state_def execute_now_quiet execute_calm)
  have F: "find (where_eq ''id'' k sessions_table) (rows_of ?db' ''sessions'') =
      map_option (\<lambda>r. if k = SBlob (sid_value i) then overwrite sessions_table ?vals r else r)
        (find (where_eq ''id'' k sessions_table) (rows_of db ''sessions''))" for k
    unfolding rows_set_rows [OF assms, of "''sessions''" sessions_table, simplified] if_True simp_thms
    by (rule find_updated) (simp add: overwrite_def table_columns column_def)
  have "session_entry ?db' j = map_option (\<lambda>e. if j = i then e\<lparr>sr_state := st, sr_last_activity := of_nat t\<rparr> else e) (session_entry db j)" for j
  proof (cases "find (where_eq ''id'' (SBlob (sid_value j)) sessions_table) (rows_of db ''sessions'')")
    case None
    then show ?thesis
      using F [of "SBlob (sid_value j)"] by (simp add: session_entry_def)
  next
    case (Some r)
    have "sid_value j = sid_value i \<longleftrightarrow> j = i"
      by (cases i, cases j) simp
    then show ?thesis
      using F [of "SBlob (sid_value j)"] Some where_eq_find [OF Some] reach_rows(2) [OF assms, of "''sessions''" sessions_table]
        session_overwrite [of r st "of_nat t"]
      by (auto simp: session_entry_def table_rows_ok_def)
  qed
  then show ?thesis
    using call by blast
qed

lemma find_unique:
  assumes "keys_ok def rows" "c \<in> set (tb_columns def)" "col_key c" "r \<in> set rows" "cell def r (col_name c) = K" "K \<noteq> SNull"
  shows "find (where_eq (col_name c) K def) rows = Some r"
proof -
  obtain xs ys where rows: "rows = xs @ r # ys"
    using assms(4) by (meson split_list)
  have "\<forall>r' \<in> set (xs @ ys). cell def r' (col_name c) \<noteq> K"
    using keys_ok_unique [OF assms(1-3) rows] assms(5,6) by simp
  then have "find (where_eq (col_name c) K def) xs = None"
    by (auto simp: find_None_iff where_eq_def matches_def)
  then show ?thesis
    using assms(5) by (simp add: rows find_append where_eq_def matches_def)
qed

lemma session_row_entry:
  assumes "db_reach enforce True db" "r \<in> set (rows_of db ''sessions'')"
  shows "session_entry db (sr_id (decoded SessionRecord_read session_cols sessions_table r)) =
      Some (decoded SessionRecord_read session_cols sessions_table r)"
    "cell sessions_table r ''state'' = SText (sr_state (decoded SessionRecord_read session_cols sessions_table r))"
proof -
  note T = reach_rows [OF assms(1), of "''sessions''" sessions_table, simplified]
  have "row_ok sessions_table r" "row_filled ''sessions'' sessions_table r"
    using T(2) assms(2) by (auto simp: table_rows_ok_def)
  then obtain e where e: "SessionRecord_read (map (cell sessions_table r) session_cols) = Inr e"
    using session_reads by (auto simp: reads_def)
  then have c: "cell sessions_table r ''id'' = SBlob (sid_value (sr_id e))" "cell sessions_table r ''state'' = SText (sr_state e)"
    by (auto simp: SessionRecord_read_def bindE_Inr_iff session_cols_def from_Inr)
  have d: "decoded SessionRecord_read session_cols sessions_table r = e"
    using e by (simp add: decoded_def)
  have "find (where_eq ''id'' (SBlob (sid_value (sr_id e))) sessions_table) (rows_of db ''sessions'') = Some r"
    using find_unique [OF T(3), of "column ''id'' T_Blob False None True" r] assms(2) c(1) by (simp add: table_columns column_def)
  then show "session_entry db (sr_id (decoded SessionRecord_read session_cols sessions_table r)) =
      Some (decoded SessionRecord_read session_cols sessions_table r)"
    "cell sessions_table r ''state'' = SText (sr_state (decoded SessionRecord_read session_cols sessions_table r))"
    using c(2) by (simp_all add: session_entry_def d)
qed

lemma active_sessions_entries:
  assumes "db_reach enforce True db" "calm env"
  shows "\<exists>rs. get_active_sessions env db = Inr rs \<and>
    (\<forall>e. e \<in> set rs \<longleftrightarrow> session_entry db (sr_id e) = Some e \<and>
      sr_state e \<in> {''opening'', ''negotiating'', ''authenticating'', ''active''})"
proof -
  let ?dec = "decoded SessionRecord_read session_cols sessions_table"
  let ?rs = "map ?dec (filter (\<lambda>r. cell sessions_table r ''state'' \<in> SText ` {''opening'', ''negotiating'', ''authenticating'', ''active''})
      (rows_of db ''sessions''))"
  have "e \<in> set ?rs \<longleftrightarrow> session_entry db (sr_id e) = Some e \<and> sr_state e \<in> {''opening'', ''negotiating'', ''authenticating'', ''active''}" for e
  proof
    assume "e \<in> set ?rs"
    then obtain r where "r \<in> set (rows_of db ''sessions'')" "e = ?dec r"
      "cell sessions_table r ''state'' \<in> SText ` {''opening'', ''negotiating'', ''authenticating'', ''active''}"
      by auto
    then show "session_entry db (sr_id e) = Some e \<and> sr_state e \<in> {''opening'', ''negotiating'', ''authenticating'', ''active''}"
      using session_row_entry [OF assms(1)] by auto
  next
    assume e: "session_entry db (sr_id e) = Some e \<and> sr_state e \<in> {''opening'', ''negotiating'', ''authenticating'', ''active''}"
    then obtain r where r: "find (where_eq ''id'' (SBlob (sid_value (sr_id e))) sessions_table) (rows_of db ''sessions'') = Some r" "e = ?dec r"
      by (auto simp: session_entry_def)
    have "r \<in> set (rows_of db ''sessions'')"
      using where_eq_find [OF r(1)] by blast
    then show "e \<in> set ?rs"
      using session_row_entry(2) [OF assms(1), of r] e r(2) by auto
  qed
  then show ?thesis
    unfolding calm_queries(4) [OF assms] by blast
qed

lemma get_session_entry: "db_reach enforce True db \<Longrightarrow> calm env \<Longrightarrow> get_session env i db = Inr (session_entry db i)"
  by (simp add: calm_queries session_entry_def)

lemma session_calls_reach:
  "db_reach enforce True db \<Longrightarrow> db_reach enforce True (snd (create_session (quiet enforce t) i d ver keys caps db))"
  "db_reach enforce True db \<Longrightarrow> db_reach enforce True (snd (update_session_state (quiet enforce t) i st db))"
  using reach_call [of enforce db t "Create_session i d ver keys caps"] reach_call [of enforce db t "Update_session_state i st"]
  by (simp_all add: db_step_def)

text \<open>
  C33. Session records. \<open>create_session\<close> is refused exactly when the session is already there or, where
  foreign keys are enforced, its device is not; then nothing changes. Otherwise the session reads back in
  state \<open>opening\<close> with no bytes counted and the given keys, other sessions are as before, and it is among the active sessions.
  \<open>update_session_state\<close> changes the state and the time of last activity of its
  session and nothing else, and reports success for a session that is not there. The active sessions
  are those in one of the four states that are not closed.
\<close>

theorem session_records:
  assumes "db_reach enforce True db" "calm env"
  shows "(let (r, db') = create_session (quiet enforce t) i d ver keys caps db in
      (r = Inr () \<longleftrightarrow> session_entry db i = None \<and> (enforce \<longrightarrow> device_entry db d \<noteq> None)) \<and> (r \<noteq> Inr () \<longrightarrow> db' = db) \<and>
      (r = Inr () \<longrightarrow> get_session env i db' = Inr (Some \<lparr>sr_id = i, sr_device_id = d, sr_protocol_version = ver, sr_session_keys = keys,
          sr_capabilities = caps, sr_state = ''opening'', sr_created_at = of_nat t, sr_last_activity = of_nat t, sr_bytes_sent = 0,
          sr_bytes_received = 0\<rparr>)) \<and>
      (j \<noteq> i \<longrightarrow> get_session env j db' = get_session env j db)) \<and>
    (let (r, db') = update_session_state (quiet enforce t) i st db in
      r = Inr () \<and> get_session env j db' =
        Inr (map_option (\<lambda>e. if j = i then e\<lparr>sr_state := st, sr_last_activity := of_nat t\<rparr> else e) (session_entry db j))) \<and>
    (\<exists>rs. get_active_sessions env db = Inr rs \<and> (\<forall>e. e \<in> set rs \<longleftrightarrow> session_entry db (sr_id e) = Some e \<and>
      sr_state e \<in> {''opening'', ''negotiating'', ''authenticating'', ''active''}))"
proof -
  let ?new = "\<lparr>sr_id = i, sr_device_id = d, sr_protocol_version = ver, sr_session_keys = keys,
          sr_capabilities = caps, sr_state = ''opening'', sr_created_at = of_nat t, sr_last_activity = of_nat t, sr_bytes_sent = 0,
          sr_bytes_received = 0\<rparr>"
  note G = get_session_entry [OF _ assms(2)]
  obtain r db' where c: "create_session (quiet enforce t) i d ver keys caps db = (r, db')"
    by fastforce
  then have R: "db_reach enforce True db'"
    using session_calls_reach(1) [OF assms(1), of t i d ver keys caps] by simp
  have "(r = Inr () \<longleftrightarrow> session_entry db i = None \<and> (enforce \<longrightarrow> device_entry db d \<noteq> None)) \<and> (r \<noteq> Inr () \<longrightarrow> db' = db) \<and>
      (r = Inr () \<longrightarrow> get_session env i db' = Inr (Some ?new)) \<and> (j \<noteq> i \<longrightarrow> get_session env j db' = get_session env j db)"
  proof (cases "session_entry db i = None \<and> (enforce \<longrightarrow> device_entry db d \<noteq> None)")
    case True
    then show ?thesis
      using create_session_result(2) [OF assms(1), of i d t ver keys caps] c unfolding G [OF R] G [OF assms(1)] by auto
  next
    case False
    then show ?thesis
      using create_session_result(1) [OF assms(1), of i d t ver keys caps] c by auto
  qed
  moreover obtain r2 db2 where u: "update_session_state (quiet enforce t) i st db = (r2, db2)"
    by fastforce
  moreover have "db_reach enforce True db2"
    using session_calls_reach(2) [OF assms(1), of t i st] u by simp
  note G [OF this]
  ultimately show ?thesis
    using active_sessions_entries [OF assms] update_session_result [OF assms(1), of t i st] by (simp add: c)
qed

theorem session_records_witness:
  "fst (create_session (quiet True 3) \<lparr>sid_value = [7]\<rparr> \<lparr>did_value = [1]\<rparr> ''1'' [] [] (opened_db True)) \<noteq> Inr () \<and>
   fst (update_session_state (quiet True 3) \<lparr>sid_value = [7]\<rparr> ''closed'' (opened_db True)) = Inr ()"
proof -
  have "rows_of (opened_db True) ''devices'' = []"
    by code_simp
  then have "device_entry (opened_db True) \<lparr>did_value = [1]\<rparr> = None"
    by (simp add: device_entry_def)
  moreover obtain r db' where "create_session (quiet True 3) \<lparr>sid_value = [7]\<rparr> \<lparr>did_value = [1]\<rparr> ''1'' [] [] (opened_db True) = (r, db')"
    by fastforce
  moreover obtain r2 db2 where "update_session_state (quiet True 3) \<lparr>sid_value = [7]\<rparr> ''closed'' (opened_db True) = (r2, db2)"
    by fastforce
  ultimately show ?thesis
    using session_records [where env = "quiet True 9" and t = 3 and i = "\<lparr>sid_value = [7]\<rparr>" and d = "\<lparr>did_value = [1]\<rparr>" and ver = "''1''"
        and keys = "[]" and caps = "[]" and st = "''closed''", OF reach_opened [of True] calm_quiet(1)]
    by simp
qed

subsection \<open>Sync jobs\<close>

definition job_entry :: "sql_db \<Rightarrow> string \<Rightarrow> SyncJobRecord option" where
  "job_entry db k = map_option (decoded SyncJobRecord_read sync_job_cols sync_jobs_table)
     (find (where_eq ''id'' (SText k) sync_jobs_table) (rows_of db ''sync_jobs''))"

definition job_vals :: "SyncJobRecord \<Rightarrow> (string \<times> sql_value) list" where
  "job_vals job = [(''id'', SText (sj_id job)), (''name'', SText (sj_name job)), (''description'', SText (sj_description job)),
        (''direction'', SText (sj_direction job)), (''local_path'', SText (sj_local_path job)),
        (''remote_path'', SText (sj_remote_path job)), (''enabled'', to_bool (sj_enabled job)),
        (''auto_sync'', to_bool (sj_auto_sync job)),
        (''schedule_type'', to_option SText (sj_schedule_type job)),
        (''schedule_value'', to_option SText (sj_schedule_value job)),
        (''conflict_strategy'', SText (sj_conflict_strategy job)), (''filters'', SText (sj_filters job)),
        (''status'', SText ''idle''), (''last_sync'', to_option SInt (sj_last_sync job)),
        (''created_at'', SInt (sj_created_at job)), (''updated_at'', SInt (sj_updated_at job)),
        (''stats'', SText ''{}'')]"

definition job_stored :: "SyncJobRecord \<Rightarrow> SyncJobRecord" where
  "job_stored job = job\<lparr>sj_status := ''idle'', sj_stats := ''{}''\<rparr>"

definition job_add :: "bool \<Rightarrow> SyncJobRecord \<Rightarrow> sql_db \<Rightarrow> bool \<times> sql_db" where
  "job_add enforce job db = (case create_sync_job (quiet enforce 0) job db of (r, db') \<Rightarrow> (r = Inr (), db'))"

text \<open>\<open>delete_sync_job\<close> does not tell whether there was a job.\<close>

definition job_del :: "bool \<Rightarrow> string \<Rightarrow> sql_db \<Rightarrow> bool \<times> sql_db" where
  "job_del enforce k db = (job_entry db k \<noteq> None, snd (delete_sync_job (quiet enforce 0) k db))"

lemma job_row:
  "build_row sync_jobs_table (job_vals job) =
     [SText (sj_id job), SText (sj_name job), SText (sj_description job), SText (sj_direction job), SText (sj_local_path job),
      SText (sj_remote_path job), to_bool (sj_enabled job), to_bool (sj_auto_sync job), to_option SText (sj_schedule_type job),
      to_option SText (sj_schedule_value job), SText (sj_conflict_strategy job), SText (sj_filters job), SText ''idle'',
      to_option SInt (sj_last_sync job), SInt (sj_created_at job), SInt (sj_updated_at job), SText ''{}'']"
  by (simp add: build_row_def job_vals_def table_columns column_def)

lemma job_decoded: "decoded SyncJobRecord_read sync_job_cols sync_jobs_table (build_row sync_jobs_table (job_vals job)) = job_stored job"
  unfolding job_row by (simp add: decoded_def sync_job_cols_def SyncJobRecord_read_def job_stored_def)

lemma job_add_result:
  assumes "db_reach enforce True db"
  shows "job_entry db (sj_id job) \<noteq> None \<Longrightarrow> job_add enforce job db = (False, db)"
    and "job_entry db (sj_id job) = None \<Longrightarrow> fst (job_add enforce job db) \<and>
      job_entry (snd (job_add enforce job db)) k = (if k = sj_id job then Some (job_stored job) else job_entry db k)"
proof -
  let ?row = "build_row sync_jobs_table (job_vals job)"
  have nn: "null_violation sync_jobs_table ?row = None"
    unfolding job_row by (simp add: null_violation_None table_columns column_def)
  have refused: "insert_refused enforce db ''sync_jobs'' sync_jobs_table ?row \<longleftrightarrow> job_entry db (sj_id job) \<noteq> None"
    unfolding job_row
    by (auto simp: insert_refused_def foreign_ok_def table_references table_columns column_def clash_def job_entry_def find_None_iff
        where_eq_def matches_def eq_commute [of "SText _"])
  note I = insert_result [OF assms, of "''sync_jobs''" sync_jobs_table, OF _ nn, unfolded refused]
  have call: "create_sync_job (quiet enforce 0) job db =
      (case exec_insert enforce ''sync_jobs'' (job_vals job) db of Inl e \<Rightarrow> (Inl (db_err e), db) | Inr db' \<Rightarrow> (Inr (), db'))"
    by (simp add: create_sync_job_def execute_calm job_vals_def)
  show "job_add enforce job db = (False, db)" if "job_entry db (sj_id job) \<noteq> None"
    using I(1) that by (auto simp: job_add_def call)
  assume free: "job_entry db (sj_id job) = None"
  let ?db' = "set_rows ''sync_jobs'' (rows_of db ''sync_jobs'' @ [?row]) db"
  have add: "job_add enforce job db = (True, ?db')"
    using I(2) free by (auto simp: job_add_def call)
  have F: "find (where_eq ''id'' (SText k) sync_jobs_table) (rows_of ?db' ''sync_jobs'') =
      (if SText k = SText (sj_id job) then Some ?row else find (where_eq ''id'' (SText k) sync_jobs_table) (rows_of db ''sync_jobs''))" for k
    unfolding rows_set_rows [OF assms, of "''sync_jobs''" sync_jobs_table, simplified]
    using free by (simp only: if_True simp_thms, intro find_appended) (simp_all add: job_row job_entry_def)
  have "job_entry ?db' k = (if k = sj_id job then Some (job_stored job) else job_entry db k)"
    unfolding job_entry_def F by (simp add: job_decoded)
  then show "fst (job_add enforce job db) \<and>
      job_entry (snd (job_add enforce job db)) k = (if k = sj_id job then Some (job_stored job) else job_entry db k)"
    by (simp add: add)
qed

lemma job_del_result:
  assumes "db_reach enforce True db"
  shows "job_entry (snd (job_del enforce k db)) k' = (if k' = k then None else job_entry db k')"
proof -
  let ?conds = "[(''id'', SText k)]"
  let ?gone = "filter (matches sync_jobs_table ?conds) (rows_of db ''sync_jobs'')"
  obtain db' where db': "exec_delete enforce ''sync_jobs'' ?conds db = Inr db'"
    and rows: "\<forall>n x. target n = Some x \<longrightarrow> rows_of db' n =
       (let rows = (if n = ''sync_jobs'' then filter (\<lambda>r. \<not> matches sync_jobs_table ?conds r) (rows_of db ''sync_jobs'') else rows_of db n) in
        if enforce then tbl_rows (cascade ''sync_jobs'' sync_jobs_table ?gone \<lparr>tbl_def = x, tbl_rows = rows\<rparr>) else rows)"
    using delete_result [OF assms, of "''sync_jobs''" sync_jobs_table ?conds] by auto
  have del: "snd (job_del enforce k db) = db'"
    using db' by (simp add: job_del_def delete_sync_job_def execute_calm)
  have jobs: "rows_of db' ''sync_jobs'' = filter (\<lambda>r. \<not> (where_eq ''id'' (SText k) sync_jobs_table r \<and> True)) (rows_of db ''sync_jobs'')"
    using rows [rule_format, of "''sync_jobs''" sync_jobs_table] by (simp add: cascade_rows table_references Let_def where_eq_def)
  note T = reach_rows [OF assms, of "''sync_jobs''" sync_jobs_table, simplified]
  have "find (where_eq ''id'' (SText k') sync_jobs_table) (rows_of db' ''sync_jobs'') =
      (if k' = k then None else find (where_eq ''id'' (SText k') sync_jobs_table) (rows_of db ''sync_jobs''))"
    unfolding jobs using find_after_delete [OF T(3), of "column ''id'' T_Text False None True" "SText k" "SText k'" "\<lambda>_. True"]
    by (simp add: table_columns column_def)
  then show "job_entry (snd (job_del enforce k db)) k' = (if k' = k then None else job_entry db k')"
    by (simp add: job_entry_def del)
qed

lemma job_calls_reach:
  "db_reach enforce True db \<Longrightarrow> db_reach enforce True (snd (job_add enforce job db))"
  "db_reach enforce True db \<Longrightarrow> db_reach enforce True (snd (job_del enforce k db))"
  using reach_call [of enforce db 0 "Create_sync_job job"] reach_call [of enforce db 0 "Delete_sync_job k"]
  by (simp_all add: job_add_def job_del_def db_step_def split_def)

interpretation sync_jobs: exclusive_register job_entry "job_add enforce" "job_del enforce" sj_id job_stored "db_reach enforce True"
  for enforce
proof unfold_locales
  show "\<not> fst (job_add enforce v s) \<and> db_reach enforce True (snd (job_add enforce v s)) \<and> job_entry (snd (job_add enforce v s)) k = job_entry s k"
    if "db_reach enforce True s" "job_entry s (sj_id v) \<noteq> None" for s v k
    using job_add_result(1) [OF that] that(1) by simp
  show "fst (job_add enforce v s) \<and> db_reach enforce True (snd (job_add enforce v s)) \<and>
      job_entry (snd (job_add enforce v s)) k = (if k = sj_id v then Some (job_stored v) else job_entry s k)"
    if "db_reach enforce True s" "job_entry s (sj_id v) = None" for s v k
    using job_add_result(2) [OF that, of k] job_calls_reach(1) [OF that(1)] by blast
  show "fst (job_del enforce k s) = (job_entry s k \<noteq> None) \<and> db_reach enforce True (snd (job_del enforce k s)) \<and>
      job_entry (snd (job_del enforce k s)) k' = (if k' = k then None else job_entry s k')"
    if "db_reach enforce True s" for s k k'
    using job_del_result(1) [OF that, of k k'] job_calls_reach(2) [OF that] by (simp add: job_del_def)
qed

lemma get_sync_job_entry: "db_reach enforce True db \<Longrightarrow> calm env \<Longrightarrow> get_sync_job env k db = Inr (job_entry db k)"
  by (simp add: calm_queries job_entry_def)

lemma create_job_result:
  assumes "db_reach enforce True db"
  shows "create_sync_job (quiet enforce t) job db = create_sync_job (quiet enforce 0) job db"
    "fst (create_sync_job (quiet enforce 0) job db) = Inr () \<longleftrightarrow> fst (job_add enforce job db)"
    "snd (create_sync_job (quiet enforce 0) job db) = snd (job_add enforce job db)"
  by (simp_all add: job_add_def split_def) (simp add: create_sync_job_def execute_calm)

lemma delete_job_result:
  "delete_sync_job (quiet enforce t) k db = delete_sync_job (quiet enforce 0) k db"
  "snd (delete_sync_job (quiet enforce 0) k db) = snd (job_del enforce k db)"
  by (simp_all add: job_del_def delete_sync_job_def execute_calm)

lemma delete_job_succeeds: "db_reach enforce True db \<Longrightarrow> fst (delete_sync_job (quiet enforce t) k db) = Inr ()"
  using delete_result [of enforce db "''sync_jobs''" sync_jobs_table "[(''id'', SText k)]"]
  by (auto simp: delete_sync_job_def execute_calm)

text \<open>Where foreign keys are enforced, the conflicts of a job go with it.\<close>

lemma no_conflicts_left:
  assumes "db_reach True True db" "calm env"
  shows "get_sync_conflicts env k (snd (job_del True k db)) = Inr []"
proof -
  let ?db' = "snd (job_del True k db)"
  have R: "db_reach True True ?db'"
    by (rule job_calls_reach(2) [OF assms(1)])
  note T = reach_rows [OF R, of "''sync_conflicts''" sync_conflicts_table, simplified]
  have "refs_ok ?db'"
    using db_reach_invD(1) [OF R] db_invD(1) by (auto simp: db_ok_def)
  have "\<not> where_eq ''job_id'' (SText k) sync_conflicts_table r" if r: "r \<in> set (rows_of ?db' ''sync_conflicts'')" for r
  proof
    assume "where_eq ''job_id'' (SText k) sync_conflicts_table r"
    then have k: "cell sync_conflicts_table r ''job_id'' = SText k"
      by (simp add: where_eq_def matches_def)
    have "foreign_ok ?db' sync_conflicts_table r"
      using \<open>refs_ok ?db'\<close> T(1) r unfolding refs_ok_def list_all_iff by (metis sql_table.select_convs(1,2))
    then have "job_entry ?db' k \<noteq> None"
      using parent_present_find [OF R, of "\<lparr>fk_column = ''job_id'', fk_table = ''sync_jobs'', fk_parent = ''id'', fk_cascade = True\<rparr>"
          sync_jobs_table "SText k"] k
      by (simp add: foreign_ok_def table_references job_entry_def)
    then show False
      using job_del_result(1) [OF assms(1), of k k] by simp
  qed
  then show ?thesis
    by (simp add: calm_queries(8) [OF R assms(2)] filter_empty_conv)
qed

text \<open>
  C32. Sync jobs are registered under their identifiers. \<open>create_sync_job\<close> succeeds exactly when no job has the identifier, whatever
  the names are; the job then reads back as given except that its status is
  \<open>idle\<close> and its statistics are empty, whatever the record said. \<open>delete_sync_job\<close> always reports success; it removes
  the job with the identifier and no other and, where foreign keys are enforced, its conflicts. After any sequence of creations and deletions a job is
  there exactly when the last of them under its identifier was a creation, or when none was and it was there before.
\<close>

theorem sync_jobs_register:
  assumes "db_reach enforce True db" "calm env"
  shows "(let (r, db') = create_sync_job (quiet enforce t) job db in (r = Inr () \<longleftrightarrow> job_entry db (sj_id job) = None) \<and>
      get_sync_job env k db' = (if r = Inr () \<and> k = sj_id job then Inr (Some (job\<lparr>sj_status := ''idle'', sj_stats := ''{}''\<rparr>))
        else get_sync_job env k db)) \<and>
    (let (r, db') = delete_sync_job (quiet enforce t) k' db in r = Inr () \<and>
      get_sync_job env k db' = (if k = k' then Inr None else get_sync_job env k db) \<and>
      (enforce \<longrightarrow> get_sync_conflicts env k' db' = Inr [])) \<and>
    (get_sync_job env k (fold (\<lambda>x s. case x of Inl job \<Rightarrow> snd (create_sync_job (quiet enforce 0) job s)
          | Inr k \<Rightarrow> snd (delete_sync_job (quiet enforce 0) k s)) xs db) \<noteq> Inr None \<longleftrightarrow>
      (case rev (filter (\<lambda>x. (case x of Inl job \<Rightarrow> sj_id job | Inr k \<Rightarrow> k) = k) xs) of
         [] \<Rightarrow> get_sync_job env k db \<noteq> Inr None | x # _ \<Rightarrow> (\<exists>job. x = Inl job)))"
proof (intro conjI)
  note G = get_sync_job_entry [OF _ assms(2)]
  let ?A = "job_add enforce job db"
  have add: "fst ?A \<longleftrightarrow> job_entry db (sj_id job) = None"
    "job_entry (snd ?A) k = (if fst ?A \<and> k = sj_id job then Some (job_stored job) else job_entry db k)"
    using sync_jobs.add_iff [OF assms(1), of job] sync_jobs.add_free [OF assms(1), of job k] sync_jobs.add_taken [OF assms(1), of job k]
    by auto
  show "let (r, db') = create_sync_job (quiet enforce t) job db in (r = Inr () \<longleftrightarrow> job_entry db (sj_id job) = None) \<and>
      get_sync_job env k db' = (if r = Inr () \<and> k = sj_id job then Inr (Some (job\<lparr>sj_status := ''idle'', sj_stats := ''{}''\<rparr>))
        else get_sync_job env k db)"
    unfolding create_job_result(1) [OF assms(1), of t job] using add G [OF job_calls_reach(1) [OF assms(1), of job]] G [OF assms(1)]
    by (simp add: split_def create_job_result(2,3) [OF assms(1)] job_stored_def)
  show "let (r, db') = delete_sync_job (quiet enforce t) k' db in r = Inr () \<and>
      get_sync_job env k db' = (if k = k' then Inr None else get_sync_job env k db) \<and>
      (enforce \<longrightarrow> get_sync_conflicts env k' db' = Inr [])"
    unfolding delete_job_result(1) [of enforce t k' db] using no_conflicts_left [of db env k'] assms sync_jobs.del_any [OF assms(1), of k' k]
      G [OF job_calls_reach(2) [OF assms(1), of k']] G [OF assms(1)] delete_job_succeeds [OF assms(1), of 0 k']
    by (auto simp: split_def delete_job_result(2))
  let ?run = "sync_jobs.run enforce xs db"
  have run: "fold (\<lambda>x s. case x of Inl job \<Rightarrow> snd (create_sync_job (quiet enforce 0) job s)
          | Inr k \<Rightarrow> snd (delete_sync_job (quiet enforce 0) k s)) xs db = ?run"
    using assms(1)
  proof (induction xs arbitrary: db)
    case (Cons x xs)
    have "db_reach enforce True (case x of Inl job \<Rightarrow> snd (job_add enforce job db) | Inr k \<Rightarrow> snd (job_del enforce k db))"
      using job_calls_reach [OF Cons.prems] by (cases x) simp_all
    then show ?case
      using Cons.IH create_job_result(3) [OF Cons.prems] delete_job_result(2) by (cases x) simp_all
  qed simp
  have "db_reach enforce True ?run"
    by (rule sync_jobs.run_inv [OF assms(1)])
  then show "get_sync_job env k (fold (\<lambda>x s. case x of Inl job \<Rightarrow> snd (create_sync_job (quiet enforce 0) job s)
          | Inr k \<Rightarrow> snd (delete_sync_job (quiet enforce 0) k s)) xs db) \<noteq> Inr None \<longleftrightarrow>
      (case rev (filter (\<lambda>x. (case x of Inl job \<Rightarrow> sj_id job | Inr k \<Rightarrow> k) = k) xs) of
         [] \<Rightarrow> get_sync_job env k db \<noteq> Inr None | x # _ \<Rightarrow> (\<exists>job. x = Inl job))"
    unfolding run G [OF assms(1)] using sync_jobs.run_present [OF assms(1), where xs = xs and k = k]
    by (simp add: G split: list.splits)
qed

definition sample_job :: SyncJobRecord where
  "sample_job = \<lparr>sj_id = ''j'', sj_name = ''photos'', sj_description = [], sj_direction = ''push'', sj_local_path = ''/a'',
     sj_remote_path = ''/b'', sj_enabled = True, sj_auto_sync = False, sj_schedule_type = None, sj_schedule_value = None,
     sj_conflict_strategy = ''ask'', sj_filters = ''[]'', sj_status = ''running'', sj_last_sync = None, sj_created_at = 1,
     sj_updated_at = 1, sj_stats = ''x''\<rparr>"

text \<open>Two jobs with one name, and the identifier of the first refused to a third.\<close>

theorem sync_jobs_register_witness:
  "\<exists>db1 db2. create_sync_job (quiet True 1) sample_job (opened_db True) = (Inr (), db1) \<and>
    get_sync_job (quiet True 9) ''j'' db1 = Inr (Some (sample_job\<lparr>sj_status := ''idle'', sj_stats := ''{}''\<rparr>)) \<and>
    create_sync_job (quiet True 2) (sample_job\<lparr>sj_id := ''k''\<rparr>) db1 = (Inr (), db2) \<and>
    fst (create_sync_job (quiet True 3) (sample_job\<lparr>sj_name := ''other''\<rparr>) db2) \<noteq> Inr ()"
proof -
  note W = sync_jobs_register [where env = "quiet True 9" and enforce = True, OF _ calm_quiet(1), THEN conjunct1]
  note E = get_sync_job_entry [where env = "quiet True 9", OF _ calm_quiet(1)]
  note id = sample_job_def
  have "rows_of (opened_db True) ''sync_jobs'' = []"
    by code_simp
  then have none: "job_entry (opened_db True) k = None" for k
    by (simp add: job_entry_def)
  obtain r db1 where 1: "create_sync_job (quiet True 1) sample_job (opened_db True) = (r, db1)"
    by (rule prod.exhaust)
  have R1: "db_reach True True db1"
    using reach_call [OF reach_opened [of True], of 1 "Create_sync_job sample_job"] 1 by (simp add: db_step_def)
  note W1 = W [OF reach_opened [of True], of 1 sample_job, unfolded 1, simplified]
  have r: "r = Inr ()"
    using W1 none by simp
  have j1: "get_sync_job (quiet True 9) ''j'' db1 = Inr (Some (sample_job\<lparr>sj_status := ''idle'', sj_stats := ''{}''\<rparr>))"
    "job_entry db1 ''k'' = None"
    using W1 [of "''j''"] W1 [of "''k''"] E [OF R1] E [OF reach_opened [of True]] none r by (simp_all add: id)
  obtain r2 db2 where 2: "create_sync_job (quiet True 2) (sample_job\<lparr>sj_id := ''k''\<rparr>) db1 = (r2, db2)"
    by (rule prod.exhaust)
  have R2: "db_reach True True db2"
    using reach_call [OF R1, of 2 "Create_sync_job (sample_job\<lparr>sj_id := ''k''\<rparr>)"] 2 by (simp add: db_step_def)
  note W2 = W [OF R1, of 2 "sample_job\<lparr>sj_id := ''k''\<rparr>", unfolded 2, simplified]
  have r2: "r2 = Inr ()" "job_entry db2 ''j'' \<noteq> None"
    using W2 [of "''j''"] j1 E [OF R2] by (simp_all add: id)
  have "fst (create_sync_job (quiet True 3) (sample_job\<lparr>sj_name := ''other''\<rparr>) db2) \<noteq> Inr ()"
    using W [OF R2, of 3 "sample_job\<lparr>sj_name := ''other''\<rparr>"] r2(2) by (simp add: id split_def Let_def)
  then show ?thesis
    using 1 2 r r2(1) j1(1) by blast
qed

end
