(* ===== verification/Codec_Stream.thy ===== *)
theory Codec_Stream
  imports Frame_Wire
begin

text \<open>
  The message codec of \<^verbatim>\<open>protocol/src/codec.rs\<close>: a frame codec with a receive buffer, the encoders of
  the control messages, the loop that drains the buffer, \<open>reset\<close>, and the classification of the
  frame types. The draining loop is analysed once for every incremental decoder, in a locale that
  the frame codec interprets.
\<close>

subsection \<open>State and encoders\<close>

record ProtocolCodec =
  pc_frame_codec :: FrameCodec
  pc_rx_buffer :: bytes

definition ProtocolCodec_new :: ProtocolCodec where
  "ProtocolCodec_new =
     \<lparr>pc_frame_codec = FrameCodec_new (unat DEFAULT_MAX_FRAME_SIZE), pc_rx_buffer = []\<rparr>"

text \<open>What every encoder does: take a sequence number, build the frame with it, encode the frame.\<close>

definition encode_built ::
  "(bytes \<Rightarrow> u32) \<Rightarrow> ProtocolCodec \<Rightarrow> (u64 \<Rightarrow> Frame result) \<Rightarrow> bytes result \<times> ProtocolCodec" where
  "encode_built crc codec build =
     (let (sequence, fc) = next_tx_sequence (pc_frame_codec codec) in
      case build sequence of
        Inl e \<Rightarrow> (Inl e, codec\<lparr>pc_frame_codec := fc\<rparr>)
      | Inr frame \<Rightarrow>
          (let (encoded, fc) = encode crc fc frame in (encoded, codec\<lparr>pc_frame_codec := fc\<rparr>)))"

definition encode_session_open_request ::
  "(bytes \<Rightarrow> u32) \<Rightarrow> (SessionOpenRequest \<Rightarrow> string + bytes) \<Rightarrow> ProtocolCodec \<Rightarrow> SessionOpenRequest
     \<Rightarrow> bytes result \<times> ProtocolCodec" where
  "encode_session_open_request crc enc codec request =
     encode_built crc codec (build_session_open_request enc request)"

definition encode_session_open_response ::
  "(bytes \<Rightarrow> u32) \<Rightarrow> (SessionOpenResponse \<Rightarrow> string + bytes) \<Rightarrow> ProtocolCodec \<Rightarrow> SessionOpenResponse
     \<Rightarrow> bytes result \<times> ProtocolCodec" where
  "encode_session_open_response crc enc codec response =
     encode_built crc codec (build_session_open_response enc response)"

definition encode_keepalive ::
  "(bytes \<Rightarrow> u32) \<Rightarrow> (KeepAlive \<Rightarrow> string + bytes) \<Rightarrow> ProtocolCodec \<Rightarrow> u64
     \<Rightarrow> bytes result \<times> ProtocolCodec" where
  "encode_keepalive crc enc codec timestamp =
     encode_built crc codec (\<lambda>sequence. build_keepalive enc sequence timestamp)"

definition encode_capability_negotiate ::
  "(bytes \<Rightarrow> u32) \<Rightarrow> (CapabilityNegotiateRequest \<Rightarrow> string + bytes) \<Rightarrow> ProtocolCodec
     \<Rightarrow> CapabilityNegotiateRequest \<Rightarrow> bytes result \<times> ProtocolCodec" where
  "encode_capability_negotiate crc enc codec request =
     encode_built crc codec (build_capability_negotiate enc request)"

definition encode_auth_challenge ::
  "(bytes \<Rightarrow> u32) \<Rightarrow> (AuthChallenge \<Rightarrow> string + bytes) \<Rightarrow> ProtocolCodec \<Rightarrow> AuthChallenge
     \<Rightarrow> bytes result \<times> ProtocolCodec" where
  "encode_auth_challenge crc enc codec challenge =
     encode_built crc codec (build_auth_challenge enc challenge)"

definition encode_auth_response ::
  "(bytes \<Rightarrow> u32) \<Rightarrow> (AuthResponse \<Rightarrow> string + bytes) \<Rightarrow> ProtocolCodec \<Rightarrow> AuthResponse
     \<Rightarrow> bytes result \<times> ProtocolCodec" where
  "encode_auth_response crc enc codec response =
     encode_built crc codec (build_auth_response enc response)"

definition encode_channel_open_request ::
  "(bytes \<Rightarrow> u32) \<Rightarrow> (ChannelOpenRequest \<Rightarrow> string + bytes) \<Rightarrow> ProtocolCodec \<Rightarrow> ChannelOpenRequest
     \<Rightarrow> bytes result \<times> ProtocolCodec" where
  "encode_channel_open_request crc enc codec request =
     encode_built crc codec (build_channel_open_request enc request)"

definition encode_flow_control_update ::
  "(bytes \<Rightarrow> u32) \<Rightarrow> (FlowControlUpdate \<Rightarrow> string + bytes) \<Rightarrow> ProtocolCodec \<Rightarrow> FlowControlUpdate
     \<Rightarrow> bytes result \<times> ProtocolCodec" where
  "encode_flow_control_update crc enc codec update =
     encode_built crc codec (build_flow_control_update enc update)"

definition encode_control_frame ::
  "(bytes \<Rightarrow> u32) \<Rightarrow> ('m \<Rightarrow> string + bytes) \<Rightarrow> ProtocolCodec \<Rightarrow> FrameType \<Rightarrow> 'm \<Rightarrow> u32
     \<Rightarrow> bytes result \<times> ProtocolCodec" where
  "encode_control_frame crc enc codec frame_type payload channel_id =
     encode_built crc codec (build_control_frame enc frame_type payload channel_id)"

subsection \<open>Receiving\<close>

text \<open>One round of the receive loop: decode a frame, then offer it to the reassembly.\<close>

definition receive_step ::
  "(bytes \<Rightarrow> u32) \<Rightarrow> FrameCodec \<Rightarrow> bytes \<Rightarrow> Frame option option result \<times> FrameCodec \<times> bytes" where
  "receive_step crc fc buf =
     (case decode crc fc buf of
        (Inl e, fc, buf) \<Rightarrow> (Inl e, fc, buf)
      | (Inr None, fc, buf) \<Rightarrow> (Inr None, fc, buf)
      | (Inr (Some frame), fc, buf) \<Rightarrow>
          (case reassemble_fragment fc frame of
             (Inl e, fc) \<Rightarrow> (Inl e, fc, buf)
           | (Inr whole, fc) \<Rightarrow> (Inr (Some whole), fc, buf)))"

definition pushed :: "Frame option \<Rightarrow> Frame list" where
  "pushed r = (case r of None \<Rightarrow> [] | Some frame \<Rightarrow> [frame])"

lemma receive_step_Some:
  "receive_step crc fc buf = (Inr (Some r), fc', rest) \<longleftrightarrow>
     (\<exists>f fc1. decode crc fc buf = (Inr (Some f), fc1, rest) \<and> reassemble_fragment fc1 f = (Inr r, fc'))"
  by (auto simp: receive_step_def split: prod.splits sum.splits option.splits)

lemma receive_step_None:
  "receive_step crc fc buf = (Inr None, fc', rest) \<longleftrightarrow> decode crc fc buf = (Inr None, fc', rest)"
  by (auto simp: receive_step_def split: prod.splits sum.splits option.splits)

function decode_loop ::
  "(bytes \<Rightarrow> u32) \<Rightarrow> FrameCodec \<Rightarrow> bytes \<Rightarrow> Frame list result \<times> FrameCodec \<times> bytes" where
  "decode_loop crc fc buf =
     (case receive_step crc fc buf of
        (Inl e, fc', buf') \<Rightarrow> (Inl e, fc', buf')
      | (Inr None, fc', buf') \<Rightarrow> (Inr [], fc', buf')
      | (Inr (Some r), fc', buf') \<Rightarrow>
          (case decode_loop crc fc' buf' of
             (frames, fc'', buf'') \<Rightarrow> (bindR frames (\<lambda>fs. Inr (pushed r @ fs)), fc'', buf'')))"
  by pat_completeness auto
termination
  by (relation "measure (\<lambda>(crc, fc, buf). length buf)")
    (auto simp: receive_step_Some eq_commute [of "(_, _, _)"] dest!: decode_progress)

declare decode_loop.simps [simp del]

definition ProtocolCodec_decode ::
  "(bytes \<Rightarrow> u32) \<Rightarrow> ProtocolCodec \<Rightarrow> bytes \<Rightarrow> Frame list result \<times> ProtocolCodec" where
  "ProtocolCodec_decode crc codec data =
     (case decode_loop crc (pc_frame_codec codec) (pc_rx_buffer codec @ data) of
        (frames, fc, buf) \<Rightarrow> (frames, \<lparr>pc_frame_codec = fc, pc_rx_buffer = buf\<rparr>))"

definition ProtocolCodec_reset :: "ProtocolCodec \<Rightarrow> ProtocolCodec" where
  "ProtocolCodec_reset codec =
     \<lparr>pc_frame_codec = reset_sequences (pc_frame_codec codec), pc_rx_buffer = []\<rparr>"

definition ProtocolCodec_rx_sequence :: "ProtocolCodec \<Rightarrow> u64" where
  "ProtocolCodec_rx_sequence codec = fc_rx_sequence (pc_frame_codec codec)"

definition set_rx_sequence :: "ProtocolCodec \<Rightarrow> u64 \<Rightarrow> ProtocolCodec" where
  "set_rx_sequence codec seq =
     codec\<lparr>pc_frame_codec := (pc_frame_codec codec)\<lparr>fc_rx_sequence := seq\<rparr>\<rparr>"

subsection \<open>Payloads and frame types\<close>

definition decode_frame_payload :: "(bytes \<Rightarrow> string + 'm) \<Rightarrow> Frame \<Rightarrow> 'm result" where
  "decode_frame_payload dec frame =
     (case dec (fr_payload frame) of Inl e \<Rightarrow> Inl (Err (Deserialization e)) | Inr m \<Rightarrow> Inr m)"

definition encode_frame_payload :: "('m \<Rightarrow> string + bytes) \<Rightarrow> 'm \<Rightarrow> bytes result" where
  "encode_frame_payload enc msg =
     (case enc msg of Inl e \<Rightarrow> Inl (Err (Serialization e)) | Inr buf \<Rightarrow> Inr buf)"

definition is_control_frame :: "FrameType \<Rightarrow> bool" where
  "is_control_frame frame_type \<longleftrightarrow> frame_type \<in>
     {FT_SessionOpen, FT_SessionOpenAck, FT_SessionClose, FT_SessionCloseAck,
      FT_Keepalive, FT_KeepaliveAck, FT_CapabilityNegotiate, FT_CapabilityAck,
      FT_AuthChallenge, FT_AuthResponse, FT_AuthSuccess, FT_AuthFailure, FT_AuthKeyConfirm,
      FT_ChannelOpen, FT_ChannelOpenAck, FT_ChannelClose, FT_ChannelCloseAck, FT_FlowControl,
      FT_ServiceRegister, FT_ServiceUnregister, FT_ServiceDiscover, FT_ServiceDiscoverResp,
      FT_Error}"

definition is_data_frame :: "FrameType \<Rightarrow> bool" where
  "is_data_frame frame_type \<longleftrightarrow> frame_type \<in> {FT_Data, FT_DataFragment, FT_DataEnd}"

definition requires_ack :: "FrameType \<Rightarrow> bool" where
  "requires_ack frame_type \<longleftrightarrow> is_control_frame frame_type \<or> frame_type = FT_Data"

text \<open>
  The two classes are disjoint, and the generic type \<open>Control\<close> is in neither of them.
\<close>

lemma frame_classes_disjoint: "is_control_frame t \<Longrightarrow> \<not> is_data_frame t"
  by (auto simp: is_control_frame_def is_data_frame_def)

lemma unclassified_frame: "\<not> is_control_frame t \<and> \<not> is_data_frame t \<longleftrightarrow> t = FT_Control"
  by (cases t) (simp_all add: is_control_frame_def is_data_frame_def)

lemma payload_roundtrip:
  "(\<And>m b. enc m = Inr b \<Longrightarrow> dec b = Inr m) \<Longrightarrow> encode_frame_payload enc m = Inr (fr_payload f) \<Longrightarrow>
     decode_frame_payload dec f = Inr m"
  by (auto simp: encode_frame_payload_def decode_frame_payload_def split: sum.splits)

subsection \<open>Incremental decoders and the loop over them\<close>

text \<open>
  What the loop relies on: bytes that arrive later change neither what was decoded nor
  which error was found, asking for more changes nothing, and every delivery consumes input.
\<close>

locale incremental_decoder =
  fixes step :: "'s \<Rightarrow> 'b list \<Rightarrow> 'a option result \<times> 's \<times> 'b list"
  assumes extend: "step s buf = (Inr (Some a), s', rest) \<Longrightarrow>
      step s (buf @ data) = (Inr (Some a), s', rest @ data)"
    and extend_error: "step s buf = (Inl e, s', rest) \<Longrightarrow> step s (buf @ data) = (Inl e, s', rest @ data)"
    and wait: "step s buf = (Inr None, s', rest) \<Longrightarrow> s' = s \<and> rest = buf"
    and progress: "step s buf = (Inr (Some a), s', rest) \<Longrightarrow> length rest < length buf"
begin

lemma no_output_from_nothing: "step s [] \<noteq> (Inr (Some a), s', rest)"
  using progress by fastforce

end

locale draining_loop = incremental_decoder step
  for step :: "'s \<Rightarrow> 'b list \<Rightarrow> 'a option result \<times> 's \<times> 'b list" +
  fixes emit :: "'a \<Rightarrow> 'c list"
    and loop :: "'s \<Rightarrow> 'b list \<Rightarrow> 'c list result \<times> 's \<times> 'b list"
  assumes unfold: "loop s buf =
    (case step s buf of
       (Inl e, s', buf') \<Rightarrow> (Inl e, s', buf')
     | (Inr None, s', buf') \<Rightarrow> (Inr [], s', buf')
     | (Inr (Some a), s', buf') \<Rightarrow>
         (case loop s' buf' of (r, s'', buf'') \<Rightarrow> (bindR r (\<lambda>cs. Inr (emit a @ cs)), s'', buf'')))"
begin

lemma loop_stop: "step s buf = (Inr None, s', rest) \<Longrightarrow> loop s buf = (Inr [], s, buf)"
  using unfold [of s buf] wait [of s buf] by simp

lemma loop_fail: "step s buf = (Inl e, s', rest) \<Longrightarrow> loop s buf = (Inl e, s', rest)"
  using unfold [of s buf] by simp

lemma loop_next:
  "step s buf = (Inr (Some a), s', rest) \<Longrightarrow>
     loop s buf = (case loop s' rest of (r, s'', buf'') \<Rightarrow> (bindR r (\<lambda>cs. Inr (emit a @ cs)), s'', buf''))"
  using unfold [of s buf] by simp

lemma loop_append:
  "loop s buf = (Inr cs, s', rest) \<Longrightarrow>
     loop s (buf @ data) =
       (case loop s' (rest @ data) of (r, s'', rest') \<Rightarrow> (bindR r (\<lambda>ds. Inr (cs @ ds)), s'', rest'))"
proof (induction "length buf" arbitrary: s buf cs rule: less_induct)
  case less
  obtain r t b where st: "step s buf = (r, t, b)"
    by (cases "step s buf")
  show ?case
  proof (cases r)
    case (Inl e)
    then show ?thesis
      using less.prems loop_fail [of s buf] st by simp
  next
    case (Inr v)
    show ?thesis
    proof (cases v)
      case None
      then show ?thesis
        using less.prems loop_stop [of s buf] st Inr by (simp add: bindR_def split: prod.splits sum.splits)
    next
      case (Some a)
      have st: "step s buf = (Inr (Some a), t, b)"
        using st Inr Some by simp
      obtain ds where ds: "loop t b = (Inr ds, s', rest)" "cs = emit a @ ds"
        using less.prems loop_next [OF st]
        by (auto simp: bindR_Inr_iff split: prod.splits)
      show ?thesis
        using less.hyps [OF progress [OF st] ds(1)] loop_next [OF extend [OF st, of data]] ds(2)
        by (auto simp: bindR_def split: prod.splits sum.splits)
    qed
  qed
qed

lemma loop_append_error:
  "loop s buf = (Inl e, s', rest) \<Longrightarrow> loop s (buf @ data) = (Inl e, s', rest @ data)"
proof (induction "length buf" arbitrary: s buf rule: less_induct)
  case less
  obtain r t b where st: "step s buf = (r, t, b)"
    by (cases "step s buf")
  consider (fail) e where "r = Inl e" | (stop) "r = Inr None" | (nxt) a where "r = Inr (Some a)"
    by (cases r) auto
  then show ?case
  proof cases
    case fail
    then show ?thesis
      using less.prems loop_fail [of s buf] loop_fail [OF extend_error] st by simp
  next
    case stop
    then show ?thesis
      using less.prems loop_stop [of s buf] st by simp
  next
    case nxt
    then have st: "step s buf = (Inr (Some a), t, b)"
      using st by simp
    have "loop t b = (Inl e, s', rest)"
      using less.prems loop_next [OF st] by (auto simp: bindR_Inl_iff split: prod.splits)
    from less.hyps [OF progress [OF st] this] show ?thesis
      using loop_next [OF extend [OF st, of data]] by simp
  qed
qed

text \<open>A loop that succeeded has used up everything it could: running it again does nothing.\<close>

lemma loop_exhausts: "loop s buf = (Inr cs, s', rest) \<Longrightarrow> loop s' rest = (Inr [], s', rest)"
proof (induction "length buf" arbitrary: s buf cs rule: less_induct)
  case less
  obtain r t b where st: "step s buf = (r, t, b)"
    by (cases "step s buf")
  consider (fail) e where "r = Inl e" | (stop) "r = Inr None" | (nxt) a where "r = Inr (Some a)"
    by (cases r) auto
  then show ?case
  proof cases
    case fail
    then show ?thesis
      using less.prems loop_fail [of s buf] st by simp
  next
    case stop
    then show ?thesis
      using less.prems loop_stop [of s buf] st by simp
  next
    case nxt
    then have st: "step s buf = (Inr (Some a), t, b)"
      using st by simp
    obtain ds where "loop t b = (Inr ds, s', rest)"
      using less.prems loop_next [OF st] by (auto simp: bindR_Inr_iff split: prod.splits)
    then show ?thesis
      by (rule less.hyps [OF progress [OF st]])
  qed
qed

text \<open>An invariant of the states that every step keeps is kept by the loop, whatever its outcome.\<close>

lemma loop_invariant:
  assumes step_inv: "\<And>s buf r s' rest. I s \<Longrightarrow> step s buf = (r, s', rest) \<Longrightarrow> I s' \<and> (\<forall>e. r = Inl e \<longrightarrow> E e)"
  shows "I s \<Longrightarrow> loop s buf = (r, s', rest) \<Longrightarrow> I s' \<and> (\<forall>e. r = Inl e \<longrightarrow> E e)"
proof (induction "length buf" arbitrary: s buf r rule: less_induct)
  case less
  obtain q t b where st: "step s buf = (q, t, b)"
    by (cases "step s buf")
  note inv = step_inv [OF less.prems(1) st]
  consider (fail) e where "q = Inl e" | (stop) "q = Inr None" | (nxt) a where "q = Inr (Some a)"
    by (cases q) auto
  then show ?case
  proof cases
    case fail
    then show ?thesis
      using less.prems loop_fail [of s buf] st inv by auto
  next
    case stop
    then show ?thesis
      using less.prems loop_stop [of s buf] st inv by auto
  next
    case nxt
    then have st: "step s buf = (Inr (Some a), t, b)"
      using st by simp
    obtain q' where q: "loop t b = (q', s', rest)" "r = bindR q' (\<lambda>cs. Inr (emit a @ cs))"
      using less.prems loop_next [OF st] by (auto split: prod.splits)
    have "I s' \<and> (\<forall>e. q' = Inl e \<longrightarrow> E e)"
      using inv by (intro less.hyps [OF progress [OF st] _ q(1)]) simp
    then show ?thesis
      by (simp add: q(2) bindR_Inl_iff)
  qed
qed

end

lemma decode_extend_error:
  assumes "decode crc fc buf = (Inl e, fc', rest)"
  shows "decode crc fc (buf @ data) = (Inl e, fc', rest @ data)"
proof -
  have "46 \<le> length buf"
    using assms by (auto simp: decode_def MIN_FRAME_SIZE_def split: if_splits)
  then show ?thesis
    using assms
    by (auto simp: decode_def MIN_FRAME_SIZE_def Let_def slice_append_left nth_append
        calculate_header_crc_raw_def split: if_splits option.splits)
qed

interpretation wire: incremental_decoder "decode crc" for crc
  by unfold_locales (auto dest: decode_extend decode_NoneD decode_progress decode_extend_error)

interpretation receiving: draining_loop "receive_step crc" pushed "decode_loop crc" for crc
proof unfold_locales
  show "receive_step crc s (buf @ data) = (Inr (Some a), s', rest @ data)"
    if "receive_step crc s buf = (Inr (Some a), s', rest)" for s buf a s' rest data
    using that by (auto simp: receive_step_Some dest: wire.extend)
  show "receive_step crc s (buf @ data) = (Inl e, s', rest @ data)"
    if step: "receive_step crc s buf = (Inl e, s', rest)" for s buf e s' rest data
  proof (cases "\<exists>e'. fst (decode crc s buf) = Inl e'")
    case True
    then show ?thesis
      using step wire.extend_error [of crc s buf e s' rest data]
      by (auto simp: receive_step_def split: prod.splits sum.splits option.splits)
  next
    case False
    then obtain f fc1 where "decode crc s buf = (Inr (Some f), fc1, rest)"
        "reassemble_fragment fc1 f = (Inl e, s')"
      using step by (auto simp: receive_step_def split: prod.splits sum.splits option.splits)
    then show ?thesis
      by (simp add: receive_step_def wire.extend)
  qed
  show "s' = s \<and> rest = buf" if "receive_step crc s buf = (Inr None, s', rest)" for s buf s' rest
    using that by (auto simp: receive_step_None dest: wire.wait)
  show "length rest < length buf" if "receive_step crc s buf = (Inr (Some a), s', rest)" for s buf a s' rest
    using that by (auto simp: receive_step_Some dest: wire.progress)
qed (rule decode_loop.simps)

subsection \<open>Robustness: arbitrary input\<close>

text \<open>Every buffered fragment names its channel, so looking for a channel cannot panic.\<close>

definition fragments_ok :: "FrameCodec \<Rightarrow> bool" where
  "fragments_ok fc \<longleftrightarrow> (\<forall>p \<in> set (fc_rx_fragments fc). fh_channel_id (frag_header p) \<noteq> None)"

definition receive_error :: "failure \<Rightarrow> bool" where
  "receive_error e \<longleftrightarrow>
     (\<exists>m. e = Err (InvalidMagic MAGIC_NUMBER m) \<and> m \<noteq> MAGIC_NUMBER) \<or>
     (\<exists>t. e = Err (UnknownFrameType t) \<and> FrameType_try_from (ucast t) = None) \<or>
     (\<exists>k c. e = Err (ChecksumMismatch k c) \<and> k \<noteq> c) \<or> (\<exists>q. e = Err (ReplayDetected q))"

lemma fragment_position_ok:
  "\<forall>p \<in> set ps. fh_channel_id (frag_header p) \<noteq> None \<Longrightarrow>
     \<exists>r. fragment_position ch ps = Inr r \<and> (\<forall>i. r = Some i \<longrightarrow> i < length ps)"
proof (induction ps)
  case Nil
  then show ?case by simp
next
  case (Cons p ps)
  then obtain r where r: "fragment_position ch ps = Inr r" "\<forall>i. r = Some i \<longrightarrow> i < length ps"
    by auto
  from Cons.prems obtain c where "fh_channel_id (frag_header p) = Some c"
    by auto
  with r show ?case
    by auto
qed

definition fragments_all :: "(FrameFragment \<Rightarrow> bool) \<Rightarrow> FrameFragment list \<Rightarrow> bool" where
  "fragments_all P ps \<longleftrightarrow> (\<forall>p \<in> set ps. P p)"

lemma fragments_ok_iff:
  "fragments_ok fc \<longleftrightarrow> fragments_all (\<lambda>p. fh_channel_id (frag_header p) \<noteq> None) (fc_rx_fragments fc)"
  by (simp add: fragments_ok_def fragments_all_def)

lemma fragments_all_update: "fragments_all P ps \<Longrightarrow> P p \<Longrightarrow> fragments_all P (ps[i := p])"
  by (auto simp: fragments_all_def dest!: set_update_subset_insert [THEN subsetD])

lemma fragments_all_remove: "fragments_all P ps \<Longrightarrow> fragments_all P (remove_at i ps)"
  by (auto simp: fragments_all_def remove_at_def dest: in_set_takeD in_set_dropD)

lemma fragments_ok_rx [simp]: "fragments_ok (fc\<lparr>fc_rx_sequence := s\<rparr>) = fragments_ok fc"
  by (simp add: fragments_ok_def)

lemma reassemble_ok:
  assumes "fragments_ok fc" "wf_frame crc f"
  shows "\<exists>r fc'. reassemble_fragment fc f = (Inr r, fc') \<and> fragments_ok fc' \<and>
    fc_rx_sequence fc' = fc_rx_sequence fc \<and> fc_tx_sequence fc' = fc_tx_sequence fc"
proof -
  obtain fl ch sq where opts: "fh_flags (fr_header f) = Some fl" "fh_channel_id (fr_header f) = Some ch"
    "fh_sequence (fr_header f) = Some sq"
    using assms(2) by (auto simp: wf_frame_def wf_header_def)
  obtain r where r: "fragment_position (chid_value ch) (fc_rx_fragments fc) = Inr r"
    "\<forall>i. r = Some i \<longrightarrow> i < length (fc_rx_fragments fc)"
    using fragment_position_ok assms(1) by (metis fragments_ok_def)
  show ?thesis
  proof (cases r)
    case None
    then show ?thesis
      using opts r assms(1) by (auto simp: reassemble_fragment_def fragments_ok_def)
  next
    case (Some i)
    let ?p = "fc_rx_fragments fc ! i"
    have "?p \<in> set (fc_rx_fragments fc)"
      using r(2) Some by simp
    then have "fh_channel_id (frag_header ?p) \<noteq> None"
      using assms(1) by (auto simp: fragments_ok_def)
    then have upd: "fragments_all (\<lambda>p. fh_channel_id (frag_header p) \<noteq> None)
        ((fc_rx_fragments fc)[i := ?p\<lparr>frag_payload := pay\<rparr>])" for pay
      using assms(1) by (intro fragments_all_update) (simp_all add: fragments_ok_iff)
    show ?thesis
    proof (cases "ff_is_fragment fl")
      case True
      then show ?thesis
        using opts r(1) Some upd
        by (cases "ff_is_last_fragment fl")
          (simp_all add: reassemble_fragment_def fragments_ok_iff Let_def fragments_all_remove)
    next
      case False
      then show ?thesis
        using opts assms(1) by (simp add: reassemble_fragment_def)
    qed
  qed
qed

lemma decode_error:
  "decode crc fc buf = (Inl e, fc', rest) \<Longrightarrow> receive_error e \<and> fc' = fc"
  by (auto simp: decode_def receive_error_def Let_def split: if_splits option.splits)

lemma receive_step_ok:
  assumes "fragments_ok fc" "receive_step crc fc buf = (r, fc', rest)"
  shows "fragments_ok fc' \<and> fc_rx_sequence fc \<le> fc_rx_sequence fc' \<and>
    fc_tx_sequence fc' = fc_tx_sequence fc \<and> (\<forall>e. r = Inl e \<longrightarrow> receive_error e)"
proof -
  obtain q fc1 b where d: "decode crc fc buf = (q, fc1, b)"
    by (cases "decode crc fc buf")
  consider (fail) e where "q = Inl e" | (stop) "q = Inr None" | (nxt) f where "q = Inr (Some f)"
    by (cases q) auto
  then show ?thesis
  proof cases
    case fail
    then show ?thesis
      using assms decode_error [of crc fc buf e fc1 b] d by (auto simp: receive_step_def)
  next
    case stop
    then show ?thesis
      using assms wire.wait [of crc fc buf fc1 b] d by (auto simp: receive_step_def)
  next
    case nxt
    then have D: "wf_frame crc f" "fc_rx_sequence fc \<le> frame_sequence f"
      "fc1 = fc\<lparr>fc_rx_sequence := frame_sequence f\<rparr>"
      using decode_SomeD [of crc fc buf f fc1 b] d by auto
    obtain w fc2 where "reassemble_fragment fc1 f = (Inr w, fc2)" "fragments_ok fc2"
      "fc_rx_sequence fc2 = fc_rx_sequence fc1" "fc_tx_sequence fc2 = fc_tx_sequence fc1"
      using reassemble_ok [OF _ D(1), of fc1] assms(1) D(3) by auto
    then show ?thesis
      using assms(2) d nxt D by (auto simp: receive_step_def)
  qed
qed

lemma decode_loop_ok:
  assumes "fragments_ok fc" "decode_loop crc fc buf = (r, fc', rest)"
  shows "fragments_ok fc' \<and> fc_rx_sequence fc \<le> fc_rx_sequence fc' \<and>
    fc_tx_sequence fc' = fc_tx_sequence fc \<and> (\<forall>e. r = Inl e \<longrightarrow> receive_error e)"
  using receiving.loop_invariant
    [where I = "\<lambda>s. fragments_ok s \<and> fc_rx_sequence fc \<le> fc_rx_sequence s \<and>
        fc_tx_sequence s = fc_tx_sequence fc" and E = receive_error, OF _ _ assms(2)]
    receive_step_ok assms(1)
  by (smt (verit) order.refl order.trans)

subsection \<open>A stream in pieces\<close>

text \<open>Handing the receiver one piece of the stream after another, until the first error.\<close>

primrec feed :: "(bytes \<Rightarrow> u32) \<Rightarrow> ProtocolCodec \<Rightarrow> bytes list \<Rightarrow> Frame list result \<times> ProtocolCodec" where
  "feed crc codec [] = (Inr [], codec)"
| "feed crc codec (d # ds) =
     (case ProtocolCodec_decode crc codec d of
        (Inl e, codec') \<Rightarrow> (Inl e, codec')
      | (Inr fs, codec') \<Rightarrow>
          (case feed crc codec' ds of
             (r, codec'') \<Rightarrow> (bindR r (\<lambda>gs. Inr (fs @ gs)), codec'')))"

text \<open>The pieces that are not handed over any more, because an earlier one gave an error.\<close>

primrec left_over :: "(bytes \<Rightarrow> u32) \<Rightarrow> ProtocolCodec \<Rightarrow> bytes list \<Rightarrow> bytes list" where
  "left_over crc codec [] = []"
| "left_over crc codec (d # ds) =
     (case ProtocolCodec_decode crc codec d of
        (Inl e, codec') \<Rightarrow> ds
      | (Inr fs, codec') \<Rightarrow> left_over crc codec' ds)"

lemma left_over_success: "fst (feed crc codec ds) = Inr fs \<Longrightarrow> left_over crc codec ds = []"
  by (induction ds arbitrary: codec fs) (auto simp: bindR_Inr_iff split: prod.splits sum.splits)

lemma ProtocolCodec_decode_append:
  "ProtocolCodec_decode crc codec d = (Inr fs, codec') \<Longrightarrow>
     ProtocolCodec_decode crc codec (d @ data) =
       (case ProtocolCodec_decode crc codec' data of
          (r, codec'') \<Rightarrow> (bindR r (\<lambda>gs. Inr (fs @ gs)), codec''))"
  using receiving.loop_append [of crc "pc_frame_codec codec" "pc_rx_buffer codec @ d" fs _ _ data]
  by (auto simp: ProtocolCodec_decode_def split: prod.splits)

lemma ProtocolCodec_decode_append_error:
  "ProtocolCodec_decode crc codec d = (Inl e, codec') \<Longrightarrow>
     ProtocolCodec_decode crc codec (d @ data) =
       (Inl e, codec'\<lparr>pc_rx_buffer := pc_rx_buffer codec' @ data\<rparr>)"
  using receiving.loop_append_error [of crc "pc_frame_codec codec" "pc_rx_buffer codec @ d" e _ _ data]
  by (auto simp: ProtocolCodec_decode_def split: prod.splits)

lemma feed_concat:
  "ProtocolCodec_decode crc codec (d @ concat ds) =
     (case feed crc codec (d # ds) of
        (r, c) \<Rightarrow> (r, c\<lparr>pc_rx_buffer := pc_rx_buffer c @ concat (left_over crc codec (d # ds))\<rparr>))"
proof (induction ds arbitrary: codec d)
  case Nil
  then show ?case
    by (simp add: bindR_def split: prod.splits sum.splits)
next
  case (Cons d' ds)
  obtain r codec' where d: "ProtocolCodec_decode crc codec d = (r, codec')"
    by (cases "ProtocolCodec_decode crc codec d")
  show ?case
  proof (cases r)
    case (Inl e)
    then show ?thesis
      using d ProtocolCodec_decode_append_error [of crc codec d e codec' "d' @ concat ds"] by simp
  next
    case (Inr gs)
    obtain q c where "feed crc codec' (d' # ds) = (q, c)"
      by fastforce
    then show ?thesis
      using Cons.IH [of codec' d'] d Inr ProtocolCodec_decode_append [of crc codec d gs codec' "d' @ concat ds"]
      by (simp del: feed.simps(2) left_over.simps(2) add: feed.simps(2) [of _ codec] left_over.simps(2) [of _ codec])
  qed
qed

lemma feed_success:
  assumes "ProtocolCodec_decode crc codec (concat (d # ds)) = (Inr fs, codec')"
  shows "feed crc codec (d # ds) = (Inr fs, codec')"
proof -
  obtain r c where f: "feed crc codec (d # ds) = (r, c)"
    by (rule prod.exhaust)
  then have "r = Inr fs"
    using assms feed_concat [of crc codec d ds] by simp
  then show ?thesis
    using assms feed_concat [of crc codec d ds] left_over_success [of crc codec "d # ds" fs] f
    by (simp del: feed.simps left_over.simps)
qed

lemma ProtocolCodec_decode_ok:
  "fragments_ok (pc_frame_codec codec) \<Longrightarrow> ProtocolCodec_decode crc codec d = (r, codec') \<Longrightarrow>
     fragments_ok (pc_frame_codec codec') \<and>
     ProtocolCodec_rx_sequence codec \<le> ProtocolCodec_rx_sequence codec' \<and>
     (\<forall>e. r = Inl e \<longrightarrow> receive_error e)"
  using decode_loop_ok [of "pc_frame_codec codec" crc "pc_rx_buffer codec @ d"]
  by (auto simp: ProtocolCodec_decode_def ProtocolCodec_rx_sequence_def split: prod.splits)

text \<open>
  Whatever is called on a codec, in any order and after any result: \<open>codec_run\<close> gives what the calls of
  \<open>decode\<close> returned. An encoder is \<open>encode_built\<close> with the builder of its message.
\<close>

datatype codec_call =
    Decode_call bytes
  | Encode_call "u64 \<Rightarrow> Frame result"
  | Reset_call
  | Set_rx_call u64

primrec codec_run ::
  "(bytes \<Rightarrow> u32) \<Rightarrow> codec_call list \<Rightarrow> ProtocolCodec \<Rightarrow> Frame list result list \<times> ProtocolCodec" where
  "codec_run crc [] codec = ([], codec)"
| "codec_run crc (call # calls) codec =
     (case call of
        Decode_call data \<Rightarrow>
          (case ProtocolCodec_decode crc codec data of
             (r, codec) \<Rightarrow> (case codec_run crc calls codec of (rs, codec) \<Rightarrow> (r # rs, codec)))
      | Encode_call build \<Rightarrow> codec_run crc calls (snd (encode_built crc codec build))
      | Reset_call \<Rightarrow> codec_run crc calls (ProtocolCodec_reset codec)
      | Set_rx_call s \<Rightarrow> codec_run crc calls (set_rx_sequence codec s))"

lemma encode_built_fragments:
  "fc_rx_fragments (pc_frame_codec (snd (encode_built crc codec build))) = fc_rx_fragments (pc_frame_codec codec)"
  by (simp add: encode_built_def next_tx_sequence_def encode_def Let_def split: sum.split)

lemma codec_run_ok:
  "fragments_ok (pc_frame_codec codec) \<Longrightarrow> codec_run crc calls codec = (rs, codec') \<Longrightarrow>
     fragments_ok (pc_frame_codec codec') \<and>
     (\<forall>r \<in> set rs. case r of Inl e \<Rightarrow> receive_error e | Inr frames \<Rightarrow> True)"
proof (induction calls arbitrary: codec rs)
  case Nil
  then show ?case by simp
next
  case (Cons call calls)
  show ?case
  proof (cases call)
    case (Decode_call data)
    obtain r c where d: "ProtocolCodec_decode crc codec data = (r, c)"
      by (rule prod.exhaust)
    moreover obtain rs' where "codec_run crc calls c = (rs', codec')" "rs = r # rs'"
      using Cons.prems(2) Decode_call d by (auto split: prod.splits)
    ultimately show ?thesis
      using ProtocolCodec_decode_ok [OF Cons.prems(1) d] Cons.IH [of c rs'] by (simp split: sum.split)
  next
    case (Encode_call build)
    have "fragments_ok (pc_frame_codec (snd (encode_built crc codec build)))"
      using Cons.prems(1) by (simp add: fragments_ok_def encode_built_fragments)
    then show ?thesis
      using Cons.IH Cons.prems(2) Encode_call by simp
  next
    case Reset_call
    have "fragments_ok (pc_frame_codec (ProtocolCodec_reset codec))"
      using Cons.prems(1) by (simp add: fragments_ok_def ProtocolCodec_reset_def reset_sequences_def)
    then show ?thesis
      using Cons.IH Cons.prems(2) Reset_call by simp
  next
    case (Set_rx_call s)
    have "fragments_ok (pc_frame_codec (set_rx_sequence codec s))"
      using Cons.prems(1) by (simp add: fragments_ok_def set_rx_sequence_def)
    then show ?thesis
      using Cons.IH Cons.prems(2) Set_rx_call by simp
  qed
qed

subsection \<open>A stream of encoded frames\<close>

text \<open>The sender encodes one frame after another; \<open>stamp_all\<close> is what they look like on the wire.\<close>

primrec encode_all :: "(bytes \<Rightarrow> u32) \<Rightarrow> FrameCodec \<Rightarrow> Frame list \<Rightarrow> bytes list result \<times> FrameCodec" where
  "encode_all crc fc [] = (Inr [], fc)"
| "encode_all crc fc (f # fs) =
     (case encode crc fc f of
        (Inl e, fc') \<Rightarrow> (Inl e, fc')
      | (Inr bs, fc') \<Rightarrow>
          (case encode_all crc fc' fs of (r, fc'') \<Rightarrow> (bindR r (\<lambda>bss. Inr (bs # bss)), fc'')))"

primrec stamp_all :: "(bytes \<Rightarrow> u32) \<Rightarrow> u64 \<Rightarrow> Frame list \<Rightarrow> Frame list" where
  "stamp_all crc tx [] = []"
| "stamp_all crc tx (f # fs) = stamp crc tx f # stamp_all crc (tx + 1) fs"

definition whole_frame :: "Frame \<Rightarrow> bool" where
  "whole_frame f \<longleftrightarrow> sendable f \<and> length (fr_auth_tag f) = 16 \<and>
     (\<forall>flags. fh_flags (fr_header f) = Some flags \<longrightarrow> \<not> ff_is_fragment flags)"

lemma encode_all_sendable:
  "\<forall>f \<in> set fs. sendable f \<Longrightarrow>
     encode_all crc fc fs =
       (Inr (map frame_bytes (stamp_all crc (fc_tx_sequence fc) fs)),
        fc\<lparr>fc_tx_sequence := fc_tx_sequence fc + of_nat (length fs)\<rparr>)"
  by (induction fs arbitrary: fc) (simp_all add: encode_sendable add.assoc)

lemma stamp_flags: "fh_flags (fr_header (stamp crc s f)) =
    map_option (\<lambda>x. x\<lparr>ff_retransmission := False\<rparr>) (fh_flags (fr_header f))"
  by (simp add: stamp_def Let_def)

lemma reassemble_stamped:
  "whole_frame f \<Longrightarrow> reassemble_fragment fc (stamp crc s f) = (Inr (Some (stamp crc s f)), fc)"
  by (auto simp: whole_frame_def sendable_def stamp_flags intro!: reassemble_unfragmented)

lemma receive_step_stamped:
  "whole_frame f \<Longrightarrow> fc_rx_sequence fc \<le> s \<Longrightarrow>
     receive_step crc fc (frame_bytes (stamp crc s f) @ rest) =
       (Inr (Some (Some (stamp crc s f))), fc\<lparr>fc_rx_sequence := s\<rparr>, rest)"
  using wf_stamp [of f crc s]
  by (auto simp: receive_step_def decode_frame_bytes reassemble_stamped whole_frame_def [of f]
      reassemble_stamped [unfolded whole_frame_def])

lemma receive_step_Nil: "receive_step crc fc [] = (Inr None, fc, [])"
  by (simp add: receive_step_def decode_def MIN_FRAME_SIZE_def)

lemma decode_loop_stream:
  "\<forall>f \<in> set fs. whole_frame f \<Longrightarrow> fc_rx_sequence fc \<le> tx \<Longrightarrow> unat tx + length fs \<le> 2 ^ 64 \<Longrightarrow>
     \<exists>fc'. decode_loop crc fc (concat (map frame_bytes (stamp_all crc tx fs))) =
       (Inr (stamp_all crc tx fs), fc', [])"
proof (induction fs arbitrary: fc tx)
  case Nil
  then show ?case
    by (simp add: receiving.loop_stop [OF receive_step_Nil])
next
  case (Cons f fs)
  let ?fc = "fc\<lparr>fc_rx_sequence := tx\<rparr>" and ?rest = "concat (map frame_bytes (stamp_all crc (tx + 1) fs))"
  have step: "receive_step crc fc (frame_bytes (stamp crc tx f) @ ?rest) =
      (Inr (Some (Some (stamp crc tx f))), ?fc, ?rest)"
    using Cons.prems by (simp add: receive_step_stamped)
  have "\<exists>fc'. decode_loop crc ?fc ?rest = (Inr (stamp_all crc (tx + 1) fs), fc', [])"
  proof (cases fs)
    case Nil
    then show ?thesis
      by (simp add: receiving.loop_stop [OF receive_step_Nil])
  next
    case (Cons g gs)
    then have "unat (tx + 1) = unat tx + 1"
      using Cons.prems(3) unat_plus_no_overflow [of tx 1] by simp
    with Cons.prems Cons.IH [of ?fc "tx + 1"] show ?thesis
      by (simp add: word_le_nat_alt)
  qed
  then show ?case
    by (auto simp: receiving.loop_next [OF step] pushed_def)
qed

subsection \<open>A wrong magic number\<close>

text \<open>A receiver with other bytes than the magic number at the front of its buffer delivers nothing any more.\<close>

definition stuck :: "ProtocolCodec \<Rightarrow> bool" where
  "stuck codec \<longleftrightarrow> 4 \<le> length (pc_rx_buffer codec) \<and>
     from_le (slice 0 4 (pc_rx_buffer codec)) \<noteq> MAGIC_NUMBER"

lemma decode_wrong_magic:
  "46 \<le> length buf \<Longrightarrow> from_le (slice 0 4 buf) \<noteq> MAGIC_NUMBER \<Longrightarrow>
     decode crc fc buf = (Inl (Err (InvalidMagic MAGIC_NUMBER (from_le (slice 0 4 buf)))), fc, buf)"
  by (simp add: decode_def MIN_FRAME_SIZE_def Let_def)

lemma stuck_loop:
  assumes "stuck codec"
  shows "decode_loop crc (pc_frame_codec codec) (pc_rx_buffer codec @ data) =
      (if length (pc_rx_buffer codec @ data) < 46 then Inr []
       else Inl (Err (InvalidMagic MAGIC_NUMBER (from_le (slice 0 4 (pc_rx_buffer codec))))),
       pc_frame_codec codec, pc_rx_buffer codec @ data)"
proof -
  let ?buf = "pc_rx_buffer codec @ data" and ?fc = "pc_frame_codec codec"
  have front: "slice 0 4 ?buf = slice 0 4 (pc_rx_buffer codec)"
    using assms by (simp add: stuck_def slice_append_left)
  show ?thesis
  proof (cases "length ?buf < 46")
    case True
    then have "receive_step crc ?fc ?buf = (Inr None, ?fc, ?buf)"
      by (simp add: receive_step_def decode_def MIN_FRAME_SIZE_def)
    with True show ?thesis
      by (simp add: receiving.loop_stop)
  next
    case False
    then have "receive_step crc ?fc ?buf =
        (Inl (Err (InvalidMagic MAGIC_NUMBER (from_le (slice 0 4 (pc_rx_buffer codec))))), ?fc, ?buf)"
      using assms front by (simp add: receive_step_def decode_wrong_magic stuck_def)
    with False show ?thesis
      by (simp add: receiving.loop_fail)
  qed
qed

lemma stuck_append: "stuck codec \<Longrightarrow> stuck (codec\<lparr>pc_rx_buffer := pc_rx_buffer codec @ data\<rparr>)"
  by (simp add: stuck_def slice_append_left)

lemma stuck_step:
  "stuck codec \<Longrightarrow> ProtocolCodec_decode crc codec data =
     (if length (pc_rx_buffer codec @ data) < 46 then Inr []
      else Inl (Err (InvalidMagic MAGIC_NUMBER (from_le (slice 0 4 (pc_rx_buffer codec))))),
      codec\<lparr>pc_rx_buffer := pc_rx_buffer codec @ data\<rparr>)"
  by (simp add: ProtocolCodec_decode_def stuck_loop)

text \<open>Every later call, whatever it is given.\<close>

primrec decode_calls :: "(bytes \<Rightarrow> u32) \<Rightarrow> ProtocolCodec \<Rightarrow> bytes list \<Rightarrow> Frame list result list" where
  "decode_calls crc codec [] = []"
| "decode_calls crc codec (d # ds) =
     (case ProtocolCodec_decode crc codec d of (r, codec') \<Rightarrow> r # decode_calls crc codec' ds)"

lemma stuck_calls:
  "stuck codec \<Longrightarrow> decode_calls crc codec ds =
     map (\<lambda>i. if length (pc_rx_buffer codec) + length (concat (take (Suc i) ds)) < 46 then Inr []
        else Inl (Err (InvalidMagic MAGIC_NUMBER (from_le (slice 0 4 (pc_rx_buffer codec)))))) [0..<length ds]"
proof (induction ds arbitrary: codec)
  case Nil
  then show ?case by simp
next
  case (Cons d ds)
  have "slice 0 4 (pc_rx_buffer codec @ d) = slice 0 4 (pc_rx_buffer codec)"
    using Cons.prems by (simp add: stuck_def slice_append_left)
  then show ?case
    using Cons.IH [OF stuck_append [OF Cons.prems, of d]]
    by (simp add: stuck_step [OF Cons.prems] map_upt_Suc add.assoc del: upt_Suc cong: if_cong)
qed

lemma encode_built_control:
  assumes "encode_control_frame crc enc codec ft m ch = (Inr bs, codec')"
    and "\<And>pay. enc m = Inr pay \<Longrightarrow> length pay < 2 ^ 32"
  obtains f where "build_control_frame enc ft m ch (fc_tx_sequence (pc_frame_codec codec)) = Inr f"
    "enc m = Inr (fr_payload f)" "sendable f" "fr_auth_tag f = []"
    "\<forall>flags. fh_flags (fr_header f) = Some flags \<longrightarrow> \<not> ff_is_fragment flags"
    "bs = frame_bytes (stamp crc (fc_tx_sequence (pc_frame_codec codec) + 1) f)"
    "fc_tx_sequence (pc_frame_codec codec') = fc_tx_sequence (pc_frame_codec codec) + 2"
proof -
  let ?tx = "fc_tx_sequence (pc_frame_codec codec)"
  obtain f where f: "build_control_frame enc ft m ch ?tx = Inr f"
    using assms(1)
    by (cases "build_control_frame enc ft m ch ?tx")
      (simp_all add: encode_control_frame_def encode_built_def next_tx_sequence_def)
  have pay: "enc m = Inr (fr_payload f)" "\<forall>flags. fh_flags (fr_header f) = Some flags \<longrightarrow> \<not> ff_is_fragment flags"
    using f by (auto simp: build_control_frame_def split: sum.splits)
  have s: "sendable f" "fr_auth_tag f = []"
    using build_control_frame_sendable [OF f] assms(2) pay(1) by auto
  have "bs = frame_bytes (stamp crc (?tx + 1) f) \<and> fc_tx_sequence (pc_frame_codec codec') = ?tx + 1 + 1"
    using assms(1) s(1) f
    by (auto simp: encode_control_frame_def encode_built_def next_tx_sequence_def encode_sendable
        simp del: add_numeral_special one_add_one)
  then show thesis
    using that f pay s by (simp add: add.assoc)
qed

lemma encode_control_frame_Inr:
  assumes "enc m = Inr pay" "length pay < 2 ^ 32"
  shows "\<exists>bs codec'. encode_control_frame crc enc codec ft m ch = (Inr bs, codec') \<and>
    length bs = 30 + length pay \<and>
    fc_tx_sequence (pc_frame_codec codec') = fc_tx_sequence (pc_frame_codec codec) + 2"
proof -
  let ?tx = "fc_tx_sequence (pc_frame_codec codec)"
  obtain f where f: "build_control_frame enc ft m ch ?tx = Inr f" "fr_payload f = pay"
    using assms(1) by (simp add: build_control_frame_def)
  note s = build_control_frame_sendable [OF f(1), unfolded f(2), OF assms(2)]
  show ?thesis
    using f s by (simp add: encode_control_frame_def encode_built_def next_tx_sequence_def
        encode_sendable length_frame_bytes add.assoc)
qed

text \<open>The bytes that the next frame has where the decoder, 16 bytes too far, looks for the magic number.\<close>

lemma drop16_magic:
  "from_le (slice 0 4 (drop 16 (frame_bytes (stamp crc s f)))) = (ucast (drop_bit 16 s) :: u32)"
proof -
  let ?h = "fr_header (stamp crc s f)"
  have split: "frame_bytes (stamp crc s f) = (le_bytes 4 (fh_magic ?h) @ le_bytes 4 (fh_version ?h) @
      [ucast (fh_type ?h), pack_flags (the (fh_flags ?h))] @
      le_bytes 4 (chid_value (the (fh_channel_id ?h)))) @ le_bytes 8 s @
      (le_bytes 4 (fh_payload_length ?h) @ le_bytes 4 (fh_header_crc ?h) @ fr_payload f @ fr_auth_tag f)"
    by (simp add: frame_bytes_def header_bytes_def stamp_def Let_def)
  have "slice 0 4 (drop 16 (frame_bytes (stamp crc s f))) = slice 2 6 (le_bytes 8 s)"
    unfolding split by (simp add: slice_def)
  also have "\<dots> = le_bytes 4 (ucast (drop_bit 16 s) :: u32)"
    by (simp add: slice_def eval_nat_numeral) (intro conjI; rule bit_word_eqI; simp add: bit_simps)
  finally show ?thesis
    by (simp add: from_le_le_bytes take_bit_word_eq_self)
qed

lemma small_sequence_magic:
  assumes "unat (s :: u64) < 2 ^ 32"
  shows "(ucast (drop_bit 16 s) :: u32) \<noteq> MAGIC_NUMBER"
proof -
  have "unat (ucast (drop_bit 16 s) :: u32) < 2 ^ 16"
    using assms by (simp add: unsigned_ucast_eq unsigned_take_bit_eq unsigned_drop_bit_eq take_bit_eq_mod drop_bit_eq_div unat_div)
  then show ?thesis
    by (auto simp: MAGIC_NUMBER_def)
qed

text \<open>The receiver's first step over two control messages: the second lends its first bytes as the tag.\<close>

lemma control_swallows_next:
  assumes "encode_control_frame crc enc sender t m ch = (Inr bs, sender')"
    and "\<And>pay. enc m = Inr pay \<Longrightarrow> length pay < 2 ^ 32" "16 \<le> length next_bytes"
    and "fc_rx_sequence fc \<le> fc_tx_sequence (pc_frame_codec sender) + 1"
  obtains f where "enc m = Inr (fr_payload f)" "fr_auth_tag f = take 16 next_bytes"
    "receive_step crc fc (bs @ next_bytes) = (Inr (Some (Some f)),
       fc\<lparr>fc_rx_sequence := fc_tx_sequence (pc_frame_codec sender) + 1\<rparr>, drop 16 next_bytes)"
proof -
  let ?tx = "fc_tx_sequence (pc_frame_codec sender)"
  obtain f1 where f1: "sendable f1" "fr_auth_tag f1 = []" "bs = frame_bytes (stamp crc (?tx + 1) f1)"
    "\<forall>flags. fh_flags (fr_header f1) = Some flags \<longrightarrow> \<not> ff_is_fragment flags" "enc m = Inr (fr_payload f1)"
    by (rule encode_built_control [OF assms(1)]) (use assms(2) in blast)+
  let ?g = "f1\<lparr>fr_auth_tag := take 16 next_bytes\<rparr>"
  let ?f = "stamp crc (?tx + 1) ?g"
  have "decode crc fc (bs @ next_bytes) = (Inr (Some ?f), fc\<lparr>fc_rx_sequence := ?tx + 1\<rparr>, drop 16 next_bytes)"
    using untagged_swallows [OF f1(1,2) assms(3), of "?tx + 1" fc crc] f1(3) assms(4) by simp
  moreover have "whole_frame ?g"
    using f1 assms(3) by (simp add: whole_frame_def sendable_def)
  ultimately have "receive_step crc fc (bs @ next_bytes) =
      (Inr (Some (Some ?f)), fc\<lparr>fc_rx_sequence := ?tx + 1\<rparr>, drop 16 next_bytes)"
    by (simp add: receive_step_def reassemble_stamped)
  moreover have "fr_payload ?f = fr_payload f1" "fr_auth_tag ?f = take 16 next_bytes"
    by (simp_all add: stamp_def Let_def)
  ultimately show thesis
    using that [of ?f] f1(5) by simp
qed

subsection \<open>Properties of the message codec\<close>

text \<open>
  C18. How the transport cuts the stream does not matter: handing the receiver the pieces one after
  another, until the first error, gives the same frames, or the same error, as handing it the whole
  at once, whatever the bytes are, and leaves the same codec; only the pieces that come after an
  error, which are not handed over, are missing at the end of its buffer. Without an error there are
  none.
\<close>

theorem stream_chunking_independent:
  "ProtocolCodec_decode crc codec (concat (d # ds)) =
     (case feed crc codec (d # ds) of
        (r, c) \<Rightarrow> (r, c\<lparr>pc_rx_buffer := pc_rx_buffer c @ concat (left_over crc codec (d # ds))\<rparr>)) \<and>
   (fst (feed crc codec (d # ds)) = Inr fs \<longrightarrow> left_over crc codec (d # ds) = [])"
  using feed_concat [of crc codec d ds] left_over_success [of crc codec "d # ds" fs] by simp

theorem stream_chunking_independent_witness:
  "feed sum_crc ProtocolCodec_new [[1, 2], [3]] =
     (Inr [], ProtocolCodec_new\<lparr>pc_rx_buffer := [1, 2, 3]\<rparr>) \<and>
   ProtocolCodec_decode sum_crc ProtocolCodec_new [1, 2, 3] =
     (Inr [], ProtocolCodec_new\<lparr>pc_rx_buffer := [1, 2, 3]\<rparr>) \<and>
   left_over sum_crc ProtocolCodec_new [[1, 2], [3]] = []"
proof -
  have wait: "ProtocolCodec_decode sum_crc (ProtocolCodec_new\<lparr>pc_rx_buffer := xs\<rparr>) ys =
      (Inr [], ProtocolCodec_new\<lparr>pc_rx_buffer := xs @ ys\<rparr>)" if "length (xs @ ys) < 46" for xs ys :: bytes
  proof -
    have "receive_step sum_crc (pc_frame_codec ProtocolCodec_new) (xs @ ys) =
        (Inr None, pc_frame_codec ProtocolCodec_new, xs @ ys)"
      using that by (simp add: receive_step_def decode_def MIN_FRAME_SIZE_def)
    then show ?thesis
      by (simp add: ProtocolCodec_decode_def receiving.loop_stop ProtocolCodec_new_def)
  qed
  have "feed sum_crc ProtocolCodec_new [[1, 2], [3]] = (Inr [], ProtocolCodec_new\<lparr>pc_rx_buffer := [1, 2, 3]\<rparr>)"
    using wait [of "[]" "[1, 2]"] wait [of "[1, 2]" "[3]"] by (simp add: ProtocolCodec_new_def)
  then show ?thesis
    using stream_chunking_independent [of sum_crc ProtocolCodec_new "[1, 2]" "[[3]]" "[]"] by simp
qed

text \<open>What a receiver makes of the bytes of encoded frames, however they are cut.\<close>

lemma encoded_frames_received:
  assumes "\<forall>f \<in> set fs. whole_frame f" "unat (fc_tx_sequence sender) + length fs \<le> 2 ^ 64"
    and "ProtocolCodec_rx_sequence receiver \<le> fc_tx_sequence sender" "pc_rx_buffer receiver = []"
    and "encode_all crc sender fs = (Inr bss, sender')" "concat (d # ds) = concat bss"
  shows "\<exists>receiver'. feed crc receiver (d # ds) =
      (Inr (stamp_all crc (fc_tx_sequence sender) fs), receiver') \<and> pc_rx_buffer receiver' = []"
proof -
  have "\<forall>f \<in> set fs. sendable f"
    using assms(1) by (simp add: whole_frame_def)
  then have bss: "bss = map frame_bytes (stamp_all crc (fc_tx_sequence sender) fs)"
    using assms(5) by (simp add: encode_all_sendable)
  obtain fc' where "decode_loop crc (pc_frame_codec receiver) (concat bss) =
      (Inr (stamp_all crc (fc_tx_sequence sender) fs), fc', [])"
    using decode_loop_stream [OF assms(1) assms(3) [unfolded ProtocolCodec_rx_sequence_def] assms(2)]
    by (auto simp: bss)
  then have "ProtocolCodec_decode crc receiver (concat (d # ds)) =
      (Inr (stamp_all crc (fc_tx_sequence sender) fs), \<lparr>pc_frame_codec = fc', pc_rx_buffer = []\<rparr>)"
    using assms(4,6) by (simp add: ProtocolCodec_decode_def)
  then have "feed crc receiver (d # ds) =
      (Inr (stamp_all crc (fc_tx_sequence sender) fs), \<lparr>pc_frame_codec = fc', pc_rx_buffer = []\<rparr>)"
    by (rule feed_success)
  then show ?thesis
    by simp
qed

text \<open>
  C3. A stream of encoded frames comes out whole: the receiver, fed the concatenated bytes of any
  number of tagged, unfragmented frames in any pieces, delivers exactly those frames in order, with
  consecutive sequence numbers, and keeps nothing in its buffer.
\<close>

theorem stream_roundtrip:
  assumes "\<forall>f \<in> set fs. whole_frame f" "unat (fc_tx_sequence sender) + length fs \<le> 2 ^ 64"
    and "ProtocolCodec_rx_sequence receiver \<le> fc_tx_sequence sender" "pc_rx_buffer receiver = []"
    and "encode_all crc sender fs = (Inr bss, sender')" "concat (d # ds) = concat bss"
  shows "\<exists>receiver'. feed crc receiver (d # ds) =
      (Inr (stamp_all crc (fc_tx_sequence sender) fs), receiver') \<and> pc_rx_buffer receiver' = []"
  by (rule encoded_frames_received [OF assms])

lemma whole_test_frame: "whole_frame test_frame"
  by (simp add: whole_frame_def test_frame_sendable test_frame_tag)
    (simp add: test_frame_def FrameFlags_default_def)

theorem stream_roundtrip_witness:
  "\<exists>receiver'. feed sum_crc ProtocolCodec_new
      [take 7 (frame_bytes (stamp sum_crc 0 test_frame)),
       drop 7 (frame_bytes (stamp sum_crc 0 test_frame)) @ frame_bytes (stamp sum_crc 1 test_frame)] =
      (Inr (stamp_all sum_crc (fc_tx_sequence FrameCodec_default) [test_frame, test_frame]), receiver') \<and>
    pc_rx_buffer receiver' = []"
proof (rule stream_roundtrip)
  have "fc_tx_sequence FrameCodec_default = 0"
    by (simp add: FrameCodec_default_def FrameCodec_new_def)
  then show "encode_all sum_crc FrameCodec_default [test_frame, test_frame] =
      (Inr (map frame_bytes (stamp_all sum_crc 0 [test_frame, test_frame])),
       FrameCodec_default\<lparr>fc_tx_sequence := 2\<rparr>)"
    using encode_all_sendable [of "[test_frame, test_frame]" sum_crc FrameCodec_default]
    by (simp add: test_frame_sendable del: encode_all.simps)
qed (simp_all add: whole_test_frame ProtocolCodec_new_def ProtocolCodec_rx_sequence_def
    FrameCodec_default_def FrameCodec_new_def)

text \<open>
  C4. Arbitrary input is safe: whatever bytes arrive, in whatever pieces, whatever is encoded, reset
  or set on the codec in between, and however many of the calls before have failed, no call of
  \<open>decode\<close> on a codec that began as a new one panics; the only errors it returns are a wrong magic
  number, an unknown frame type, a checksum that differs and a sequence number below the last one
  accepted; and receiving never lowers the last accepted sequence number.
\<close>

theorem receive_never_panics:
  "case codec_run crc calls ProtocolCodec_new of
     (rs, codec) \<Rightarrow>
       (\<forall>r \<in> set rs. case r of Inl e \<Rightarrow> receive_error e | Inr frames \<Rightarrow> True) \<and>
       ProtocolCodec_rx_sequence codec \<le> ProtocolCodec_rx_sequence (snd (ProtocolCodec_decode crc codec data))"
proof -
  obtain rs codec where run: "codec_run crc calls ProtocolCodec_new = (rs, codec)"
    by (rule prod.exhaust)
  obtain r codec' where d: "ProtocolCodec_decode crc codec data = (r, codec')"
    by (rule prod.exhaust)
  have "fragments_ok (pc_frame_codec ProtocolCodec_new)"
    by (simp add: ProtocolCodec_new_def FrameCodec_new_def fragments_ok_def)
  note ok = codec_run_ok [OF this run]
  then show ?thesis
    using ProtocolCodec_decode_ok [OF _ d] run d by simp
qed

theorem receive_never_panics_witness:
  "\<nexists>m. Inl (Panic m) \<in> set (fst (codec_run sum_crc
     [Decode_call (replicate 60 1), Decode_call [2], Reset_call, Decode_call (replicate 50 3)] ProtocolCodec_new))"
  using receive_never_panics [where crc = sum_crc and data = "[]" and
      calls = "[Decode_call (replicate 60 1), Decode_call [2], Reset_call, Decode_call (replicate 50 3)]"]
  by (force simp: receive_error_def simp del: codec_run.simps split: prod.splits)

text \<open>
  C39. Of two control messages the second is never received. The encoder gives a control frame no tag and
  the decoder takes 16 tag bytes, so behind the first message it reads the magic number out of the
  middle of the second. While fewer than 62 bytes have followed the first message, every call
  succeeds, the first one delivering that message with the start of the second as its tag and the
  others nothing; as soon as 62 bytes have followed, the call that receives them and every later one
  returns \<open>InvalidMagic\<close> (losing the first message when it came in the same call), whatever arrives
  and however it is cut. This is for sequence numbers below \<open>2 ^ 32\<close>, where the bytes in the
  place of the magic number cannot be the magic number by chance.
\<close>

theorem control_messages_wedge_receiver:
  assumes "encode_control_frame crc enc sender t1 m1 ch1 = (Inr b1, sender1)"
    and "encode_control_frame crc enc sender1 t2 m2 ch2 = (Inr b2, sender2)"
    and "unat (fc_tx_sequence (pc_frame_codec sender)) + 3 < 2 ^ 32"
    and "\<forall>pay. enc m1 = Inr pay \<or> enc m2 = Inr pay \<longrightarrow> length pay < 2 ^ 32"
    and "pc_rx_buffer receiver = []"
    and "ProtocolCodec_rx_sequence receiver \<le> fc_tx_sequence (pc_frame_codec sender)"
  defines "bad \<equiv> Inl (Err (InvalidMagic MAGIC_NUMBER
      (ucast (drop_bit 16 (fc_tx_sequence (pc_frame_codec sender) + 3)))))"
  shows "\<exists>f. enc m1 = Inr (fr_payload f) \<and> fr_auth_tag f = take 16 b2 \<and>
    decode_calls crc receiver ((b1 @ b2) # ds) =
      (if length b2 < 62 then Inr [f] else bad) #
      map (\<lambda>i. if length b2 + length (concat (take (Suc i) ds)) < 62 then Inr [] else bad) [0..<length ds]"
proof -
  let ?tx = "fc_tx_sequence (pc_frame_codec sender)" and ?fc = "pc_frame_codec receiver" and ?rest = "drop 16 b2"
  have tx1: "fc_tx_sequence (pc_frame_codec sender1) = ?tx + 2"
    by (rule encode_built_control [OF assms(1)]) (use assms(4) in blast)+
  obtain f2 where f2: "b2 = frame_bytes (stamp crc (?tx + 2 + 1) f2)"
    by (rule encode_built_control [OF assms(2)]) (use assms(4) tx1 in auto)
  have len: "30 \<le> length b2"
    by (simp add: f2 length_frame_bytes)
  have seqs: "unat (?tx + 1) = unat ?tx + 1" "unat (?tx + 3) = unat ?tx + 3"
    using assms(3) unat_plus_no_overflow [of ?tx 1] unat_plus_no_overflow [of ?tx 3] by simp_all
  have "fc_rx_sequence ?fc \<le> ?tx + 1"
    using assms(6) seqs(1) by (simp add: ProtocolCodec_rx_sequence_def word_le_nat_alt)
  from control_swallows_next [OF assms(1) _ _ this, of b2]
  obtain f where f: "enc m1 = Inr (fr_payload f)" "fr_auth_tag f = take 16 b2"
    "receive_step crc ?fc (b1 @ b2) = (Inr (Some (Some f)), ?fc\<lparr>fc_rx_sequence := ?tx + 1\<rparr>, ?rest)"
    using assms(4) len by auto
  let ?r = "\<lparr>pc_frame_codec = ?fc\<lparr>fc_rx_sequence := ?tx + 1\<rparr>, pc_rx_buffer = ?rest\<rparr>"
  have magic: "from_le (slice 0 4 ?rest) = (ucast (drop_bit 16 (?tx + 3)) :: u32)"
    using drop16_magic [of crc "?tx + 2 + 1" f2] by (simp add: f2 add.assoc)
  moreover have "ucast (drop_bit 16 (?tx + 3)) \<noteq> MAGIC_NUMBER"
    by (rule small_sequence_magic) (use assms(3) seqs(2) in simp)
  ultimately have stuck: "stuck ?r"
    using len by (simp add: stuck_def)
  have "ProtocolCodec_decode crc receiver (b1 @ b2) = (if length b2 < 62 then Inr [f] else bad, ?r)"
    using stuck_loop [OF stuck, of crc "[]"] magic assms(5) receiving.loop_next [OF f(3)] len
    by (auto simp: ProtocolCodec_decode_def pushed_def bad_def)
  moreover have "decode_calls crc ?r ds =
      map (\<lambda>i. if length b2 + length (concat (take (Suc i) ds)) < 62 then Inr [] else bad) [0..<length ds]"
    unfolding stuck_calls [OF stuck] using magic len by (auto simp: bad_def)
  ultimately show ?thesis
    using f by (intro exI [of _ f]) simp
qed

theorem control_messages_wedge_receiver_witness:
  "\<exists>b1 s1 b2 s2 f.
    encode_control_frame sum_crc Inr ProtocolCodec_new FT_Keepalive [7] 0 = (Inr b1, s1) \<and>
    encode_control_frame sum_crc Inr s1 FT_Keepalive [7] 0 = (Inr b2, s2) \<and> fr_payload f = [7] \<and>
    decode_calls sum_crc ProtocolCodec_new [b1 @ b2, replicate 30 1, [2], [3]] =
      [Inr [f], Inr [], Inl (Err (InvalidMagic MAGIC_NUMBER 0)), Inl (Err (InvalidMagic MAGIC_NUMBER 0))]"
proof -
  obtain b1 s1 where 1: "encode_control_frame sum_crc Inr ProtocolCodec_new FT_Keepalive [7] 0 = (Inr b1, s1)"
    "fc_tx_sequence (pc_frame_codec s1) = fc_tx_sequence (pc_frame_codec ProtocolCodec_new) + 2"
    using encode_control_frame_Inr [of Inr "[7]" "[7]" sum_crc ProtocolCodec_new FT_Keepalive 0] by auto
  obtain b2 s2 where 2: "encode_control_frame sum_crc Inr s1 FT_Keepalive [7] 0 = (Inr b2, s2)" "length b2 = 31"
    using encode_control_frame_Inr [of Inr "[7]" "[7]" sum_crc s1 FT_Keepalive 0] by auto
  have n: "fc_tx_sequence (pc_frame_codec ProtocolCodec_new) = 0" "pc_rx_buffer ProtocolCodec_new = []"
    "ProtocolCodec_rx_sequence ProtocolCodec_new = 0"
    by (simp_all add: ProtocolCodec_new_def FrameCodec_new_def ProtocolCodec_rx_sequence_def)
  have "\<exists>f. Inr [7] = (Inr (fr_payload f) :: string + bytes) \<and> fr_auth_tag f = take 16 b2 \<and>
    decode_calls sum_crc ProtocolCodec_new [b1 @ b2, replicate 30 1, [2], [3]] =
      [Inr [f], Inr [], Inl (Err (InvalidMagic MAGIC_NUMBER 0)), Inl (Err (InvalidMagic MAGIC_NUMBER 0))]"
    using control_messages_wedge_receiver [OF 1(1) 2(1), of ProtocolCodec_new "[replicate 30 1, [2], [3]]"] n 2(2)
    by (simp add: upt_rec del: decode_calls.simps)
  then show ?thesis
    using 1(1) 2(1) by fastforce
qed

end
