(* ===== verification/Bluetooth_Stream.thy ===== *)
theory Bluetooth_Stream
  imports Codec_Stream
begin

text \<open>
  The RFCOMM stream of \<^verbatim>\<open>bluetooth/src/stream.rs\<close>: its buffers and its closed flag, its own
  operations and those of the \<open>AsyncRead\<close> and \<open>AsyncWrite\<close> traits. The calls of the Windows API are
  arguments, a record of functions over a state \<open>'w\<close> of the platform and handles \<open>'h\<close> of its
  objects; a call gives a value or the text of its error. Polling never waits in this code, so the
  \<open>Poll::Ready\<close> around every result is left out.
\<close>

subsection \<open>The calls of the platform\<close>

type_synonym ('w, 'a) call = "'w \<Rightarrow> (string + 'a) \<times> 'w"

record ('h, 'w) stream_api =
  api_input_stream :: "'h \<Rightarrow> ('w, 'h) call"
  api_data_reader :: "'h \<Rightarrow> ('w, 'h) call"
  api_output_stream :: "'h \<Rightarrow> ('w, 'h) call"
  api_data_writer :: "'h \<Rightarrow> ('w, 'h) call"
  api_set_partial :: "'h \<Rightarrow> ('w, unit) call"
  api_load :: "'h \<Rightarrow> u32 \<Rightarrow> ('w, u32) call"
  api_read_bytes :: "'h \<Rightarrow> nat \<Rightarrow> ('w, bytes) call"
  api_write_bytes :: "'h \<Rightarrow> bytes \<Rightarrow> ('w, unit) call"
  api_store :: "'h \<Rightarrow> ('w, u32) call"
  api_flush :: "'h \<Rightarrow> ('w, unit) call"
  api_close :: "'h \<Rightarrow> ('w, unit) call"
  api_information :: "'h \<Rightarrow> ('w, 'h) call"
  api_remote_address :: "'h \<Rightarrow> ('w, 'h) call"
  api_display_name :: "'h \<Rightarrow> ('w, string) call"
  api_remote_service_name :: "'h \<Rightarrow> ('w, string) call"

text \<open>
  A call whose error, turned by \<open>err\<close>, ends the operation: \<open>map_err(..)?\<close>. The state \<open>s\<close> is
  what the operation has changed so far. \<open>unwrapped\<close> is a call under \<open>unwrap\<close>, which panics.
\<close>

definition on_call ::
  "('w, 'a) call \<Rightarrow> (string \<Rightarrow> 'e) \<Rightarrow> 's \<Rightarrow> ('a \<Rightarrow> 'w \<Rightarrow> ('e + 'b) \<times> 's \<times> 'w) \<Rightarrow> 'w \<Rightarrow> ('e + 'b) \<times> 's \<times> 'w" where
  "on_call c err s k w = (case c w of (Inl e, w') \<Rightarrow> (Inl (err e), s, w') | (Inr a, w') \<Rightarrow> k a w')"

definition unwrapped :: "('w, 'a) call \<Rightarrow> ('a \<Rightarrow> 'w \<Rightarrow> 'b result \<times> 'w) \<Rightarrow> 'w \<Rightarrow> 'b result \<times> 'w" where
  "unwrapped c k w = (case c w of (Inl e, w') \<Rightarrow> (Inl (Panic ''unwrap on Err''), w') | (Inr a, w') \<Rightarrow> k a w')"

definition bluetooth_error :: "string \<Rightarrow> failure" where
  "bluetooth_error e = Err (Bluetooth e)"

lemma on_call_simps:
  "c w = (Inr a, w') \<Longrightarrow> on_call c err s k w = k a w'"
  "c w = (Inl e, w') \<Longrightarrow> on_call c err s k w = (Inl (err e), s, w')"
  by (simp_all add: on_call_def)

lemma on_call_rule:
  "(\<And>e w'. P (Inl (err e), s, w')) \<Longrightarrow> (\<And>a w'. P (k a w')) \<Longrightarrow> P (on_call c err s k w)"
  by (simp add: on_call_def split: prod.split sum.split)

lemma on_call_cases:
  assumes "on_call c err s k w = x"
  obtains e w' where "c w = (Inl e, w')" "x = (Inl (err e), s, w')"
  | a w' where "c w = (Inr a, w')" "x = k a w'"
  using assms by (auto simp: on_call_def split: prod.splits sum.splits)

subsection \<open>The stream\<close>

record StreamConfig =
  stc_read_timeout_ms :: u32
  stc_write_timeout_ms :: u32
  stc_buffer_size :: nat

definition StreamConfig_default :: StreamConfig where
  "StreamConfig_default = \<lparr>stc_read_timeout_ms = 30000, stc_write_timeout_ms = 30000, stc_buffer_size = 8192\<rparr>"

record StreamStats =
  sst_bytes_read :: u64
  sst_bytes_written :: u64
  sst_closed :: bool

record 'h RfcommStream =
  rf_socket :: 'h
  rf_reader :: 'h
  rf_writer :: 'h
  rf_config :: StreamConfig
  rf_read_buffer :: bytes
  rf_write_buffer :: bytes
  rf_closed :: bool

definition RfcommStream_from_socket :: "('h, 'w) stream_api \<Rightarrow> 'h \<Rightarrow> 'w \<Rightarrow> 'h RfcommStream result \<times> 'w" where
  "RfcommStream_from_socket api socket =
     unwrapped (api_input_stream api socket) (\<lambda>input_stream.
     unwrapped (api_data_reader api input_stream) (\<lambda>reader.
     unwrapped (api_output_stream api socket) (\<lambda>output_stream.
     unwrapped (api_data_writer api output_stream) (\<lambda>writer.
     unwrapped (api_set_partial api reader) (\<lambda>_ w.
       (Inr \<lparr>rf_socket = socket, rf_reader = reader, rf_writer = writer, rf_config = StreamConfig_default,
             rf_read_buffer = [], rf_write_buffer = [], rf_closed = False\<rparr>, w))))))"

definition RfcommStream_remote_address :: "('h, 'w) stream_api \<Rightarrow> 'h RfcommStream \<Rightarrow> 'w \<Rightarrow> string option \<times> 'w" where
  "RfcommStream_remote_address api st w =
     (case api_information api (rf_socket st) w of
        (Inl _, w) \<Rightarrow> (None, w)
      | (Inr info, w) \<Rightarrow>
          (case api_remote_address api info w of
             (Inl _, w) \<Rightarrow> (None, w)
           | (Inr addr, w) \<Rightarrow>
               (case api_display_name api addr w of
                  (Inl _, w) \<Rightarrow> (Some [], w)
                | (Inr name, w) \<Rightarrow> (Some name, w))))"

definition RfcommStream_remote_port :: "('h, 'w) stream_api \<Rightarrow> 'h RfcommStream \<Rightarrow> 'w \<Rightarrow> string option \<times> 'w" where
  "RfcommStream_remote_port api st w =
     (case api_information api (rf_socket st) w of
        (Inl _, w) \<Rightarrow> (None, w)
      | (Inr info, w) \<Rightarrow>
          (case api_remote_service_name api info w of
             (Inl _, w) \<Rightarrow> (None, w)
           | (Inr name, w) \<Rightarrow> (Some name, w)))"

definition is_closed :: "'h RfcommStream \<Rightarrow> bool" where
  "is_closed st = rf_closed st"

definition set_read_timeout :: "u32 \<Rightarrow> 'h RfcommStream \<Rightarrow> 'h RfcommStream" where
  "set_read_timeout timeout_ms st = st\<lparr>rf_config := (rf_config st)\<lparr>stc_read_timeout_ms := timeout_ms\<rparr>\<rparr>"

definition set_write_timeout :: "u32 \<Rightarrow> 'h RfcommStream \<Rightarrow> 'h RfcommStream" where
  "set_write_timeout timeout_ms st = st\<lparr>rf_config := (rf_config st)\<lparr>stc_write_timeout_ms := timeout_ms\<rparr>\<rparr>"

definition RfcommStream_stats :: "'h RfcommStream \<Rightarrow> StreamStats" where
  "RfcommStream_stats st =
     \<lparr>sst_bytes_read = of_nat (length (rf_read_buffer st)), sst_bytes_written = of_nat (length (rf_write_buffer st)),
      sst_closed = rf_closed st\<rparr>"

subsection \<open>Reading, writing and closing\<close>

definition stream_closed :: failure where
  "stream_closed = Err (Io ''Stream closed'')"

text \<open>
  A read gives the number of bytes and the buffer with them at its front. \<open>copy_from_slice\<close> into a
  buffer that is too short panics.
\<close>

definition RfcommStream_read ::
  "('h, 'w) stream_api \<Rightarrow> bytes \<Rightarrow> 'h RfcommStream \<Rightarrow> 'w \<Rightarrow> nat result \<times> (bytes \<times> 'h RfcommStream) \<times> 'w" where
  "RfcommStream_read api buf st w =
     (if rf_closed st then (Inl stream_closed, (buf, st), w)
      else on_call (api_load api (rf_reader st) (of_nat (length buf))) bluetooth_error (buf, st) (\<lambda>loaded w.
        if loaded = 0 then (Inr 0, (buf, st\<lparr>rf_closed := True\<rparr>), w)
        else on_call (api_read_bytes api (rf_reader st) (unat loaded)) bluetooth_error (buf, st) (\<lambda>temp_buf w.
          if length buf < unat loaded then (Inl (Panic ''range end index out of range''), (buf, st), w)
          else (Inr (unat loaded), (temp_buf @ drop (unat loaded) buf, st), w)) w) w)"

definition RfcommStream_write ::
  "('h, 'w) stream_api \<Rightarrow> bytes \<Rightarrow> 'h RfcommStream \<Rightarrow> 'w \<Rightarrow> nat result \<times> 'h RfcommStream \<times> 'w" where
  "RfcommStream_write api buf st w =
     (if rf_closed st then (Inl stream_closed, st, w)
      else on_call (api_write_bytes api (rf_writer st) buf) bluetooth_error st (\<lambda>_.
           on_call (api_store api (rf_writer st)) bluetooth_error st (\<lambda>stored w.
             (Inr (unat stored), st, w))) w)"

definition RfcommStream_flush ::
  "('h, 'w) stream_api \<Rightarrow> 'h RfcommStream \<Rightarrow> 'w \<Rightarrow> unit result \<times> 'h RfcommStream \<times> 'w" where
  "RfcommStream_flush api st w =
     (if rf_closed st then (Inl stream_closed, st, w)
      else on_call (api_flush api (rf_writer st)) bluetooth_error st (\<lambda>_ w. (Inr (), st, w)) w)"

definition RfcommStream_close ::
  "('h, 'w) stream_api \<Rightarrow> 'h RfcommStream \<Rightarrow> 'w \<Rightarrow> unit result \<times> 'h RfcommStream \<times> 'w" where
  "RfcommStream_close api st w =
     (if rf_closed st then (Inr (), st, w)
      else let st = st\<lparr>rf_closed := True\<rparr> in
        on_call (api_close api (rf_socket st)) bluetooth_error st (\<lambda>_ w. (Inr (), st, w)) w)"

subsection \<open>Polling\<close>

text \<open>The kinds of \<open>std::io::Error\<close> that polling gives, and the caller's buffer.\<close>

datatype io_error = BrokenPipe string | Other string

record ReadBuf =
  rb_filled :: bytes
  rb_capacity :: nat

definition remaining :: "ReadBuf \<Rightarrow> nat" where
  "remaining buf = rb_capacity buf - length (rb_filled buf)"

definition put_slice :: "bytes \<Rightarrow> ReadBuf \<Rightarrow> ReadBuf" where
  "put_slice bs buf = buf\<lparr>rb_filled := rb_filled buf @ bs\<rparr>"

definition poll_read ::
  "('h, 'w) stream_api \<Rightarrow> ReadBuf \<Rightarrow> 'h RfcommStream \<Rightarrow> 'w \<Rightarrow> (io_error + unit) \<times> (ReadBuf \<times> 'h RfcommStream) \<times> 'w" where
  "poll_read api buf st w =
     (if rf_read_buffer st \<noteq> [] then
        let len = min (remaining buf) (length (rf_read_buffer st)) in
        (Inr (), (put_slice (take len (rf_read_buffer st)) buf, st\<lparr>rf_read_buffer := drop len (rf_read_buffer st)\<rparr>), w)
      else
        on_call (api_load api (rf_reader st) (of_nat (min (remaining buf) (stc_buffer_size (rf_config st))))) Other (buf, st)
          (\<lambda>loaded w.
             if loaded = 0 then (Inr (), (buf, st\<lparr>rf_closed := True\<rparr>), w)
             else on_call (api_read_bytes api (rf_reader st) (unat loaded)) Other (buf, st) (\<lambda>temp_buf w.
               let len = min (remaining buf) (length temp_buf) in
               (Inr (), (put_slice (take len temp_buf) buf,
                  if len < length temp_buf then st\<lparr>rf_read_buffer := rf_read_buffer st @ drop len temp_buf\<rparr> else st), w)) w) w)"

definition poll_write ::
  "('h, 'w) stream_api \<Rightarrow> bytes \<Rightarrow> 'h RfcommStream \<Rightarrow> 'w \<Rightarrow> (io_error + nat) \<times> 'h RfcommStream \<times> 'w" where
  "poll_write api buf st w =
     (if rf_closed st then (Inl (BrokenPipe ''Stream closed''), st, w)
      else on_call (api_write_bytes api (rf_writer st) buf) Other st (\<lambda>_.
           on_call (api_store api (rf_writer st)) Other st (\<lambda>written w.
             (Inr (unat written), st, w))) w)"

definition poll_flush ::
  "('h, 'w) stream_api \<Rightarrow> 'h RfcommStream \<Rightarrow> 'w \<Rightarrow> (io_error + unit) \<times> 'h RfcommStream \<times> 'w" where
  "poll_flush api st w =
     (if rf_closed st then (Inl (BrokenPipe ''Stream closed''), st, w)
      else on_call (api_flush api (rf_writer st)) Other st (\<lambda>_ w. (Inr (), st, w)) w)"

definition poll_shutdown ::
  "('h, 'w) stream_api \<Rightarrow> 'h RfcommStream \<Rightarrow> 'w \<Rightarrow> (io_error + unit) \<times> 'h RfcommStream \<times> 'w" where
  "poll_shutdown api st w =
     (if rf_closed st then (Inr (), st, w)
      else on_call (api_flush api (rf_writer st)) Other st (\<lambda>_.
           on_call (api_close api (rf_socket st)) Other st (\<lambda>_ w.
             (Inr (), st\<lparr>rf_closed := True\<rparr>, w))) w)"

subsection \<open>Every call on a stream\<close>

datatype stream_call =
    Read bytes
  | Write bytes
  | Flush
  | Close
  | Poll_read ReadBuf
  | Poll_write bytes
  | Poll_flush
  | Poll_shutdown
  | Set_read_timeout u32
  | Set_write_timeout u32

definition stream_step :: "('h, 'w) stream_api \<Rightarrow> stream_call \<Rightarrow> 'h RfcommStream \<Rightarrow> 'w \<Rightarrow> 'h RfcommStream \<times> 'w" where
  "stream_step api c st w =
     (case c of
        Read buf \<Rightarrow> (case RfcommStream_read api buf st w of (_, (_, st), w) \<Rightarrow> (st, w))
      | Write buf \<Rightarrow> snd (RfcommStream_write api buf st w)
      | Flush \<Rightarrow> snd (RfcommStream_flush api st w)
      | Close \<Rightarrow> snd (RfcommStream_close api st w)
      | Poll_read buf \<Rightarrow> (case poll_read api buf st w of (_, (_, st), w) \<Rightarrow> (st, w))
      | Poll_write buf \<Rightarrow> snd (poll_write api buf st w)
      | Poll_flush \<Rightarrow> snd (poll_flush api st w)
      | Poll_shutdown \<Rightarrow> snd (poll_shutdown api st w)
      | Set_read_timeout t \<Rightarrow> (set_read_timeout t st, w)
      | Set_write_timeout t \<Rightarrow> (set_write_timeout t st, w))"

text \<open>The streams that calls reach, whatever the platform does between them.\<close>

inductive stream_reach :: "('h, 'w) stream_api \<Rightarrow> 'h RfcommStream \<Rightarrow> bool" for api :: "('h, 'w) stream_api" where
  opened: "RfcommStream_from_socket api socket w = (Inr st, w') \<Longrightarrow> stream_reach api st"
| called: "stream_reach api st \<Longrightarrow> stream_step api c st w = (st', w') \<Longrightarrow> stream_reach api st'"

end
