(* ===== verification/Bluetooth_Transfer.thy ===== *)
theory Bluetooth_Transfer
  imports Bluetooth_Stream
begin

text \<open>
  What crosses an RFCOMM stream: the documented behaviour of the platform's readers and writers as
  hypotheses, the contract of a polled reader as a locale with the stream as its interpretation, the
  invariant of a stream, and the way of encoded frames from a writing to a reading stream.
\<close>

subsection \<open>What the platform promises\<close>

text \<open>
  \<open>incoming\<close> are the bytes that the peer has sent or will send before it closes the connection and
  that have not been read yet. Loading never gives more bytes than it was asked for or than there
  are, and none only at the end or when none were asked for; what was loaded can be read.
\<close>

definition source_ok :: "('h, 'w) stream_api \<Rightarrow> 'h \<Rightarrow> ('w \<Rightarrow> bytes) \<Rightarrow> bool" where
  "source_ok api reader incoming \<longleftrightarrow> (\<forall>n w.
     (case api_load api reader n w of
        (Inl _, w1) \<Rightarrow> incoming w1 = incoming w
      | (Inr k, w1) \<Rightarrow> unat k \<le> unat n \<and> unat k \<le> length (incoming w) \<and> (k = 0 \<longrightarrow> n = 0 \<or> incoming w = []) \<and>
          incoming w1 = incoming w \<and>
          (k \<noteq> 0 \<longrightarrow> (\<exists>w2. api_read_bytes api reader (unat k) w1 = (Inr (take (unat k) (incoming w)), w2) \<and>
             incoming w2 = drop (unat k) (incoming w)))))"

text \<open>
  \<open>outgoing\<close> are the bytes handed to the connection, \<open>pending\<close> those that the writer holds. Writing
  adds to the pending ones, storing hands all of them over and counts them.
\<close>

definition sink_ok :: "('h, 'w) stream_api \<Rightarrow> 'h \<Rightarrow> ('w \<Rightarrow> bytes) \<Rightarrow> ('w \<Rightarrow> bytes) \<Rightarrow> bool" where
  "sink_ok api writer pending outgoing \<longleftrightarrow> (\<forall>w.
     (\<forall>bs w1. api_write_bytes api writer bs w = (Inr (), w1) \<longrightarrow> pending w1 = pending w @ bs \<and> outgoing w1 = outgoing w) \<and>
     (\<forall>k w1. api_store api writer w = (Inr k, w1) \<longrightarrow>
        k = of_nat (length (pending w)) \<and> pending w1 = [] \<and> outgoing w1 = outgoing w @ pending w))"

lemma source_load_Inl: "source_ok api r inc \<Longrightarrow> api_load api r n w = (Inl e, w1) \<Longrightarrow> inc w1 = inc w"
  unfolding source_ok_def by (drule spec [of _ n], drule spec [of _ w]) simp

lemma source_load_Inr:
  assumes "source_ok api r inc" "api_load api r n w = (Inr k, w1)"
  shows "unat k \<le> unat n" "unat k \<le> length (inc w)" "k = 0 \<Longrightarrow> n = 0 \<or> inc w = []" "inc w1 = inc w"
    and "k \<noteq> 0 \<Longrightarrow> \<exists>w2. api_read_bytes api r (unat k) w1 = (Inr (take (unat k) (inc w)), w2) \<and> inc w2 = drop (unat k) (inc w)"
  using assms(1) [unfolded source_ok_def, THEN spec [of _ n], THEN spec [of _ w]] assms(2) by simp_all

subsection \<open>Readers\<close>

text \<open>
  What a caller may expect of a reader that it polls: a poll gives the next bytes of what is still
  unread, at most as many as asked for and none when it fails, and a successful poll that gives none
  although some were asked for marks the end.
\<close>

locale byte_reader =
  fixes poll :: "nat \<Rightarrow> 's \<Rightarrow> (bool \<times> bytes) \<times> 's"
    and unread :: "'s \<Rightarrow> bytes" and ended :: "'s \<Rightarrow> bool" and inv :: "'s \<Rightarrow> bool"
  assumes delivers: "inv s \<Longrightarrow> poll n s = ((ok, bs), s') \<Longrightarrow>
      inv s' \<and> unread s = bs @ unread s' \<and> length bs \<le> n \<and> (ok \<or> bs = []) \<and> (ended s \<longrightarrow> ended s')"
    and ends: "inv s \<Longrightarrow> 0 < n \<Longrightarrow> poll n s = ((True, []), s') \<Longrightarrow> unread s = [] \<and> ended s'"
begin

primrec polls :: "nat list \<Rightarrow> 's \<Rightarrow> (bool \<times> bytes) list \<times> 's" where
  "polls [] s = ([], s)"
| "polls (n # ns) s = (case poll n s of (x, s') \<Rightarrow> (case polls ns s' of (xs, s'') \<Rightarrow> (x # xs, s'')))"

lemma polls_deliver:
  "inv s \<Longrightarrow> polls ns s = (xs, s') \<Longrightarrow>
    inv s' \<and> unread s = concat (map snd xs) @ unread s' \<and> length xs = length ns \<and> (ended s \<longrightarrow> ended s')"
proof (induction ns arbitrary: s xs s')
  case Nil
  then show ?case by simp
next
  case (Cons n ns)
  obtain ok bs s1 where p: "poll n s = ((ok, bs), s1)"
    using prod.exhaust by metis
  obtain ys where ys: "polls ns s1 = (ys, s')" "xs = (ok, bs) # ys"
    using Cons.prems(2) p by (auto split: prod.splits)
  show ?case
    using delivers [OF Cons.prems(1) p] Cons.IH [OF _ ys(1)] ys(2) by auto
qed

text \<open>The number of polls that reading to the end needs is bounded.\<close>

lemma polls_end:
  "inv s \<Longrightarrow> polls ns s = (xs, s') \<Longrightarrow> \<forall>n \<in> set ns. 0 < n \<Longrightarrow> \<forall>x \<in> set xs. fst x \<Longrightarrow>
    length (unread s) < length ns \<Longrightarrow> unread s' = [] \<and> ended s'"
proof (induction ns arbitrary: s xs s')
  case Nil
  then show ?case by simp
next
  case (Cons n ns)
  obtain ok bs s1 where p: "poll n s = ((ok, bs), s1)"
    using prod.exhaust by metis
  obtain ys where ys: "polls ns s1 = (ys, s')" "xs = (ok, bs) # ys"
    using Cons.prems(2) p by (auto split: prod.splits)
  note d = delivers [OF Cons.prems(1) p]
  show ?case
  proof (cases "bs = []")
    case True
    then have "unread s = [] \<and> ended s1"
      using ends [OF Cons.prems(1)] p Cons.prems(3,4) ys(2) by auto
    then show ?thesis
      using d polls_deliver [OF _ ys(1)] by auto
  next
    case False
    then have "length (unread s1) < length ns"
      using d Cons.prems(5) by (cases bs) auto
    then show ?thesis
      using Cons.IH [OF _ ys(1)] d Cons.prems(3,4) ys(2) by auto
  qed
qed

end

subsection \<open>The stream as a reader\<close>

text \<open>A poll with a fresh buffer of \<open>n\<close> bytes, and what is unread behind a stream.\<close>

definition poll_once :: "('h, 'w) stream_api \<Rightarrow> nat \<Rightarrow> 'h RfcommStream \<times> 'w \<Rightarrow> (bool \<times> bytes) \<times> ('h RfcommStream \<times> 'w)" where
  "poll_once api n s =
     (case poll_read api \<lparr>rb_filled = [], rb_capacity = n\<rparr> (fst s) (snd s) of
        (r, (buf, st), w) \<Rightarrow> ((r = Inr (), rb_filled buf), (st, w)))"

primrec poll_all ::
  "('h, 'w) stream_api \<Rightarrow> nat list \<Rightarrow> 'h RfcommStream \<times> 'w \<Rightarrow> (bool \<times> bytes) list \<times> ('h RfcommStream \<times> 'w)" where
  "poll_all api [] s = ([], s)"
| "poll_all api (n # ns) s = (case poll_once api n s of (x, s') \<Rightarrow> (case poll_all api ns s' of (xs, s'') \<Rightarrow> (x # xs, s'')))"

definition unread_bytes :: "('w \<Rightarrow> bytes) \<Rightarrow> 'h RfcommStream \<times> 'w \<Rightarrow> bytes" where
  "unread_bytes incoming s = rf_read_buffer (fst s) @ incoming (snd s)"

definition readable :: "('h, 'w) stream_api \<Rightarrow> ('w \<Rightarrow> bytes) \<Rightarrow> 'h RfcommStream \<times> 'w \<Rightarrow> bool" where
  "readable api incoming s \<longleftrightarrow> source_ok api (rf_reader (fst s)) incoming \<and>
     0 < stc_buffer_size (rf_config (fst s)) \<and> stc_buffer_size (rf_config (fst s)) < 2 ^ 32"

lemma unat_small: "n < 2 ^ 32 \<Longrightarrow> unat (of_nat n :: u32) = n"
  by (simp add: unat_of_nat)

lemma poll_once_cases:
  assumes "readable api inc s" "poll_once api n s = ((ok, bs), s')"
  obtains (buffered) "rf_read_buffer (fst s) \<noteq> []" "ok" "bs = take n (rf_read_buffer (fst s))"
      "fst s' = (fst s)\<lparr>rf_read_buffer := drop n (rf_read_buffer (fst s))\<rparr>" "inc (snd s') = inc (snd s)"
  | (failed) "rf_read_buffer (fst s) = []" "\<not> ok" "bs = []" "fst s' = fst s" "inc (snd s') = inc (snd s)"
  | (end_of_file) "rf_read_buffer (fst s) = []" "ok" "bs = []" "fst s' = (fst s)\<lparr>rf_closed := True\<rparr>" "inc (snd s') = inc (snd s)"
      "n = 0 \<or> inc (snd s) = []"
  | (loaded) "rf_read_buffer (fst s) = []" "ok" "bs \<noteq> []" "length bs \<le> n" "fst s' = fst s" "inc (snd s) = bs @ inc (snd s')"
proof (cases "rf_read_buffer (fst s) = []")
  case False
  then show ?thesis
    using assms(2) by (intro buffered)
      (auto simp: poll_once_def poll_read_def Let_def put_slice_def remaining_def min_def not_le)
next
  case True
  obtain st w where s: "s = (st, w)"
    by (cases s)
  let ?m = "min n (stc_buffer_size (rf_config st))"
  have src: "source_ok api (rf_reader st) inc" and "?m < 2 ^ 32" "?m = 0 \<longleftrightarrow> n = 0"
    using assms(1) by (auto simp: readable_def s)
  then have m: "unat (of_nat ?m :: u32) = ?m" "(of_nat ?m :: u32) = 0 \<longleftrightarrow> n = 0"
    using unat_small [of ?m] by (simp_all only: unat_eq_zero [symmetric])
  obtain r w1 where l: "api_load api (rf_reader st) (of_nat ?m) w = (r, w1)"
    using prod.exhaust by metis
  show ?thesis
  proof (cases r)
    case (Inl e)
    then show ?thesis
      using assms(2) True l source_load_Inl [OF src] by (intro failed)
        (auto simp: s poll_once_def poll_read_def remaining_def on_call_def)
  next
    case (Inr k)
    note L = source_load_Inr [OF src, of "of_nat ?m" w k w1] l Inr
    show ?thesis
    proof (cases "k = 0")
      case True
      then show ?thesis
        using assms(2) \<open>rf_read_buffer (fst s) = []\<close> L m by (intro end_of_file)
          (auto simp: s poll_once_def poll_read_def remaining_def on_call_def)
    next
      case False
      then obtain w2 where w2: "api_read_bytes api (rf_reader st) (unat k) w1 = (Inr (take (unat k) (inc w)), w2)"
        "inc w2 = drop (unat k) (inc w)"
        using L by blast
      have k: "unat k \<le> n" "unat k \<le> length (inc w)" "0 < unat k"
        using L m False by (auto simp: unat_gt_0)
      have "bs = take (unat k) (inc w)" "ok" "s' = (st, w2)"
        using assms(2) True False w2(1) k l Inr
        by (auto simp: s poll_once_def poll_read_def remaining_def on_call_def Let_def put_slice_def)
      then show ?thesis
        using True k w2(2) by (intro loaded) (auto simp: s)
    qed
  qed
qed

interpretation rfcomm: byte_reader "poll_once api" "unread_bytes inc" "\<lambda>s. rf_closed (fst s)" "readable api inc"
  for api :: "('h, 'w) stream_api" and inc :: "'w \<Rightarrow> bytes"
proof unfold_locales
  fix s s' :: "'h RfcommStream \<times> 'w" and n ok bs
  assume inv: "readable api inc s"
  show "readable api inc s' \<and> unread_bytes inc s = bs @ unread_bytes inc s' \<and> length bs \<le> n \<and> (ok \<or> bs = []) \<and>
      (rf_closed (fst s) \<longrightarrow> rf_closed (fst s'))" if "poll_once api n s = ((ok, bs), s')"
    using inv that by (cases rule: poll_once_cases) (use inv in \<open>auto simp: readable_def unread_bytes_def\<close>)
  show "unread_bytes inc s = [] \<and> rf_closed (fst s')" if "0 < n" "poll_once api n s = ((True, []), s')"
    using inv that(2) by (cases rule: poll_once_cases) (use that(1) in \<open>auto simp: unread_bytes_def\<close>)
qed

lemma poll_all_polls: "poll_all api ns s = rfcomm.polls api ns s"
  by (induction ns arbitrary: s) simp_all

lemma fresh_stream:
  assumes "RfcommStream_from_socket api socket w = (Inr st, w')"
  shows "rf_socket st = socket" "rf_read_buffer st = []" "rf_write_buffer st = []" "rf_config st = StreamConfig_default" "\<not> rf_closed st"
  using assms by (auto simp: RfcommStream_from_socket_def unwrapped_def split: prod.splits sum.splits)

subsection \<open>Calls and the state of a stream\<close>

text \<open>A call changes nothing of the stream but its flag, its timeouts and, in a poll, the read buffer.\<close>

lemma poll_read_stream:
  assumes "source_ok api (rf_reader st) inc" "rf_read_buffer st = []" "stc_buffer_size (rf_config st) < 2 ^ 32"
    and "poll_read api buf st w = (r, (buf', st'), w')"
  shows "st' = st \<or> st' = st\<lparr>rf_closed := True\<rparr>"
proof -
  let ?m = "min (remaining buf) (stc_buffer_size (rf_config st))"
  have m: "unat (of_nat ?m :: u32) = ?m"
    using assms(3) by (intro unat_small) simp
  show ?thesis
  proof (cases "api_load api (rf_reader st) (of_nat ?m) w")
    case (Pair l w1)
    show ?thesis
    proof (cases l)
      case (Inl e)
      then show ?thesis
        using assms(2,4) Pair by (simp add: poll_read_def on_call_def)
    next
      case (Inr k)
      note L = source_load_Inr [OF assms(1) Pair [unfolded Inr]]
      show ?thesis
      proof (cases "k = 0")
        case True
        then show ?thesis
          using assms(2,4) Pair Inr by (simp add: poll_read_def on_call_def)
      next
        case False
        then obtain w2 where "api_read_bytes api (rf_reader st) (unat k) w1 = (Inr (take (unat k) (inc w)), w2)"
          using L(5) by blast
        moreover have "\<not> remaining buf < length (take (unat k) (inc w))"
          using L(1) m by simp
        ultimately show ?thesis
          using assms(2,4) Pair Inr False by (auto simp: poll_read_def on_call_def Let_def)
      qed
    qed
  qed
qed

definition stream_plain :: "'h RfcommStream \<Rightarrow> bool" where
  "stream_plain st \<longleftrightarrow> rf_read_buffer st = [] \<and> rf_write_buffer st = [] \<and> stc_buffer_size (rf_config st) = 8192"

lemmas stream_ops = RfcommStream_read_def RfcommStream_write_def RfcommStream_flush_def RfcommStream_close_def
  poll_write_def poll_flush_def poll_shutdown_def set_read_timeout_def set_write_timeout_def

lemma stream_step_plain:
  assumes "\<forall>reader. source_ok api reader (inc reader)" "stream_plain st" "stream_step api c st w = (st', w')"
  shows "stream_plain st' \<and> rf_reader st' = rf_reader st \<and> rf_writer st' = rf_writer st \<and> (rf_closed st \<longrightarrow> rf_closed st')"
proof (cases "\<exists>buf. c = Poll_read buf")
  case True
  then obtain buf r buf' where p: "poll_read api buf st w = (r, (buf', st'), w')"
    using assms(3) by (auto simp: stream_step_def split: prod.splits)
  have "st' = st \<or> st' = st\<lparr>rf_closed := True\<rparr>"
    by (rule poll_read_stream [OF spec [OF assms(1)] _ _ p]) (use assms(2) in \<open>simp_all add: stream_plain_def\<close>)
  then show ?thesis
    using assms(2) by (auto simp: stream_plain_def)
next
  case False
  then show ?thesis
    using assms(2,3) by (cases c)
      (auto simp: stream_step_def stream_plain_def stream_ops on_call_def Let_def split: if_splits prod.splits sum.splits)
qed

lemma stream_reach_plain:
  assumes "\<forall>reader. source_ok api reader (inc reader)" "stream_reach api st"
  shows "stream_plain st"
  using assms(2)
proof induction
  case (opened socket w st w')
  then show ?case
    using fresh_stream [OF opened] by (simp add: stream_plain_def StreamConfig_default_def)
next
  case (called st c w st' w')
  then show ?case
    using stream_step_plain [OF assms(1)] by blast
qed

text \<open>A sequence of writes.\<close>

primrec write_all ::
  "('h, 'w) stream_api \<Rightarrow> bytes list \<Rightarrow> 'h RfcommStream \<times> 'w \<Rightarrow> (io_error + nat) list \<times> ('h RfcommStream \<times> 'w)" where
  "write_all api [] s = ([], s)"
| "write_all api (bs # bss) s =
     (case poll_write api bs (fst s) (snd s) of (r, s1) \<Rightarrow> (case write_all api bss s1 of (rs, s2) \<Rightarrow> (r # rs, s2)))"

lemma sink_write: "sink_ok api wr pend out \<Longrightarrow> api_write_bytes api wr bs w = (Inr (), w1) \<Longrightarrow> pend w1 = pend w @ bs \<and> out w1 = out w"
  by (simp add: sink_ok_def)

lemma sink_store: "sink_ok api wr pend out \<Longrightarrow> api_store api wr w = (Inr k, w1) \<Longrightarrow>
    k = of_nat (length (pend w)) \<and> pend w1 = [] \<and> out w1 = out w @ pend w"
  by (simp add: sink_ok_def)

lemma poll_write_sent:
  assumes "sink_ok api (rf_writer st) pend out" "pend w = []" "poll_write api bs st w = (Inr k, st', w')"
  shows "st' = st \<and> k = unat (of_nat (length bs) :: u32) \<and> pend w' = [] \<and> out w' = out w @ bs"
proof -
  obtain w1 n where c: "api_write_bytes api (rf_writer st) bs w = (Inr (), w1)" "api_store api (rf_writer st) w1 = (Inr n, w')"
    and r: "st' = st" "k = unat n"
    using assms(3) by (auto simp: poll_write_def on_call_def split: if_splits prod.splits sum.splits)
  show ?thesis
    using sink_write [OF assms(1) c(1)] sink_store [OF assms(1) c(2)] assms(2) r by simp
qed

lemma write_all_sent:
  assumes "sink_ok api (rf_writer st) pend out"
  shows "pend w = [] \<Longrightarrow> write_all api bss (st, w) = (rs, s') \<Longrightarrow> \<forall>r \<in> set rs. \<exists>k. r = Inr k \<Longrightarrow>
    fst s' = st \<and> pend (snd s') = [] \<and> out (snd s') = out w @ concat bss \<and> rs = map (\<lambda>bs. Inr (unat (of_nat (length bs) :: u32))) bss"
proof (induction bss arbitrary: w rs)
  case Nil
  then show ?case by auto
next
  case (Cons bs bss)
  obtain r st1 w1 where p: "poll_write api bs st w = (r, st1, w1)"
    using prod_cases3 by blast
  obtain rs' where rs: "write_all api bss (st1, w1) = (rs', s')" "rs = r # rs'"
    using Cons.prems(2) p by (auto split: prod.splits)
  obtain k where k: "r = Inr k"
    using Cons.prems(3) rs(2) by auto
  note s = poll_write_sent [OF assms Cons.prems(1) p [unfolded k]]
  show ?case
    using Cons.IH [of w1 rs'] rs s Cons.prems(3) k by simp
qed

subsection \<open>Properties of the stream\<close>

text \<open>
  C15. Reading comes to an end and loses nothing: whatever polls are made, the bytes they give are, in
  order, the first ones that were unread, and the rest is still there; and once more successful polls
  with room for a byte have been made than there were bytes, everything has been read and the stream
  is closed.
\<close>

theorem polls_reach_the_end:
  assumes "readable api inc s" "poll_all api ns s = (xs, s')"
  shows "unread_bytes inc s = concat (map snd xs) @ unread_bytes inc s' \<and>
    ((\<forall>n \<in> set ns. 0 < n) \<and> (\<forall>x \<in> set xs. fst x) \<and> length (unread_bytes inc s) < length ns \<longrightarrow>
       concat (map snd xs) = unread_bytes inc s \<and> rf_closed (fst s'))"
  using rfcomm.polls_deliver [OF assms(1)] rfcomm.polls_end [OF assms(1)] assms(2)
  by (auto simp: poll_all_polls)

text \<open>A platform whose state is the bytes to come, those that a writer holds and those it has stored.\<close>

definition sample_api :: "(nat, bytes \<times> bytes \<times> bytes) stream_api" where
  "sample_api =
     \<lparr>api_input_stream = (\<lambda>h w. (Inr h, w)), api_data_reader = (\<lambda>h w. (Inr h, w)), api_output_stream = (\<lambda>h w. (Inr h, w)),
      api_data_writer = (\<lambda>h w. (Inr h, w)), api_set_partial = (\<lambda>h w. (Inr (), w)),
      api_load = (\<lambda>h n w. (Inr (of_nat (min (unat n) (length (fst w)))), w)),
      api_read_bytes = (\<lambda>h k (i, p, out). (Inr (take k i), (drop k i, p, out))),
      api_write_bytes = (\<lambda>h bs (i, p, out). (Inr (), (i, p @ bs, out))),
      api_store = (\<lambda>h (i, p, out). (Inr (of_nat (length p)), (i, [], out @ p))),
      api_flush = (\<lambda>h w. (Inr (), w)), api_close = (\<lambda>h w. (Inr (), w)), api_information = (\<lambda>h w. (Inr h, w)),
      api_remote_address = (\<lambda>h w. (Inr h, w)), api_display_name = (\<lambda>h w. (Inr ''peer'', w)),
      api_remote_service_name = (\<lambda>h w. (Inr ''1'', w))\<rparr>"

definition sample_stream :: "nat RfcommStream" where
  "sample_stream = \<lparr>rf_socket = 0, rf_reader = 0, rf_writer = 0, rf_config = StreamConfig_default, rf_read_buffer = [],
     rf_write_buffer = [], rf_closed = False\<rparr>"

lemma sample_stream_simps [simp]:
  "rf_reader sample_stream = 0" "rf_writer sample_stream = 0" "rf_read_buffer sample_stream = []" "\<not> rf_closed sample_stream"
  "rf_config sample_stream = StreamConfig_default"
  by (simp_all add: sample_stream_def)

lemma unat_of_min: "unat (of_nat (min (unat (n :: u32)) m) :: u32) = min (unat n) m"
proof -
  have "unat n < 2 ^ 32"
    using unat_le_max [of n] by simp
  then have "min (unat n) m < 2 ^ 32"
    by (rule le_less_trans [OF min.cobounded1])
  then show ?thesis
    by (rule unat_small)
qed

lemma sample_source: "source_ok sample_api h fst"
  unfolding source_ok_def
proof (intro allI)
  fix n :: u32 and w :: "bytes \<times> bytes \<times> bytes"
  let ?k = "of_nat (min (unat n) (length (fst w))) :: u32"
  have "?k = 0 \<longleftrightarrow> n = 0 \<or> fst w = []"
    using unat_of_min [of n "length (fst w)"] by (auto simp: min_def simp flip: unat_eq_zero split: if_splits)
  then show "case api_load sample_api h n w of
      (Inl x, w1) \<Rightarrow> fst w1 = fst w
    | (Inr k, w1) \<Rightarrow> unat k \<le> unat n \<and> unat k \<le> length (fst w) \<and> (k = 0 \<longrightarrow> n = 0 \<or> fst w = []) \<and> fst w1 = fst w \<and>
        (k \<noteq> 0 \<longrightarrow> (\<exists>w2. api_read_bytes sample_api h (unat k) w1 = (Inr (take (unat k) (fst w)), w2) \<and>
           fst w2 = drop (unat k) (fst w)))"
    by (cases w) (simp add: sample_api_def unat_of_min)
qed

lemma sample_sink: "sink_ok sample_api h (\<lambda>w. fst (snd w)) (\<lambda>w. snd (snd w))"
  by (auto simp: sink_ok_def sample_api_def)

lemma sample_readable: "readable sample_api fst (sample_stream, w)"
  by (simp add: readable_def sample_source StreamConfig_default_def)

text \<open>The sample stream, closed or not.\<close>

definition sample_at :: "bool \<Rightarrow> nat RfcommStream" where
  "sample_at closed = sample_stream\<lparr>rf_closed := closed\<rparr>"

lemma sample_at_open: "sample_stream = sample_at False"
  by (simp add: sample_at_def sample_stream_def)

lemma sample_poll:
  assumes "0 < n" "n \<le> 8192"
  shows "poll_once sample_api n (sample_at closed, (i, p, out)) =
    ((True, take n i), (sample_at (closed \<or> i = []), (drop n i, p, out)))"
proof -
  let ?k = "of_nat (min n (length i)) :: u32"
  have n: "min n 8192 = n" "unat (of_nat n :: u32) = n" and k: "unat ?k = min n (length i)"
    using assms by (simp_all add: unat_small)
  have "take (min n (length i)) i = take n i" "drop (min n (length i)) i = drop n i" "take (min (length i) n) i = take n i"
    by (simp_all add: min_def)
  moreover have "?k = 0 \<longleftrightarrow> i = []"
    using assms(1) k by (cases i) (auto simp: min_def simp flip: unat_eq_zero)
  ultimately show ?thesis
    using assms n k by (cases closed)
      (simp_all add: sample_at_def poll_once_def poll_read_def on_call_def sample_api_def StreamConfig_default_def remaining_def
        put_slice_def Let_def sample_stream_def)
qed

theorem polls_reach_the_end_witness:
  "concat (map snd (fst (poll_all sample_api [2, 2, 2, 2, 2] (sample_stream, ([1, 2, 3], [], []))))) = [1, 2, 3]"
proof -
  obtain xs s' where x: "poll_all sample_api [2, 2, 2, 2, 2] (sample_stream, ([1, 2, 3], [], [])) = (xs, s')"
    by (rule prod.exhaust)
  then have "\<forall>x \<in> set xs. fst x"
    by (simp only: sample_at_open poll_all.simps) (simp add: sample_poll, auto)
  then have "concat (map snd xs) = [1, 2, 3]"
    using polls_reach_the_end [OF sample_readable x, THEN conjunct2] by (simp add: unread_bytes_def)
  then show ?thesis
    by (simp only: x fst_conv)
qed

lemma poll_read_ignores_closed:
  "poll_read api buf st w =
     (case poll_read api buf (st\<lparr>rf_closed := False\<rparr>) w of
        (r, (buf', st'), w') \<Rightarrow> (r, (buf', st'\<lparr>rf_closed := rf_closed st \<or> rf_closed st'\<rparr>), w'))"
  by (cases st) (simp add: poll_read_def on_call_def Let_def split: prod.split sum.split)

text \<open>
  C24. What a stream keeps in every state that calls reach: its two buffers stay empty, so its
  statistics count nothing however much was transferred; and once it is closed no call opens it
  again. On a closed stream reading, writing and flushing, and the polled write and flush, are refused
  without a call of the platform, and closing again and the polled shutdown succeed without one. The polled read does not
  look whether the stream is closed: it gives and does what it would on the open stream.
\<close>

theorem stream_invariant:
  assumes "stream_reach api st" "\<forall>reader. source_ok api reader (inc reader)"
  shows "rf_read_buffer st = [] \<and>
    RfcommStream_stats st = \<lparr>sst_bytes_read = 0, sst_bytes_written = 0, sst_closed = rf_closed st\<rparr> \<and>
    (rf_closed st \<longrightarrow> rf_closed (fst (stream_step api c st w)) \<and>
       RfcommStream_read api buf st w = (Inl stream_closed, (buf, st), w) \<and>
       RfcommStream_write api buf st w = (Inl stream_closed, st, w) \<and>
       RfcommStream_flush api st w = (Inl stream_closed, st, w) \<and>
       poll_write api buf st w = (Inl (BrokenPipe ''Stream closed''), st, w) \<and>
       poll_flush api st w = (Inl (BrokenPipe ''Stream closed''), st, w) \<and>
       RfcommStream_close api st w = (Inr (), st, w) \<and> poll_shutdown api st w = (Inr (), st, w) \<and>
       poll_read api rb st w =
         (case poll_read api rb (st\<lparr>rf_closed := False\<rparr>) w of
            (r, (rb', st'), w') \<Rightarrow> (r, (rb', st'\<lparr>rf_closed := True\<rparr>), w')))"
proof -
  obtain st' w' where s: "stream_step api c st w = (st', w')"
    by (rule prod.exhaust)
  have plain: "stream_plain st"
    by (rule stream_reach_plain [OF assms(2,1)])
  have "rf_closed st \<longrightarrow> rf_closed (fst (stream_step api c st w))"
    using stream_step_plain [OF assms(2) plain s] by (simp add: s)
  with plain show ?thesis
    using poll_read_ignores_closed [of api rb st w] by (simp add: stream_plain_def RfcommStream_stats_def stream_ops)
qed

lemma sample_opened: "RfcommStream_from_socket sample_api 0 w = (Inr sample_stream, w)"
  by (simp add: RfcommStream_from_socket_def unwrapped_def sample_api_def sample_stream_def)

theorem stream_invariant_witness:
  "\<exists>st. stream_step sample_api Close sample_stream ([1, 2, 3], [], []) = (st, ([1, 2, 3], [], [])) \<and>
    RfcommStream_stats st = \<lparr>sst_bytes_read = 0, sst_bytes_written = 0, sst_closed = True\<rparr> \<and>
    RfcommStream_write sample_api [9] st ([1, 2, 3], [], []) = (Inl stream_closed, st, ([1, 2, 3], [], [])) \<and>
    fst (fst (snd (poll_read sample_api \<lparr>rb_filled = [], rb_capacity = 2\<rparr> st ([1, 2, 3], [], [])))) =
      \<lparr>rb_filled = [1, 2], rb_capacity = 2\<rparr>"
proof -
  let ?w = "([1, 2, 3], [], []) :: bytes \<times> bytes \<times> bytes" and ?rb = "\<lparr>rb_filled = [], rb_capacity = 2\<rparr>"
  let ?st = "sample_stream\<lparr>rf_closed := True\<rparr>"
  have s: "stream_step sample_api Close sample_stream ?w = (?st, ?w)"
    by (simp add: stream_step_def RfcommStream_close_def on_call_def sample_api_def sample_stream_def)
  have "stream_reach sample_api ?st"
    using stream_reach.called [OF stream_reach.opened [OF sample_opened] s] .
  note I = stream_invariant [where inc = "\<lambda>_. fst", OF this allI [OF sample_source], of Close ?w "[9]" ?rb]
  have "fst (fst (snd (poll_read sample_api ?rb (?st\<lparr>rf_closed := False\<rparr>) ?w))) = \<lparr>rb_filled = [1, 2], rb_capacity = 2\<rparr>"
    by (simp add: poll_read_def on_call_def sample_api_def remaining_def put_slice_def StreamConfig_default_def Let_def)
  then show ?thesis
    using I s by (auto split: prod.splits)
qed

text \<open>
  An empty read closes the stream: reading into an empty buffer asks the platform for no bytes,
  gets none and takes that for the end. The bytes that were to come are still to come, but every
  later read and write is refused; only polling still delivers.
\<close>

theorem empty_read_closes:
  assumes "source_ok api (rf_reader st) inc" "\<not> rf_closed st" "api_load api (rf_reader st) 0 w = (Inr k, w1)"
  shows "\<exists>st1. RfcommStream_read api [] st w = (Inr 0, ([], st1), w1) \<and> inc w1 = inc w \<and>
    (\<forall>buf w2. fst (RfcommStream_read api buf st1 w2) = Inl stream_closed \<and> fst (RfcommStream_write api buf st1 w2) = Inl stream_closed) \<and>
    (\<forall>n w2 s'. 0 < n \<longrightarrow> inc w2 \<noteq> [] \<longrightarrow> readable api inc (st, w2) \<longrightarrow> poll_once api n (st1, w2) \<noteq> ((True, []), s'))"
proof -
  have k: "k = 0" and w: "inc w1 = inc w"
    using source_load_Inr [OF assms(1,3)] by (simp_all add: unat_eq_zero [symmetric])
  let ?st1 = "st\<lparr>rf_closed := True\<rparr>"
  have "RfcommStream_read api [] st w = (Inr 0, ([], ?st1), w1)"
    using assms(2,3) k by (simp add: RfcommStream_read_def on_call_def)
  moreover have "poll_once api n (?st1, w2) \<noteq> ((True, []), s')"
    if "0 < n" "inc w2 \<noteq> []" "readable api inc (st, w2)" for n w2 s'
    using rfcomm.ends [of api inc "(?st1, w2)" n s'] that by (auto simp: readable_def unread_bytes_def)
  ultimately show ?thesis
    using w by (intro exI [of _ ?st1]) (simp add: RfcommStream_read_def RfcommStream_write_def)
qed

theorem empty_read_closes_witness:
  "\<exists>st1. RfcommStream_read sample_api [] sample_stream ([1, 2, 3], [], []) = (Inr 0, ([], st1), ([1, 2, 3], [], [])) \<and>
    fst (RfcommStream_read sample_api [0, 0] st1 ([1, 2, 3], [], [])) = Inl stream_closed"
proof -
  have l: "api_load sample_api (rf_reader sample_stream) 0 ([1, 2, 3], [], []) = (Inr 0, ([1, 2, 3], [], []))"
    by (simp add: sample_api_def)
  show ?thesis
    using empty_read_closes [OF sample_source _ l] by auto
qed

subsection \<open>Frames over the link\<close>

text \<open>
  C14. Frames cross a link whole: frames that one side encodes and writes to its stream, in pieces of
  any sizes, are what the other side's decoder delivers when it is fed what its stream gives for
  enough polls of any sizes.
\<close>

theorem frames_cross_link:
  assumes "\<forall>f \<in> set fs. whole_frame f" "unat (fc_tx_sequence sender) + length fs \<le> 2 ^ 64"
    and "ProtocolCodec_rx_sequence receiver \<le> fc_tx_sequence sender" "pc_rx_buffer receiver = []"
    and "encode_all crc sender fs = (Inr bss, sender')" "concat pieces = concat bss"
    and "sink_ok api (rf_writer st) pending outgoing" "pending w = []" "outgoing w = []"
    and "write_all api pieces (st, w) = (rs, s1)" "\<forall>r \<in> set rs. \<exists>k. r = Inr k"
    and "readable api' incoming (st', v)" "rf_read_buffer st' = []" "incoming v = outgoing (snd s1)"
    and "poll_all api' ns (st', v) = (xs, s2)" "\<forall>n \<in> set ns. 0 < n" "\<forall>x \<in> set xs. fst x" "length (concat bss) < length ns"
  shows "\<exists>receiver'. feed crc receiver (map snd xs) = (Inr (stamp_all crc (fc_tx_sequence sender) fs), receiver') \<and>
    pc_rx_buffer receiver' = []"
proof -
  have sent: "outgoing (snd s1) = concat bss"
    using write_all_sent [OF assms(7,8,10,11)] assms(6,9) by simp
  then have unread: "unread_bytes incoming (st', v) = concat bss"
    using assms(13,14) by (simp add: unread_bytes_def)
  have "length xs = length ns" "unread_bytes incoming s2 = []" "concat (map snd xs) = concat bss"
    using rfcomm.polls_deliver [OF assms(12) assms(15) [unfolded poll_all_polls]] unread assms(18)
      rfcomm.polls_end [OF assms(12) assms(15) [unfolded poll_all_polls] assms(16,17)] by simp_all
  moreover from this have "xs \<noteq> []"
    using assms(18) by auto
  moreover from this obtain d ds where "map snd xs = d # ds"
    by (cases xs) auto
  ultimately show ?thesis
    using encoded_frames_received [OF assms(1-5), of d ds] by simp
qed

theorem frames_cross_link_witness:
  "\<exists>xs s2. poll_all sample_api (replicate (Suc (length (frame_bytes (stamp sum_crc 0 test_frame)))) 20)
      (sample_stream, (frame_bytes (stamp sum_crc 0 test_frame), [], [])) = (xs, s2) \<and>
    fst (feed sum_crc ProtocolCodec_new (map snd xs)) = Inr [stamp sum_crc 0 test_frame]"
proof -
  let ?bs = "frame_bytes (stamp sum_crc 0 test_frame)"
  obtain xs s2 where x: "poll_all sample_api (replicate (Suc (length ?bs)) 20) (sample_stream, (?bs, [], [])) = (xs, s2)"
    by (rule prod.exhaust)
  have zero: "fc_tx_sequence FrameCodec_default = 0"
    by (simp add: FrameCodec_default_def FrameCodec_new_def)
  have e: "encode_all sum_crc FrameCodec_default [test_frame] = (Inr [?bs], FrameCodec_default\<lparr>fc_tx_sequence := 1\<rparr>)"
    using encode_all_sendable [of "[test_frame]" sum_crc FrameCodec_default]
    by (simp add: test_frame_sendable zero del: encode_all.simps)
  have w: "write_all sample_api [?bs] (sample_stream, ([], [], [])) =
      ([Inr (unat (of_nat (length ?bs) :: u32))], (sample_stream, ([], [], ?bs)))"
    by (simp add: poll_write_def on_call_def sample_api_def)
  have ok: "\<forall>x \<in> set (fst (poll_all sample_api (replicate k 20) (sample_at closed, (i, p, out)))). fst x" for k closed i p out
  proof (induction k arbitrary: closed i)
    case (Suc k)
    show ?case
      using Suc.IH [of "closed \<or> i = []" "drop 20 i"] by (auto simp: sample_poll split: prod.split)
  qed simp
  have "\<exists>receiver'. feed sum_crc ProtocolCodec_new (map snd xs) =
      (Inr (stamp_all sum_crc (fc_tx_sequence FrameCodec_default) [test_frame]), receiver') \<and> pc_rx_buffer receiver' = []"
    by (rule frames_cross_link [OF _ _ _ _ e _ sample_sink _ _ w _ sample_readable _ _ x])
      (use ok [of "Suc (length ?bs)" False ?bs "[]" "[]", folded sample_at_open] x in
        \<open>simp_all add: whole_test_frame zero ProtocolCodec_new_def ProtocolCodec_rx_sequence_def FrameCodec_default_def
           FrameCodec_new_def del: poll_all.simps replicate.simps\<close>)
  then have "fst (feed sum_crc ProtocolCodec_new (map snd xs)) = Inr [stamp sum_crc 0 test_frame]"
    by (auto simp: zero)
  with x show ?thesis
    by (intro exI conjI)
qed

end
