(* ===== verification/Bluetooth_Endpoints.thy ===== *)
theory Bluetooth_Endpoints
  imports Bluetooth_Stream Auth_Keys "HOL-Library.Sublist"
begin

text \<open>
  The two ends of an RFCOMM connection: \<^verbatim>\<open>bluetooth/src/server.rs\<close>, which accepts connections
  through a bounded queue, and \<^verbatim>\<open>bluetooth/src/client.rs\<close>, which looks for a service of a device and
  connects to it, with their configurations of \<^verbatim>\<open>bluetooth/src/lib.rs\<close>. The calls of the Windows API
  and the parser of the \<open>uuid\<close> crate are arguments.
\<close>

type_synonym u16 = "16 word"
type_synonym u128 = "128 word"

subsection \<open>Configurations\<close>

definition BPL_RFCOMM_SERVICE_UUID :: string where
  "BPL_RFCOMM_SERVICE_UUID = ''00001101-0000-1000-8000-00805F9B34FB''"

definition BPL_CUSTOM_SERVICE_UUID :: string where
  "BPL_CUSTOM_SERVICE_UUID = ''B7E5E0F0-1A2B-4C3D-8E9F-A0B1C2D3E4F5''"

record ConnectionParams =
  cpa_mtu :: u16
  cpa_timeout_ms :: u32
  cpa_retry_count :: u32
  cpa_retry_delay_ms :: u32

definition ConnectionParams_default :: ConnectionParams where
  "ConnectionParams_default = \<lparr>cpa_mtu = 1024, cpa_timeout_ms = 10000, cpa_retry_count = 3, cpa_retry_delay_ms = 1000\<rparr>"

record ServerConfig =
  svc_service_name :: string
  svc_service_uuid :: string
  svc_connection_params :: ConnectionParams

definition ServerConfig_default :: ServerConfig where
  "ServerConfig_default =
     \<lparr>svc_service_name = ''BPL RFCOMM Service'', svc_service_uuid = BPL_RFCOMM_SERVICE_UUID,
      svc_connection_params = ConnectionParams_default\<rparr>"

record ClientConfig =
  clc_service_uuid :: string
  clc_connection_params :: ConnectionParams

definition ClientConfig_default :: ClientConfig where
  "ClientConfig_default = \<lparr>clc_service_uuid = BPL_RFCOMM_SERVICE_UUID, clc_connection_params = ConnectionParams_default\<rparr>"

subsection \<open>The server\<close>

record ('h, 'w) server_api =
  sa_stream :: "('h, 'w) stream_api"
  sa_uuid :: "string \<Rightarrow> string + u128"
  sa_service_id :: "u128 \<Rightarrow> ('w, 'h) call"
  sa_provider :: "'h \<Rightarrow> ('w, 'h) call"
  sa_listener :: "('w, 'h) call"
  sa_on_connection :: "'h \<Rightarrow> ('w, unit) call"
  sa_provider_id :: "'h \<Rightarrow> ('w, 'h) call"
  sa_id_string :: "'h \<Rightarrow> ('w, string) call"
  sa_bind :: "'h \<Rightarrow> string \<Rightarrow> ('w, unit) call"
  sa_advertise :: "'h \<Rightarrow> 'h \<Rightarrow> ('w, unit) call"
  sa_stop_advertising :: "'h \<Rightarrow> ('w, unit) call"
  sa_socket :: "'h \<Rightarrow> ('w, 'h) call"

text \<open>The queue between the handler and \<open>accept\<close> is a channel of the tokio library with 100 places.\<close>

record 'h RfcommServer =
  rsv_provider :: "'h option"
  rsv_listener :: "'h option"
  rsv_config :: ServerConfig
  rsv_running :: bool
  rsv_connections :: "'h RfcommStream list"
  rsv_service_uuid :: u128

definition RfcommServer_new :: "('h, 'w) server_api \<Rightarrow> ServerConfig \<Rightarrow> 'h RfcommServer result" where
  "RfcommServer_new api config =
     (case sa_uuid api (svc_service_uuid config) of
        Inl e \<Rightarrow> Inl (Err (Config (''Invalid service UUID: '' @ e)))
      | Inr service_uuid \<Rightarrow>
          Inr \<lparr>rsv_provider = None, rsv_listener = None, rsv_config = config, rsv_running = False,
               rsv_connections = [], rsv_service_uuid = service_uuid\<rparr>)"

definition RfcommServer_start ::
  "('h, 'w) server_api \<Rightarrow> 'h RfcommServer \<Rightarrow> 'w \<Rightarrow> unit result \<times> 'h RfcommServer \<times> 'w" where
  "RfcommServer_start api srv w =
     (if rsv_running srv then (Inl (Err (Config ''Server already running'')), srv, w)
      else on_call (sa_service_id api (rsv_service_uuid srv)) bluetooth_error srv (\<lambda>service_id.
           on_call (sa_provider api service_id) bluetooth_error srv (\<lambda>provider.
           on_call (sa_listener api) bluetooth_error srv (\<lambda>listener.
           on_call (sa_on_connection api listener) bluetooth_error srv (\<lambda>_.
           on_call (sa_provider_id api provider) bluetooth_error srv (\<lambda>id.
           on_call (sa_id_string api id) bluetooth_error srv (\<lambda>service_id_str.
           on_call (sa_bind api listener service_id_str) bluetooth_error srv (\<lambda>_.
           on_call (sa_advertise api provider listener) bluetooth_error srv (\<lambda>_ w.
             (Inr (), srv\<lparr>rsv_provider := Some provider, rsv_listener := Some listener, rsv_running := True\<rparr>, w))))))))) w)"

text \<open>The handler that the platform calls for each connection; a full queue drops the stream.\<close>

definition connection_received ::
  "('h, 'w) server_api \<Rightarrow> 'h option \<Rightarrow> 'h RfcommServer \<Rightarrow> 'w \<Rightarrow> unit result \<times> 'h RfcommServer \<times> 'w" where
  "connection_received api args srv w =
     (case args of
        None \<Rightarrow> (Inr (), srv, w)
      | Some args \<Rightarrow>
          (case sa_socket api args w of
             (Inl _, w) \<Rightarrow> (Inr (), srv, w)
           | (Inr socket, w) \<Rightarrow>
               (case RfcommStream_from_socket (sa_stream api) socket w of
                  (Inl e, w) \<Rightarrow> (Inl e, srv, w)
                | (Inr stream, w) \<Rightarrow>
                    (Inr (), if length (rsv_connections srv) < 100
                             then srv\<lparr>rsv_connections := rsv_connections srv @ [stream]\<rparr> else srv, w))))"

definition RfcommServer_stop ::
  "('h, 'w) server_api \<Rightarrow> 'h RfcommServer \<Rightarrow> 'w \<Rightarrow> unit result \<times> 'h RfcommServer \<times> 'w" where
  "RfcommServer_stop api srv w =
     (if \<not> rsv_running srv then (Inr (), srv, w)
      else
        let stopped = srv\<lparr>rsv_provider := None, rsv_listener := None, rsv_running := False\<rparr> in
        (case rsv_provider srv of
           None \<Rightarrow> (Inr (), stopped, w)
         | Some provider \<Rightarrow>
             on_call (sa_stop_advertising api provider) bluetooth_error (srv\<lparr>rsv_provider := None\<rparr>)
               (\<lambda>_ w. (Inr (), stopped, w)) w))"

text \<open>
  \<open>accept\<close> waits, as \<open>None\<close>, while the queue is empty. The server holds a sender of the queue
  itself, so receiving never reports that the senders are gone.
\<close>

definition RfcommServer_accept :: "'h RfcommServer \<Rightarrow> ('h RfcommStream result \<times> 'h RfcommServer) option" where
  "RfcommServer_accept srv =
     (case rsv_connections srv of
        [] \<Rightarrow> None
      | stream # rest \<Rightarrow> Some (Inr stream, srv\<lparr>rsv_connections := rest\<rparr>))"

definition is_running_server :: "'h RfcommServer \<Rightarrow> bool" where
  "is_running_server srv = rsv_running srv"

subsection \<open>Lossy decoding of UTF-8\<close>

text \<open>
  \<open>String::from_utf8_lossy\<close>: each longest prefix of a character that the next byte does not continue
  becomes the three bytes of U+FFFD. Strings are their bytes.
\<close>

definition utf8_width :: "u8 \<Rightarrow> nat" where
  "utf8_width b =
     (if b < 0x80 then 1 else if 0xC2 \<le> b \<and> b \<le> 0xDF then 2 else if 0xE0 \<le> b \<and> b \<le> 0xEF then 3
      else if 0xF0 \<le> b \<and> b \<le> 0xF4 then 4 else 0)"

definition utf8_second :: "u8 \<Rightarrow> u8 \<Rightarrow> bool" where
  "utf8_second b c \<longleftrightarrow>
     (if b = 0xE0 then 0xA0 \<le> c \<and> c \<le> 0xBF else if b = 0xED then 0x80 \<le> c \<and> c \<le> 0x9F
      else if b = 0xF0 then 0x90 \<le> c \<and> c \<le> 0xBF else if b = 0xF4 then 0x80 \<le> c \<and> c \<le> 0x8F
      else 0x80 \<le> c \<and> c \<le> 0xBF)"

definition utf8_tail :: "u8 \<Rightarrow> bytes \<Rightarrow> nat" where
  "utf8_tail b bs =
     (case bs of
        [] \<Rightarrow> 0
      | c # cs \<Rightarrow> if utf8_second b c then Suc (length (takeWhile (\<lambda>c. 0x80 \<le> c \<and> c \<le> 0xBF) (take (utf8_width b - 2) cs))) else 0)"

text \<open>What the next character becomes, and how many bytes behind its first it takes.\<close>

definition utf8_chunk :: "u8 \<Rightarrow> bytes \<Rightarrow> bytes \<times> nat" where
  "utf8_chunk b bs =
     (let n = utf8_width b; k = utf8_tail b bs in
      if n = 1 then ([b], 0)
      else if n = 0 then ([0xEF, 0xBF, 0xBD], 0)
      else if Suc k = n then (b # take k bs, k)
      else ([0xEF, 0xBF, 0xBD], k))"

function from_utf8_lossy :: "bytes \<Rightarrow> bytes" where
  "from_utf8_lossy [] = []"
| "from_utf8_lossy (b # bs) = fst (utf8_chunk b bs) @ from_utf8_lossy (drop (snd (utf8_chunk b bs)) bs)"
  by pat_completeness auto
termination
  by (relation "measure length") auto

definition lossy_string :: "bytes \<Rightarrow> string" where
  "lossy_string bs = map (\<lambda>b. char_of (unat b)) (from_utf8_lossy bs)"

subsection \<open>The client\<close>

record ('h, 'w) client_api =
  ca_stream :: "('h, 'w) stream_api"
  ca_uuid :: "string \<Rightarrow> string + u128"
  ca_service_id :: "u128 \<Rightarrow> ('w, 'h) call"
  ca_selector :: "'h \<Rightarrow> ('w, string) call"
  ca_find_all :: "string \<Rightarrow> ('w, 'h list) call"
  ca_info_id :: "'h \<Rightarrow> ('w, string) call"
  ca_from_id :: "string \<Rightarrow> ('w, 'h) call"
  ca_new_socket :: "('w, 'h) call"
  ca_host_name :: "'h \<Rightarrow> ('w, 'h) call"
  ca_service_name :: "'h \<Rightarrow> ('w, string) call"
  ca_connect :: "'h \<Rightarrow> 'h \<Rightarrow> string \<Rightarrow> ('w, unit) call"

record 'h RfcommClient =
  rcl_config :: ClientConfig
  rcl_socket :: "'h option"
  rcl_connected :: bool
  rcl_remote_device_id :: "DeviceId option"

definition RfcommClient_new :: "ClientConfig \<Rightarrow> 'h RfcommClient result" where
  "RfcommClient_new config =
     Inr \<lparr>rcl_config = config, rcl_socket = None, rcl_connected = False, rcl_remote_device_id = None\<rparr>"

text \<open>The loop over the services: the first whose id, empty when it cannot be read, contains the text.\<close>

primrec find_service :: "('h, 'w) client_api \<Rightarrow> string \<Rightarrow> 'h list \<Rightarrow> 'w \<Rightarrow> 'h option \<times> 'w" where
  "find_service api id_str [] w = (None, w)"
| "find_service api id_str (service # services) w =
     (case ca_info_id api service w of
        (r, w) \<Rightarrow>
          if sublist id_str (case r of Inl _ \<Rightarrow> [] | Inr s \<Rightarrow> s) then (Some service, w)
          else find_service api id_str services w)"

definition RfcommClient_connect ::
  "('h, 'w) client_api \<Rightarrow> DeviceId \<Rightarrow> 'h RfcommClient \<Rightarrow> 'w \<Rightarrow> 'h RfcommStream result \<times> 'h RfcommClient \<times> 'w" where
  "RfcommClient_connect api device_id cl w =
     (if rcl_connected cl then (Inl (Err (Config ''Already connected'')), cl, w)
      else case ca_uuid api (clc_service_uuid (rcl_config cl)) of
        Inl e \<Rightarrow> (Inl (Err (Config (''Invalid UUID: '' @ e))), cl, w)
      | Inr uuid \<Rightarrow>
          on_call (ca_service_id api uuid) bluetooth_error cl (\<lambda>service_id.
          on_call (ca_selector api service_id) bluetooth_error cl (\<lambda>selector.
          on_call (ca_find_all api selector) bluetooth_error cl (\<lambda>services w.
            (case find_service api (lossy_string (did_value device_id)) services w of
               (None, w) \<Rightarrow> (Inl (Err (Bluetooth ''RFCOMM service not found on device'')), cl, w)
             | (Some service_info, w) \<Rightarrow>
                 on_call (ca_info_id api service_info) bluetooth_error cl (\<lambda>id.
                 on_call (ca_from_id api id) bluetooth_error cl (\<lambda>rfcomm_service.
                 on_call (ca_new_socket api) bluetooth_error cl (\<lambda>socket.
                 on_call (ca_host_name api rfcomm_service) bluetooth_error cl (\<lambda>host_name.
                 on_call (ca_service_name api rfcomm_service) bluetooth_error cl (\<lambda>service_name.
                 on_call (ca_connect api socket host_name service_name) bluetooth_error cl (\<lambda>_ w.
                   (case RfcommStream_from_socket (ca_stream api) socket w of
                      (r, w) \<Rightarrow>
                        (r, cl\<lparr>rcl_socket := Some socket, rcl_remote_device_id := Some device_id, rcl_connected := True\<rparr>, w)))))))) w)))) w)"

definition RfcommClient_disconnect :: "'h RfcommClient \<Rightarrow> unit result \<times> 'h RfcommClient" where
  "RfcommClient_disconnect cl =
     (Inr (), cl\<lparr>rcl_socket := None, rcl_connected := False, rcl_remote_device_id := None\<rparr>)"

definition is_connected :: "'h RfcommClient \<Rightarrow> bool" where
  "is_connected cl = rcl_connected cl"

definition remote_device_id :: "'h RfcommClient \<Rightarrow> DeviceId option" where
  "remote_device_id cl = rcl_remote_device_id cl"

definition connection_params :: "'h RfcommClient \<Rightarrow> ConnectionParams" where
  "connection_params cl = clc_connection_params (rcl_config cl)"

end
