(* ===== verification/Bluetooth_Connections.thy ===== *)
theory Bluetooth_Connections
  imports Bluetooth_Endpoints
begin

text \<open>
  What the two ends of a connection guarantee: the states of a server and the order of its queue, and
  what connecting a client does on every outcome.
\<close>

subsection \<open>Every call on a server\<close>

datatype 'h server_call = Start | Stop | Connection "'h option" | Accept

definition server_step :: "('h, 'w) server_api \<Rightarrow> 'h server_call \<Rightarrow> 'h RfcommServer \<Rightarrow> 'w \<Rightarrow> 'h RfcommServer \<times> 'w" where
  "server_step api c srv w =
     (case c of
        Start \<Rightarrow> snd (RfcommServer_start api srv w)
      | Stop \<Rightarrow> snd (RfcommServer_stop api srv w)
      | Connection args \<Rightarrow> snd (connection_received api args srv w)
      | Accept \<Rightarrow> (case RfcommServer_accept srv of None \<Rightarrow> (srv, w) | Some (_, srv) \<Rightarrow> (srv, w)))"

inductive server_reach :: "('h, 'w) server_api \<Rightarrow> 'h RfcommServer \<Rightarrow> bool" for api :: "('h, 'w) server_api" where
  created: "RfcommServer_new api config = Inr srv \<Longrightarrow> server_reach api srv"
| called: "server_reach api srv \<Longrightarrow> server_step api c srv w = (srv', w') \<Longrightarrow> server_reach api srv'"

definition server_ok :: "'h RfcommServer \<Rightarrow> bool" where
  "server_ok srv \<longleftrightarrow> length (rsv_connections srv) \<le> 100 \<and> (rsv_running srv \<longleftrightarrow> rsv_listener srv \<noteq> None) \<and>
     (rsv_provider srv \<noteq> None \<longrightarrow> rsv_running srv)"

definition start_outcome :: "'h RfcommServer \<Rightarrow> unit result \<times> 'h RfcommServer \<times> 'w \<Rightarrow> bool" where
  "start_outcome srv x \<longleftrightarrow> (case x of (r, srv', w') \<Rightarrow>
     (\<exists>e. r = Inl (Err e)) \<and> srv' = srv \<or>
     r = Inr () \<and> \<not> rsv_running srv \<and> (\<exists>provider listener.
       srv' = srv\<lparr>rsv_provider := Some provider, rsv_listener := Some listener, rsv_running := True\<rparr>))"

lemma start_outcome: "start_outcome srv (RfcommServer_start api srv w)"
proof (cases "rsv_running srv")
  case True
  then show ?thesis
    by (simp add: RfcommServer_start_def start_outcome_def)
next
  case False
  then show ?thesis
    unfolding RfcommServer_start_def if_not_P [OF False]
    by (intro on_call_rule [where P = "start_outcome srv"]) (auto simp: start_outcome_def bluetooth_error_def)
qed

lemma start_cases:
  assumes "RfcommServer_start api srv w = (r, srv', w')"
  obtains (failed) e where "r = Inl (Err e)" "srv' = srv"
  | (started) provider listener where "r = Inr ()" "\<not> rsv_running srv"
      "srv' = srv\<lparr>rsv_provider := Some provider, rsv_listener := Some listener, rsv_running := True\<rparr>"
  using start_outcome [of srv api w, unfolded assms start_outcome_def] by auto

lemma stop_cases:
  assumes "RfcommServer_stop api srv w = (r, srv', w')"
  obtains (idle) "r = Inr ()" "\<not> rsv_running srv" "srv' = srv" "w' = w"
  | (stopped) "r = Inr ()" "rsv_running srv" "srv' = srv\<lparr>rsv_provider := None, rsv_listener := None, rsv_running := False\<rparr>"
  | (failed) e where "r = Inl (Err e)" "rsv_running srv" "rsv_provider srv \<noteq> None" "srv' = srv\<lparr>rsv_provider := None\<rparr>"
proof -
  have "r = Inr () \<and> \<not> rsv_running srv \<and> srv' = srv \<and> w' = w \<or>
      r = Inr () \<and> rsv_running srv \<and> srv' = srv\<lparr>rsv_provider := None, rsv_listener := None, rsv_running := False\<rparr> \<or>
      (\<exists>e. r = Inl (Err e)) \<and> rsv_running srv \<and> rsv_provider srv \<noteq> None \<and> srv' = srv\<lparr>rsv_provider := None\<rparr>"
  proof (cases "rsv_running srv")
    case True
    show ?thesis
    proof (cases "rsv_provider srv")
      case None
      then show ?thesis
        using assms True by (simp add: RfcommServer_stop_def)
    next
      case (Some provider)
      then show ?thesis
        using assms True by (cases "sa_stop_advertising api provider w"; cases "fst (sa_stop_advertising api provider w)")
          (auto simp: RfcommServer_stop_def on_call_def bluetooth_error_def)
    qed
  next
    case False
    then show ?thesis
      using assms by (simp add: RfcommServer_stop_def)
  qed
  then show ?thesis
    using idle stopped failed by blast
qed

lemma connection_cases:
  assumes "connection_received api args srv w = (r, srv', w')"
  obtains (unchanged) "srv' = srv"
  | (queued) stream where "length (rsv_connections srv) < 100" "srv' = srv\<lparr>rsv_connections := rsv_connections srv @ [stream]\<rparr>"
proof -
  have "srv' = srv \<or> length (rsv_connections srv) < 100 \<and>
      (\<exists>stream. srv' = srv\<lparr>rsv_connections := rsv_connections srv @ [stream]\<rparr>)"
    using assms by (auto simp: connection_received_def split: option.splits prod.splits sum.splits if_splits)
  then show ?thesis
    using unchanged queued by blast
qed

lemma server_step_ok:
  assumes "server_ok srv" "server_step api c srv w = (srv', w')"
  shows "server_ok srv'"
proof (cases c)
  case Start
  then obtain r where "RfcommServer_start api srv w = (r, srv', w')"
    using assms(2) by (cases "RfcommServer_start api srv w") (simp add: server_step_def)
  then show ?thesis
    by (cases rule: start_cases) (use assms(1) in \<open>auto simp: server_ok_def\<close>)
next
  case Stop
  then obtain r where "RfcommServer_stop api srv w = (r, srv', w')"
    using assms(2) by (cases "RfcommServer_stop api srv w") (simp add: server_step_def)
  then show ?thesis
    by (cases rule: stop_cases) (use assms(1) in \<open>auto simp: server_ok_def\<close>)
next
  case (Connection args)
  then obtain r where "connection_received api args srv w = (r, srv', w')"
    using assms(2) by (cases "connection_received api args srv w") (simp add: server_step_def)
  then show ?thesis
    by (cases rule: connection_cases) (use assms(1) in \<open>auto simp: server_ok_def\<close>)
next
  case Accept
  then show ?thesis
    using assms by (auto simp: server_step_def RfcommServer_accept_def server_ok_def split: list.splits)
qed

lemma server_reach_ok: "server_reach api srv \<Longrightarrow> server_ok srv"
proof (induction rule: server_reach.induct)
  case (created config srv)
  then show ?case
    by (auto simp: RfcommServer_new_def server_ok_def split: sum.splits)
next
  case (called srv c w srv' w')
  then show ?case
    using server_step_ok [of srv api c w srv' w'] by simp
qed

text \<open>
  C25. The life of a server: in every reachable state it runs exactly when it has a listener, and
  advertises only while it runs. Starting a running server is refused; a start that fails leaves the
  server as it was, so that it can be started again. A stop that fails leaves it running without a
  provider, so that starting is refused, but the next stop succeeds whatever the platform does.
\<close>

theorem server_lifecycle:
  assumes "server_reach api srv" "RfcommServer_start api srv w = (r, srv1, w1)" "RfcommServer_stop api srv w = (r', srv2, w2)"
  shows "(rsv_running srv \<longleftrightarrow> rsv_listener srv \<noteq> None) \<and> (rsv_provider srv \<noteq> None \<longrightarrow> rsv_running srv) \<and>
    (rsv_running srv \<longrightarrow> r = Inl (Err (Config ''Server already running''))) \<and>
    (r = Inr () \<longrightarrow> rsv_running srv1 \<and> rsv_provider srv1 \<noteq> None) \<and> (r \<noteq> Inr () \<longrightarrow> srv1 = srv) \<and>
    (r' = Inr () \<longrightarrow> \<not> rsv_running srv2 \<and> rsv_provider srv2 = None) \<and>
    (r' \<noteq> Inr () \<longrightarrow> rsv_running srv2 \<and> rsv_provider srv2 = None \<and> (\<forall>w. \<exists>srv3. RfcommServer_stop api srv2 w = (Inr (), srv3, w) \<and> \<not> rsv_running srv3))"
proof -
  have ok: "server_ok srv"
    by (rule server_reach_ok [OF assms(1)])
  have "rsv_running srv \<Longrightarrow> r = Inl (Err (Config ''Server already running''))"
    using assms(2) by (simp add: RfcommServer_start_def)
  moreover have "(r = Inr () \<longrightarrow> rsv_running srv1 \<and> rsv_provider srv1 \<noteq> None) \<and> (r \<noteq> Inr () \<longrightarrow> srv1 = srv)"
    using assms(2) by (cases rule: start_cases) auto
  moreover have "(r' = Inr () \<longrightarrow> \<not> rsv_running srv2 \<and> rsv_provider srv2 = None) \<and>
      (r' \<noteq> Inr () \<longrightarrow> rsv_running srv2 \<and> rsv_provider srv2 = None)"
    using assms(3) by (cases rule: stop_cases) (use ok in \<open>auto simp: server_ok_def\<close>)
  moreover have "\<exists>srv3. RfcommServer_stop api srv2 w = (Inr (), srv3, w) \<and> \<not> rsv_running srv3"
    if "rsv_running srv2" "rsv_provider srv2 = None" for w
    using that by (simp add: RfcommServer_stop_def)
  ultimately show ?thesis
    using ok by (auto simp: server_ok_def)
qed

text \<open>A platform for the examples: every call succeeds, and the service of a connection is the id it was found by.\<close>

definition sample_stream_api :: "(nat, unit) stream_api" where
  "sample_stream_api =
     \<lparr>api_input_stream = (\<lambda>h w. (Inr h, w)), api_data_reader = (\<lambda>h w. (Inr h, w)), api_output_stream = (\<lambda>h w. (Inr h, w)),
      api_data_writer = (\<lambda>h w. (Inr h, w)), api_set_partial = (\<lambda>h w. (Inr (), w)), api_load = (\<lambda>h n w. (Inr 0, w)),
      api_read_bytes = (\<lambda>h k w. (Inr [], w)), api_write_bytes = (\<lambda>h bs w. (Inr (), w)), api_store = (\<lambda>h w. (Inr 0, w)),
      api_flush = (\<lambda>h w. (Inr (), w)), api_close = (\<lambda>h w. (Inr (), w)), api_information = (\<lambda>h w. (Inr h, w)),
      api_remote_address = (\<lambda>h w. (Inr h, w)), api_display_name = (\<lambda>h w. (Inr ''peer'', w)),
      api_remote_service_name = (\<lambda>h w. (Inr ''1'', w))\<rparr>"

definition sample_server_api :: "(nat, unit) server_api" where
  "sample_server_api =
     \<lparr>sa_stream = sample_stream_api, sa_uuid = (\<lambda>s. Inr 1), sa_service_id = (\<lambda>u w. (Inr 1, w)), sa_provider = (\<lambda>h w. (Inr 2, w)),
      sa_listener = (\<lambda>w. (Inr 3, w)), sa_on_connection = (\<lambda>h w. (Inr (), w)), sa_provider_id = (\<lambda>h w. (Inr 4, w)),
      sa_id_string = (\<lambda>h w. (Inr ''id'', w)), sa_bind = (\<lambda>h s w. (Inr (), w)), sa_advertise = (\<lambda>p l w. (Inr (), w)),
      sa_stop_advertising = (\<lambda>h w. (Inl ''busy'', w)), sa_socket = (\<lambda>h w. (Inr h, w))\<rparr>"

definition sample_server :: "nat RfcommServer" where
  "sample_server = \<lparr>rsv_provider = None, rsv_listener = None, rsv_config = ServerConfig_default, rsv_running = False,
     rsv_connections = [], rsv_service_uuid = 1\<rparr>"

lemma sample_server_reach: "server_reach sample_server_api sample_server"
  by (rule server_reach.created [where config = ServerConfig_default])
    (simp add: RfcommServer_new_def sample_server_api_def sample_server_def)

lemma sample_started: "RfcommServer_start sample_server_api sample_server () =
    (Inr (), sample_server\<lparr>rsv_provider := Some 2, rsv_listener := Some 3, rsv_running := True\<rparr>, ())"
  by (simp add: RfcommServer_start_def on_call_def sample_server_api_def sample_server_def)

theorem server_lifecycle_witness:
  "let srv = sample_server\<lparr>rsv_provider := Some 2, rsv_listener := Some 3, rsv_running := True\<rparr> in
     fst (RfcommServer_stop sample_server_api srv ()) \<noteq> Inr () \<and>
     rsv_provider (fst (snd (RfcommServer_stop sample_server_api srv ()))) = None"
proof -
  let ?srv = "sample_server\<lparr>rsv_provider := Some 2, rsv_listener := Some 3, rsv_running := True\<rparr>"
  have reach: "server_reach sample_server_api ?srv"
    by (rule server_reach.called [OF sample_server_reach, where c = Start and w = "()" and w' = "()"])
      (simp add: server_step_def sample_started)
  obtain r srv1 w1 where start: "RfcommServer_start sample_server_api ?srv () = (r, srv1, w1)"
    using prod_cases3 by blast
  have stop: "RfcommServer_stop sample_server_api ?srv () = (Inl (bluetooth_error ''busy''), ?srv\<lparr>rsv_provider := None\<rparr>, ())"
    by (simp add: RfcommServer_stop_def on_call_def sample_server_api_def Let_def)
  show ?thesis
    using server_lifecycle [OF reach start stop] stop by simp
qed

subsection \<open>The queue of connections\<close>

text \<open>The stream that the platform opens for a connection, and for a burst of them.\<close>

definition opened_stream :: "('h, 'w) server_api \<Rightarrow> 'h \<Rightarrow> 'w \<Rightarrow> 'h RfcommStream option \<times> 'w" where
  "opened_stream api args w =
     (case sa_socket api args w of
        (Inl _, w) \<Rightarrow> (None, w)
      | (Inr socket, w) \<Rightarrow>
          (case RfcommStream_from_socket (sa_stream api) socket w of (Inl _, w) \<Rightarrow> (None, w) | (Inr stream, w) \<Rightarrow> (Some stream, w)))"

primrec opened_streams :: "('h, 'w) server_api \<Rightarrow> 'h list \<Rightarrow> 'w \<Rightarrow> 'h RfcommStream list" where
  "opened_streams api [] w = []"
| "opened_streams api (a # as) w =
     (case opened_stream api a w of (s, w) \<Rightarrow> (case s of None \<Rightarrow> [] | Some st \<Rightarrow> [st]) @ opened_streams api as w)"

primrec burst :: "('h, 'w) server_api \<Rightarrow> 'h list \<Rightarrow> 'h RfcommServer \<Rightarrow> 'w \<Rightarrow> 'h RfcommServer \<times> 'w" where
  "burst api [] srv w = (srv, w)"
| "burst api (a # as) srv w = (case connection_received api (Some a) srv w of (_, srv, w) \<Rightarrow> burst api as srv w)"

primrec accept_up_to :: "nat \<Rightarrow> 'h RfcommServer \<Rightarrow> 'h RfcommStream list" where
  "accept_up_to 0 srv = []"
| "accept_up_to (Suc n) srv =
     (case RfcommServer_accept srv of
        None \<Rightarrow> []
      | Some (Inl _, srv) \<Rightarrow> accept_up_to n srv
      | Some (Inr st, srv) \<Rightarrow> st # accept_up_to n srv)"

lemma connection_received_opened:
  assumes "connection_received api (Some a) srv w = (r, srv1, w1)" "opened_stream api a w = (s, w2)"
  shows "w1 = w2 \<and> srv1 = (case s of None \<Rightarrow> srv | Some st \<Rightarrow>
    if length (rsv_connections srv) < 100 then srv\<lparr>rsv_connections := rsv_connections srv @ [st]\<rparr> else srv)"
  using assms by (auto simp: connection_received_def opened_stream_def split: prod.splits sum.splits)

lemma burst_connections:
  "length (rsv_connections srv) \<le> 100 \<Longrightarrow>
    rsv_connections (fst (burst api as srv w)) = take 100 (rsv_connections srv @ opened_streams api as w)"
proof (induction as arbitrary: srv w)
  case Nil
  then show ?case by simp
next
  case (Cons a as)
  obtain r srv1 w1 where c: "connection_received api (Some a) srv w = (r, srv1, w1)"
    using prod_cases3 by blast
  obtain s w2 where o: "opened_stream api a w = (s, w2)"
    by (rule prod.exhaust)
  note eq = connection_received_opened [OF c o]
  have "length (rsv_connections srv1) \<le> 100"
    using eq Cons.prems by (auto split: option.splits)
  then show ?case
    using Cons.IH [of srv1 w1] Cons.prems eq by (auto simp: c o split: option.splits)
qed

lemma accept_up_to_take: "accept_up_to n srv = take n (rsv_connections srv)"
  by (induction n arbitrary: srv) (auto simp: RfcommServer_accept_def split: list.split)

text \<open>
  C26. Connections wait in order and no more than a hundred of them: after any burst the queue holds
  the first hundred of what waited and what was opened since, the rest is dropped; accepting hands
  them out in that order.
\<close>

theorem server_backlog:
  assumes "server_reach api srv" "burst api as srv w = (srv', w')"
  shows "rsv_connections srv' = take 100 (rsv_connections srv @ opened_streams api as w) \<and>
    accept_up_to n srv' = take n (take 100 (rsv_connections srv @ opened_streams api as w))"
  using burst_connections [of srv api as w] server_reach_ok [OF assms(1)] assms(2)
  by (simp add: server_ok_def accept_up_to_take)

theorem server_backlog_witness:
  "map rf_socket (accept_up_to 3 (fst (burst sample_server_api [7, 8] sample_server ()))) = [7, 8]"
proof -
  obtain srv' w' where b: "burst sample_server_api [7, 8] sample_server () = (srv', w')"
    by (rule prod.exhaust)
  have "map rf_socket (opened_streams sample_server_api [7, 8] ()) = [7, 8]" "rsv_connections sample_server = []"
    by (simp_all add: opened_stream_def RfcommStream_from_socket_def unwrapped_def sample_server_api_def sample_stream_api_def
        sample_server_def)
  then show ?thesis
    using server_backlog [OF sample_server_reach b, of 3] b by (simp add: take_map [symmetric] del: opened_streams.simps)
qed

subsection \<open>Connecting a client\<close>

definition connect_outcome :: "'h RfcommClient \<Rightarrow> DeviceId \<Rightarrow> 'h RfcommStream result \<times> 'h RfcommClient \<times> 'w \<Rightarrow> bool" where
  "connect_outcome cl d x \<longleftrightarrow> (case x of (r, cl', w') \<Rightarrow>
     (\<exists>e. r = Inl (Err e)) \<and> cl' = cl \<or>
     (\<forall>e. r \<noteq> Inl (Err e)) \<and> \<not> rcl_connected cl \<and> (\<exists>socket.
       cl' = cl\<lparr>rcl_socket := Some socket, rcl_remote_device_id := Some d, rcl_connected := True\<rparr> \<and>
       (\<forall>st. r = Inr st \<longrightarrow> rf_socket st = socket \<and> \<not> rf_closed st)))"

lemma from_socket_outcome:
  "RfcommStream_from_socket api socket w = (r, w') \<Longrightarrow>
    (\<forall>e. r \<noteq> Inl (Err e)) \<and> (\<forall>st. r = Inr st \<longrightarrow> rf_socket st = socket \<and> \<not> rf_closed st)"
  by (auto simp: RfcommStream_from_socket_def unwrapped_def split: prod.splits sum.splits)

lemma connect_outcome: "connect_outcome cl d (RfcommClient_connect api d cl w)"
proof (cases "rcl_connected cl")
  case True
  then show ?thesis
    by (simp add: RfcommClient_connect_def connect_outcome_def)
next
  case False
  note failed = on_call_rule [where P = "connect_outcome cl d" and err = bluetooth_error]
  have err: "connect_outcome cl d (Inl (bluetooth_error e), cl, w')" for e w'
    by (simp add: connect_outcome_def bluetooth_error_def)
  have opened: "connect_outcome cl d (case RfcommStream_from_socket (ca_stream api) socket w of
      (r, w) \<Rightarrow> (r, cl\<lparr>rcl_socket := Some socket, rcl_remote_device_id := Some d, rcl_connected := True\<rparr>, w))" for socket w
    using False from_socket_outcome [of "ca_stream api" socket w]
    by (cases "RfcommStream_from_socket (ca_stream api) socket w") (auto simp: connect_outcome_def)
  show ?thesis
  proof (cases "ca_uuid api (clc_service_uuid (rcl_config cl))")
    case (Inl e)
    then show ?thesis
      using False by (simp add: RfcommClient_connect_def connect_outcome_def)
  next
    case (Inr uuid)
    have none: "connect_outcome cl d (Inl (Err e), cl, w')" for e w'
      by (simp add: connect_outcome_def)
    have found: "connect_outcome cl d (case x of
        (None, w) \<Rightarrow> (Inl (Err (Bluetooth ''RFCOMM service not found on device'')), cl, w)
      | (Some service_info, w) \<Rightarrow> k service_info w)"
      if "\<And>service_info w. connect_outcome cl d (k service_info w)" for x k
      using that none by (cases x; cases "fst x") simp_all
    show ?thesis
      unfolding RfcommClient_connect_def if_not_P [OF False] Inr sum.case
      by (intro failed found err opened)
  qed
qed

text \<open>
  C36. What connecting does: a connected client refuses without touching the platform; a connection
  that fails leaves the client as it was; one that succeeds gives an open stream on the client's
  socket and remembers the device, and only a client that was not connected succeeds. When opening the
  stream on the connected socket panics, the client counts as connected all the same.
  Disconnecting always succeeds and allows connecting again.
\<close>

theorem client_connection:
  assumes "RfcommClient_connect api d cl w = (r, cl', w')"
  shows "(rcl_connected cl \<longrightarrow> r = Inl (Err (Config ''Already connected'')) \<and> w' = w) \<and>
    (\<forall>e. r = Inl (Err e) \<longrightarrow> cl' = cl) \<and>
    (\<forall>st. r = Inr st \<longrightarrow> \<not> rcl_connected cl \<and> \<not> rf_closed st \<and> rcl_socket cl' = Some (rf_socket st) \<and>
       remote_device_id cl' = Some d \<and> rcl_config cl' = rcl_config cl) \<and>
    ((\<forall>e. r \<noteq> Inl (Err e)) \<longrightarrow> is_connected cl') \<and>
    fst (RfcommClient_disconnect cl') = Inr () \<and> \<not> is_connected (snd (RfcommClient_disconnect cl')) \<and>
    remote_device_id (snd (RfcommClient_disconnect cl')) = None"
proof -
  have "rcl_connected cl \<Longrightarrow> r = Inl (Err (Config ''Already connected'')) \<and> w' = w"
    using assms by (simp add: RfcommClient_connect_def)
  then show ?thesis
    using connect_outcome [of cl d api w, unfolded assms connect_outcome_def]
    by (auto simp: is_connected_def remote_device_id_def RfcommClient_disconnect_def)
qed

text \<open>A platform with three services, whose ids it gives as text.\<close>

definition sample_client_api :: "(nat, unit) client_api" where
  "sample_client_api =
     \<lparr>ca_stream = sample_stream_api, ca_uuid = (\<lambda>s. Inr 1), ca_service_id = (\<lambda>u w. (Inr 1, w)),
      ca_selector = (\<lambda>h w. (Inr ''all'', w)), ca_find_all = (\<lambda>s w. (Inr [5, 6, 7], w)),
      ca_info_id = (\<lambda>h w. (if h = 5 then (Inl ''gone'', w) else if h = 6 then (Inr ''dev-A#1'', w) else (Inr ''dev-B#1'', w))),
      ca_from_id = (\<lambda>s w. (Inr 8, w)), ca_new_socket = (\<lambda>w. (Inr 9, w)), ca_host_name = (\<lambda>h w. (Inr 10, w)),
      ca_service_name = (\<lambda>h w. (Inr ''1'', w)), ca_connect = (\<lambda>s h n w. (Inr (), w))\<rparr>"

definition sample_client :: "nat RfcommClient" where
  "sample_client = \<lparr>rcl_config = ClientConfig_default, rcl_socket = None, rcl_connected = False, rcl_remote_device_id = None\<rparr>"

theorem client_connection_witness:
  "fst (RfcommClient_connect sample_client_api \<lparr>did_value = [0x42]\<rparr> (sample_client\<lparr>rcl_connected := True\<rparr>) ()) =
     Inl (Err (Config ''Already connected''))"
proof -
  obtain r cl' w' where c: "RfcommClient_connect sample_client_api \<lparr>did_value = [0x42]\<rparr> (sample_client\<lparr>rcl_connected := True\<rparr>) () = (r, cl', w')"
    using prod_cases3 by blast
  show ?thesis
    using client_connection [OF c] c by simp
qed

subsection \<open>Which service a client takes\<close>

lemma utf8_ascii: "\<forall>b \<in> set bs. b < 0x80 \<Longrightarrow> from_utf8_lossy bs = bs"
  by (induction bs) (simp_all add: utf8_chunk_def utf8_width_def)

text \<open>
  The service that a client takes is the first whose id contains the text of the device id, which
  for an id of ASCII bytes is that text itself. So an id that is a part of another device's takes
  whichever comes first, and the empty id takes the first service of all.
\<close>

theorem first_matching_service:
  assumes "\<forall>service w. ca_info_id api service w = (ids service, w)"
  shows "find_service api t services w = (find (\<lambda>s. sublist t (case ids s of Inl _ \<Rightarrow> [] | Inr i \<Rightarrow> i)) services, w) \<and>
    find_service api (lossy_string []) (service # services) w = (Some service, w) \<and>
    ((\<forall>b \<in> set bs. b < 0x80) \<longrightarrow> lossy_string bs = map (\<lambda>b. char_of (unat b)) bs)"
proof -
  have "find_service api t services w = (find (\<lambda>s. sublist t (case ids s of Inl _ \<Rightarrow> [] | Inr i \<Rightarrow> i)) services, w)"
    using assms by (induction services) simp_all
  then show ?thesis
    using assms by (simp add: lossy_string_def utf8_ascii)
qed

theorem first_matching_service_witness:
  "find_service sample_client_api (lossy_string [0x42]) [5, 6, 7] () = (Some 7, ())"
proof -
  have ids: "\<forall>service w. ca_info_id sample_client_api service w =
      ((if service = 5 then Inl ''gone'' else if service = 6 then Inr ''dev-A#1'' else Inr ''dev-B#1''), w)"
    by (simp add: sample_client_api_def)
  have "lossy_string [0x42] = ''B''"
    using first_matching_service [OF ids, where bs = "[0x42]"] by (simp add: char_of_def bit_0)
  then show ?thesis
    using first_matching_service [OF ids, where t = "''B''" and services = "[5, 6, 7]"] by (simp add: sublist_code)
qed

end
