(* ===== verification/Bluetooth_Adapter.thy ===== *)
theory Bluetooth_Adapter
  imports Bluetooth_Endpoints
begin

text \<open>
  The adapter of \<^verbatim>\<open>bluetooth/src/adapter.rs\<close>, the platform layer of \<^verbatim>\<open>bluetooth/src/platform.rs\<close> and
  the manager of \<^verbatim>\<open>bluetooth/src/lib.rs\<close> above them. The devices that discovery finds are shared by
  all clones of an adapter and by the handler that the platform calls, so they are an argument of
  the operations and not a field.
\<close>

type_synonym i16 = "16 word"

subsection \<open>Devices and adapters\<close>

record BluetoothDevice =
  bd_id :: DeviceId
  bd_name :: "string option"
  bd_address :: string
  bd_paired :: bool
  bd_connected :: bool
  bd_rssi :: "i16 option"
  bd_device_class :: "u32 option"
  bd_services :: "string list"

record AdapterInfo =
  adi_id :: string
  adi_name :: string
  adi_address :: string
  adi_powered :: bool
  adi_discoverable :: bool
  adi_pairable :: bool

datatype AdapterState = PoweredOff | PoweredOn | Discovering

text \<open>The answers to pairing that the code tells apart; any other carries its text.\<close>

datatype pairing_status = Paired | AlreadyPaired | PairingOther string
datatype unpairing_status = Unpaired | AlreadyUnpaired | UnpairingOther string

record ('h, 'w) adapter_api =
  aa_address :: "'h \<Rightarrow> ('w, u64) call"
  aa_create_watcher :: "('w, 'h) call"
  aa_added :: "'h \<Rightarrow> ('w, unit) call"
  aa_start :: "'h \<Rightarrow> ('w, unit) call"
  aa_stop :: "'h \<Rightarrow> ('w, unit) call"
  aa_info_id :: "'h \<Rightarrow> ('w, string) call"
  aa_info_name :: "'h \<Rightarrow> ('w, string) call"
  aa_from_id :: "string \<Rightarrow> ('w, 'h) call"
  aa_pairing :: "'h \<Rightarrow> ('w, 'h) call"
  aa_pair :: "'h \<Rightarrow> ('w, 'h) call"
  aa_pair_status :: "'h \<Rightarrow> ('w, pairing_status) call"
  aa_unpair :: "'h \<Rightarrow> ('w, 'h) call"
  aa_unpair_status :: "'h \<Rightarrow> ('w, unpairing_status) call"
  aa_selector :: "('w, string) call"
  aa_find_all :: "string \<Rightarrow> ('w, 'h list) call"
  aa_default :: "('w, 'h) call"
  aa_adapter_from_id :: "string \<Rightarrow> ('w, 'h) call"

text \<open>A call under \<open>?\<close> in an operation that changes nothing of its own, and one under \<open>unwrap_or\<close>.\<close>

definition try_call :: "('w, 'a) call \<Rightarrow> ('a \<Rightarrow> 'w \<Rightarrow> 'b result \<times> 'w) \<Rightarrow> 'w \<Rightarrow> 'b result \<times> 'w" where
  "try_call c k w = (case c w of (Inl e, w) \<Rightarrow> (Inl (bluetooth_error e), w) | (Inr a, w) \<Rightarrow> k a w)"

definition or_else :: "('w, 'a) call \<Rightarrow> 'a \<Rightarrow> 'w \<Rightarrow> 'a \<times> 'w" where
  "or_else c d w = (case c w of (Inl _, w) \<Rightarrow> (d, w) | (Inr a, w) \<Rightarrow> (a, w))"

record 'h WindowsBluetoothAdapter =
  wba_adapter :: 'h
  wba_device_watcher :: "'h option"

type_synonym devices = "(string, BluetoothDevice) hmap"

definition WindowsBluetoothAdapter_new :: "'h \<Rightarrow> 'h WindowsBluetoothAdapter result \<times> devices" where
  "WindowsBluetoothAdapter_new adapter = (Inr \<lparr>wba_adapter = adapter, wba_device_watcher = None\<rparr>, [])"

definition adapter_id :: "('h, 'w) adapter_api \<Rightarrow> 'h WindowsBluetoothAdapter \<Rightarrow> 'w \<Rightarrow> string \<times> 'w" where
  "adapter_id api a w = (case or_else (aa_address api (wba_adapter a)) 0 w of (n, w) \<Rightarrow> (decimal (unat n), w))"

definition adapter_name :: "('h, 'w) adapter_api \<Rightarrow> 'h WindowsBluetoothAdapter \<Rightarrow> 'w \<Rightarrow> string \<times> 'w" where
  "adapter_name api a w = (case adapter_id api a w of (s, w) \<Rightarrow> (''Bluetooth Adapter '' @ s, w))"

definition is_powered :: "'h WindowsBluetoothAdapter \<Rightarrow> bool" where
  "is_powered a = True"

definition adapter_info :: "('h, 'w) adapter_api \<Rightarrow> 'h WindowsBluetoothAdapter \<Rightarrow> 'w \<Rightarrow> AdapterInfo \<times> 'w" where
  "adapter_info api a w =
     (case adapter_id api a w of
        (i, w) \<Rightarrow>
          (case adapter_name api a w of
             (n, w) \<Rightarrow>
               (case or_else (aa_address api (wba_adapter a)) 0 w of
                  (address, w) \<Rightarrow>
                    (\<lparr>adi_id = i, adi_name = n, adi_address = decimal (unat address), adi_powered = is_powered a,
                      adi_discoverable = False, adi_pairable = False\<rparr>, w))))"

subsection \<open>Discovery\<close>

text \<open>The handler that the platform calls for each device it finds.\<close>

definition device_added :: "('h, 'w) adapter_api \<Rightarrow> 'h option \<Rightarrow> devices \<Rightarrow> 'w \<Rightarrow> devices \<times> 'w" where
  "device_added api info devices w =
     (case info of
        None \<Rightarrow> (devices, w)
      | Some info \<Rightarrow>
          (case or_else (aa_info_id api info) [] w of
             (i, w) \<Rightarrow>
               (case or_else (aa_info_name api info) [] w of
                  (n, w) \<Rightarrow>
                    (hm_insert i \<lparr>bd_id = \<lparr>did_value = ascii i\<rparr>, bd_name = Some n, bd_address = i, bd_paired = False,
                       bd_connected = False, bd_rssi = None, bd_device_class = None, bd_services = []\<rparr> devices, w))))"

definition start_discovery ::
  "('h, 'w) adapter_api \<Rightarrow> 'h WindowsBluetoothAdapter \<Rightarrow> 'w \<Rightarrow> unit result \<times> 'h WindowsBluetoothAdapter \<times> 'w" where
  "start_discovery api a =
     on_call (aa_create_watcher api) bluetooth_error a (\<lambda>watcher.
     on_call (aa_added api watcher) bluetooth_error a (\<lambda>_.
     on_call (aa_start api watcher) bluetooth_error a (\<lambda>_ w.
       (Inr (), a\<lparr>wba_device_watcher := Some watcher\<rparr>, w))))"

definition stop_discovery :: "('h, 'w) adapter_api \<Rightarrow> 'h WindowsBluetoothAdapter \<Rightarrow> 'w \<Rightarrow> 'h WindowsBluetoothAdapter \<times> 'w" where
  "stop_discovery api a w =
     (case wba_device_watcher a of
        None \<Rightarrow> (a, w)
      | Some watcher \<Rightarrow> (a\<lparr>wba_device_watcher := None\<rparr>, snd (aa_stop api watcher w)))"

definition get_discovered_devices :: "devices \<Rightarrow> BluetoothDevice list" where
  "get_discovered_devices devices = hm_values devices"

subsection \<open>Pairing\<close>

definition pair_device :: "('h, 'w) adapter_api \<Rightarrow> DeviceId \<Rightarrow> 'w \<Rightarrow> unit result \<times> 'w" where
  "pair_device api device_id =
     try_call (aa_from_id api (lossy_string (did_value device_id))) (\<lambda>device_info.
     try_call (aa_pairing api device_info) (\<lambda>pairing.
     try_call (aa_pair api pairing) (\<lambda>result.
     try_call (aa_pair_status api result) (\<lambda>status w.
       (case status of
          Paired \<Rightarrow> (Inr (), w)
        | AlreadyPaired \<Rightarrow> (Inr (), w)
        | PairingOther s \<Rightarrow> (Inl (Err (Bluetooth (''Pairing failed: '' @ s))), w))))))"

definition unpair_device :: "('h, 'w) adapter_api \<Rightarrow> DeviceId \<Rightarrow> 'w \<Rightarrow> unit result \<times> 'w" where
  "unpair_device api device_id =
     try_call (aa_from_id api (lossy_string (did_value device_id))) (\<lambda>device_info.
     try_call (aa_pairing api device_info) (\<lambda>pairing.
     try_call (aa_unpair api pairing) (\<lambda>result.
     try_call (aa_unpair_status api result) (\<lambda>status w.
       (case status of
          Unpaired \<Rightarrow> (Inr (), w)
        | AlreadyUnpaired \<Rightarrow> (Inr (), w)
        | UnpairingOther s \<Rightarrow> (Inl (Err (Bluetooth (''Unpairing failed: '' @ s))), w))))))"

primrec paired_of :: "('h, 'w) adapter_api \<Rightarrow> 'h list \<Rightarrow> 'w \<Rightarrow> BluetoothDevice list \<times> 'w" where
  "paired_of api [] w = ([], w)"
| "paired_of api (info # infos) w =
     (case or_else (aa_info_id api info) [] w of
        (i, w) \<Rightarrow>
          (case or_else (aa_info_name api info) [] w of
             (n, w) \<Rightarrow>
               (case paired_of api infos w of
                  (ds, w) \<Rightarrow>
                    (\<lparr>bd_id = \<lparr>did_value = ascii i\<rparr>, bd_name = Some n, bd_address = i, bd_paired = True, bd_connected = False,
                      bd_rssi = None, bd_device_class = None, bd_services = []\<rparr> # ds, w))))"

definition adapter_paired_devices :: "('h, 'w) adapter_api \<Rightarrow> 'w \<Rightarrow> BluetoothDevice list result \<times> 'w" where
  "adapter_paired_devices api =
     try_call (aa_selector api) (\<lambda>selector.
     try_call (aa_find_all api selector) (\<lambda>devices w.
       (case paired_of api devices w of (ds, w) \<Rightarrow> (Inr ds, w))))"

definition get_default_adapter ::
  "('h, 'w) adapter_api \<Rightarrow> 'w \<Rightarrow> 'h WindowsBluetoothAdapter result \<times> 'w" where
  "get_default_adapter api = try_call (aa_default api) (\<lambda>adapter w. (fst (WindowsBluetoothAdapter_new adapter), w))"

primrec infos_of :: "('h, 'w) adapter_api \<Rightarrow> 'h list \<Rightarrow> 'w \<Rightarrow> AdapterInfo list \<times> 'w" where
  "infos_of api [] w = ([], w)"
| "infos_of api (info # infos) w =
     (case aa_info_id api info w of
        (Inl _, w) \<Rightarrow> infos_of api infos w
      | (Inr i, w) \<Rightarrow>
          (case aa_adapter_from_id api i w of
             (Inl _, w) \<Rightarrow> infos_of api infos w
           | (Inr adapter, w) \<Rightarrow>
               (case adapter_info api \<lparr>wba_adapter = adapter, wba_device_watcher = None\<rparr> w of
                  (x, w) \<Rightarrow> (case infos_of api infos w of (xs, w) \<Rightarrow> (x # xs, w)))))"

definition list_adapters :: "('h, 'w) adapter_api \<Rightarrow> 'w \<Rightarrow> AdapterInfo list result \<times> 'w" where
  "list_adapters api =
     try_call (aa_selector api) (\<lambda>selector.
     try_call (aa_find_all api selector) (\<lambda>devices w.
       (case infos_of api devices w of (xs, w) \<Rightarrow> (Inr xs, w))))"

subsection \<open>The platform layer\<close>

text \<open>The trait as a record of its methods, over the state of the platform.\<close>

record ('h, 'w) PlatformBluetooth =
  pb_platform_name :: string
  pb_get_default_adapter :: "'w \<Rightarrow> 'h WindowsBluetoothAdapter result \<times> 'w"
  pb_get_adapter :: "string \<Rightarrow> 'w \<Rightarrow> 'h WindowsBluetoothAdapter result \<times> 'w"
  pb_list_adapters :: "'w \<Rightarrow> AdapterInfo list result \<times> 'w"
  pb_create_server :: "ServerConfig \<Rightarrow> 'w \<Rightarrow> 'h RfcommServer result \<times> 'w"
  pb_create_client :: "ClientConfig \<Rightarrow> 'w \<Rightarrow> 'h RfcommClient result \<times> 'w"
  pb_scan_devices :: "string \<Rightarrow> u32 \<Rightarrow> 'w \<Rightarrow> BluetoothDevice list result \<times> 'w"
  pb_pair_device :: "string \<Rightarrow> DeviceId \<Rightarrow> 'w \<Rightarrow> unit result \<times> 'w"
  pb_unpair_device :: "string \<Rightarrow> DeviceId \<Rightarrow> 'w \<Rightarrow> unit result \<times> 'w"
  pb_get_paired_devices :: "string \<Rightarrow> 'w \<Rightarrow> BluetoothDevice list result \<times> 'w"

definition unimplemented :: "string \<Rightarrow> 'w \<Rightarrow> 'a result \<times> 'w" where
  "unimplemented msg w = (Inl (Panic (''not implemented: '' @ msg)), w)"

definition WindowsBluetooth :: "('h, 'w) PlatformBluetooth" where
  "WindowsBluetooth =
     \<lparr>pb_platform_name = ''Windows'',
      pb_get_default_adapter = unimplemented ''Windows Bluetooth adapter not yet implemented'',
      pb_get_adapter = (\<lambda>_. unimplemented ''Windows Bluetooth adapter not yet implemented''),
      pb_list_adapters = unimplemented ''Windows Bluetooth list_adapters not yet implemented'',
      pb_create_server = (\<lambda>_. unimplemented ''Windows RFCOMM server not yet implemented''),
      pb_create_client = (\<lambda>_. unimplemented ''Windows RFCOMM client not yet implemented''),
      pb_scan_devices = (\<lambda>_ _. unimplemented ''Windows scan_devices not yet implemented''),
      pb_pair_device = (\<lambda>_ _. unimplemented ''Windows pair_device not yet implemented''),
      pb_unpair_device = (\<lambda>_ _. unimplemented ''Windows unpair_device not yet implemented''),
      pb_get_paired_devices = (\<lambda>_. unimplemented ''Windows get_paired_devices not yet implemented'')\<rparr>"

definition LinuxBluetooth :: "('h, 'w) PlatformBluetooth" where
  "LinuxBluetooth =
     \<lparr>pb_platform_name = ''Linux'',
      pb_get_default_adapter = unimplemented ''Linux Bluetooth not yet implemented'',
      pb_get_adapter = (\<lambda>_. unimplemented ''Linux Bluetooth not yet implemented''),
      pb_list_adapters = unimplemented ''Linux Bluetooth not yet implemented'',
      pb_create_server = (\<lambda>_. unimplemented ''Linux Bluetooth not yet implemented''),
      pb_create_client = (\<lambda>_. unimplemented ''Linux Bluetooth not yet implemented''),
      pb_scan_devices = (\<lambda>_ _. unimplemented ''Linux Bluetooth not yet implemented''),
      pb_pair_device = (\<lambda>_ _. unimplemented ''Linux Bluetooth not yet implemented''),
      pb_unpair_device = (\<lambda>_ _. unimplemented ''Linux Bluetooth not yet implemented''),
      pb_get_paired_devices = (\<lambda>_. unimplemented ''Linux Bluetooth not yet implemented'')\<rparr>"

definition MacOSBluetooth :: "('h, 'w) PlatformBluetooth" where
  "MacOSBluetooth =
     \<lparr>pb_platform_name = ''macOS'',
      pb_get_default_adapter = unimplemented ''macOS Bluetooth not yet implemented'',
      pb_get_adapter = (\<lambda>_. unimplemented ''macOS Bluetooth not yet implemented''),
      pb_list_adapters = unimplemented ''macOS Bluetooth not yet implemented'',
      pb_create_server = (\<lambda>_. unimplemented ''macOS Bluetooth not yet implemented''),
      pb_create_client = (\<lambda>_. unimplemented ''macOS Bluetooth not yet implemented''),
      pb_scan_devices = (\<lambda>_ _. unimplemented ''macOS Bluetooth not yet implemented''),
      pb_pair_device = (\<lambda>_ _. unimplemented ''macOS Bluetooth not yet implemented''),
      pb_unpair_device = (\<lambda>_ _. unimplemented ''macOS Bluetooth not yet implemented''),
      pb_get_paired_devices = (\<lambda>_. unimplemented ''macOS Bluetooth not yet implemented'')\<rparr>"

text \<open>The operating system that the crate is compiled for chooses the implementation.\<close>

datatype target_os = Target_windows | Target_linux | Target_macos | Target_other

definition new_platform_bluetooth :: "target_os \<Rightarrow> ('h, 'w) PlatformBluetooth result" where
  "new_platform_bluetooth os =
     (case os of
        Target_windows \<Rightarrow> Inr WindowsBluetooth
      | Target_linux \<Rightarrow> Inr LinuxBluetooth
      | Target_macos \<Rightarrow> Inr MacOSBluetooth
      | Target_other \<Rightarrow> Inl (Err (Config ''Unsupported platform'')))"

subsection \<open>The manager\<close>

record ('h, 'w) BluetoothManager =
  bm_platform :: "('h, 'w) PlatformBluetooth"
  bm_adapter :: "'h WindowsBluetoothAdapter option"

definition BluetoothManager_new :: "target_os \<Rightarrow> ('h, 'w) BluetoothManager result" where
  "BluetoothManager_new os = bindR (new_platform_bluetooth os) (\<lambda>p. Inr \<lparr>bm_platform = p, bm_adapter = None\<rparr>)"

definition manager_get_default_adapter ::
  "('h, 'w) BluetoothManager \<Rightarrow> 'w \<Rightarrow> 'h WindowsBluetoothAdapter result \<times> ('h, 'w) BluetoothManager \<times> 'w" where
  "manager_get_default_adapter m w =
     (case bm_adapter m of
        Some adapter \<Rightarrow> (Inr adapter, m, w)
      | None \<Rightarrow>
          (case pb_get_default_adapter (bm_platform m) w of
             (Inl e, w) \<Rightarrow> (Inl e, m, w)
           | (Inr adapter, w) \<Rightarrow> (Inr adapter, m\<lparr>bm_adapter := Some adapter\<rparr>, w)))"

definition manager_get_adapter ::
  "string \<Rightarrow> ('h, 'w) BluetoothManager \<Rightarrow> 'w \<Rightarrow> 'h WindowsBluetoothAdapter result \<times> ('h, 'w) BluetoothManager \<times> 'w" where
  "manager_get_adapter aid m w =
     (case pb_get_adapter (bm_platform m) aid w of
        (Inl e, w) \<Rightarrow> (Inl e, m, w)
      | (Inr adapter, w) \<Rightarrow> (Inr adapter, m\<lparr>bm_adapter := Some adapter\<rparr>, w))"

definition manager_list_adapters :: "('h, 'w) BluetoothManager \<Rightarrow> 'w \<Rightarrow> AdapterInfo list result \<times> 'w" where
  "manager_list_adapters m = pb_list_adapters (bm_platform m)"

definition create_server :: "ServerConfig \<Rightarrow> ('h, 'w) BluetoothManager \<Rightarrow> 'w \<Rightarrow> 'h RfcommServer result \<times> 'w" where
  "create_server config m = pb_create_server (bm_platform m) config"

definition create_client :: "ClientConfig \<Rightarrow> ('h, 'w) BluetoothManager \<Rightarrow> 'w \<Rightarrow> 'h RfcommClient result \<times> 'w" where
  "create_client config m = pb_create_client (bm_platform m) config"

definition platform_name :: "('h, 'w) BluetoothManager \<Rightarrow> string" where
  "platform_name m = pb_platform_name (bm_platform m)"

subsection \<open>Properties\<close>

text \<open>
  The devices that discovery has reported are a store under their platform ids: the last report of an
  id is the one that is kept, each id is kept once, and nothing is ever removed.
\<close>

primrec reports :: "('h, 'w) adapter_api \<Rightarrow> 'h list \<Rightarrow> devices \<Rightarrow> 'w \<Rightarrow> devices \<times> 'w" where
  "reports api [] devices w = (devices, w)"
| "reports api (info # infos) devices w = (case device_added api (Some info) devices w of (devices, w) \<Rightarrow> reports api infos devices w)"

theorem discovery_keeps_last:
  assumes "\<forall>h w. aa_info_id api h w = (Inr (ids h), w)" "\<forall>h w. aa_info_name api h w = (Inr (names h), w)" "hm_wf devices"
  shows "hm_wf (fst (reports api infos devices w)) \<and>
    map_option bd_name (hm_get (fst (reports api infos devices w)) i) =
      (case rev (filter (\<lambda>h. ids h = i) infos) of
         [] \<Rightarrow> map_option bd_name (hm_get devices i)
       | h # _ \<Rightarrow> Some (Some (names h)))"
  using assms(3)
proof (induction infos arbitrary: devices w)
  case Nil
  then show ?case by simp
next
  case (Cons h infos)
  obtain d where d: "device_added api (Some h) devices w = (hm_insert (ids h) d devices, w)" "bd_name d = Some (names h)"
    using assms(1,2) by (auto simp: device_added_def or_else_def)
  show ?case
    using Cons.IH [of "hm_insert (ids h) d devices" w] Cons.prems
    by (auto simp: d hm_get_insert hm_wf_insert split: list.split)
qed

text \<open>
  Bluetooth is out of reach on every system: on Windows, Linux and macOS a manager is created, and
  everything that is asked of it panics as not implemented and changes nothing; on any other system
  there is no manager.
\<close>

theorem bluetooth_unavailable:
  shows "case BluetoothManager_new os of
      Inl e \<Rightarrow> os = Target_other \<and> e = Err (Config ''Unsupported platform'')
    | Inr m \<Rightarrow> os \<noteq> Target_other \<and>
        platform_name m = (case os of Target_windows \<Rightarrow> ''Windows'' | Target_linux \<Rightarrow> ''Linux'' | _ \<Rightarrow> ''macOS'') \<and>
        (\<exists>msg. manager_get_default_adapter m w = (Inl (Panic msg), m, w)) \<and>
        (\<exists>msg. manager_get_adapter i m w = (Inl (Panic msg), m, w)) \<and>
        (\<exists>msg. manager_list_adapters m w = (Inl (Panic msg), w)) \<and>
        (\<exists>msg. create_server sc m w = (Inl (Panic msg), w)) \<and> (\<exists>msg. create_client cc m w = (Inl (Panic msg), w))"
  by (cases os)
    (simp_all add: BluetoothManager_new_def new_platform_bluetooth_def platform_name_def manager_get_default_adapter_def
      manager_get_adapter_def manager_list_adapters_def create_server_def create_client_def WindowsBluetooth_def
      LinuxBluetooth_def MacOSBluetooth_def unimplemented_def)

text \<open>
  On a platform that works, the first adapter asked for becomes the default one and later requests for
  the default make no call; asking for an adapter by its id makes that one the default.
\<close>

theorem default_adapter_cached:
  assumes "manager_get_default_adapter m w = (Inr a, m', w')" "manager_get_adapter i m' w' = (Inr b, m'', w'')"
  shows "manager_get_default_adapter m' v = (Inr a, m', v) \<and> manager_get_default_adapter m'' v = (Inr b, m'', v)"
  using assms by (auto simp: manager_get_default_adapter_def manager_get_adapter_def split: option.splits prod.splits sum.splits)

end
