(* ===== verification/Proto_Link.thy ===== *)
theory Proto_Link
  imports ProtoTypes
begin

text \<open>
  The messages and enumerations of \<^verbatim>\<open>protocol/src/pb/bpl.protocol.rs\<close> for links, sessions, channels and
  services that no hand-written source reads: the vocabulary that the desktop shares with the phone.
  A record's fields carry the name of their message; a floating-point number is its bits. Every
  enumeration keeps the contract \<open>proto_enum\<close>.
\<close>

type_synonym f32_bits = "32 word"
type_synonym f64_bits = "64 word"

subsection \<open>Messages\<close>

record Result =
  result_code :: i32
  result_message :: string
  result_details :: bytes

record FileMetadata =
  file_metadata_path :: string
  file_metadata_name :: string
  file_metadata_size :: u64
  file_metadata_is_directory :: bool
  file_metadata_modified_time :: u64
  file_metadata_created_time :: u64
  file_metadata_mime_type :: string
  file_metadata_hash :: string
  file_metadata_permissions :: u32
  file_metadata_owner :: string
  file_metadata_group :: string
  file_metadata_is_symlink :: bool
  file_metadata_symlink_target :: string
  file_metadata_extended_attributes :: "(string, string) hmap"

record DirectoryEntry =
  directory_entry_metadata :: "FileMetadata option"

record ByteRange =
  byte_range_offset :: u64
  byte_range_length :: u64

record ErrorDetail =
  error_detail_code :: i32
  error_detail_message :: string
  error_detail_service_id :: string
  error_detail_operation :: string
  error_detail_context :: "(string, string) hmap"

record WindowUpdate =
  window_update_channel_id :: "ChannelId option"
  window_update_window_size :: u32

record Frame =
  frame_header :: "FrameHeader option"
  frame_payload :: bytes
  frame_auth_tag :: bytes

record FrameFragment =
  frame_fragment_header :: "FrameHeader option"
  frame_fragment_payload :: bytes
  frame_fragment_fragment_index :: u32
  frame_fragment_total_fragments :: u32
  frame_fragment_auth_tag :: bytes

record AuthFailure =
  auth_failure_reason :: i32
  auth_failure_message :: string

record ChannelOpenAck =
  channel_open_ack_channel_id :: "ChannelId option"
  channel_open_ack_result :: "Result option"
  channel_open_ack_window_size :: u32
  channel_open_ack_max_frame_size :: u32

record ErrorFrame =
  error_frame_error :: "ErrorDetail option"
  error_frame_original_frame_type :: i32
  error_frame_original_sequence :: "SequenceNumber option"

record KeepAliveResponse =
  keep_alive_response_timestamp :: "Timestamp option"
  keep_alive_response_sequence :: u32
  keep_alive_response_rtt_ms :: u64

record SessionCloseRequest =
  session_close_request_reason :: i32
  session_close_request_message :: string

record SessionCloseResponse =
  session_close_response_result :: i32

record SessionState =
  session_state_session_id :: "SessionId option"
  session_state_peer_device_id :: "DeviceId option"
  session_state_protocol_version :: "ProtocolVersion option"
  session_state_session_keys :: bytes
  session_state_active_services :: "ServiceCapability list"
  session_state_created_at :: "Timestamp option"
  session_state_last_activity :: "Timestamp option"
  session_state_bytes_sent :: u64
  session_state_bytes_received :: u64
  session_state_metadata :: "(string, string) hmap"

record SessionResumeRequest =
  session_resume_request_session_id :: "SessionId option"
  session_resume_request_device_id :: "DeviceId option"
  session_resume_request_resume_token :: bytes
  session_resume_request_client_nonce :: bytes

record SessionResumeResponse =
  session_resume_response_result :: i32
  session_resume_response_session_id :: "SessionId option"
  session_resume_response_server_nonce :: bytes
  session_resume_response_new_session_keys :: bytes
  session_resume_response_error_message :: string

record SessionConfig =
  session_config_protocol_version :: "ProtocolVersion option"
  session_config_local_device_id :: "DeviceId option"
  session_config_remote_device_id :: "DeviceId option"
  session_config_session_id :: "SessionId option"
  session_config_negotiated_capabilities :: "ServiceCapability list"
  session_config_capability_versions :: "(string, u32) hmap"
  session_config_max_channels :: u32
  session_config_max_frame_size :: u32
  session_config_keepalive :: "KeepAliveConfig option"
  session_config_session_keys :: bytes

record CapabilityNegotiateResponse =
  capability_negotiate_response_result :: i32
  capability_negotiate_response_negotiated_version :: "ProtocolVersion option"
  capability_negotiate_response_negotiated_capabilities :: "ServiceCapability list"
  capability_negotiate_response_missing_required :: "string list"
  capability_negotiate_response_unsupported :: "string list"
  capability_negotiate_response_error_message :: string

record CapabilityNegotiateComplete =
  capability_negotiate_complete_success :: bool
  capability_negotiate_complete_session_id :: "SessionId option"
  capability_negotiate_complete_active_services :: "ServiceCapability list"

record ServiceVersion =
  service_version_service_id :: string
  service_version_min_version :: u32
  service_version_max_version :: u32
  service_version_preferred_version :: u32

record CapabilityAdvertisement =
  capability_advertisement_service_id :: string
  capability_advertisement_min_version :: u32
  capability_advertisement_max_version :: u32
  capability_advertisement_preferred_version :: u32
  capability_advertisement_features :: "(string, string) hmap"
  capability_advertisement_required :: bool

record PskChallenge =
  psk_challenge_salt :: bytes
  psk_challenge_iterations :: u32
  psk_challenge_server_nonce :: bytes

record PskResponse =
  psk_response_client_nonce :: bytes
  psk_response_hmac :: bytes
  psk_response_proof :: bytes

record PskVerification =
  psk_verification_hmac :: bytes
  psk_verification_session_keys_encrypted :: bytes

record ChannelKeyMaterial =
  channel_key_material_channel_id :: "ChannelId option"
  channel_key_material_encryption_key :: bytes
  channel_key_material_auth_key :: bytes
  channel_key_material_iv :: bytes

record SessionKeyPackage =
  session_key_package_master_key :: bytes
  session_key_package_channels :: "ChannelKeyMaterial list"
  session_key_package_expires_at :: "Timestamp option"
  session_key_package_key_derivation_salt :: bytes

record KeyDerivationParams =
  key_derivation_params_algorithm :: string
  key_derivation_params_salt :: bytes
  key_derivation_params_iterations :: u32
  key_derivation_params_info :: bytes
  key_derivation_params_key_length :: u32

record KeyRotationRequest =
  key_rotation_request_new_master_key :: bytes
  key_rotation_request_effective_at :: "Timestamp option"

record KeyRotationResponse =
  key_rotation_response_result :: i32
  key_rotation_response_accepted :: bool

record AuthState =
  auth_state_method :: i32
  auth_state_step :: i32
  auth_state_started_at :: "Timestamp option"
  auth_state_last_activity :: "Timestamp option"
  auth_state_attempts :: u32
  auth_state_error :: string

record PskProvisioningRequest =
  psk_provisioning_request_device_id :: "DeviceId option"
  psk_provisioning_request_device_name :: string
  psk_provisioning_request_public_key :: bytes
  psk_provisioning_request_proof :: bytes

record PskProvisioningResponse =
  psk_provisioning_response_result :: i32
  psk_provisioning_response_psk :: bytes
  psk_provisioning_response_psk_hint :: string
  psk_provisioning_response_error_message :: string

record TrustedDeviceList =
  trusted_device_list_devices :: "PairingRecord list"

record ChannelOpenResponse =
  channel_open_response_result :: i32
  channel_open_response_channel_id :: "ChannelId option"
  channel_open_response_negotiated_send_window :: u32
  channel_open_response_negotiated_receive_window :: u32
  channel_open_response_negotiated_max_frame_size :: u32
  channel_open_response_error_message :: string

record ChannelCloseRequest =
  channel_close_request_channel_id :: "ChannelId option"
  channel_close_request_reason :: i32
  channel_close_request_message :: string

record ChannelCloseResponse =
  channel_close_response_result :: i32
  channel_close_response_channel_id :: "ChannelId option"

record ChannelStatus =
  channel_status_channel_id :: "ChannelId option"
  channel_status_type :: i32
  channel_status_priority :: i32
  channel_status_send_window :: u32
  channel_status_send_window_used :: u32
  channel_status_receive_window :: u32
  channel_status_receive_window_used :: u32
  channel_status_frames_sent :: u64
  channel_status_frames_received :: u64
  channel_status_bytes_sent :: u64
  channel_status_bytes_received :: u64
  channel_status_retransmissions :: u64
  channel_status_errors :: u64
  channel_status_last_activity :: "Timestamp option"
  channel_status_service_id :: string

record MuxFrame =
  mux_frame_channel_id :: "ChannelId option"
  mux_frame_sequence :: "SequenceNumber option"
  mux_frame_flags :: u32
  mux_frame_payload_length :: u32
  mux_frame_payload :: bytes
  mux_frame_auth_tag :: bytes

record MuxStats =
  mux_stats_active_channels :: u32
  mux_stats_total_frames_sent :: u64
  mux_stats_total_frames_received :: u64
  mux_stats_total_bytes_sent :: u64
  mux_stats_total_bytes_received :: u64
  mux_stats_control_frames :: u64
  mux_stats_data_frames :: u64
  mux_stats_stream_frames :: u64
  mux_stats_urgent_frames :: u64
  mux_stats_dropped_frames :: u64
  mux_stats_flow_control_waits :: u64

record ServiceEvent =
  service_event_type :: i32
  service_event_service :: "ServiceInfo option"
  service_event_details :: string

record ServiceConfigUpdate =
  service_config_update_service_id :: string
  service_config_update_config :: "(string, string) hmap"
  service_config_update_persist :: bool

record ServiceConfigUpdateResponse =
  service_config_update_response_result :: i32
  service_config_update_response_error_message :: string

record ListServicesRequest =
  list_services_request_include_inactive :: bool

record ListServicesResponse =
  list_services_response_result :: i32
  list_services_response_services :: "ServiceInfo list"

subsection \<open>Enumerations\<close>

datatype (plugins only: code size) FilesystemFeature =
    FilesystemFeature_FsBasic
  | FilesystemFeature_FsDirectoryOps
  | FilesystemFeature_FsSymlinks
  | FilesystemFeature_FsExtendedAttrs
  | FilesystemFeature_FsWatch
  | FilesystemFeature_FsPermissions
  | FilesystemFeature_FsStreaming
  | FilesystemFeature_FsSearch

definition FilesystemFeature_i32 :: "FilesystemFeature \<Rightarrow> i32" where
  "FilesystemFeature_i32 t =
     (case t of
        FilesystemFeature_FsBasic \<Rightarrow> 0
      | FilesystemFeature_FsDirectoryOps \<Rightarrow> 1
      | FilesystemFeature_FsSymlinks \<Rightarrow> 2
      | FilesystemFeature_FsExtendedAttrs \<Rightarrow> 3
      | FilesystemFeature_FsWatch \<Rightarrow> 4
      | FilesystemFeature_FsPermissions \<Rightarrow> 5
      | FilesystemFeature_FsStreaming \<Rightarrow> 6
      | FilesystemFeature_FsSearch \<Rightarrow> 7)"

definition FilesystemFeature_variants :: "FilesystemFeature list" where
  "FilesystemFeature_variants =
    [FilesystemFeature_FsBasic,
     FilesystemFeature_FsDirectoryOps,
     FilesystemFeature_FsSymlinks,
     FilesystemFeature_FsExtendedAttrs,
     FilesystemFeature_FsWatch,
     FilesystemFeature_FsPermissions,
     FilesystemFeature_FsStreaming,
     FilesystemFeature_FsSearch]"

definition FilesystemFeature_try_from :: "i32 \<Rightarrow> FilesystemFeature option" where
  "FilesystemFeature_try_from v = find (\<lambda>t. FilesystemFeature_i32 t = v) FilesystemFeature_variants"

definition FilesystemFeature_as_str_name :: "FilesystemFeature \<Rightarrow> string" where
  "FilesystemFeature_as_str_name t =
     (case t of
        FilesystemFeature_FsBasic \<Rightarrow> ''FS_BASIC''
      | FilesystemFeature_FsDirectoryOps \<Rightarrow> ''FS_DIRECTORY_OPS''
      | FilesystemFeature_FsSymlinks \<Rightarrow> ''FS_SYMLINKS''
      | FilesystemFeature_FsExtendedAttrs \<Rightarrow> ''FS_EXTENDED_ATTRS''
      | FilesystemFeature_FsWatch \<Rightarrow> ''FS_WATCH''
      | FilesystemFeature_FsPermissions \<Rightarrow> ''FS_PERMISSIONS''
      | FilesystemFeature_FsStreaming \<Rightarrow> ''FS_STREAMING''
      | FilesystemFeature_FsSearch \<Rightarrow> ''FS_SEARCH'')"

definition FilesystemFeature_from_str_name :: "string \<Rightarrow> FilesystemFeature option" where
  "FilesystemFeature_from_str_name s = map_of
    [(''FS_BASIC'', FilesystemFeature_FsBasic),
     (''FS_DIRECTORY_OPS'', FilesystemFeature_FsDirectoryOps),
     (''FS_SYMLINKS'', FilesystemFeature_FsSymlinks),
     (''FS_EXTENDED_ATTRS'', FilesystemFeature_FsExtendedAttrs),
     (''FS_WATCH'', FilesystemFeature_FsWatch),
     (''FS_PERMISSIONS'', FilesystemFeature_FsPermissions),
     (''FS_STREAMING'', FilesystemFeature_FsStreaming),
     (''FS_SEARCH'', FilesystemFeature_FsSearch)] s"

interpretation FilesystemFeature_enum: proto_enum FilesystemFeature_variants FilesystemFeature_i32 FilesystemFeature_try_from FilesystemFeature_as_str_name FilesystemFeature_from_str_name
proof unfold_locales
  show "t \<in> set FilesystemFeature_variants" for t
    by (cases t) (simp_all add: FilesystemFeature_variants_def)
  show "distinct (map FilesystemFeature_i32 FilesystemFeature_variants)"
    by (simp add: FilesystemFeature_variants_def FilesystemFeature_i32_def)
  show "FilesystemFeature_from_str_name (FilesystemFeature_as_str_name t) = Some t" for t
    by (cases t) (simp_all add: FilesystemFeature_from_str_name_def FilesystemFeature_as_str_name_def)
  show "FilesystemFeature_from_str_name s = Some t \<Longrightarrow> FilesystemFeature_as_str_name t = s" for s t
    unfolding FilesystemFeature_from_str_name_def by (drule map_of_SomeD) (auto simp: FilesystemFeature_as_str_name_def)
qed (simp add: FilesystemFeature_try_from_def)

datatype (plugins only: code size) SyncFeature =
    SyncFeature_SyncBasic
  | SyncFeature_SyncBidirectional
  | SyncFeature_SyncConflictResolution
  | SyncFeature_SyncScheduled
  | SyncFeature_SyncFilters
  | SyncFeature_SyncHashVerification
  | SyncFeature_SyncPartial

definition SyncFeature_i32 :: "SyncFeature \<Rightarrow> i32" where
  "SyncFeature_i32 t =
     (case t of
        SyncFeature_SyncBasic \<Rightarrow> 0
      | SyncFeature_SyncBidirectional \<Rightarrow> 1
      | SyncFeature_SyncConflictResolution \<Rightarrow> 2
      | SyncFeature_SyncScheduled \<Rightarrow> 3
      | SyncFeature_SyncFilters \<Rightarrow> 4
      | SyncFeature_SyncHashVerification \<Rightarrow> 5
      | SyncFeature_SyncPartial \<Rightarrow> 6)"

definition SyncFeature_variants :: "SyncFeature list" where
  "SyncFeature_variants =
    [SyncFeature_SyncBasic,
     SyncFeature_SyncBidirectional,
     SyncFeature_SyncConflictResolution,
     SyncFeature_SyncScheduled,
     SyncFeature_SyncFilters,
     SyncFeature_SyncHashVerification,
     SyncFeature_SyncPartial]"

definition SyncFeature_try_from :: "i32 \<Rightarrow> SyncFeature option" where
  "SyncFeature_try_from v = find (\<lambda>t. SyncFeature_i32 t = v) SyncFeature_variants"

definition SyncFeature_as_str_name :: "SyncFeature \<Rightarrow> string" where
  "SyncFeature_as_str_name t =
     (case t of
        SyncFeature_SyncBasic \<Rightarrow> ''SYNC_BASIC''
      | SyncFeature_SyncBidirectional \<Rightarrow> ''SYNC_BIDIRECTIONAL''
      | SyncFeature_SyncConflictResolution \<Rightarrow> ''SYNC_CONFLICT_RESOLUTION''
      | SyncFeature_SyncScheduled \<Rightarrow> ''SYNC_SCHEDULED''
      | SyncFeature_SyncFilters \<Rightarrow> ''SYNC_FILTERS''
      | SyncFeature_SyncHashVerification \<Rightarrow> ''SYNC_HASH_VERIFICATION''
      | SyncFeature_SyncPartial \<Rightarrow> ''SYNC_PARTIAL'')"

definition SyncFeature_from_str_name :: "string \<Rightarrow> SyncFeature option" where
  "SyncFeature_from_str_name s = map_of
    [(''SYNC_BASIC'', SyncFeature_SyncBasic),
     (''SYNC_BIDIRECTIONAL'', SyncFeature_SyncBidirectional),
     (''SYNC_CONFLICT_RESOLUTION'', SyncFeature_SyncConflictResolution),
     (''SYNC_SCHEDULED'', SyncFeature_SyncScheduled),
     (''SYNC_FILTERS'', SyncFeature_SyncFilters),
     (''SYNC_HASH_VERIFICATION'', SyncFeature_SyncHashVerification),
     (''SYNC_PARTIAL'', SyncFeature_SyncPartial)] s"

interpretation SyncFeature_enum: proto_enum SyncFeature_variants SyncFeature_i32 SyncFeature_try_from SyncFeature_as_str_name SyncFeature_from_str_name
proof unfold_locales
  show "t \<in> set SyncFeature_variants" for t
    by (cases t) (simp_all add: SyncFeature_variants_def)
  show "distinct (map SyncFeature_i32 SyncFeature_variants)"
    by (simp add: SyncFeature_variants_def SyncFeature_i32_def)
  show "SyncFeature_from_str_name (SyncFeature_as_str_name t) = Some t" for t
    by (cases t) (simp_all add: SyncFeature_from_str_name_def SyncFeature_as_str_name_def)
  show "SyncFeature_from_str_name s = Some t \<Longrightarrow> SyncFeature_as_str_name t = s" for s t
    unfolding SyncFeature_from_str_name_def by (drule map_of_SomeD) (auto simp: SyncFeature_as_str_name_def)
qed (simp add: SyncFeature_try_from_def)

datatype (plugins only: code size) PhotoBackupFeature =
    PhotoBackupFeature_PhotoIncremental
  | PhotoBackupFeature_PhotoAlbums
  | PhotoBackupFeature_PhotoMetadata
  | PhotoBackupFeature_PhotoResume

definition PhotoBackupFeature_i32 :: "PhotoBackupFeature \<Rightarrow> i32" where
  "PhotoBackupFeature_i32 t =
     (case t of
        PhotoBackupFeature_PhotoIncremental \<Rightarrow> 0
      | PhotoBackupFeature_PhotoAlbums \<Rightarrow> 1
      | PhotoBackupFeature_PhotoMetadata \<Rightarrow> 2
      | PhotoBackupFeature_PhotoResume \<Rightarrow> 3)"

definition PhotoBackupFeature_variants :: "PhotoBackupFeature list" where
  "PhotoBackupFeature_variants =
    [PhotoBackupFeature_PhotoIncremental,
     PhotoBackupFeature_PhotoAlbums,
     PhotoBackupFeature_PhotoMetadata,
     PhotoBackupFeature_PhotoResume]"

definition PhotoBackupFeature_try_from :: "i32 \<Rightarrow> PhotoBackupFeature option" where
  "PhotoBackupFeature_try_from v = find (\<lambda>t. PhotoBackupFeature_i32 t = v) PhotoBackupFeature_variants"

definition PhotoBackupFeature_as_str_name :: "PhotoBackupFeature \<Rightarrow> string" where
  "PhotoBackupFeature_as_str_name t =
     (case t of
        PhotoBackupFeature_PhotoIncremental \<Rightarrow> ''PHOTO_INCREMENTAL''
      | PhotoBackupFeature_PhotoAlbums \<Rightarrow> ''PHOTO_ALBUMS''
      | PhotoBackupFeature_PhotoMetadata \<Rightarrow> ''PHOTO_METADATA''
      | PhotoBackupFeature_PhotoResume \<Rightarrow> ''PHOTO_RESUME'')"

definition PhotoBackupFeature_from_str_name :: "string \<Rightarrow> PhotoBackupFeature option" where
  "PhotoBackupFeature_from_str_name s = map_of
    [(''PHOTO_INCREMENTAL'', PhotoBackupFeature_PhotoIncremental),
     (''PHOTO_ALBUMS'', PhotoBackupFeature_PhotoAlbums),
     (''PHOTO_METADATA'', PhotoBackupFeature_PhotoMetadata),
     (''PHOTO_RESUME'', PhotoBackupFeature_PhotoResume)] s"

interpretation PhotoBackupFeature_enum: proto_enum PhotoBackupFeature_variants PhotoBackupFeature_i32 PhotoBackupFeature_try_from PhotoBackupFeature_as_str_name PhotoBackupFeature_from_str_name
proof unfold_locales
  show "t \<in> set PhotoBackupFeature_variants" for t
    by (cases t) (simp_all add: PhotoBackupFeature_variants_def)
  show "distinct (map PhotoBackupFeature_i32 PhotoBackupFeature_variants)"
    by (simp add: PhotoBackupFeature_variants_def PhotoBackupFeature_i32_def)
  show "PhotoBackupFeature_from_str_name (PhotoBackupFeature_as_str_name t) = Some t" for t
    by (cases t) (simp_all add: PhotoBackupFeature_from_str_name_def PhotoBackupFeature_as_str_name_def)
  show "PhotoBackupFeature_from_str_name s = Some t \<Longrightarrow> PhotoBackupFeature_as_str_name t = s" for s t
    unfolding PhotoBackupFeature_from_str_name_def by (drule map_of_SomeD) (auto simp: PhotoBackupFeature_as_str_name_def)
qed (simp add: PhotoBackupFeature_try_from_def)

datatype (plugins only: code size) ShellFeature =
    ShellFeature_ShellBasic
  | ShellFeature_ShellInteractive
  | ShellFeature_ShellHistory
  | ShellFeature_ShellEnvironment
  | ShellFeature_ShellSignals
  | ShellFeature_ShellMultiplex

definition ShellFeature_i32 :: "ShellFeature \<Rightarrow> i32" where
  "ShellFeature_i32 t =
     (case t of
        ShellFeature_ShellBasic \<Rightarrow> 0
      | ShellFeature_ShellInteractive \<Rightarrow> 1
      | ShellFeature_ShellHistory \<Rightarrow> 2
      | ShellFeature_ShellEnvironment \<Rightarrow> 3
      | ShellFeature_ShellSignals \<Rightarrow> 4
      | ShellFeature_ShellMultiplex \<Rightarrow> 5)"

definition ShellFeature_variants :: "ShellFeature list" where
  "ShellFeature_variants =
    [ShellFeature_ShellBasic,
     ShellFeature_ShellInteractive,
     ShellFeature_ShellHistory,
     ShellFeature_ShellEnvironment,
     ShellFeature_ShellSignals,
     ShellFeature_ShellMultiplex]"

definition ShellFeature_try_from :: "i32 \<Rightarrow> ShellFeature option" where
  "ShellFeature_try_from v = find (\<lambda>t. ShellFeature_i32 t = v) ShellFeature_variants"

definition ShellFeature_as_str_name :: "ShellFeature \<Rightarrow> string" where
  "ShellFeature_as_str_name t =
     (case t of
        ShellFeature_ShellBasic \<Rightarrow> ''SHELL_BASIC''
      | ShellFeature_ShellInteractive \<Rightarrow> ''SHELL_INTERACTIVE''
      | ShellFeature_ShellHistory \<Rightarrow> ''SHELL_HISTORY''
      | ShellFeature_ShellEnvironment \<Rightarrow> ''SHELL_ENVIRONMENT''
      | ShellFeature_ShellSignals \<Rightarrow> ''SHELL_SIGNALS''
      | ShellFeature_ShellMultiplex \<Rightarrow> ''SHELL_MULTIPLEX'')"

definition ShellFeature_from_str_name :: "string \<Rightarrow> ShellFeature option" where
  "ShellFeature_from_str_name s = map_of
    [(''SHELL_BASIC'', ShellFeature_ShellBasic),
     (''SHELL_INTERACTIVE'', ShellFeature_ShellInteractive),
     (''SHELL_HISTORY'', ShellFeature_ShellHistory),
     (''SHELL_ENVIRONMENT'', ShellFeature_ShellEnvironment),
     (''SHELL_SIGNALS'', ShellFeature_ShellSignals),
     (''SHELL_MULTIPLEX'', ShellFeature_ShellMultiplex)] s"

interpretation ShellFeature_enum: proto_enum ShellFeature_variants ShellFeature_i32 ShellFeature_try_from ShellFeature_as_str_name ShellFeature_from_str_name
proof unfold_locales
  show "t \<in> set ShellFeature_variants" for t
    by (cases t) (simp_all add: ShellFeature_variants_def)
  show "distinct (map ShellFeature_i32 ShellFeature_variants)"
    by (simp add: ShellFeature_variants_def ShellFeature_i32_def)
  show "ShellFeature_from_str_name (ShellFeature_as_str_name t) = Some t" for t
    by (cases t) (simp_all add: ShellFeature_from_str_name_def ShellFeature_as_str_name_def)
  show "ShellFeature_from_str_name s = Some t \<Longrightarrow> ShellFeature_as_str_name t = s" for s t
    unfolding ShellFeature_from_str_name_def by (drule map_of_SomeD) (auto simp: ShellFeature_as_str_name_def)
qed (simp add: ShellFeature_try_from_def)

datatype (plugins only: code size) MediaControlFeature =
    MediaControlFeature_MediaBasic
  | MediaControlFeature_MediaSeek
  | MediaControlFeature_MediaVolume
  | MediaControlFeature_MediaMetadata
  | MediaControlFeature_MediaArtwork
  | MediaControlFeature_MediaPlaylist
  | MediaControlFeature_MediaShuffleRepeat

definition MediaControlFeature_i32 :: "MediaControlFeature \<Rightarrow> i32" where
  "MediaControlFeature_i32 t =
     (case t of
        MediaControlFeature_MediaBasic \<Rightarrow> 0
      | MediaControlFeature_MediaSeek \<Rightarrow> 1
      | MediaControlFeature_MediaVolume \<Rightarrow> 2
      | MediaControlFeature_MediaMetadata \<Rightarrow> 3
      | MediaControlFeature_MediaArtwork \<Rightarrow> 4
      | MediaControlFeature_MediaPlaylist \<Rightarrow> 5
      | MediaControlFeature_MediaShuffleRepeat \<Rightarrow> 6)"

definition MediaControlFeature_variants :: "MediaControlFeature list" where
  "MediaControlFeature_variants =
    [MediaControlFeature_MediaBasic,
     MediaControlFeature_MediaSeek,
     MediaControlFeature_MediaVolume,
     MediaControlFeature_MediaMetadata,
     MediaControlFeature_MediaArtwork,
     MediaControlFeature_MediaPlaylist,
     MediaControlFeature_MediaShuffleRepeat]"

definition MediaControlFeature_try_from :: "i32 \<Rightarrow> MediaControlFeature option" where
  "MediaControlFeature_try_from v = find (\<lambda>t. MediaControlFeature_i32 t = v) MediaControlFeature_variants"

definition MediaControlFeature_as_str_name :: "MediaControlFeature \<Rightarrow> string" where
  "MediaControlFeature_as_str_name t =
     (case t of
        MediaControlFeature_MediaBasic \<Rightarrow> ''MEDIA_BASIC''
      | MediaControlFeature_MediaSeek \<Rightarrow> ''MEDIA_SEEK''
      | MediaControlFeature_MediaVolume \<Rightarrow> ''MEDIA_VOLUME''
      | MediaControlFeature_MediaMetadata \<Rightarrow> ''MEDIA_METADATA''
      | MediaControlFeature_MediaArtwork \<Rightarrow> ''MEDIA_ARTWORK''
      | MediaControlFeature_MediaPlaylist \<Rightarrow> ''MEDIA_PLAYLIST''
      | MediaControlFeature_MediaShuffleRepeat \<Rightarrow> ''MEDIA_SHUFFLE_REPEAT'')"

definition MediaControlFeature_from_str_name :: "string \<Rightarrow> MediaControlFeature option" where
  "MediaControlFeature_from_str_name s = map_of
    [(''MEDIA_BASIC'', MediaControlFeature_MediaBasic),
     (''MEDIA_SEEK'', MediaControlFeature_MediaSeek),
     (''MEDIA_VOLUME'', MediaControlFeature_MediaVolume),
     (''MEDIA_METADATA'', MediaControlFeature_MediaMetadata),
     (''MEDIA_ARTWORK'', MediaControlFeature_MediaArtwork),
     (''MEDIA_PLAYLIST'', MediaControlFeature_MediaPlaylist),
     (''MEDIA_SHUFFLE_REPEAT'', MediaControlFeature_MediaShuffleRepeat)] s"

interpretation MediaControlFeature_enum: proto_enum MediaControlFeature_variants MediaControlFeature_i32 MediaControlFeature_try_from MediaControlFeature_as_str_name MediaControlFeature_from_str_name
proof unfold_locales
  show "t \<in> set MediaControlFeature_variants" for t
    by (cases t) (simp_all add: MediaControlFeature_variants_def)
  show "distinct (map MediaControlFeature_i32 MediaControlFeature_variants)"
    by (simp add: MediaControlFeature_variants_def MediaControlFeature_i32_def)
  show "MediaControlFeature_from_str_name (MediaControlFeature_as_str_name t) = Some t" for t
    by (cases t) (simp_all add: MediaControlFeature_from_str_name_def MediaControlFeature_as_str_name_def)
  show "MediaControlFeature_from_str_name s = Some t \<Longrightarrow> MediaControlFeature_as_str_name t = s" for s t
    unfolding MediaControlFeature_from_str_name_def by (drule map_of_SomeD) (auto simp: MediaControlFeature_as_str_name_def)
qed (simp add: MediaControlFeature_try_from_def)

datatype (plugins only: code size) PhoneFsFeature =
    PhoneFsFeature_PhoneFsBasic
  | PhoneFsFeature_PhoneFsWrite
  | PhoneFsFeature_PhoneFsStream
  | PhoneFsFeature_PhoneFsMediastore
  | PhoneFsFeature_PhoneFsSaf

definition PhoneFsFeature_i32 :: "PhoneFsFeature \<Rightarrow> i32" where
  "PhoneFsFeature_i32 t =
     (case t of
        PhoneFsFeature_PhoneFsBasic \<Rightarrow> 0
      | PhoneFsFeature_PhoneFsWrite \<Rightarrow> 1
      | PhoneFsFeature_PhoneFsStream \<Rightarrow> 2
      | PhoneFsFeature_PhoneFsMediastore \<Rightarrow> 3
      | PhoneFsFeature_PhoneFsSaf \<Rightarrow> 4)"

definition PhoneFsFeature_variants :: "PhoneFsFeature list" where
  "PhoneFsFeature_variants =
    [PhoneFsFeature_PhoneFsBasic,
     PhoneFsFeature_PhoneFsWrite,
     PhoneFsFeature_PhoneFsStream,
     PhoneFsFeature_PhoneFsMediastore,
     PhoneFsFeature_PhoneFsSaf]"

definition PhoneFsFeature_try_from :: "i32 \<Rightarrow> PhoneFsFeature option" where
  "PhoneFsFeature_try_from v = find (\<lambda>t. PhoneFsFeature_i32 t = v) PhoneFsFeature_variants"

definition PhoneFsFeature_as_str_name :: "PhoneFsFeature \<Rightarrow> string" where
  "PhoneFsFeature_as_str_name t =
     (case t of
        PhoneFsFeature_PhoneFsBasic \<Rightarrow> ''PHONE_FS_BASIC''
      | PhoneFsFeature_PhoneFsWrite \<Rightarrow> ''PHONE_FS_WRITE''
      | PhoneFsFeature_PhoneFsStream \<Rightarrow> ''PHONE_FS_STREAM''
      | PhoneFsFeature_PhoneFsMediastore \<Rightarrow> ''PHONE_FS_MEDIASTORE''
      | PhoneFsFeature_PhoneFsSaf \<Rightarrow> ''PHONE_FS_SAF'')"

definition PhoneFsFeature_from_str_name :: "string \<Rightarrow> PhoneFsFeature option" where
  "PhoneFsFeature_from_str_name s = map_of
    [(''PHONE_FS_BASIC'', PhoneFsFeature_PhoneFsBasic),
     (''PHONE_FS_WRITE'', PhoneFsFeature_PhoneFsWrite),
     (''PHONE_FS_STREAM'', PhoneFsFeature_PhoneFsStream),
     (''PHONE_FS_MEDIASTORE'', PhoneFsFeature_PhoneFsMediastore),
     (''PHONE_FS_SAF'', PhoneFsFeature_PhoneFsSaf)] s"

interpretation PhoneFsFeature_enum: proto_enum PhoneFsFeature_variants PhoneFsFeature_i32 PhoneFsFeature_try_from PhoneFsFeature_as_str_name PhoneFsFeature_from_str_name
proof unfold_locales
  show "t \<in> set PhoneFsFeature_variants" for t
    by (cases t) (simp_all add: PhoneFsFeature_variants_def)
  show "distinct (map PhoneFsFeature_i32 PhoneFsFeature_variants)"
    by (simp add: PhoneFsFeature_variants_def PhoneFsFeature_i32_def)
  show "PhoneFsFeature_from_str_name (PhoneFsFeature_as_str_name t) = Some t" for t
    by (cases t) (simp_all add: PhoneFsFeature_from_str_name_def PhoneFsFeature_as_str_name_def)
  show "PhoneFsFeature_from_str_name s = Some t \<Longrightarrow> PhoneFsFeature_as_str_name t = s" for s t
    unfolding PhoneFsFeature_from_str_name_def by (drule map_of_SomeD) (auto simp: PhoneFsFeature_as_str_name_def)
qed (simp add: PhoneFsFeature_try_from_def)

datatype (plugins only: code size) ProximityFeature =
    ProximityFeature_ProximityRssi
  | ProximityFeature_ProximityStates
  | ProximityFeature_ProximityAutoReconnect
  | ProximityFeature_ProximityActions

definition ProximityFeature_i32 :: "ProximityFeature \<Rightarrow> i32" where
  "ProximityFeature_i32 t =
     (case t of
        ProximityFeature_ProximityRssi \<Rightarrow> 0
      | ProximityFeature_ProximityStates \<Rightarrow> 1
      | ProximityFeature_ProximityAutoReconnect \<Rightarrow> 2
      | ProximityFeature_ProximityActions \<Rightarrow> 3)"

definition ProximityFeature_variants :: "ProximityFeature list" where
  "ProximityFeature_variants =
    [ProximityFeature_ProximityRssi,
     ProximityFeature_ProximityStates,
     ProximityFeature_ProximityAutoReconnect,
     ProximityFeature_ProximityActions]"

definition ProximityFeature_try_from :: "i32 \<Rightarrow> ProximityFeature option" where
  "ProximityFeature_try_from v = find (\<lambda>t. ProximityFeature_i32 t = v) ProximityFeature_variants"

definition ProximityFeature_as_str_name :: "ProximityFeature \<Rightarrow> string" where
  "ProximityFeature_as_str_name t =
     (case t of
        ProximityFeature_ProximityRssi \<Rightarrow> ''PROXIMITY_RSSI''
      | ProximityFeature_ProximityStates \<Rightarrow> ''PROXIMITY_STATES''
      | ProximityFeature_ProximityAutoReconnect \<Rightarrow> ''PROXIMITY_AUTO_RECONNECT''
      | ProximityFeature_ProximityActions \<Rightarrow> ''PROXIMITY_ACTIONS'')"

definition ProximityFeature_from_str_name :: "string \<Rightarrow> ProximityFeature option" where
  "ProximityFeature_from_str_name s = map_of
    [(''PROXIMITY_RSSI'', ProximityFeature_ProximityRssi),
     (''PROXIMITY_STATES'', ProximityFeature_ProximityStates),
     (''PROXIMITY_AUTO_RECONNECT'', ProximityFeature_ProximityAutoReconnect),
     (''PROXIMITY_ACTIONS'', ProximityFeature_ProximityActions)] s"

interpretation ProximityFeature_enum: proto_enum ProximityFeature_variants ProximityFeature_i32 ProximityFeature_try_from ProximityFeature_as_str_name ProximityFeature_from_str_name
proof unfold_locales
  show "t \<in> set ProximityFeature_variants" for t
    by (cases t) (simp_all add: ProximityFeature_variants_def)
  show "distinct (map ProximityFeature_i32 ProximityFeature_variants)"
    by (simp add: ProximityFeature_variants_def ProximityFeature_i32_def)
  show "ProximityFeature_from_str_name (ProximityFeature_as_str_name t) = Some t" for t
    by (cases t) (simp_all add: ProximityFeature_from_str_name_def ProximityFeature_as_str_name_def)
  show "ProximityFeature_from_str_name s = Some t \<Longrightarrow> ProximityFeature_as_str_name t = s" for s t
    unfolding ProximityFeature_from_str_name_def by (drule map_of_SomeD) (auto simp: ProximityFeature_as_str_name_def)
qed (simp add: ProximityFeature_try_from_def)

datatype (plugins only: code size) FileStreamFeature =
    FileStreamFeature_StreamBasic
  | FileStreamFeature_StreamSeek
  | FileStreamFeature_StreamResume
  | FileStreamFeature_StreamBuffering
  | FileStreamFeature_StreamMediaSource

definition FileStreamFeature_i32 :: "FileStreamFeature \<Rightarrow> i32" where
  "FileStreamFeature_i32 t =
     (case t of
        FileStreamFeature_StreamBasic \<Rightarrow> 0
      | FileStreamFeature_StreamSeek \<Rightarrow> 1
      | FileStreamFeature_StreamResume \<Rightarrow> 2
      | FileStreamFeature_StreamBuffering \<Rightarrow> 3
      | FileStreamFeature_StreamMediaSource \<Rightarrow> 4)"

definition FileStreamFeature_variants :: "FileStreamFeature list" where
  "FileStreamFeature_variants =
    [FileStreamFeature_StreamBasic,
     FileStreamFeature_StreamSeek,
     FileStreamFeature_StreamResume,
     FileStreamFeature_StreamBuffering,
     FileStreamFeature_StreamMediaSource]"

definition FileStreamFeature_try_from :: "i32 \<Rightarrow> FileStreamFeature option" where
  "FileStreamFeature_try_from v = find (\<lambda>t. FileStreamFeature_i32 t = v) FileStreamFeature_variants"

definition FileStreamFeature_as_str_name :: "FileStreamFeature \<Rightarrow> string" where
  "FileStreamFeature_as_str_name t =
     (case t of
        FileStreamFeature_StreamBasic \<Rightarrow> ''STREAM_BASIC''
      | FileStreamFeature_StreamSeek \<Rightarrow> ''STREAM_SEEK''
      | FileStreamFeature_StreamResume \<Rightarrow> ''STREAM_RESUME''
      | FileStreamFeature_StreamBuffering \<Rightarrow> ''STREAM_BUFFERING''
      | FileStreamFeature_StreamMediaSource \<Rightarrow> ''STREAM_MEDIA_SOURCE'')"

definition FileStreamFeature_from_str_name :: "string \<Rightarrow> FileStreamFeature option" where
  "FileStreamFeature_from_str_name s = map_of
    [(''STREAM_BASIC'', FileStreamFeature_StreamBasic),
     (''STREAM_SEEK'', FileStreamFeature_StreamSeek),
     (''STREAM_RESUME'', FileStreamFeature_StreamResume),
     (''STREAM_BUFFERING'', FileStreamFeature_StreamBuffering),
     (''STREAM_MEDIA_SOURCE'', FileStreamFeature_StreamMediaSource)] s"

interpretation FileStreamFeature_enum: proto_enum FileStreamFeature_variants FileStreamFeature_i32 FileStreamFeature_try_from FileStreamFeature_as_str_name FileStreamFeature_from_str_name
proof unfold_locales
  show "t \<in> set FileStreamFeature_variants" for t
    by (cases t) (simp_all add: FileStreamFeature_variants_def)
  show "distinct (map FileStreamFeature_i32 FileStreamFeature_variants)"
    by (simp add: FileStreamFeature_variants_def FileStreamFeature_i32_def)
  show "FileStreamFeature_from_str_name (FileStreamFeature_as_str_name t) = Some t" for t
    by (cases t) (simp_all add: FileStreamFeature_from_str_name_def FileStreamFeature_as_str_name_def)
  show "FileStreamFeature_from_str_name s = Some t \<Longrightarrow> FileStreamFeature_as_str_name t = s" for s t
    unfolding FileStreamFeature_from_str_name_def by (drule map_of_SomeD) (auto simp: FileStreamFeature_as_str_name_def)
qed (simp add: FileStreamFeature_try_from_def)

datatype (plugins only: code size) AppLauncherFeature =
    AppLauncherFeature_LauncherList
  | AppLauncherFeature_LauncherIcons
  | AppLauncherFeature_LauncherLaunch
  | AppLauncherFeature_LauncherIntents
  | AppLauncherFeature_LauncherShortcuts

definition AppLauncherFeature_i32 :: "AppLauncherFeature \<Rightarrow> i32" where
  "AppLauncherFeature_i32 t =
     (case t of
        AppLauncherFeature_LauncherList \<Rightarrow> 0
      | AppLauncherFeature_LauncherIcons \<Rightarrow> 1
      | AppLauncherFeature_LauncherLaunch \<Rightarrow> 2
      | AppLauncherFeature_LauncherIntents \<Rightarrow> 3
      | AppLauncherFeature_LauncherShortcuts \<Rightarrow> 4)"

definition AppLauncherFeature_variants :: "AppLauncherFeature list" where
  "AppLauncherFeature_variants =
    [AppLauncherFeature_LauncherList,
     AppLauncherFeature_LauncherIcons,
     AppLauncherFeature_LauncherLaunch,
     AppLauncherFeature_LauncherIntents,
     AppLauncherFeature_LauncherShortcuts]"

definition AppLauncherFeature_try_from :: "i32 \<Rightarrow> AppLauncherFeature option" where
  "AppLauncherFeature_try_from v = find (\<lambda>t. AppLauncherFeature_i32 t = v) AppLauncherFeature_variants"

definition AppLauncherFeature_as_str_name :: "AppLauncherFeature \<Rightarrow> string" where
  "AppLauncherFeature_as_str_name t =
     (case t of
        AppLauncherFeature_LauncherList \<Rightarrow> ''LAUNCHER_LIST''
      | AppLauncherFeature_LauncherIcons \<Rightarrow> ''LAUNCHER_ICONS''
      | AppLauncherFeature_LauncherLaunch \<Rightarrow> ''LAUNCHER_LAUNCH''
      | AppLauncherFeature_LauncherIntents \<Rightarrow> ''LAUNCHER_INTENTS''
      | AppLauncherFeature_LauncherShortcuts \<Rightarrow> ''LAUNCHER_SHORTCUTS'')"

definition AppLauncherFeature_from_str_name :: "string \<Rightarrow> AppLauncherFeature option" where
  "AppLauncherFeature_from_str_name s = map_of
    [(''LAUNCHER_LIST'', AppLauncherFeature_LauncherList),
     (''LAUNCHER_ICONS'', AppLauncherFeature_LauncherIcons),
     (''LAUNCHER_LAUNCH'', AppLauncherFeature_LauncherLaunch),
     (''LAUNCHER_INTENTS'', AppLauncherFeature_LauncherIntents),
     (''LAUNCHER_SHORTCUTS'', AppLauncherFeature_LauncherShortcuts)] s"

interpretation AppLauncherFeature_enum: proto_enum AppLauncherFeature_variants AppLauncherFeature_i32 AppLauncherFeature_try_from AppLauncherFeature_as_str_name AppLauncherFeature_from_str_name
proof unfold_locales
  show "t \<in> set AppLauncherFeature_variants" for t
    by (cases t) (simp_all add: AppLauncherFeature_variants_def)
  show "distinct (map AppLauncherFeature_i32 AppLauncherFeature_variants)"
    by (simp add: AppLauncherFeature_variants_def AppLauncherFeature_i32_def)
  show "AppLauncherFeature_from_str_name (AppLauncherFeature_as_str_name t) = Some t" for t
    by (cases t) (simp_all add: AppLauncherFeature_from_str_name_def AppLauncherFeature_as_str_name_def)
  show "AppLauncherFeature_from_str_name s = Some t \<Longrightarrow> AppLauncherFeature_as_str_name t = s" for s t
    unfolding AppLauncherFeature_from_str_name_def by (drule map_of_SomeD) (auto simp: AppLauncherFeature_as_str_name_def)
qed (simp add: AppLauncherFeature_try_from_def)

datatype (plugins only: code size) AuthState_Step =
    AuthState_Step_Init
  | AuthState_Step_ChallengeSent
  | AuthState_Step_ResponseReceived
  | AuthState_Step_Verified
  | AuthState_Step_KeysDerived
  | AuthState_Step_Complete
  | AuthState_Step_Failed

definition AuthState_Step_i32 :: "AuthState_Step \<Rightarrow> i32" where
  "AuthState_Step_i32 t =
     (case t of
        AuthState_Step_Init \<Rightarrow> 0
      | AuthState_Step_ChallengeSent \<Rightarrow> 1
      | AuthState_Step_ResponseReceived \<Rightarrow> 2
      | AuthState_Step_Verified \<Rightarrow> 3
      | AuthState_Step_KeysDerived \<Rightarrow> 4
      | AuthState_Step_Complete \<Rightarrow> 5
      | AuthState_Step_Failed \<Rightarrow> 6)"

definition AuthState_Step_variants :: "AuthState_Step list" where
  "AuthState_Step_variants =
    [AuthState_Step_Init,
     AuthState_Step_ChallengeSent,
     AuthState_Step_ResponseReceived,
     AuthState_Step_Verified,
     AuthState_Step_KeysDerived,
     AuthState_Step_Complete,
     AuthState_Step_Failed]"

definition AuthState_Step_try_from :: "i32 \<Rightarrow> AuthState_Step option" where
  "AuthState_Step_try_from v = find (\<lambda>t. AuthState_Step_i32 t = v) AuthState_Step_variants"

definition AuthState_Step_as_str_name :: "AuthState_Step \<Rightarrow> string" where
  "AuthState_Step_as_str_name t =
     (case t of
        AuthState_Step_Init \<Rightarrow> ''STEP_INIT''
      | AuthState_Step_ChallengeSent \<Rightarrow> ''STEP_CHALLENGE_SENT''
      | AuthState_Step_ResponseReceived \<Rightarrow> ''STEP_RESPONSE_RECEIVED''
      | AuthState_Step_Verified \<Rightarrow> ''STEP_VERIFIED''
      | AuthState_Step_KeysDerived \<Rightarrow> ''STEP_KEYS_DERIVED''
      | AuthState_Step_Complete \<Rightarrow> ''STEP_COMPLETE''
      | AuthState_Step_Failed \<Rightarrow> ''STEP_FAILED'')"

definition AuthState_Step_from_str_name :: "string \<Rightarrow> AuthState_Step option" where
  "AuthState_Step_from_str_name s = map_of
    [(''STEP_INIT'', AuthState_Step_Init),
     (''STEP_CHALLENGE_SENT'', AuthState_Step_ChallengeSent),
     (''STEP_RESPONSE_RECEIVED'', AuthState_Step_ResponseReceived),
     (''STEP_VERIFIED'', AuthState_Step_Verified),
     (''STEP_KEYS_DERIVED'', AuthState_Step_KeysDerived),
     (''STEP_COMPLETE'', AuthState_Step_Complete),
     (''STEP_FAILED'', AuthState_Step_Failed)] s"

interpretation AuthState_Step_enum: proto_enum AuthState_Step_variants AuthState_Step_i32 AuthState_Step_try_from AuthState_Step_as_str_name AuthState_Step_from_str_name
proof unfold_locales
  show "t \<in> set AuthState_Step_variants" for t
    by (cases t) (simp_all add: AuthState_Step_variants_def)
  show "distinct (map AuthState_Step_i32 AuthState_Step_variants)"
    by (simp add: AuthState_Step_variants_def AuthState_Step_i32_def)
  show "AuthState_Step_from_str_name (AuthState_Step_as_str_name t) = Some t" for t
    by (cases t) (simp_all add: AuthState_Step_from_str_name_def AuthState_Step_as_str_name_def)
  show "AuthState_Step_from_str_name s = Some t \<Longrightarrow> AuthState_Step_as_str_name t = s" for s t
    unfolding AuthState_Step_from_str_name_def by (drule map_of_SomeD) (auto simp: AuthState_Step_as_str_name_def)
qed (simp add: AuthState_Step_try_from_def)

datatype (plugins only: code size) MuxFrameFlag =
    MuxFrameFlag_MuxFlagNone
  | MuxFrameFlag_MuxFlagFin
  | MuxFrameFlag_MuxFlagSyn
  | MuxFrameFlag_MuxFlagRst
  | MuxFrameFlag_MuxFlagAck
  | MuxFrameFlag_MuxFlagPriority
  | MuxFrameFlag_MuxFlagCompressed

definition MuxFrameFlag_i32 :: "MuxFrameFlag \<Rightarrow> i32" where
  "MuxFrameFlag_i32 t =
     (case t of
        MuxFrameFlag_MuxFlagNone \<Rightarrow> 0
      | MuxFrameFlag_MuxFlagFin \<Rightarrow> 1
      | MuxFrameFlag_MuxFlagSyn \<Rightarrow> 2
      | MuxFrameFlag_MuxFlagRst \<Rightarrow> 4
      | MuxFrameFlag_MuxFlagAck \<Rightarrow> 8
      | MuxFrameFlag_MuxFlagPriority \<Rightarrow> 16
      | MuxFrameFlag_MuxFlagCompressed \<Rightarrow> 32)"

definition MuxFrameFlag_variants :: "MuxFrameFlag list" where
  "MuxFrameFlag_variants =
    [MuxFrameFlag_MuxFlagNone,
     MuxFrameFlag_MuxFlagFin,
     MuxFrameFlag_MuxFlagSyn,
     MuxFrameFlag_MuxFlagRst,
     MuxFrameFlag_MuxFlagAck,
     MuxFrameFlag_MuxFlagPriority,
     MuxFrameFlag_MuxFlagCompressed]"

definition MuxFrameFlag_try_from :: "i32 \<Rightarrow> MuxFrameFlag option" where
  "MuxFrameFlag_try_from v = find (\<lambda>t. MuxFrameFlag_i32 t = v) MuxFrameFlag_variants"

definition MuxFrameFlag_as_str_name :: "MuxFrameFlag \<Rightarrow> string" where
  "MuxFrameFlag_as_str_name t =
     (case t of
        MuxFrameFlag_MuxFlagNone \<Rightarrow> ''MUX_FLAG_NONE''
      | MuxFrameFlag_MuxFlagFin \<Rightarrow> ''MUX_FLAG_FIN''
      | MuxFrameFlag_MuxFlagSyn \<Rightarrow> ''MUX_FLAG_SYN''
      | MuxFrameFlag_MuxFlagRst \<Rightarrow> ''MUX_FLAG_RST''
      | MuxFrameFlag_MuxFlagAck \<Rightarrow> ''MUX_FLAG_ACK''
      | MuxFrameFlag_MuxFlagPriority \<Rightarrow> ''MUX_FLAG_PRIORITY''
      | MuxFrameFlag_MuxFlagCompressed \<Rightarrow> ''MUX_FLAG_COMPRESSED'')"

definition MuxFrameFlag_from_str_name :: "string \<Rightarrow> MuxFrameFlag option" where
  "MuxFrameFlag_from_str_name s = map_of
    [(''MUX_FLAG_NONE'', MuxFrameFlag_MuxFlagNone),
     (''MUX_FLAG_FIN'', MuxFrameFlag_MuxFlagFin),
     (''MUX_FLAG_SYN'', MuxFrameFlag_MuxFlagSyn),
     (''MUX_FLAG_RST'', MuxFrameFlag_MuxFlagRst),
     (''MUX_FLAG_ACK'', MuxFrameFlag_MuxFlagAck),
     (''MUX_FLAG_PRIORITY'', MuxFrameFlag_MuxFlagPriority),
     (''MUX_FLAG_COMPRESSED'', MuxFrameFlag_MuxFlagCompressed)] s"

interpretation MuxFrameFlag_enum: proto_enum MuxFrameFlag_variants MuxFrameFlag_i32 MuxFrameFlag_try_from MuxFrameFlag_as_str_name MuxFrameFlag_from_str_name
proof unfold_locales
  show "t \<in> set MuxFrameFlag_variants" for t
    by (cases t) (simp_all add: MuxFrameFlag_variants_def)
  show "distinct (map MuxFrameFlag_i32 MuxFrameFlag_variants)"
    by (simp add: MuxFrameFlag_variants_def MuxFrameFlag_i32_def)
  show "MuxFrameFlag_from_str_name (MuxFrameFlag_as_str_name t) = Some t" for t
    by (cases t) (simp_all add: MuxFrameFlag_from_str_name_def MuxFrameFlag_as_str_name_def)
  show "MuxFrameFlag_from_str_name s = Some t \<Longrightarrow> MuxFrameFlag_as_str_name t = s" for s t
    unfolding MuxFrameFlag_from_str_name_def by (drule map_of_SomeD) (auto simp: MuxFrameFlag_as_str_name_def)
qed (simp add: MuxFrameFlag_try_from_def)

datatype (plugins only: code size) ServiceEvent_EventType =
    ServiceEvent_EventType_ServiceRegistered
  | ServiceEvent_EventType_ServiceUnregistered
  | ServiceEvent_EventType_ServiceStarted
  | ServiceEvent_EventType_ServiceStopped
  | ServiceEvent_EventType_ServiceHealthChanged
  | ServiceEvent_EventType_ServiceConfigChanged

definition ServiceEvent_EventType_i32 :: "ServiceEvent_EventType \<Rightarrow> i32" where
  "ServiceEvent_EventType_i32 t =
     (case t of
        ServiceEvent_EventType_ServiceRegistered \<Rightarrow> 0
      | ServiceEvent_EventType_ServiceUnregistered \<Rightarrow> 1
      | ServiceEvent_EventType_ServiceStarted \<Rightarrow> 2
      | ServiceEvent_EventType_ServiceStopped \<Rightarrow> 3
      | ServiceEvent_EventType_ServiceHealthChanged \<Rightarrow> 4
      | ServiceEvent_EventType_ServiceConfigChanged \<Rightarrow> 5)"

definition ServiceEvent_EventType_variants :: "ServiceEvent_EventType list" where
  "ServiceEvent_EventType_variants =
    [ServiceEvent_EventType_ServiceRegistered,
     ServiceEvent_EventType_ServiceUnregistered,
     ServiceEvent_EventType_ServiceStarted,
     ServiceEvent_EventType_ServiceStopped,
     ServiceEvent_EventType_ServiceHealthChanged,
     ServiceEvent_EventType_ServiceConfigChanged]"

definition ServiceEvent_EventType_try_from :: "i32 \<Rightarrow> ServiceEvent_EventType option" where
  "ServiceEvent_EventType_try_from v = find (\<lambda>t. ServiceEvent_EventType_i32 t = v) ServiceEvent_EventType_variants"

definition ServiceEvent_EventType_as_str_name :: "ServiceEvent_EventType \<Rightarrow> string" where
  "ServiceEvent_EventType_as_str_name t =
     (case t of
        ServiceEvent_EventType_ServiceRegistered \<Rightarrow> ''SERVICE_REGISTERED''
      | ServiceEvent_EventType_ServiceUnregistered \<Rightarrow> ''SERVICE_UNREGISTERED''
      | ServiceEvent_EventType_ServiceStarted \<Rightarrow> ''SERVICE_STARTED''
      | ServiceEvent_EventType_ServiceStopped \<Rightarrow> ''SERVICE_STOPPED''
      | ServiceEvent_EventType_ServiceHealthChanged \<Rightarrow> ''SERVICE_HEALTH_CHANGED''
      | ServiceEvent_EventType_ServiceConfigChanged \<Rightarrow> ''SERVICE_CONFIG_CHANGED'')"

definition ServiceEvent_EventType_from_str_name :: "string \<Rightarrow> ServiceEvent_EventType option" where
  "ServiceEvent_EventType_from_str_name s = map_of
    [(''SERVICE_REGISTERED'', ServiceEvent_EventType_ServiceRegistered),
     (''SERVICE_UNREGISTERED'', ServiceEvent_EventType_ServiceUnregistered),
     (''SERVICE_STARTED'', ServiceEvent_EventType_ServiceStarted),
     (''SERVICE_STOPPED'', ServiceEvent_EventType_ServiceStopped),
     (''SERVICE_HEALTH_CHANGED'', ServiceEvent_EventType_ServiceHealthChanged),
     (''SERVICE_CONFIG_CHANGED'', ServiceEvent_EventType_ServiceConfigChanged)] s"

interpretation ServiceEvent_EventType_enum: proto_enum ServiceEvent_EventType_variants ServiceEvent_EventType_i32 ServiceEvent_EventType_try_from ServiceEvent_EventType_as_str_name ServiceEvent_EventType_from_str_name
proof unfold_locales
  show "t \<in> set ServiceEvent_EventType_variants" for t
    by (cases t) (simp_all add: ServiceEvent_EventType_variants_def)
  show "distinct (map ServiceEvent_EventType_i32 ServiceEvent_EventType_variants)"
    by (simp add: ServiceEvent_EventType_variants_def ServiceEvent_EventType_i32_def)
  show "ServiceEvent_EventType_from_str_name (ServiceEvent_EventType_as_str_name t) = Some t" for t
    by (cases t) (simp_all add: ServiceEvent_EventType_from_str_name_def ServiceEvent_EventType_as_str_name_def)
  show "ServiceEvent_EventType_from_str_name s = Some t \<Longrightarrow> ServiceEvent_EventType_as_str_name t = s" for s t
    unfolding ServiceEvent_EventType_from_str_name_def by (drule map_of_SomeD) (auto simp: ServiceEvent_EventType_as_str_name_def)
qed (simp add: ServiceEvent_EventType_try_from_def)

end
