(* ===== verification/Proto_Files.thy ===== *)
theory Proto_Files
  imports Proto_Link
begin

text \<open>
  The messages and enumerations of \<^verbatim>\<open>protocol/src/pb/bpl.protocol.rs\<close> for the file system, synchronization
  and photo backup services.
\<close>

subsection \<open>Messages\<close>

record StreamConfig =
  stream_config_buffer_size :: u32
  stream_config_sequential :: bool
  stream_config_prefetch_count :: u32
  stream_config_chunk_size :: u32

record WatchConfig =
  watch_config_recursive :: bool
  watch_config_event_mask :: u32
  watch_config_include_metadata :: bool

record FsRequest =
  fs_request_op :: i32
  fs_request_request_id :: u64
  fs_request_path :: string
  fs_request_destination :: string
  fs_request_range :: "ByteRange option"
  fs_request_data :: bytes
  fs_request_metadata :: "FileMetadata option"
  fs_request_flags :: u32
  fs_request_hash_algorithm :: string
  fs_request_stream_config :: "StreamConfig option"
  fs_request_query :: string
  fs_request_watch :: "WatchConfig option"
  fs_request_symlink_target :: string

record StreamHandle =
  stream_handle_handle :: u64
  stream_handle_path :: string
  stream_handle_size :: u64
  stream_handle_chunk_size :: u32
  stream_handle_position :: u64

record FileMatch =
  file_match_metadata :: "FileMetadata option"
  file_match_score :: f32_bits
  file_match_matched_terms :: "string list"

record FsCapabilities =
  fs_capabilities_lazy_listing :: bool
  fs_capabilities_file_watching :: bool
  fs_capabilities_symlinks :: bool
  fs_capabilities_extended_attrs :: bool
  fs_capabilities_case_sensitive :: bool
  fs_capabilities_max_path_length :: u32
  fs_capabilities_hash_algorithms :: "string list"
  fs_capabilities_max_file_size :: u64
  fs_capabilities_streaming :: bool
  fs_capabilities_max_streams :: u32
  fs_capabilities_max_chunk_size :: u32

record FsResponse =
  fs_response_request_id :: u64
  fs_response_result :: i32
  fs_response_error_message :: string
  fs_response_entries :: "DirectoryEntry list"
  fs_response_metadata :: "FileMetadata option"
  fs_response_data :: bytes
  fs_response_bytes_written :: u64
  fs_response_hash :: string
  fs_response_stream_handle :: "StreamHandle option"
  fs_response_matches :: "FileMatch list"
  fs_response_capabilities :: "FsCapabilities option"
  fs_response_symlink_target :: string

record FsEvent =
  fs_event_type :: i32
  fs_event_path :: string
  fs_event_old_path :: string
  fs_event_metadata :: "FileMetadata option"
  fs_event_timestamp :: u64

record JobStatus =
  job_status_state :: i32
  job_status_current_operation :: string
  job_status_files_processed :: u64
  job_status_files_total :: u64
  job_status_bytes_transferred :: u64
  job_status_bytes_total :: u64
  job_status_error_message :: string
  job_status_started_at :: "Timestamp option"
  job_status_estimated_completion :: "Timestamp option"

record SyncFilters =
  sync_filters_include_patterns :: "string list"
  sync_filters_exclude_patterns :: "string list"
  sync_filters_max_file_size :: u64
  sync_filters_exclude_extensions :: "string list"
  sync_filters_follow_symlinks :: bool
  sync_filters_sync_hidden :: bool

record SyncSchedule =
  sync_schedule_type :: i32
  sync_schedule_interval_minutes :: u32
  sync_schedule_daily_time :: u32
  sync_schedule_weekly_day :: u32
  sync_schedule_weekly_time :: u32

record SyncStats =
  sync_stats_total_syncs :: u64
  sync_stats_files_synced :: u64
  sync_stats_bytes_synced :: u64
  sync_stats_conflicts_resolved :: u64
  sync_stats_errors :: u64
  sync_stats_last_success :: "Timestamp option"
  sync_stats_last_failure :: "Timestamp option"

record SyncJob =
  sync_job_job_id :: string
  sync_job_name :: string
  sync_job_description :: string
  sync_job_direction :: i32
  sync_job_local_path :: string
  sync_job_remote_path :: string
  sync_job_enabled :: bool
  sync_job_auto_sync :: bool
  sync_job_schedule :: "SyncSchedule option"
  sync_job_conflict_strategy :: i32
  sync_job_filters :: "SyncFilters option"
  sync_job_status :: "JobStatus option"
  sync_job_created_at :: "Timestamp option"
  sync_job_updated_at :: "Timestamp option"
  sync_job_last_sync :: "Timestamp option"
  sync_job_stats :: "SyncStats option"

record FileChange =
  file_change_type :: i32
  file_change_path :: string
  file_change_old_path :: string
  file_change_metadata :: "FileMetadata option"
  file_change_hash :: string
  file_change_old_hash :: string

record SyncConflict =
  sync_conflict_conflict_id :: string
  sync_conflict_job_id :: string
  sync_conflict_local_path :: string
  sync_conflict_remote_path :: string
  sync_conflict_local_metadata :: "FileMetadata option"
  sync_conflict_remote_metadata :: "FileMetadata option"
  sync_conflict_local_hash :: string
  sync_conflict_remote_hash :: string
  sync_conflict_detected_at :: "Timestamp option"
  sync_conflict_resolved_strategy :: i32
  sync_conflict_resolved :: bool

record SyncRequest =
  sync_request_op :: i32
  sync_request_request_id :: u64
  sync_request_job :: "SyncJob option"
  sync_request_job_id :: string
  sync_request_strategy :: i32
  sync_request_conflict_id :: string

record SyncResponse =
  sync_response_request_id :: u64
  sync_response_result :: i32
  sync_response_error_message :: string
  sync_response_job :: "SyncJob option"
  sync_response_jobs :: "SyncJob list"
  sync_response_status :: "JobStatus option"
  sync_response_conflicts :: "SyncConflict list"
  sync_response_stats :: "SyncStats option"

record SyncProgress =
  sync_progress_job_id :: string
  sync_progress_status :: "JobStatus option"
  sync_progress_current_change :: "FileChange option"

record SyncCapabilities =
  sync_capabilities_bidirectional :: bool
  sync_capabilities_conflict_resolution :: bool
  sync_capabilities_incremental :: bool
  sync_capabilities_scheduling :: bool
  sync_capabilities_filters :: bool
  sync_capabilities_supported_strategies :: "i32 list"
  sync_capabilities_hash_verification :: bool
  sync_capabilities_partial_sync :: bool

record Location =
  location_latitude :: f64_bits
  location_longitude :: f64_bits
  location_altitude :: f64_bits
  location_timestamp :: u64

record PhotoMetadata =
  photo_metadata_photo_id :: string
  photo_metadata_filename :: string
  photo_metadata_path :: string
  photo_metadata_size :: u64
  photo_metadata_mime_type :: string
  photo_metadata_created_time :: u64
  photo_metadata_modified_time :: u64
  photo_metadata_width :: u32
  photo_metadata_height :: u32
  photo_metadata_hash :: string
  photo_metadata_exif :: "(string, string) hmap"
  photo_metadata_location :: "Location option"
  photo_metadata_albums :: "string list"
  photo_metadata_is_favorite :: bool
  photo_metadata_is_trashed :: bool

record AlbumMetadata =
  album_metadata_album_id :: string
  album_metadata_name :: string
  album_metadata_description :: string
  album_metadata_photo_count :: u64
  album_metadata_created_time :: u64
  album_metadata_modified_time :: u64
  album_metadata_cover_photo_id :: string
  album_metadata_is_system :: bool

record PhotoBackupConfig =
  photo_backup_config_enabled :: bool
  photo_backup_config_auto_backup :: bool
  photo_backup_config_backup_on_connect :: bool
  photo_backup_config_source_albums :: "string list"
  photo_backup_config_destination_path :: string
  photo_backup_config_organize_by_date :: bool

record PhotoBackupStatus =
  photo_backup_status_state :: i32
  photo_backup_status_total_photos :: u64
  photo_backup_status_backed_up :: u64
  photo_backup_status_skipped :: u64
  photo_backup_status_errors :: u64
  photo_backup_status_bytes_total :: u64
  photo_backup_status_bytes_transferred :: u64
  photo_backup_status_current_photo :: string
  photo_backup_status_error_message :: string
  photo_backup_status_start_time :: u64
  photo_backup_status_estimated_completion :: u64
  photo_backup_status_last_completed :: u64

record PhotoBackupRequest =
  photo_backup_request_op :: i32
  photo_backup_request_request_id :: u64
  photo_backup_request_config :: "PhotoBackupConfig option"
  photo_backup_request_photo_id :: string
  photo_backup_request_album_id :: string
  photo_backup_request_range :: "ByteRange option"

record PhotoBackupResponse =
  photo_backup_response_request_id :: u64
  photo_backup_response_result :: i32
  photo_backup_response_error_message :: string
  photo_backup_response_status :: "PhotoBackupStatus option"
  photo_backup_response_albums :: "AlbumMetadata list"
  photo_backup_response_photos :: "PhotoMetadata list"
  photo_backup_response_photo :: "PhotoMetadata option"
  photo_backup_response_photo_data :: bytes
  photo_backup_response_config :: "PhotoBackupConfig option"

record PhotoBackupProgress =
  photo_backup_progress_photos_processed :: u64
  photo_backup_progress_photos_total :: u64
  photo_backup_progress_bytes_transferred :: u64
  photo_backup_progress_bytes_total :: u64
  photo_backup_progress_current_photo :: string
  photo_backup_progress_current_metadata :: "PhotoMetadata option"

subsection \<open>Enumerations\<close>

datatype (plugins only: code size) FsOpType =
    FsOpType_FsOpList
  | FsOpType_FsOpStat
  | FsOpType_FsOpRead
  | FsOpType_FsOpWrite
  | FsOpType_FsOpCreate
  | FsOpType_FsOpDelete
  | FsOpType_FsOpMove
  | FsOpType_FsOpCopy
  | FsOpType_FsOpMkdir
  | FsOpType_FsOpRmdir
  | FsOpType_FsOpWatch
  | FsOpType_FsOpUnwatch
  | FsOpType_FsOpSearch
  | FsOpType_FsOpHash
  | FsOpType_FsOpGetCaps
  | FsOpType_FsOpSetAttr
  | FsOpType_FsOpSymlink
  | FsOpType_FsOpReadlink
  | FsOpType_FsOpStreamOpen
  | FsOpType_FsOpStreamRead
  | FsOpType_FsOpStreamClose

definition FsOpType_i32 :: "FsOpType \<Rightarrow> i32" where
  "FsOpType_i32 t =
     (case t of
        FsOpType_FsOpList \<Rightarrow> 0
      | FsOpType_FsOpStat \<Rightarrow> 1
      | FsOpType_FsOpRead \<Rightarrow> 2
      | FsOpType_FsOpWrite \<Rightarrow> 3
      | FsOpType_FsOpCreate \<Rightarrow> 4
      | FsOpType_FsOpDelete \<Rightarrow> 5
      | FsOpType_FsOpMove \<Rightarrow> 6
      | FsOpType_FsOpCopy \<Rightarrow> 7
      | FsOpType_FsOpMkdir \<Rightarrow> 8
      | FsOpType_FsOpRmdir \<Rightarrow> 9
      | FsOpType_FsOpWatch \<Rightarrow> 10
      | FsOpType_FsOpUnwatch \<Rightarrow> 11
      | FsOpType_FsOpSearch \<Rightarrow> 12
      | FsOpType_FsOpHash \<Rightarrow> 13
      | FsOpType_FsOpGetCaps \<Rightarrow> 14
      | FsOpType_FsOpSetAttr \<Rightarrow> 15
      | FsOpType_FsOpSymlink \<Rightarrow> 16
      | FsOpType_FsOpReadlink \<Rightarrow> 17
      | FsOpType_FsOpStreamOpen \<Rightarrow> 18
      | FsOpType_FsOpStreamRead \<Rightarrow> 19
      | FsOpType_FsOpStreamClose \<Rightarrow> 20)"

definition FsOpType_variants :: "FsOpType list" where
  "FsOpType_variants =
    [FsOpType_FsOpList,
     FsOpType_FsOpStat,
     FsOpType_FsOpRead,
     FsOpType_FsOpWrite,
     FsOpType_FsOpCreate,
     FsOpType_FsOpDelete,
     FsOpType_FsOpMove,
     FsOpType_FsOpCopy,
     FsOpType_FsOpMkdir,
     FsOpType_FsOpRmdir,
     FsOpType_FsOpWatch,
     FsOpType_FsOpUnwatch,
     FsOpType_FsOpSearch,
     FsOpType_FsOpHash,
     FsOpType_FsOpGetCaps,
     FsOpType_FsOpSetAttr,
     FsOpType_FsOpSymlink,
     FsOpType_FsOpReadlink,
     FsOpType_FsOpStreamOpen,
     FsOpType_FsOpStreamRead,
     FsOpType_FsOpStreamClose]"

definition FsOpType_try_from :: "i32 \<Rightarrow> FsOpType option" where
  "FsOpType_try_from v = find (\<lambda>t. FsOpType_i32 t = v) FsOpType_variants"

definition FsOpType_as_str_name :: "FsOpType \<Rightarrow> string" where
  "FsOpType_as_str_name t =
     (case t of
        FsOpType_FsOpList \<Rightarrow> ''FS_OP_LIST''
      | FsOpType_FsOpStat \<Rightarrow> ''FS_OP_STAT''
      | FsOpType_FsOpRead \<Rightarrow> ''FS_OP_READ''
      | FsOpType_FsOpWrite \<Rightarrow> ''FS_OP_WRITE''
      | FsOpType_FsOpCreate \<Rightarrow> ''FS_OP_CREATE''
      | FsOpType_FsOpDelete \<Rightarrow> ''FS_OP_DELETE''
      | FsOpType_FsOpMove \<Rightarrow> ''FS_OP_MOVE''
      | FsOpType_FsOpCopy \<Rightarrow> ''FS_OP_COPY''
      | FsOpType_FsOpMkdir \<Rightarrow> ''FS_OP_MKDIR''
      | FsOpType_FsOpRmdir \<Rightarrow> ''FS_OP_RMDIR''
      | FsOpType_FsOpWatch \<Rightarrow> ''FS_OP_WATCH''
      | FsOpType_FsOpUnwatch \<Rightarrow> ''FS_OP_UNWATCH''
      | FsOpType_FsOpSearch \<Rightarrow> ''FS_OP_SEARCH''
      | FsOpType_FsOpHash \<Rightarrow> ''FS_OP_HASH''
      | FsOpType_FsOpGetCaps \<Rightarrow> ''FS_OP_GET_CAPS''
      | FsOpType_FsOpSetAttr \<Rightarrow> ''FS_OP_SET_ATTR''
      | FsOpType_FsOpSymlink \<Rightarrow> ''FS_OP_SYMLINK''
      | FsOpType_FsOpReadlink \<Rightarrow> ''FS_OP_READLINK''
      | FsOpType_FsOpStreamOpen \<Rightarrow> ''FS_OP_STREAM_OPEN''
      | FsOpType_FsOpStreamRead \<Rightarrow> ''FS_OP_STREAM_READ''
      | FsOpType_FsOpStreamClose \<Rightarrow> ''FS_OP_STREAM_CLOSE'')"

definition FsOpType_from_str_name :: "string \<Rightarrow> FsOpType option" where
  "FsOpType_from_str_name s = map_of
    [(''FS_OP_LIST'', FsOpType_FsOpList),
     (''FS_OP_STAT'', FsOpType_FsOpStat),
     (''FS_OP_READ'', FsOpType_FsOpRead),
     (''FS_OP_WRITE'', FsOpType_FsOpWrite),
     (''FS_OP_CREATE'', FsOpType_FsOpCreate),
     (''FS_OP_DELETE'', FsOpType_FsOpDelete),
     (''FS_OP_MOVE'', FsOpType_FsOpMove),
     (''FS_OP_COPY'', FsOpType_FsOpCopy),
     (''FS_OP_MKDIR'', FsOpType_FsOpMkdir),
     (''FS_OP_RMDIR'', FsOpType_FsOpRmdir),
     (''FS_OP_WATCH'', FsOpType_FsOpWatch),
     (''FS_OP_UNWATCH'', FsOpType_FsOpUnwatch),
     (''FS_OP_SEARCH'', FsOpType_FsOpSearch),
     (''FS_OP_HASH'', FsOpType_FsOpHash),
     (''FS_OP_GET_CAPS'', FsOpType_FsOpGetCaps),
     (''FS_OP_SET_ATTR'', FsOpType_FsOpSetAttr),
     (''FS_OP_SYMLINK'', FsOpType_FsOpSymlink),
     (''FS_OP_READLINK'', FsOpType_FsOpReadlink),
     (''FS_OP_STREAM_OPEN'', FsOpType_FsOpStreamOpen),
     (''FS_OP_STREAM_READ'', FsOpType_FsOpStreamRead),
     (''FS_OP_STREAM_CLOSE'', FsOpType_FsOpStreamClose)] s"

interpretation FsOpType_enum: proto_enum FsOpType_variants FsOpType_i32 FsOpType_try_from FsOpType_as_str_name FsOpType_from_str_name
proof unfold_locales
  show "t \<in> set FsOpType_variants" for t
    by (cases t) (simp_all add: FsOpType_variants_def)
  show "distinct (map FsOpType_i32 FsOpType_variants)"
    by (simp add: FsOpType_variants_def FsOpType_i32_def)
  show "FsOpType_from_str_name (FsOpType_as_str_name t) = Some t" for t
    by (cases t) (simp_all add: FsOpType_from_str_name_def FsOpType_as_str_name_def)
  show "FsOpType_from_str_name s = Some t \<Longrightarrow> FsOpType_as_str_name t = s" for s t
    unfolding FsOpType_from_str_name_def by (drule map_of_SomeD) (auto simp: FsOpType_as_str_name_def)
qed (simp add: FsOpType_try_from_def)

datatype (plugins only: code size) FsFlags =
    FsFlags_FlagNone
  | FsFlags_FlagCreateParents
  | FsFlags_FlagOverwrite
  | FsFlags_FlagRecursive
  | FsFlags_FlagFollowSymlinks
  | FsFlags_FlagNoFollowSymlinks
  | FsFlags_FlagAtomic
  | FsFlags_FlagAppend
  | FsFlags_FlagSync
  | FsFlags_FlagDirectory
  | FsFlags_FlagFile

definition FsFlags_i32 :: "FsFlags \<Rightarrow> i32" where
  "FsFlags_i32 t =
     (case t of
        FsFlags_FlagNone \<Rightarrow> 0
      | FsFlags_FlagCreateParents \<Rightarrow> 1
      | FsFlags_FlagOverwrite \<Rightarrow> 2
      | FsFlags_FlagRecursive \<Rightarrow> 4
      | FsFlags_FlagFollowSymlinks \<Rightarrow> 8
      | FsFlags_FlagNoFollowSymlinks \<Rightarrow> 16
      | FsFlags_FlagAtomic \<Rightarrow> 32
      | FsFlags_FlagAppend \<Rightarrow> 64
      | FsFlags_FlagSync \<Rightarrow> 128
      | FsFlags_FlagDirectory \<Rightarrow> 256
      | FsFlags_FlagFile \<Rightarrow> 512)"

definition FsFlags_variants :: "FsFlags list" where
  "FsFlags_variants =
    [FsFlags_FlagNone,
     FsFlags_FlagCreateParents,
     FsFlags_FlagOverwrite,
     FsFlags_FlagRecursive,
     FsFlags_FlagFollowSymlinks,
     FsFlags_FlagNoFollowSymlinks,
     FsFlags_FlagAtomic,
     FsFlags_FlagAppend,
     FsFlags_FlagSync,
     FsFlags_FlagDirectory,
     FsFlags_FlagFile]"

definition FsFlags_try_from :: "i32 \<Rightarrow> FsFlags option" where
  "FsFlags_try_from v = find (\<lambda>t. FsFlags_i32 t = v) FsFlags_variants"

definition FsFlags_as_str_name :: "FsFlags \<Rightarrow> string" where
  "FsFlags_as_str_name t =
     (case t of
        FsFlags_FlagNone \<Rightarrow> ''FLAG_NONE''
      | FsFlags_FlagCreateParents \<Rightarrow> ''FLAG_CREATE_PARENTS''
      | FsFlags_FlagOverwrite \<Rightarrow> ''FLAG_OVERWRITE''
      | FsFlags_FlagRecursive \<Rightarrow> ''FLAG_RECURSIVE''
      | FsFlags_FlagFollowSymlinks \<Rightarrow> ''FLAG_FOLLOW_SYMLINKS''
      | FsFlags_FlagNoFollowSymlinks \<Rightarrow> ''FLAG_NO_FOLLOW_SYMLINKS''
      | FsFlags_FlagAtomic \<Rightarrow> ''FLAG_ATOMIC''
      | FsFlags_FlagAppend \<Rightarrow> ''FLAG_APPEND''
      | FsFlags_FlagSync \<Rightarrow> ''FLAG_SYNC''
      | FsFlags_FlagDirectory \<Rightarrow> ''FLAG_DIRECTORY''
      | FsFlags_FlagFile \<Rightarrow> ''FLAG_FILE'')"

definition FsFlags_from_str_name :: "string \<Rightarrow> FsFlags option" where
  "FsFlags_from_str_name s = map_of
    [(''FLAG_NONE'', FsFlags_FlagNone),
     (''FLAG_CREATE_PARENTS'', FsFlags_FlagCreateParents),
     (''FLAG_OVERWRITE'', FsFlags_FlagOverwrite),
     (''FLAG_RECURSIVE'', FsFlags_FlagRecursive),
     (''FLAG_FOLLOW_SYMLINKS'', FsFlags_FlagFollowSymlinks),
     (''FLAG_NO_FOLLOW_SYMLINKS'', FsFlags_FlagNoFollowSymlinks),
     (''FLAG_ATOMIC'', FsFlags_FlagAtomic),
     (''FLAG_APPEND'', FsFlags_FlagAppend),
     (''FLAG_SYNC'', FsFlags_FlagSync),
     (''FLAG_DIRECTORY'', FsFlags_FlagDirectory),
     (''FLAG_FILE'', FsFlags_FlagFile)] s"

interpretation FsFlags_enum: proto_enum FsFlags_variants FsFlags_i32 FsFlags_try_from FsFlags_as_str_name FsFlags_from_str_name
proof unfold_locales
  show "t \<in> set FsFlags_variants" for t
    by (cases t) (simp_all add: FsFlags_variants_def)
  show "distinct (map FsFlags_i32 FsFlags_variants)"
    by (simp add: FsFlags_variants_def FsFlags_i32_def)
  show "FsFlags_from_str_name (FsFlags_as_str_name t) = Some t" for t
    by (cases t) (simp_all add: FsFlags_from_str_name_def FsFlags_as_str_name_def)
  show "FsFlags_from_str_name s = Some t \<Longrightarrow> FsFlags_as_str_name t = s" for s t
    unfolding FsFlags_from_str_name_def by (drule map_of_SomeD) (auto simp: FsFlags_as_str_name_def)
qed (simp add: FsFlags_try_from_def)

datatype (plugins only: code size) WatchEventType =
    WatchEventType_EventUnspecified
  | WatchEventType_EventCreated
  | WatchEventType_EventModified
  | WatchEventType_EventDeleted
  | WatchEventType_EventRenamed
  | WatchEventType_EventAttributes
  | WatchEventType_EventAll

definition WatchEventType_i32 :: "WatchEventType \<Rightarrow> i32" where
  "WatchEventType_i32 t =
     (case t of
        WatchEventType_EventUnspecified \<Rightarrow> 0
      | WatchEventType_EventCreated \<Rightarrow> 1
      | WatchEventType_EventModified \<Rightarrow> 2
      | WatchEventType_EventDeleted \<Rightarrow> 4
      | WatchEventType_EventRenamed \<Rightarrow> 8
      | WatchEventType_EventAttributes \<Rightarrow> 16
      | WatchEventType_EventAll \<Rightarrow> 31)"

definition WatchEventType_variants :: "WatchEventType list" where
  "WatchEventType_variants =
    [WatchEventType_EventUnspecified,
     WatchEventType_EventCreated,
     WatchEventType_EventModified,
     WatchEventType_EventDeleted,
     WatchEventType_EventRenamed,
     WatchEventType_EventAttributes,
     WatchEventType_EventAll]"

definition WatchEventType_try_from :: "i32 \<Rightarrow> WatchEventType option" where
  "WatchEventType_try_from v = find (\<lambda>t. WatchEventType_i32 t = v) WatchEventType_variants"

definition WatchEventType_as_str_name :: "WatchEventType \<Rightarrow> string" where
  "WatchEventType_as_str_name t =
     (case t of
        WatchEventType_EventUnspecified \<Rightarrow> ''EVENT_UNSPECIFIED''
      | WatchEventType_EventCreated \<Rightarrow> ''EVENT_CREATED''
      | WatchEventType_EventModified \<Rightarrow> ''EVENT_MODIFIED''
      | WatchEventType_EventDeleted \<Rightarrow> ''EVENT_DELETED''
      | WatchEventType_EventRenamed \<Rightarrow> ''EVENT_RENAMED''
      | WatchEventType_EventAttributes \<Rightarrow> ''EVENT_ATTRIBUTES''
      | WatchEventType_EventAll \<Rightarrow> ''EVENT_ALL'')"

definition WatchEventType_from_str_name :: "string \<Rightarrow> WatchEventType option" where
  "WatchEventType_from_str_name s = map_of
    [(''EVENT_UNSPECIFIED'', WatchEventType_EventUnspecified),
     (''EVENT_CREATED'', WatchEventType_EventCreated),
     (''EVENT_MODIFIED'', WatchEventType_EventModified),
     (''EVENT_DELETED'', WatchEventType_EventDeleted),
     (''EVENT_RENAMED'', WatchEventType_EventRenamed),
     (''EVENT_ATTRIBUTES'', WatchEventType_EventAttributes),
     (''EVENT_ALL'', WatchEventType_EventAll)] s"

interpretation WatchEventType_enum: proto_enum WatchEventType_variants WatchEventType_i32 WatchEventType_try_from WatchEventType_as_str_name WatchEventType_from_str_name
proof unfold_locales
  show "t \<in> set WatchEventType_variants" for t
    by (cases t) (simp_all add: WatchEventType_variants_def)
  show "distinct (map WatchEventType_i32 WatchEventType_variants)"
    by (simp add: WatchEventType_variants_def WatchEventType_i32_def)
  show "WatchEventType_from_str_name (WatchEventType_as_str_name t) = Some t" for t
    by (cases t) (simp_all add: WatchEventType_from_str_name_def WatchEventType_as_str_name_def)
  show "WatchEventType_from_str_name s = Some t \<Longrightarrow> WatchEventType_as_str_name t = s" for s t
    unfolding WatchEventType_from_str_name_def by (drule map_of_SomeD) (auto simp: WatchEventType_as_str_name_def)
qed (simp add: WatchEventType_try_from_def)

datatype (plugins only: code size) SyncSchedule_Type =
    SyncSchedule_Type_Manual
  | SyncSchedule_Type_Interval
  | SyncSchedule_Type_Daily
  | SyncSchedule_Type_Weekly
  | SyncSchedule_Type_OnConnect
  | SyncSchedule_Type_OnChange

definition SyncSchedule_Type_i32 :: "SyncSchedule_Type \<Rightarrow> i32" where
  "SyncSchedule_Type_i32 t =
     (case t of
        SyncSchedule_Type_Manual \<Rightarrow> 0
      | SyncSchedule_Type_Interval \<Rightarrow> 1
      | SyncSchedule_Type_Daily \<Rightarrow> 2
      | SyncSchedule_Type_Weekly \<Rightarrow> 3
      | SyncSchedule_Type_OnConnect \<Rightarrow> 4
      | SyncSchedule_Type_OnChange \<Rightarrow> 5)"

definition SyncSchedule_Type_variants :: "SyncSchedule_Type list" where
  "SyncSchedule_Type_variants =
    [SyncSchedule_Type_Manual,
     SyncSchedule_Type_Interval,
     SyncSchedule_Type_Daily,
     SyncSchedule_Type_Weekly,
     SyncSchedule_Type_OnConnect,
     SyncSchedule_Type_OnChange]"

definition SyncSchedule_Type_try_from :: "i32 \<Rightarrow> SyncSchedule_Type option" where
  "SyncSchedule_Type_try_from v = find (\<lambda>t. SyncSchedule_Type_i32 t = v) SyncSchedule_Type_variants"

definition SyncSchedule_Type_as_str_name :: "SyncSchedule_Type \<Rightarrow> string" where
  "SyncSchedule_Type_as_str_name t =
     (case t of
        SyncSchedule_Type_Manual \<Rightarrow> ''TYPE_MANUAL''
      | SyncSchedule_Type_Interval \<Rightarrow> ''TYPE_INTERVAL''
      | SyncSchedule_Type_Daily \<Rightarrow> ''TYPE_DAILY''
      | SyncSchedule_Type_Weekly \<Rightarrow> ''TYPE_WEEKLY''
      | SyncSchedule_Type_OnConnect \<Rightarrow> ''TYPE_ON_CONNECT''
      | SyncSchedule_Type_OnChange \<Rightarrow> ''TYPE_ON_CHANGE'')"

definition SyncSchedule_Type_from_str_name :: "string \<Rightarrow> SyncSchedule_Type option" where
  "SyncSchedule_Type_from_str_name s = map_of
    [(''TYPE_MANUAL'', SyncSchedule_Type_Manual),
     (''TYPE_INTERVAL'', SyncSchedule_Type_Interval),
     (''TYPE_DAILY'', SyncSchedule_Type_Daily),
     (''TYPE_WEEKLY'', SyncSchedule_Type_Weekly),
     (''TYPE_ON_CONNECT'', SyncSchedule_Type_OnConnect),
     (''TYPE_ON_CHANGE'', SyncSchedule_Type_OnChange)] s"

interpretation SyncSchedule_Type_enum: proto_enum SyncSchedule_Type_variants SyncSchedule_Type_i32 SyncSchedule_Type_try_from SyncSchedule_Type_as_str_name SyncSchedule_Type_from_str_name
proof unfold_locales
  show "t \<in> set SyncSchedule_Type_variants" for t
    by (cases t) (simp_all add: SyncSchedule_Type_variants_def)
  show "distinct (map SyncSchedule_Type_i32 SyncSchedule_Type_variants)"
    by (simp add: SyncSchedule_Type_variants_def SyncSchedule_Type_i32_def)
  show "SyncSchedule_Type_from_str_name (SyncSchedule_Type_as_str_name t) = Some t" for t
    by (cases t) (simp_all add: SyncSchedule_Type_from_str_name_def SyncSchedule_Type_as_str_name_def)
  show "SyncSchedule_Type_from_str_name s = Some t \<Longrightarrow> SyncSchedule_Type_as_str_name t = s" for s t
    unfolding SyncSchedule_Type_from_str_name_def by (drule map_of_SomeD) (auto simp: SyncSchedule_Type_as_str_name_def)
qed (simp add: SyncSchedule_Type_try_from_def)

datatype (plugins only: code size) JobStatus_State =
    JobStatus_State_Idle
  | JobStatus_State_Running
  | JobStatus_State_Paused
  | JobStatus_State_Error
  | JobStatus_State_Completed
  | JobStatus_State_Cancelled

definition JobStatus_State_i32 :: "JobStatus_State \<Rightarrow> i32" where
  "JobStatus_State_i32 t =
     (case t of
        JobStatus_State_Idle \<Rightarrow> 0
      | JobStatus_State_Running \<Rightarrow> 1
      | JobStatus_State_Paused \<Rightarrow> 2
      | JobStatus_State_Error \<Rightarrow> 3
      | JobStatus_State_Completed \<Rightarrow> 4
      | JobStatus_State_Cancelled \<Rightarrow> 5)"

definition JobStatus_State_variants :: "JobStatus_State list" where
  "JobStatus_State_variants =
    [JobStatus_State_Idle,
     JobStatus_State_Running,
     JobStatus_State_Paused,
     JobStatus_State_Error,
     JobStatus_State_Completed,
     JobStatus_State_Cancelled]"

definition JobStatus_State_try_from :: "i32 \<Rightarrow> JobStatus_State option" where
  "JobStatus_State_try_from v = find (\<lambda>t. JobStatus_State_i32 t = v) JobStatus_State_variants"

definition JobStatus_State_as_str_name :: "JobStatus_State \<Rightarrow> string" where
  "JobStatus_State_as_str_name t =
     (case t of
        JobStatus_State_Idle \<Rightarrow> ''STATE_IDLE''
      | JobStatus_State_Running \<Rightarrow> ''STATE_RUNNING''
      | JobStatus_State_Paused \<Rightarrow> ''STATE_PAUSED''
      | JobStatus_State_Error \<Rightarrow> ''STATE_ERROR''
      | JobStatus_State_Completed \<Rightarrow> ''STATE_COMPLETED''
      | JobStatus_State_Cancelled \<Rightarrow> ''STATE_CANCELLED'')"

definition JobStatus_State_from_str_name :: "string \<Rightarrow> JobStatus_State option" where
  "JobStatus_State_from_str_name s = map_of
    [(''STATE_IDLE'', JobStatus_State_Idle),
     (''STATE_RUNNING'', JobStatus_State_Running),
     (''STATE_PAUSED'', JobStatus_State_Paused),
     (''STATE_ERROR'', JobStatus_State_Error),
     (''STATE_COMPLETED'', JobStatus_State_Completed),
     (''STATE_CANCELLED'', JobStatus_State_Cancelled)] s"

interpretation JobStatus_State_enum: proto_enum JobStatus_State_variants JobStatus_State_i32 JobStatus_State_try_from JobStatus_State_as_str_name JobStatus_State_from_str_name
proof unfold_locales
  show "t \<in> set JobStatus_State_variants" for t
    by (cases t) (simp_all add: JobStatus_State_variants_def)
  show "distinct (map JobStatus_State_i32 JobStatus_State_variants)"
    by (simp add: JobStatus_State_variants_def JobStatus_State_i32_def)
  show "JobStatus_State_from_str_name (JobStatus_State_as_str_name t) = Some t" for t
    by (cases t) (simp_all add: JobStatus_State_from_str_name_def JobStatus_State_as_str_name_def)
  show "JobStatus_State_from_str_name s = Some t \<Longrightarrow> JobStatus_State_as_str_name t = s" for s t
    unfolding JobStatus_State_from_str_name_def by (drule map_of_SomeD) (auto simp: JobStatus_State_as_str_name_def)
qed (simp add: JobStatus_State_try_from_def)

datatype (plugins only: code size) FileChange_ChangeType =
    FileChange_ChangeType_ChangeCreated
  | FileChange_ChangeType_ChangeModified
  | FileChange_ChangeType_ChangeDeleted
  | FileChange_ChangeType_ChangeRenamed
  | FileChange_ChangeType_ChangeAttributes

definition FileChange_ChangeType_i32 :: "FileChange_ChangeType \<Rightarrow> i32" where
  "FileChange_ChangeType_i32 t =
     (case t of
        FileChange_ChangeType_ChangeCreated \<Rightarrow> 0
      | FileChange_ChangeType_ChangeModified \<Rightarrow> 1
      | FileChange_ChangeType_ChangeDeleted \<Rightarrow> 2
      | FileChange_ChangeType_ChangeRenamed \<Rightarrow> 3
      | FileChange_ChangeType_ChangeAttributes \<Rightarrow> 4)"

definition FileChange_ChangeType_variants :: "FileChange_ChangeType list" where
  "FileChange_ChangeType_variants =
    [FileChange_ChangeType_ChangeCreated,
     FileChange_ChangeType_ChangeModified,
     FileChange_ChangeType_ChangeDeleted,
     FileChange_ChangeType_ChangeRenamed,
     FileChange_ChangeType_ChangeAttributes]"

definition FileChange_ChangeType_try_from :: "i32 \<Rightarrow> FileChange_ChangeType option" where
  "FileChange_ChangeType_try_from v = find (\<lambda>t. FileChange_ChangeType_i32 t = v) FileChange_ChangeType_variants"

definition FileChange_ChangeType_as_str_name :: "FileChange_ChangeType \<Rightarrow> string" where
  "FileChange_ChangeType_as_str_name t =
     (case t of
        FileChange_ChangeType_ChangeCreated \<Rightarrow> ''CHANGE_CREATED''
      | FileChange_ChangeType_ChangeModified \<Rightarrow> ''CHANGE_MODIFIED''
      | FileChange_ChangeType_ChangeDeleted \<Rightarrow> ''CHANGE_DELETED''
      | FileChange_ChangeType_ChangeRenamed \<Rightarrow> ''CHANGE_RENAMED''
      | FileChange_ChangeType_ChangeAttributes \<Rightarrow> ''CHANGE_ATTRIBUTES'')"

definition FileChange_ChangeType_from_str_name :: "string \<Rightarrow> FileChange_ChangeType option" where
  "FileChange_ChangeType_from_str_name s = map_of
    [(''CHANGE_CREATED'', FileChange_ChangeType_ChangeCreated),
     (''CHANGE_MODIFIED'', FileChange_ChangeType_ChangeModified),
     (''CHANGE_DELETED'', FileChange_ChangeType_ChangeDeleted),
     (''CHANGE_RENAMED'', FileChange_ChangeType_ChangeRenamed),
     (''CHANGE_ATTRIBUTES'', FileChange_ChangeType_ChangeAttributes)] s"

interpretation FileChange_ChangeType_enum: proto_enum FileChange_ChangeType_variants FileChange_ChangeType_i32 FileChange_ChangeType_try_from FileChange_ChangeType_as_str_name FileChange_ChangeType_from_str_name
proof unfold_locales
  show "t \<in> set FileChange_ChangeType_variants" for t
    by (cases t) (simp_all add: FileChange_ChangeType_variants_def)
  show "distinct (map FileChange_ChangeType_i32 FileChange_ChangeType_variants)"
    by (simp add: FileChange_ChangeType_variants_def FileChange_ChangeType_i32_def)
  show "FileChange_ChangeType_from_str_name (FileChange_ChangeType_as_str_name t) = Some t" for t
    by (cases t) (simp_all add: FileChange_ChangeType_from_str_name_def FileChange_ChangeType_as_str_name_def)
  show "FileChange_ChangeType_from_str_name s = Some t \<Longrightarrow> FileChange_ChangeType_as_str_name t = s" for s t
    unfolding FileChange_ChangeType_from_str_name_def by (drule map_of_SomeD) (auto simp: FileChange_ChangeType_as_str_name_def)
qed (simp add: FileChange_ChangeType_try_from_def)

datatype (plugins only: code size) SyncOpType =
    SyncOpType_SyncOpCreateJob
  | SyncOpType_SyncOpUpdateJob
  | SyncOpType_SyncOpDeleteJob
  | SyncOpType_SyncOpStartSync
  | SyncOpType_SyncOpStopSync
  | SyncOpType_SyncOpGetStatus
  | SyncOpType_SyncOpGetJobs
  | SyncOpType_SyncOpGetJob
  | SyncOpType_SyncOpResolveConflict
  | SyncOpType_SyncOpGetConflicts

definition SyncOpType_i32 :: "SyncOpType \<Rightarrow> i32" where
  "SyncOpType_i32 t =
     (case t of
        SyncOpType_SyncOpCreateJob \<Rightarrow> 0
      | SyncOpType_SyncOpUpdateJob \<Rightarrow> 1
      | SyncOpType_SyncOpDeleteJob \<Rightarrow> 2
      | SyncOpType_SyncOpStartSync \<Rightarrow> 3
      | SyncOpType_SyncOpStopSync \<Rightarrow> 4
      | SyncOpType_SyncOpGetStatus \<Rightarrow> 5
      | SyncOpType_SyncOpGetJobs \<Rightarrow> 6
      | SyncOpType_SyncOpGetJob \<Rightarrow> 7
      | SyncOpType_SyncOpResolveConflict \<Rightarrow> 8
      | SyncOpType_SyncOpGetConflicts \<Rightarrow> 9)"

definition SyncOpType_variants :: "SyncOpType list" where
  "SyncOpType_variants =
    [SyncOpType_SyncOpCreateJob,
     SyncOpType_SyncOpUpdateJob,
     SyncOpType_SyncOpDeleteJob,
     SyncOpType_SyncOpStartSync,
     SyncOpType_SyncOpStopSync,
     SyncOpType_SyncOpGetStatus,
     SyncOpType_SyncOpGetJobs,
     SyncOpType_SyncOpGetJob,
     SyncOpType_SyncOpResolveConflict,
     SyncOpType_SyncOpGetConflicts]"

definition SyncOpType_try_from :: "i32 \<Rightarrow> SyncOpType option" where
  "SyncOpType_try_from v = find (\<lambda>t. SyncOpType_i32 t = v) SyncOpType_variants"

definition SyncOpType_as_str_name :: "SyncOpType \<Rightarrow> string" where
  "SyncOpType_as_str_name t =
     (case t of
        SyncOpType_SyncOpCreateJob \<Rightarrow> ''SYNC_OP_CREATE_JOB''
      | SyncOpType_SyncOpUpdateJob \<Rightarrow> ''SYNC_OP_UPDATE_JOB''
      | SyncOpType_SyncOpDeleteJob \<Rightarrow> ''SYNC_OP_DELETE_JOB''
      | SyncOpType_SyncOpStartSync \<Rightarrow> ''SYNC_OP_START_SYNC''
      | SyncOpType_SyncOpStopSync \<Rightarrow> ''SYNC_OP_STOP_SYNC''
      | SyncOpType_SyncOpGetStatus \<Rightarrow> ''SYNC_OP_GET_STATUS''
      | SyncOpType_SyncOpGetJobs \<Rightarrow> ''SYNC_OP_GET_JOBS''
      | SyncOpType_SyncOpGetJob \<Rightarrow> ''SYNC_OP_GET_JOB''
      | SyncOpType_SyncOpResolveConflict \<Rightarrow> ''SYNC_OP_RESOLVE_CONFLICT''
      | SyncOpType_SyncOpGetConflicts \<Rightarrow> ''SYNC_OP_GET_CONFLICTS'')"

definition SyncOpType_from_str_name :: "string \<Rightarrow> SyncOpType option" where
  "SyncOpType_from_str_name s = map_of
    [(''SYNC_OP_CREATE_JOB'', SyncOpType_SyncOpCreateJob),
     (''SYNC_OP_UPDATE_JOB'', SyncOpType_SyncOpUpdateJob),
     (''SYNC_OP_DELETE_JOB'', SyncOpType_SyncOpDeleteJob),
     (''SYNC_OP_START_SYNC'', SyncOpType_SyncOpStartSync),
     (''SYNC_OP_STOP_SYNC'', SyncOpType_SyncOpStopSync),
     (''SYNC_OP_GET_STATUS'', SyncOpType_SyncOpGetStatus),
     (''SYNC_OP_GET_JOBS'', SyncOpType_SyncOpGetJobs),
     (''SYNC_OP_GET_JOB'', SyncOpType_SyncOpGetJob),
     (''SYNC_OP_RESOLVE_CONFLICT'', SyncOpType_SyncOpResolveConflict),
     (''SYNC_OP_GET_CONFLICTS'', SyncOpType_SyncOpGetConflicts)] s"

interpretation SyncOpType_enum: proto_enum SyncOpType_variants SyncOpType_i32 SyncOpType_try_from SyncOpType_as_str_name SyncOpType_from_str_name
proof unfold_locales
  show "t \<in> set SyncOpType_variants" for t
    by (cases t) (simp_all add: SyncOpType_variants_def)
  show "distinct (map SyncOpType_i32 SyncOpType_variants)"
    by (simp add: SyncOpType_variants_def SyncOpType_i32_def)
  show "SyncOpType_from_str_name (SyncOpType_as_str_name t) = Some t" for t
    by (cases t) (simp_all add: SyncOpType_from_str_name_def SyncOpType_as_str_name_def)
  show "SyncOpType_from_str_name s = Some t \<Longrightarrow> SyncOpType_as_str_name t = s" for s t
    unfolding SyncOpType_from_str_name_def by (drule map_of_SomeD) (auto simp: SyncOpType_as_str_name_def)
qed (simp add: SyncOpType_try_from_def)

datatype (plugins only: code size) SyncDirection =
    SyncDirection_DirectionUnknown
  | SyncDirection_DirectionUpload
  | SyncDirection_DirectionDownload
  | SyncDirection_DirectionBidirectional

definition SyncDirection_i32 :: "SyncDirection \<Rightarrow> i32" where
  "SyncDirection_i32 t =
     (case t of
        SyncDirection_DirectionUnknown \<Rightarrow> 0
      | SyncDirection_DirectionUpload \<Rightarrow> 1
      | SyncDirection_DirectionDownload \<Rightarrow> 2
      | SyncDirection_DirectionBidirectional \<Rightarrow> 3)"

definition SyncDirection_variants :: "SyncDirection list" where
  "SyncDirection_variants =
    [SyncDirection_DirectionUnknown,
     SyncDirection_DirectionUpload,
     SyncDirection_DirectionDownload,
     SyncDirection_DirectionBidirectional]"

definition SyncDirection_try_from :: "i32 \<Rightarrow> SyncDirection option" where
  "SyncDirection_try_from v = find (\<lambda>t. SyncDirection_i32 t = v) SyncDirection_variants"

definition SyncDirection_as_str_name :: "SyncDirection \<Rightarrow> string" where
  "SyncDirection_as_str_name t =
     (case t of
        SyncDirection_DirectionUnknown \<Rightarrow> ''DIRECTION_UNKNOWN''
      | SyncDirection_DirectionUpload \<Rightarrow> ''DIRECTION_UPLOAD''
      | SyncDirection_DirectionDownload \<Rightarrow> ''DIRECTION_DOWNLOAD''
      | SyncDirection_DirectionBidirectional \<Rightarrow> ''DIRECTION_BIDIRECTIONAL'')"

definition SyncDirection_from_str_name :: "string \<Rightarrow> SyncDirection option" where
  "SyncDirection_from_str_name s = map_of
    [(''DIRECTION_UNKNOWN'', SyncDirection_DirectionUnknown),
     (''DIRECTION_UPLOAD'', SyncDirection_DirectionUpload),
     (''DIRECTION_DOWNLOAD'', SyncDirection_DirectionDownload),
     (''DIRECTION_BIDIRECTIONAL'', SyncDirection_DirectionBidirectional)] s"

interpretation SyncDirection_enum: proto_enum SyncDirection_variants SyncDirection_i32 SyncDirection_try_from SyncDirection_as_str_name SyncDirection_from_str_name
proof unfold_locales
  show "t \<in> set SyncDirection_variants" for t
    by (cases t) (simp_all add: SyncDirection_variants_def)
  show "distinct (map SyncDirection_i32 SyncDirection_variants)"
    by (simp add: SyncDirection_variants_def SyncDirection_i32_def)
  show "SyncDirection_from_str_name (SyncDirection_as_str_name t) = Some t" for t
    by (cases t) (simp_all add: SyncDirection_from_str_name_def SyncDirection_as_str_name_def)
  show "SyncDirection_from_str_name s = Some t \<Longrightarrow> SyncDirection_as_str_name t = s" for s t
    unfolding SyncDirection_from_str_name_def by (drule map_of_SomeD) (auto simp: SyncDirection_as_str_name_def)
qed (simp add: SyncDirection_try_from_def)

datatype (plugins only: code size) ConflictStrategy =
    ConflictStrategy_StrategyLastWriteWins
  | ConflictStrategy_StrategyKeepBoth
  | ConflictStrategy_StrategyKeepLocal
  | ConflictStrategy_StrategyKeepRemote
  | ConflictStrategy_StrategyManual
  | ConflictStrategy_StrategySkip

definition ConflictStrategy_i32 :: "ConflictStrategy \<Rightarrow> i32" where
  "ConflictStrategy_i32 t =
     (case t of
        ConflictStrategy_StrategyLastWriteWins \<Rightarrow> 0
      | ConflictStrategy_StrategyKeepBoth \<Rightarrow> 1
      | ConflictStrategy_StrategyKeepLocal \<Rightarrow> 2
      | ConflictStrategy_StrategyKeepRemote \<Rightarrow> 3
      | ConflictStrategy_StrategyManual \<Rightarrow> 4
      | ConflictStrategy_StrategySkip \<Rightarrow> 5)"

definition ConflictStrategy_variants :: "ConflictStrategy list" where
  "ConflictStrategy_variants =
    [ConflictStrategy_StrategyLastWriteWins,
     ConflictStrategy_StrategyKeepBoth,
     ConflictStrategy_StrategyKeepLocal,
     ConflictStrategy_StrategyKeepRemote,
     ConflictStrategy_StrategyManual,
     ConflictStrategy_StrategySkip]"

definition ConflictStrategy_try_from :: "i32 \<Rightarrow> ConflictStrategy option" where
  "ConflictStrategy_try_from v = find (\<lambda>t. ConflictStrategy_i32 t = v) ConflictStrategy_variants"

definition ConflictStrategy_as_str_name :: "ConflictStrategy \<Rightarrow> string" where
  "ConflictStrategy_as_str_name t =
     (case t of
        ConflictStrategy_StrategyLastWriteWins \<Rightarrow> ''STRATEGY_LAST_WRITE_WINS''
      | ConflictStrategy_StrategyKeepBoth \<Rightarrow> ''STRATEGY_KEEP_BOTH''
      | ConflictStrategy_StrategyKeepLocal \<Rightarrow> ''STRATEGY_KEEP_LOCAL''
      | ConflictStrategy_StrategyKeepRemote \<Rightarrow> ''STRATEGY_KEEP_REMOTE''
      | ConflictStrategy_StrategyManual \<Rightarrow> ''STRATEGY_MANUAL''
      | ConflictStrategy_StrategySkip \<Rightarrow> ''STRATEGY_SKIP'')"

definition ConflictStrategy_from_str_name :: "string \<Rightarrow> ConflictStrategy option" where
  "ConflictStrategy_from_str_name s = map_of
    [(''STRATEGY_LAST_WRITE_WINS'', ConflictStrategy_StrategyLastWriteWins),
     (''STRATEGY_KEEP_BOTH'', ConflictStrategy_StrategyKeepBoth),
     (''STRATEGY_KEEP_LOCAL'', ConflictStrategy_StrategyKeepLocal),
     (''STRATEGY_KEEP_REMOTE'', ConflictStrategy_StrategyKeepRemote),
     (''STRATEGY_MANUAL'', ConflictStrategy_StrategyManual),
     (''STRATEGY_SKIP'', ConflictStrategy_StrategySkip)] s"

interpretation ConflictStrategy_enum: proto_enum ConflictStrategy_variants ConflictStrategy_i32 ConflictStrategy_try_from ConflictStrategy_as_str_name ConflictStrategy_from_str_name
proof unfold_locales
  show "t \<in> set ConflictStrategy_variants" for t
    by (cases t) (simp_all add: ConflictStrategy_variants_def)
  show "distinct (map ConflictStrategy_i32 ConflictStrategy_variants)"
    by (simp add: ConflictStrategy_variants_def ConflictStrategy_i32_def)
  show "ConflictStrategy_from_str_name (ConflictStrategy_as_str_name t) = Some t" for t
    by (cases t) (simp_all add: ConflictStrategy_from_str_name_def ConflictStrategy_as_str_name_def)
  show "ConflictStrategy_from_str_name s = Some t \<Longrightarrow> ConflictStrategy_as_str_name t = s" for s t
    unfolding ConflictStrategy_from_str_name_def by (drule map_of_SomeD) (auto simp: ConflictStrategy_as_str_name_def)
qed (simp add: ConflictStrategy_try_from_def)

datatype (plugins only: code size) PhotoBackupStatus_State =
    PhotoBackupStatus_State_Idle
  | PhotoBackupStatus_State_Scanning
  | PhotoBackupStatus_State_BackingUp
  | PhotoBackupStatus_State_Paused
  | PhotoBackupStatus_State_Error
  | PhotoBackupStatus_State_Complete

definition PhotoBackupStatus_State_i32 :: "PhotoBackupStatus_State \<Rightarrow> i32" where
  "PhotoBackupStatus_State_i32 t =
     (case t of
        PhotoBackupStatus_State_Idle \<Rightarrow> 0
      | PhotoBackupStatus_State_Scanning \<Rightarrow> 1
      | PhotoBackupStatus_State_BackingUp \<Rightarrow> 2
      | PhotoBackupStatus_State_Paused \<Rightarrow> 3
      | PhotoBackupStatus_State_Error \<Rightarrow> 4
      | PhotoBackupStatus_State_Complete \<Rightarrow> 5)"

definition PhotoBackupStatus_State_variants :: "PhotoBackupStatus_State list" where
  "PhotoBackupStatus_State_variants =
    [PhotoBackupStatus_State_Idle,
     PhotoBackupStatus_State_Scanning,
     PhotoBackupStatus_State_BackingUp,
     PhotoBackupStatus_State_Paused,
     PhotoBackupStatus_State_Error,
     PhotoBackupStatus_State_Complete]"

definition PhotoBackupStatus_State_try_from :: "i32 \<Rightarrow> PhotoBackupStatus_State option" where
  "PhotoBackupStatus_State_try_from v = find (\<lambda>t. PhotoBackupStatus_State_i32 t = v) PhotoBackupStatus_State_variants"

definition PhotoBackupStatus_State_as_str_name :: "PhotoBackupStatus_State \<Rightarrow> string" where
  "PhotoBackupStatus_State_as_str_name t =
     (case t of
        PhotoBackupStatus_State_Idle \<Rightarrow> ''STATE_IDLE''
      | PhotoBackupStatus_State_Scanning \<Rightarrow> ''STATE_SCANNING''
      | PhotoBackupStatus_State_BackingUp \<Rightarrow> ''STATE_BACKING_UP''
      | PhotoBackupStatus_State_Paused \<Rightarrow> ''STATE_PAUSED''
      | PhotoBackupStatus_State_Error \<Rightarrow> ''STATE_ERROR''
      | PhotoBackupStatus_State_Complete \<Rightarrow> ''STATE_COMPLETE'')"

definition PhotoBackupStatus_State_from_str_name :: "string \<Rightarrow> PhotoBackupStatus_State option" where
  "PhotoBackupStatus_State_from_str_name s = map_of
    [(''STATE_IDLE'', PhotoBackupStatus_State_Idle),
     (''STATE_SCANNING'', PhotoBackupStatus_State_Scanning),
     (''STATE_BACKING_UP'', PhotoBackupStatus_State_BackingUp),
     (''STATE_PAUSED'', PhotoBackupStatus_State_Paused),
     (''STATE_ERROR'', PhotoBackupStatus_State_Error),
     (''STATE_COMPLETE'', PhotoBackupStatus_State_Complete)] s"

interpretation PhotoBackupStatus_State_enum: proto_enum PhotoBackupStatus_State_variants PhotoBackupStatus_State_i32 PhotoBackupStatus_State_try_from PhotoBackupStatus_State_as_str_name PhotoBackupStatus_State_from_str_name
proof unfold_locales
  show "t \<in> set PhotoBackupStatus_State_variants" for t
    by (cases t) (simp_all add: PhotoBackupStatus_State_variants_def)
  show "distinct (map PhotoBackupStatus_State_i32 PhotoBackupStatus_State_variants)"
    by (simp add: PhotoBackupStatus_State_variants_def PhotoBackupStatus_State_i32_def)
  show "PhotoBackupStatus_State_from_str_name (PhotoBackupStatus_State_as_str_name t) = Some t" for t
    by (cases t) (simp_all add: PhotoBackupStatus_State_from_str_name_def PhotoBackupStatus_State_as_str_name_def)
  show "PhotoBackupStatus_State_from_str_name s = Some t \<Longrightarrow> PhotoBackupStatus_State_as_str_name t = s" for s t
    unfolding PhotoBackupStatus_State_from_str_name_def by (drule map_of_SomeD) (auto simp: PhotoBackupStatus_State_as_str_name_def)
qed (simp add: PhotoBackupStatus_State_try_from_def)

datatype (plugins only: code size) PhotoBackupOpType =
    PhotoBackupOpType_PhotoBackupOpStartBackup
  | PhotoBackupOpType_PhotoBackupOpStopBackup
  | PhotoBackupOpType_PhotoBackupOpGetStatus
  | PhotoBackupOpType_PhotoBackupOpGetProgress
  | PhotoBackupOpType_PhotoBackupOpListAlbums
  | PhotoBackupOpType_PhotoBackupOpGetAlbum
  | PhotoBackupOpType_PhotoBackupOpGetPhoto
  | PhotoBackupOpType_PhotoBackupOpScanPhotos
  | PhotoBackupOpType_PhotoBackupOpConfigure

definition PhotoBackupOpType_i32 :: "PhotoBackupOpType \<Rightarrow> i32" where
  "PhotoBackupOpType_i32 t =
     (case t of
        PhotoBackupOpType_PhotoBackupOpStartBackup \<Rightarrow> 0
      | PhotoBackupOpType_PhotoBackupOpStopBackup \<Rightarrow> 1
      | PhotoBackupOpType_PhotoBackupOpGetStatus \<Rightarrow> 2
      | PhotoBackupOpType_PhotoBackupOpGetProgress \<Rightarrow> 3
      | PhotoBackupOpType_PhotoBackupOpListAlbums \<Rightarrow> 4
      | PhotoBackupOpType_PhotoBackupOpGetAlbum \<Rightarrow> 5
      | PhotoBackupOpType_PhotoBackupOpGetPhoto \<Rightarrow> 6
      | PhotoBackupOpType_PhotoBackupOpScanPhotos \<Rightarrow> 7
      | PhotoBackupOpType_PhotoBackupOpConfigure \<Rightarrow> 8)"

definition PhotoBackupOpType_variants :: "PhotoBackupOpType list" where
  "PhotoBackupOpType_variants =
    [PhotoBackupOpType_PhotoBackupOpStartBackup,
     PhotoBackupOpType_PhotoBackupOpStopBackup,
     PhotoBackupOpType_PhotoBackupOpGetStatus,
     PhotoBackupOpType_PhotoBackupOpGetProgress,
     PhotoBackupOpType_PhotoBackupOpListAlbums,
     PhotoBackupOpType_PhotoBackupOpGetAlbum,
     PhotoBackupOpType_PhotoBackupOpGetPhoto,
     PhotoBackupOpType_PhotoBackupOpScanPhotos,
     PhotoBackupOpType_PhotoBackupOpConfigure]"

definition PhotoBackupOpType_try_from :: "i32 \<Rightarrow> PhotoBackupOpType option" where
  "PhotoBackupOpType_try_from v = find (\<lambda>t. PhotoBackupOpType_i32 t = v) PhotoBackupOpType_variants"

definition PhotoBackupOpType_as_str_name :: "PhotoBackupOpType \<Rightarrow> string" where
  "PhotoBackupOpType_as_str_name t =
     (case t of
        PhotoBackupOpType_PhotoBackupOpStartBackup \<Rightarrow> ''PHOTO_BACKUP_OP_START_BACKUP''
      | PhotoBackupOpType_PhotoBackupOpStopBackup \<Rightarrow> ''PHOTO_BACKUP_OP_STOP_BACKUP''
      | PhotoBackupOpType_PhotoBackupOpGetStatus \<Rightarrow> ''PHOTO_BACKUP_OP_GET_STATUS''
      | PhotoBackupOpType_PhotoBackupOpGetProgress \<Rightarrow> ''PHOTO_BACKUP_OP_GET_PROGRESS''
      | PhotoBackupOpType_PhotoBackupOpListAlbums \<Rightarrow> ''PHOTO_BACKUP_OP_LIST_ALBUMS''
      | PhotoBackupOpType_PhotoBackupOpGetAlbum \<Rightarrow> ''PHOTO_BACKUP_OP_GET_ALBUM''
      | PhotoBackupOpType_PhotoBackupOpGetPhoto \<Rightarrow> ''PHOTO_BACKUP_OP_GET_PHOTO''
      | PhotoBackupOpType_PhotoBackupOpScanPhotos \<Rightarrow> ''PHOTO_BACKUP_OP_SCAN_PHOTOS''
      | PhotoBackupOpType_PhotoBackupOpConfigure \<Rightarrow> ''PHOTO_BACKUP_OP_CONFIGURE'')"

definition PhotoBackupOpType_from_str_name :: "string \<Rightarrow> PhotoBackupOpType option" where
  "PhotoBackupOpType_from_str_name s = map_of
    [(''PHOTO_BACKUP_OP_START_BACKUP'', PhotoBackupOpType_PhotoBackupOpStartBackup),
     (''PHOTO_BACKUP_OP_STOP_BACKUP'', PhotoBackupOpType_PhotoBackupOpStopBackup),
     (''PHOTO_BACKUP_OP_GET_STATUS'', PhotoBackupOpType_PhotoBackupOpGetStatus),
     (''PHOTO_BACKUP_OP_GET_PROGRESS'', PhotoBackupOpType_PhotoBackupOpGetProgress),
     (''PHOTO_BACKUP_OP_LIST_ALBUMS'', PhotoBackupOpType_PhotoBackupOpListAlbums),
     (''PHOTO_BACKUP_OP_GET_ALBUM'', PhotoBackupOpType_PhotoBackupOpGetAlbum),
     (''PHOTO_BACKUP_OP_GET_PHOTO'', PhotoBackupOpType_PhotoBackupOpGetPhoto),
     (''PHOTO_BACKUP_OP_SCAN_PHOTOS'', PhotoBackupOpType_PhotoBackupOpScanPhotos),
     (''PHOTO_BACKUP_OP_CONFIGURE'', PhotoBackupOpType_PhotoBackupOpConfigure)] s"

interpretation PhotoBackupOpType_enum: proto_enum PhotoBackupOpType_variants PhotoBackupOpType_i32 PhotoBackupOpType_try_from PhotoBackupOpType_as_str_name PhotoBackupOpType_from_str_name
proof unfold_locales
  show "t \<in> set PhotoBackupOpType_variants" for t
    by (cases t) (simp_all add: PhotoBackupOpType_variants_def)
  show "distinct (map PhotoBackupOpType_i32 PhotoBackupOpType_variants)"
    by (simp add: PhotoBackupOpType_variants_def PhotoBackupOpType_i32_def)
  show "PhotoBackupOpType_from_str_name (PhotoBackupOpType_as_str_name t) = Some t" for t
    by (cases t) (simp_all add: PhotoBackupOpType_from_str_name_def PhotoBackupOpType_as_str_name_def)
  show "PhotoBackupOpType_from_str_name s = Some t \<Longrightarrow> PhotoBackupOpType_as_str_name t = s" for s t
    unfolding PhotoBackupOpType_from_str_name_def by (drule map_of_SomeD) (auto simp: PhotoBackupOpType_as_str_name_def)
qed (simp add: PhotoBackupOpType_try_from_def)

end
