(* ===== verification/Proto_Media.thy ===== *)
theory Proto_Media
  imports Proto_Link
begin

text \<open>
  The messages and enumerations of \<^verbatim>\<open>protocol/src/pb/bpl.protocol.rs\<close> for the shell, the media control and
  the phone's storage.
\<close>

subsection \<open>Messages\<close>

record ShellSession =
  shell_session_session_id :: string
  shell_session_name :: string
  shell_session_working_directory :: string
  shell_session_environment :: "(string, string) hmap"
  shell_session_cols :: u32
  shell_session_rows :: u32
  shell_session_created_at :: "Timestamp option"
  shell_session_last_activity :: "Timestamp option"
  shell_session_state :: i32

record ShellResize =
  shell_resize_cols :: u32
  shell_resize_rows :: u32
  shell_resize_width_pixels :: u32
  shell_resize_height_pixels :: u32

record ShellSignal =
  shell_signal_signal :: i32

record ShellRequest =
  shell_request_op :: i32
  shell_request_request_id :: u64
  shell_request_session_id :: string
  shell_request_command :: string
  shell_request_stdin_data :: bytes
  shell_request_resize :: "ShellResize option"
  shell_request_signal :: "ShellSignal option"
  shell_request_env_key :: string
  shell_request_env_value :: string
  shell_request_new_session :: "ShellSession option"

record ShellOutput =
  shell_output_session_id :: string
  shell_output_type :: i32
  shell_output_data :: bytes
  shell_output_exit_code :: i32
  shell_output_is_final :: bool

record ShellResponse =
  shell_response_request_id :: u64
  shell_response_result :: i32
  shell_response_error_message :: string
  shell_response_session :: "ShellSession option"
  shell_response_sessions :: "ShellSession list"
  shell_response_output :: "ShellOutput option"
  shell_response_environment :: "(string, string) hmap"

record ShellCapabilities =
  shell_capabilities_pty_support :: bool
  shell_capabilities_session_persistence :: bool
  shell_capabilities_command_history :: bool
  shell_capabilities_environment_variables :: bool
  shell_capabilities_signal_handling :: bool
  shell_capabilities_multiplexing :: bool
  shell_capabilities_max_sessions :: u32
  shell_capabilities_max_history_size :: u32
  shell_capabilities_supported_shells :: "string list"

record MediaMetadata =
  media_metadata_title :: string
  media_metadata_artist :: string
  media_metadata_album :: string
  media_metadata_album_artist :: string
  media_metadata_genre :: string
  media_metadata_composer :: string
  media_metadata_track_number :: u32
  media_metadata_total_tracks :: u32
  media_metadata_disc_number :: u32
  media_metadata_total_discs :: u32
  media_metadata_duration :: u64
  media_metadata_position :: u64
  media_metadata_artwork_uri :: string
  media_metadata_artwork_hash :: string
  media_metadata_extras :: "(string, string) hmap"

record PlaybackControls =
  playback_controls_can_play :: bool
  playback_controls_can_pause :: bool
  playback_controls_can_stop :: bool
  playback_controls_can_next :: bool
  playback_controls_can_previous :: bool
  playback_controls_can_seek :: bool
  playback_controls_can_set_volume :: bool
  playback_controls_can_set_repeat :: bool
  playback_controls_can_set_shuffle :: bool
  playback_controls_can_skip_forward :: bool
  playback_controls_can_skip_backward :: bool
  playback_controls_skip_forward_interval :: u32
  playback_controls_skip_backward_interval :: u32

record VolumeInfo =
  volume_info_current :: f32_bits
  volume_info_max :: f32_bits
  volume_info_muted :: bool
  volume_info_steps :: u32

record MediaSession =
  media_session_session_id :: string
  media_session_package_name :: string
  media_session_name :: string
  media_session_active :: bool
  media_session_controllable :: bool
  media_session_state :: i32
  media_session_metadata :: "MediaMetadata option"
  media_session_controls :: "PlaybackControls option"
  media_session_volume :: "VolumeInfo option"
  media_session_repeat :: i32
  media_session_shuffle :: i32
  media_session_updated_at :: "Timestamp option"

record ArtworkRequest =
  artwork_request_session_id :: string
  artwork_request_width :: u32
  artwork_request_height :: u32

record ArtworkResponse =
  artwork_response_result :: i32
  artwork_response_error_message :: string
  artwork_response_data :: bytes
  artwork_response_mime_type :: string
  artwork_response_width :: u32
  artwork_response_height :: u32

record PlaylistItem =
  playlist_item_item_id :: string
  playlist_item_metadata :: "MediaMetadata option"
  playlist_item_playable :: bool

record Playlist =
  playlist_playlist_id :: string
  playlist_name :: string
  playlist_items :: "PlaylistItem list"
  playlist_current_index :: u32

record MediaControlRequest =
  media_control_request_op :: i32
  media_control_request_request_id :: u64
  media_control_request_session_id :: string
  media_control_request_position :: i64
  media_control_request_volume :: f32_bits
  media_control_request_repeat :: i32
  media_control_request_shuffle :: i32
  media_control_request_artwork :: "ArtworkRequest option"

record MediaControlResponse =
  media_control_response_request_id :: u64
  media_control_response_result :: i32
  media_control_response_error_message :: string
  media_control_response_session :: "MediaSession option"
  media_control_response_sessions :: "MediaSession list"
  media_control_response_metadata :: "MediaMetadata option"
  media_control_response_playlist :: "Playlist option"
  media_control_response_artwork :: "ArtworkResponse option"
  media_control_response_volume :: "VolumeInfo option"

record MediaStateEvent =
  media_state_event_session :: "MediaSession option"
  media_state_event_change :: i32
  media_state_event_old_metadata :: "MediaMetadata option"
  media_state_event_new_metadata :: "MediaMetadata option"

record MediaControlCapabilities =
  media_control_capabilities_multiple_sessions :: bool
  media_control_capabilities_artwork :: bool
  media_control_capabilities_playlist :: bool
  media_control_capabilities_volume_control :: bool
  media_control_capabilities_shuffle_repeat :: bool
  media_control_capabilities_position_reporting :: bool
  media_control_capabilities_metadata :: bool
  media_control_capabilities_supported_mime_types :: "string list"

record DocumentRoot =
  document_root_root_id :: string
  document_root_title :: string
  document_root_summary :: string
  document_root_icon :: string
  document_root_mime_types :: string
  document_root_supports_create :: bool
  document_root_supports_search :: bool
  document_root_flags :: u32

record PhoneFsRequest =
  phone_fs_request_op :: i32
  phone_fs_request_request_id :: u64
  phone_fs_request_path :: string
  phone_fs_request_root_id :: string
  phone_fs_request_payload :: bytes
  phone_fs_request_range :: "ByteRange option"
  phone_fs_request_mime_type :: string
  phone_fs_request_destination :: string
  phone_fs_request_display_name :: string

record PhoneFsResponse =
  phone_fs_response_request_id :: u64
  phone_fs_response_result :: i32
  phone_fs_response_error_message :: string
  phone_fs_response_entries :: "DirectoryEntry list"
  phone_fs_response_metadata :: "FileMetadata option"
  phone_fs_response_data :: bytes
  phone_fs_response_bytes_written :: u64
  phone_fs_response_document_id :: string
  phone_fs_response_media_metadata :: "MediaMetadata option"

record PhoneFsCapabilities =
  phone_fs_capabilities_documents_provider :: bool
  phone_fs_capabilities_media_store :: bool
  phone_fs_capabilities_external_storage :: bool
  phone_fs_capabilities_streaming :: bool
  phone_fs_capabilities_partial_reads :: bool
  phone_fs_capabilities_metadata :: bool
  phone_fs_capabilities_search :: bool

subsection \<open>Enumerations\<close>

datatype (plugins only: code size) ShellSignal_SignalType =
    ShellSignal_SignalType_Sigint
  | ShellSignal_SignalType_Sigterm
  | ShellSignal_SignalType_Sigkill
  | ShellSignal_SignalType_Sighup
  | ShellSignal_SignalType_Sigwinch
  | ShellSignal_SignalType_Sigstop
  | ShellSignal_SignalType_Sigcont

definition ShellSignal_SignalType_i32 :: "ShellSignal_SignalType \<Rightarrow> i32" where
  "ShellSignal_SignalType_i32 t =
     (case t of
        ShellSignal_SignalType_Sigint \<Rightarrow> 0
      | ShellSignal_SignalType_Sigterm \<Rightarrow> 1
      | ShellSignal_SignalType_Sigkill \<Rightarrow> 2
      | ShellSignal_SignalType_Sighup \<Rightarrow> 3
      | ShellSignal_SignalType_Sigwinch \<Rightarrow> 4
      | ShellSignal_SignalType_Sigstop \<Rightarrow> 5
      | ShellSignal_SignalType_Sigcont \<Rightarrow> 6)"

definition ShellSignal_SignalType_variants :: "ShellSignal_SignalType list" where
  "ShellSignal_SignalType_variants =
    [ShellSignal_SignalType_Sigint,
     ShellSignal_SignalType_Sigterm,
     ShellSignal_SignalType_Sigkill,
     ShellSignal_SignalType_Sighup,
     ShellSignal_SignalType_Sigwinch,
     ShellSignal_SignalType_Sigstop,
     ShellSignal_SignalType_Sigcont]"

definition ShellSignal_SignalType_try_from :: "i32 \<Rightarrow> ShellSignal_SignalType option" where
  "ShellSignal_SignalType_try_from v = find (\<lambda>t. ShellSignal_SignalType_i32 t = v) ShellSignal_SignalType_variants"

definition ShellSignal_SignalType_as_str_name :: "ShellSignal_SignalType \<Rightarrow> string" where
  "ShellSignal_SignalType_as_str_name t =
     (case t of
        ShellSignal_SignalType_Sigint \<Rightarrow> ''SIGINT''
      | ShellSignal_SignalType_Sigterm \<Rightarrow> ''SIGTERM''
      | ShellSignal_SignalType_Sigkill \<Rightarrow> ''SIGKILL''
      | ShellSignal_SignalType_Sighup \<Rightarrow> ''SIGHUP''
      | ShellSignal_SignalType_Sigwinch \<Rightarrow> ''SIGWINCH''
      | ShellSignal_SignalType_Sigstop \<Rightarrow> ''SIGSTOP''
      | ShellSignal_SignalType_Sigcont \<Rightarrow> ''SIGCONT'')"

definition ShellSignal_SignalType_from_str_name :: "string \<Rightarrow> ShellSignal_SignalType option" where
  "ShellSignal_SignalType_from_str_name s = map_of
    [(''SIGINT'', ShellSignal_SignalType_Sigint),
     (''SIGTERM'', ShellSignal_SignalType_Sigterm),
     (''SIGKILL'', ShellSignal_SignalType_Sigkill),
     (''SIGHUP'', ShellSignal_SignalType_Sighup),
     (''SIGWINCH'', ShellSignal_SignalType_Sigwinch),
     (''SIGSTOP'', ShellSignal_SignalType_Sigstop),
     (''SIGCONT'', ShellSignal_SignalType_Sigcont)] s"

interpretation ShellSignal_SignalType_enum: proto_enum ShellSignal_SignalType_variants ShellSignal_SignalType_i32 ShellSignal_SignalType_try_from ShellSignal_SignalType_as_str_name ShellSignal_SignalType_from_str_name
proof unfold_locales
  show "t \<in> set ShellSignal_SignalType_variants" for t
    by (cases t) (simp_all add: ShellSignal_SignalType_variants_def)
  show "distinct (map ShellSignal_SignalType_i32 ShellSignal_SignalType_variants)"
    by (simp add: ShellSignal_SignalType_variants_def ShellSignal_SignalType_i32_def)
  show "ShellSignal_SignalType_from_str_name (ShellSignal_SignalType_as_str_name t) = Some t" for t
    by (cases t) (simp_all add: ShellSignal_SignalType_from_str_name_def ShellSignal_SignalType_as_str_name_def)
  show "ShellSignal_SignalType_from_str_name s = Some t \<Longrightarrow> ShellSignal_SignalType_as_str_name t = s" for s t
    unfolding ShellSignal_SignalType_from_str_name_def by (drule map_of_SomeD) (auto simp: ShellSignal_SignalType_as_str_name_def)
qed (simp add: ShellSignal_SignalType_try_from_def)

datatype (plugins only: code size) ShellOutput_OutputType =
    ShellOutput_OutputType_Stdout
  | ShellOutput_OutputType_Stderr
  | ShellOutput_OutputType_ExitCode
  | ShellOutput_OutputType_Prompt

definition ShellOutput_OutputType_i32 :: "ShellOutput_OutputType \<Rightarrow> i32" where
  "ShellOutput_OutputType_i32 t =
     (case t of
        ShellOutput_OutputType_Stdout \<Rightarrow> 0
      | ShellOutput_OutputType_Stderr \<Rightarrow> 1
      | ShellOutput_OutputType_ExitCode \<Rightarrow> 2
      | ShellOutput_OutputType_Prompt \<Rightarrow> 3)"

definition ShellOutput_OutputType_variants :: "ShellOutput_OutputType list" where
  "ShellOutput_OutputType_variants =
    [ShellOutput_OutputType_Stdout,
     ShellOutput_OutputType_Stderr,
     ShellOutput_OutputType_ExitCode,
     ShellOutput_OutputType_Prompt]"

definition ShellOutput_OutputType_try_from :: "i32 \<Rightarrow> ShellOutput_OutputType option" where
  "ShellOutput_OutputType_try_from v = find (\<lambda>t. ShellOutput_OutputType_i32 t = v) ShellOutput_OutputType_variants"

definition ShellOutput_OutputType_as_str_name :: "ShellOutput_OutputType \<Rightarrow> string" where
  "ShellOutput_OutputType_as_str_name t =
     (case t of
        ShellOutput_OutputType_Stdout \<Rightarrow> ''STDOUT''
      | ShellOutput_OutputType_Stderr \<Rightarrow> ''STDERR''
      | ShellOutput_OutputType_ExitCode \<Rightarrow> ''EXIT_CODE''
      | ShellOutput_OutputType_Prompt \<Rightarrow> ''PROMPT'')"

definition ShellOutput_OutputType_from_str_name :: "string \<Rightarrow> ShellOutput_OutputType option" where
  "ShellOutput_OutputType_from_str_name s = map_of
    [(''STDOUT'', ShellOutput_OutputType_Stdout),
     (''STDERR'', ShellOutput_OutputType_Stderr),
     (''EXIT_CODE'', ShellOutput_OutputType_ExitCode),
     (''PROMPT'', ShellOutput_OutputType_Prompt)] s"

interpretation ShellOutput_OutputType_enum: proto_enum ShellOutput_OutputType_variants ShellOutput_OutputType_i32 ShellOutput_OutputType_try_from ShellOutput_OutputType_as_str_name ShellOutput_OutputType_from_str_name
proof unfold_locales
  show "t \<in> set ShellOutput_OutputType_variants" for t
    by (cases t) (simp_all add: ShellOutput_OutputType_variants_def)
  show "distinct (map ShellOutput_OutputType_i32 ShellOutput_OutputType_variants)"
    by (simp add: ShellOutput_OutputType_variants_def ShellOutput_OutputType_i32_def)
  show "ShellOutput_OutputType_from_str_name (ShellOutput_OutputType_as_str_name t) = Some t" for t
    by (cases t) (simp_all add: ShellOutput_OutputType_from_str_name_def ShellOutput_OutputType_as_str_name_def)
  show "ShellOutput_OutputType_from_str_name s = Some t \<Longrightarrow> ShellOutput_OutputType_as_str_name t = s" for s t
    unfolding ShellOutput_OutputType_from_str_name_def by (drule map_of_SomeD) (auto simp: ShellOutput_OutputType_as_str_name_def)
qed (simp add: ShellOutput_OutputType_try_from_def)

datatype (plugins only: code size) ShellOpType =
    ShellOpType_ShellOpCreateSession
  | ShellOpType_ShellOpCloseSession
  | ShellOpType_ShellOpExecute
  | ShellOpType_ShellOpWriteStdin
  | ShellOpType_ShellOpResize
  | ShellOpType_ShellOpSignal
  | ShellOpType_ShellOpGetHistory
  | ShellOpType_ShellOpSetEnv
  | ShellOpType_ShellOpGetEnv
  | ShellOpType_ShellOpListSessions

definition ShellOpType_i32 :: "ShellOpType \<Rightarrow> i32" where
  "ShellOpType_i32 t =
     (case t of
        ShellOpType_ShellOpCreateSession \<Rightarrow> 0
      | ShellOpType_ShellOpCloseSession \<Rightarrow> 1
      | ShellOpType_ShellOpExecute \<Rightarrow> 2
      | ShellOpType_ShellOpWriteStdin \<Rightarrow> 3
      | ShellOpType_ShellOpResize \<Rightarrow> 4
      | ShellOpType_ShellOpSignal \<Rightarrow> 5
      | ShellOpType_ShellOpGetHistory \<Rightarrow> 6
      | ShellOpType_ShellOpSetEnv \<Rightarrow> 7
      | ShellOpType_ShellOpGetEnv \<Rightarrow> 8
      | ShellOpType_ShellOpListSessions \<Rightarrow> 9)"

definition ShellOpType_variants :: "ShellOpType list" where
  "ShellOpType_variants =
    [ShellOpType_ShellOpCreateSession,
     ShellOpType_ShellOpCloseSession,
     ShellOpType_ShellOpExecute,
     ShellOpType_ShellOpWriteStdin,
     ShellOpType_ShellOpResize,
     ShellOpType_ShellOpSignal,
     ShellOpType_ShellOpGetHistory,
     ShellOpType_ShellOpSetEnv,
     ShellOpType_ShellOpGetEnv,
     ShellOpType_ShellOpListSessions]"

definition ShellOpType_try_from :: "i32 \<Rightarrow> ShellOpType option" where
  "ShellOpType_try_from v = find (\<lambda>t. ShellOpType_i32 t = v) ShellOpType_variants"

definition ShellOpType_as_str_name :: "ShellOpType \<Rightarrow> string" where
  "ShellOpType_as_str_name t =
     (case t of
        ShellOpType_ShellOpCreateSession \<Rightarrow> ''SHELL_OP_CREATE_SESSION''
      | ShellOpType_ShellOpCloseSession \<Rightarrow> ''SHELL_OP_CLOSE_SESSION''
      | ShellOpType_ShellOpExecute \<Rightarrow> ''SHELL_OP_EXECUTE''
      | ShellOpType_ShellOpWriteStdin \<Rightarrow> ''SHELL_OP_WRITE_STDIN''
      | ShellOpType_ShellOpResize \<Rightarrow> ''SHELL_OP_RESIZE''
      | ShellOpType_ShellOpSignal \<Rightarrow> ''SHELL_OP_SIGNAL''
      | ShellOpType_ShellOpGetHistory \<Rightarrow> ''SHELL_OP_GET_HISTORY''
      | ShellOpType_ShellOpSetEnv \<Rightarrow> ''SHELL_OP_SET_ENV''
      | ShellOpType_ShellOpGetEnv \<Rightarrow> ''SHELL_OP_GET_ENV''
      | ShellOpType_ShellOpListSessions \<Rightarrow> ''SHELL_OP_LIST_SESSIONS'')"

definition ShellOpType_from_str_name :: "string \<Rightarrow> ShellOpType option" where
  "ShellOpType_from_str_name s = map_of
    [(''SHELL_OP_CREATE_SESSION'', ShellOpType_ShellOpCreateSession),
     (''SHELL_OP_CLOSE_SESSION'', ShellOpType_ShellOpCloseSession),
     (''SHELL_OP_EXECUTE'', ShellOpType_ShellOpExecute),
     (''SHELL_OP_WRITE_STDIN'', ShellOpType_ShellOpWriteStdin),
     (''SHELL_OP_RESIZE'', ShellOpType_ShellOpResize),
     (''SHELL_OP_SIGNAL'', ShellOpType_ShellOpSignal),
     (''SHELL_OP_GET_HISTORY'', ShellOpType_ShellOpGetHistory),
     (''SHELL_OP_SET_ENV'', ShellOpType_ShellOpSetEnv),
     (''SHELL_OP_GET_ENV'', ShellOpType_ShellOpGetEnv),
     (''SHELL_OP_LIST_SESSIONS'', ShellOpType_ShellOpListSessions)] s"

interpretation ShellOpType_enum: proto_enum ShellOpType_variants ShellOpType_i32 ShellOpType_try_from ShellOpType_as_str_name ShellOpType_from_str_name
proof unfold_locales
  show "t \<in> set ShellOpType_variants" for t
    by (cases t) (simp_all add: ShellOpType_variants_def)
  show "distinct (map ShellOpType_i32 ShellOpType_variants)"
    by (simp add: ShellOpType_variants_def ShellOpType_i32_def)
  show "ShellOpType_from_str_name (ShellOpType_as_str_name t) = Some t" for t
    by (cases t) (simp_all add: ShellOpType_from_str_name_def ShellOpType_as_str_name_def)
  show "ShellOpType_from_str_name s = Some t \<Longrightarrow> ShellOpType_as_str_name t = s" for s t
    unfolding ShellOpType_from_str_name_def by (drule map_of_SomeD) (auto simp: ShellOpType_as_str_name_def)
qed (simp add: ShellOpType_try_from_def)

datatype (plugins only: code size) ShellSessionState =
    ShellSessionState_ShellSessionCreated
  | ShellSessionState_ShellSessionRunning
  | ShellSessionState_ShellSessionClosed
  | ShellSessionState_ShellSessionError

definition ShellSessionState_i32 :: "ShellSessionState \<Rightarrow> i32" where
  "ShellSessionState_i32 t =
     (case t of
        ShellSessionState_ShellSessionCreated \<Rightarrow> 0
      | ShellSessionState_ShellSessionRunning \<Rightarrow> 1
      | ShellSessionState_ShellSessionClosed \<Rightarrow> 2
      | ShellSessionState_ShellSessionError \<Rightarrow> 3)"

definition ShellSessionState_variants :: "ShellSessionState list" where
  "ShellSessionState_variants =
    [ShellSessionState_ShellSessionCreated,
     ShellSessionState_ShellSessionRunning,
     ShellSessionState_ShellSessionClosed,
     ShellSessionState_ShellSessionError]"

definition ShellSessionState_try_from :: "i32 \<Rightarrow> ShellSessionState option" where
  "ShellSessionState_try_from v = find (\<lambda>t. ShellSessionState_i32 t = v) ShellSessionState_variants"

definition ShellSessionState_as_str_name :: "ShellSessionState \<Rightarrow> string" where
  "ShellSessionState_as_str_name t =
     (case t of
        ShellSessionState_ShellSessionCreated \<Rightarrow> ''SHELL_SESSION_CREATED''
      | ShellSessionState_ShellSessionRunning \<Rightarrow> ''SHELL_SESSION_RUNNING''
      | ShellSessionState_ShellSessionClosed \<Rightarrow> ''SHELL_SESSION_CLOSED''
      | ShellSessionState_ShellSessionError \<Rightarrow> ''SHELL_SESSION_ERROR'')"

definition ShellSessionState_from_str_name :: "string \<Rightarrow> ShellSessionState option" where
  "ShellSessionState_from_str_name s = map_of
    [(''SHELL_SESSION_CREATED'', ShellSessionState_ShellSessionCreated),
     (''SHELL_SESSION_RUNNING'', ShellSessionState_ShellSessionRunning),
     (''SHELL_SESSION_CLOSED'', ShellSessionState_ShellSessionClosed),
     (''SHELL_SESSION_ERROR'', ShellSessionState_ShellSessionError)] s"

interpretation ShellSessionState_enum: proto_enum ShellSessionState_variants ShellSessionState_i32 ShellSessionState_try_from ShellSessionState_as_str_name ShellSessionState_from_str_name
proof unfold_locales
  show "t \<in> set ShellSessionState_variants" for t
    by (cases t) (simp_all add: ShellSessionState_variants_def)
  show "distinct (map ShellSessionState_i32 ShellSessionState_variants)"
    by (simp add: ShellSessionState_variants_def ShellSessionState_i32_def)
  show "ShellSessionState_from_str_name (ShellSessionState_as_str_name t) = Some t" for t
    by (cases t) (simp_all add: ShellSessionState_from_str_name_def ShellSessionState_as_str_name_def)
  show "ShellSessionState_from_str_name s = Some t \<Longrightarrow> ShellSessionState_as_str_name t = s" for s t
    unfolding ShellSessionState_from_str_name_def by (drule map_of_SomeD) (auto simp: ShellSessionState_as_str_name_def)
qed (simp add: ShellSessionState_try_from_def)

datatype (plugins only: code size) MediaOpType =
    MediaOpType_MediaOpGetState
  | MediaOpType_MediaOpPlay
  | MediaOpType_MediaOpPause
  | MediaOpType_MediaOpStop
  | MediaOpType_MediaOpNext
  | MediaOpType_MediaOpPrevious
  | MediaOpType_MediaOpSeek
  | MediaOpType_MediaOpSetVolume
  | MediaOpType_MediaOpGetVolume
  | MediaOpType_MediaOpSetShuffle
  | MediaOpType_MediaOpSetRepeat
  | MediaOpType_MediaOpGetMetadata
  | MediaOpType_MediaOpGetPlaylist
  | MediaOpType_MediaOpGetArtwork
  | MediaOpType_MediaOpListSessions
  | MediaOpType_MediaOpSelectSession

definition MediaOpType_i32 :: "MediaOpType \<Rightarrow> i32" where
  "MediaOpType_i32 t =
     (case t of
        MediaOpType_MediaOpGetState \<Rightarrow> 0
      | MediaOpType_MediaOpPlay \<Rightarrow> 1
      | MediaOpType_MediaOpPause \<Rightarrow> 2
      | MediaOpType_MediaOpStop \<Rightarrow> 3
      | MediaOpType_MediaOpNext \<Rightarrow> 4
      | MediaOpType_MediaOpPrevious \<Rightarrow> 5
      | MediaOpType_MediaOpSeek \<Rightarrow> 6
      | MediaOpType_MediaOpSetVolume \<Rightarrow> 7
      | MediaOpType_MediaOpGetVolume \<Rightarrow> 8
      | MediaOpType_MediaOpSetShuffle \<Rightarrow> 9
      | MediaOpType_MediaOpSetRepeat \<Rightarrow> 10
      | MediaOpType_MediaOpGetMetadata \<Rightarrow> 11
      | MediaOpType_MediaOpGetPlaylist \<Rightarrow> 12
      | MediaOpType_MediaOpGetArtwork \<Rightarrow> 13
      | MediaOpType_MediaOpListSessions \<Rightarrow> 14
      | MediaOpType_MediaOpSelectSession \<Rightarrow> 15)"

definition MediaOpType_variants :: "MediaOpType list" where
  "MediaOpType_variants =
    [MediaOpType_MediaOpGetState,
     MediaOpType_MediaOpPlay,
     MediaOpType_MediaOpPause,
     MediaOpType_MediaOpStop,
     MediaOpType_MediaOpNext,
     MediaOpType_MediaOpPrevious,
     MediaOpType_MediaOpSeek,
     MediaOpType_MediaOpSetVolume,
     MediaOpType_MediaOpGetVolume,
     MediaOpType_MediaOpSetShuffle,
     MediaOpType_MediaOpSetRepeat,
     MediaOpType_MediaOpGetMetadata,
     MediaOpType_MediaOpGetPlaylist,
     MediaOpType_MediaOpGetArtwork,
     MediaOpType_MediaOpListSessions,
     MediaOpType_MediaOpSelectSession]"

definition MediaOpType_try_from :: "i32 \<Rightarrow> MediaOpType option" where
  "MediaOpType_try_from v = find (\<lambda>t. MediaOpType_i32 t = v) MediaOpType_variants"

definition MediaOpType_as_str_name :: "MediaOpType \<Rightarrow> string" where
  "MediaOpType_as_str_name t =
     (case t of
        MediaOpType_MediaOpGetState \<Rightarrow> ''MEDIA_OP_GET_STATE''
      | MediaOpType_MediaOpPlay \<Rightarrow> ''MEDIA_OP_PLAY''
      | MediaOpType_MediaOpPause \<Rightarrow> ''MEDIA_OP_PAUSE''
      | MediaOpType_MediaOpStop \<Rightarrow> ''MEDIA_OP_STOP''
      | MediaOpType_MediaOpNext \<Rightarrow> ''MEDIA_OP_NEXT''
      | MediaOpType_MediaOpPrevious \<Rightarrow> ''MEDIA_OP_PREVIOUS''
      | MediaOpType_MediaOpSeek \<Rightarrow> ''MEDIA_OP_SEEK''
      | MediaOpType_MediaOpSetVolume \<Rightarrow> ''MEDIA_OP_SET_VOLUME''
      | MediaOpType_MediaOpGetVolume \<Rightarrow> ''MEDIA_OP_GET_VOLUME''
      | MediaOpType_MediaOpSetShuffle \<Rightarrow> ''MEDIA_OP_SET_SHUFFLE''
      | MediaOpType_MediaOpSetRepeat \<Rightarrow> ''MEDIA_OP_SET_REPEAT''
      | MediaOpType_MediaOpGetMetadata \<Rightarrow> ''MEDIA_OP_GET_METADATA''
      | MediaOpType_MediaOpGetPlaylist \<Rightarrow> ''MEDIA_OP_GET_PLAYLIST''
      | MediaOpType_MediaOpGetArtwork \<Rightarrow> ''MEDIA_OP_GET_ARTWORK''
      | MediaOpType_MediaOpListSessions \<Rightarrow> ''MEDIA_OP_LIST_SESSIONS''
      | MediaOpType_MediaOpSelectSession \<Rightarrow> ''MEDIA_OP_SELECT_SESSION'')"

definition MediaOpType_from_str_name :: "string \<Rightarrow> MediaOpType option" where
  "MediaOpType_from_str_name s = map_of
    [(''MEDIA_OP_GET_STATE'', MediaOpType_MediaOpGetState),
     (''MEDIA_OP_PLAY'', MediaOpType_MediaOpPlay),
     (''MEDIA_OP_PAUSE'', MediaOpType_MediaOpPause),
     (''MEDIA_OP_STOP'', MediaOpType_MediaOpStop),
     (''MEDIA_OP_NEXT'', MediaOpType_MediaOpNext),
     (''MEDIA_OP_PREVIOUS'', MediaOpType_MediaOpPrevious),
     (''MEDIA_OP_SEEK'', MediaOpType_MediaOpSeek),
     (''MEDIA_OP_SET_VOLUME'', MediaOpType_MediaOpSetVolume),
     (''MEDIA_OP_GET_VOLUME'', MediaOpType_MediaOpGetVolume),
     (''MEDIA_OP_SET_SHUFFLE'', MediaOpType_MediaOpSetShuffle),
     (''MEDIA_OP_SET_REPEAT'', MediaOpType_MediaOpSetRepeat),
     (''MEDIA_OP_GET_METADATA'', MediaOpType_MediaOpGetMetadata),
     (''MEDIA_OP_GET_PLAYLIST'', MediaOpType_MediaOpGetPlaylist),
     (''MEDIA_OP_GET_ARTWORK'', MediaOpType_MediaOpGetArtwork),
     (''MEDIA_OP_LIST_SESSIONS'', MediaOpType_MediaOpListSessions),
     (''MEDIA_OP_SELECT_SESSION'', MediaOpType_MediaOpSelectSession)] s"

interpretation MediaOpType_enum: proto_enum MediaOpType_variants MediaOpType_i32 MediaOpType_try_from MediaOpType_as_str_name MediaOpType_from_str_name
proof unfold_locales
  show "t \<in> set MediaOpType_variants" for t
    by (cases t) (simp_all add: MediaOpType_variants_def)
  show "distinct (map MediaOpType_i32 MediaOpType_variants)"
    by (simp add: MediaOpType_variants_def MediaOpType_i32_def)
  show "MediaOpType_from_str_name (MediaOpType_as_str_name t) = Some t" for t
    by (cases t) (simp_all add: MediaOpType_from_str_name_def MediaOpType_as_str_name_def)
  show "MediaOpType_from_str_name s = Some t \<Longrightarrow> MediaOpType_as_str_name t = s" for s t
    unfolding MediaOpType_from_str_name_def by (drule map_of_SomeD) (auto simp: MediaOpType_as_str_name_def)
qed (simp add: MediaOpType_try_from_def)

datatype (plugins only: code size) PlaybackState =
    PlaybackState_StateNone
  | PlaybackState_StateStopped
  | PlaybackState_StatePlaying
  | PlaybackState_StatePaused
  | PlaybackState_StateBuffering
  | PlaybackState_StateError
  | PlaybackState_StateConnecting

definition PlaybackState_i32 :: "PlaybackState \<Rightarrow> i32" where
  "PlaybackState_i32 t =
     (case t of
        PlaybackState_StateNone \<Rightarrow> 0
      | PlaybackState_StateStopped \<Rightarrow> 1
      | PlaybackState_StatePlaying \<Rightarrow> 2
      | PlaybackState_StatePaused \<Rightarrow> 3
      | PlaybackState_StateBuffering \<Rightarrow> 4
      | PlaybackState_StateError \<Rightarrow> 5
      | PlaybackState_StateConnecting \<Rightarrow> 6)"

definition PlaybackState_variants :: "PlaybackState list" where
  "PlaybackState_variants =
    [PlaybackState_StateNone,
     PlaybackState_StateStopped,
     PlaybackState_StatePlaying,
     PlaybackState_StatePaused,
     PlaybackState_StateBuffering,
     PlaybackState_StateError,
     PlaybackState_StateConnecting]"

definition PlaybackState_try_from :: "i32 \<Rightarrow> PlaybackState option" where
  "PlaybackState_try_from v = find (\<lambda>t. PlaybackState_i32 t = v) PlaybackState_variants"

definition PlaybackState_as_str_name :: "PlaybackState \<Rightarrow> string" where
  "PlaybackState_as_str_name t =
     (case t of
        PlaybackState_StateNone \<Rightarrow> ''STATE_NONE''
      | PlaybackState_StateStopped \<Rightarrow> ''STATE_STOPPED''
      | PlaybackState_StatePlaying \<Rightarrow> ''STATE_PLAYING''
      | PlaybackState_StatePaused \<Rightarrow> ''STATE_PAUSED''
      | PlaybackState_StateBuffering \<Rightarrow> ''STATE_BUFFERING''
      | PlaybackState_StateError \<Rightarrow> ''STATE_ERROR''
      | PlaybackState_StateConnecting \<Rightarrow> ''STATE_CONNECTING'')"

definition PlaybackState_from_str_name :: "string \<Rightarrow> PlaybackState option" where
  "PlaybackState_from_str_name s = map_of
    [(''STATE_NONE'', PlaybackState_StateNone),
     (''STATE_STOPPED'', PlaybackState_StateStopped),
     (''STATE_PLAYING'', PlaybackState_StatePlaying),
     (''STATE_PAUSED'', PlaybackState_StatePaused),
     (''STATE_BUFFERING'', PlaybackState_StateBuffering),
     (''STATE_ERROR'', PlaybackState_StateError),
     (''STATE_CONNECTING'', PlaybackState_StateConnecting)] s"

interpretation PlaybackState_enum: proto_enum PlaybackState_variants PlaybackState_i32 PlaybackState_try_from PlaybackState_as_str_name PlaybackState_from_str_name
proof unfold_locales
  show "t \<in> set PlaybackState_variants" for t
    by (cases t) (simp_all add: PlaybackState_variants_def)
  show "distinct (map PlaybackState_i32 PlaybackState_variants)"
    by (simp add: PlaybackState_variants_def PlaybackState_i32_def)
  show "PlaybackState_from_str_name (PlaybackState_as_str_name t) = Some t" for t
    by (cases t) (simp_all add: PlaybackState_from_str_name_def PlaybackState_as_str_name_def)
  show "PlaybackState_from_str_name s = Some t \<Longrightarrow> PlaybackState_as_str_name t = s" for s t
    unfolding PlaybackState_from_str_name_def by (drule map_of_SomeD) (auto simp: PlaybackState_as_str_name_def)
qed (simp add: PlaybackState_try_from_def)

datatype (plugins only: code size) RepeatMode =
    RepeatMode_RepeatOff
  | RepeatMode_RepeatOne
  | RepeatMode_RepeatAll
  | RepeatMode_RepeatGroup

definition RepeatMode_i32 :: "RepeatMode \<Rightarrow> i32" where
  "RepeatMode_i32 t =
     (case t of
        RepeatMode_RepeatOff \<Rightarrow> 0
      | RepeatMode_RepeatOne \<Rightarrow> 1
      | RepeatMode_RepeatAll \<Rightarrow> 2
      | RepeatMode_RepeatGroup \<Rightarrow> 3)"

definition RepeatMode_variants :: "RepeatMode list" where
  "RepeatMode_variants =
    [RepeatMode_RepeatOff,
     RepeatMode_RepeatOne,
     RepeatMode_RepeatAll,
     RepeatMode_RepeatGroup]"

definition RepeatMode_try_from :: "i32 \<Rightarrow> RepeatMode option" where
  "RepeatMode_try_from v = find (\<lambda>t. RepeatMode_i32 t = v) RepeatMode_variants"

definition RepeatMode_as_str_name :: "RepeatMode \<Rightarrow> string" where
  "RepeatMode_as_str_name t =
     (case t of
        RepeatMode_RepeatOff \<Rightarrow> ''REPEAT_OFF''
      | RepeatMode_RepeatOne \<Rightarrow> ''REPEAT_ONE''
      | RepeatMode_RepeatAll \<Rightarrow> ''REPEAT_ALL''
      | RepeatMode_RepeatGroup \<Rightarrow> ''REPEAT_GROUP'')"

definition RepeatMode_from_str_name :: "string \<Rightarrow> RepeatMode option" where
  "RepeatMode_from_str_name s = map_of
    [(''REPEAT_OFF'', RepeatMode_RepeatOff),
     (''REPEAT_ONE'', RepeatMode_RepeatOne),
     (''REPEAT_ALL'', RepeatMode_RepeatAll),
     (''REPEAT_GROUP'', RepeatMode_RepeatGroup)] s"

interpretation RepeatMode_enum: proto_enum RepeatMode_variants RepeatMode_i32 RepeatMode_try_from RepeatMode_as_str_name RepeatMode_from_str_name
proof unfold_locales
  show "t \<in> set RepeatMode_variants" for t
    by (cases t) (simp_all add: RepeatMode_variants_def)
  show "distinct (map RepeatMode_i32 RepeatMode_variants)"
    by (simp add: RepeatMode_variants_def RepeatMode_i32_def)
  show "RepeatMode_from_str_name (RepeatMode_as_str_name t) = Some t" for t
    by (cases t) (simp_all add: RepeatMode_from_str_name_def RepeatMode_as_str_name_def)
  show "RepeatMode_from_str_name s = Some t \<Longrightarrow> RepeatMode_as_str_name t = s" for s t
    unfolding RepeatMode_from_str_name_def by (drule map_of_SomeD) (auto simp: RepeatMode_as_str_name_def)
qed (simp add: RepeatMode_try_from_def)

datatype (plugins only: code size) ShuffleMode =
    ShuffleMode_ShuffleOff
  | ShuffleMode_ShuffleOn
  | ShuffleMode_ShuffleAuto

definition ShuffleMode_i32 :: "ShuffleMode \<Rightarrow> i32" where
  "ShuffleMode_i32 t =
     (case t of
        ShuffleMode_ShuffleOff \<Rightarrow> 0
      | ShuffleMode_ShuffleOn \<Rightarrow> 1
      | ShuffleMode_ShuffleAuto \<Rightarrow> 2)"

definition ShuffleMode_variants :: "ShuffleMode list" where
  "ShuffleMode_variants =
    [ShuffleMode_ShuffleOff,
     ShuffleMode_ShuffleOn,
     ShuffleMode_ShuffleAuto]"

definition ShuffleMode_try_from :: "i32 \<Rightarrow> ShuffleMode option" where
  "ShuffleMode_try_from v = find (\<lambda>t. ShuffleMode_i32 t = v) ShuffleMode_variants"

definition ShuffleMode_as_str_name :: "ShuffleMode \<Rightarrow> string" where
  "ShuffleMode_as_str_name t =
     (case t of
        ShuffleMode_ShuffleOff \<Rightarrow> ''SHUFFLE_OFF''
      | ShuffleMode_ShuffleOn \<Rightarrow> ''SHUFFLE_ON''
      | ShuffleMode_ShuffleAuto \<Rightarrow> ''SHUFFLE_AUTO'')"

definition ShuffleMode_from_str_name :: "string \<Rightarrow> ShuffleMode option" where
  "ShuffleMode_from_str_name s = map_of
    [(''SHUFFLE_OFF'', ShuffleMode_ShuffleOff),
     (''SHUFFLE_ON'', ShuffleMode_ShuffleOn),
     (''SHUFFLE_AUTO'', ShuffleMode_ShuffleAuto)] s"

interpretation ShuffleMode_enum: proto_enum ShuffleMode_variants ShuffleMode_i32 ShuffleMode_try_from ShuffleMode_as_str_name ShuffleMode_from_str_name
proof unfold_locales
  show "t \<in> set ShuffleMode_variants" for t
    by (cases t) (simp_all add: ShuffleMode_variants_def)
  show "distinct (map ShuffleMode_i32 ShuffleMode_variants)"
    by (simp add: ShuffleMode_variants_def ShuffleMode_i32_def)
  show "ShuffleMode_from_str_name (ShuffleMode_as_str_name t) = Some t" for t
    by (cases t) (simp_all add: ShuffleMode_from_str_name_def ShuffleMode_as_str_name_def)
  show "ShuffleMode_from_str_name s = Some t \<Longrightarrow> ShuffleMode_as_str_name t = s" for s t
    unfolding ShuffleMode_from_str_name_def by (drule map_of_SomeD) (auto simp: ShuffleMode_as_str_name_def)
qed (simp add: ShuffleMode_try_from_def)

datatype (plugins only: code size) StateChangeType =
    StateChangeType_ChangeState
  | StateChangeType_ChangeMetadata
  | StateChangeType_ChangePosition
  | StateChangeType_ChangeVolume
  | StateChangeType_ChangeRepeat
  | StateChangeType_ChangeShuffle
  | StateChangeType_ChangeControls
  | StateChangeType_ChangeActive
  | StateChangeType_SessionAdded
  | StateChangeType_SessionRemoved

definition StateChangeType_i32 :: "StateChangeType \<Rightarrow> i32" where
  "StateChangeType_i32 t =
     (case t of
        StateChangeType_ChangeState \<Rightarrow> 0
      | StateChangeType_ChangeMetadata \<Rightarrow> 1
      | StateChangeType_ChangePosition \<Rightarrow> 2
      | StateChangeType_ChangeVolume \<Rightarrow> 3
      | StateChangeType_ChangeRepeat \<Rightarrow> 4
      | StateChangeType_ChangeShuffle \<Rightarrow> 5
      | StateChangeType_ChangeControls \<Rightarrow> 6
      | StateChangeType_ChangeActive \<Rightarrow> 7
      | StateChangeType_SessionAdded \<Rightarrow> 8
      | StateChangeType_SessionRemoved \<Rightarrow> 9)"

definition StateChangeType_variants :: "StateChangeType list" where
  "StateChangeType_variants =
    [StateChangeType_ChangeState,
     StateChangeType_ChangeMetadata,
     StateChangeType_ChangePosition,
     StateChangeType_ChangeVolume,
     StateChangeType_ChangeRepeat,
     StateChangeType_ChangeShuffle,
     StateChangeType_ChangeControls,
     StateChangeType_ChangeActive,
     StateChangeType_SessionAdded,
     StateChangeType_SessionRemoved]"

definition StateChangeType_try_from :: "i32 \<Rightarrow> StateChangeType option" where
  "StateChangeType_try_from v = find (\<lambda>t. StateChangeType_i32 t = v) StateChangeType_variants"

definition StateChangeType_as_str_name :: "StateChangeType \<Rightarrow> string" where
  "StateChangeType_as_str_name t =
     (case t of
        StateChangeType_ChangeState \<Rightarrow> ''CHANGE_STATE''
      | StateChangeType_ChangeMetadata \<Rightarrow> ''CHANGE_METADATA''
      | StateChangeType_ChangePosition \<Rightarrow> ''CHANGE_POSITION''
      | StateChangeType_ChangeVolume \<Rightarrow> ''CHANGE_VOLUME''
      | StateChangeType_ChangeRepeat \<Rightarrow> ''CHANGE_REPEAT''
      | StateChangeType_ChangeShuffle \<Rightarrow> ''CHANGE_SHUFFLE''
      | StateChangeType_ChangeControls \<Rightarrow> ''CHANGE_CONTROLS''
      | StateChangeType_ChangeActive \<Rightarrow> ''CHANGE_ACTIVE''
      | StateChangeType_SessionAdded \<Rightarrow> ''SESSION_ADDED''
      | StateChangeType_SessionRemoved \<Rightarrow> ''SESSION_REMOVED'')"

definition StateChangeType_from_str_name :: "string \<Rightarrow> StateChangeType option" where
  "StateChangeType_from_str_name s = map_of
    [(''CHANGE_STATE'', StateChangeType_ChangeState),
     (''CHANGE_METADATA'', StateChangeType_ChangeMetadata),
     (''CHANGE_POSITION'', StateChangeType_ChangePosition),
     (''CHANGE_VOLUME'', StateChangeType_ChangeVolume),
     (''CHANGE_REPEAT'', StateChangeType_ChangeRepeat),
     (''CHANGE_SHUFFLE'', StateChangeType_ChangeShuffle),
     (''CHANGE_CONTROLS'', StateChangeType_ChangeControls),
     (''CHANGE_ACTIVE'', StateChangeType_ChangeActive),
     (''SESSION_ADDED'', StateChangeType_SessionAdded),
     (''SESSION_REMOVED'', StateChangeType_SessionRemoved)] s"

interpretation StateChangeType_enum: proto_enum StateChangeType_variants StateChangeType_i32 StateChangeType_try_from StateChangeType_as_str_name StateChangeType_from_str_name
proof unfold_locales
  show "t \<in> set StateChangeType_variants" for t
    by (cases t) (simp_all add: StateChangeType_variants_def)
  show "distinct (map StateChangeType_i32 StateChangeType_variants)"
    by (simp add: StateChangeType_variants_def StateChangeType_i32_def)
  show "StateChangeType_from_str_name (StateChangeType_as_str_name t) = Some t" for t
    by (cases t) (simp_all add: StateChangeType_from_str_name_def StateChangeType_as_str_name_def)
  show "StateChangeType_from_str_name s = Some t \<Longrightarrow> StateChangeType_as_str_name t = s" for s t
    unfolding StateChangeType_from_str_name_def by (drule map_of_SomeD) (auto simp: StateChangeType_as_str_name_def)
qed (simp add: StateChangeType_try_from_def)

datatype (plugins only: code size) PhoneFsOpType =
    PhoneFsOpType_PhoneFsOpList
  | PhoneFsOpType_PhoneFsOpStat
  | PhoneFsOpType_PhoneFsOpRead
  | PhoneFsOpType_PhoneFsOpWrite
  | PhoneFsOpType_PhoneFsOpCreate
  | PhoneFsOpType_PhoneFsOpDelete
  | PhoneFsOpType_PhoneFsOpMove
  | PhoneFsOpType_PhoneFsOpCopy
  | PhoneFsOpType_PhoneFsOpMkdir
  | PhoneFsOpType_PhoneFsOpOpenDocument
  | PhoneFsOpType_PhoneFsOpCreateDocument
  | PhoneFsOpType_PhoneFsOpQueryRoots
  | PhoneFsOpType_PhoneFsOpGetMediaMetadata

definition PhoneFsOpType_i32 :: "PhoneFsOpType \<Rightarrow> i32" where
  "PhoneFsOpType_i32 t =
     (case t of
        PhoneFsOpType_PhoneFsOpList \<Rightarrow> 0
      | PhoneFsOpType_PhoneFsOpStat \<Rightarrow> 1
      | PhoneFsOpType_PhoneFsOpRead \<Rightarrow> 2
      | PhoneFsOpType_PhoneFsOpWrite \<Rightarrow> 3
      | PhoneFsOpType_PhoneFsOpCreate \<Rightarrow> 4
      | PhoneFsOpType_PhoneFsOpDelete \<Rightarrow> 5
      | PhoneFsOpType_PhoneFsOpMove \<Rightarrow> 6
      | PhoneFsOpType_PhoneFsOpCopy \<Rightarrow> 7
      | PhoneFsOpType_PhoneFsOpMkdir \<Rightarrow> 8
      | PhoneFsOpType_PhoneFsOpOpenDocument \<Rightarrow> 9
      | PhoneFsOpType_PhoneFsOpCreateDocument \<Rightarrow> 10
      | PhoneFsOpType_PhoneFsOpQueryRoots \<Rightarrow> 11
      | PhoneFsOpType_PhoneFsOpGetMediaMetadata \<Rightarrow> 12)"

definition PhoneFsOpType_variants :: "PhoneFsOpType list" where
  "PhoneFsOpType_variants =
    [PhoneFsOpType_PhoneFsOpList,
     PhoneFsOpType_PhoneFsOpStat,
     PhoneFsOpType_PhoneFsOpRead,
     PhoneFsOpType_PhoneFsOpWrite,
     PhoneFsOpType_PhoneFsOpCreate,
     PhoneFsOpType_PhoneFsOpDelete,
     PhoneFsOpType_PhoneFsOpMove,
     PhoneFsOpType_PhoneFsOpCopy,
     PhoneFsOpType_PhoneFsOpMkdir,
     PhoneFsOpType_PhoneFsOpOpenDocument,
     PhoneFsOpType_PhoneFsOpCreateDocument,
     PhoneFsOpType_PhoneFsOpQueryRoots,
     PhoneFsOpType_PhoneFsOpGetMediaMetadata]"

definition PhoneFsOpType_try_from :: "i32 \<Rightarrow> PhoneFsOpType option" where
  "PhoneFsOpType_try_from v = find (\<lambda>t. PhoneFsOpType_i32 t = v) PhoneFsOpType_variants"

definition PhoneFsOpType_as_str_name :: "PhoneFsOpType \<Rightarrow> string" where
  "PhoneFsOpType_as_str_name t =
     (case t of
        PhoneFsOpType_PhoneFsOpList \<Rightarrow> ''PHONE_FS_OP_LIST''
      | PhoneFsOpType_PhoneFsOpStat \<Rightarrow> ''PHONE_FS_OP_STAT''
      | PhoneFsOpType_PhoneFsOpRead \<Rightarrow> ''PHONE_FS_OP_READ''
      | PhoneFsOpType_PhoneFsOpWrite \<Rightarrow> ''PHONE_FS_OP_WRITE''
      | PhoneFsOpType_PhoneFsOpCreate \<Rightarrow> ''PHONE_FS_OP_CREATE''
      | PhoneFsOpType_PhoneFsOpDelete \<Rightarrow> ''PHONE_FS_OP_DELETE''
      | PhoneFsOpType_PhoneFsOpMove \<Rightarrow> ''PHONE_FS_OP_MOVE''
      | PhoneFsOpType_PhoneFsOpCopy \<Rightarrow> ''PHONE_FS_OP_COPY''
      | PhoneFsOpType_PhoneFsOpMkdir \<Rightarrow> ''PHONE_FS_OP_MKDIR''
      | PhoneFsOpType_PhoneFsOpOpenDocument \<Rightarrow> ''PHONE_FS_OP_OPEN_DOCUMENT''
      | PhoneFsOpType_PhoneFsOpCreateDocument \<Rightarrow> ''PHONE_FS_OP_CREATE_DOCUMENT''
      | PhoneFsOpType_PhoneFsOpQueryRoots \<Rightarrow> ''PHONE_FS_OP_QUERY_ROOTS''
      | PhoneFsOpType_PhoneFsOpGetMediaMetadata \<Rightarrow> ''PHONE_FS_OP_GET_MEDIA_METADATA'')"

definition PhoneFsOpType_from_str_name :: "string \<Rightarrow> PhoneFsOpType option" where
  "PhoneFsOpType_from_str_name s = map_of
    [(''PHONE_FS_OP_LIST'', PhoneFsOpType_PhoneFsOpList),
     (''PHONE_FS_OP_STAT'', PhoneFsOpType_PhoneFsOpStat),
     (''PHONE_FS_OP_READ'', PhoneFsOpType_PhoneFsOpRead),
     (''PHONE_FS_OP_WRITE'', PhoneFsOpType_PhoneFsOpWrite),
     (''PHONE_FS_OP_CREATE'', PhoneFsOpType_PhoneFsOpCreate),
     (''PHONE_FS_OP_DELETE'', PhoneFsOpType_PhoneFsOpDelete),
     (''PHONE_FS_OP_MOVE'', PhoneFsOpType_PhoneFsOpMove),
     (''PHONE_FS_OP_COPY'', PhoneFsOpType_PhoneFsOpCopy),
     (''PHONE_FS_OP_MKDIR'', PhoneFsOpType_PhoneFsOpMkdir),
     (''PHONE_FS_OP_OPEN_DOCUMENT'', PhoneFsOpType_PhoneFsOpOpenDocument),
     (''PHONE_FS_OP_CREATE_DOCUMENT'', PhoneFsOpType_PhoneFsOpCreateDocument),
     (''PHONE_FS_OP_QUERY_ROOTS'', PhoneFsOpType_PhoneFsOpQueryRoots),
     (''PHONE_FS_OP_GET_MEDIA_METADATA'', PhoneFsOpType_PhoneFsOpGetMediaMetadata)] s"

interpretation PhoneFsOpType_enum: proto_enum PhoneFsOpType_variants PhoneFsOpType_i32 PhoneFsOpType_try_from PhoneFsOpType_as_str_name PhoneFsOpType_from_str_name
proof unfold_locales
  show "t \<in> set PhoneFsOpType_variants" for t
    by (cases t) (simp_all add: PhoneFsOpType_variants_def)
  show "distinct (map PhoneFsOpType_i32 PhoneFsOpType_variants)"
    by (simp add: PhoneFsOpType_variants_def PhoneFsOpType_i32_def)
  show "PhoneFsOpType_from_str_name (PhoneFsOpType_as_str_name t) = Some t" for t
    by (cases t) (simp_all add: PhoneFsOpType_from_str_name_def PhoneFsOpType_as_str_name_def)
  show "PhoneFsOpType_from_str_name s = Some t \<Longrightarrow> PhoneFsOpType_as_str_name t = s" for s t
    unfolding PhoneFsOpType_from_str_name_def by (drule map_of_SomeD) (auto simp: PhoneFsOpType_as_str_name_def)
qed (simp add: PhoneFsOpType_try_from_def)

datatype (plugins only: code size) DocumentRootFlag =
    DocumentRootFlag_RootFlagUnspecified
  | DocumentRootFlag_RootFlagSupportsCreate
  | DocumentRootFlag_RootFlagSupportsSearch
  | DocumentRootFlag_RootFlagSupportsRecents
  | DocumentRootFlag_RootFlagLocalOnly

definition DocumentRootFlag_i32 :: "DocumentRootFlag \<Rightarrow> i32" where
  "DocumentRootFlag_i32 t =
     (case t of
        DocumentRootFlag_RootFlagUnspecified \<Rightarrow> 0
      | DocumentRootFlag_RootFlagSupportsCreate \<Rightarrow> 1
      | DocumentRootFlag_RootFlagSupportsSearch \<Rightarrow> 2
      | DocumentRootFlag_RootFlagSupportsRecents \<Rightarrow> 4
      | DocumentRootFlag_RootFlagLocalOnly \<Rightarrow> 8)"

definition DocumentRootFlag_variants :: "DocumentRootFlag list" where
  "DocumentRootFlag_variants =
    [DocumentRootFlag_RootFlagUnspecified,
     DocumentRootFlag_RootFlagSupportsCreate,
     DocumentRootFlag_RootFlagSupportsSearch,
     DocumentRootFlag_RootFlagSupportsRecents,
     DocumentRootFlag_RootFlagLocalOnly]"

definition DocumentRootFlag_try_from :: "i32 \<Rightarrow> DocumentRootFlag option" where
  "DocumentRootFlag_try_from v = find (\<lambda>t. DocumentRootFlag_i32 t = v) DocumentRootFlag_variants"

definition DocumentRootFlag_as_str_name :: "DocumentRootFlag \<Rightarrow> string" where
  "DocumentRootFlag_as_str_name t =
     (case t of
        DocumentRootFlag_RootFlagUnspecified \<Rightarrow> ''ROOT_FLAG_UNSPECIFIED''
      | DocumentRootFlag_RootFlagSupportsCreate \<Rightarrow> ''ROOT_FLAG_SUPPORTS_CREATE''
      | DocumentRootFlag_RootFlagSupportsSearch \<Rightarrow> ''ROOT_FLAG_SUPPORTS_SEARCH''
      | DocumentRootFlag_RootFlagSupportsRecents \<Rightarrow> ''ROOT_FLAG_SUPPORTS_RECENTS''
      | DocumentRootFlag_RootFlagLocalOnly \<Rightarrow> ''ROOT_FLAG_LOCAL_ONLY'')"

definition DocumentRootFlag_from_str_name :: "string \<Rightarrow> DocumentRootFlag option" where
  "DocumentRootFlag_from_str_name s = map_of
    [(''ROOT_FLAG_UNSPECIFIED'', DocumentRootFlag_RootFlagUnspecified),
     (''ROOT_FLAG_SUPPORTS_CREATE'', DocumentRootFlag_RootFlagSupportsCreate),
     (''ROOT_FLAG_SUPPORTS_SEARCH'', DocumentRootFlag_RootFlagSupportsSearch),
     (''ROOT_FLAG_SUPPORTS_RECENTS'', DocumentRootFlag_RootFlagSupportsRecents),
     (''ROOT_FLAG_LOCAL_ONLY'', DocumentRootFlag_RootFlagLocalOnly)] s"

interpretation DocumentRootFlag_enum: proto_enum DocumentRootFlag_variants DocumentRootFlag_i32 DocumentRootFlag_try_from DocumentRootFlag_as_str_name DocumentRootFlag_from_str_name
proof unfold_locales
  show "t \<in> set DocumentRootFlag_variants" for t
    by (cases t) (simp_all add: DocumentRootFlag_variants_def)
  show "distinct (map DocumentRootFlag_i32 DocumentRootFlag_variants)"
    by (simp add: DocumentRootFlag_variants_def DocumentRootFlag_i32_def)
  show "DocumentRootFlag_from_str_name (DocumentRootFlag_as_str_name t) = Some t" for t
    by (cases t) (simp_all add: DocumentRootFlag_from_str_name_def DocumentRootFlag_as_str_name_def)
  show "DocumentRootFlag_from_str_name s = Some t \<Longrightarrow> DocumentRootFlag_as_str_name t = s" for s t
    unfolding DocumentRootFlag_from_str_name_def by (drule map_of_SomeD) (auto simp: DocumentRootFlag_as_str_name_def)
qed (simp add: DocumentRootFlag_try_from_def)

end
