(* ===== verification/Proto_Devices.thy ===== *)
theory Proto_Devices
  imports Proto_Link
begin

text \<open>
  The messages and enumerations of \<^verbatim>\<open>protocol/src/pb/bpl.protocol.rs\<close> for proximity, file streams, the
  application launcher and the configuration service.
\<close>

subsection \<open>Messages\<close>

record RssiReading =
  rssi_reading_rssi :: i32
  rssi_reading_timestamp :: "Timestamp option"
  rssi_reading_sample_count :: u32
  rssi_reading_avg_rssi :: f32_bits
  rssi_reading_min_rssi :: f32_bits
  rssi_reading_max_rssi :: f32_bits

record ProximityStateInfo =
  proximity_state_info_state :: i32
  proximity_state_info_rssi :: "RssiReading option"
  proximity_state_info_distance_estimate :: f32_bits
  proximity_state_info_confidence :: f32_bits
  proximity_state_info_last_update :: "Timestamp option"
  proximity_state_info_source :: string

record ProximityPolicy_PolicyRule =
  proximity_policy_policy_rule_trigger_state :: i32
  proximity_policy_policy_rule_action :: i32
  proximity_policy_policy_rule_params :: "(string, string) hmap"

record ProximityPolicy =
  proximity_policy_rules :: "ProximityPolicy_PolicyRule list"
  proximity_policy_enabled :: bool
  proximity_policy_poll_interval_ms :: u32
  proximity_policy_near_threshold :: i32
  proximity_policy_far_threshold :: i32

record ProximityRequest =
  proximity_request_op :: i32
  proximity_request_request_id :: u64
  proximity_request_policy :: "ProximityPolicy option"

record ProximityResponse =
  proximity_response_request_id :: u64
  proximity_response_result :: i32
  proximity_response_error_message :: string
  proximity_response_state :: "ProximityStateInfo option"
  proximity_response_rssi :: "RssiReading option"
  proximity_response_policy :: "ProximityPolicy option"

record ProximityEvent =
  proximity_event_state :: "ProximityStateInfo option"
  proximity_event_previous_state :: i32
  proximity_event_triggered_actions :: "i32 list"

record ProximityCapabilities =
  proximity_capabilities_rssi_monitoring :: bool
  proximity_capabilities_classic_rssi :: bool
  proximity_capabilities_le_rssi :: bool
  proximity_capabilities_distance_estimation :: bool
  proximity_capabilities_auto_reconnect :: bool
  proximity_capabilities_policy_engine :: bool
  proximity_capabilities_min_poll_interval_ms :: u32
  proximity_capabilities_max_poll_interval_ms :: u32

record StreamId =
  stream_id_value :: string

record StreamOpenRequest =
  stream_open_request_path :: string
  stream_open_request_range :: "ByteRange option"
  stream_open_request_buffer_size :: u32
  stream_open_request_sequential :: bool

record StreamInfo =
  stream_info_stream_id :: "StreamId option"
  stream_info_path :: string
  stream_info_file_size :: u64
  stream_info_mime_type :: string
  stream_info_seekable :: bool
  stream_info_supports_range :: bool
  stream_info_recommended_chunk_size :: u32
  stream_info_opened_at :: "Timestamp option"

record StreamOpenResponse =
  stream_open_response_result :: i32
  stream_open_response_error_message :: string
  stream_open_response_stream_id :: "StreamId option"
  stream_open_response_info :: "StreamInfo option"

record StreamReadRequest =
  stream_read_request_stream_id :: "StreamId option"
  stream_read_request_range :: "ByteRange option"
  stream_read_request_request_id :: u64

record StreamReadResponse =
  stream_read_response_request_id :: u64
  stream_read_response_result :: i32
  stream_read_response_error_message :: string
  stream_read_response_data :: bytes
  stream_read_response_offset :: u64
  stream_read_response_end_of_stream :: bool
  stream_read_response_stream_id :: "StreamId option"

record StreamSeekRequest =
  stream_seek_request_stream_id :: "StreamId option"
  stream_seek_request_position :: u64
  stream_seek_request_request_id :: u64

record StreamSeekResponse =
  stream_seek_response_request_id :: u64
  stream_seek_response_result :: i32
  stream_seek_response_error_message :: string
  stream_seek_response_position :: u64
  stream_seek_response_stream_id :: "StreamId option"

record StreamCloseRequest =
  stream_close_request_stream_id :: "StreamId option"
  stream_close_request_request_id :: u64

record StreamCloseResponse =
  stream_close_response_request_id :: u64
  stream_close_response_result :: i32
  stream_close_response_error_message :: string
  stream_close_response_stream_id :: "StreamId option"

record StreamInfoRequest =
  stream_info_request_stream_id :: "StreamId option"
  stream_info_request_request_id :: u64

record StreamInfoResponse =
  stream_info_response_request_id :: u64
  stream_info_response_result :: i32
  stream_info_response_error_message :: string
  stream_info_response_info :: "StreamInfo option"

record FileStreamRequest =
  file_stream_request_op :: i32
  file_stream_request_request_id :: u64
  file_stream_request_open :: "StreamOpenRequest option"
  file_stream_request_read :: "StreamReadRequest option"
  file_stream_request_seek :: "StreamSeekRequest option"
  file_stream_request_close :: "StreamCloseRequest option"
  file_stream_request_info :: "StreamInfoRequest option"

record FileStreamResponse =
  file_stream_response_request_id :: u64
  file_stream_response_result :: i32
  file_stream_response_error_message :: string
  file_stream_response_open :: "StreamOpenResponse option"
  file_stream_response_read :: "StreamReadResponse option"
  file_stream_response_seek :: "StreamSeekResponse option"
  file_stream_response_close :: "StreamCloseResponse option"
  file_stream_response_info :: "StreamInfoResponse option"

record StreamDataEvent =
  stream_data_event_stream_id :: "StreamId option"
  stream_data_event_data :: bytes
  stream_data_event_offset :: u64
  stream_data_event_end_of_stream :: bool
  stream_data_event_request_id :: u64

record FileStreamCapabilities =
  file_stream_capabilities_range_requests :: bool
  file_stream_capabilities_seek :: bool
  file_stream_capabilities_resume :: bool
  file_stream_capabilities_chunked_transfer :: bool
  file_stream_capabilities_media_source :: bool
  file_stream_capabilities_preferred_chunk_size :: u32
  file_stream_capabilities_max_chunk_size :: u32
  file_stream_capabilities_max_concurrent_streams :: u32
  file_stream_capabilities_supported_mime_types :: "string list"

record IntentInfo =
  intent_info_action :: string
  intent_info_category :: string
  intent_info_data_uri :: string
  intent_info_type :: string
  intent_info_extras :: "(string, string) hmap"
  intent_info_label :: string

record ShortcutInfo =
  shortcut_info_shortcut_id :: string
  shortcut_info_label :: string
  shortcut_info_icon_hash :: string
  shortcut_info_intent :: "IntentInfo option"
  shortcut_info_rank :: i32
  shortcut_info_dynamic :: bool
  shortcut_info_pinned :: bool

record AppInfo =
  app_info_package_name :: string
  app_info_name :: string
  app_info_version :: string
  app_info_version_code :: u64
  app_info_icon_hash :: string
  app_info_system_app :: bool
  app_info_enabled :: bool
  app_info_has_launcher_intent :: bool
  app_info_permissions :: "string list"
  app_info_intents :: "IntentInfo list"
  app_info_shortcuts :: "ShortcutInfo list"

record AppLaunchRequest =
  app_launch_request_op :: i32
  app_launch_request_request_id :: u64
  app_launch_request_package_name :: string
  app_launch_request_shortcut_id :: string
  app_launch_request_query :: string
  app_launch_request_get_icons :: bool
  app_launch_request_icon_size :: u32

record AppLaunchResponse =
  app_launch_response_request_id :: u64
  app_launch_response_result :: i32
  app_launch_response_error_message :: string
  app_launch_response_apps :: "AppInfo list"
  app_launch_response_app :: "AppInfo option"
  app_launch_response_icon :: bytes
  app_launch_response_icon_mime :: string

record AppLauncherCapabilities =
  app_launcher_capabilities_list_apps :: bool
  app_launcher_capabilities_get_icons :: bool
  app_launcher_capabilities_shortcuts :: bool
  app_launcher_capabilities_running_apps :: bool
  app_launcher_capabilities_search :: bool
  app_launcher_capabilities_max_icon_size :: u32

datatype (plugins only: code size) ConfigValue =
    ConfigValue (config_value_value: "ConfigValue_Value option")
and ConfigValue_Value =
    ConfigValue_StringValue string
  | ConfigValue_IntValue i64
  | ConfigValue_DoubleValue f64_bits
  | ConfigValue_BoolValue bool
  | ConfigValue_BytesValue bytes
  | ConfigValue_ObjectValue ConfigObject
  | ConfigValue_ArrayValue ConfigArray
and ConfigObject =
    ConfigObject (config_object_fields: "(string \<times> ConfigValue) list")
and ConfigArray =
    ConfigArray (config_array_items: "ConfigValue list")

datatype (plugins only: code size) ConfigSchema =
    ConfigSchema
      (config_schema_type: i32)
      (config_schema_description: string)
      (config_schema_default_value: string)
      (config_schema_required: bool)
      (config_schema_pattern: string)
      (config_schema_min_length: u32)
      (config_schema_max_length: u32)
      (config_schema_enum_values: "string list")
      (config_schema_minimum: f64_bits)
      (config_schema_maximum: f64_bits)
      (config_schema_exclusive_minimum: bool)
      (config_schema_exclusive_maximum: bool)
      (config_schema_min_items: u32)
      (config_schema_max_items: u32)
      (config_schema_items_schema: "ConfigSchema option")
      (config_schema_properties: "(string \<times> ConfigSchema) list")
      (config_schema_required_fields: "string list")

record ConfigEntry =
  config_entry_key :: string
  config_entry_value :: "ConfigValue option"
  config_entry_description :: string
  config_entry_read_only :: bool
  config_entry_secret :: bool
  config_entry_schema :: "ConfigSchema option"

record ConfigRequest =
  config_request_op :: i32
  config_request_request_id :: u64
  config_request_key :: string
  config_request_value :: "ConfigValue option"
  config_request_keys :: "string list"
  config_request_prefix :: string
  config_request_schema :: "ConfigSchema option"
  config_request_import_data :: bytes

record ConfigResponse =
  config_response_request_id :: u64
  config_response_result :: i32
  config_response_error_message :: string
  config_response_value :: "ConfigValue option"
  config_response_entries :: "ConfigEntry list"
  config_response_schema :: "ConfigSchema option"
  config_response_export_data :: bytes

record ConfigChangeEvent =
  config_change_event_key :: string
  config_change_event_old_value :: "ConfigValue option"
  config_change_event_new_value :: "ConfigValue option"
  config_change_event_source :: i32

record ConfigCapabilities =
  config_capabilities_subscribe :: bool
  config_capabilities_schema_validation :: bool
  config_capabilities_encryption :: bool
  config_capabilities_import_export :: bool
  config_capabilities_remote_sync :: bool

subsection \<open>Enumerations\<close>

datatype (plugins only: code size) ProximityState =
    ProximityState_StateUnknown
  | ProximityState_StateNear
  | ProximityState_StateFar
  | ProximityState_StateOutOfRange

definition ProximityState_i32 :: "ProximityState \<Rightarrow> i32" where
  "ProximityState_i32 t =
     (case t of
        ProximityState_StateUnknown \<Rightarrow> 0
      | ProximityState_StateNear \<Rightarrow> 1
      | ProximityState_StateFar \<Rightarrow> 2
      | ProximityState_StateOutOfRange \<Rightarrow> 3)"

definition ProximityState_variants :: "ProximityState list" where
  "ProximityState_variants =
    [ProximityState_StateUnknown,
     ProximityState_StateNear,
     ProximityState_StateFar,
     ProximityState_StateOutOfRange]"

definition ProximityState_try_from :: "i32 \<Rightarrow> ProximityState option" where
  "ProximityState_try_from v = find (\<lambda>t. ProximityState_i32 t = v) ProximityState_variants"

definition ProximityState_as_str_name :: "ProximityState \<Rightarrow> string" where
  "ProximityState_as_str_name t =
     (case t of
        ProximityState_StateUnknown \<Rightarrow> ''STATE_UNKNOWN''
      | ProximityState_StateNear \<Rightarrow> ''STATE_NEAR''
      | ProximityState_StateFar \<Rightarrow> ''STATE_FAR''
      | ProximityState_StateOutOfRange \<Rightarrow> ''STATE_OUT_OF_RANGE'')"

definition ProximityState_from_str_name :: "string \<Rightarrow> ProximityState option" where
  "ProximityState_from_str_name s = map_of
    [(''STATE_UNKNOWN'', ProximityState_StateUnknown),
     (''STATE_NEAR'', ProximityState_StateNear),
     (''STATE_FAR'', ProximityState_StateFar),
     (''STATE_OUT_OF_RANGE'', ProximityState_StateOutOfRange)] s"

interpretation ProximityState_enum: proto_enum ProximityState_variants ProximityState_i32 ProximityState_try_from ProximityState_as_str_name ProximityState_from_str_name
proof unfold_locales
  show "t \<in> set ProximityState_variants" for t
    by (cases t) (simp_all add: ProximityState_variants_def)
  show "distinct (map ProximityState_i32 ProximityState_variants)"
    by (simp add: ProximityState_variants_def ProximityState_i32_def)
  show "ProximityState_from_str_name (ProximityState_as_str_name t) = Some t" for t
    by (cases t) (simp_all add: ProximityState_from_str_name_def ProximityState_as_str_name_def)
  show "ProximityState_from_str_name s = Some t \<Longrightarrow> ProximityState_as_str_name t = s" for s t
    unfolding ProximityState_from_str_name_def by (drule map_of_SomeD) (auto simp: ProximityState_as_str_name_def)
qed (simp add: ProximityState_try_from_def)

datatype (plugins only: code size) ProximityOpType =
    ProximityOpType_ProximityOpGetState
  | ProximityOpType_ProximityOpSubscribe
  | ProximityOpType_ProximityOpUnsubscribe
  | ProximityOpType_ProximityOpGetRssi
  | ProximityOpType_ProximityOpSetPolicy
  | ProximityOpType_ProximityOpGetPolicy

definition ProximityOpType_i32 :: "ProximityOpType \<Rightarrow> i32" where
  "ProximityOpType_i32 t =
     (case t of
        ProximityOpType_ProximityOpGetState \<Rightarrow> 0
      | ProximityOpType_ProximityOpSubscribe \<Rightarrow> 1
      | ProximityOpType_ProximityOpUnsubscribe \<Rightarrow> 2
      | ProximityOpType_ProximityOpGetRssi \<Rightarrow> 3
      | ProximityOpType_ProximityOpSetPolicy \<Rightarrow> 4
      | ProximityOpType_ProximityOpGetPolicy \<Rightarrow> 5)"

definition ProximityOpType_variants :: "ProximityOpType list" where
  "ProximityOpType_variants =
    [ProximityOpType_ProximityOpGetState,
     ProximityOpType_ProximityOpSubscribe,
     ProximityOpType_ProximityOpUnsubscribe,
     ProximityOpType_ProximityOpGetRssi,
     ProximityOpType_ProximityOpSetPolicy,
     ProximityOpType_ProximityOpGetPolicy]"

definition ProximityOpType_try_from :: "i32 \<Rightarrow> ProximityOpType option" where
  "ProximityOpType_try_from v = find (\<lambda>t. ProximityOpType_i32 t = v) ProximityOpType_variants"

definition ProximityOpType_as_str_name :: "ProximityOpType \<Rightarrow> string" where
  "ProximityOpType_as_str_name t =
     (case t of
        ProximityOpType_ProximityOpGetState \<Rightarrow> ''PROXIMITY_OP_GET_STATE''
      | ProximityOpType_ProximityOpSubscribe \<Rightarrow> ''PROXIMITY_OP_SUBSCRIBE''
      | ProximityOpType_ProximityOpUnsubscribe \<Rightarrow> ''PROXIMITY_OP_UNSUBSCRIBE''
      | ProximityOpType_ProximityOpGetRssi \<Rightarrow> ''PROXIMITY_OP_GET_RSSI''
      | ProximityOpType_ProximityOpSetPolicy \<Rightarrow> ''PROXIMITY_OP_SET_POLICY''
      | ProximityOpType_ProximityOpGetPolicy \<Rightarrow> ''PROXIMITY_OP_GET_POLICY'')"

definition ProximityOpType_from_str_name :: "string \<Rightarrow> ProximityOpType option" where
  "ProximityOpType_from_str_name s = map_of
    [(''PROXIMITY_OP_GET_STATE'', ProximityOpType_ProximityOpGetState),
     (''PROXIMITY_OP_SUBSCRIBE'', ProximityOpType_ProximityOpSubscribe),
     (''PROXIMITY_OP_UNSUBSCRIBE'', ProximityOpType_ProximityOpUnsubscribe),
     (''PROXIMITY_OP_GET_RSSI'', ProximityOpType_ProximityOpGetRssi),
     (''PROXIMITY_OP_SET_POLICY'', ProximityOpType_ProximityOpSetPolicy),
     (''PROXIMITY_OP_GET_POLICY'', ProximityOpType_ProximityOpGetPolicy)] s"

interpretation ProximityOpType_enum: proto_enum ProximityOpType_variants ProximityOpType_i32 ProximityOpType_try_from ProximityOpType_as_str_name ProximityOpType_from_str_name
proof unfold_locales
  show "t \<in> set ProximityOpType_variants" for t
    by (cases t) (simp_all add: ProximityOpType_variants_def)
  show "distinct (map ProximityOpType_i32 ProximityOpType_variants)"
    by (simp add: ProximityOpType_variants_def ProximityOpType_i32_def)
  show "ProximityOpType_from_str_name (ProximityOpType_as_str_name t) = Some t" for t
    by (cases t) (simp_all add: ProximityOpType_from_str_name_def ProximityOpType_as_str_name_def)
  show "ProximityOpType_from_str_name s = Some t \<Longrightarrow> ProximityOpType_as_str_name t = s" for s t
    unfolding ProximityOpType_from_str_name_def by (drule map_of_SomeD) (auto simp: ProximityOpType_as_str_name_def)
qed (simp add: ProximityOpType_try_from_def)

datatype (plugins only: code size) PolicyAction =
    PolicyAction_ActionNone
  | PolicyAction_ActionConnect
  | PolicyAction_ActionDisconnect
  | PolicyAction_ActionStartSync
  | PolicyAction_ActionStartBackup
  | PolicyAction_ActionNotify
  | PolicyAction_ActionRunCommand
  | PolicyAction_ActionCustom

definition PolicyAction_i32 :: "PolicyAction \<Rightarrow> i32" where
  "PolicyAction_i32 t =
     (case t of
        PolicyAction_ActionNone \<Rightarrow> 0
      | PolicyAction_ActionConnect \<Rightarrow> 1
      | PolicyAction_ActionDisconnect \<Rightarrow> 2
      | PolicyAction_ActionStartSync \<Rightarrow> 3
      | PolicyAction_ActionStartBackup \<Rightarrow> 4
      | PolicyAction_ActionNotify \<Rightarrow> 5
      | PolicyAction_ActionRunCommand \<Rightarrow> 6
      | PolicyAction_ActionCustom \<Rightarrow> 7)"

definition PolicyAction_variants :: "PolicyAction list" where
  "PolicyAction_variants =
    [PolicyAction_ActionNone,
     PolicyAction_ActionConnect,
     PolicyAction_ActionDisconnect,
     PolicyAction_ActionStartSync,
     PolicyAction_ActionStartBackup,
     PolicyAction_ActionNotify,
     PolicyAction_ActionRunCommand,
     PolicyAction_ActionCustom]"

definition PolicyAction_try_from :: "i32 \<Rightarrow> PolicyAction option" where
  "PolicyAction_try_from v = find (\<lambda>t. PolicyAction_i32 t = v) PolicyAction_variants"

definition PolicyAction_as_str_name :: "PolicyAction \<Rightarrow> string" where
  "PolicyAction_as_str_name t =
     (case t of
        PolicyAction_ActionNone \<Rightarrow> ''ACTION_NONE''
      | PolicyAction_ActionConnect \<Rightarrow> ''ACTION_CONNECT''
      | PolicyAction_ActionDisconnect \<Rightarrow> ''ACTION_DISCONNECT''
      | PolicyAction_ActionStartSync \<Rightarrow> ''ACTION_START_SYNC''
      | PolicyAction_ActionStartBackup \<Rightarrow> ''ACTION_START_BACKUP''
      | PolicyAction_ActionNotify \<Rightarrow> ''ACTION_NOTIFY''
      | PolicyAction_ActionRunCommand \<Rightarrow> ''ACTION_RUN_COMMAND''
      | PolicyAction_ActionCustom \<Rightarrow> ''ACTION_CUSTOM'')"

definition PolicyAction_from_str_name :: "string \<Rightarrow> PolicyAction option" where
  "PolicyAction_from_str_name s = map_of
    [(''ACTION_NONE'', PolicyAction_ActionNone),
     (''ACTION_CONNECT'', PolicyAction_ActionConnect),
     (''ACTION_DISCONNECT'', PolicyAction_ActionDisconnect),
     (''ACTION_START_SYNC'', PolicyAction_ActionStartSync),
     (''ACTION_START_BACKUP'', PolicyAction_ActionStartBackup),
     (''ACTION_NOTIFY'', PolicyAction_ActionNotify),
     (''ACTION_RUN_COMMAND'', PolicyAction_ActionRunCommand),
     (''ACTION_CUSTOM'', PolicyAction_ActionCustom)] s"

interpretation PolicyAction_enum: proto_enum PolicyAction_variants PolicyAction_i32 PolicyAction_try_from PolicyAction_as_str_name PolicyAction_from_str_name
proof unfold_locales
  show "t \<in> set PolicyAction_variants" for t
    by (cases t) (simp_all add: PolicyAction_variants_def)
  show "distinct (map PolicyAction_i32 PolicyAction_variants)"
    by (simp add: PolicyAction_variants_def PolicyAction_i32_def)
  show "PolicyAction_from_str_name (PolicyAction_as_str_name t) = Some t" for t
    by (cases t) (simp_all add: PolicyAction_from_str_name_def PolicyAction_as_str_name_def)
  show "PolicyAction_from_str_name s = Some t \<Longrightarrow> PolicyAction_as_str_name t = s" for s t
    unfolding PolicyAction_from_str_name_def by (drule map_of_SomeD) (auto simp: PolicyAction_as_str_name_def)
qed (simp add: PolicyAction_try_from_def)

datatype (plugins only: code size) StreamOpType =
    StreamOpType_StreamOpOpen
  | StreamOpType_StreamOpClose
  | StreamOpType_StreamOpRead
  | StreamOpType_StreamOpSeek
  | StreamOpType_StreamOpGetInfo
  | StreamOpType_StreamOpListStreams

definition StreamOpType_i32 :: "StreamOpType \<Rightarrow> i32" where
  "StreamOpType_i32 t =
     (case t of
        StreamOpType_StreamOpOpen \<Rightarrow> 0
      | StreamOpType_StreamOpClose \<Rightarrow> 1
      | StreamOpType_StreamOpRead \<Rightarrow> 2
      | StreamOpType_StreamOpSeek \<Rightarrow> 3
      | StreamOpType_StreamOpGetInfo \<Rightarrow> 4
      | StreamOpType_StreamOpListStreams \<Rightarrow> 5)"

definition StreamOpType_variants :: "StreamOpType list" where
  "StreamOpType_variants =
    [StreamOpType_StreamOpOpen,
     StreamOpType_StreamOpClose,
     StreamOpType_StreamOpRead,
     StreamOpType_StreamOpSeek,
     StreamOpType_StreamOpGetInfo,
     StreamOpType_StreamOpListStreams]"

definition StreamOpType_try_from :: "i32 \<Rightarrow> StreamOpType option" where
  "StreamOpType_try_from v = find (\<lambda>t. StreamOpType_i32 t = v) StreamOpType_variants"

definition StreamOpType_as_str_name :: "StreamOpType \<Rightarrow> string" where
  "StreamOpType_as_str_name t =
     (case t of
        StreamOpType_StreamOpOpen \<Rightarrow> ''STREAM_OP_OPEN''
      | StreamOpType_StreamOpClose \<Rightarrow> ''STREAM_OP_CLOSE''
      | StreamOpType_StreamOpRead \<Rightarrow> ''STREAM_OP_READ''
      | StreamOpType_StreamOpSeek \<Rightarrow> ''STREAM_OP_SEEK''
      | StreamOpType_StreamOpGetInfo \<Rightarrow> ''STREAM_OP_GET_INFO''
      | StreamOpType_StreamOpListStreams \<Rightarrow> ''STREAM_OP_LIST_STREAMS'')"

definition StreamOpType_from_str_name :: "string \<Rightarrow> StreamOpType option" where
  "StreamOpType_from_str_name s = map_of
    [(''STREAM_OP_OPEN'', StreamOpType_StreamOpOpen),
     (''STREAM_OP_CLOSE'', StreamOpType_StreamOpClose),
     (''STREAM_OP_READ'', StreamOpType_StreamOpRead),
     (''STREAM_OP_SEEK'', StreamOpType_StreamOpSeek),
     (''STREAM_OP_GET_INFO'', StreamOpType_StreamOpGetInfo),
     (''STREAM_OP_LIST_STREAMS'', StreamOpType_StreamOpListStreams)] s"

interpretation StreamOpType_enum: proto_enum StreamOpType_variants StreamOpType_i32 StreamOpType_try_from StreamOpType_as_str_name StreamOpType_from_str_name
proof unfold_locales
  show "t \<in> set StreamOpType_variants" for t
    by (cases t) (simp_all add: StreamOpType_variants_def)
  show "distinct (map StreamOpType_i32 StreamOpType_variants)"
    by (simp add: StreamOpType_variants_def StreamOpType_i32_def)
  show "StreamOpType_from_str_name (StreamOpType_as_str_name t) = Some t" for t
    by (cases t) (simp_all add: StreamOpType_from_str_name_def StreamOpType_as_str_name_def)
  show "StreamOpType_from_str_name s = Some t \<Longrightarrow> StreamOpType_as_str_name t = s" for s t
    unfolding StreamOpType_from_str_name_def by (drule map_of_SomeD) (auto simp: StreamOpType_as_str_name_def)
qed (simp add: StreamOpType_try_from_def)

datatype (plugins only: code size) AppLauncherOpType =
    AppLauncherOpType_AppLauncherOpListApps
  | AppLauncherOpType_AppLauncherOpGetApp
  | AppLauncherOpType_AppLauncherOpGetIcon
  | AppLauncherOpType_AppLauncherOpGetShortcuts
  | AppLauncherOpType_AppLauncherOpGetRunning

definition AppLauncherOpType_i32 :: "AppLauncherOpType \<Rightarrow> i32" where
  "AppLauncherOpType_i32 t =
     (case t of
        AppLauncherOpType_AppLauncherOpListApps \<Rightarrow> 0
      | AppLauncherOpType_AppLauncherOpGetApp \<Rightarrow> 1
      | AppLauncherOpType_AppLauncherOpGetIcon \<Rightarrow> 2
      | AppLauncherOpType_AppLauncherOpGetShortcuts \<Rightarrow> 3
      | AppLauncherOpType_AppLauncherOpGetRunning \<Rightarrow> 4)"

definition AppLauncherOpType_variants :: "AppLauncherOpType list" where
  "AppLauncherOpType_variants =
    [AppLauncherOpType_AppLauncherOpListApps,
     AppLauncherOpType_AppLauncherOpGetApp,
     AppLauncherOpType_AppLauncherOpGetIcon,
     AppLauncherOpType_AppLauncherOpGetShortcuts,
     AppLauncherOpType_AppLauncherOpGetRunning]"

definition AppLauncherOpType_try_from :: "i32 \<Rightarrow> AppLauncherOpType option" where
  "AppLauncherOpType_try_from v = find (\<lambda>t. AppLauncherOpType_i32 t = v) AppLauncherOpType_variants"

definition AppLauncherOpType_as_str_name :: "AppLauncherOpType \<Rightarrow> string" where
  "AppLauncherOpType_as_str_name t =
     (case t of
        AppLauncherOpType_AppLauncherOpListApps \<Rightarrow> ''APP_LAUNCHER_OP_LIST_APPS''
      | AppLauncherOpType_AppLauncherOpGetApp \<Rightarrow> ''APP_LAUNCHER_OP_GET_APP''
      | AppLauncherOpType_AppLauncherOpGetIcon \<Rightarrow> ''APP_LAUNCHER_OP_GET_ICON''
      | AppLauncherOpType_AppLauncherOpGetShortcuts \<Rightarrow> ''APP_LAUNCHER_OP_GET_SHORTCUTS''
      | AppLauncherOpType_AppLauncherOpGetRunning \<Rightarrow> ''APP_LAUNCHER_OP_GET_RUNNING'')"

definition AppLauncherOpType_from_str_name :: "string \<Rightarrow> AppLauncherOpType option" where
  "AppLauncherOpType_from_str_name s = map_of
    [(''APP_LAUNCHER_OP_LIST_APPS'', AppLauncherOpType_AppLauncherOpListApps),
     (''APP_LAUNCHER_OP_GET_APP'', AppLauncherOpType_AppLauncherOpGetApp),
     (''APP_LAUNCHER_OP_GET_ICON'', AppLauncherOpType_AppLauncherOpGetIcon),
     (''APP_LAUNCHER_OP_GET_SHORTCUTS'', AppLauncherOpType_AppLauncherOpGetShortcuts),
     (''APP_LAUNCHER_OP_GET_RUNNING'', AppLauncherOpType_AppLauncherOpGetRunning)] s"

interpretation AppLauncherOpType_enum: proto_enum AppLauncherOpType_variants AppLauncherOpType_i32 AppLauncherOpType_try_from AppLauncherOpType_as_str_name AppLauncherOpType_from_str_name
proof unfold_locales
  show "t \<in> set AppLauncherOpType_variants" for t
    by (cases t) (simp_all add: AppLauncherOpType_variants_def)
  show "distinct (map AppLauncherOpType_i32 AppLauncherOpType_variants)"
    by (simp add: AppLauncherOpType_variants_def AppLauncherOpType_i32_def)
  show "AppLauncherOpType_from_str_name (AppLauncherOpType_as_str_name t) = Some t" for t
    by (cases t) (simp_all add: AppLauncherOpType_from_str_name_def AppLauncherOpType_as_str_name_def)
  show "AppLauncherOpType_from_str_name s = Some t \<Longrightarrow> AppLauncherOpType_as_str_name t = s" for s t
    unfolding AppLauncherOpType_from_str_name_def by (drule map_of_SomeD) (auto simp: AppLauncherOpType_as_str_name_def)
qed (simp add: AppLauncherOpType_try_from_def)

datatype (plugins only: code size) ConfigSchema_Type =
    ConfigSchema_Type_String
  | ConfigSchema_Type_Integer
  | ConfigSchema_Type_Number
  | ConfigSchema_Type_Boolean
  | ConfigSchema_Type_Object
  | ConfigSchema_Type_Array

definition ConfigSchema_Type_i32 :: "ConfigSchema_Type \<Rightarrow> i32" where
  "ConfigSchema_Type_i32 t =
     (case t of
        ConfigSchema_Type_String \<Rightarrow> 0
      | ConfigSchema_Type_Integer \<Rightarrow> 1
      | ConfigSchema_Type_Number \<Rightarrow> 2
      | ConfigSchema_Type_Boolean \<Rightarrow> 3
      | ConfigSchema_Type_Object \<Rightarrow> 4
      | ConfigSchema_Type_Array \<Rightarrow> 5)"

definition ConfigSchema_Type_variants :: "ConfigSchema_Type list" where
  "ConfigSchema_Type_variants =
    [ConfigSchema_Type_String,
     ConfigSchema_Type_Integer,
     ConfigSchema_Type_Number,
     ConfigSchema_Type_Boolean,
     ConfigSchema_Type_Object,
     ConfigSchema_Type_Array]"

definition ConfigSchema_Type_try_from :: "i32 \<Rightarrow> ConfigSchema_Type option" where
  "ConfigSchema_Type_try_from v = find (\<lambda>t. ConfigSchema_Type_i32 t = v) ConfigSchema_Type_variants"

definition ConfigSchema_Type_as_str_name :: "ConfigSchema_Type \<Rightarrow> string" where
  "ConfigSchema_Type_as_str_name t =
     (case t of
        ConfigSchema_Type_String \<Rightarrow> ''TYPE_STRING''
      | ConfigSchema_Type_Integer \<Rightarrow> ''TYPE_INTEGER''
      | ConfigSchema_Type_Number \<Rightarrow> ''TYPE_NUMBER''
      | ConfigSchema_Type_Boolean \<Rightarrow> ''TYPE_BOOLEAN''
      | ConfigSchema_Type_Object \<Rightarrow> ''TYPE_OBJECT''
      | ConfigSchema_Type_Array \<Rightarrow> ''TYPE_ARRAY'')"

definition ConfigSchema_Type_from_str_name :: "string \<Rightarrow> ConfigSchema_Type option" where
  "ConfigSchema_Type_from_str_name s = map_of
    [(''TYPE_STRING'', ConfigSchema_Type_String),
     (''TYPE_INTEGER'', ConfigSchema_Type_Integer),
     (''TYPE_NUMBER'', ConfigSchema_Type_Number),
     (''TYPE_BOOLEAN'', ConfigSchema_Type_Boolean),
     (''TYPE_OBJECT'', ConfigSchema_Type_Object),
     (''TYPE_ARRAY'', ConfigSchema_Type_Array)] s"

interpretation ConfigSchema_Type_enum: proto_enum ConfigSchema_Type_variants ConfigSchema_Type_i32 ConfigSchema_Type_try_from ConfigSchema_Type_as_str_name ConfigSchema_Type_from_str_name
proof unfold_locales
  show "t \<in> set ConfigSchema_Type_variants" for t
    by (cases t) (simp_all add: ConfigSchema_Type_variants_def)
  show "distinct (map ConfigSchema_Type_i32 ConfigSchema_Type_variants)"
    by (simp add: ConfigSchema_Type_variants_def ConfigSchema_Type_i32_def)
  show "ConfigSchema_Type_from_str_name (ConfigSchema_Type_as_str_name t) = Some t" for t
    by (cases t) (simp_all add: ConfigSchema_Type_from_str_name_def ConfigSchema_Type_as_str_name_def)
  show "ConfigSchema_Type_from_str_name s = Some t \<Longrightarrow> ConfigSchema_Type_as_str_name t = s" for s t
    unfolding ConfigSchema_Type_from_str_name_def by (drule map_of_SomeD) (auto simp: ConfigSchema_Type_as_str_name_def)
qed (simp add: ConfigSchema_Type_try_from_def)

datatype (plugins only: code size) ConfigOpType =
    ConfigOpType_ConfigOpGet
  | ConfigOpType_ConfigOpSet
  | ConfigOpType_ConfigOpDelete
  | ConfigOpType_ConfigOpList
  | ConfigOpType_ConfigOpGetSchema
  | ConfigOpType_ConfigOpValidate
  | ConfigOpType_ConfigOpReset
  | ConfigOpType_ConfigOpExport
  | ConfigOpType_ConfigOpImport
  | ConfigOpType_ConfigOpSubscribe
  | ConfigOpType_ConfigOpUnsubscribe

definition ConfigOpType_i32 :: "ConfigOpType \<Rightarrow> i32" where
  "ConfigOpType_i32 t =
     (case t of
        ConfigOpType_ConfigOpGet \<Rightarrow> 0
      | ConfigOpType_ConfigOpSet \<Rightarrow> 1
      | ConfigOpType_ConfigOpDelete \<Rightarrow> 2
      | ConfigOpType_ConfigOpList \<Rightarrow> 3
      | ConfigOpType_ConfigOpGetSchema \<Rightarrow> 4
      | ConfigOpType_ConfigOpValidate \<Rightarrow> 5
      | ConfigOpType_ConfigOpReset \<Rightarrow> 6
      | ConfigOpType_ConfigOpExport \<Rightarrow> 7
      | ConfigOpType_ConfigOpImport \<Rightarrow> 8
      | ConfigOpType_ConfigOpSubscribe \<Rightarrow> 9
      | ConfigOpType_ConfigOpUnsubscribe \<Rightarrow> 10)"

definition ConfigOpType_variants :: "ConfigOpType list" where
  "ConfigOpType_variants =
    [ConfigOpType_ConfigOpGet,
     ConfigOpType_ConfigOpSet,
     ConfigOpType_ConfigOpDelete,
     ConfigOpType_ConfigOpList,
     ConfigOpType_ConfigOpGetSchema,
     ConfigOpType_ConfigOpValidate,
     ConfigOpType_ConfigOpReset,
     ConfigOpType_ConfigOpExport,
     ConfigOpType_ConfigOpImport,
     ConfigOpType_ConfigOpSubscribe,
     ConfigOpType_ConfigOpUnsubscribe]"

definition ConfigOpType_try_from :: "i32 \<Rightarrow> ConfigOpType option" where
  "ConfigOpType_try_from v = find (\<lambda>t. ConfigOpType_i32 t = v) ConfigOpType_variants"

definition ConfigOpType_as_str_name :: "ConfigOpType \<Rightarrow> string" where
  "ConfigOpType_as_str_name t =
     (case t of
        ConfigOpType_ConfigOpGet \<Rightarrow> ''CONFIG_OP_GET''
      | ConfigOpType_ConfigOpSet \<Rightarrow> ''CONFIG_OP_SET''
      | ConfigOpType_ConfigOpDelete \<Rightarrow> ''CONFIG_OP_DELETE''
      | ConfigOpType_ConfigOpList \<Rightarrow> ''CONFIG_OP_LIST''
      | ConfigOpType_ConfigOpGetSchema \<Rightarrow> ''CONFIG_OP_GET_SCHEMA''
      | ConfigOpType_ConfigOpValidate \<Rightarrow> ''CONFIG_OP_VALIDATE''
      | ConfigOpType_ConfigOpReset \<Rightarrow> ''CONFIG_OP_RESET''
      | ConfigOpType_ConfigOpExport \<Rightarrow> ''CONFIG_OP_EXPORT''
      | ConfigOpType_ConfigOpImport \<Rightarrow> ''CONFIG_OP_IMPORT''
      | ConfigOpType_ConfigOpSubscribe \<Rightarrow> ''CONFIG_OP_SUBSCRIBE''
      | ConfigOpType_ConfigOpUnsubscribe \<Rightarrow> ''CONFIG_OP_UNSUBSCRIBE'')"

definition ConfigOpType_from_str_name :: "string \<Rightarrow> ConfigOpType option" where
  "ConfigOpType_from_str_name s = map_of
    [(''CONFIG_OP_GET'', ConfigOpType_ConfigOpGet),
     (''CONFIG_OP_SET'', ConfigOpType_ConfigOpSet),
     (''CONFIG_OP_DELETE'', ConfigOpType_ConfigOpDelete),
     (''CONFIG_OP_LIST'', ConfigOpType_ConfigOpList),
     (''CONFIG_OP_GET_SCHEMA'', ConfigOpType_ConfigOpGetSchema),
     (''CONFIG_OP_VALIDATE'', ConfigOpType_ConfigOpValidate),
     (''CONFIG_OP_RESET'', ConfigOpType_ConfigOpReset),
     (''CONFIG_OP_EXPORT'', ConfigOpType_ConfigOpExport),
     (''CONFIG_OP_IMPORT'', ConfigOpType_ConfigOpImport),
     (''CONFIG_OP_SUBSCRIBE'', ConfigOpType_ConfigOpSubscribe),
     (''CONFIG_OP_UNSUBSCRIBE'', ConfigOpType_ConfigOpUnsubscribe)] s"

interpretation ConfigOpType_enum: proto_enum ConfigOpType_variants ConfigOpType_i32 ConfigOpType_try_from ConfigOpType_as_str_name ConfigOpType_from_str_name
proof unfold_locales
  show "t \<in> set ConfigOpType_variants" for t
    by (cases t) (simp_all add: ConfigOpType_variants_def)
  show "distinct (map ConfigOpType_i32 ConfigOpType_variants)"
    by (simp add: ConfigOpType_variants_def ConfigOpType_i32_def)
  show "ConfigOpType_from_str_name (ConfigOpType_as_str_name t) = Some t" for t
    by (cases t) (simp_all add: ConfigOpType_from_str_name_def ConfigOpType_as_str_name_def)
  show "ConfigOpType_from_str_name s = Some t \<Longrightarrow> ConfigOpType_as_str_name t = s" for s t
    unfolding ConfigOpType_from_str_name_def by (drule map_of_SomeD) (auto simp: ConfigOpType_as_str_name_def)
qed (simp add: ConfigOpType_try_from_def)

datatype (plugins only: code size) ChangeSource =
    ChangeSource_SourceLocal
  | ChangeSource_SourceRemote
  | ChangeSource_SourceDefault
  | ChangeSource_SourceMigration

definition ChangeSource_i32 :: "ChangeSource \<Rightarrow> i32" where
  "ChangeSource_i32 t =
     (case t of
        ChangeSource_SourceLocal \<Rightarrow> 0
      | ChangeSource_SourceRemote \<Rightarrow> 1
      | ChangeSource_SourceDefault \<Rightarrow> 2
      | ChangeSource_SourceMigration \<Rightarrow> 3)"

definition ChangeSource_variants :: "ChangeSource list" where
  "ChangeSource_variants =
    [ChangeSource_SourceLocal,
     ChangeSource_SourceRemote,
     ChangeSource_SourceDefault,
     ChangeSource_SourceMigration]"

definition ChangeSource_try_from :: "i32 \<Rightarrow> ChangeSource option" where
  "ChangeSource_try_from v = find (\<lambda>t. ChangeSource_i32 t = v) ChangeSource_variants"

definition ChangeSource_as_str_name :: "ChangeSource \<Rightarrow> string" where
  "ChangeSource_as_str_name t =
     (case t of
        ChangeSource_SourceLocal \<Rightarrow> ''SOURCE_LOCAL''
      | ChangeSource_SourceRemote \<Rightarrow> ''SOURCE_REMOTE''
      | ChangeSource_SourceDefault \<Rightarrow> ''SOURCE_DEFAULT''
      | ChangeSource_SourceMigration \<Rightarrow> ''SOURCE_MIGRATION'')"

definition ChangeSource_from_str_name :: "string \<Rightarrow> ChangeSource option" where
  "ChangeSource_from_str_name s = map_of
    [(''SOURCE_LOCAL'', ChangeSource_SourceLocal),
     (''SOURCE_REMOTE'', ChangeSource_SourceRemote),
     (''SOURCE_DEFAULT'', ChangeSource_SourceDefault),
     (''SOURCE_MIGRATION'', ChangeSource_SourceMigration)] s"

interpretation ChangeSource_enum: proto_enum ChangeSource_variants ChangeSource_i32 ChangeSource_try_from ChangeSource_as_str_name ChangeSource_from_str_name
proof unfold_locales
  show "t \<in> set ChangeSource_variants" for t
    by (cases t) (simp_all add: ChangeSource_variants_def)
  show "distinct (map ChangeSource_i32 ChangeSource_variants)"
    by (simp add: ChangeSource_variants_def ChangeSource_i32_def)
  show "ChangeSource_from_str_name (ChangeSource_as_str_name t) = Some t" for t
    by (cases t) (simp_all add: ChangeSource_from_str_name_def ChangeSource_as_str_name_def)
  show "ChangeSource_from_str_name s = Some t \<Longrightarrow> ChangeSource_as_str_name t = s" for s t
    unfolding ChangeSource_from_str_name_def by (drule map_of_SomeD) (auto simp: ChangeSource_as_str_name_def)
qed (simp add: ChangeSource_try_from_def)

end
