(* ===== verification/Spec2Isabelle.thy ===== *)
theory Spec2Isabelle
  imports Service_Framework Session_Lifecycle Core_App Cli Database_Records Bluetooth_Transfer Bluetooth_Connections
    Bluetooth_Adapter Proto_Files Proto_Media Proto_Devices
begin

text \<open>
  bitDrive links a desktop and a phone over Bluetooth RFCOMM without a network. The Rust side,
  \<^verbatim>\<open>src/desktop\<close>, is a protocol crate (\<^verbatim>\<open>protocol\<close>), a Bluetooth crate (\<^verbatim>\<open>bluetooth\<close>), the desktop
  core (\<^verbatim>\<open>core\<close>), a daemon (\<^verbatim>\<open>daemon\<close>) and a command line (\<^verbatim>\<open>cli\<close>). This development translates them into
  HOL functions and proves what they do, errors, panics and missing behaviour included.

  \<^bold>\<open>How the parts interact.\<close> A message becomes a frame (\<^verbatim>\<open>frame.rs\<close>), whose bytes the message codec
  (\<^verbatim>\<open>codec.rs\<close>) sends and cuts out of the incoming stream; the stream is an RFCOMM stream
  (\<^verbatim>\<open>stream.rs\<close>) that a server accepted or a client connected. A session (\<^verbatim>\<open>session.rs\<close>) owns the channels
  (\<^verbatim>\<open>mux.rs\<close>), the capability negotiation (\<^verbatim>\<open>capability.rs\<close>), and the keys (\<^verbatim>\<open>auth.rs\<close>). Services are
  registered and managed twice, in the protocol crate (\<^verbatim>\<open>registry.rs\<close>, \<^verbatim>\<open>service.rs\<close>) and in the core
  (\<^verbatim>\<open>core/src/service.rs\<close>). The core joins configuration, database, events and services; the daemon
  starts it, the command line reads and changes its configuration and database.

  \<^bold>\<open>Theories.\<close>
  \<^item> \<^verbatim>\<open>Prelude\<close>: machine integers as words, little-endian bytes, the hash map as an association list,
    decimal numbers, slices. \<^verbatim>\<open>Errors\<close>: \<^verbatim>\<open>error.rs\<close> and the outcome of a function: a value, an error or
    a panic. \<^verbatim>\<open>Lib_Constants\<close>: the constants of \<^verbatim>\<open>protocol/src/lib.rs\<close>.
  \<^item> \<^verbatim>\<open>ProtoTypes\<close>: the messages and enumerations of \<^verbatim>\<open>pb/bpl.protocol.rs\<close> that the hand-written
    sources use; \<^verbatim>\<open>Proto_Link\<close>, \<^verbatim>\<open>Proto_Files\<close>, \<^verbatim>\<open>Proto_Media\<close>, \<^verbatim>\<open>Proto_Devices\<close>: all others.
  \<^item> \<^verbatim>\<open>Frame_Wire\<close> (\<^verbatim>\<open>frame.rs\<close>) and \<^verbatim>\<open>Codec_Stream\<close> (\<^verbatim>\<open>codec.rs\<close>): encoding, decoding, fragmentation and
    the receive loop. \<open>wf_frame\<close> and \<open>frame_bytes\<close> specify the wire format, which \<open>decode\<close> refines;
    the loop is shown independent of how a stream is cut, and free of panics over any sequence of calls.
  \<^item> \<^verbatim>\<open>Mux_Channels\<close>, \<^verbatim>\<open>Capability_Negotiation\<close>, \<^verbatim>\<open>Auth_Keys\<close>, \<^verbatim>\<open>Session_Lifecycle\<close>: the file each one
    names at its start. Invariants of the channel table and its windows, agreement of two
    negotiators, the handshake and the key schedule, the keepalive loop.
  \<^item> \<^verbatim>\<open>Service_Registry\<close>, \<^verbatim>\<open>Service_Framework\<close>: registration, discovery, health, routing.
  \<^item> \<^verbatim>\<open>Core_Events\<close>, \<^verbatim>\<open>Core_Config\<close>, \<^verbatim>\<open>Core_Services\<close>: event bus, configuration and service manager of the
    core. A configuration is written and read through trees of values, as serde does.
  \<^item> \<^verbatim>\<open>Core_Sql\<close>: tables with keys, defaults, checks of null and foreign keys with cascades, and the
    statements that the sources use on them. \<^verbatim>\<open>Core_Database\<close>: schema, migrations and operations of
    \<^verbatim>\<open>database.rs\<close> as such statements. \<^verbatim>\<open>Database_Laws\<close>: migrations and the invariant of every reachable
    database. \<^verbatim>\<open>Database_Stores\<close>, \<^verbatim>\<open>Database_Records\<close>: configuration entries, devices, sessions, sync jobs.
  \<^item> \<^verbatim>\<open>Core_App\<close>: \<^verbatim>\<open>core/src/lib.rs\<close> and the daemon, over a world of files and databases. \<^verbatim>\<open>Cli\<close>: every
    command with the lines it prints.
  \<^item> \<^verbatim>\<open>Bluetooth_Stream\<close>, \<^verbatim>\<open>Bluetooth_Endpoints\<close>, \<^verbatim>\<open>Bluetooth_Adapter\<close>: streams, server and client, adapter,
    platform layer and manager. \<^verbatim>\<open>Bluetooth_Transfer\<close>: what crosses a stream, up to frames from one
    side's encoder to the other side's decoder. \<^verbatim>\<open>Bluetooth_Connections\<close>: server and client.
  \<^item> This theory: keys, frames and the stream together.

  \<^bold>\<open>Interfaces.\<close> Each is a locale, interpreted on the model's own definitions:
  \<open>fixed_width\<close> (integers on the wire), \<open>keyed_store\<close> (the hash map), \<open>proto_enum\<close> (generated
  enumerations), \<open>incremental_decoder\<close> and \<open>draining_loop\<close> (frame decoder and receive loop),
  \<open>exclusive_register\<close> (both service managers, the registry, the sync jobs), \<open>upsert_store\<close> and
  \<open>upsert_delete_store\<close> (trusted devices, stored configuration, devices), \<open>byte_reader\<close> (a polled stream).

  \<^bold>\<open>Conventions.\<close> A struct is a record whose fields carry a short prefix, an enum a datatype; names that
  occur twice carry the type's name. \<open>'a result\<close> is a value, a returned error or a panic. Operations
  on \<open>&mut self\<close> return the new state beside their result. Shared objects (channels, sessions) live in
  a heap of addresses. Integers have their width; \<open>usize\<close> is \<open>nat\<close>. The flag \<open>chk\<close> says whether the
  build checks overflow: additions panic with it and wrap without it. A string is the list of its
  bytes. A floating-point number is its bits.

  \<^bold>\<open>Loops and termination.\<close> There is no fuel: loops recurse over their list, or over the input with the
  length as measure (\<open>decode_loop\<close>, \<open>from_utf8_lossy\<close>), or over the list of ticks (\<open>keepalive_loop\<close>) or
  of polls. What may wait for ever is \<open>None\<close>: the start of a service under a held lock, and
  \<open>accept\<close> on an empty queue.

  \<^bold>\<open>Parameters.\<close> Code outside the sources is an argument, with its documented behaviour as a hypothesis
  (\<open>crypto_ok\<close>, \<open>crates_ok\<close>, \<open>source_ok\<close>, \<open>sink_ok\<close>): CRC-32, HMAC, HKDF, AES-GCM and bincode; the message
  encoder of prost; the number of slots that tokio gives a broadcast channel, whose bounded buffer and lagging
  receivers follow its documentation; TOML, base64 and JSON crates; the Windows API; the parser of UUIDs; clocks, random
  bytes, the disk, and failures of database statements.

  \<^bold>\<open>Not modelled.\<close> The wire encoding that the prost runtime derives for messages; display texts of errors
  where no message contains them; log output; argument parsing of the command line; the connection
  pool beyond its failures. \<^verbatim>\<open>platform/windows.rs\<close> of the Bluetooth crate belongs to no module and is not
  compiled. The Android application is Kotlin. Concurrency is modelled where calls of one object
  overlap (requests to the core's services, connections and \<open>accept\<close>), not as threads.
\<close>

subsection \<open>From the keys to the stream\<close>

text \<open>
  C5. Protected data crosses the transport: data encrypted under the keys of a channel and sent as the
  payload and tag of a frame, whose bytes arrive in any pieces, comes out of the receiver as one
  frame, whose payload and tag decrypt under the same keys and the frame's sequence number to the
  data.
\<close>

theorem protected_transport:
  assumes "crypto_ok cr" "channel_keys_wf keys" "whole_frame (f\<lparr>fr_payload := [], fr_auth_tag := replicate 16 0\<rparr>)"
    and "length data < 2 ^ 32" "pc_rx_buffer receiver = []"
    and "ProtocolCodec_rx_sequence receiver \<le> fc_tx_sequence sender"
    and "encrypt_with_channel_keys cr data keys (fc_tx_sequence sender) = Inr (ct, tag)"
    and "encode crc sender (f\<lparr>fr_payload := ct, fr_auth_tag := tag\<rparr>) = (Inr bs, sender')"
    and "concat (d # ds) = bs"
  shows "\<exists>g receiver'. feed crc receiver (d # ds) = (Inr [g], receiver') \<and>
    decrypt_with_channel_keys cr (fr_payload g) (fr_auth_tag g) keys (frame_sequence g) = Inr data"
proof -
  let ?f = "f\<lparr>fr_payload := ct, fr_auth_tag := tag\<rparr>"
  obtain ct' tag' where enc: "encrypt_with_channel_keys cr data keys (fc_tx_sequence sender) = Inr (ct', tag')"
    "length ct' = length data" "length tag' = 16"
    "decrypt_with_channel_keys cr ct' tag' keys (fc_tx_sequence sender) = Inr data"
    using encrypt_decrypt_channel [OF assms(1,2)] by blast
  then have eq: "ct' = ct" "tag' = tag"
    using assms(7) by simp_all
  have whole: "whole_frame ?f"
    using assms(3,4) enc eq by (simp add: whole_frame_def sendable_def)
  then have bs: "bs = frame_bytes (stamp crc (fc_tx_sequence sender) ?f)"
    using assms(8) by (simp add: encode_sendable whole_frame_def)
  have "unat (fc_tx_sequence sender) + 1 \<le> 2 ^ 64"
    using unat_le_max [of "fc_tx_sequence sender"] by simp
  then obtain fc' where "decode_loop crc (pc_frame_codec receiver) bs =
      (Inr [stamp crc (fc_tx_sequence sender) ?f], fc', [])"
    using decode_loop_stream [of "[?f]" "pc_frame_codec receiver" "fc_tx_sequence sender" crc]
      whole assms(6) by (auto simp: bs ProtocolCodec_rx_sequence_def)
  then have "ProtocolCodec_decode crc receiver (concat (d # ds)) =
      (Inr [stamp crc (fc_tx_sequence sender) ?f], \<lparr>pc_frame_codec = fc', pc_rx_buffer = []\<rparr>)"
    using assms(5,9) by (simp add: ProtocolCodec_decode_def)
  then have "feed crc receiver (d # ds) =
      (Inr [stamp crc (fc_tx_sequence sender) ?f], \<lparr>pc_frame_codec = fc', pc_rx_buffer = []\<rparr>)"
    by (rule feed_success)
  then show ?thesis
    using enc(4) eq by simp
qed

theorem protected_transport_witness:
  "\<exists>ct tag bs. encrypt_with_channel_keys sample_crypto [1, 2, 3] ChannelKeys_default 0 = Inr (ct, tag) \<and>
    fst (encode sum_crc FrameCodec_default (test_frame\<lparr>fr_payload := ct, fr_auth_tag := tag\<rparr>)) = Inr bs \<and>
    (\<exists>g receiver'. feed sum_crc ProtocolCodec_new [take 20 bs, drop 20 bs] = (Inr [g], receiver') \<and>
      decrypt_with_channel_keys sample_crypto (fr_payload g) (fr_auth_tag g) ChannelKeys_default
        (frame_sequence g) = Inr [1, 2, 3])"
proof -
  have wf: "channel_keys_wf ChannelKeys_default"
    by (simp add: channel_keys_wf_def ChannelKeys_default_def)
  have zero: "fc_tx_sequence FrameCodec_default = 0" "pc_rx_buffer ProtocolCodec_new = []"
    "ProtocolCodec_rx_sequence ProtocolCodec_new = 0"
    by (simp_all add: FrameCodec_default_def FrameCodec_new_def ProtocolCodec_new_def ProtocolCodec_rx_sequence_def)
  obtain ct tag where e: "encrypt_with_channel_keys sample_crypto [1, 2, 3] ChannelKeys_default 0 = Inr (ct, tag)"
    "length ct = 3"
    using encrypt_decrypt_channel [OF sample_crypto_ok wf, of "[1, 2, 3]" 0] by auto
  let ?f = "test_frame\<lparr>fr_payload := ct, fr_auth_tag := tag\<rparr>"
  have "sendable ?f"
    using test_frame_sendable e(2) by (simp add: sendable_def)
  then obtain bs s' where bs: "encode sum_crc FrameCodec_default ?f = (Inr bs, s')"
    by (simp add: encode_sendable)
  have whole: "whole_frame (test_frame\<lparr>fr_payload := [], fr_auth_tag := replicate 16 0\<rparr>)"
    using whole_test_frame by (simp add: whole_frame_def sendable_def)
  have "\<exists>g receiver'. feed sum_crc ProtocolCodec_new (take 20 bs # [drop 20 bs]) = (Inr [g], receiver') \<and>
      decrypt_with_channel_keys sample_crypto (fr_payload g) (fr_auth_tag g) ChannelKeys_default
        (frame_sequence g) = Inr [1, 2, 3]"
    by (rule protected_transport [OF sample_crypto_ok wf whole _ zero(2) _ _ bs])
      (simp_all add: zero e)
  then show ?thesis
    using e(1) bs by auto
qed

end
